(* ===== verification/Prelude.thy ===== *)
theory Prelude
  imports Main "HOL-Library.Multiset" "HOL-Library.List_Lexorder"
begin

text \<open>
  What the components share: the result type of a call that may throw, the sequencing of two
  such calls, the transaction that rolls the state back when its body throws, and the generic
  facts about lists and finite maps that the component proofs use.  A thrown exception is a
  value \<open>Inl e\<close> and a returned value is \<open>Inr x\<close>; every \<open>throw\<close> of the program is a branch.
\<close>

named_theorems fence_simps \<open>unfolding rules of the fenced database operations\<close>

named_theorems parse_simps \<open>unfolding rules of the closed-record parsers\<close>

section \<open>Calls that may throw\<close>

type_synonym ('e, 'a) result = "'e + 'a"

definition bindE :: "('e, 'a) result \<Rightarrow> ('a \<Rightarrow> ('e, 'b) result) \<Rightarrow> ('e, 'b) result" where
  "bindE m k = (case m of Inl e \<Rightarrow> Inl e | Inr x \<Rightarrow> k x)"

lemma bindE_simps [simp]:
  "bindE (Inl e) k = Inl e"
  "bindE (Inr x) k = k x"
  by (simp_all add: bindE_def)

lemma bindE_Inr_iff:
  "bindE m k = Inr y \<longleftrightarrow> (\<exists>x. m = Inr x \<and> k x = Inr y)"
  by (cases m) auto

lemma if_Inl_Inr_iff: "(if c then Inl e else r) = Inr y \<longleftrightarrow> \<not> c \<and> r = Inr y"
  by simp

lemmas result_iffs = bindE_Inr_iff if_Inl_Inr_iff

lemma bindE_InrE [elim!]:
  assumes "bindE m k = Inr y"
  obtains x where "m = Inr x" and "k x = Inr y"
  using assms by (auto simp: bindE_Inr_iff)

lemma bindE_cong [fundef_cong]:
  "m = m' \<Longrightarrow> (\<And>x. m' = Inr x \<Longrightarrow> k x = k' x) \<Longrightarrow> bindE m k = bindE m' k'"
  by (cases m') auto

definition guardE :: "bool \<Rightarrow> 'e \<Rightarrow> ('e, unit) result" where
  "guardE ok e = (if ok then Inr () else Inl e)"

lemma guardE_simps [simp]:
  "guardE True e = Inr ()"
  "guardE False e = Inl e"
  "guardE ok e = Inr u \<longleftrightarrow> ok"
  by (simp_all add: guardE_def)

text \<open>\<open>Array.prototype.map\<close> with a callback that may throw; the first throw ends the loop.\<close>

fun mapE :: "('a \<Rightarrow> ('e, 'b) result) \<Rightarrow> 'a list \<Rightarrow> ('e, 'b list) result" where
  "mapE f [] = Inr []"
| "mapE f (x # xs) = bindE (f x) (\<lambda>y. bindE (mapE f xs) (\<lambda>ys. Inr (y # ys)))"

lemma mapE_Inr_iff:
  "mapE f xs = Inr ys \<longleftrightarrow> list_all2 (\<lambda>x y. f x = Inr y) xs ys"
  by (induction xs arbitrary: ys) (auto simp: list_all2_Cons1 bindE_Inr_iff)

lemma mapE_length: "mapE f xs = Inr ys \<Longrightarrow> length ys = length xs"
  by (auto simp: mapE_Inr_iff list_all2_lengthD)

lemma mapE_set:
  assumes "mapE f xs = Inr ys" and "y \<in> set ys"
  obtains x where "x \<in> set xs" and "f x = Inr y"
  using assms unfolding mapE_Inr_iff in_set_conv_nth list_all2_conv_all_nth
  by (metis nth_mem)

lemma mapE_all:
  assumes "\<And>x. x \<in> set xs \<Longrightarrow> f x = Inr (g x)"
  shows "mapE f xs = Inr (map g xs)"
  using assms by (induction xs) auto

lemma mapE_cong [fundef_cong]:
  "xs = ys \<Longrightarrow> (\<And>x. x \<in> set ys \<Longrightarrow> f x = g x) \<Longrightarrow> mapE f xs = mapE g ys"
proof (induction ys arbitrary: xs)
  case (Cons y ys)
  then have "mapE f ys = mapE g ys" by simp
  with Cons.prems show ?case by simp
qed simp

section \<open>Transactions\<close>

text \<open>
  The body of \<open>dataSource.transaction\<close> runs against the database and commits its writes when
  it returns; a throw rolls them back.  A body is a function that returns its outcome together
  with the database it has written so far.
\<close>

type_synonym ('s, 'e, 'a) tx = "'s \<Rightarrow> ('e, 'a) result \<times> 's"

definition transaction :: "('s, 'e, 'a) tx \<Rightarrow> ('s, 'e, 'a) tx" where
  "transaction body s =
     (case body s of (Inl e, _) \<Rightarrow> (Inl e, s) | (Inr x, s') \<Rightarrow> (Inr x, s'))"

lemma transaction_Inl: "transaction body s = (Inl e, s') \<Longrightarrow> s' = s"
  by (auto simp: transaction_def split: prod.splits sum.splits)

lemma transaction_Inr_iff:
  "transaction body s = (Inr x, s') \<longleftrightarrow> body s = (Inr x, s')"
  by (auto simp: transaction_def split: prod.splits sum.splits)

text \<open>The statements of a transaction body, one after the other.\<close>

definition returnT :: "'a \<Rightarrow> ('s, 'e, 'a) tx" where
  "returnT x s = (Inr x, s)"

definition throwT :: "'e \<Rightarrow> ('s, 'e, 'a) tx" where
  "throwT e s = (Inl e, s)"

definition liftE :: "('e, 'a) result \<Rightarrow> ('s, 'e, 'a) tx" where
  "liftE r s = (r, s)"

definition readT :: "('s \<Rightarrow> 'a) \<Rightarrow> ('s, 'e, 'a) tx" where
  "readT f s = (Inr (f s), s)"

definition writeT :: "('s \<Rightarrow> 's) \<Rightarrow> ('s, 'e, unit) tx" where
  "writeT f s = (Inr (), f s)"

definition bindT :: "('s, 'e, 'a) tx \<Rightarrow> ('a \<Rightarrow> ('s, 'e, 'b) tx) \<Rightarrow> ('s, 'e, 'b) tx" where
  "bindT m k s = (case m s of (Inl e, s') \<Rightarrow> (Inl e, s') | (Inr x, s') \<Rightarrow> k x s')"

named_theorems tx_simps \<open>running a transaction body\<close>

lemma tx_steps [tx_simps]:
  "returnT x1 s1 = (Inr x1, s1)" "throwT e s2 = (Inl e, s2)" "liftE r s3 = (r, s3)"
  "readT f s4 = (Inr (f s4), s4)" "writeT g s5 = (Inr (), g s5)"
  by (simp_all add: returnT_def throwT_def liftE_def readT_def writeT_def)

lemma bindT_cases [tx_simps]:
  "m s = (Inl e, s') \<Longrightarrow> bindT m k s = (Inl e, s')"
  "m s = (Inr x, s') \<Longrightarrow> bindT m k s = k x s'"
  by (simp_all add: bindT_def)

lemma bindT_Inr_iff:
  "bindT m k s = (Inr y, s'') \<longleftrightarrow> (\<exists>x s'. m s = (Inr x, s') \<and> k x s' = (Inr y, s''))"
  by (auto simp: bindT_def split: prod.splits sum.splits)

lemma bindT_steps [simp]:
  "bindT (returnT x) k1 s1 = k1 x s1" "bindT (throwT e) k2 s2 = (Inl e, s2)"
  "bindT (readT f) k3 s3 = k3 (f s3) s3" "bindT (writeT g) k4 s4 = k4 () (g s4)"
  "bindT (liftE (Inl e5)) k5 s5 = (Inl e5, s5)" "bindT (liftE (Inr x6)) k6 s6 = k6 x6 s6"
  by (simp_all add: bindT_def tx_steps)

lemma bindT_liftE_Inr: "bindT (liftE r) k s = (Inr y, s') \<longleftrightarrow> (\<exists>x. r = Inr x \<and> k x s = (Inr y, s'))"
  by (cases r) auto

lemma bindT_InrE:
  assumes "bindT m k s = (Inr y, s'')"
  obtains x s' where "m s = (Inr x, s')" and "k x s' = (Inr y, s'')"
  using assms by (auto simp: bindT_Inr_iff)

lemma transaction_cases:
  "body s = (Inl e, s') \<Longrightarrow> transaction body s = (Inl e, s)"
  "body s = (Inr x, s') \<Longrightarrow> transaction body s = (Inr x, s')"
  by (simp_all add: transaction_def)

section \<open>Lists and finite maps\<close>

lemma distinct_map_fst_map_of_in:
  "distinct (map fst kvs) \<Longrightarrow> (k, v) \<in> set kvs \<Longrightarrow> map_of kvs k = Some v"
  by simp

lemma card_set_distinct_iff: "length (remdups xs) = length xs \<longleftrightarrow> distinct xs"
  by (metis distinct_card card_distinct length_remdups_card_conv)

lemma distinct_map_sort_key [simp]: "distinct (map f (sort_key g xs)) \<longleftrightarrow> distinct (map f xs)"
  by (metis mset_eq_imp_distinct_iff mset_map mset_sort)

lemma sorted_key_unique:
  assumes "mset xs = mset ys" and "distinct (map f xs)"
    and "sorted (map f xs)" and "sorted (map f ys)"
  shows "xs = ys"
proof -
  have "distinct (map f ys)"
    using assms(1,2) by (metis mset_map mset_eq_imp_distinct_iff)
  moreover have "set xs = set ys"
    using assms(1) by (rule mset_eq_setD)
  ultimately show ?thesis
    using assms(2-4) by (metis map_sorted_distinct_set_unique inj_on_subset distinct_map sup.idem)
qed

lemma sort_key_mset_cong:
  assumes "mset xs = mset ys" and "distinct (map f xs)"
  shows "sort_key f xs = sort_key f ys"
  using assms by (intro sorted_key_unique [where f = f]) simp_all

end
