(* ===== verification/Unicode.thy ===== *)
theory Unicode
  imports JsString
begin

text \<open>
  Well-formedness of UTF-16 (\<open>citation/atomic-grounding/well-formed-unicode.ts\<close>), the UTF-8
  encoder behind \<open>Buffer.from(s, 'utf8')\<close> and \<open>Buffer.byteLength\<close>, and the decoder behind
  \<open>new TextDecoder('utf-8', { fatal: true, ignoreBOM: true })\<close>.  The two are mutually
  inverse between well-formed strings and the byte sequences the decoder accepts.
\<close>

abbreviation high_surrogate :: "nat \<Rightarrow> bool" where
  "high_surrogate c \<equiv> 0xD800 \<le> c \<and> c \<le> 0xDBFF"

abbreviation low_surrogate :: "nat \<Rightarrow> bool" where
  "low_surrogate c \<equiv> 0xDC00 \<le> c \<and> c \<le> 0xDFFF"

fun isWellFormedUnicodeScalarV1 :: "jstr \<Rightarrow> bool" where
  "isWellFormedUnicodeScalarV1 [] = True"
| "isWellFormedUnicodeScalarV1 (c # s) =
     (if 0xD800 \<le> c \<and> c \<le> 0xDBFF then
        (case s of
           [] \<Rightarrow> False
         | d # s' \<Rightarrow>
             if d < 0xDC00 \<or> d > 0xDFFF then False else isWellFormedUnicodeScalarV1 s')
      else if 0xDC00 \<le> c \<and> c \<le> 0xDFFF then False
      else isWellFormedUnicodeScalarV1 s)"

text \<open>Every element of a JavaScript string is a 16-bit code unit.\<close>

definition utf16 :: "jstr \<Rightarrow> bool" where
  "utf16 s \<longleftrightarrow> (\<forall>c \<in> set s. c < 0x10000)"

lemma utf16_simps [simp]:
  "utf16 []"
  "utf16 (c # s) \<longleftrightarrow> c < 0x10000 \<and> utf16 s"
  "utf16 (s @ t) \<longleftrightarrow> utf16 s \<and> utf16 t"
  by (auto simp: utf16_def)

lemma wf_plain:
  "\<not> high_surrogate c \<Longrightarrow> \<not> low_surrogate c \<Longrightarrow>
     isWellFormedUnicodeScalarV1 (c # s) = isWellFormedUnicodeScalarV1 s"
  by auto

lemma wf_pair:
  "high_surrogate c \<Longrightarrow> low_surrogate d \<Longrightarrow>
     isWellFormedUnicodeScalarV1 (c # d # s) = isWellFormedUnicodeScalarV1 s"
  by auto

text \<open>Abstract view: a scalar value and its UTF-16 form.\<close>

definition scalar :: "nat \<Rightarrow> bool" where
  "scalar cp \<longleftrightarrow> cp < 0xD800 \<or> (0xE000 \<le> cp \<and> cp \<le> 0x10FFFF)"

definition utf16_units :: "nat \<Rightarrow> jstr" where
  "utf16_units cp =
     (if cp < 0x10000 then [cp]
      else [0xD800 + (cp - 0x10000) div 0x400, 0xDC00 + (cp - 0x10000) mod 0x400])"

definition pair_scalar :: "nat \<Rightarrow> nat \<Rightarrow> nat" where
  "pair_scalar c d = 0x10000 + (c - 0xD800) * 0x400 + (d - 0xDC00)"

lemma pair_scalar:
  assumes "high_surrogate c" and "low_surrogate d"
  shows "scalar (pair_scalar c d)" and "utf16_units (pair_scalar c d) = [c, d]"
proof -
  define a where "a = c - 0xD800"
  define b where "b = d - 0xDC00"
  have ab: "c = 0xD800 + a" "a < 0x400" "d = 0xDC00 + b" "b < 0x400"
    using assms by (auto simp: a_def b_def)
  then have ps: "pair_scalar c d = 0x10000 + (a * 0x400 + b)"
    by (simp add: pair_scalar_def)
  show "scalar (pair_scalar c d)"
    unfolding ps scalar_def using ab by simp
  have "(a * 0x400 + b) div 0x400 = a" "(a * 0x400 + b) mod 0x400 = b"
    using ab(4) by simp_all
  then show "utf16_units (pair_scalar c d) = [c, d]"
    unfolding ps utf16_units_def by (simp add: ab(1,3))
qed

lemma wf_utf16_units:
  assumes "scalar cp"
  shows "isWellFormedUnicodeScalarV1 (utf16_units cp @ s) = isWellFormedUnicodeScalarV1 s"
proof (cases "cp < 0x10000")
  case True
  then show ?thesis using assms by (auto simp: utf16_units_def scalar_def)
next
  case False
  then have "(cp - 0x10000) div 0x400 < 0x400" "(cp - 0x10000) mod 0x400 < 0x400"
    using assms by (auto simp: scalar_def)
  then show ?thesis using False by (auto simp: utf16_units_def)
qed

lemma wf_scalars:
  "(\<forall>cp \<in> set cps. scalar cp) \<Longrightarrow> isWellFormedUnicodeScalarV1 (concat (map utf16_units cps))"
  by (induction cps) (simp_all add: wf_utf16_units)

lemma wf_obtains_scalars:
  "isWellFormedUnicodeScalarV1 s \<Longrightarrow> utf16 s \<Longrightarrow>
     \<exists>cps. (\<forall>cp \<in> set cps. scalar cp) \<and> s = concat (map utf16_units cps)"
proof (induction s rule: isWellFormedUnicodeScalarV1.induct)
  case 1
  show ?case by (rule exI [of _ "[]"]) simp
next
  case (2 c s)
  show ?case
  proof (cases "high_surrogate c")
    case True
    with "2.prems" obtain d s' where s: "s = d # s'" and d: "low_surrogate d"
      and wf: "isWellFormedUnicodeScalarV1 s'" and u: "utf16 s'"
      by (auto split: list.splits if_splits)
    have "\<exists>cps. (\<forall>cp \<in> set cps. scalar cp) \<and> s' = concat (map utf16_units cps)"
      by (rule "2.IH"(1)) (use True s d wf u in auto)
    then obtain cps where "\<forall>cp \<in> set cps. scalar cp" "s' = concat (map utf16_units cps)"
      by blast
    with pair_scalar [OF True d] s show ?thesis
      by (intro exI [of _ "pair_scalar c d # cps"]) simp
  next
    case False
    with "2.prems" have nl: "\<not> low_surrogate c" and wf: "isWellFormedUnicodeScalarV1 s"
      and u: "utf16 s" "c < 0x10000"
      by (auto split: if_splits)
    then obtain cps where "\<forall>cp \<in> set cps. scalar cp" "s = concat (map utf16_units cps)"
      using "2.IH"(2) False by blast
    moreover have "scalar c" "utf16_units c = [c]"
      using False nl u(2) by (auto simp: scalar_def utf16_units_def)
    ultimately show ?thesis
      by (intro exI [of _ "c # cps"]) simp
  qed
qed

section \<open>UTF-8\<close>

text \<open>The bytes of one scalar value; a lone surrogate is encoded as U+FFFD.\<close>

definition utf8_scalar :: "nat \<Rightarrow> nat list" where
  "utf8_scalar cp =
     (if cp < 0x80 then [cp]
      else if cp < 0x800 then [0xC0 + cp div 0x40, 0x80 + cp mod 0x40]
      else if cp < 0x10000 then
        [0xE0 + cp div 0x1000, 0x80 + cp div 0x40 mod 0x40, 0x80 + cp mod 0x40]
      else
        [0xF0 + cp div 0x40000, 0x80 + cp div 0x1000 mod 0x40, 0x80 + cp div 0x40 mod 0x40,
         0x80 + cp mod 0x40])"

fun utf8_encode :: "jstr \<Rightarrow> nat list" where
  "utf8_encode [] = []"
| "utf8_encode (c # s) =
     (if high_surrogate c then
        (case s of
           [] \<Rightarrow> [0xEF, 0xBF, 0xBD]
         | d # s' \<Rightarrow>
             if low_surrogate d then utf8_scalar (pair_scalar c d) @ utf8_encode s'
             else [0xEF, 0xBF, 0xBD] @ utf8_encode s)
      else if low_surrogate c then [0xEF, 0xBF, 0xBD] @ utf8_encode s
      else utf8_scalar c @ utf8_encode s)"

text \<open>\<open>Buffer.byteLength(s, 'utf8')\<close>.\<close>

definition utf8_length :: "jstr \<Rightarrow> nat" where
  "utf8_length s = length (utf8_encode s)"

abbreviation utf8_cont :: "nat \<Rightarrow> bool" where
  "utf8_cont b \<equiv> 0x80 \<le> b \<and> b \<le> 0xBF"

text \<open>The fatal decoder: \<open>None\<close> is the \<open>TypeError\<close> it throws.\<close>

fun utf8_decode :: "nat list \<Rightarrow> jstr option" where
  "utf8_decode [] = Some []"
| "utf8_decode (b # bs) =
     (if b < 0x80 then map_option (\<lambda>t. b # t) (utf8_decode bs)
      else if 0xC2 \<le> b \<and> b \<le> 0xDF then
        (case bs of
           b1 # r \<Rightarrow>
             if utf8_cont b1 then
               map_option (\<lambda>t. utf16_units ((b - 0xC0) * 0x40 + (b1 - 0x80)) @ t) (utf8_decode r)
             else None
         | _ \<Rightarrow> None)
      else if 0xE0 \<le> b \<and> b \<le> 0xEF then
        (case bs of
           b1 # b2 # r \<Rightarrow>
             if utf8_cont b1 \<and> utf8_cont b2 \<and> (b = 0xE0 \<longrightarrow> 0xA0 \<le> b1) \<and> (b = 0xED \<longrightarrow> b1 \<le> 0x9F)
             then
               map_option
                 (\<lambda>t. utf16_units ((b - 0xE0) * 0x1000 + (b1 - 0x80) * 0x40 + (b2 - 0x80)) @ t)
                 (utf8_decode r)
             else None
         | _ \<Rightarrow> None)
      else if 0xF0 \<le> b \<and> b \<le> 0xF4 then
        (case bs of
           b1 # b2 # b3 # r \<Rightarrow>
             if utf8_cont b1 \<and> utf8_cont b2 \<and> utf8_cont b3 \<and>
                (b = 0xF0 \<longrightarrow> 0x90 \<le> b1) \<and> (b = 0xF4 \<longrightarrow> b1 \<le> 0x8F)
             then
               map_option
                 (\<lambda>t. utf16_units
                        ((b - 0xF0) * 0x40000 + (b1 - 0x80) * 0x1000 + (b2 - 0x80) * 0x40 + (b3 - 0x80)) @ t)
                 (utf8_decode r)
             else None
         | _ \<Rightarrow> None)
      else None)"

text \<open>Each scalar value is read back from its bytes.\<close>

lemma three_digits:
  fixes n :: nat
  obtains a b c where "n = (a * 0x40 + b) * 0x40 + c" "b < 0x40" "c < 0x40"
    "n div 0x1000 = a" "n div 0x40 mod 0x40 = b" "n mod 0x40 = c"
proof
  show "n = (n div 0x1000 * 0x40 + n div 0x40 mod 0x40) * 0x40 + n mod 0x40"
    using div_mult2_eq [of n 64 64] by simp
qed simp_all

lemma digit64:
  fixes q r :: nat
  assumes "r < 0x40"
  shows "(q * 0x40 + r) div 0x40 = q" "(q * 0x40 + r) mod 0x40 = r"
  using assms by simp_all

lemma utf8_decode_scalar:
  assumes "scalar cp"
  shows "utf8_decode (utf8_scalar cp @ r) = map_option (\<lambda>t. utf16_units cp @ t) (utf8_decode r)"
proof -
  consider "cp < 0x80" | "0x80 \<le> cp" "cp < 0x800" | "0x800 \<le> cp" "cp < 0x10000"
    | "0x10000 \<le> cp" "cp \<le> 0x10FFFF"
    using assms unfolding scalar_def by linarith
  then show ?thesis
  proof cases
    case 1
    then show ?thesis by (simp add: utf8_scalar_def utf16_units_def)
  next
    case 2
    then have "2 \<le> cp div 0x40" "cp div 0x40 \<le> 0x1F" "cp mod 0x40 \<le> 0x3F" by simp_all
    with 2 show ?thesis by (simp add: utf8_scalar_def)
  next
    case 3
    obtain a b c where abc: "cp = (a * 0x40 + b) * 0x40 + c" "b < 0x40" "c < 0x40"
      "cp div 0x1000 = a" "cp div 0x40 mod 0x40 = b" "cp mod 0x40 = c"
      by (rule three_digits)
    have a: "a \<le> 0xF" "a = 0 \<Longrightarrow> 0x20 \<le> b" "a = 0xD \<Longrightarrow> b \<le> 0x1F"
      using 3 assms abc(1-3) by (auto simp: scalar_def)
    have "utf8_scalar cp = [0xE0 + a, 0x80 + b, 0x80 + c]"
      using 3 abc(4-6) by (simp add: utf8_scalar_def)
    moreover have "cp = a * 0x1000 + b * 0x40 + c"
      using abc(1) by simp
    ultimately show ?thesis
      using a abc(2,3) by simp
  next
    case 4
    obtain e b c where abc: "cp = (e * 0x40 + b) * 0x40 + c" "b < 0x40" "c < 0x40"
      "cp div 0x1000 = e" "cp div 0x40 mod 0x40 = b" "cp mod 0x40 = c"
      by (rule three_digits)
    define a where "a = e div 0x40"
    define f where "f = e mod 0x40"
    have ef: "e = a * 0x40 + f" "f < 0x40"
      by (simp_all add: a_def f_def)
    have a: "a \<le> 4" "a = 0 \<Longrightarrow> 0x10 \<le> f" "a = 4 \<Longrightarrow> f \<le> 0xF"
      using 4 abc(1-3) ef by auto
    have "cp div 0x40000 = a"
      using div_mult2_eq [of cp 4096 64] abc(4) by (simp add: a_def)
    then have "utf8_scalar cp = [0xF0 + a, 0x80 + f, 0x80 + b, 0x80 + c]"
      using 4 abc(4-6) by (simp add: utf8_scalar_def f_def)
    moreover have "cp = a * 0x40000 + f * 0x1000 + b * 0x40 + c"
      using abc(1) ef(1) by simp
    ultimately show ?thesis
      using a abc(2,3) ef(2) by simp
  qed
qed

lemma utf8_encode_scalar:
  assumes "scalar cp"
  shows "utf8_encode (utf16_units cp @ s) = utf8_scalar cp @ utf8_encode s"
proof (cases "cp < 0x10000")
  case True
  then show ?thesis using assms by (auto simp: utf16_units_def scalar_def)
next
  case False
  define a where "a = (cp - 0x10000) div 0x400"
  define b where "b = (cp - 0x10000) mod 0x400"
  have ab: "a < 0x400" "b < 0x400" "cp = 0x10000 + (a * 0x400 + b)"
    using assms False by (auto simp: a_def b_def scalar_def)
  have units: "utf16_units cp = [0xD800 + a, 0xDC00 + b]"
    using False by (simp add: utf16_units_def a_def b_def)
  have "pair_scalar (0xD800 + a) (0xDC00 + b) = cp"
    using ab(3) by (simp add: pair_scalar_def)
  then show ?thesis
    using ab(1,2) by (simp add: units)
qed

lemma utf8_decode_scalars:
  "(\<forall>cp \<in> set cps. scalar cp) \<Longrightarrow>
     utf8_decode (utf8_encode (concat (map utf16_units cps))) = Some (concat (map utf16_units cps))"
  by (induction cps) (simp_all add: utf8_encode_scalar utf8_decode_scalar)

lemma utf8_roundtrip:
  assumes "isWellFormedUnicodeScalarV1 s" and "utf16 s"
  shows "utf8_decode (utf8_encode s) = Some s"
  using wf_obtains_scalars [OF assms] utf8_decode_scalars by auto

text \<open>Conversely, the decoder accepts only the encodings of scalar values.\<close>

lemma utf8_decode_step:
  assumes "utf8_decode (b # bs) = Some t"
  obtains cp r u where "scalar cp" "b # bs = utf8_scalar cp @ r" "utf8_decode r = Some u"
    "t = utf16_units cp @ u"
proof -
  consider "b < 0x80" | "0xC2 \<le> b" "b \<le> 0xDF" | "0xE0 \<le> b" "b \<le> 0xEF" | "0xF0 \<le> b" "b \<le> 0xF4"
    using assms by (auto split: if_splits)
  then show ?thesis
  proof cases
    case 1
    with assms obtain u where "utf8_decode bs = Some u" "t = b # u" by auto
    with 1 show ?thesis
      by (intro that [of b bs u]) (auto simp: scalar_def utf8_scalar_def utf16_units_def)
  next
    case 2
    with assms obtain b1 r u where bs: "bs = b1 # r" "utf8_cont b1"
      and u: "utf8_decode r = Some u" "t = utf16_units ((b - 0xC0) * 0x40 + (b1 - 0x80)) @ u"
      by (auto split: list.splits if_splits)
    define x where "x = b - 0xC0"
    define y where "y = b1 - 0x80"
    have xy: "b = 0xC0 + x" "b1 = 0x80 + y" "2 \<le> x" "x \<le> 0x1F" "y < 0x40"
      using 2 bs(2) by (auto simp: x_def y_def)
    let ?cp = "x * 0x40 + y"
    have d: "?cp div 0x40 = x" "?cp mod 0x40 = y"
      using xy(5) by simp_all
    have s: "scalar ?cp" "0x80 \<le> ?cp" "?cp < 0x800"
      using xy by (auto simp: scalar_def)
    have "utf8_scalar ?cp = [b, b1]"
      using s(2,3) d xy(1,2) by (simp add: utf8_scalar_def)
    moreover have "t = utf16_units ?cp @ u"
      using u(2) unfolding xy(1,2) by simp
    ultimately show ?thesis
      using s(1) bs(1) u(1) by (intro that [of ?cp r u]) auto
  next
    case 3
    with assms obtain b1 b2 r u where bs: "bs = b1 # b2 # r" "utf8_cont b1" "utf8_cont b2"
      and lim: "b = 0xE0 \<longrightarrow> 0xA0 \<le> b1" "b = 0xED \<longrightarrow> b1 \<le> 0x9F"
      and u: "utf8_decode r = Some u"
        "t = utf16_units ((b - 0xE0) * 0x1000 + (b1 - 0x80) * 0x40 + (b2 - 0x80)) @ u"
      by (auto split: list.splits if_splits)
    define x where "x = b - 0xE0"
    define y where "y = b1 - 0x80"
    define z where "z = b2 - 0x80"
    have xyz: "b = 0xE0 + x" "b1 = 0x80 + y" "b2 = 0x80 + z" "x \<le> 0xF" "y < 0x40" "z < 0x40"
      using 3 bs by (auto simp: x_def y_def z_def)
    let ?cp = "(x * 0x40 + y) * 0x40 + z"
    have d: "?cp div 0x40 = x * 0x40 + y" "?cp mod 0x40 = z" "(x * 0x40 + y) mod 0x40 = y"
      by (rule digit64, rule xyz)+
    have e: "?cp div 0x1000 = x"
      using div_mult2_eq [of ?cp 64 64] xyz(5) d(1) by simp
    have lims: "x = 0 \<Longrightarrow> 0x20 \<le> y" "x = 0xD \<Longrightarrow> y \<le> 0x1F"
      using lim xyz(1,2) by simp_all
    have "?cp < 0xD800 \<or> 0xE000 \<le> ?cp"
    proof (cases "x \<le> 0xD")
      case True
      then have "x \<le> 0xC \<or> (x = 0xD \<and> y \<le> 0x1F)" using lims(2) by linarith
      then show ?thesis using xyz(5,6) by auto
    next
      case False
      then show ?thesis by simp
    qed
    moreover have "?cp < 0x10000" "0x800 \<le> ?cp"
      using xyz(4-6) lims(1) by (cases "x = 0"; simp)+
    ultimately have s: "scalar ?cp" "0x800 \<le> ?cp" "?cp < 0x10000"
      by (simp_all add: scalar_def)
    have "utf8_scalar ?cp = [b, b1, b2]"
      using s(2,3) d e xyz(1-3) by (simp add: utf8_scalar_def)
    moreover have "t = utf16_units ?cp @ u"
      using u(2) unfolding xyz(1-3) by (simp add: algebra_simps)
    ultimately show ?thesis
      using s(1) bs(1) u(1) by (intro that [of ?cp r u]) auto
  next
    case 4
    with assms obtain b1 b2 b3 r u where bs: "bs = b1 # b2 # b3 # r"
        "utf8_cont b1" "utf8_cont b2" "utf8_cont b3"
      and lim: "b = 0xF0 \<longrightarrow> 0x90 \<le> b1" "b = 0xF4 \<longrightarrow> b1 \<le> 0x8F"
      and u: "utf8_decode r = Some u"
        "t = utf16_units ((b - 0xF0) * 0x40000 + (b1 - 0x80) * 0x1000 + (b2 - 0x80) * 0x40
               + (b3 - 0x80)) @ u"
      by (auto split: list.splits if_splits)
    define w where "w = b - 0xF0"
    define x where "x = b1 - 0x80"
    define y where "y = b2 - 0x80"
    define z where "z = b3 - 0x80"
    have wx: "b = 0xF0 + w" "b1 = 0x80 + x" "b2 = 0x80 + y" "b3 = 0x80 + z"
      "w \<le> 4" "x < 0x40" "y < 0x40" "z < 0x40"
      using 4 bs by (auto simp: w_def x_def y_def z_def)
    let ?cp = "((w * 0x40 + x) * 0x40 + y) * 0x40 + z"
    have d: "?cp div 0x40 = (w * 0x40 + x) * 0x40 + y" "?cp mod 0x40 = z"
      "((w * 0x40 + x) * 0x40 + y) mod 0x40 = y" "((w * 0x40 + x) * 0x40 + y) div 0x40 = w * 0x40 + x"
      "(w * 0x40 + x) mod 0x40 = x" "(w * 0x40 + x) div 0x40 = w"
      by (rule digit64, rule wx)+
    have e: "?cp div 0x1000 = w * 0x40 + x"
      using div_mult2_eq [of ?cp 64 64] d(1,4) by simp
    have f: "?cp div 0x40000 = w"
      using div_mult2_eq [of ?cp 4096 64] e d(6) by simp
    have s: "scalar ?cp" "0x10000 \<le> ?cp"
      using lim wx by (auto simp: scalar_def)
    have "utf8_scalar ?cp = [b, b1, b2, b3]"
      using s(2) d(1-3,5) e f wx(1-4) by (simp add: utf8_scalar_def)
    moreover have "t = utf16_units ?cp @ u"
      using u(2) unfolding wx(1-4) by (simp add: algebra_simps)
    ultimately show ?thesis
      using s(1) bs(1) u(1) by (intro that [of ?cp r u]) auto
  qed
qed

lemma utf8_scalar_nonempty: "utf8_scalar cp \<noteq> []"
  by (simp add: utf8_scalar_def)

lemma utf8_decode_sound:
  "utf8_decode bs = Some t \<Longrightarrow> utf8_encode t = bs \<and> isWellFormedUnicodeScalarV1 t"
proof (induction "length bs" arbitrary: bs t rule: less_induct)
  case less
  show ?case
  proof (cases bs)
    case Nil
    with less.prems show ?thesis by simp
  next
    case (Cons b bs')
    with less.prems obtain cp r u where "scalar cp" and bs: "bs = utf8_scalar cp @ r"
      and "utf8_decode r = Some u" and "t = utf16_units cp @ u"
      by (metis utf8_decode_step)
    moreover from this have "utf8_encode u = r \<and> isWellFormedUnicodeScalarV1 u"
      using utf8_scalar_nonempty [of cp] by (intro less.hyps) auto
    ultimately show ?thesis
      by (simp add: utf8_encode_scalar wf_utf16_units)
  qed
qed

lemma utf8_encode_inject:
  assumes "isWellFormedUnicodeScalarV1 s" "utf16 s" "isWellFormedUnicodeScalarV1 t" "utf16 t"
    and "utf8_encode s = utf8_encode t"
  shows "s = t"
  using assms utf8_roundtrip by (metis option.inject)

section \<open>Lengths\<close>

lemma utf8_scalar_length_bmp: "1 \<le> length (utf8_scalar c)" "c < 0x10000 \<Longrightarrow> length (utf8_scalar c) \<le> 3"
  by (auto simp: utf8_scalar_def)

lemma utf8_length_bounds:
  assumes "utf16 s"
  shows "length s \<le> utf8_length s \<and> utf8_length s \<le> 3 * length s"
  using assms unfolding utf8_length_def
proof (induction s rule: utf8_encode.induct)
  case (2 c s)
  have pair: "length (utf8_scalar (pair_scalar c d)) = 4" for d
    by (simp add: utf8_scalar_def pair_scalar_def)
  show ?case
    using 2 utf8_scalar_length_bmp [of c]
    by (cases s) (auto simp: pair simp del: utf8_encode.simps(2) simp add: utf8_encode.simps(2) [of c])
qed simp

end
