(* ===== verification/JsValue.thy ===== *)
theory JsValue
  imports Unicode "HOL-Library.Monad_Syntax" Complex_Main
begin

text \<open>
  JavaScript values as the program meets them after \<open>JSON.parse\<close>, from a JSON column or from
  an object literal, and the parts of the platform the program relies on without containing
  them: Unicode normalization, SHA-256, \<open>JSON.parse\<close> with the message of its \<open>SyntaxError\<close>, the
  printing of numbers that are not safe integers and the conversion \<open>Number(v)\<close> of values that
  are not numbers.  They are the fields of \<open>platform\<close>, an argument of every definition that
  uses them.

  A number is an integral double, another finite double, or one of the four special values.
  \<open>JOther\<close> stands for what JSON data never holds (functions, symbols, big integers, class
  instances, accessor slots).  An object lists its own enumerable properties in enumeration
  order.  Cyclic values are not represented.
\<close>

datatype jsnum = NInt int | NFrac rat | NNegZero | NNaN | NPosInf | NNegInf

datatype jsval =
    JUndef
  | JNull
  | JBool bool
  | JNum jsnum
  | JStr jstr
  | JArr "jsval list"
  | JObj "(jstr \<times> jsval) list"
  | JOther

lemma jsval_induct [case_names JUndef JNull JBool JNum JStr JArr JObj JOther]:
  assumes "P JUndef" "P JNull" "\<And>b. P (JBool b)" "\<And>n. P (JNum n)" "\<And>s. P (JStr s)"
    and "\<And>vs. (\<And>v. v \<in> set vs \<Longrightarrow> P v) \<Longrightarrow> P (JArr vs)"
    and "\<And>kvs. (\<And>kv. kv \<in> set kvs \<Longrightarrow> P (snd kv)) \<Longrightarrow> P (JObj kvs)"
    and "P JOther"
  shows "P v"
  by (induction v) (use assms in \<open>auto intro: snds.intros\<close>)

record platform =
  nfc :: "jstr \<Rightarrow> jstr"
  sha256_hex :: "nat list \<Rightarrow> jstr"
  json_parse :: "jstr \<Rightarrow> jsval option"
  number_text :: "jsnum \<Rightarrow> jstr"
  to_number :: "jsval \<Rightarrow> jsnum"
  syntax_message :: "jstr \<Rightarrow> jstr"

text \<open>A platform for concrete evaluations: plain ASCII, and a stand-in for the digest with 64 digits.\<close>

definition toy_digest :: "nat list \<Rightarrow> jstr" where
  "toy_digest bytes = map (\<lambda>i. 48 + foldl (\<lambda>h b. (31 * h + b) mod 10) i bytes mod 10) [0..<64]"

definition plain_platform :: platform where
  "plain_platform =
     \<lparr>nfc = (\<lambda>s. s), sha256_hex = toy_digest, json_parse = (\<lambda>_. None), number_text = (\<lambda>_. []),
      to_number = (\<lambda>_. NNaN), syntax_message = (\<lambda>_. [])\<rparr>"

lemma plain_platform_simps [simp]:
  "nfc plain_platform = (\<lambda>s. s)"
  "sha256_hex plain_platform = toy_digest"
  by (simp_all add: plain_platform_def)

section \<open>Numbers\<close>

definition MAX_SAFE_INTEGER :: int where
  "MAX_SAFE_INTEGER = 9007199254740991"

fun is_safe_integer :: "jsval \<Rightarrow> bool" where
  "is_safe_integer (JNum (NInt i)) = (\<bar>i\<bar> \<le> MAX_SAFE_INTEGER)"
| "is_safe_integer (JNum NNegZero) = True"
| "is_safe_integer _ = False"

fun is_finite_number :: "jsnum \<Rightarrow> bool" where
  "is_finite_number NNaN = False"
| "is_finite_number NPosInf = False"
| "is_finite_number NNegInf = False"
| "is_finite_number _ = True"

text \<open>The value of a number that passed \<open>Number.isSafeInteger\<close>.\<close>

fun int_of_number :: "jsval \<Rightarrow> int" where
  "int_of_number (JNum (NInt i)) = i"
| "int_of_number _ = 0"

section \<open>Property access\<close>

text \<open>\<open>value[key]\<close> on an own property; an absent property reads as \<open>undefined\<close>.\<close>

definition get_prop :: "(jstr \<times> jsval) list \<Rightarrow> jstr \<Rightarrow> jsval" where
  "get_prop kvs k = (case map_of kvs k of None \<Rightarrow> JUndef | Some v \<Rightarrow> v)"

fun is_object :: "jsval \<Rightarrow> bool" where
  "is_object (JObj _) = True"
| "is_object _ = False"

fun is_string :: "jsval \<Rightarrow> bool" where
  "is_string (JStr _) = True"
| "is_string _ = False"

fun as_string :: "jsval \<Rightarrow> jstr option" where
  "as_string (JStr s) = Some s"
| "as_string _ = None"

lemma as_string_iff [simp]: "as_string v = Some s \<longleftrightarrow> v = JStr s"
  by (cases v) auto

lemma is_string_iff: "is_string v \<longleftrightarrow> (\<exists>s. v = JStr s)"
  by (cases v) auto

text \<open>\<open>{ ...base, k: v }\<close>: an existing key keeps its place, a new one goes last.\<close>

fun set_prop :: "jstr \<Rightarrow> jsval \<Rightarrow> (jstr \<times> jsval) list \<Rightarrow> (jstr \<times> jsval) list" where
  "set_prop k v [] = [(k, v)]"
| "set_prop k v ((k', v') # kvs) = (if k' = k then (k, v) # kvs else (k', v') # set_prop k v kvs)"

lemma get_set_prop [simp]:
  "get_prop (set_prop k v kvs) k' = (if k' = k then v else get_prop kvs k')"
  by (induction kvs) (auto simp: get_prop_def)

lemma fst_set_prop: "set (map fst (set_prop k v kvs)) = insert k (set (map fst kvs))"
proof (induction kvs)
  case (Cons kv kvs)
  then show ?case by (cases kv) (auto simp del: set_map)
qed simp

lemma distinct_set_prop: "distinct (map fst kvs) \<Longrightarrow> distinct (map fst (set_prop k v kvs))"
proof (induction kvs)
  case (Cons kv kvs)
  then show ?case using fst_set_prop [of k v kvs] by (cases kv) auto
qed simp

section \<open>JSON text of a string\<close>

definition hex_digit :: "nat \<Rightarrow> nat" where
  "hex_digit d = (if d < 10 then 48 + d else 87 + d)"

definition unicode_escape :: "nat \<Rightarrow> jstr" where
  "unicode_escape c =
     [92, 117, hex_digit (c div 0x1000), hex_digit (c div 0x100 mod 0x10),
      hex_digit (c div 0x10 mod 0x10), hex_digit (c mod 0x10)]"

definition short_escape :: "nat \<Rightarrow> nat option" where
  "short_escape c =
     (if c = 8 then Some 98 else if c = 9 then Some 116 else if c = 10 then Some 110
      else if c = 12 then Some 102 else if c = 13 then Some 114
      else if c = 34 then Some 34 else if c = 92 then Some 92 else None)"

definition escape_unit :: "nat \<Rightarrow> jstr" where
  "escape_unit c =
     (case short_escape c of
        Some e \<Rightarrow> [92, e]
      | None \<Rightarrow> if c < 32 then unicode_escape c else [c])"

fun json_escape :: "jstr \<Rightarrow> jstr" where
  "json_escape [] = []"
| "json_escape (c # s) =
     (if high_surrogate c then
        (case s of
           [] \<Rightarrow> unicode_escape c
         | d # s' \<Rightarrow>
             if low_surrogate d then c # d # json_escape s' else unicode_escape c @ json_escape s)
      else if low_surrogate c then unicode_escape c @ json_escape s
      else escape_unit c @ json_escape s)"

definition json_quote :: "jstr \<Rightarrow> jstr" where
  "json_quote s = [34] @ json_escape s @ [34]"

lemma json_escape_wf:
  "isWellFormedUnicodeScalarV1 s \<Longrightarrow> json_escape s = concat (map escape_unit s)"
proof (induction s rule: json_escape.induct)
  case (2 c s)
  have plain: "escape_unit d = [d]" if "0xD800 \<le> d" for d
    using that by (simp add: escape_unit_def short_escape_def)
  show ?case
  proof (cases "high_surrogate c")
    case True
    with "2.prems" obtain d s' where s: "s = d # s'" "low_surrogate d"
      "isWellFormedUnicodeScalarV1 s'"
      by (auto split: list.splits if_splits)
    with 2 True show ?thesis by (simp add: plain)
  next
    case False
    with 2 show ?thesis by (auto split: if_splits)
  qed
qed simp

text \<open>An escaped unit can be split off the front of any text in one way only.\<close>

lemma hex_digit_inject: "a < 16 \<Longrightarrow> b < 16 \<Longrightarrow> hex_digit a = hex_digit b \<longleftrightarrow> a = b"
  by (auto simp: hex_digit_def)

lemma unicode_escape_inject:
  assumes "c < 32" "d < 32" and "unicode_escape c = unicode_escape d"
  shows "c = d"
proof -
  have "c div 16 = d div 16" "c mod 16 = d mod 16"
    using assms by (auto simp: unicode_escape_def hex_digit_inject)
  then show ?thesis by (metis div_mult_mod_eq)
qed

lemma short_escape_inject: "short_escape c = Some e \<Longrightarrow> short_escape d = Some e \<Longrightarrow> c = d"
  by (auto simp: short_escape_def split: if_splits)

lemma escape_unit_cases:
  obtains (plain) "escape_unit c = [c]" "c \<noteq> 92" "c \<noteq> 34"
  | (short) e where "escape_unit c = [92, e]" "short_escape c = Some e" "e \<noteq> 117"
  | (unicode) "escape_unit c = unicode_escape c" "c < 32"
proof (cases "short_escape c")
  case None
  then show ?thesis
    using plain unicode by (cases "c < 32") (auto simp: escape_unit_def short_escape_def split: if_splits)
next
  case (Some e)
  then have "e \<noteq> 117" by (auto simp: short_escape_def split: if_splits)
  with Some short show ?thesis by (simp add: escape_unit_def)
qed

lemma escape_unit_not_quote: "escape_unit c @ xs \<noteq> 34 # ys"
  by (cases c rule: escape_unit_cases) (auto simp: unicode_escape_def)

lemma escape_unit_split:
  assumes "escape_unit c @ xs = escape_unit d @ ys"
  shows "c = d \<and> xs = ys"
proof (cases c rule: escape_unit_cases)
  case plain
  then show ?thesis
    using assms by (cases d rule: escape_unit_cases) (auto simp: unicode_escape_def)
next
  case (short e)
  then show ?thesis
    using assms by (cases d rule: escape_unit_cases)
      (auto simp: unicode_escape_def dest: short_escape_inject)
next
  case unicode
  then show ?thesis
  proof (cases d rule: escape_unit_cases)
    case plain
    with unicode assms show ?thesis by (simp add: unicode_escape_def)
  next
    case (short e)
    with unicode assms show ?thesis by (simp add: unicode_escape_def)
  next
    case d: unicode
    have "length (unicode_escape c) = length (unicode_escape d)"
      by (simp add: unicode_escape_def)
    then have "unicode_escape c = unicode_escape d" "xs = ys"
      using assms unicode d by simp_all
    then show ?thesis
      using unicode_escape_inject unicode(2) d(2) by blast
  qed
qed

lemma json_quote_split:
  assumes "isWellFormedUnicodeScalarV1 s" "isWellFormedUnicodeScalarV1 t"
    and "json_quote s @ xs = json_quote t @ ys"
  shows "s = t \<and> xs = ys"
proof -
  have "concat (map escape_unit s) @ 34 # xs = concat (map escape_unit t) @ 34 # ys \<Longrightarrow>
          s = t \<and> xs = ys"
  proof (induction s arbitrary: t)
    case Nil
    then show ?case
      using escape_unit_not_quote by (cases t) (auto dest: sym)
  next
    case (Cons c s)
    show ?case
    proof (cases t)
      case Nil
      with Cons.prems show ?thesis
        using escape_unit_not_quote by auto
    next
      case (Cons d t')
      with Cons.prems have "c = d \<and>
        concat (map escape_unit s) @ 34 # xs = concat (map escape_unit t') @ 34 # ys"
        by (intro escape_unit_split) simp
      with Cons.IH Cons show ?thesis by blast
    qed
  qed
  then show ?thesis
    using assms by (simp add: json_quote_def json_escape_wf)
qed

end
