(* ===== verification/CanonicalJson.thy ===== *)
theory CanonicalJson
  imports JsValue
begin

text \<open>
  Canonical JSON (\<open>citation/atomic-grounding/canonical-json.ts\<close>): the serializer, the bytes and
  the tagged digest.  The abstract view of a value is its normal form \<open>canon_norm\<close> (strings in
  NFC, minus zero read as zero, undefined properties dropped, keys sorted by code unit); the
  serializer prints exactly that, and two values have the same bytes exactly when their normal
  forms agree.
\<close>

datatype canon_error =
    UndefinedInArray
  | MalformedString
  | NonCanonicalNumber
  | UnsupportedValue
  | MalformedKey
  | KeyCollision
  | UndefinedRoot
  | MalformedTag

section \<open>The serializer\<close>

text \<open>\<open>items.join(',')\<close>\<close>

fun join_comma :: "jstr list \<Rightarrow> jstr" where
  "join_comma [] = []"
| "join_comma (x # xs) = x @ concat (map (\<lambda>y. 44 # y) xs)"

text \<open>\<open>compareUtf16\<close> is the lexicographic order of the code units, which sorts the entries.\<close>

definition print_entries :: "(jstr \<times> jstr) list \<Rightarrow> jstr" where
  "print_entries es =
     123 # join_comma (map (\<lambda>(key, item). json_quote key @ 58 # item) (sort_key fst es)) @ [125]"

fun serializeCanonical :: "(jstr \<Rightarrow> jstr) \<Rightarrow> bool \<Rightarrow> jsval \<Rightarrow> (canon_error, jstr option) result"
  and serializeItems :: "(jstr \<Rightarrow> jstr) \<Rightarrow> jsval list \<Rightarrow> (canon_error, jstr list) result"
  and serializeEntries ::
    "(jstr \<Rightarrow> jstr) \<Rightarrow> jstr list \<Rightarrow> (jstr \<times> jsval) list \<Rightarrow> (canon_error, (jstr \<times> jstr) list) result"
where
  "serializeCanonical nf inArray JUndef = (if inArray then Inl UndefinedInArray else Inr None)"
| "serializeCanonical nf inArray JNull = Inr (Some (js ''null''))"
| "serializeCanonical nf inArray (JBool b) = Inr (Some (if b then js ''true'' else js ''false''))"
| "serializeCanonical nf inArray (JStr s) =
     (if isWellFormedUnicodeScalarV1 s then Inr (Some (json_quote (nf s))) else Inl MalformedString)"
| "serializeCanonical nf inArray (JNum n) =
     (if is_safe_integer (JNum n) then Inr (Some (dec_int (int_of_number (JNum n))))
      else Inl NonCanonicalNumber)"
| "serializeCanonical nf inArray JOther = Inl UnsupportedValue"
| "serializeCanonical nf inArray (JArr vs) =
     bindE (serializeItems nf vs) (\<lambda>items. Inr (Some (91 # join_comma items @ [93])))"
| "serializeCanonical nf inArray (JObj kvs) =
     bindE (serializeEntries nf [] kvs) (\<lambda>entries. Inr (Some (print_entries entries)))"
| "serializeItems nf [] = Inr []"
| "serializeItems nf (v # vs) =
     bindE (serializeCanonical nf True v) (\<lambda>item.
     bindE (serializeItems nf vs) (\<lambda>items.
     Inr ((case item of None \<Rightarrow> [] | Some t \<Rightarrow> t) # items)))"
| "serializeEntries nf seen [] = Inr []"
| "serializeEntries nf seen ((rawKey, v) # kvs) =
     (if \<not> isWellFormedUnicodeScalarV1 rawKey then Inl MalformedKey
      else
        let key = nf rawKey
        in if key \<in> set seen then Inl KeyCollision
           else
             bindE (serializeCanonical nf False v) (\<lambda>item.
             bindE (serializeEntries nf (key # seen) kvs) (\<lambda>entries.
             Inr (case item of None \<Rightarrow> entries | Some t \<Rightarrow> (key, t) # entries))))"

definition canonicalJsonV1 :: "platform \<Rightarrow> jsval \<Rightarrow> (canon_error, nat list) result" where
  "canonicalJsonV1 P v =
     bindE (serializeCanonical (nfc P) False v) (\<lambda>canonical.
       case canonical of None \<Rightarrow> Inl UndefinedRoot | Some t \<Rightarrow> Inr (utf8_encode t))"

definition digestCanonicalV1 :: "platform \<Rightarrow> jstr \<Rightarrow> jsval \<Rightarrow> (canon_error, jstr) result" where
  "digestCanonicalV1 P versionTag v =
     (if \<not> isWellFormedUnicodeScalarV1 versionTag then Inl MalformedTag
      else bindE (canonicalJsonV1 P v) (\<lambda>bytes.
        Inr (sha256_hex P (utf8_encode (nfc P versionTag) @ [0] @ bytes))))"

section \<open>Normal forms\<close>

fun canon_norm :: "(jstr \<Rightarrow> jstr) \<Rightarrow> jsval \<Rightarrow> jsval"
  and canon_entries :: "(jstr \<Rightarrow> jstr) \<Rightarrow> (jstr \<times> jsval) list \<Rightarrow> (jstr \<times> jsval) list" where
  "canon_norm nf (JStr s) = JStr (nf s)"
| "canon_norm nf (JNum n) = JNum (NInt (int_of_number (JNum n)))"
| "canon_norm nf (JArr vs) = JArr (map (canon_norm nf) vs)"
| "canon_norm nf (JObj kvs) = JObj (sort_key fst (canon_entries nf kvs))"
| "canon_norm nf v = v"
| "canon_entries nf [] = []"
| "canon_entries nf ((k, v) # kvs) =
     (if v = JUndef then canon_entries nf kvs else (nf k, canon_norm nf v) # canon_entries nf kvs)"

text \<open>What the serializer accepts.\<close>

fun canonicalizable :: "(jstr \<Rightarrow> jstr) \<Rightarrow> jsval \<Rightarrow> bool" where
  "canonicalizable nf JUndef = False"
| "canonicalizable nf JNull = True"
| "canonicalizable nf (JBool b) = True"
| "canonicalizable nf (JStr s) = isWellFormedUnicodeScalarV1 s"
| "canonicalizable nf (JNum n) = is_safe_integer (JNum n)"
| "canonicalizable nf JOther = False"
| "canonicalizable nf (JArr vs) = (\<forall>v \<in> set vs. canonicalizable nf v)"
| "canonicalizable nf (JObj kvs) =
     ((\<forall>kv \<in> set kvs. isWellFormedUnicodeScalarV1 (fst kv)) \<and> distinct (map (\<lambda>kv. nf (fst kv)) kvs) \<and>
      (\<forall>kv \<in> set kvs. snd kv = JUndef \<or> canonicalizable nf (snd kv)))"

text \<open>The text of a normal form, by structural recursion with no sorting left to do.\<close>

fun canon_text :: "jsval \<Rightarrow> jstr" where
  "canon_text JNull = js ''null''"
| "canon_text (JBool b) = (if b then js ''true'' else js ''false'')"
| "canon_text (JStr s) = json_quote s"
| "canon_text (JNum n) = dec_int (int_of_number (JNum n))"
| "canon_text (JArr vs) = 91 # join_comma (map canon_text vs) @ [93]"
| "canon_text (JObj kvs) =
     123 # join_comma (map (\<lambda>kv. json_quote (fst kv) @ 58 # canon_text (snd kv)) kvs) @ [125]"
| "canon_text _ = []"

lemma insort_key_apsnd:
  "insort_key fst (k, f v) (map (\<lambda>kv. (fst kv, f (snd kv))) xs) =
     map (\<lambda>kv. (fst kv, f (snd kv))) (insort_key fst (k, v) xs)"
  by (induction xs) auto

lemma sort_key_apsnd:
  "sort_key fst (map (\<lambda>kv. (fst kv, f (snd kv))) xs) = map (\<lambda>kv. (fst kv, f (snd kv))) (sort_key fst xs)"
  by (induction xs) (auto simp: insort_key_apsnd)

lemma print_entries_text:
  "print_entries (map (\<lambda>kv. (fst kv, canon_text (snd kv))) es) = canon_text (JObj (sort_key fst es))"
  by (simp add: print_entries_def sort_key_apsnd o_def case_prod_beta)

text \<open>The serializer returns the text of the normal form exactly on the canonicalizable values.\<close>

lemma serializeItems_mapE:
  "serializeItems nf vs =
     bindE (mapE (serializeCanonical nf True) vs)
       (\<lambda>rs. Inr (map (\<lambda>r. case r of None \<Rightarrow> [] | Some t \<Rightarrow> t) rs))"
proof (induction vs)
  case (Cons v vs)
  show ?case
    by (cases "serializeCanonical nf True v"; cases "mapE (serializeCanonical nf True) vs")
      (simp_all add: Cons.IH)
qed simp

lemma serializeEntries_correct:
  assumes "\<forall>kv \<in> set kvs. \<forall>x. serializeCanonical nf False (snd kv) = Inr x \<longleftrightarrow>
      (if snd kv = JUndef then x = None
       else canonicalizable nf (snd kv) \<and> x = Some (canon_text (canon_norm nf (snd kv))))"
  shows "serializeEntries nf seen kvs = Inr es \<longleftrightarrow>
      (\<forall>kv \<in> set kvs. isWellFormedUnicodeScalarV1 (fst kv)) \<and> distinct (map (\<lambda>kv. nf (fst kv)) kvs) \<and>
      (\<forall>kv \<in> set kvs. nf (fst kv) \<notin> set seen) \<and>
      (\<forall>kv \<in> set kvs. snd kv = JUndef \<or> canonicalizable nf (snd kv)) \<and>
      es = map (\<lambda>kv. (fst kv, canon_text (snd kv))) (canon_entries nf kvs)"
  using assms
proof (induction kvs arbitrary: seen es)
  case (Cons kv kvs)
  obtain k v where kv: "kv = (k, v)" by (cases kv)
  have v: "\<And>x. serializeCanonical nf False v = Inr x \<longleftrightarrow>
      (if v = JUndef then x = None
       else canonicalizable nf v \<and> x = Some (canon_text (canon_norm nf v)))"
    using Cons.prems kv by simp
  have rest: "\<And>seen es. serializeEntries nf seen kvs = Inr es \<longleftrightarrow>
      (\<forall>kv \<in> set kvs. isWellFormedUnicodeScalarV1 (fst kv)) \<and> distinct (map (\<lambda>kv. nf (fst kv)) kvs) \<and>
      (\<forall>kv \<in> set kvs. nf (fst kv) \<notin> set seen) \<and>
      (\<forall>kv \<in> set kvs. snd kv = JUndef \<or> canonicalizable nf (snd kv)) \<and>
      es = map (\<lambda>kv. (fst kv, canon_text (snd kv))) (canon_entries nf kvs)"
    using Cons.prems by (intro Cons.IH) simp
  show ?case
    by (cases "v = JUndef") (auto simp: kv v rest Let_def bindE_Inr_iff o_def image_iff)
qed auto

lemma serialize_correct:
  "serializeCanonical nf b v = Inr r \<longleftrightarrow>
     (if v = JUndef then \<not> b \<and> r = None
      else canonicalizable nf v \<and> r = Some (canon_text (canon_norm nf v)))"
proof (induction v arbitrary: b r rule: jsval_induct)
  case (JArr vs)
  have item: "serializeCanonical nf True v = Inr x \<longleftrightarrow>
      canonicalizable nf v \<and> x = Some (canon_text (canon_norm nf v))" if "v \<in> set vs" for v x
    using JArr.IH [OF that, of True x] by (cases "v = JUndef") auto
  show ?case
  proof (cases "\<forall>v \<in> set vs. canonicalizable nf v")
    case True
    then have "mapE (serializeCanonical nf True) vs = Inr (map (\<lambda>v. Some (canon_text (canon_norm nf v))) vs)"
      by (intro mapE_all) (simp add: item)
    with True show ?thesis
      by (auto simp: serializeItems_mapE o_def)
  next
    case False
    have "\<not> (\<exists>rs. mapE (serializeCanonical nf True) vs = Inr rs)"
    proof
      assume "\<exists>rs. mapE (serializeCanonical nf True) vs = Inr rs"
      then have "\<forall>v \<in> set vs. \<exists>x. serializeCanonical nf True v = Inr x"
        by (auto simp: mapE_Inr_iff list_all2_conv_all_nth in_set_conv_nth)
      with item False show False by blast
    qed
    with False show ?thesis
      by (auto simp: serializeItems_mapE bindE_Inr_iff)
  qed
next
  case (JObj kvs)
  have "\<forall>kv \<in> set kvs. \<forall>x. serializeCanonical nf False (snd kv) = Inr x \<longleftrightarrow>
      (if snd kv = JUndef then x = None
       else canonicalizable nf (snd kv) \<and> x = Some (canon_text (canon_norm nf (snd kv))))"
    using JObj.IH by simp
  note step = serializeEntries_correct [OF this]
  show ?case
    by (auto simp: step bindE_Inr_iff print_entries_text)
qed auto

section \<open>Unique readability\<close>

text \<open>The values that normal forms are: what \<open>canon_norm\<close> yields on canonicalizable input.\<close>

fun canonical :: "jsval \<Rightarrow> bool" where
  "canonical JUndef = False"
| "canonical JNull = True"
| "canonical (JBool b) = True"
| "canonical (JStr s) = (isWellFormedUnicodeScalarV1 s \<and> utf16 s)"
| "canonical (JNum n) = (n = NInt (int_of_number (JNum n)))"
| "canonical JOther = False"
| "canonical (JArr vs) = (\<forall>v \<in> set vs. canonical v)"
| "canonical (JObj kvs) =
     ((\<forall>kv \<in> set kvs. isWellFormedUnicodeScalarV1 (fst kv) \<and> utf16 (fst kv) \<and> canonical (snd kv)) \<and>
      sorted (map fst kvs) \<and> distinct (map fst kvs))"

text \<open>The text of a value is readable already when its keys are in any order.\<close>

fun printable :: "jsval \<Rightarrow> bool" where
  "printable JUndef = False"
| "printable JNull = True"
| "printable (JBool b) = True"
| "printable (JStr s) = (isWellFormedUnicodeScalarV1 s \<and> utf16 s)"
| "printable (JNum n) = (n = NInt (int_of_number (JNum n)))"
| "printable JOther = False"
| "printable (JArr vs) = (\<forall>v \<in> set vs. printable v)"
| "printable (JObj kvs) = (\<forall>kv \<in> set kvs. isWellFormedUnicodeScalarV1 (fst kv) \<and> utf16 (fst kv) \<and> printable (snd kv))"

lemma canonical_printable: "canonical v \<Longrightarrow> printable v"
  by (induction v rule: jsval_induct) auto

lemma dec_nat_split:
  assumes "dec_nat m @ xs = dec_nat n @ ys"
    and "xs = [] \<or> \<not> is_digit (hd xs)" and "ys = [] \<or> \<not> is_digit (hd ys)"
  shows "m = n \<and> xs = ys"
proof -
  have tw: "takeWhile is_digit (dec_nat k @ zs) = dec_nat k" if "zs = [] \<or> \<not> is_digit (hd zs)" for k zs
    using that dec_nat_digits [of k] by (cases zs) (auto simp: takeWhile_append2)
  have "dec_nat m = dec_nat n"
    using tw [OF assms(2), of m] tw [OF assms(3), of n] assms(1) by simp
  with assms(1) show ?thesis by simp
qed

lemma dec_int_split:
  assumes "dec_int i @ xs = dec_int j @ ys"
    and "xs = [] \<or> \<not> is_digit (hd xs)" and "ys = [] \<or> \<not> is_digit (hd ys)"
  shows "i = j \<and> xs = ys"
proof -
  have nosign: "dec_nat n @ zs \<noteq> 45 # us" for n zs us
    using dec_nat_nonempty [of n] dec_nat_no_sign(1) [of n] by (cases "dec_nat n") auto
  show ?thesis
    using assms nosign nosign [symmetric]
    by (auto simp: dec_int_def split: if_splits dest!: dec_nat_split)
qed

lemma dec_int_head: "dec_int i @ xs = c # ys \<Longrightarrow> c = 45 \<or> is_digit c"
  using dec_nat_digits [of "nat i"] by (cases "dec_nat (nat i)") (auto simp: dec_int_def split: if_splits)

lemma canon_text_start:
  assumes "printable v"
  obtains c r where "canon_text v = c # r" "c \<notin> {44, 58, 93, 125}"
proof -
  have "\<exists>c r. canon_text v = c # r \<and> c \<notin> {44, 58, 93, 125}"
  proof (cases v)
    case (JNum n)
    have "\<exists>c r. dec_nat k = c # r \<and> is_digit c" for k
      using dec_nat_digits [of k] by (cases "dec_nat k") auto
    then show ?thesis
      using JNum by (fastforce simp: dec_int_def is_digit_def)
  qed (use assms in \<open>auto simp: js_simps json_quote_def\<close>)
  then show ?thesis using that by blast
qed

definition delimited :: "jstr \<Rightarrow> bool" where
  "delimited xs \<longleftrightarrow> xs = [] \<or> \<not> is_digit (hd xs)"

lemma delimited_punctuation [simp]:
  "delimited (44 # xs)" "delimited (93 # xs)" "delimited (125 # xs)"
  by (simp_all add: delimited_def is_digit_def)

lemma comma_tail_split:
  assumes "\<And>v w xs ys. v \<in> set vs \<Longrightarrow> w \<in> set ws \<Longrightarrow> f v @ xs = f w @ ys \<Longrightarrow>
             delimited xs \<Longrightarrow> delimited ys \<Longrightarrow> v = w \<and> xs = ys"
    and "e \<noteq> 44" and "delimited [e]"
    and "concat (map (\<lambda>v. 44 # f v) vs) @ e # xs = concat (map (\<lambda>v. 44 # f v) ws) @ e # ys"
  shows "vs = ws \<and> xs = ys"
  using assms(1,4)
proof (induction vs arbitrary: ws)
  case Nil
  then show ?case using \<open>e \<noteq> 44\<close> by (cases ws) auto
next
  case (Cons v vs)
  show ?case
  proof (cases ws)
    case Nil
    with Cons.prems \<open>e \<noteq> 44\<close> show ?thesis by simp
  next
    case ws: (Cons w ws')
    have del: "delimited (concat (map (\<lambda>v. 44 # f v) us) @ e # zs)" for us zs
      using \<open>delimited [e]\<close> by (cases us) (auto simp: delimited_def is_digit_def)
    have "v = w \<and> concat (map (\<lambda>v. 44 # f v) vs) @ e # xs = concat (map (\<lambda>v. 44 # f v) ws') @ e # ys"
      using Cons.prems(2) ws del by (intro Cons.prems(1)) simp_all
    moreover have "vs = ws' \<and> xs = ys"
      by (rule Cons.IH) (use Cons.prems(1) ws calculation in auto)
    ultimately show ?thesis using ws by simp
  qed
qed

lemma join_comma_split:
  assumes "\<And>v w xs ys. v \<in> set vs \<Longrightarrow> w \<in> set ws \<Longrightarrow> f v @ xs = f w @ ys \<Longrightarrow>
             delimited xs \<Longrightarrow> delimited ys \<Longrightarrow> v = w \<and> xs = ys"
    and "\<And>v. v \<in> set vs \<union> set ws \<Longrightarrow> f v \<noteq> [] \<and> hd (f v) \<noteq> e"
    and "e \<noteq> 44" and "delimited [e]"
    and "join_comma (map f vs) @ e # xs = join_comma (map f ws) @ e # ys"
  shows "vs = ws \<and> xs = ys"
proof (cases vs)
  case Nil
  show ?thesis
  proof (cases ws)
    case (Cons w ws')
    have "f w \<noteq> []" "hd (f w) \<noteq> e" using assms(2) [of w] Cons by auto
    with assms(5) Nil Cons show ?thesis by (cases "f w") auto
  qed (use assms(5) Nil in simp)
next
  case vs: (Cons v vs')
  show ?thesis
  proof (cases ws)
    case Nil
    have "f v \<noteq> []" "hd (f v) \<noteq> e" using assms(2) [of v] vs by auto
    with assms(5) Nil vs show ?thesis by (cases "f v") auto
  next
    case ws: (Cons w ws')
    have "concat (map (\<lambda>v. 44 # f v) vs) @ e # xs = concat (map (\<lambda>v. 44 # f v) ws) @ e # ys"
      using assms(5) by (simp add: vs ws o_def)
    with assms(1,3,4) show ?thesis by (intro comma_tail_split)
  qed
qed

text \<open>The first code unit of a text tells the kind of the value it prints.\<close>

fun shape :: "jsval \<Rightarrow> nat" where
  "shape JNull = 0"
| "shape (JBool b) = 1"
| "shape (JNum n) = 2"
| "shape (JStr s) = 3"
| "shape (JArr vs) = 4"
| "shape (JObj kvs) = 5"
| "shape _ = 6"

definition first_shape :: "nat \<Rightarrow> nat" where
  "first_shape c =
     (if c = 110 then 0 else if c = 116 \<or> c = 102 then 1 else if c = 34 then 3
      else if c = 91 then 4 else if c = 123 then 5 else 2)"

lemma canon_text_shape:
  assumes "printable v"
  shows "\<exists>c r. canon_text v = c # r \<and> first_shape c = shape v"
proof (cases v)
  case (JNum n)
  obtain c r where "dec_int (int_of_number (JNum n)) = c # r"
    using dec_nat_nonempty by (cases "dec_int (int_of_number (JNum n))") (auto simp: dec_int_def split: if_splits)
  moreover from this have "c = 45 \<or> is_digit c"
    using dec_int_head [of "int_of_number (JNum n)" "[]"] by simp
  ultimately show ?thesis
    using JNum by (auto simp: first_shape_def is_digit_def)
qed (use assms in \<open>auto simp: js_simps json_quote_def first_shape_def\<close>)

lemma canon_text_same_shape:
  assumes "printable v" "printable w" "canon_text v @ xs = canon_text w @ ys"
  shows "shape v = shape w"
  using canon_text_shape [OF assms(1)] canon_text_shape [OF assms(2)] assms(3) by auto

lemma canon_text_split:
  "printable v \<Longrightarrow> printable w \<Longrightarrow> canon_text v @ xs = canon_text w @ ys \<Longrightarrow>
     delimited xs \<Longrightarrow> delimited ys \<Longrightarrow> v = w \<and> xs = ys"
proof (induction v arbitrary: w xs ys rule: jsval_induct)
  case (JArr vs)
  then obtain ws where w: "w = JArr ws"
    using canon_text_same_shape [OF JArr.prems(1-3)] by (cases w) auto
  have "vs = ws \<and> xs = ys"
  proof (rule join_comma_split [where f = canon_text and e = 93])
    fix v assume "v \<in> set vs \<union> set ws"
    then have "printable v" using JArr.prems(1,2) w by auto
    then show "canon_text v \<noteq> [] \<and> hd (canon_text v) \<noteq> 93"
      by (rule canon_text_start) auto
  qed (use JArr w in \<open>auto\<close>)
  with w show ?case by simp
next
  case (JObj kvs)
  then obtain lvs where w: "w = JObj lvs"
    using canon_text_same_shape [OF JObj.prems(1-3)] by (cases w) auto
  let ?f = "\<lambda>kv. json_quote (fst kv) @ 58 # canon_text (snd kv)"
  have "kvs = lvs \<and> xs = ys"
  proof (rule join_comma_split [where f = ?f and e = 125])
    fix a b us vs
    assume ab: "a \<in> set kvs" "b \<in> set lvs" "?f a @ us = ?f b @ vs" "delimited us" "delimited vs"
    then have "fst a = fst b \<and> 58 # canon_text (snd a) @ us = 58 # canon_text (snd b) @ vs"
      using JObj.prems(1,2) w by (intro json_quote_split) auto
    moreover have "snd a = snd b \<and> us = vs"
      using ab JObj.prems(1,2) w calculation by (intro JObj.IH [of a]) auto
    ultimately show "a = b \<and> us = vs" by (simp add: prod_eq_iff)
  qed (use JObj.prems w in \<open>auto simp: json_quote_def\<close>)
  with w show ?case by simp
next
  case (JNum n)
  then obtain m where "w = JNum m"
    using canon_text_same_shape [OF JNum.prems(1-3)] by (cases w) auto
  moreover from this JNum.prems have "int_of_number (JNum n) = int_of_number (JNum m) \<and> xs = ys"
    by (intro dec_int_split) (auto simp: delimited_def)
  ultimately show ?case using JNum.prems(1,2) by (metis printable.simps(5))
next
  case (JStr s)
  then obtain t where "w = JStr t"
    using canon_text_same_shape [OF JStr.prems(1-3)] by (cases w) auto
  with JStr.prems json_quote_split [of s t xs ys] show ?case by simp
next
  case JNull
  then show ?case
    using canon_text_same_shape [OF JNull.prems(1-3)] by (cases w) auto
next
  case (JBool b)
  then show ?case
    using canon_text_same_shape [OF JBool.prems(1-3)] by (cases w) (auto simp: js_simps split: if_splits)
qed auto

section \<open>Canonical bytes\<close>

text \<open>
  What the program relies on of \<open>String.prototype.normalize('NFC')\<close>: it maps strings of scalar
  values to such strings, it is idempotent, and ASCII text is in NFC already.
\<close>

definition unicode_normalizer :: "(jstr \<Rightarrow> jstr) \<Rightarrow> bool" where
  "unicode_normalizer nf \<longleftrightarrow>
     (\<forall>s. isWellFormedUnicodeScalarV1 s \<and> utf16 s \<longrightarrow>
            isWellFormedUnicodeScalarV1 (nf s) \<and> utf16 (nf s)) \<and>
     (\<forall>s. isWellFormedUnicodeScalarV1 s \<longrightarrow> nf (nf s) = nf s) \<and>
     (\<forall>s. (\<forall>c \<in> set s. c < 128) \<longrightarrow> nf s = s) \<and>
     (\<forall>s. s \<noteq> [] \<longrightarrow> nf s \<noteq> [])"

text \<open>Every string of the value is a sequence of 16-bit units, as JavaScript strings are.\<close>

fun js_units :: "jsval \<Rightarrow> bool" where
  "js_units (JStr s) = utf16 s"
| "js_units (JArr vs) = (\<forall>v \<in> set vs. js_units v)"
| "js_units (JObj kvs) = (\<forall>kv \<in> set kvs. utf16 (fst kv) \<and> js_units (snd kv))"
| "js_units _ = True"

lemma canon_entries_map:
  "canon_entries nf kvs =
     map (\<lambda>kv. (nf (fst kv), canon_norm nf (snd kv))) (filter (\<lambda>kv. snd kv \<noteq> JUndef) kvs)"
  by (induction kvs) auto

lemma set_canon_entries:
  "set (canon_entries nf kvs) = (\<lambda>kv. (nf (fst kv), canon_norm nf (snd kv))) ` {kv \<in> set kvs. snd kv \<noteq> JUndef}"
  by (simp add: canon_entries_map)

lemma distinct_canon_entries:
  "distinct (map (\<lambda>kv. nf (fst kv)) kvs) \<Longrightarrow> distinct (map fst (canon_entries nf kvs))"
  by (induction kvs) (auto simp: set_canon_entries image_iff)

lemma canonical_canon_norm:
  assumes "unicode_normalizer nf"
  shows "canonicalizable nf v \<Longrightarrow> js_units v \<Longrightarrow> canonical (canon_norm nf v)"
proof (induction v rule: jsval_induct)
  case (JObj kvs)
  have "isWellFormedUnicodeScalarV1 (nf (fst kv)) \<and> utf16 (nf (fst kv)) \<and> canonical (canon_norm nf (snd kv))"
    if "kv \<in> set kvs" "snd kv \<noteq> JUndef" for kv
    using that JObj.IH [OF that(1)] JObj.prems assms by (auto simp: unicode_normalizer_def)
  moreover have "distinct (map fst (canon_entries nf kvs))"
    using JObj.prems by (intro distinct_canon_entries) simp
  then have "distinct (map fst (sort_key fst (canon_entries nf kvs)))"
    by simp
  ultimately show ?case
    by (auto simp: set_canon_entries)
qed (use assms in \<open>auto simp: unicode_normalizer_def\<close>)

lemma canonicalJsonV1_Inr_iff:
  "canonicalJsonV1 P v = Inr bs \<longleftrightarrow>
     canonicalizable (nfc P) v \<and> bs = utf8_encode (canon_text (canon_norm (nfc P) v))"
  by (cases "v = JUndef") (auto simp: canonicalJsonV1_def bindE_Inr_iff serialize_correct)

lemma wf_append:
  "isWellFormedUnicodeScalarV1 s \<Longrightarrow>
     isWellFormedUnicodeScalarV1 (s @ t) = isWellFormedUnicodeScalarV1 t"
proof (induction s rule: isWellFormedUnicodeScalarV1.induct)
  case (2 c s)
  show ?case
  proof (cases "high_surrogate c")
    case True
    with "2.prems" obtain d s' where s: "s = d # s'" "low_surrogate d" "isWellFormedUnicodeScalarV1 s'"
      by (auto split: list.splits if_splits)
    then have "isWellFormedUnicodeScalarV1 (s' @ t) = isWellFormedUnicodeScalarV1 t"
      using "2.IH"(1) [OF True s(1)] by simp
    with True s show ?thesis by simp
  next
    case False
    with "2.prems" have "\<not> low_surrogate c" "isWellFormedUnicodeScalarV1 s"
      by (auto split: if_splits)
    then have "isWellFormedUnicodeScalarV1 (s @ t) = isWellFormedUnicodeScalarV1 t"
      using "2.IH"(2) [OF False] by simp
    then show ?thesis
      by (simp only: append_Cons wf_plain [OF False \<open>\<not> low_surrogate c\<close>])
  qed
qed simp

lemma wf_ascii: "\<forall>c \<in> set s. c < 128 \<Longrightarrow> isWellFormedUnicodeScalarV1 s"
  by (induction s) auto

lemma wf_concat:
  "\<forall>s \<in> set ss. isWellFormedUnicodeScalarV1 s \<Longrightarrow> isWellFormedUnicodeScalarV1 (concat ss)"
  by (induction ss) (simp_all add: wf_append)

lemma escape_unit_ascii: "c < 128 \<Longrightarrow> x \<in> set (escape_unit c) \<Longrightarrow> x < 128"
  by (auto simp: escape_unit_def short_escape_def unicode_escape_def hex_digit_def split: if_splits)

lemma escape_unit_plain: "128 \<le> c \<Longrightarrow> escape_unit c = [c]"
  by (simp add: escape_unit_def short_escape_def)

lemma wf_json_escape:
  "isWellFormedUnicodeScalarV1 s \<Longrightarrow> isWellFormedUnicodeScalarV1 (json_escape s)"
proof (induction s rule: json_escape.induct)
  case (2 c s)
  show ?case
  proof (cases "high_surrogate c")
    case True
    with "2.prems" obtain d s' where s: "s = d # s'" "low_surrogate d" "isWellFormedUnicodeScalarV1 s'"
      by (auto split: list.splits if_splits)
    then have "isWellFormedUnicodeScalarV1 (json_escape s')"
      using "2.IH"(1) [OF True s(1)] by simp
    with True s show ?thesis by simp
  next
    case False
    with 2 have "isWellFormedUnicodeScalarV1 (json_escape s)" "\<not> low_surrogate c"
      by (auto split: if_splits)
    moreover have "isWellFormedUnicodeScalarV1 (escape_unit c)"
      using False calculation(2) escape_unit_ascii [of c]
      by (cases "c < 128") (auto simp: escape_unit_plain intro!: wf_ascii)
    moreover have "json_escape (c # s) = escape_unit c @ json_escape s"
      using False calculation(2) by auto
    ultimately show ?thesis by (simp only: wf_append)
  qed
qed simp

lemma utf16_json_escape:
  "isWellFormedUnicodeScalarV1 s \<Longrightarrow> utf16 s \<Longrightarrow> utf16 (json_escape s)"
proof -
  assume "isWellFormedUnicodeScalarV1 s" "utf16 s"
  moreover have "utf16 (escape_unit c)" if "c < 0x10000" for c
    using that escape_unit_ascii [of c]
    by (cases "c < 128") (fastforce simp: escape_unit_plain utf16_def)+
  ultimately show ?thesis
    by (auto simp: json_escape_wf utf16_def)
qed

lemma dec_int_ascii: "x \<in> set (dec_int i) \<Longrightarrow> x < 128"
  using dec_nat_digits by (auto simp: dec_int_def is_digit_def split: if_splits) fastforce+

lemma wf_json_quote: "isWellFormedUnicodeScalarV1 s \<Longrightarrow> isWellFormedUnicodeScalarV1 (json_quote s)"
  using wf_json_escape [of s] by (simp add: json_quote_def wf_append)

lemma wf_join_comma:
  assumes "\<forall>s \<in> set ss. isWellFormedUnicodeScalarV1 s"
  shows "isWellFormedUnicodeScalarV1 (join_comma ss)"
  using assms by (cases ss) (auto simp: wf_append intro!: wf_concat)

lemma utf16_join_comma: "\<forall>s \<in> set ss. utf16 s \<Longrightarrow> utf16 (join_comma ss)"
  by (cases ss) (auto simp: utf16_def)

lemma canon_text_units:
  "printable v \<Longrightarrow> isWellFormedUnicodeScalarV1 (canon_text v) \<and> utf16 (canon_text v)"
proof (induction v rule: jsval_induct)
  case (JNum n)
  then show ?case
    using dec_int_ascii [of _ "int_of_number (JNum n)"]
    by (auto simp: utf16_def intro!: wf_ascii) fastforce
next
  case (JArr vs)
  then have "isWellFormedUnicodeScalarV1 (join_comma (map canon_text vs))"
    "utf16 (join_comma (map canon_text vs))"
    by (auto intro!: wf_join_comma utf16_join_comma)
  then show ?case by (simp add: wf_append)
next
  case (JObj kvs)
  let ?f = "\<lambda>kv. json_quote (fst kv) @ 58 # canon_text (snd kv)"
  have "isWellFormedUnicodeScalarV1 (?f kv) \<and> utf16 (?f kv)" if "kv \<in> set kvs" for kv
  proof -
    have "isWellFormedUnicodeScalarV1 (json_quote (fst kv))" "utf16 (json_quote (fst kv))"
      using that JObj.prems utf16_json_escape [of "fst kv"]
      by (simp_all add: wf_json_quote) (simp add: json_quote_def)
    moreover have "isWellFormedUnicodeScalarV1 (canon_text (snd kv)) \<and> utf16 (canon_text (snd kv))"
      using that JObj by simp
    ultimately show ?thesis by (simp add: wf_append)
  qed
  then have "isWellFormedUnicodeScalarV1 (join_comma (map ?f kvs))" "utf16 (join_comma (map ?f kvs))"
    by (auto intro!: wf_join_comma utf16_join_comma)
  then show ?case by (simp add: wf_append)
qed (use wf_json_quote utf16_json_escape in \<open>auto simp: js_simps json_quote_def\<close>)

lemma canon_text_inject:
  "printable v \<Longrightarrow> printable w \<Longrightarrow> canon_text v = canon_text w \<Longrightarrow> v = w"
  using canon_text_split [of v w "[]" "[]"] by (simp add: delimited_def)

lemma printable_bytes_inject:
  assumes "printable v" "printable w" "utf8_encode (canon_text v) = utf8_encode (canon_text w)"
  shows "v = w"
  using assms canon_text_units utf8_encode_inject by (metis canon_text_inject)

lemmas canonical_bytes_inject = printable_bytes_inject [OF canonical_printable canonical_printable]

text \<open>
  C21: Canonical JSON identifies values exactly up to their normal form.  If the serializer
  accepts two values, it gives them the same bytes if and only if they agree after NFC
  normalization of strings and keys, dropping of undefined properties, reading minus zero as
  zero and sorting of keys; so a digest preimage never confuses two different values.
\<close>

theorem canonicalJson_bytes_iff_norm:
  assumes "unicode_normalizer (nfc P)" and "js_units v" and "js_units w"
    and "canonicalJsonV1 P v = Inr bs" and "canonicalJsonV1 P w = Inr cs"
  shows "bs = cs \<longleftrightarrow> canon_norm (nfc P) v = canon_norm (nfc P) w"
  using assms canonical_bytes_inject canonical_canon_norm by (metis canonicalJsonV1_Inr_iff)

lemma canonicalizable_permute:
  assumes "mset kvs = mset lvs" and "canonicalizable nf (JObj kvs)"
  shows "canonicalizable nf (JObj lvs) \<and> canon_norm nf (JObj lvs) = canon_norm nf (JObj kvs)"
proof -
  have "distinct (map (\<lambda>kv. nf (fst kv)) lvs)" "set lvs = set kvs"
    using assms by (auto dest: mset_eq_setD) (metis mset_eq_imp_distinct_iff mset_map)
  moreover have "mset (canon_entries nf lvs) = mset (canon_entries nf kvs)"
    using assms(1) by (simp add: canon_entries_map)
  moreover have "distinct (map fst (canon_entries nf kvs))"
    using assms(2) by (intro distinct_canon_entries) simp
  ultimately have "sort_key fst (canon_entries nf lvs) = sort_key fst (canon_entries nf kvs)"
    by (intro sort_key_mset_cong [symmetric]) simp_all
  with assms(2) \<open>set lvs = set kvs\<close> \<open>distinct (map (\<lambda>kv. nf (fst kv)) lvs)\<close> show ?thesis
    by simp
qed

text \<open>
  The tagged digest of an object does not depend on the order in which its properties were
  created: any permutation of the entries is accepted and hashed to the same value.
\<close>

theorem digest_key_order_irrelevant:
  assumes "mset kvs = mset lvs" and "digestCanonicalV1 P tag (JObj kvs) = Inr d"
  shows "digestCanonicalV1 P tag (JObj lvs) = Inr d"
proof -
  obtain bs where bs: "canonicalJsonV1 P (JObj kvs) = Inr bs"
    using assms(2) by (auto simp: digestCanonicalV1_def split: if_splits)
  then have "canonicalJsonV1 P (JObj lvs) = Inr bs"
    using canonicalizable_permute [OF assms(1)] by (metis canonicalJsonV1_Inr_iff)
  with bs assms(2) show ?thesis by (simp add: digestCanonicalV1_def split: if_splits)
qed

lemma plain_platform_normalizer: "unicode_normalizer (nfc plain_platform)"
  by (simp add: unicode_normalizer_def)

lemma canonicalJson_bytes_iff_norm_witness:
  "utf8_encode (js ''[0]'') = utf8_encode (js ''[0]'') \<longleftrightarrow>
     canon_norm (nfc plain_platform) (JArr [JNum NNegZero]) =
     canon_norm (nfc plain_platform) (JArr [JNum (NInt 0)])"
  by (rule canonicalJson_bytes_iff_norm [OF plain_platform_normalizer, of "JArr [JNum NNegZero]" "JArr [JNum (NInt 0)]"])
    (simp_all add: canonicalJsonV1_Inr_iff js_simps MAX_SAFE_INTEGER_def dec_int_def dec_nat.simps)

lemma digest_key_order_irrelevant_witness:
  "\<exists>d. digestCanonicalV1 plain_platform (js ''t'') (JObj [(js ''b'', JNull), (js ''a'', JBool True)]) = Inr d \<and>
     digestCanonicalV1 plain_platform (js ''t'') (JObj [(js ''a'', JBool True), (js ''b'', JNull)]) = Inr d"
proof -
  let ?kvs = "[(js ''a'', JBool True), (js ''b'', JNull)]"
  obtain d where d: "digestCanonicalV1 plain_platform (js ''t'') (JObj ?kvs) = Inr d"
    by (simp add: digestCanonicalV1_def canonicalJsonV1_def js_simps)
  moreover have "mset ?kvs = mset [(js ''b'', JNull), (js ''a'', JBool True)]"
    by simp
  ultimately show ?thesis
    using digest_key_order_irrelevant [of ?kvs] by blast
qed

end
