(* ===== verification/Patterns.thy ===== *)
theory Patterns
  imports JsString "HOL-Library.Monad_Syntax"
begin

text \<open>
  The closed lexical classes that several components write as anchored regular expressions,
  as executable predicates: SHA-256 digests \<open>/^[0-9a-f]{64}$/\<close>, lower-case UUIDs, unsigned
  decimals, the safe identifiers of the draft schema, policy and schema versions.
\<close>

definition lower_hex :: "nat \<Rightarrow> bool" where
  "lower_hex c \<longleftrightarrow> is_digit c \<or> (97 \<le> c \<and> c \<le> 102)"

definition ascii_upper :: "nat \<Rightarrow> bool" where
  "ascii_upper c \<longleftrightarrow> 65 \<le> c \<and> c \<le> 90"

definition ascii_lower :: "nat \<Rightarrow> bool" where
  "ascii_lower c \<longleftrightarrow> 97 \<le> c \<and> c \<le> 122"

definition ascii_alnum :: "nat \<Rightarrow> bool" where
  "ascii_alnum c \<longleftrightarrow> is_digit c \<or> ascii_upper c \<or> ascii_lower c"

lemmas char_class_defs =
  lower_hex_def ascii_upper_def ascii_lower_def ascii_alnum_def is_digit_def

text \<open>\<open>/^[0-9a-f]{64}$/\<close>\<close>

definition is_sha256 :: "jstr \<Rightarrow> bool" where
  "is_sha256 s \<longleftrightarrow> length s = 64 \<and> list_all lower_hex s"

text \<open>\<open>/^[0-9a-f]{8}-[0-9a-f]{4}-[1-5][0-9a-f]{3}-[89ab][0-9a-f]{3}-[0-9a-f]{12}$/\<close>\<close>

definition uuid_classes :: "(nat \<Rightarrow> bool) list" where
  "uuid_classes =
     replicate 8 lower_hex @ [\<lambda>c. c = 45] @ replicate 4 lower_hex @ [\<lambda>c. c = 45] @
     [\<lambda>c. 49 \<le> c \<and> c \<le> 53] @ replicate 3 lower_hex @ [\<lambda>c. c = 45] @
     [\<lambda>c. c = 56 \<or> c = 57 \<or> c = 97 \<or> c = 98] @ replicate 3 lower_hex @ [\<lambda>c. c = 45] @
     replicate 12 lower_hex"

definition is_uuid :: "jstr \<Rightarrow> bool" where
  "is_uuid s \<longleftrightarrow> list_all2 (\<lambda>p c. p c) uuid_classes s"

lemma length_uuid_classes [simp]: "length uuid_classes = 36"
  by (simp add: uuid_classes_def)

lemma is_uuid_length: "is_uuid s \<Longrightarrow> length s = 36"
  unfolding is_uuid_def by (metis length_uuid_classes list_all2_lengthD)

lemma is_uuid_ascii: "is_uuid s \<Longrightarrow> c \<in> set s \<Longrightarrow> c = 45 \<or> lower_hex c"
proof -
  assume u: "is_uuid s" and c: "c \<in> set s"
  from c obtain i where i: "i < length s" "c = s ! i" by (auto simp: in_set_conv_nth)
  with u have "(uuid_classes ! i) c"
    unfolding is_uuid_def by (auto dest: list_all2_nthD2)
  moreover have "uuid_classes ! i \<in> set uuid_classes"
    using i u by (simp add: is_uuid_length)
  ultimately show ?thesis
    by (auto simp: uuid_classes_def char_class_defs)
qed

lemma is_sha256_ascii: "is_sha256 s \<Longrightarrow> c \<in> set s \<Longrightarrow> lower_hex c"
  by (auto simp: is_sha256_def list_all_iff)

text \<open>\<open>/^[1-9][0-9]*$/\<close> and \<open>/^(?:0|[1-9][0-9]*)$/\<close>\<close>

definition is_positive_decimal :: "jstr \<Rightarrow> bool" where
  "is_positive_decimal s \<longleftrightarrow> s \<noteq> [] \<and> hd s \<noteq> 48 \<and> list_all is_digit s"

definition is_unsigned_decimal :: "jstr \<Rightarrow> bool" where
  "is_unsigned_decimal s \<longleftrightarrow> s = [48] \<or> is_positive_decimal s"

lemma dec_nat_unsigned: "is_unsigned_decimal (dec_nat n)"
  using dec_nat_digits [of n] dec_nat_head [of n]
  by (cases "n = 0") (auto simp: is_unsigned_decimal_def is_positive_decimal_def list_all_iff)

lemma dec_nat_digits_value:
  "is_positive_decimal s \<Longrightarrow> dec_nat (digits_value 0 s) = s \<and> 0 < digits_value 0 s"
proof (induction s rule: rev_induct)
  case Nil
  then show ?case by (simp add: is_positive_decimal_def)
next
  case (snoc c s)
  define k where "k = c - 48"
  have c: "is_digit c" "k < 10" "c = 48 + k"
    using snoc.prems by (auto simp: is_positive_decimal_def is_digit_def k_def)
  show ?case
  proof (cases s)
    case Nil
    with snoc.prems c show ?thesis
      by (auto simp: dec_nat.simps [of k] is_positive_decimal_def)
  next
    case (Cons d r)
    with snoc.prems have "is_positive_decimal s"
      by (auto simp: is_positive_decimal_def)
    then have IH: "dec_nat (digits_value 0 s) = s" "0 < digits_value 0 s"
      using snoc.IH by auto
    let ?v = "10 * digits_value 0 s + k"
    have "?v div 10 = digits_value 0 s" "?v mod 10 = k" "\<not> ?v < 10"
      using c(2) IH(2) by simp_all
    then have "dec_nat ?v = s @ [c]"
      using IH(1) c(3) by (subst dec_nat.simps) simp
    then show ?thesis
      using IH(2) c(3) by (simp add: digits_value_snoc)
  qed
qed

lemma unsigned_decimal_unique: "is_unsigned_decimal s \<Longrightarrow> dec_nat (digits_value 0 s) = s"
  using dec_nat_digits_value by (auto simp: is_unsigned_decimal_def)

text \<open>\<open>/^[A-Za-z0-9][A-Za-z0-9._:-]{0,511}$/u\<close>\<close>

definition is_safe_id :: "jstr \<Rightarrow> bool" where
  "is_safe_id s \<longleftrightarrow>
     s \<noteq> [] \<and> length s \<le> 512 \<and> ascii_alnum (hd s) \<and>
     list_all (\<lambda>c. ascii_alnum c \<or> c = 46 \<or> c = 95 \<or> c = 58 \<or> c = 45) (tl s)"

text \<open>\<open>/^-?(?:0|[1-9]\d*)(?:\.\d+)?$/u\<close>\<close>

definition is_fixed_decimal :: "jstr \<Rightarrow> bool" where
  "is_fixed_decimal s \<longleftrightarrow>
     (let u = (if s \<noteq> [] \<and> hd s = 45 then tl s else s);
          i = takeWhile (\<lambda>c. c \<noteq> 46) u;
          f = dropWhile (\<lambda>c. c \<noteq> 46) u
      in is_unsigned_decimal i \<and> (f = [] \<or> (tl f \<noteq> [] \<and> list_all is_digit (tl f))))"

text \<open>\<open>/^[a-z0-9][a-z0-9._-]{0,63}$/\<close>\<close>

definition is_version_tag :: "jstr \<Rightarrow> bool" where
  "is_version_tag s \<longleftrightarrow>
     s \<noteq> [] \<and> length s \<le> 64 \<and> (is_digit (hd s) \<or> ascii_lower (hd s)) \<and>
     list_all (\<lambda>c. is_digit c \<or> ascii_lower c \<or> c = 46 \<or> c = 95 \<or> c = 45) (tl s)"

text \<open>A fixed prefix of a pattern: what follows it, when it is there.\<close>

fun strip_prefix :: "jstr \<Rightarrow> jstr \<Rightarrow> jstr option" where
  "strip_prefix [] s = Some s"
| "strip_prefix (p # ps) [] = None"
| "strip_prefix (p # ps) (c # s) = (if c = p then strip_prefix ps s else None)"

lemma strip_prefix_iff: "strip_prefix p s = Some r \<longleftrightarrow> s = p @ r"
  by (induction p s rule: strip_prefix.induct) auto

lemma strip_prefix_append [simp]: "strip_prefix p (p @ r) = Some r"
  by (simp add: strip_prefix_iff)

end
