(* ===== verification/StorageKey.thy ===== *)
theory StorageKey
  imports Patterns
begin

text \<open>
  The names of stored blobs (\<open>storage/storage-key.ts\<close>): the bounded decimal generations and
  the key grammar \<open>p/<uuid>/f/<uuid>/g/<generation>/<sha256>.blob\<close>.
\<close>

datatype storage_key_error = STORAGE_UINT64_INVALID | STORAGE_KEY_INVALID

definition STORAGE_UINT64_MAX :: nat where
  "STORAGE_UINT64_MAX = 18446744073709551615"

record StorageKeyPartsV1 =
  project_id :: jstr
  source_file_id :: jstr
  generation_decimal :: jstr
  checksum_sha256 :: jstr

definition parseStorageUint64DecimalValue ::
    "jstr \<Rightarrow> bool \<Rightarrow> (storage_key_error, nat) result" where
  "parseStorageUint64DecimalValue value positive =
     (let grammar = (if positive then is_positive_decimal else is_unsigned_decimal)
      in if \<not> grammar value then Inl STORAGE_UINT64_INVALID
         else
           let parsed = digits_value 0 value
           in if parsed > STORAGE_UINT64_MAX then Inl STORAGE_UINT64_INVALID else Inr parsed)"

definition formatStorageKey :: "StorageKeyPartsV1 \<Rightarrow> (storage_key_error, jstr) result" where
  "formatStorageKey parts =
     (if \<not> is_uuid (project_id parts) \<or> \<not> is_uuid (source_file_id parts) then
        Inl STORAGE_KEY_INVALID
      else
        case parseStorageUint64DecimalValue (generation_decimal parts) True of
          Inl _ \<Rightarrow> Inl STORAGE_KEY_INVALID
        | Inr _ \<Rightarrow>
            if \<not> is_sha256 (checksum_sha256 parts) then Inl STORAGE_KEY_INVALID
            else Inr (js ''p/'' @ project_id parts @ js ''/f/'' @ source_file_id parts @
                      js ''/g/'' @ generation_decimal parts @ js ''/'' @
                      checksum_sha256 parts @ js ''.blob''))"

text \<open>\<open>STORAGE_KEY.exec(value)\<close>: the four capture groups of the anchored pattern.\<close>

definition storage_key_groups :: "jstr \<Rightarrow> (jstr \<times> jstr \<times> jstr \<times> jstr) option" where
  "storage_key_groups value =
     do {
       r1 \<leftarrow> strip_prefix (js ''p/'') value;
       let project = take 36 r1;
       r2 \<leftarrow> strip_prefix (js ''/f/'') (drop 36 r1);
       let file = take 36 r2;
       r3 \<leftarrow> strip_prefix (js ''/g/'') (drop 36 r2);
       let generation = takeWhile is_digit r3;
       r4 \<leftarrow> strip_prefix (js ''/'') (dropWhile is_digit r3);
       let checksum = take 64 r4;
       if is_uuid project \<and> is_uuid file \<and> is_positive_decimal generation \<and>
          is_sha256 checksum \<and> drop 64 r4 = js ''.blob''
       then Some (project, file, generation, checksum)
       else None
     }"

definition parseStorageKey :: "jstr \<Rightarrow> (storage_key_error, StorageKeyPartsV1) result" where
  "parseStorageKey value =
     (case storage_key_groups value of
        None \<Rightarrow> Inl STORAGE_KEY_INVALID
      | Some (project, file, generation, checksum) \<Rightarrow>
          case parseStorageUint64DecimalValue generation True of
            Inl _ \<Rightarrow> Inl STORAGE_KEY_INVALID
          | Inr _ \<Rightarrow>
              Inr \<lparr>project_id = project, source_file_id = file,
                   generation_decimal = generation, checksum_sha256 = checksum\<rparr>)"

section \<open>Generations\<close>

lemma parseUint64_Inr_iff:
  "parseStorageUint64DecimalValue value positive = Inr n \<longleftrightarrow>
     (if positive then is_positive_decimal value else is_unsigned_decimal value) \<and>
     n = digits_value 0 value \<and> n \<le> STORAGE_UINT64_MAX"
  by (auto simp: parseStorageUint64DecimalValue_def Let_def)

text \<open>The accepted decimals are exactly the canonical printings of the 64-bit values.\<close>

lemma parseUint64_printing:
  "parseStorageUint64DecimalValue value False = Inr n \<longleftrightarrow>
     value = dec_nat n \<and> n \<le> STORAGE_UINT64_MAX"
  using unsigned_decimal_unique dec_nat_unsigned by (auto simp: parseUint64_Inr_iff)

section \<open>Keys\<close>

lemma storage_key_groups_Some:
  "storage_key_groups value = Some (p, f, g, c) \<longleftrightarrow>
     value = js ''p/'' @ p @ js ''/f/'' @ f @ js ''/g/'' @ g @ js ''/'' @ c @ js ''.blob'' \<and>
     is_uuid p \<and> is_uuid f \<and> is_positive_decimal g \<and> is_sha256 c"
  (is "?L \<longleftrightarrow> ?R")
proof
  assume ?L
  then obtain r1 r2 r3 r4 where
    "value = js ''p/'' @ r1" "drop 36 r1 = js ''/f/'' @ r2" "drop 36 r2 = js ''/g/'' @ r3"
    "dropWhile is_digit r3 = js ''/'' @ r4" "drop 64 r4 = js ''.blob''"
    and groups: "p = take 36 r1" "f = take 36 r2" "g = takeWhile is_digit r3" "c = take 64 r4"
    and ok: "is_uuid p" "is_uuid f" "is_positive_decimal g" "is_sha256 c"
    by (auto simp: storage_key_groups_def Let_def strip_prefix_iff bind_eq_Some_conv split: if_splits)
  moreover have "r1 = p @ drop 36 r1" "r2 = f @ drop 36 r2" "r4 = c @ drop 64 r4"
    "r3 = g @ dropWhile is_digit r3"
    using groups by simp_all
  ultimately show ?R by auto
next
  assume R: ?R
  then have len: "length p = 36" "length f = 36" "length c = 64"
    by (auto simp: is_uuid_length is_sha256_def)
  have slash: "js ''/'' = [47]" "\<not> is_digit 47"
    by (simp_all add: js_simps is_digit_def)
  have "list_all is_digit g"
    using R by (auto simp: is_positive_decimal_def)
  then have "takeWhile is_digit (g @ js ''/'' @ t) = g"
    and "dropWhile is_digit (g @ js ''/'' @ t) = js ''/'' @ t" for t
    by (simp_all add: slash takeWhile_append2 dropWhile_append2 list_all_iff)
  then show ?L
    using R len by (simp add: storage_key_groups_def Let_def)
qed

lemma formatStorageKey_Inr_iff:
  "formatStorageKey parts = Inr s \<longleftrightarrow>
     is_uuid (project_id parts) \<and> is_uuid (source_file_id parts) \<and>
     is_positive_decimal (generation_decimal parts) \<and>
     digits_value 0 (generation_decimal parts) \<le> STORAGE_UINT64_MAX \<and>
     is_sha256 (checksum_sha256 parts) \<and>
     s = js ''p/'' @ project_id parts @ js ''/f/'' @ source_file_id parts @ js ''/g/'' @
         generation_decimal parts @ js ''/'' @ checksum_sha256 parts @ js ''.blob''"
  by (auto simp: formatStorageKey_def parseStorageUint64DecimalValue_def Let_def
           split: sum.splits if_splits)

lemma parseStorageKey_Inr_iff:
  "parseStorageKey s = Inr parts \<longleftrightarrow> formatStorageKey parts = Inr s"
proof -
  have "parseStorageKey s = Inr parts \<longleftrightarrow>
    storage_key_groups s =
      Some (project_id parts, source_file_id parts, generation_decimal parts, checksum_sha256 parts)
    \<and> digits_value 0 (generation_decimal parts) \<le> STORAGE_UINT64_MAX \<and>
      is_positive_decimal (generation_decimal parts)"
    unfolding parseStorageKey_def
    by (auto simp: parseUint64_Inr_iff parseStorageUint64DecimalValue_def Let_def
             split: option.splits sum.splits if_splits prod.splits)
  then show ?thesis
    by (auto simp: storage_key_groups_Some formatStorageKey_Inr_iff)
qed

text \<open>
  C40: Parser and printer of storage keys are exact inverses: a text is accepted with some parts
  if and only if those parts are valid and print to that text.
\<close>

theorem storage_key_inverse: "parseStorageKey s = Inr parts \<longleftrightarrow> formatStorageKey parts = Inr s"
  by (rule parseStorageKey_Inr_iff)

end
