(* ===== verification/StorageOperation.thy ===== *)
theory StorageOperation
  imports CanonicalJson StorageKey
begin

text \<open>
  The closed contract of a storage operation (\<open>storage/storage-operation.contract.ts\<close>): the
  parser of the fifteen-field record, the table of the shapes each kind may take, and the
  idempotency key of an accepted operation.  All rejections are the single \<open>TypeError\<close>
  \<open>STORAGE_OPERATION_INVALID\<close>.
\<close>

datatype storage_operation_error = STORAGE_OPERATION_INVALID

datatype StorageOperationKind = PROMOTE | DELETE_QUARANTINE | DELETE_BLOB | ABORT_PROMOTION

datatype StorageAuthorizationKind = UPLOAD_COMMIT | MOVE_ABORT | SOURCE_FILE_TOMBSTONE

record StorageOperationPreimageV1 =
  op_kind :: StorageOperationKind
  op_actor_id :: jstr
  op_intent_id :: jstr
  op_project_id :: jstr
  op_source_file_id :: jstr
  op_object_id :: jstr
  op_object_generation_decimal :: jstr
  op_storage_key :: jstr
  op_quarantine_key :: "jstr option"
  op_expected_sha256 :: jstr
  op_expected_size_decimal :: jstr
  op_authorization_kind :: StorageAuthorizationKind
  op_authorization_id :: jstr
  op_storage_epoch :: jstr

definition OPERATION_KEYS :: "string list" where
  "OPERATION_KEYS =
     [''operation_version'', ''kind'', ''actor_id'', ''intent_id'', ''project_id'',
      ''source_file_id'', ''object_id'', ''object_generation_decimal'', ''storage_key'',
      ''quarantine_key'', ''expected_sha256'', ''expected_size_decimal'', ''authorization_kind'',
      ''authorization_id'', ''storage_epoch'']"

text \<open>\<open>SHAPES\<close>: whether the quarantine key is required, and the authorizations of each kind.\<close>

fun shape_quarantine_required :: "StorageOperationKind \<Rightarrow> bool" where
  "shape_quarantine_required DELETE_BLOB = False"
| "shape_quarantine_required _ = True"

fun shape_authorization :: "StorageOperationKind \<Rightarrow> StorageAuthorizationKind list" where
  "shape_authorization PROMOTE = [UPLOAD_COMMIT]"
| "shape_authorization DELETE_QUARANTINE = [UPLOAD_COMMIT, MOVE_ABORT]"
| "shape_authorization DELETE_BLOB = [SOURCE_FILE_TOMBSTONE]"
| "shape_authorization ABORT_PROMOTION = [MOVE_ABORT]"

fun kind_text :: "StorageOperationKind \<Rightarrow> string" where
  "kind_text PROMOTE = ''PROMOTE''"
| "kind_text DELETE_QUARANTINE = ''DELETE_QUARANTINE''"
| "kind_text DELETE_BLOB = ''DELETE_BLOB''"
| "kind_text ABORT_PROMOTION = ''ABORT_PROMOTION''"

fun authorization_text :: "StorageAuthorizationKind \<Rightarrow> string" where
  "authorization_text UPLOAD_COMMIT = ''UPLOAD_COMMIT''"
| "authorization_text MOVE_ABORT = ''MOVE_ABORT''"
| "authorization_text SOURCE_FILE_TOMBSTONE = ''SOURCE_FILE_TOMBSTONE''"

section \<open>Field parsers\<close>

fun closedOperationRecord ::
    "jsval \<Rightarrow> (storage_operation_error, (jstr \<times> jsval) list) result" where
  "closedOperationRecord (JObj kvs) =
     (if length kvs \<noteq> length OPERATION_KEYS \<or>
         list_ex (\<lambda>kv. fst kv \<notin> set (map js OPERATION_KEYS)) kvs \<or>
         list_ex (\<lambda>k. map_of kvs (js k) = None) OPERATION_KEYS
      then Inl STORAGE_OPERATION_INVALID
      else Inr (map (\<lambda>k. (js k, get_prop kvs (js k))) OPERATION_KEYS))"
| "closedOperationRecord _ = Inl STORAGE_OPERATION_INVALID"

fun requiredString :: "jsval \<Rightarrow> (storage_operation_error, jstr) result" where
  "requiredString (JStr s) = Inr s"
| "requiredString _ = Inl STORAGE_OPERATION_INVALID"

fun parse_uuid :: "jsval \<Rightarrow> (storage_operation_error, jstr) result" where
  "parse_uuid (JStr s) = (if is_uuid s then Inr s else Inl STORAGE_OPERATION_INVALID)"
| "parse_uuid _ = Inl STORAGE_OPERATION_INVALID"

fun parse_sha256 :: "jsval \<Rightarrow> (storage_operation_error, jstr) result" where
  "parse_sha256 (JStr s) = (if is_sha256 s then Inr s else Inl STORAGE_OPERATION_INVALID)"
| "parse_sha256 _ = Inl STORAGE_OPERATION_INVALID"

fun operationKind :: "jsval \<Rightarrow> (storage_operation_error, StorageOperationKind) result" where
  "operationKind (JStr s) =
     (if s = js ''PROMOTE'' then Inr PROMOTE
      else if s = js ''DELETE_QUARANTINE'' then Inr DELETE_QUARANTINE
      else if s = js ''DELETE_BLOB'' then Inr DELETE_BLOB
      else if s = js ''ABORT_PROMOTION'' then Inr ABORT_PROMOTION
      else Inl STORAGE_OPERATION_INVALID)"
| "operationKind _ = Inl STORAGE_OPERATION_INVALID"

fun authorization :: "jsval \<Rightarrow> (storage_operation_error, StorageAuthorizationKind) result" where
  "authorization (JStr s) =
     (if s = js ''UPLOAD_COMMIT'' then Inr UPLOAD_COMMIT
      else if s = js ''MOVE_ABORT'' then Inr MOVE_ABORT
      else if s = js ''SOURCE_FILE_TOMBSTONE'' then Inr SOURCE_FILE_TOMBSTONE
      else Inl STORAGE_OPERATION_INVALID)"
| "authorization _ = Inl STORAGE_OPERATION_INVALID"

definition invalid_of :: "('e, 'a) result \<Rightarrow> (storage_operation_error, 'a) result" where
  "invalid_of r = (case r of Inl _ \<Rightarrow> Inl STORAGE_OPERATION_INVALID | Inr x \<Rightarrow> Inr x)"

lemma invalid_of_Inr [simp]: "invalid_of r = Inr x \<longleftrightarrow> r = Inr x"
  by (cases r) (auto simp: invalid_of_def)

section \<open>Parser and idempotency key\<close>

text \<open>The object the parser builds, as the value the digest is taken of.\<close>

definition operation_entries :: "StorageOperationPreimageV1 \<Rightarrow> (jstr \<times> jsval) list" where
  "operation_entries v =
     [(js ''operation_version'', JStr (js ''storage-operation.v1'')),
      (js ''kind'', JStr (js (kind_text (op_kind v)))),
      (js ''actor_id'', JStr (op_actor_id v)),
      (js ''intent_id'', JStr (op_intent_id v)),
      (js ''project_id'', JStr (op_project_id v)),
      (js ''source_file_id'', JStr (op_source_file_id v)),
      (js ''object_id'', JStr (op_object_id v)),
      (js ''object_generation_decimal'', JStr (op_object_generation_decimal v)),
      (js ''storage_key'', JStr (op_storage_key v)),
      (js ''quarantine_key'', (case op_quarantine_key v of None \<Rightarrow> JNull | Some q \<Rightarrow> JStr q)),
      (js ''expected_sha256'', JStr (op_expected_sha256 v)),
      (js ''expected_size_decimal'', JStr (op_expected_size_decimal v)),
      (js ''authorization_kind'', JStr (js (authorization_text (op_authorization_kind v)))),
      (js ''authorization_id'', JStr (op_authorization_id v)),
      (js ''storage_epoch'', JStr (op_storage_epoch v))]"

definition operation_value :: "StorageOperationPreimageV1 \<Rightarrow> jsval" where
  "operation_value v = JObj (operation_entries v)"

definition canonicalStorageOperationV1 ::
    "platform \<Rightarrow> jsval \<Rightarrow> (storage_operation_error, StorageOperationPreimageV1) result" where
  "canonicalStorageOperationV1 P v =
     bindE (closedOperationRecord v) (\<lambda>source.
     bindE (requiredString (get_prop source (js ''operation_version''))) (\<lambda>operationVersion.
     bindE (operationKind (get_prop source (js ''kind''))) (\<lambda>kind.
     bindE (parse_uuid (get_prop source (js ''actor_id''))) (\<lambda>actorId.
     bindE (parse_uuid (get_prop source (js ''intent_id''))) (\<lambda>intentId.
     bindE (parse_uuid (get_prop source (js ''project_id''))) (\<lambda>projectId.
     bindE (parse_uuid (get_prop source (js ''source_file_id''))) (\<lambda>sourceFileId.
     bindE (parse_uuid (get_prop source (js ''object_id''))) (\<lambda>objectId.
     bindE (requiredString (get_prop source (js ''object_generation_decimal''))) (\<lambda>generation.
     bindE (invalid_of (parseStorageUint64DecimalValue generation True)) (\<lambda>_.
     bindE (requiredString (get_prop source (js ''storage_key''))) (\<lambda>storageKey.
     let quarantineKey = get_prop source (js ''quarantine_key'') in
     bindE (parse_sha256 (get_prop source (js ''expected_sha256''))) (\<lambda>expectedSha256.
     bindE (requiredString (get_prop source (js ''expected_size_decimal''))) (\<lambda>expectedSize.
     bindE (invalid_of (parseStorageUint64DecimalValue expectedSize False)) (\<lambda>_.
     bindE (authorization (get_prop source (js ''authorization_kind''))) (\<lambda>authorizationKind.
     bindE (parse_uuid (get_prop source (js ''authorization_id''))) (\<lambda>authorizationId.
     bindE (parse_uuid (get_prop source (js ''storage_epoch''))) (\<lambda>storageEpoch.
     if operationVersion \<noteq> js ''storage-operation.v1'' then Inl STORAGE_OPERATION_INVALID
     else
     bindE (invalid_of (parseStorageKey storageKey)) (\<lambda>keyParts.
     if project_id keyParts \<noteq> projectId \<or> source_file_id keyParts \<noteq> sourceFileId \<or>
        generation_decimal keyParts \<noteq> generation \<or> checksum_sha256 keyParts \<noteq> expectedSha256
     then Inl STORAGE_OPERATION_INVALID
     else if authorizationKind \<notin> set (shape_authorization kind) \<or>
        (shape_quarantine_required kind \<and> \<not> is_string quarantineKey) \<or>
        (\<not> shape_quarantine_required kind \<and> quarantineKey \<noteq> JNull)
     then Inl STORAGE_OPERATION_INVALID
     else
       let operation =
         \<lparr>op_kind = kind, op_actor_id = actorId, op_intent_id = intentId,
          op_project_id = projectId, op_source_file_id = sourceFileId, op_object_id = objectId,
          op_object_generation_decimal = generation, op_storage_key = storageKey,
          op_quarantine_key = as_string quarantineKey,
          op_expected_sha256 = expectedSha256, op_expected_size_decimal = expectedSize,
          op_authorization_kind = authorizationKind, op_authorization_id = authorizationId,
          op_storage_epoch = storageEpoch\<rparr>
       in bindE (invalid_of (canonicalJsonV1 P (operation_value operation))) (\<lambda>_. Inr operation)))))))))))))))))))"

definition storageOperationIdempotencyKeyV1 ::
    "platform \<Rightarrow> jsval \<Rightarrow> (storage_operation_error, jstr) result" where
  "storageOperationIdempotencyKeyV1 P v =
     bindE (canonicalStorageOperationV1 P v) (\<lambda>operation.
       invalid_of (digestCanonicalV1 P (js ''storage-operation.v1'') (operation_value operation)))"

section \<open>What an accepted operation is\<close>

definition operation_ok :: "platform \<Rightarrow> StorageOperationPreimageV1 \<Rightarrow> bool" where
  "operation_ok P v \<longleftrightarrow>
     list_all is_uuid
       [op_actor_id v, op_intent_id v, op_project_id v, op_source_file_id v, op_object_id v,
        op_authorization_id v, op_storage_epoch v] \<and>
     is_sha256 (op_expected_sha256 v) \<and>
     (\<exists>n. parseStorageUint64DecimalValue (op_expected_size_decimal v) False = Inr n) \<and>
     formatStorageKey
       \<lparr>project_id = op_project_id v, source_file_id = op_source_file_id v,
        generation_decimal = op_object_generation_decimal v,
        checksum_sha256 = op_expected_sha256 v\<rparr> = Inr (op_storage_key v) \<and>
     op_authorization_kind v \<in> set (shape_authorization (op_kind v)) \<and>
     (op_quarantine_key v \<noteq> None \<longleftrightarrow> shape_quarantine_required (op_kind v)) \<and>
     canonicalizable (nfc P) (operation_value v)"

lemma parse_uuid_Inr [simp]: "parse_uuid v = Inr s \<longleftrightarrow> v = JStr s \<and> is_uuid s"
  by (cases v) auto

lemma parse_sha256_Inr [simp]: "parse_sha256 v = Inr s \<longleftrightarrow> v = JStr s \<and> is_sha256 s"
  by (cases v) auto

lemma requiredString_Inr [simp]: "requiredString v = Inr s \<longleftrightarrow> v = JStr s"
  by (cases v) auto

lemma operationKind_Inr [simp]: "operationKind v = Inr k \<longleftrightarrow> v = JStr (js (kind_text k))"
  by (cases v; cases k) auto

lemma authorization_Inr [simp]: "authorization v = Inr a \<longleftrightarrow> v = JStr (js (authorization_text a))"
  by (cases v; cases a) auto

lemma get_prop_map:
  "k \<in> set ks \<Longrightarrow> get_prop (map (\<lambda>k. (js k, f k)) ks) (js k) = f k"
  by (induction ks) (auto simp: get_prop_def)

lemma closedOperationRecord_get:
  "closedOperationRecord v = Inr source \<Longrightarrow> k \<in> set OPERATION_KEYS \<Longrightarrow>
     \<exists>kvs. v = JObj kvs \<and> get_prop source (js k) = get_prop kvs (js k)"
  by (cases v) (auto simp: get_prop_map split: if_splits)

lemma closedOperationRecord_value [simp]:
  "closedOperationRecord (operation_value v) = Inr (operation_entries v)"
  by (simp add: operation_value_def operation_entries_def OPERATION_KEYS_def get_prop_def)

lemma operation_entries_get [simp]:
  "get_prop (operation_entries v) (js ''operation_version'') = JStr (js ''storage-operation.v1'')"
  "get_prop (operation_entries v) (js ''kind'') = JStr (js (kind_text (op_kind v)))"
  "get_prop (operation_entries v) (js ''actor_id'') = JStr (op_actor_id v)"
  "get_prop (operation_entries v) (js ''intent_id'') = JStr (op_intent_id v)"
  "get_prop (operation_entries v) (js ''project_id'') = JStr (op_project_id v)"
  "get_prop (operation_entries v) (js ''source_file_id'') = JStr (op_source_file_id v)"
  "get_prop (operation_entries v) (js ''object_id'') = JStr (op_object_id v)"
  "get_prop (operation_entries v) (js ''object_generation_decimal'') =
     JStr (op_object_generation_decimal v)"
  "get_prop (operation_entries v) (js ''storage_key'') = JStr (op_storage_key v)"
  "get_prop (operation_entries v) (js ''quarantine_key'') =
     (case op_quarantine_key v of None \<Rightarrow> JNull | Some q \<Rightarrow> JStr q)"
  "get_prop (operation_entries v) (js ''expected_sha256'') = JStr (op_expected_sha256 v)"
  "get_prop (operation_entries v) (js ''expected_size_decimal'') = JStr (op_expected_size_decimal v)"
  "get_prop (operation_entries v) (js ''authorization_kind'') =
     JStr (js (authorization_text (op_authorization_kind v)))"
  "get_prop (operation_entries v) (js ''authorization_id'') = JStr (op_authorization_id v)"
  "get_prop (operation_entries v) (js ''storage_epoch'') = JStr (op_storage_epoch v)"
  by (simp_all add: operation_entries_def get_prop_def)

lemma canonicalStorageOperationV1_ok:
  assumes "canonicalStorageOperationV1 P v = Inr x"
  shows "operation_ok P x"
  using assms
  unfolding canonicalStorageOperationV1_def Let_def result_iffs invalid_of_Inr parse_uuid_Inr
    parse_sha256_Inr requiredString_Inr operationKind_Inr authorization_Inr parseStorageKey_Inr_iff
  apply (elim exE conjE)
  subgoal for source ov k actor intent proj fil obj gen n skey sha size m auth aid epoch parts u
    by (cases parts; cases "get_prop source (js ''quarantine_key'')")
      (auto simp: operation_ok_def canonicalJsonV1_Inr_iff)
  done

lemma canonicalStorageOperationV1_value:
  assumes "operation_ok P x"
  shows "canonicalStorageOperationV1 P (operation_value x) = Inr x"
proof -
  obtain n where n: "parseStorageUint64DecimalValue (op_expected_size_decimal x) False = Inr n"
    using assms by (auto simp: operation_ok_def)
  have key: "formatStorageKey
       \<lparr>project_id = op_project_id x, source_file_id = op_source_file_id x,
        generation_decimal = op_object_generation_decimal x,
        checksum_sha256 = op_expected_sha256 x\<rparr> = Inr (op_storage_key x)"
    using assms by (simp add: operation_ok_def)
  then obtain g where g: "parseStorageUint64DecimalValue (op_object_generation_decimal x) True = Inr g"
    by (simp add: formatStorageKey_Inr_iff parseUint64_Inr_iff)
  have q: "as_string (case op_quarantine_key x of None \<Rightarrow> JNull | Some q \<Rightarrow> JStr q) = op_quarantine_key x"
    by (cases "op_quarantine_key x") auto
  have json: "canonicalJsonV1 P (operation_value x) =
      Inr (utf8_encode (canon_text (canon_norm (nfc P) (operation_value x))))"
    using assms by (simp add: canonicalJsonV1_Inr_iff operation_ok_def)
  have parts: "parseStorageKey (op_storage_key x) = Inr \<lparr>project_id = op_project_id x,
        source_file_id = op_source_file_id x, generation_decimal = op_object_generation_decimal x,
        checksum_sha256 = op_expected_sha256 x\<rparr>"
    using key by (simp add: parseStorageKey_Inr_iff)
  have kind: "operationKind (JStr (js (kind_text (op_kind x)))) = Inr (op_kind x)"
    by (simp only: operationKind_Inr)
  have auth: "authorization (JStr (js (authorization_text (op_authorization_kind x)))) =
      Inr (op_authorization_kind x)"
    by (simp only: authorization_Inr)
  have rebuilt: "op_quarantine_key x = q \<Longrightarrow>
      \<lparr>op_kind = op_kind x, op_actor_id = op_actor_id x, op_intent_id = op_intent_id x,
      op_project_id = op_project_id x, op_source_file_id = op_source_file_id x, op_object_id =
      op_object_id x, op_object_generation_decimal = op_object_generation_decimal x,
      op_storage_key = op_storage_key x, op_quarantine_key = q, op_expected_sha256 =
      op_expected_sha256 x, op_expected_size_decimal = op_expected_size_decimal x,
      op_authorization_kind = op_authorization_kind x, op_authorization_id =
      op_authorization_id x, op_storage_epoch = op_storage_epoch x\<rparr> = x" for q
    by (cases x) simp
  note inr = invalid_of_def [of "Inr z" for z]
  show ?thesis
    unfolding canonicalStorageOperationV1_def Let_def
    using assms
    by (auto simp: n g q json parts inr kind auth rebuilt operation_ok_def
        simp del: operationKind.simps authorization.simps split: option.splits)
qed

section \<open>What the idempotency key identifies\<close>

text \<open>The bytes the key of an operation is the SHA-256 of.\<close>

definition operation_preimage :: "platform \<Rightarrow> StorageOperationPreimageV1 \<Rightarrow> nat list" where
  "operation_preimage P x =
     utf8_encode (nfc P (js ''storage-operation.v1'')) @ [0] @
     utf8_encode (canon_text (canon_norm (nfc P) (operation_value x)))"

lemma operation_key_preimage:
  assumes "canonicalStorageOperationV1 P v = Inr x" and "storageOperationIdempotencyKeyV1 P v = Inr k"
  shows "k = sha256_hex P (operation_preimage P x)"
  using assms
  by (auto simp: storageOperationIdempotencyKeyV1_def digestCanonicalV1_def operation_preimage_def
      canonicalJsonV1_Inr_iff split: if_splits)

lemma canon_norm_entries_eq:
  assumes "canon_norm nf (JObj kvs) = canon_norm nf (JObj lvs)"
    and "distinct (map fst (canon_entries nf kvs))"
  shows "map_of (canon_entries nf kvs) = map_of (canon_entries nf lvs)"
proof (rule map_of_eqI)
  have s: "sort_key fst (canon_entries nf kvs) = sort_key fst (canon_entries nf lvs)"
    using assms(1) by simp
  then have m: "mset (canon_entries nf kvs) = mset (canon_entries nf lvs)"
    by (metis mset_sort)
  then show "set (map fst (canon_entries nf kvs)) = set (map fst (canon_entries nf lvs))"
    by (metis mset_eq_setD set_map)
  have d: "distinct (map fst (canon_entries nf lvs))"
    using assms(2) m by (metis mset_map mset_eq_imp_distinct_iff)
  show "\<forall>k\<in>set (map fst (canon_entries nf kvs)).
      map_of (canon_entries nf kvs) k = map_of (canon_entries nf lvs) k"
    using assms(2) d m by (metis map_of_inject_set mset_eq_setD)
qed

lemma pattern_ascii:
  "is_uuid s \<Longrightarrow> \<forall>c \<in> set s. c < 128"
  "is_sha256 s \<Longrightarrow> \<forall>c \<in> set s. c < 128"
  "is_positive_decimal s \<Longrightarrow> \<forall>c \<in> set s. c < 128"
  "is_unsigned_decimal s \<Longrightarrow> \<forall>c \<in> set s. c < 128"
proof -
  show "is_uuid s \<Longrightarrow> \<forall>c \<in> set s. c < 128"
    by (fastforce dest: is_uuid_ascii simp: char_class_defs)
  show "is_sha256 s \<Longrightarrow> \<forall>c \<in> set s. c < 128"
    by (fastforce dest: is_sha256_ascii simp: char_class_defs)
  show d: "is_positive_decimal s \<Longrightarrow> \<forall>c \<in> set s. c < 128" for s
    by (fastforce simp: is_positive_decimal_def list_all_iff is_digit_def)
  show "is_unsigned_decimal s \<Longrightarrow> \<forall>c \<in> set s. c < 128"
    using d by (auto simp: is_unsigned_decimal_def)
qed

lemma js_ascii:
  "c \<in> set (js (kind_text k)) \<Longrightarrow> c < 128"
  "c \<in> set (js (authorization_text a)) \<Longrightarrow> c < 128"
  by (cases k; auto simp: js_simps) (cases a; auto simp: js_simps)

definition nfc_quarantine :: "(jstr \<Rightarrow> jstr) \<Rightarrow> StorageOperationPreimageV1 \<Rightarrow> StorageOperationPreimageV1" where
  "nfc_quarantine nf x = x\<lparr>op_quarantine_key := map_option nf (op_quarantine_key x)\<rparr>"

lemma operation_entries_keys: "map fst (operation_entries x) = map js OPERATION_KEYS"
  by (simp add: operation_entries_def OPERATION_KEYS_def)

lemma distinct_operation_keys: "distinct (map js OPERATION_KEYS)"
  by (simp add: OPERATION_KEYS_def)

lemma kind_text_inject [simp]: "kind_text k = kind_text k' \<longleftrightarrow> k = k'"
  by (cases k; cases k') auto

lemma authorization_text_inject [simp]: "authorization_text a = authorization_text a' \<longleftrightarrow> a = a'"
  by (cases a; cases a') auto

lemma operation_entries_inject: "operation_entries x = operation_entries y \<Longrightarrow> x = y"
  by (cases x; cases y) (auto simp: operation_entries_def split: option.splits)

lemma storage_key_ascii:
  assumes "operation_ok P x"
  shows "\<forall>c \<in> set (op_storage_key x). c < 128"
  using assms
  by (auto simp: operation_ok_def formatStorageKey_Inr_iff js_simps parseUint64_Inr_iff
      dest!: pattern_ascii)

lemma operation_literals_ascii:
  "k \<in> insert ''storage-operation.v1'' (set OPERATION_KEYS) \<Longrightarrow> \<forall>c \<in> set (js k). c < 128"
  unfolding OPERATION_KEYS_def by (simp, elim disjE) (simp_all add: js_simps)

lemma operation_canon_entries:
  assumes nf: "unicode_normalizer nf" and ok: "operation_ok P x"
  shows "canon_entries nf (operation_entries x) = operation_entries (nfc_quarantine nf x)"
proof -
  have fixed: "\<forall>c \<in> set s. c < 128 \<Longrightarrow> nf s = s" for s
    using nf by (auto simp: unicode_normalizer_def)
  have keys: "k \<in> insert ''storage-operation.v1'' (set OPERATION_KEYS) \<Longrightarrow> nf (js k) = js k" for k
    by (intro fixed operation_literals_ascii)
  have texts: "nf (js (kind_text k)) = js (kind_text k)"
    "nf (js (authorization_text a)) = js (authorization_text a)" for k a
    using js_ascii fixed by blast+
  have ascii: "nf s = s" if "is_uuid s \<or> is_sha256 s \<or> is_positive_decimal s \<or> is_unsigned_decimal s" for s
    using that pattern_ascii fixed by blast
  have fields: "nf (op_actor_id x) = op_actor_id x" "nf (op_intent_id x) = op_intent_id x"
    "nf (op_project_id x) = op_project_id x" "nf (op_source_file_id x) = op_source_file_id x"
    "nf (op_object_id x) = op_object_id x" "nf (op_authorization_id x) = op_authorization_id x"
    "nf (op_storage_epoch x) = op_storage_epoch x" "nf (op_expected_sha256 x) = op_expected_sha256 x"
    "nf (op_object_generation_decimal x) = op_object_generation_decimal x"
    "nf (op_expected_size_decimal x) = op_expected_size_decimal x"
    using ok by (auto simp: operation_ok_def formatStorageKey_Inr_iff parseUint64_Inr_iff intro!: ascii)
  show ?thesis
    using storage_key_ascii [OF ok, THEN fixed]
    by (cases "op_quarantine_key x")
      (simp_all add: operation_entries_def nfc_quarantine_def fields texts keys OPERATION_KEYS_def)
qed

lemma entries_map_of: "distinct (map fst kvs) \<Longrightarrow> kvs = map (\<lambda>k. (k, the (map_of kvs k))) (map fst kvs)"
  by (rule nth_equalityI) (simp_all add: prod_eq_iff, metis distinct_map_fst_map_of_in nth_mem option.sel prod.collapse)

lemma canonicalStorageOperationV1_quarantine:
  assumes "canonicalStorageOperationV1 P v = Inr x"
  shows "\<exists>source. closedOperationRecord v = Inr source \<and>
    as_string (get_prop source (js ''quarantine_key'')) = op_quarantine_key x"
  using assms
  unfolding canonicalStorageOperationV1_def Let_def result_iffs invalid_of_Inr
  apply (elim exE conjE)
  subgoal for source
    by (rule exI [of _ source]) (simp only: sum.inject, erule subst, simp)
  done

lemma get_prop_string: "get_prop kvs k = JStr s \<Longrightarrow> (k, JStr s) \<in> set kvs"
  by (cases "map_of kvs k") (auto simp: get_prop_def dest: map_of_SomeD)

lemma canonicalStorageOperationV1_quarantine_units:
  assumes "canonicalStorageOperationV1 P v = Inr x" and "js_units v" and "op_quarantine_key x = Some q"
  shows "utf16 q"
proof -
  obtain source where s: "closedOperationRecord v = Inr source"
    and a: "get_prop source (js ''quarantine_key'') = JStr q"
    using canonicalStorageOperationV1_quarantine [OF assms(1)] assms(3) by auto
  have "''quarantine_key'' \<in> set OPERATION_KEYS"
    by (simp add: OPERATION_KEYS_def)
  from closedOperationRecord_get [OF s this] a
  obtain kvs where v: "v = JObj kvs" and "get_prop kvs (js ''quarantine_key'') = JStr q"
    by auto
  then have "(js ''quarantine_key'', JStr q) \<in> set kvs"
    by (blast intro: get_prop_string)
  then show ?thesis
    using assms(2) unfolding v by auto
qed

lemma operation_units:
  assumes "canonicalStorageOperationV1 P v = Inr x" and "js_units v"
  shows "js_units (operation_value x)"
proof -
  have ok: "operation_ok P x"
    using assms(1) by (rule canonicalStorageOperationV1_ok)
  have ascii: "\<forall>c \<in> set s. c < 128 \<Longrightarrow> utf16 s" for s
    by (fastforce simp: utf16_def)
  have q: "utf16 q" if "op_quarantine_key x = Some q" for q
    using assms that by (rule canonicalStorageOperationV1_quarantine_units)
  have keys: "k \<in> insert ''storage-operation.v1'' (set OPERATION_KEYS) \<Longrightarrow> utf16 (js k)" for k
    by (intro ascii operation_literals_ascii)
  have texts: "utf16 (js (kind_text k))" "utf16 (js (authorization_text a))" for k a
    using js_ascii ascii by blast+
  have pat: "utf16 s" if "is_uuid s \<or> is_sha256 s \<or> is_positive_decimal s \<or> is_unsigned_decimal s" for s
    using that pattern_ascii ascii by blast
  have fields: "utf16 (op_actor_id x)" "utf16 (op_intent_id x)" "utf16 (op_project_id x)"
    "utf16 (op_source_file_id x)" "utf16 (op_object_id x)" "utf16 (op_authorization_id x)"
    "utf16 (op_storage_epoch x)" "utf16 (op_expected_sha256 x)"
    "utf16 (op_object_generation_decimal x)" "utf16 (op_expected_size_decimal x)"
    using ok by (auto simp: operation_ok_def formatStorageKey_Inr_iff parseUint64_Inr_iff intro!: pat)
  show ?thesis
    using q storage_key_ascii [OF ok, THEN ascii]
    by (cases "op_quarantine_key x")
      (simp_all add: operation_value_def operation_entries_def fields texts keys OPERATION_KEYS_def)
qed

lemma operation_norm_inject:
  assumes nf: "unicode_normalizer nf" and ok: "operation_ok P x" "operation_ok Q y"
    and eq: "canon_norm nf (operation_value x) = canon_norm nf (operation_value y)"
  shows "nfc_quarantine nf x = nfc_quarantine nf y"
proof -
  let ?e = "\<lambda>z. operation_entries (nfc_quarantine nf z)"
  have e: "canon_entries nf (operation_entries x) = ?e x" "canon_entries nf (operation_entries y) = ?e y"
    using operation_canon_entries [OF nf] ok by auto
  have "map_of (?e x) = map_of (?e y)"
    using canon_norm_entries_eq [of nf "operation_entries x" "operation_entries y"] eq
    unfolding e operation_value_def by (simp add: operation_entries_keys distinct_operation_keys)
  then have "?e x = ?e y"
    using entries_map_of [of "?e x"] entries_map_of [of "?e y"]
    by (simp add: operation_entries_keys distinct_operation_keys)
  then show ?thesis
    by (rule operation_entries_inject)
qed

text \<open>
  C37: An accepted operation is well formed, its own value is accepted as the same operation, and
  its idempotency key is that of the record it was parsed from: the canonical form is a fixed
  point of the parser.
\<close>

theorem storage_operation_fixpoint:
  assumes "canonicalStorageOperationV1 P v = Inr x"
  shows "operation_ok P x \<and> canonicalStorageOperationV1 P (operation_value x) = Inr x \<and>
    storageOperationIdempotencyKeyV1 P (operation_value x) = storageOperationIdempotencyKeyV1 P v"
proof -
  have "operation_ok P x" "canonicalStorageOperationV1 P (operation_value x) = Inr x"
    using assms by (auto intro: canonicalStorageOperationV1_ok canonicalStorageOperationV1_value)
  then show ?thesis
    using assms by (simp add: storageOperationIdempotencyKeyV1_def)
qed

text \<open>
  C24: Two accepted operations that get the same idempotency key are the same operation, up to
  the Unicode normalization of the quarantine key, or else the two byte strings that were
  hashed are an explicit SHA-256 collision.
\<close>

theorem idempotency_key_identifies_operation:
  assumes nf: "unicode_normalizer (nfc P)" and units: "js_units v" "js_units w"
    and v: "canonicalStorageOperationV1 P v = Inr x" "storageOperationIdempotencyKeyV1 P v = Inr k"
    and w: "canonicalStorageOperationV1 P w = Inr y" "storageOperationIdempotencyKeyV1 P w = Inr k"
  shows "nfc_quarantine (nfc P) x = nfc_quarantine (nfc P) y \<or>
    (operation_preimage P x \<noteq> operation_preimage P y \<and>
     sha256_hex P (operation_preimage P x) = sha256_hex P (operation_preimage P y))"
proof (cases "operation_preimage P x = operation_preimage P y")
  case True
  have ok: "operation_ok P x" "operation_ok P y"
    using v w canonicalStorageOperationV1_ok by blast+
  then have "canonical (canon_norm (nfc P) (operation_value x))"
    "canonical (canon_norm (nfc P) (operation_value y))"
    using canonical_canon_norm [OF nf] operation_units units v w by (auto simp: operation_ok_def)
  then have "canon_norm (nfc P) (operation_value x) = canon_norm (nfc P) (operation_value y)"
    using True canonical_bytes_inject by (simp add: operation_preimage_def)
  then show ?thesis
    using operation_norm_inject [OF nf ok] by simp
next
  case False
  then show ?thesis
    using operation_key_preimage v w by metis
qed


section \<open>A concrete operation\<close>

definition sample_uuid :: "string" where
  "sample_uuid = ''0b5bd1a8-7c3e-4a4f-9d39-3a2f8e1c77aa''"

definition sample_sha256 :: "string" where
  "sample_sha256 = ''9f86d081884c7d659a2feaa0c55ad015a3bf4f1b2b0b822cd15d6c15b0f00a08''"

definition sample_operation :: StorageOperationPreimageV1 where
  "sample_operation =
     \<lparr>op_kind = PROMOTE, op_actor_id = js sample_uuid, op_intent_id = js sample_uuid,
      op_project_id = js sample_uuid, op_source_file_id = js sample_uuid,
      op_object_id = js sample_uuid, op_object_generation_decimal = js ''7'',
      op_storage_key = js ''p/'' @ js sample_uuid @ js ''/f/'' @ js sample_uuid @ js ''/g/'' @
        js ''7'' @ js ''/'' @ js sample_sha256 @ js ''.blob'',
      op_quarantine_key = Some (js ''q/upload-1''), op_expected_sha256 = js sample_sha256,
      op_expected_size_decimal = js ''1024'', op_authorization_kind = UPLOAD_COMMIT,
      op_authorization_id = js sample_uuid, op_storage_epoch = js sample_uuid\<rparr>"

lemma sample_patterns:
  "is_uuid (js sample_uuid)" "is_sha256 (js sample_sha256)"
  "is_positive_decimal (js ''7'')" "is_unsigned_decimal (js ''1024'')"
  "digits_value 0 (js ''7'') = 7" "digits_value 0 (js ''1024'') = 1024"
  by (code_simp)+

lemma sample_operation_ok: "operation_ok plain_platform sample_operation"
proof -
  have wf: "isWellFormedUnicodeScalarV1 (js k)"
    if "k \<in> insert ''storage-operation.v1'' (set OPERATION_KEYS)" for k
    using operation_literals_ascii [OF that] by (rule wf_ascii)
  have texts: "isWellFormedUnicodeScalarV1 (js (kind_text k))"
    "isWellFormedUnicodeScalarV1 (js (authorization_text a))" for k a
    by (blast intro: wf_ascii js_ascii)+
  have "\<forall>c \<in> set (js ''q/upload-1''). c < 128"
    by (simp add: js_simps)
  moreover have "\<forall>c \<in> set (op_storage_key sample_operation). c < 128"
    using sample_patterns pattern_ascii(1,2)
    by (auto simp: sample_operation_def js_append js_simps)
  moreover have "isWellFormedUnicodeScalarV1 s" if "is_uuid s \<or> is_sha256 s \<or> is_positive_decimal s \<or> is_unsigned_decimal s" for s
    using that pattern_ascii wf_ascii by blast
  moreover have "map (\<lambda>kv. fst kv) (operation_entries sample_operation) = map js OPERATION_KEYS"
    using operation_entries_keys by simp
  ultimately have "canonicalizable (nfc plain_platform) (operation_value sample_operation)"
    using sample_patterns wf_ascii
      texts(1) [of PROMOTE] texts(2) [of UPLOAD_COMMIT]
    by (simp add: operation_value_def operation_entries_def sample_operation_def wf OPERATION_KEYS_def)
  then show ?thesis
    using sample_patterns
    by (simp add: operation_ok_def formatStorageKey_Inr_iff parseUint64_Inr_iff STORAGE_UINT64_MAX_def
        sample_operation_def js_append)
qed

lemma sample_operation_accepted:
  "canonicalStorageOperationV1 plain_platform (operation_value sample_operation) = Inr sample_operation"
  using sample_operation_ok by (rule canonicalStorageOperationV1_value)

lemma storage_operation_fixpoint_witness:
  "operation_ok plain_platform sample_operation \<and>
   canonicalStorageOperationV1 plain_platform (operation_value sample_operation) = Inr sample_operation"
  using storage_operation_fixpoint [OF sample_operation_accepted] by simp

lemma sample_operation_units: "js_units (operation_value sample_operation)"
  by (simp add: operation_value_def operation_entries_def sample_operation_def js_simps
      sample_uuid_def sample_sha256_def)

lemma sample_operation_key:
  "storageOperationIdempotencyKeyV1 plain_platform (operation_value sample_operation) =
     Inr (toy_digest (operation_preimage plain_platform sample_operation))"
proof -
  have "isWellFormedUnicodeScalarV1 (js ''storage-operation.v1'')"
    by (intro wf_ascii operation_literals_ascii) simp
  moreover have "canonicalJsonV1 plain_platform (operation_value sample_operation) =
      Inr (utf8_encode (canon_text (canon_norm (nfc plain_platform) (operation_value sample_operation))))"
    using sample_operation_ok by (simp add: canonicalJsonV1_Inr_iff operation_ok_def)
  ultimately show ?thesis
    using sample_operation_accepted
    by (simp add: storageOperationIdempotencyKeyV1_def digestCanonicalV1_def invalid_of_def
        operation_preimage_def)
qed

lemma idempotency_key_identifies_operation_witness:
  "nfc_quarantine (nfc plain_platform) sample_operation = nfc_quarantine (nfc plain_platform) sample_operation \<or>
    (operation_preimage plain_platform sample_operation \<noteq> operation_preimage plain_platform sample_operation \<and>
     sha256_hex plain_platform (operation_preimage plain_platform sample_operation) =
       sha256_hex plain_platform (operation_preimage plain_platform sample_operation))"
  by (rule idempotency_key_identifies_operation [OF plain_platform_normalizer sample_operation_units
      sample_operation_units sample_operation_accepted sample_operation_key
      sample_operation_accepted sample_operation_key])

end
