(* ===== verification/AtomicFailure.thy ===== *)
theory AtomicFailure
  imports JsValue
begin

text \<open>
  The closed set of reasons for which atomic grounding refuses a draft
  (\<open>citation/atomic-grounding/contracts.ts\<close>), the policy that turns a reason and the number of
  revisions already made into a workflow transition and a public code
  (\<open>citation/atomic-grounding/failure-policy.ts\<close>), and the errors a workflow execution throws.
\<close>

datatype AtomicGroundingReasonCode =
    SCHEMA_INVALID | NO_EVIDENCE | INSUFFICIENT_EVIDENCE | AMBIGUOUS_EVIDENCE |
    UNSUPPORTED_QUANTIFIER | EMPTY_STRICT_DRAFT | RENDER_GRAPH_INVALID |
    ASSIGNMENT_MISSING | ASSIGNMENT_CONTRACT_MISMATCH | ASSIGNMENT_PROJECT_MISMATCH |
    ASSIGNMENT_SNAPSHOT_DRIFT | NO_HIT | RETRIEVAL_STATE_INVALID | EVIDENCE_UNKNOWN |
    EVIDENCE_OWNERSHIP_INVALID | EVIDENCE_NOT_SELECTED | EVIDENCE_INGESTION_INACTIVE |
    EVIDENCE_OFFSET_DRIFT | EVIDENCE_RUN_DRIFT | EVIDENCE_LEGACY_AMBIGUOUS |
    EVIDENCE_SNAPSHOT_DRIFT | ATOM_ANCHOR_MISMATCH | ATOM_POLARITY_MISMATCH |
    ATOM_QUANTIFIER_MISMATCH | ATOM_QUANTITY_MISMATCH | ATOM_EXACT_MISMATCH |
    ATOM_TYPED_SKELETON_MISMATCH | ATOM_EVIDENCE_MOSAIC_UNSUPPORTED |
    RENDER_CONTEXT_INVALID | RENDER_FAILED | REVISION_INVARIANT_VIOLATION |
    REVISION_EXHAUSTED | ENVELOPE_INVALID | ENVELOPE_DIGEST_MISMATCH |
    RECOVERY_ASSIGNMENT_DRIFT | RECOVERY_RENDER_CONTEXT_DRIFT | ATOMIC_GROUNDING_DISABLED
    | ATOMIC_COMMIT_NOT_AUTHORIZED | INTERNAL_FAIL_CLOSED

datatype AtomicGroundingTransition = TO_REVISION_REQUIRED | TO_WAITING_MATERIAL | TO_FAILED

datatype atomic_public_code =
    PUBLIC_STRUCTURED_OUTPUT_INVALID | PUBLIC_GROUNDING_REVISION_REQUIRED | PUBLIC_MATERIAL_GAP
  | PUBLIC_ATOMIC_GROUNDING_UNAVAILABLE | PUBLIC_ATOMIC_COMMIT_NOT_AUTHORIZED
  | PUBLIC_ATOMIC_GROUNDING_FAILED

record AtomicFailureDisposition =
  internal_reason :: AtomicGroundingReasonCode
  public_code :: atomic_public_code
  failure_transition :: AtomicGroundingTransition

text \<open>The strings the codes are in the program.\<close>

fun reason_text :: "AtomicGroundingReasonCode \<Rightarrow> jstr" where
  "reason_text SCHEMA_INVALID = js ''SCHEMA_INVALID''"
| "reason_text NO_EVIDENCE = js ''NO_EVIDENCE''"
| "reason_text INSUFFICIENT_EVIDENCE = js ''INSUFFICIENT_EVIDENCE''"
| "reason_text AMBIGUOUS_EVIDENCE = js ''AMBIGUOUS_EVIDENCE''"
| "reason_text UNSUPPORTED_QUANTIFIER = js ''UNSUPPORTED_QUANTIFIER''"
| "reason_text EMPTY_STRICT_DRAFT = js ''EMPTY_STRICT_DRAFT''"
| "reason_text RENDER_GRAPH_INVALID = js ''RENDER_GRAPH_INVALID''"
| "reason_text ASSIGNMENT_MISSING = js ''ASSIGNMENT_MISSING''"
| "reason_text ASSIGNMENT_CONTRACT_MISMATCH = js ''ASSIGNMENT_CONTRACT_MISMATCH''"
| "reason_text ASSIGNMENT_PROJECT_MISMATCH = js ''ASSIGNMENT_PROJECT_MISMATCH''"
| "reason_text ASSIGNMENT_SNAPSHOT_DRIFT = js ''ASSIGNMENT_SNAPSHOT_DRIFT''"
| "reason_text NO_HIT = js ''NO_HIT''"
| "reason_text RETRIEVAL_STATE_INVALID = js ''RETRIEVAL_STATE_INVALID''"
| "reason_text EVIDENCE_UNKNOWN = js ''EVIDENCE_UNKNOWN''"
| "reason_text EVIDENCE_OWNERSHIP_INVALID = js ''EVIDENCE_OWNERSHIP_INVALID''"
| "reason_text EVIDENCE_NOT_SELECTED = js ''EVIDENCE_NOT_SELECTED''"
| "reason_text EVIDENCE_INGESTION_INACTIVE = js ''EVIDENCE_INGESTION_INACTIVE''"
| "reason_text EVIDENCE_OFFSET_DRIFT = js ''EVIDENCE_OFFSET_DRIFT''"
| "reason_text EVIDENCE_RUN_DRIFT = js ''EVIDENCE_RUN_DRIFT''"
| "reason_text EVIDENCE_LEGACY_AMBIGUOUS = js ''EVIDENCE_LEGACY_AMBIGUOUS''"
| "reason_text EVIDENCE_SNAPSHOT_DRIFT = js ''EVIDENCE_SNAPSHOT_DRIFT''"
| "reason_text ATOM_ANCHOR_MISMATCH = js ''ATOM_ANCHOR_MISMATCH''"
| "reason_text ATOM_POLARITY_MISMATCH = js ''ATOM_POLARITY_MISMATCH''"
| "reason_text ATOM_QUANTIFIER_MISMATCH = js ''ATOM_QUANTIFIER_MISMATCH''"
| "reason_text ATOM_QUANTITY_MISMATCH = js ''ATOM_QUANTITY_MISMATCH''"
| "reason_text ATOM_EXACT_MISMATCH = js ''ATOM_EXACT_MISMATCH''"
| "reason_text ATOM_TYPED_SKELETON_MISMATCH = js ''ATOM_TYPED_SKELETON_MISMATCH''"
| "reason_text ATOM_EVIDENCE_MOSAIC_UNSUPPORTED = js ''ATOM_EVIDENCE_MOSAIC_UNSUPPORTED''"
| "reason_text RENDER_CONTEXT_INVALID = js ''RENDER_CONTEXT_INVALID''"
| "reason_text RENDER_FAILED = js ''RENDER_FAILED''"
| "reason_text REVISION_INVARIANT_VIOLATION = js ''REVISION_INVARIANT_VIOLATION''"
| "reason_text REVISION_EXHAUSTED = js ''REVISION_EXHAUSTED''"
| "reason_text ENVELOPE_INVALID = js ''ENVELOPE_INVALID''"
| "reason_text ENVELOPE_DIGEST_MISMATCH = js ''ENVELOPE_DIGEST_MISMATCH''"
| "reason_text RECOVERY_ASSIGNMENT_DRIFT = js ''RECOVERY_ASSIGNMENT_DRIFT''"
| "reason_text RECOVERY_RENDER_CONTEXT_DRIFT = js ''RECOVERY_RENDER_CONTEXT_DRIFT''"
| "reason_text ATOMIC_GROUNDING_DISABLED = js ''ATOMIC_GROUNDING_DISABLED''"
| "reason_text ATOMIC_COMMIT_NOT_AUTHORIZED = js ''ATOMIC_COMMIT_NOT_AUTHORIZED''"
| "reason_text INTERNAL_FAIL_CLOSED = js ''INTERNAL_FAIL_CLOSED''"

fun public_code_text :: "atomic_public_code \<Rightarrow> jstr" where
  "public_code_text PUBLIC_STRUCTURED_OUTPUT_INVALID = js ''STRUCTURED_OUTPUT_INVALID''"
| "public_code_text PUBLIC_GROUNDING_REVISION_REQUIRED = js ''GROUNDING_REVISION_REQUIRED''"
| "public_code_text PUBLIC_MATERIAL_GAP = js ''MATERIAL_GAP''"
| "public_code_text PUBLIC_ATOMIC_GROUNDING_UNAVAILABLE = js ''ATOMIC_GROUNDING_UNAVAILABLE''"
| "public_code_text PUBLIC_ATOMIC_COMMIT_NOT_AUTHORIZED = js ''ATOMIC_COMMIT_NOT_AUTHORIZED''"
| "public_code_text PUBLIC_ATOMIC_GROUNDING_FAILED = js ''ATOMIC_GROUNDING_FAILED''"

section \<open>The failure policy\<close>

definition waitingMaterial :: "AtomicGroundingReasonCode \<Rightarrow> AtomicFailureDisposition" where
  "waitingMaterial reason =
     \<lparr>internal_reason = reason, public_code = PUBLIC_MATERIAL_GAP,
      failure_transition = TO_WAITING_MATERIAL\<rparr>"

definition revisionSensitive :: "AtomicGroundingReasonCode \<Rightarrow> nat \<Rightarrow> AtomicFailureDisposition" where
  "revisionSensitive reason revisionAttempt =
     (if revisionAttempt = 0
      then \<lparr>internal_reason = reason, public_code = PUBLIC_GROUNDING_REVISION_REQUIRED,
             failure_transition = TO_REVISION_REQUIRED\<rparr>
      else waitingMaterial reason)"

definition dispositionForAtomicFailure ::
    "AtomicGroundingReasonCode \<Rightarrow> nat \<Rightarrow> AtomicFailureDisposition" where
  "dispositionForAtomicFailure reason revisionAttempt =
     (if reason \<in> set [SCHEMA_INVALID, RENDER_GRAPH_INVALID]
      then \<lparr>internal_reason = reason, public_code = PUBLIC_STRUCTURED_OUTPUT_INVALID,
             failure_transition = TO_WAITING_MATERIAL\<rparr>
      else if reason \<in> set
        [NO_EVIDENCE, INSUFFICIENT_EVIDENCE, AMBIGUOUS_EVIDENCE, UNSUPPORTED_QUANTIFIER,
         EMPTY_STRICT_DRAFT, ASSIGNMENT_MISSING, ASSIGNMENT_CONTRACT_MISMATCH,
         ASSIGNMENT_PROJECT_MISMATCH, ASSIGNMENT_SNAPSHOT_DRIFT, NO_HIT,
         RETRIEVAL_STATE_INVALID, EVIDENCE_OWNERSHIP_INVALID, EVIDENCE_INGESTION_INACTIVE,
         EVIDENCE_OFFSET_DRIFT, EVIDENCE_RUN_DRIFT, EVIDENCE_LEGACY_AMBIGUOUS,
         EVIDENCE_SNAPSHOT_DRIFT, RENDER_CONTEXT_INVALID, RENDER_FAILED,
         REVISION_INVARIANT_VIOLATION, REVISION_EXHAUSTED, ENVELOPE_INVALID,
         ENVELOPE_DIGEST_MISMATCH, RECOVERY_ASSIGNMENT_DRIFT,
         RECOVERY_RENDER_CONTEXT_DRIFT]
      then waitingMaterial reason
      else if reason \<in> set
        [EVIDENCE_UNKNOWN, EVIDENCE_NOT_SELECTED, ATOM_ANCHOR_MISMATCH,
         ATOM_POLARITY_MISMATCH, ATOM_QUANTIFIER_MISMATCH, ATOM_QUANTITY_MISMATCH,
         ATOM_EXACT_MISMATCH, ATOM_TYPED_SKELETON_MISMATCH,
         ATOM_EVIDENCE_MOSAIC_UNSUPPORTED]
      then revisionSensitive reason revisionAttempt
      else if reason = ATOMIC_GROUNDING_DISABLED
      then \<lparr>internal_reason = reason, public_code = PUBLIC_ATOMIC_GROUNDING_UNAVAILABLE,
             failure_transition = TO_FAILED\<rparr>
      else if reason = ATOMIC_COMMIT_NOT_AUTHORIZED
      then \<lparr>internal_reason = reason, public_code = PUBLIC_ATOMIC_COMMIT_NOT_AUTHORIZED,
             failure_transition = TO_FAILED\<rparr>
      else \<lparr>internal_reason = reason, public_code = PUBLIC_ATOMIC_GROUNDING_FAILED,
             failure_transition = TO_FAILED\<rparr>)"

definition failClosedUnknownAtomicError :: AtomicFailureDisposition where
  "failClosedUnknownAtomicError =
     \<lparr>internal_reason = INTERNAL_FAIL_CLOSED, public_code = PUBLIC_ATOMIC_GROUNDING_FAILED,
      failure_transition = TO_FAILED\<rparr>"

definition revision_sensitive_reason :: "AtomicGroundingReasonCode \<Rightarrow> bool" where
  "revision_sensitive_reason reason \<longleftrightarrow>
     failure_transition (dispositionForAtomicFailure reason 0) = TO_REVISION_REQUIRED"

lemma disposition_internal_reason [simp]:
  "internal_reason (dispositionForAtomicFailure reason n) = reason"
  by (simp add: dispositionForAtomicFailure_def waitingMaterial_def revisionSensitive_def)

lemma disposition_revision_attempt:
  "failure_transition (dispositionForAtomicFailure reason n) = TO_REVISION_REQUIRED \<longleftrightarrow>
     revision_sensitive_reason reason \<and> n = 0"
  by (cases "n = 0")
    (auto simp: dispositionForAtomicFailure_def waitingMaterial_def revisionSensitive_def
      revision_sensitive_reason_def)

text \<open>
  A failure of atomic grounding leads to at most one revision.  The transition is to
  \<open>REVISION_REQUIRED\<close> only at the first attempt and only for the nine evidence and atom
  mismatches; the same reason at the second attempt waits for material; a failure is final for
  exactly the three operational reasons; and the public code never says more than the
  transition and the stated exceptions.
\<close>

theorem disposition_policy:
  "(failure_transition (dispositionForAtomicFailure reason n) = TO_REVISION_REQUIRED \<longleftrightarrow>
      n = 0 \<and> reason \<in>
        {EVIDENCE_UNKNOWN, EVIDENCE_NOT_SELECTED, ATOM_ANCHOR_MISMATCH,
         ATOM_POLARITY_MISMATCH, ATOM_QUANTIFIER_MISMATCH, ATOM_QUANTITY_MISMATCH,
         ATOM_EXACT_MISMATCH, ATOM_TYPED_SKELETON_MISMATCH,
         ATOM_EVIDENCE_MOSAIC_UNSUPPORTED}) \<and>
   (failure_transition (dispositionForAtomicFailure reason n) = TO_FAILED \<longleftrightarrow>
      reason \<in> {ATOMIC_GROUNDING_DISABLED, ATOMIC_COMMIT_NOT_AUTHORIZED, INTERNAL_FAIL_CLOSED}) \<and>
   (public_code (dispositionForAtomicFailure reason n) = PUBLIC_GROUNDING_REVISION_REQUIRED \<longleftrightarrow>
      failure_transition (dispositionForAtomicFailure reason n) = TO_REVISION_REQUIRED) \<and>
   (public_code (dispositionForAtomicFailure reason n) \<in>
        {PUBLIC_MATERIAL_GAP, PUBLIC_STRUCTURED_OUTPUT_INVALID} \<longleftrightarrow>
      failure_transition (dispositionForAtomicFailure reason n) = TO_WAITING_MATERIAL) \<and>
   internal_reason (dispositionForAtomicFailure reason n) = reason"
  by (cases reason)
    (simp_all add: dispositionForAtomicFailure_def waitingMaterial_def revisionSensitive_def)

section \<open>Thrown values\<close>

text \<open>
  What an execution may throw, by the class the handlers test for.  \<open>PlainError\<close> is any other
  \<open>Error\<close> with its message; \<open>NonError\<close> is a thrown value that is not an \<open>Error\<close>.
\<close>

datatype thrown =
    WorkflowCancelledError
  | WorkflowLeaseLostError
  | AtomicGroundingExecutionFailure AtomicGroundingReasonCode nat "jstr list"
  | GroundingRevisionRequiredError "(jstr \<times> jstr) list"
  | MaterialGapError jstr "jstr list"
  | NotFoundException jstr
  | ConflictException jstr
  | BadRequestException jstr
  | ForbiddenException jstr
  | AbortError jstr
  | PlainError jstr
  | NonError

text \<open>The constructor of \<open>AtomicGroundingExecutionFailure\<close> admits the attempts 0 and 1 only.\<close>

definition newAtomicGroundingExecutionFailure ::
    "AtomicGroundingReasonCode \<Rightarrow> nat \<Rightarrow> jstr list \<Rightarrow> thrown" where
  "newAtomicGroundingExecutionFailure reason revisionAttempt candidateClaimKeys =
     (if revisionAttempt \<noteq> 0 \<and> revisionAttempt \<noteq> 1
      then PlainError (js ''ATOMIC_GROUNDING_REVISION_ATTEMPT_INVALID'')
      else AtomicGroundingExecutionFailure reason revisionAttempt candidateClaimKeys)"

text \<open>The message \<open>GroundingRevisionRequiredError\<close> is constructed with.\<close>

definition REVISION_REQUIRED_MESSAGE :: jstr where
  "REVISION_REQUIRED_MESSAGE =
     [20851, 38190, 22768, 26126, 38656, 35201, 23450, 21521, 26816, 32034, 25110,
      20462, 35746, 21518, 25165, 33021, 20445, 23384]"

fun error_message :: "thrown \<Rightarrow> jstr option" where
  "error_message WorkflowCancelledError = Some (js ''Workflow was cancelled'')"
| "error_message WorkflowLeaseLostError = Some (js ''Workflow execution lease was lost'')"
| "error_message (AtomicGroundingExecutionFailure reason n ks) =
     Some (public_code_text (public_code (dispositionForAtomicFailure reason n)))"
| "error_message (GroundingRevisionRequiredError claims) = Some REVISION_REQUIRED_MESSAGE"
| "error_message (MaterialGapError message ids) = Some message"
| "error_message (NotFoundException message) = Some message"
| "error_message (ConflictException message) = Some message"
| "error_message (BadRequestException message) = Some message"
| "error_message (ForbiddenException message) = Some message"
| "error_message (AbortError message) = Some message"
| "error_message (PlainError message) = Some message"
| "error_message NonError = None"

end
