(* ===== verification/WorkflowTypes.thy ===== *)
theory WorkflowTypes
  imports AtomicFailure
begin

text \<open>
  The kinds and the states of a workflow job and the transitions between states
  (\<open>workflow/workflow.types.ts\<close>).
\<close>

datatype WorkflowType =
  FILE_PARSE | INDEX | DIRECTORY | OUTLINE | CONTENT | REWRITE | EXPAND | COMPRESS | EXPORT

datatype WorkflowStatus =
  QUEUED | RUNNING | REVISION_REQUIRED | WAITING_APPROVAL | WAITING_MATERIAL | SUCCEEDED | FAILED | STOPPED

fun workflow_type_text :: "WorkflowType \<Rightarrow> string" where
  "workflow_type_text FILE_PARSE = ''file_parse''"
| "workflow_type_text INDEX = ''index''"
| "workflow_type_text DIRECTORY = ''directory''"
| "workflow_type_text OUTLINE = ''outline''"
| "workflow_type_text CONTENT = ''content''"
| "workflow_type_text REWRITE = ''rewrite''"
| "workflow_type_text EXPAND = ''expand''"
| "workflow_type_text COMPRESS = ''compress''"
| "workflow_type_text EXPORT = ''export''"

fun status_text :: "WorkflowStatus \<Rightarrow> string" where
  "status_text QUEUED = ''QUEUED''"
| "status_text RUNNING = ''RUNNING''"
| "status_text REVISION_REQUIRED = ''REVISION_REQUIRED''"
| "status_text WAITING_APPROVAL = ''WAITING_APPROVAL''"
| "status_text WAITING_MATERIAL = ''WAITING_MATERIAL''"
| "status_text SUCCEEDED = ''SUCCEEDED''"
| "status_text FAILED = ''FAILED''"
| "status_text STOPPED = ''STOPPED''"

definition TERMINAL_WORKFLOW_STATUSES :: "WorkflowStatus list" where
  "TERMINAL_WORKFLOW_STATUSES = [SUCCEEDED, FAILED, STOPPED]"

fun ALLOWED_TRANSITIONS :: "WorkflowStatus \<Rightarrow> WorkflowStatus list" where
  "ALLOWED_TRANSITIONS QUEUED = [RUNNING, FAILED, STOPPED]"
| "ALLOWED_TRANSITIONS RUNNING =
     [REVISION_REQUIRED, WAITING_APPROVAL, WAITING_MATERIAL, SUCCEEDED, FAILED, STOPPED]"
| "ALLOWED_TRANSITIONS REVISION_REQUIRED = [RUNNING, QUEUED, WAITING_MATERIAL, FAILED, STOPPED]"
| "ALLOWED_TRANSITIONS WAITING_APPROVAL = [QUEUED, FAILED, STOPPED]"
| "ALLOWED_TRANSITIONS WAITING_MATERIAL = [QUEUED, FAILED, STOPPED]"
| "ALLOWED_TRANSITIONS SUCCEEDED = []"
| "ALLOWED_TRANSITIONS FAILED = []"
| "ALLOWED_TRANSITIONS STOPPED = []"

text \<open>The two literal parts of the message of a refused transition.\<close>

definition TRANSITION_MESSAGE_1 :: jstr where
  "TRANSITION_MESSAGE_1 = [24037, 20316, 27969, 29366, 24577, 19981, 33021, 20174, 32]"

definition TRANSITION_MESSAGE_2 :: jstr where
  "TRANSITION_MESSAGE_2 = [32, 21464, 26356, 20026, 32]"

definition assertWorkflowTransition :: "WorkflowStatus \<Rightarrow> WorkflowStatus \<Rightarrow> (thrown, unit) result" where
  "assertWorkflowTransition current new =
     (if new \<notin> set (ALLOWED_TRANSITIONS current)
      then Inl (ConflictException
        (TRANSITION_MESSAGE_1 @ js (status_text current) @ TRANSITION_MESSAGE_2 @ js (status_text new)))
      else Inr ())"

lemma assertWorkflowTransition_Inr [simp]:
  "assertWorkflowTransition current new = Inr u \<longleftrightarrow> new \<in> set (ALLOWED_TRANSITIONS current)"
  by (simp add: assertWorkflowTransition_def)

lemma terminal_iff_no_transition:
  "status \<in> set TERMINAL_WORKFLOW_STATUSES \<longleftrightarrow> ALLOWED_TRANSITIONS status = []"
  by (cases status) (simp_all add: TERMINAL_WORKFLOW_STATUSES_def)

end
