(* ===== verification/AuthoringRollout.thy ===== *)
theory AuthoringRollout
  imports CanonicalJson Patterns
begin

text \<open>
  The rollout policy of deterministic authoring (\<open>authoring/rollout/authoring-rollout.ts\<close>):
  reading the configuration, selecting the workflow definition of a new job, and restoring the
  selection a job was created with from the columns of its row.
\<close>

datatype AuthoringMode = MODE_OFF | MODE_SHADOW | MODE_ENFORCE_ALLOWLIST

datatype WorkflowDefinition =
  LEGACY_GENERATION_V1 | ATOMIC_SHADOW_V1 | DETERMINISTIC_AUTHORING_SHADOW_V1 | DETERMINISTIC_AUTHORING_V1

datatype ServerEntrypoint = LEGACY_API | WORKFLOW_API | INTERNAL

fun mode_text :: "AuthoringMode \<Rightarrow> string" where
  "mode_text MODE_OFF = ''off''"
| "mode_text MODE_SHADOW = ''shadow''"
| "mode_text MODE_ENFORCE_ALLOWLIST = ''enforce_allowlist''"

fun definition_text :: "WorkflowDefinition \<Rightarrow> string" where
  "definition_text LEGACY_GENERATION_V1 = ''legacy-generation.v1''"
| "definition_text ATOMIC_SHADOW_V1 = ''atomic-shadow.v1''"
| "definition_text DETERMINISTIC_AUTHORING_SHADOW_V1 = ''deterministic-authoring-shadow.v1''"
| "definition_text DETERMINISTIC_AUTHORING_V1 = ''deterministic-authoring.v1''"

fun entrypoint_text :: "ServerEntrypoint \<Rightarrow> string" where
  "entrypoint_text LEGACY_API = ''legacy_api''"
| "entrypoint_text WORKFLOW_API = ''workflow_api''"
| "entrypoint_text INTERNAL = ''internal''"

definition AUTHORING_POLICY_VERSION :: jstr where
  "AUTHORING_POLICY_VERSION = js ''deterministic-authoring-rollout.v1''"

definition AUTHORING_CLIENT_CONTRACT :: jstr where
  "AUTHORING_CLIENT_CONTRACT = js ''authoring-approval-ui.v1''"

definition isAuthoringMode :: "jsval \<Rightarrow> bool" where
  "isAuthoringMode v \<longleftrightarrow>
     v = JStr (js ''off'') \<or> v = JStr (js ''shadow'') \<or> v = JStr (js ''enforce_allowlist'')"

definition isWorkflowDefinition :: "jsval \<Rightarrow> bool" where
  "isWorkflowDefinition v \<longleftrightarrow>
     v = JStr (js ''legacy-generation.v1'') \<or> v = JStr (js ''atomic-shadow.v1'') \<or>
     v = JStr (js ''deterministic-authoring-shadow.v1'') \<or> v = JStr (js ''deterministic-authoring.v1'')"

definition isServerEntrypoint :: "jsval \<Rightarrow> bool" where
  "isServerEntrypoint v \<longleftrightarrow>
     v = JStr (js ''legacy_api'') \<or> v = JStr (js ''workflow_api'') \<or> v = JStr (js ''internal'')"

record AuthoringRolloutConfig =
  config_mode :: AuthoringMode
  config_allowlist :: "jstr set"
  config_policyVersion :: jstr

record AuthoringPolicySnapshotV1 =
  snap_allowlisted :: bool
  snap_authoring_mode :: AuthoringMode
  snap_client_contract_version :: "jstr option"
  snap_policy_version :: jstr
  snap_server_entrypoint :: ServerEntrypoint
  snap_workflow_definition :: WorkflowDefinition

record AuthoringPolicySelection =
  workflowDefinition :: jstr
  authoringMode :: jstr
  rolloutPolicyVersion :: jstr
  policy_snapshot :: jsval
  snapshotDigest :: jstr
  serverEntrypoint :: jstr
  clientContractVersion :: "jstr option"

section \<open>Reading the configuration\<close>

text \<open>\<open>a ?? b\<close>, and \<open>s.split(',')\<close>.\<close>

definition nullish_or :: "jsval \<Rightarrow> jsval \<Rightarrow> jsval" where
  "nullish_or a b = (if a = JUndef \<or> a = JNull then b else a)"

fun split_comma :: "jstr \<Rightarrow> jstr list" where
  "split_comma [] = [[]]"
| "split_comma (c # s) =
     (if c = 44 then [] # split_comma s
      else (case split_comma s of [] \<Rightarrow> [[c]] | p # ps \<Rightarrow> (c # p) # ps))"

definition parseAuthoringRolloutConfig :: "(jstr \<times> jsval) list \<Rightarrow> AuthoringRolloutConfig" where
  "parseAuthoringRolloutConfig source =
     (let rawMode = nullish_or (get_prop source (js ''AUTHORING_COMMIT_MODE''))
                               (get_prop source (js ''AUTHORING_MODE''));
          requestedMode =
            (if rawMode = JStr (js ''shadow'') then MODE_SHADOW
             else if rawMode = JStr (js ''enforce_allowlist'') then MODE_ENFORCE_ALLOWLIST
             else MODE_OFF);
          rawAllowlist = nullish_or (get_prop source (js ''AUTHORING_ALLOWLIST_PROJECT_IDS''))
                                    (get_prop source (js ''AUTHORING_ALLOWLIST''));
          values = (case rawAllowlist of
                      JStr s \<Rightarrow> if s \<noteq> [] then split_comma s else []
                    | _ \<Rightarrow> [])
      in if list_ex (\<lambda>v. \<not> is_uuid v) values
         then \<lparr>config_mode = MODE_OFF, config_allowlist = {},
               config_policyVersion = AUTHORING_POLICY_VERSION\<rparr>
         else
           let policyVersion =
             (case get_prop source (js ''AUTHORING_ROLLOUT_POLICY_VERSION'') of
                JStr s \<Rightarrow> if is_version_tag s then s else AUTHORING_POLICY_VERSION
              | _ \<Rightarrow> AUTHORING_POLICY_VERSION)
           in \<lparr>config_mode = requestedMode, config_allowlist = set values,
               config_policyVersion = policyVersion\<rparr>)"

section \<open>Selecting and restoring a policy\<close>

definition contract_value :: "jstr option \<Rightarrow> jsval" where
  "contract_value c = (case c of None \<Rightarrow> JNull | Some s \<Rightarrow> JStr s)"

definition snapshot_value :: "AuthoringPolicySnapshotV1 \<Rightarrow> jsval" where
  "snapshot_value s = JObj
     [(js ''allowlisted'', JBool (snap_allowlisted s)),
      (js ''authoring_mode'', JStr (js (mode_text (snap_authoring_mode s)))),
      (js ''client_contract_version'', contract_value (snap_client_contract_version s)),
      (js ''policy_version'', JStr (snap_policy_version s)),
      (js ''server_entrypoint'', JStr (js (entrypoint_text (snap_server_entrypoint s)))),
      (js ''workflow_definition'', JStr (js (definition_text (snap_workflow_definition s))))]"

definition authoringPolicySnapshotDigest :: "platform \<Rightarrow> jsval \<Rightarrow> (canon_error, jstr) result" where
  "authoringPolicySnapshotDigest P snapshot =
     bindE (canonicalJsonV1 P snapshot) (\<lambda>bytes. Inr (sha256_hex P bytes))"

definition select_snapshot ::
    "jstr \<Rightarrow> ServerEntrypoint \<Rightarrow> jstr option \<Rightarrow> AuthoringRolloutConfig \<Rightarrow> AuthoringPolicySnapshotV1" where
  "select_snapshot projectId entrypoint clientContract config =
     (let allowlisted = projectId \<in> config_allowlist config;
          (mode, workflow) =
            (if entrypoint = WORKFLOW_API then
               (if config_mode config = MODE_SHADOW then
                  (MODE_SHADOW,
                   if clientContract = Some AUTHORING_CLIENT_CONTRACT
                   then DETERMINISTIC_AUTHORING_SHADOW_V1 else ATOMIC_SHADOW_V1)
                else if config_mode config = MODE_ENFORCE_ALLOWLIST then
                  (if allowlisted \<and> clientContract = Some AUTHORING_CLIENT_CONTRACT
                   then (MODE_ENFORCE_ALLOWLIST, DETERMINISTIC_AUTHORING_V1)
                   else (MODE_OFF, LEGACY_GENERATION_V1))
                else (MODE_OFF, LEGACY_GENERATION_V1))
             else (MODE_OFF, LEGACY_GENERATION_V1))
      in \<lparr>snap_allowlisted = allowlisted, snap_authoring_mode = mode,
          snap_client_contract_version = clientContract,
          snap_policy_version = config_policyVersion config,
          snap_server_entrypoint = entrypoint, snap_workflow_definition = workflow\<rparr>)"

definition selectAuthoringPolicy ::
    "platform \<Rightarrow> jstr \<Rightarrow> ServerEntrypoint \<Rightarrow> jstr option \<Rightarrow> AuthoringRolloutConfig \<Rightarrow>
     (canon_error, AuthoringPolicySelection) result" where
  "selectAuthoringPolicy P projectId entrypoint clientContract config =
     (let snapshot = select_snapshot projectId entrypoint clientContract config
      in bindE (authoringPolicySnapshotDigest P (snapshot_value snapshot)) (\<lambda>digest.
         Inr \<lparr>workflowDefinition = js (definition_text (snap_workflow_definition snapshot)),
              authoringMode = js (mode_text (snap_authoring_mode snapshot)),
              rolloutPolicyVersion = config_policyVersion config,
              policy_snapshot = snapshot_value snapshot, snapshotDigest = digest,
              serverEntrypoint = js (entrypoint_text entrypoint),
              clientContractVersion = clientContract\<rparr>))"

datatype policy_error = AUTHORING_POLICY_SNAPSHOT_INVALID

text \<open>
  Restoring.  The snapshot is an object read from a JSON column; the other fields are columns.
  A policy version that is not a string is coerced by the pattern test and then refused by the
  comparison with the column, so the test is taken to fail for it.
\<close>

fun object_entries :: "jsval \<Rightarrow> (jstr \<times> jsval) list" where
  "object_entries (JObj kvs) = kvs"
| "object_entries _ = []"

definition restoreAuthoringPolicySelection ::
    "platform \<Rightarrow> AuthoringPolicySelection \<Rightarrow> (policy_error, AuthoringPolicySelection) result" where
  "restoreAuthoringPolicySelection P v =
     (case authoringPolicySnapshotDigest P (policy_snapshot v) of
        Inl _ \<Rightarrow> Inl AUTHORING_POLICY_SNAPSHOT_INVALID
      | Inr expected \<Rightarrow>
          (let field = (\<lambda>k. get_prop (object_entries (policy_snapshot v)) (js k))
           in if (\<forall>b. field ''allowlisted'' \<noteq> JBool b) \<or>
                 \<not> isAuthoringMode (field ''authoring_mode'') \<or>
                 \<not> isWorkflowDefinition (field ''workflow_definition'') \<or>
                 \<not> isServerEntrypoint (field ''server_entrypoint'') \<or>
                 (field ''client_contract_version'' \<noteq> JNull \<and>
                  field ''client_contract_version'' \<noteq> JStr AUTHORING_CLIENT_CONTRACT) \<or>
                 \<not> (case as_string (field ''policy_version'') of
                      None \<Rightarrow> False | Some s \<Rightarrow> is_version_tag s) \<or>
                 expected \<noteq> snapshotDigest v \<or>
                 field ''workflow_definition'' \<noteq> JStr (workflowDefinition v) \<or>
                 field ''authoring_mode'' \<noteq> JStr (authoringMode v) \<or>
                 field ''policy_version'' \<noteq> JStr (rolloutPolicyVersion v) \<or>
                 field ''server_entrypoint'' \<noteq> JStr (serverEntrypoint v) \<or>
                 field ''client_contract_version'' \<noteq> contract_value (clientContractVersion v)
              then Inl AUTHORING_POLICY_SNAPSHOT_INVALID
              else Inr v))"

section \<open>Properties\<close>

text \<open>
  The enforcing definition is selected only for an allowlisted project, on the workflow
  API, for a client of the approval contract, under a configuration that enforces; and a
  configuration enforces only when its mode says so and every entry of its allowlist is a
  UUID: one malformed entry turns authoring off for every project.
\<close>

theorem deterministic_authoring_selected_iff:
  "snap_workflow_definition (select_snapshot projectId entrypoint client (parseAuthoringRolloutConfig source)) =
     DETERMINISTIC_AUTHORING_V1 \<longleftrightarrow>
   entrypoint = WORKFLOW_API \<and> client = Some AUTHORING_CLIENT_CONTRACT \<and>
   nullish_or (get_prop source (js ''AUTHORING_COMMIT_MODE'')) (get_prop source (js ''AUTHORING_MODE''))
     = JStr (js ''enforce_allowlist'') \<and>
   (\<exists>s. nullish_or (get_prop source (js ''AUTHORING_ALLOWLIST_PROJECT_IDS''))
           (get_prop source (js ''AUTHORING_ALLOWLIST'')) = JStr s \<and> s \<noteq> [] \<and>
        list_all is_uuid (split_comma s) \<and> projectId \<in> set (split_comma s))"
  by (cases "nullish_or (get_prop source (js ''AUTHORING_ALLOWLIST_PROJECT_IDS''))
           (get_prop source (js ''AUTHORING_ALLOWLIST''))")
    (auto simp: select_snapshot_def parseAuthoringRolloutConfig_def Let_def list_all_iff list_ex_iff)

lemma version_tag_default: "is_version_tag AUTHORING_POLICY_VERSION"
  by code_simp

lemma config_policyVersion_tag: "is_version_tag (config_policyVersion (parseAuthoringRolloutConfig source))"
  by (auto simp: parseAuthoringRolloutConfig_def Let_def version_tag_default split: jsval.splits)

lemma text_predicates:
  "isAuthoringMode (JStr (js (mode_text m)))"
  "isWorkflowDefinition (JStr (js (definition_text d)))"
  "isServerEntrypoint (JStr (js (entrypoint_text e)))"
  subgoal by (cases m) (simp_all add: isAuthoringMode_def)
  subgoal by (cases d) (simp_all add: isWorkflowDefinition_def)
  subgoal by (cases e) (simp_all add: isServerEntrypoint_def)
  done

lemma snapshot_fields:
  "get_prop (object_entries (snapshot_value s)) (js ''allowlisted'') = JBool (snap_allowlisted s)"
  "get_prop (object_entries (snapshot_value s)) (js ''authoring_mode'') = JStr (js (mode_text (snap_authoring_mode s)))"
  "get_prop (object_entries (snapshot_value s)) (js ''client_contract_version'') =
     contract_value (snap_client_contract_version s)"
  "get_prop (object_entries (snapshot_value s)) (js ''policy_version'') = JStr (snap_policy_version s)"
  "get_prop (object_entries (snapshot_value s)) (js ''server_entrypoint'') =
     JStr (js (entrypoint_text (snap_server_entrypoint s)))"
  "get_prop (object_entries (snapshot_value s)) (js ''workflow_definition'') =
     JStr (js (definition_text (snap_workflow_definition s)))"
  by (simp_all add: snapshot_value_def get_prop_def)

lemma select_restore:
  assumes "clientContract \<in> {None, Some AUTHORING_CLIENT_CONTRACT}"
    and "selectAuthoringPolicy P projectId entrypoint clientContract (parseAuthoringRolloutConfig source) = Inr v"
  shows "restoreAuthoringPolicySelection P v = Inr v"
proof -
  let ?s = "select_snapshot projectId entrypoint clientContract (parseAuthoringRolloutConfig source)"
  have sel: "snap_client_contract_version ?s = clientContract"
    "snap_policy_version ?s = config_policyVersion (parseAuthoringRolloutConfig source)"
    "snap_server_entrypoint ?s = entrypoint"
    by (simp_all add: select_snapshot_def Let_def split: prod.splits)
  have v: "policy_snapshot v = snapshot_value ?s"
    "authoringPolicySnapshotDigest P (snapshot_value ?s) = Inr (snapshotDigest v)"
    "workflowDefinition v = js (definition_text (snap_workflow_definition ?s))"
    "authoringMode v = js (mode_text (snap_authoring_mode ?s))"
    "rolloutPolicyVersion v = snap_policy_version ?s" "serverEntrypoint v = js (entrypoint_text (snap_server_entrypoint ?s))"
    "clientContractVersion v = snap_client_contract_version ?s"
    using assms(2) by (auto simp: selectAuthoringPolicy_def Let_def sel)
  have "is_version_tag (snap_policy_version ?s)"
    using sel(2) config_policyVersion_tag by simp
  moreover have "contract_value (snap_client_contract_version ?s) = JNull \<or>
      contract_value (snap_client_contract_version ?s) = JStr AUTHORING_CLIENT_CONTRACT"
    using assms(1) sel(1) by (auto simp: contract_value_def)
  ultimately show ?thesis
    unfolding restoreAuthoringPolicySelection_def
    by (simp add: v snapshot_fields text_predicates Let_def)
qed

text \<open>
  C38: A policy selected when a job is created is restored unchanged when the job is claimed:
  the columns written from the selection pass every check of the restore.
\<close>

theorem select_restore_roundtrip:
  assumes "clientContract \<in> {None, Some AUTHORING_CLIENT_CONTRACT}"
    and "selectAuthoringPolicy P projectId entrypoint clientContract (parseAuthoringRolloutConfig source) = Inr v"
  shows "restoreAuthoringPolicySelection P v = Inr v"
  using assms by (rule select_restore)

lemma plain_select_accepts:
  "\<exists>v. selectAuthoringPolicy plain_platform (js ''p'') WORKFLOW_API (Some AUTHORING_CLIENT_CONTRACT)
     (parseAuthoringRolloutConfig [(js ''AUTHORING_COMMIT_MODE'', JStr (js ''shadow''))]) = Inr v \<and>
   workflowDefinition v = js ''deterministic-authoring-shadow.v1''"
  by (simp add: selectAuthoringPolicy_def authoringPolicySnapshotDigest_def canonicalJsonV1_def
      select_snapshot_def parseAuthoringRolloutConfig_def get_prop_def nullish_or_def Let_def
      snapshot_value_def contract_value_def AUTHORING_CLIENT_CONTRACT_def AUTHORING_POLICY_VERSION_def js_simps)

lemma select_restore_roundtrip_witness:
  "\<exists>v. restoreAuthoringPolicySelection plain_platform v = Inr v \<and>
     workflowDefinition v = js ''deterministic-authoring-shadow.v1''"
proof -
  obtain v where v: "selectAuthoringPolicy plain_platform (js ''p'') WORKFLOW_API (Some AUTHORING_CLIENT_CONTRACT)
      (parseAuthoringRolloutConfig [(js ''AUTHORING_COMMIT_MODE'', JStr (js ''shadow''))]) = Inr v"
    and d: "workflowDefinition v = js ''deterministic-authoring-shadow.v1''"
    using plain_select_accepts by blast
  have "Some AUTHORING_CLIENT_CONTRACT \<in> {None, Some AUTHORING_CLIENT_CONTRACT}"
    by simp
  from select_restore_roundtrip [OF this v] d show ?thesis
    by blast
qed

end
