(* ===== verification/WorkflowDb.thy ===== *)
theory WorkflowDb
  imports WorkflowTypes AuthoringRollout
begin

text \<open>
  The tables the workflow runtime reads and writes, as one state: the jobs by key, with the keys
  in the order of insertion
  (\<open>workflow/entities/workflow-job.entity.ts\<close>), the append-only event log
  (\<open>workflow/entities/workflow-event.entity.ts\<close>), the grounding assignments
  (\<open>citation/entities/grounding-assignment.entity.ts\<close>) and the owners of the projects; and the
  statements on them that several services share.  Date columns are microseconds.
\<close>

section \<open>JSON columns\<close>

text \<open>
  What a JSON column holds after \<open>JSON.stringify\<close>: properties without a JSON value are left out,
  array slots without one become null, and so do the numbers that are not finite.
\<close>

fun json_column :: "jsval \<Rightarrow> jsval" where
  "json_column (JNum n) =
     (case n of NNaN \<Rightarrow> JNull | NPosInf \<Rightarrow> JNull | NNegInf \<Rightarrow> JNull | NNegZero \<Rightarrow> JNum (NInt 0) | _ \<Rightarrow> JNum n)"
| "json_column (JArr vs) = JArr (map (\<lambda>v. if v = JUndef \<or> v = JOther then JNull else json_column v) vs)"
| "json_column (JObj kvs) =
     JObj (map (\<lambda>kv. (fst kv, json_column (snd kv)))
       (filter (\<lambda>kv. snd kv \<noteq> JUndef \<and> snd kv \<noteq> JOther) kvs))"
| "json_column v = v"

text \<open>
  \<open>isDeepStrictEqual\<close>: equality up to the order of the properties of each object.
\<close>

fun sort_keys :: "jsval \<Rightarrow> jsval" where
  "sort_keys (JArr vs) = JArr (map sort_keys vs)"
| "sort_keys (JObj kvs) = JObj (sort_key fst (map (\<lambda>kv. (fst kv, sort_keys (snd kv))) kvs))"
| "sort_keys v = v"

definition isDeepStrictEqual :: "jsval \<Rightarrow> jsval \<Rightarrow> bool" where
  "isDeepStrictEqual v w \<longleftrightarrow> sort_keys v = sort_keys w"

text \<open>\<open>parseJsonObject\<close>: the column as an object, or null; a text column is parsed first.\<close>

definition parseJsonObject :: "platform \<Rightarrow> jsval \<Rightarrow> (thrown, (jstr \<times> jsval) list option) result" where
  "parseJsonObject P v =
     (let as_object = (\<lambda>w. case w of JObj kvs \<Rightarrow> Some kvs | _ \<Rightarrow> None)
      in case v of
           JStr s \<Rightarrow>
             (case json_parse P s of
                None \<Rightarrow> Inl (PlainError (syntax_message P s))
              | Some parsed \<Rightarrow> Inr (as_object parsed))
         | _ \<Rightarrow> Inr (as_object v))"

lemma parseJsonObject_simps [simp]:
  "parseJsonObject P JNull = Inr None"
  "parseJsonObject P (JObj kvs) = Inr (Some kvs)"
  by (simp_all add: parseJsonObject_def)

section \<open>Rows\<close>

record WorkflowJob =
  wj_id :: jstr
  wj_user_id :: jstr
  wj_project_id :: jstr
  wj_workflow_type :: WorkflowType
  wj_idempotency_key :: jstr
  wj_request_hash :: jstr
  wj_status :: WorkflowStatus
  wj_input :: jsval
  wj_checkpoint :: jsval
  wj_workflow_definition :: jstr
  wj_authoring_mode :: jstr
  wj_rollout_policy_version :: jstr
  wj_rollout_policy_snapshot :: jsval
  wj_rollout_policy_digest :: jstr
  wj_server_entrypoint :: jstr
  wj_client_contract_version :: "jstr option"
  wj_lease_owner :: "jstr option"
  wj_lease_token :: "jstr option"
  wj_lease_expires_at :: "nat option"
  wj_fencing_token :: nat
  wj_attempt_count :: nat
  wj_generation_attempt :: nat
  wj_cancel_requested_at :: "nat option"
  wj_approved_at :: "nat option"
  wj_error_code :: "jstr option"
  wj_error_message :: "jstr option"
  wj_public_error_code :: "jstr option"
  wj_public_error_message :: "jstr option"
  wj_started_at :: "nat option"
  wj_completed_at :: "nat option"
  wj_created_at :: nat
  wj_updated_at :: nat

record WorkflowEvent =
  ev_id :: jstr
  ev_job_id :: jstr
  ev_seq :: nat
  ev_type :: jstr
  ev_data :: jsval
  ev_created_at :: nat

record GroundingAssignment =
  ga_workflow_job_id :: jstr
  ga_project_id :: jstr
  ga_retrieval_run_id :: jstr
  ga_retrieval_state :: jstr
  ga_retrieval_run_refs :: jsval
  ga_evidence_ids :: jsval
  ga_snapshot_digest :: "jstr option"
  ga_strict_mode :: bool
  ga_targeted_revision_attempts :: nat
  ga_contract_version :: jstr
  ga_created_at :: nat
  ga_updated_at :: nat

record workflow_db =
  db_job_ids :: "jstr list"
  db_jobs :: "jstr \<Rightarrow> WorkflowJob option"
  db_events :: "WorkflowEvent list"
  db_assignments :: "jstr \<Rightarrow> GroundingAssignment option"
  db_project_owner :: "jstr \<Rightarrow> jstr option"

text \<open>
  What one call reads from outside: the database clock, the application clock, the value
  \<open>randomUUID()\<close> returns and the keys generated for a new job and for the rows of the event log.  The statements
  of one transaction read the same database clock.
\<close>

record call_env =
  db_now :: nat
  app_now :: nat
  fresh_uuid :: jstr
  row_uuid :: jstr
  event_uuid :: "nat \<Rightarrow> jstr"

type_synonym 'a db_call = "(workflow_db, thrown, 'a) tx"

section \<open>Statements\<close>

definition JOB_NOT_FOUND :: jstr where
  "JOB_NOT_FOUND =
     [24037, 20316, 27969, 20219, 21153, 19981, 23384, 22312]"

text \<open>\<open>SELECT * FROM workflow_jobs WHERE id = ? FOR UPDATE\<close>\<close>

definition lockJob :: "jstr \<Rightarrow> WorkflowJob db_call" where
  "lockJob jobId s =
     (case db_jobs s jobId of
        None \<Rightarrow> (Inl (NotFoundException JOB_NOT_FOUND), s)
      | Some row \<Rightarrow> (Inr row, s))"

text \<open>An \<open>UPDATE\<close> of the row with the given key, when it satisfies the condition; the result is
  the number of affected rows.\<close>

definition update_job ::
    "jstr \<Rightarrow> (WorkflowJob \<Rightarrow> bool) \<Rightarrow> (WorkflowJob \<Rightarrow> WorkflowJob) \<Rightarrow> nat db_call" where
  "update_job jobId cond f s =
     (case db_jobs s jobId of
        None \<Rightarrow> (Inr 0, s)
      | Some row \<Rightarrow>
          if cond row then (Inr 1, s\<lparr>db_jobs := (db_jobs s)(jobId \<mapsto> f row)\<rparr>) else (Inr 0, s))"

definition update_assignment ::
    "jstr \<Rightarrow> (GroundingAssignment \<Rightarrow> bool) \<Rightarrow> (GroundingAssignment \<Rightarrow> GroundingAssignment) \<Rightarrow> nat db_call" where
  "update_assignment jobId cond f s =
     (case db_assignments s jobId of
        None \<Rightarrow> (Inr 0, s)
      | Some row \<Rightarrow>
          if cond row then (Inr 1, s\<lparr>db_assignments := (db_assignments s)(jobId \<mapsto> f row)\<rparr>) else (Inr 0, s))"

text \<open>The next number of a job is one more than the greatest it has, counting from zero.\<close>

definition job_events :: "jstr \<Rightarrow> workflow_db \<Rightarrow> WorkflowEvent list" where
  "job_events jobId s = filter (\<lambda>e. ev_job_id e = jobId) (db_events s)"

definition maxSeq :: "jstr \<Rightarrow> workflow_db \<Rightarrow> nat" where
  "maxSeq jobId s = fold max (map ev_seq (job_events jobId s)) 0"

definition appendEvent :: "call_env \<Rightarrow> jstr \<Rightarrow> jstr \<Rightarrow> jsval \<Rightarrow> unit db_call" where
  "appendEvent env jobId type data =
     bindT (readT (maxSeq jobId)) (\<lambda>m.
     writeT (\<lambda>s. s\<lparr>db_events := db_events s @
       [\<lparr>ev_id = event_uuid env (length (db_events s)), ev_job_id = jobId, ev_seq = m + 1, ev_type = type, ev_data = json_column data,
         ev_created_at = db_now env\<rparr>]\<rparr>))"

text \<open>The state after an event of a job.\<close>

definition with_event :: "call_env \<Rightarrow> jstr \<Rightarrow> jstr \<Rightarrow> jsval \<Rightarrow> workflow_db \<Rightarrow> workflow_db" where
  "with_event env jobId type data s =
     s\<lparr>db_events := db_events s @
        [\<lparr>ev_id = event_uuid env (length (db_events s)), ev_job_id = jobId, ev_seq = maxSeq jobId s + 1, ev_type = type,
          ev_data = json_column data, ev_created_at = db_now env\<rparr>]\<rparr>"

definition with_job :: "jstr \<Rightarrow> WorkflowJob \<Rightarrow> workflow_db \<Rightarrow> workflow_db" where
  "with_job jobId row s = s\<lparr>db_jobs := (db_jobs s)(jobId \<mapsto> row)\<rparr>"

lemma appendEvent_run [tx_simps]: "appendEvent env jobId type data s = (Inr (), with_event env jobId type data s)"
  by (simp add: appendEvent_def with_event_def tx_steps)

lemma lockJob_run [tx_simps]:
  "db_jobs s jobId = Some row \<Longrightarrow> lockJob jobId s = (Inr row, s)"
  "db_jobs s jobId = None \<Longrightarrow> lockJob jobId s = (Inl (NotFoundException JOB_NOT_FOUND), s)"
  by (simp_all add: lockJob_def)

lemma update_job_run [tx_simps]:
  "db_jobs s jobId = Some row \<Longrightarrow> cond row \<Longrightarrow> update_job jobId cond f s = (Inr 1, with_job jobId (f row) s)"
  "db_jobs s jobId = Some row \<Longrightarrow> \<not> cond row \<Longrightarrow> update_job jobId cond f s = (Inr 0, s)"
  by (simp_all add: update_job_def with_job_def)

lemma with_event_simps [simp]:
  "db_jobs (with_event env j t d s) = db_jobs s"
  "db_job_ids (with_event env j t d s) = db_job_ids s"
  "db_assignments (with_event env j t d s) = db_assignments s"
  "db_project_owner (with_event env j t d s) = db_project_owner s"
  by (simp_all add: with_event_def)

lemma with_job_simps [simp]:
  "db_jobs (with_job j row s) = (db_jobs s)(j \<mapsto> row)"
  "db_job_ids (with_job j row s) = db_job_ids s"
  "db_events (with_job j row s) = db_events s"
  "db_assignments (with_job j row s) = db_assignments s"
  "db_project_owner (with_job j row s) = db_project_owner s"
  by (simp_all add: with_job_def)

section \<open>The event log\<close>

text \<open>The events of every job are numbered 1, 2, 3, \<open>\<dots>\<close> in the order they were appended.\<close>

definition events_numbered :: "workflow_db \<Rightarrow> bool" where
  "events_numbered s \<longleftrightarrow>
     (\<forall>jobId. map ev_seq (job_events jobId s) = map Suc [0..<length (job_events jobId s)])"

lemma fold_max_upt: "fold max (map Suc [0..<n]) 0 = n"
  by (induction n) auto

lemma maxSeq_numbered: "events_numbered s \<Longrightarrow> maxSeq jobId s = length (job_events jobId s)"
  unfolding maxSeq_def events_numbered_def by (metis fold_max_upt)

lemma job_events_with_event:
  "job_events j' (with_event env j t d s) =
     (if j' = j then job_events j s @
        [\<lparr>ev_id = event_uuid env (length (db_events s)), ev_job_id = j, ev_seq = maxSeq j s + 1, ev_type = t, ev_data = json_column d,
          ev_created_at = db_now env\<rparr>]
      else job_events j' s)"
  by (simp add: job_events_def with_event_def)

lemma job_events_with_job [simp]: "job_events j' (with_job j row s) = job_events j' s"
  by (simp add: job_events_def)

lemma events_numbered_with_event: "events_numbered s \<Longrightarrow> events_numbered (with_event env j t d s)"
  using maxSeq_numbered [of s j]
  by (auto simp: events_numbered_def job_events_with_event upt_Suc_append)

lemma events_numbered_cong: "db_events s' = db_events s \<Longrightarrow> events_numbered s' \<longleftrightarrow> events_numbered s"
  by (simp add: events_numbered_def job_events_def)

end
