(* ===== verification/WorkflowStore.thy ===== *)
theory WorkflowStore
  imports WorkflowDb
begin

text \<open>
  The execution store of the workflow worker (\<open>workflow/mysql-workflow-execution.store.ts\<close>):
  claiming a job under a lease with a fencing token, renewing the lease, persisting progress,
  and the three ways an execution ends: completion, suspension and failure with its branches.
\<close>

section \<open>Claims and fences\<close>

record ClaimedWorkflowJob =
  cj_id :: jstr
  cj_userId :: jstr
  cj_projectId :: jstr
  cj_workflowType :: WorkflowType
  cj_input :: jsval
  cj_checkpoint :: jsval
  cj_leaseToken :: jstr
  cj_fencingToken :: nat
  cj_generationAttempt :: nat
  cj_policy :: AuthoringPolicySelection

datatype WorkflowControlState = CONTROL_ACTIVE | CONTROL_CANCELLED | CONTROL_LEASE_LOST

datatype WorkflowSuspensionReason =
  SUSPEND_WAITING_APPROVAL | SUSPEND_WAITING_MATERIAL | SUSPEND_SHADOW_COMPLETED

fun suspension_text :: "WorkflowSuspensionReason \<Rightarrow> string" where
  "suspension_text SUSPEND_WAITING_APPROVAL = ''WAITING_APPROVAL''"
| "suspension_text SUSPEND_WAITING_MATERIAL = ''WAITING_MATERIAL''"
| "suspension_text SUSPEND_SHADOW_COMPLETED = ''SHADOW_COMPLETED''"

definition leaseMilliseconds :: nat where
  "leaseMilliseconds = 30000"

definition lease_active :: "nat \<Rightarrow> WorkflowJob \<Rightarrow> bool" where
  "lease_active now row = (case wj_lease_expires_at row of None \<Rightarrow> False | Some t \<Rightarrow> now < t)"

definition isTerminalStatus :: "WorkflowStatus \<Rightarrow> bool" where
  "isTerminalStatus status \<longleftrightarrow> status = SUCCEEDED \<or> status = FAILED \<or> status = STOPPED"

definition assertFence :: "nat \<Rightarrow> WorkflowJob \<Rightarrow> ClaimedWorkflowJob \<Rightarrow> (thrown, unit) result" where
  "assertFence now row job =
     (if wj_status row = STOPPED \<or> wj_cancel_requested_at row \<noteq> None then Inl WorkflowCancelledError
      else if wj_status row \<noteq> RUNNING \<or> wj_lease_token row \<noteq> Some (cj_leaseToken job) \<or>
              wj_fencing_token row \<noteq> cj_fencingToken job \<or> \<not> lease_active now row
      then Inl WorkflowLeaseLostError
      else Inr ())"

text \<open>The condition every write of the store repeats in its \<open>WHERE\<close> clause.\<close>

definition fence_where :: "ClaimedWorkflowJob \<Rightarrow> WorkflowJob \<Rightarrow> bool" where
  "fence_where job row \<longleftrightarrow>
     wj_status row = RUNNING \<and> wj_cancel_requested_at row = None \<and>
     wj_lease_token row = Some (cj_leaseToken job) \<and> wj_fencing_token row = cj_fencingToken job"

definition extend_lease :: "call_env \<Rightarrow> WorkflowJob \<Rightarrow> WorkflowJob" where
  "extend_lease env row =
     row\<lparr>wj_lease_expires_at := Some (db_now env + leaseMilliseconds * 1000),
         wj_updated_at := db_now env\<rparr>"

definition release_lease :: "call_env \<Rightarrow> WorkflowJob \<Rightarrow> WorkflowJob" where
  "release_lease env row =
     row\<lparr>wj_lease_owner := None, wj_lease_token := None, wj_lease_expires_at := None,
         wj_updated_at := db_now env\<rparr>"

definition fenced_update :: "ClaimedWorkflowJob \<Rightarrow> (WorkflowJob \<Rightarrow> WorkflowJob) \<Rightarrow> unit db_call" where
  "fenced_update job f =
     bindT (update_job (cj_id job) (fence_where job) f) (\<lambda>affected.
       if affected \<noteq> 1 then throwT WorkflowLeaseLostError else returnT ())"

section \<open>Claiming and renewing\<close>

definition policy_columns :: "WorkflowJob \<Rightarrow> jsval \<Rightarrow> AuthoringPolicySelection" where
  "policy_columns row snapshot =
     \<lparr>workflowDefinition = wj_workflow_definition row, authoringMode = wj_authoring_mode row,
      rolloutPolicyVersion = wj_rollout_policy_version row, policy_snapshot = snapshot,
      snapshotDigest = wj_rollout_policy_digest row, serverEntrypoint = wj_server_entrypoint row,
      clientContractVersion = wj_client_contract_version row\<rparr>"

definition POLICY_SNAPSHOT_INVALID :: thrown where
  "POLICY_SNAPSHOT_INVALID = PlainError (js ''AUTHORING_POLICY_SNAPSHOT_INVALID'')"

definition restore_columns :: "platform \<Rightarrow> WorkflowJob \<Rightarrow> (thrown, AuthoringPolicySelection) result" where
  "restore_columns P row =
     bindE (parseJsonObject P (wj_rollout_policy_snapshot row)) (\<lambda>snapshot.
       case snapshot of
         None \<Rightarrow> Inl POLICY_SNAPSHOT_INVALID
       | Some kvs \<Rightarrow>
           (case restoreAuthoringPolicySelection P (policy_columns row (JObj kvs)) of
              Inl _ \<Rightarrow> Inl POLICY_SNAPSHOT_INVALID
            | Inr policy \<Rightarrow> Inr policy))"

fun object_or_null :: "(jstr \<times> jsval) list option \<Rightarrow> jsval" where
  "object_or_null None = JNull"
| "object_or_null (Some kvs) = JObj kvs"

definition status_field :: "WorkflowStatus \<Rightarrow> jstr \<times> jsval" where
  "status_field status = (js ''status'', JStr (js (status_text status)))"

definition claimed_row :: "call_env \<Rightarrow> jstr \<Rightarrow> nat \<Rightarrow> WorkflowJob \<Rightarrow> WorkflowJob" where
  "claimed_row env workerId fencingToken row =
     row\<lparr>wj_status := RUNNING,
         wj_started_at := Some (case wj_started_at row of None \<Rightarrow> db_now env | Some t \<Rightarrow> t),
         wj_lease_owner := Some workerId,
         wj_lease_token := Some (fresh_uuid env),
         wj_lease_expires_at := Some (db_now env + leaseMilliseconds * 1000),
         wj_fencing_token := fencingToken,
         wj_attempt_count := wj_attempt_count row + 1,
         wj_updated_at := db_now env\<rparr>"

definition claim :: "platform \<Rightarrow> call_env \<Rightarrow> jstr \<Rightarrow> jstr \<Rightarrow> ClaimedWorkflowJob option db_call" where
  "claim P env jobId workerId = transaction (
     bindT (lockJob jobId) (\<lambda>row.
     if wj_cancel_requested_at row \<noteq> None \<or> isTerminalStatus (wj_status row) \<or>
        (wj_status row = RUNNING \<and> lease_active (db_now env) row)
     then returnT None
     else if wj_status row \<noteq> QUEUED \<and> wj_status row \<noteq> REVISION_REQUIRED \<and> wj_status row \<noteq> RUNNING
     then returnT None
     else
       let leaseToken = fresh_uuid env;
           fencingToken = wj_fencing_token row + 1
       in bindT (liftE (restore_columns P row)) (\<lambda>policy.
          bindT (update_job jobId
                  (\<lambda>r. wj_cancel_requested_at r = None \<and>
                       wj_status r \<in> {QUEUED, REVISION_REQUIRED, RUNNING})
                  (claimed_row env workerId fencingToken)) (\<lambda>affected.
          if affected \<noteq> 1 then returnT None
          else
          bindT (appendEvent env jobId
                  (if wj_status row = RUNNING then js ''workflow.resumed'' else js ''workflow.started'')
                  (JObj [status_field RUNNING, (js ''attempt'', JNum (NInt (int fencingToken)))])) (\<lambda>_.
          bindT (liftE (parseJsonObject P (wj_input row))) (\<lambda>input.
          bindT (liftE (parseJsonObject P (wj_checkpoint row))) (\<lambda>checkpoint.
          returnT (Some
            \<lparr>cj_id = wj_id row, cj_userId = wj_user_id row, cj_projectId = wj_project_id row,
             cj_workflowType = wj_workflow_type row, cj_input = object_or_null input,
             cj_checkpoint = object_or_null checkpoint, cj_leaseToken = leaseToken,
             cj_fencingToken = fencingToken, cj_generationAttempt = wj_generation_attempt row,
             cj_policy = policy\<rparr>))))))))"

text \<open>\<open>inspectControl\<close> is two statements, with no transaction around them.\<close>

definition renewLease :: "call_env \<Rightarrow> ClaimedWorkflowJob \<Rightarrow> nat db_call" where
  "renewLease env job =
     update_job (cj_id job) (\<lambda>row. fence_where job row \<and> lease_active (db_now env) row) (extend_lease env)"

definition readControl :: "call_env \<Rightarrow> ClaimedWorkflowJob \<Rightarrow> workflow_db \<Rightarrow> WorkflowControlState" where
  "readControl env job s =
     (case db_jobs s (cj_id job) of
        None \<Rightarrow> CONTROL_LEASE_LOST
      | Some row \<Rightarrow>
          if wj_status row = STOPPED \<or> wj_cancel_requested_at row \<noteq> None then CONTROL_CANCELLED
          else if wj_status row \<noteq> RUNNING \<or> wj_lease_token row \<noteq> Some (cj_leaseToken job) \<or>
                  wj_fencing_token row \<noteq> cj_fencingToken job \<or> \<not> lease_active (db_now env) row
          then CONTROL_LEASE_LOST
          else CONTROL_ACTIVE)"

definition inspectControl :: "call_env \<Rightarrow> ClaimedWorkflowJob \<Rightarrow> WorkflowControlState db_call" where
  "inspectControl env job =
     bindT (renewLease env job) (\<lambda>affected.
       if affected = 1 then returnT CONTROL_ACTIVE else readT (readControl env job))"

section \<open>Progress\<close>

definition readStringArray :: "jsval \<Rightarrow> jstr list" where
  "readStringArray v = (case v of JArr vs \<Rightarrow> List.map_filter as_string vs | _ \<Rightarrow> [])"

definition readGenerationAttempt ::
    "platform \<Rightarrow> (jstr \<times> jsval) list \<Rightarrow> nat \<Rightarrow> (thrown, nat) result" where
  "readGenerationAttempt P checkpoint current =
     (let raw = get_prop checkpoint (js ''generation_attempt'')
      in if raw = JUndef then Inr current
         else
           let attempt = JNum (case raw of JNum n \<Rightarrow> n | _ \<Rightarrow> to_number P raw)
           in if \<not> is_safe_integer attempt \<or> int_of_number attempt < int current \<or> int_of_number attempt < 0
              then Inl (PlainError (js ''Invalid workflow generation attempt''))
              else Inr (nat (int_of_number attempt)))"

definition ATOMIC_CONTRACT :: jstr where
  "ATOMIC_CONTRACT = js ''atomic:v1''"

definition reserveAtomicRevision ::
    "platform \<Rightarrow> call_env \<Rightarrow> WorkflowJob \<Rightarrow> ClaimedWorkflowJob \<Rightarrow> (jstr \<times> jsval) list \<Rightarrow> bool db_call" where
  "reserveAtomicRevision P env row job checkpoint =
     bindT (update_assignment (cj_id job)
             (\<lambda>a. ga_project_id a = cj_projectId job \<and> ga_targeted_revision_attempts a = 0 \<and>
                  ga_strict_mode a \<and> ga_contract_version a = ATOMIC_CONTRACT)
             (\<lambda>a. a\<lparr>ga_targeted_revision_attempts := 1, ga_snapshot_digest := None,
                    ga_updated_at := db_now env\<rparr>)) (\<lambda>affected.
     if affected = 1 then returnT True
     else
     bindT (readT (\<lambda>s. case db_assignments s (cj_id job) of
                         None \<Rightarrow> None
                       | Some a \<Rightarrow> if ga_project_id a = cj_projectId job then Some a else None)) (\<lambda>assignment.
     bindT (liftE (parseJsonObject P (wj_checkpoint row))) (\<lambda>persisted.
     case assignment of
       None \<Rightarrow> throwT (newAtomicGroundingExecutionFailure REVISION_EXHAUSTED 1
                 (readStringArray (get_prop checkpoint (js ''candidate_claim_keys''))))
     | Some a \<Rightarrow>
         if ga_targeted_revision_attempts a = 1 \<and> ga_strict_mode a \<and>
            ga_contract_version a = ATOMIC_CONTRACT \<and>
            isDeepStrictEqual (object_or_null persisted) (JObj checkpoint)
         then returnT False
         else throwT (newAtomicGroundingExecutionFailure REVISION_EXHAUSTED 1
                (readStringArray (get_prop checkpoint (js ''candidate_claim_keys'')))))))"

text \<open>The common frame of the writes: lock the row, check the fence, then the body.\<close>

definition fenced :: "call_env \<Rightarrow> ClaimedWorkflowJob \<Rightarrow> (WorkflowJob \<Rightarrow> unit db_call) \<Rightarrow> unit db_call" where
  "fenced env job body = transaction (
     bindT (lockJob (cj_id job)) (\<lambda>row.
     bindT (liftE (assertFence (db_now env) row job)) (\<lambda>_. body row)))"

definition progress_row :: "call_env \<Rightarrow> (jstr \<times> jsval) list \<Rightarrow> nat \<Rightarrow> WorkflowJob \<Rightarrow> WorkflowJob" where
  "progress_row env checkpoint attempt row =
     extend_lease env (row\<lparr>wj_checkpoint := json_column (JObj checkpoint), wj_generation_attempt := attempt\<rparr>)"

definition persist_body ::
    "platform \<Rightarrow> call_env \<Rightarrow> ClaimedWorkflowJob \<Rightarrow> jstr \<Rightarrow> jsval \<Rightarrow> (jstr \<times> jsval) list \<Rightarrow> WorkflowJob \<Rightarrow> unit db_call" where
  "persist_body P env job type data checkpoint row =
     bindT (if get_prop checkpoint (js ''phase'') = JStr (js ''atomic_revision_required'')
            then reserveAtomicRevision P env row job checkpoint else returnT True) (\<lambda>reserved.
     if \<not> reserved then returnT ()
     else
     bindT (liftE (readGenerationAttempt P checkpoint (wj_generation_attempt row))) (\<lambda>attempt.
     bindT (fenced_update job (progress_row env checkpoint attempt)) (\<lambda>_.
     appendEvent env (cj_id job) type data)))"

definition persistProgress ::
    "platform \<Rightarrow> call_env \<Rightarrow> ClaimedWorkflowJob \<Rightarrow> jstr \<Rightarrow> jsval \<Rightarrow> (jstr \<times> jsval) list \<Rightarrow> unit db_call" where
  "persistProgress P env job type data checkpoint =
     fenced env job (persist_body P env job type data checkpoint)"

section \<open>Completion and suspension\<close>

definition succeeded_row :: "call_env \<Rightarrow> WorkflowJob \<Rightarrow> WorkflowJob" where
  "succeeded_row env row =
     release_lease env (row\<lparr>wj_status := SUCCEEDED, wj_completed_at := Some (db_now env)\<rparr>)"

definition complete :: "call_env \<Rightarrow> ClaimedWorkflowJob \<Rightarrow> unit db_call" where
  "complete env job =
     fenced env job (\<lambda>row.
       bindT (fenced_update job (succeeded_row env)) (\<lambda>_.
       appendEvent env (cj_id job) (js ''workflow.succeeded'') (JObj [status_field SUCCEEDED])))"

fun suspension_status :: "WorkflowSuspensionReason \<Rightarrow> WorkflowStatus" where
  "suspension_status SUSPEND_WAITING_APPROVAL = WAITING_APPROVAL"
| "suspension_status SUSPEND_WAITING_MATERIAL = WAITING_MATERIAL"
| "suspension_status SUSPEND_SHADOW_COMPLETED = SUCCEEDED"

fun suspension_event :: "WorkflowSuspensionReason \<Rightarrow> string" where
  "suspension_event SUSPEND_WAITING_APPROVAL = ''workflow.waiting_approval''"
| "suspension_event SUSPEND_WAITING_MATERIAL = ''workflow.waiting_material''"
| "suspension_event SUSPEND_SHADOW_COMPLETED = ''workflow.shadow_completed''"

definition suspended_row :: "call_env \<Rightarrow> WorkflowSuspensionReason \<Rightarrow> WorkflowJob \<Rightarrow> WorkflowJob" where
  "suspended_row env reason row =
     release_lease env (row\<lparr>wj_status := suspension_status reason,
       wj_completed_at := (if reason = SUSPEND_SHADOW_COMPLETED then Some (app_now env) else None)\<rparr>)"

definition suspend :: "call_env \<Rightarrow> ClaimedWorkflowJob \<Rightarrow> WorkflowSuspensionReason \<Rightarrow> unit db_call" where
  "suspend env job reason =
     fenced env job (\<lambda>row.
       bindT (fenced_update job (suspended_row env reason)) (\<lambda>_.
       appendEvent env (cj_id job) (js (suspension_event reason))
         (JObj [status_field (suspension_status reason),
                (js ''suspension_reason'', JStr (js (suspension_text reason)))])))"

section \<open>Failure\<close>

definition MSG_GROUNDING_UNAVAILABLE :: jstr where
  "MSG_GROUNDING_UNAVAILABLE = [21487, 20449, 24341, 29992, 21151, 33021, 24403, 21069, 19981, 21487, 29992, 65292,
      35831, 31245, 21518, 37325, 35797]"

definition MSG_EXECUTION_FAILED :: jstr where
  "MSG_EXECUTION_FAILED = [20219, 21153, 25191, 34892, 22833, 36133, 65292, 35831, 31245, 21518, 37325, 35797]"

definition MSG_REVISING :: jstr where
  "MSG_REVISING = [27491, 22312, 25191, 34892, 19968, 27425, 23450, 21521, 35777, 25454, 20462, 35746]"

definition MSG_MATERIAL_GAP :: jstr where
  "MSG_MATERIAL_GAP = [32032, 26448, 19981, 36275, 65292, 35831, 34917, 20805, 36164, 26009, 21518, 32487,
      32493]"

definition MSG_REVISIONS_EXHAUSTED :: jstr where
  "MSG_REVISIONS_EXHAUSTED = [23450, 21521, 20462, 35746, 27425, 25968, 24050, 29992, 23613, 65292, 35831, 34917,
      20805, 32032, 26448, 21518, 32487, 32493]"

definition string_array :: "jstr list \<Rightarrow> jsval" where
  "string_array ss = JArr (map JStr ss)"

fun transition_status :: "AtomicGroundingTransition \<Rightarrow> WorkflowStatus" where
  "transition_status TO_REVISION_REQUIRED = REVISION_REQUIRED"
| "transition_status TO_WAITING_MATERIAL = WAITING_MATERIAL"
| "transition_status TO_FAILED = FAILED"

definition atomic_public_message :: "AtomicFailureDisposition \<Rightarrow> jstr" where
  "atomic_public_message d =
     (if public_code d = PUBLIC_ATOMIC_GROUNDING_UNAVAILABLE then MSG_GROUNDING_UNAVAILABLE
      else if failure_transition d = TO_FAILED then MSG_EXECUTION_FAILED
      else if failure_transition d = TO_REVISION_REQUIRED then MSG_REVISING
      else MSG_MATERIAL_GAP)"

definition atomic_failure_row ::
    "call_env \<Rightarrow> AtomicFailureDisposition \<Rightarrow> (jstr \<times> jsval) list \<Rightarrow> WorkflowJob \<Rightarrow> WorkflowJob" where
  "atomic_failure_row env d checkpoint row =
     (let status = transition_status (failure_transition d)
      in release_lease env (row\<lparr>wj_status := status,
           wj_error_code := Some (reason_text (internal_reason d)),
           wj_error_message := Some (reason_text (internal_reason d)),
           wj_public_error_code := Some (public_code_text (public_code d)),
           wj_public_error_message := Some (atomic_public_message d),
           wj_checkpoint := json_column (JObj checkpoint),
           wj_completed_at := (if status = FAILED then Some (app_now env) else None)\<rparr>))"

definition persistAtomicFailure ::
    "platform \<Rightarrow> call_env \<Rightarrow> WorkflowJob \<Rightarrow> ClaimedWorkflowJob \<Rightarrow> AtomicFailureDisposition \<Rightarrow> jstr list \<Rightarrow>
     unit db_call" where
  "persistAtomicFailure P env row job d candidateClaimKeys =
     bindT (liftE (parseJsonObject P (wj_checkpoint row))) (\<lambda>previous.
     let checkpoint =
           set_prop (js ''candidate_claim_keys'') (string_array candidateClaimKeys)
             (set_prop (js ''atomic_failure_reason'') (JStr (reason_text (internal_reason d)))
               (case previous of None \<Rightarrow> [] | Some kvs \<Rightarrow> kvs))
     in
     bindT (fenced_update job (atomic_failure_row env d checkpoint)) (\<lambda>_.
     bindT (appendEvent env (cj_id job)
             (if failure_transition d = TO_FAILED then js ''error''
              else if failure_transition d = TO_REVISION_REQUIRED then js ''grounding.revision_required''
              else js ''grounding.material_gap'')
             (JObj
               [(js ''type'', JStr (if failure_transition d = TO_FAILED then js ''error''
                                    else if failure_transition d = TO_REVISION_REQUIRED then js ''revision_required''
                                    else js ''material_gap'')),
                (js ''error_code'', JStr (public_code_text (public_code d))),
                (js ''message'', JStr (atomic_public_message d)),
                (js ''reason'', JStr (reason_text (internal_reason d))),
                (js ''candidate_claim_keys'', string_array candidateClaimKeys)])) (\<lambda>_.
     if failure_transition d = TO_WAITING_MATERIAL then
       appendEvent env (cj_id job) (js ''workflow.waiting_material'') (JObj [status_field WAITING_MATERIAL])
     else if failure_transition d = TO_FAILED then
       appendEvent env (cj_id job) (js ''workflow.failed'') (JObj [status_field FAILED])
     else returnT ())))"

definition material_gap_row :: "call_env \<Rightarrow> jstr \<Rightarrow> WorkflowJob \<Rightarrow> WorkflowJob" where
  "material_gap_row env message row =
     release_lease env (row\<lparr>wj_status := WAITING_MATERIAL,
       wj_error_code := Some (js ''MATERIAL_GAP''), wj_error_message := Some (slice message 0 65535),
       wj_public_error_code := Some (js ''MATERIAL_GAP''),
       wj_public_error_message := Some MSG_MATERIAL_GAP, wj_completed_at := None\<rparr>)"

definition pauseForGrounding :: "call_env \<Rightarrow> ClaimedWorkflowJob \<Rightarrow> jstr \<Rightarrow> jstr list \<Rightarrow> unit db_call" where
  "pauseForGrounding env job message unsupportedClaimIds =
     bindT (fenced_update job (material_gap_row env message)) (\<lambda>_.
     bindT (appendEvent env (cj_id job) (js ''grounding.material_gap'')
             (JObj [(js ''type'', JStr (js ''material_gap'')), (js ''error_code'', JStr (js ''MATERIAL_GAP'')),
                    (js ''message'', JStr MSG_MATERIAL_GAP),
                    (js ''unsupported_claim_ids'', string_array unsupportedClaimIds)])) (\<lambda>_.
     appendEvent env (cj_id job) (js ''workflow.waiting_material'') (JObj [status_field WAITING_MATERIAL])))"

definition revision_required_row ::
    "call_env \<Rightarrow> (jstr \<times> jsval) list \<Rightarrow> WorkflowJob \<Rightarrow> WorkflowJob" where
  "revision_required_row env checkpoint row =
     release_lease env (row\<lparr>wj_status := REVISION_REQUIRED,
       wj_checkpoint := json_column (JObj checkpoint),
       wj_error_code := Some (js ''GROUNDING_REVISION_REQUIRED''),
       wj_error_message := Some (slice REVISION_REQUIRED_MESSAGE 0 65535),
       wj_public_error_code := Some (js ''GROUNDING_REVISION_REQUIRED''),
       wj_public_error_message := Some MSG_REVISING, wj_completed_at := None\<rparr>)"

definition claim_value :: "jstr \<times> jstr \<Rightarrow> jsval" where
  "claim_value c = JObj [(js ''claim_id'', JStr (fst c)), (js ''claim_text'', JStr (snd c))]"

definition requireGroundingRevision ::
    "platform \<Rightarrow> call_env \<Rightarrow> WorkflowJob \<Rightarrow> ClaimedWorkflowJob \<Rightarrow> (jstr \<times> jstr) list \<Rightarrow> unit db_call" where
  "requireGroundingRevision P env row job unsupportedClaims =
     bindT (update_assignment (cj_id job)
             (\<lambda>a. ga_project_id a = cj_projectId job \<and> ga_targeted_revision_attempts a = 0)
             (\<lambda>a. a\<lparr>ga_targeted_revision_attempts := ga_targeted_revision_attempts a + 1,
                    ga_updated_at := db_now env\<rparr>)) (\<lambda>affected.
     if affected \<noteq> 1 then
       pauseForGrounding env job MSG_REVISIONS_EXHAUSTED (map fst unsupportedClaims)
     else
     bindT (liftE (parseJsonObject P (wj_checkpoint row))) (\<lambda>previous.
     let checkpoint =
           set_prop (js ''unsupported_claims'') (JArr (map claim_value unsupportedClaims))
             (set_prop (js ''revision_attempt'') (JNum (NInt 1))
               (set_prop (js ''phase'') (JStr (js ''revision_required''))
                 (case previous of None \<Rightarrow> [] | Some kvs \<Rightarrow> kvs)))
     in
     bindT (fenced_update job (revision_required_row env checkpoint)) (\<lambda>_.
     appendEvent env (cj_id job) (js ''grounding.revision_required'')
       (JObj [(js ''type'', JStr (js ''revision_required'')),
              (js ''error_code'', JStr (js ''GROUNDING_REVISION_REQUIRED'')),
              (js ''message'', JStr MSG_REVISING),
              (js ''unsupported_claim_ids'', string_array (map fst unsupportedClaims)),
              (js ''revision_attempt'', JNum (NInt 1))]))))"

definition failed_row :: "call_env \<Rightarrow> jstr \<Rightarrow> WorkflowJob \<Rightarrow> WorkflowJob" where
  "failed_row env message row =
     release_lease env (row\<lparr>wj_status := FAILED,
       wj_error_code := Some (js ''WORKFLOW_EXECUTION_FAILED''),
       wj_error_message := Some (slice message 0 65535),
       wj_public_error_code := Some (js ''WORKFLOW_FAILED''),
       wj_public_error_message := Some MSG_EXECUTION_FAILED,
       wj_completed_at := Some (db_now env)\<rparr>)"

definition failGeneric :: "call_env \<Rightarrow> ClaimedWorkflowJob \<Rightarrow> thrown \<Rightarrow> unit db_call" where
  "failGeneric env job error =
     (let message = (case error_message error of None \<Rightarrow> js ''Unknown workflow failure'' | Some m \<Rightarrow> m)
      in bindT (fenced_update job (failed_row env message)) (\<lambda>_.
         bindT (appendEvent env (cj_id job) (js ''error'')
                 (JObj [(js ''type'', JStr (js ''error'')), (js ''error_code'', JStr (js ''WORKFLOW_FAILED'')),
                        (js ''message'', JStr MSG_EXECUTION_FAILED)])) (\<lambda>_.
         appendEvent env (cj_id job) (js ''workflow.failed'') (JObj [status_field FAILED]))))"

definition fail_body :: "platform \<Rightarrow> call_env \<Rightarrow> ClaimedWorkflowJob \<Rightarrow> thrown \<Rightarrow> WorkflowJob \<Rightarrow> unit db_call" where
  "fail_body P env job error row =
     (case error of
        AtomicGroundingExecutionFailure reason revisionAttempt candidateClaimKeys \<Rightarrow>
          persistAtomicFailure P env row job (dispositionForAtomicFailure reason revisionAttempt) candidateClaimKeys
      | GroundingRevisionRequiredError claims \<Rightarrow> requireGroundingRevision P env row job claims
      | MaterialGapError message ids \<Rightarrow> pauseForGrounding env job message ids
      | _ \<Rightarrow> failGeneric env job error)"

definition fail :: "platform \<Rightarrow> call_env \<Rightarrow> ClaimedWorkflowJob \<Rightarrow> thrown \<Rightarrow> unit db_call" where
  "fail P env job error = fenced env job (fail_body P env job error)"

end
