(* ===== verification/WorkflowFence.thy ===== *)
theory WorkflowFence
  imports WorkflowStore
begin

text \<open>
  What the writes of the execution store promise: a write whose fence does not hold changes
  nothing; a write that commits touches its own job only, moves its status along the allowed
  transitions and appends events.  The contract is the locale \<open>fenced_writer\<close>; the four writes
  of the store are its interpretations.
\<close>

section \<open>Steps of one job\<close>

definition fence_ok :: "nat \<Rightarrow> ClaimedWorkflowJob \<Rightarrow> WorkflowJob \<Rightarrow> bool" where
  "fence_ok now job row \<longleftrightarrow> fence_where job row \<and> lease_active now row"

lemma assertFence_Inr [simp]: "assertFence now row job = Inr u \<longleftrightarrow> fence_ok now job row"
  by (auto simp: assertFence_def fence_ok_def fence_where_def)

lemma assertFence_Inl:
  "assertFence now row job = Inl e \<Longrightarrow>
     (e = WorkflowCancelledError \<or> e = WorkflowLeaseLostError) \<and> \<not> fence_ok now job row"
  by (auto simp: assertFence_def fence_ok_def fence_where_def split: if_splits)

text \<open>The columns no operation ever writes after the row is created.\<close>

definition job_identity :: "WorkflowJob \<Rightarrow> _" where
  "job_identity row =
     ((wj_id row, wj_user_id row, wj_project_id row, wj_workflow_type row, wj_idempotency_key row,
       wj_request_hash row, wj_input row),
      (wj_workflow_definition row, wj_authoring_mode row, wj_rollout_policy_version row,
       wj_rollout_policy_snapshot row, wj_rollout_policy_digest row, wj_server_entrypoint row,
       wj_client_contract_version row, wj_created_at row))"

definition status_step :: "WorkflowStatus \<Rightarrow> WorkflowStatus \<Rightarrow> bool" where
  "status_step a b \<longleftrightarrow> b = a \<or> b \<in> set (ALLOWED_TRANSITIONS a)"

definition row_step :: "WorkflowJob \<Rightarrow> WorkflowJob \<Rightarrow> bool" where
  "row_step row row' \<longleftrightarrow>
     job_identity row' = job_identity row \<and> status_step (wj_status row) (wj_status row') \<and>
     (isTerminalStatus (wj_status row) \<longrightarrow> row' = row) \<and>
     wj_fencing_token row \<le> wj_fencing_token row' \<and>
     wj_generation_attempt row \<le> wj_generation_attempt row' \<and>
     (wj_cancel_requested_at row \<noteq> None \<longrightarrow> wj_cancel_requested_at row' \<noteq> None) \<and>
     (wj_cancel_requested_at row' \<noteq> None \<longrightarrow> wj_cancel_requested_at row \<noteq> None \<or> wj_status row' = STOPPED)"

text \<open>An assignment is left alone, deleted, or has its one revision taken.\<close>

definition assignment_step :: "GroundingAssignment option \<Rightarrow> GroundingAssignment option \<Rightarrow> bool" where
  "assignment_step a b \<longleftrightarrow>
     b = a \<or> b = None \<or>
     (\<exists>x y. a = Some x \<and> b = Some y \<and> ga_targeted_revision_attempts x = 0 \<and>
            ga_targeted_revision_attempts y = 1 \<and> ga_project_id y = ga_project_id x \<and>
            ga_evidence_ids y = ga_evidence_ids x \<and> ga_contract_version y = ga_contract_version x)"

definition job_step :: "jstr \<Rightarrow> workflow_db \<Rightarrow> workflow_db \<Rightarrow> bool" where
  "job_step jobId s s' \<longleftrightarrow>
     (\<forall>j. j \<noteq> jobId \<longrightarrow> db_jobs s' j = db_jobs s j \<and> db_assignments s' j = db_assignments s j \<and>
            job_events j s' = job_events j s) \<and>
     db_project_owner s' = db_project_owner s \<and> db_job_ids s' = db_job_ids s \<and>
     (\<exists>es. job_events jobId s' = job_events jobId s @ es) \<and>
     (events_numbered s \<longrightarrow> events_numbered s') \<and>
     assignment_step (db_assignments s jobId) (db_assignments s' jobId) \<and>
     rel_option row_step (db_jobs s jobId) (db_jobs s' jobId) \<and>
     (db_jobs s jobId = None \<longrightarrow> s' = s)"

definition with_assignment :: "jstr \<Rightarrow> GroundingAssignment option \<Rightarrow> workflow_db \<Rightarrow> workflow_db" where
  "with_assignment jobId a s = s\<lparr>db_assignments := (db_assignments s)(jobId := a)\<rparr>"

lemma with_assignment_simps [simp]:
  "db_jobs (with_assignment j a s) = db_jobs s"
  "db_job_ids (with_assignment j a s) = db_job_ids s"
  "db_events (with_assignment j a s) = db_events s"
  "db_assignments (with_assignment j a s) = (db_assignments s)(j := a)"
  "db_project_owner (with_assignment j a s) = db_project_owner s"
  "job_events j' (with_assignment j a s) = job_events j' s"
  "maxSeq j' (with_assignment j a s) = maxSeq j' s"
  by (simp_all add: with_assignment_def job_events_def maxSeq_def)

lemma row_step_refl [simp]: "row_step row row"
  by (simp add: row_step_def status_step_def)

lemma rel_option_row_step_refl [simp]: "rel_option row_step a a"
  by (cases a) simp_all

lemma assignment_step_refl [simp]: "assignment_step a a"
  by (simp add: assignment_step_def)

lemma job_step_refl [simp]: "job_step jobId s s"
  by (simp add: job_step_def)

lemma job_step_with_job:
  assumes "db_jobs s jobId = Some row" and "row_step row row'"
  shows "job_step jobId s (with_job jobId row' s)"
  using assms by (simp add: job_step_def events_numbered_def)

lemma job_step_with_assignment:
  assumes "db_jobs s jobId = Some row" and "row_step row row'" and "assignment_step (db_assignments s jobId) a"
  shows "job_step jobId s (with_job jobId row' (with_assignment jobId a s))"
  using assms by (simp add: job_step_def events_numbered_def)

lemma job_step_with_event:
  assumes "job_step jobId s s'" and "db_jobs s' jobId \<noteq> None"
  shows "job_step jobId s (with_event env jobId t d s')"
  using assms events_numbered_with_event by (auto simp: job_step_def job_events_with_event)

lemma job_step_deny [simp]: "s' = s \<Longrightarrow> job_step jobId s s'"
  by simp

section \<open>The contract of a fenced write\<close>

text \<open>What a committed write leaves of a row: it keeps the lease or it ends the execution.\<close>

definition write_ok :: "jstr \<Rightarrow> WorkflowJob \<Rightarrow> workflow_db \<Rightarrow> workflow_db \<Rightarrow> bool" where
  "write_ok jobId row s s' \<longleftrightarrow>
     job_step jobId s s' \<and>
     (\<exists>row'. db_jobs s' jobId = Some row' \<and> wj_fencing_token row' = wj_fencing_token row \<and>
        wj_cancel_requested_at row' = None \<and>
        (wj_status row' = RUNNING \<longrightarrow> wj_lease_token row' = wj_lease_token row) \<and>
        (wj_status row' \<noteq> RUNNING \<longrightarrow> wj_lease_token row' = None))"

lemma write_ok_step: "write_ok jobId row s s' \<Longrightarrow> job_step jobId s s'"
  by (simp add: write_ok_def)

lemma write_ok_with_event:
  "write_ok jobId row s s' \<Longrightarrow> write_ok jobId row s (with_event env jobId t d s')"
  using job_step_with_event by (fastforce simp: write_ok_def)

locale fenced_writer =
  fixes op :: "call_env \<Rightarrow> ClaimedWorkflowJob \<Rightarrow> unit db_call"
  assumes op_missing:
    "db_jobs s (cj_id job) = None \<Longrightarrow> op env job s = (Inl (NotFoundException JOB_NOT_FOUND), s)"
  and op_fenced:
    "db_jobs s (cj_id job) = Some row \<Longrightarrow> assertFence (db_now env) row job = Inl e \<Longrightarrow> op env job s = (Inl e, s)"
  and op_aborts: "op env job s = (Inl e, s') \<Longrightarrow> s' = s"
  and op_commits:
    "db_jobs s (cj_id job) = Some row \<Longrightarrow> fence_ok (db_now env) job row \<Longrightarrow> op env job s = (Inr (), s') \<Longrightarrow>
       write_ok (cj_id job) row s s'"
begin

lemma commits_fence:
  assumes "op env job s = (Inr (), s')"
  obtains row where "db_jobs s (cj_id job) = Some row" and "fence_ok (db_now env) job row"
proof (cases "db_jobs s (cj_id job)")
  case None
  with op_missing [of s job env] assms show ?thesis by simp
next
  case (Some row)
  then show ?thesis
    using op_fenced [OF Some, of env] assms that [OF Some]
    by (cases "assertFence (db_now env) row job") auto
qed

lemma steps: "op env job s = (r, s') \<Longrightarrow> job_step (cj_id job) s s'"
proof (cases r)
  case (Inl e)
  then show "op env job s = (r, s') \<Longrightarrow> job_step (cj_id job) s s'"
    using op_aborts by auto
next
  case (Inr u)
  assume "op env job s = (r, s')"
  with Inr have c: "op env job s = (Inr (), s')" by simp
  from commits_fence [OF c] obtain row where
    "db_jobs s (cj_id job) = Some row" "fence_ok (db_now env) job row" .
  with op_commits c show "job_step (cj_id job) s s'" by (blast intro: write_ok_step)
qed

lemma stale_claim_is_inert:
  assumes "db_jobs s (cj_id job) = Some row"
    and "wj_fencing_token row \<noteq> cj_fencingToken job \<or> wj_lease_token row \<noteq> Some (cj_leaseToken job) \<or>
         \<not> lease_active (db_now env) row"
  shows "\<exists>e. op env job s = (Inl e, s)"
  using op_fenced [OF assms(1), of env] assms(2)
  by (cases "assertFence (db_now env) row job") (auto simp: fence_ok_def fence_where_def)

lemma cancelled_job_is_inert:
  assumes "db_jobs s (cj_id job) = Some row" and "wj_cancel_requested_at row \<noteq> None"
  shows "op env job s = (Inl WorkflowCancelledError, s)"
  using assms by (intro op_fenced) (auto simp: assertFence_def)

end

section \<open>The writes of the store\<close>

text \<open>What the body of a write may assume and must show.\<close>

definition body_ok :: "(call_env \<Rightarrow> ClaimedWorkflowJob \<Rightarrow> WorkflowJob \<Rightarrow> unit db_call) \<Rightarrow> bool" where
  "body_ok body \<longleftrightarrow>
     (\<forall>env job row s s'. db_jobs s (cj_id job) = Some row \<longrightarrow> fence_where job row \<longrightarrow>
        body env job row s = (Inr (), s') \<longrightarrow>
        write_ok (cj_id job) row s s')"

lemma fenced_run:
  "db_jobs s (cj_id job) = None \<Longrightarrow> fenced env job body s = (Inl (NotFoundException JOB_NOT_FOUND), s)"
  "db_jobs s (cj_id job) = Some row \<Longrightarrow> assertFence (db_now env) row job = Inl e \<Longrightarrow>
     fenced env job body s = (Inl e, s)"
  "db_jobs s (cj_id job) = Some row \<Longrightarrow> fence_ok (db_now env) job row \<Longrightarrow>
     fenced env job body s = transaction (body row) s"
proof -
  show "db_jobs s (cj_id job) = None \<Longrightarrow> fenced env job body s = (Inl (NotFoundException JOB_NOT_FOUND), s)"
    by (simp add: fenced_def transaction_def bindT_def lockJob_def)
  show "db_jobs s (cj_id job) = Some row \<Longrightarrow> assertFence (db_now env) row job = Inl e \<Longrightarrow>
     fenced env job body s = (Inl e, s)"
    by (simp add: fenced_def transaction_def bindT_def lockJob_def liftE_def)
  show "db_jobs s (cj_id job) = Some row \<Longrightarrow> fence_ok (db_now env) job row \<Longrightarrow>
     fenced env job body s = transaction (body row) s"
    by (auto simp: fenced_def transaction_def bindT_def lockJob_def liftE_def
        dest: assertFence_Inl split: sum.split prod.split)
qed

lemma fenced_writer_fenced:
  assumes "body_ok body"
  shows "fenced_writer (\<lambda>env job. fenced env job (body env job))"
proof
  fix s job env row e s'
  show "db_jobs s (cj_id job) = None \<Longrightarrow>
      fenced env job (body env job) s = (Inl (NotFoundException JOB_NOT_FOUND), s)"
    by (rule fenced_run)
  show "db_jobs s (cj_id job) = Some row \<Longrightarrow> assertFence (db_now env) row job = Inl e \<Longrightarrow>
      fenced env job (body env job) s = (Inl e, s)"
    by (rule fenced_run)
  show "fenced env job (body env job) s = (Inl e, s') \<Longrightarrow> s' = s"
    unfolding fenced_def by (rule transaction_Inl)
  assume "db_jobs s (cj_id job) = Some row" "fence_ok (db_now env) job row"
    "fenced env job (body env job) s = (Inr (), s')"
  then show "write_ok (cj_id job) row s s'"
    using assms by (simp add: fenced_run transaction_Inr_iff body_ok_def fence_ok_def)
qed

lemma fenced_update_run [tx_simps]:
  "db_jobs s (cj_id job) = Some row \<Longrightarrow> fence_where job row \<Longrightarrow>
     fenced_update job f s = (Inr (), with_job (cj_id job) (f row) s)"
  by (simp add: fenced_update_def bindT_def update_job_def with_job_def returnT_def)

lemma fenced_update_Inr:
  assumes "db_jobs s (cj_id job) = Some row" and "fence_where job row"
    and "bindT (fenced_update job f) k s = (Inr (), s')"
  shows "k () (with_job (cj_id job) (f row) s) = (Inr (), s')"
  using assms(3) by (simp add: bindT_def fenced_update_run [OF assms(1,2)])

lemma release_lease_simps [simp]:
  "wj_status (release_lease env row) = wj_status row"
  "wj_lease_token (release_lease env row) = None"
  "wj_fencing_token (release_lease env row) = wj_fencing_token row"
  "wj_cancel_requested_at (release_lease env row) = wj_cancel_requested_at row"
  "wj_generation_attempt (release_lease env row) = wj_generation_attempt row"
  "job_identity (release_lease env row) = job_identity row"
  by (simp_all add: release_lease_def job_identity_def)

lemma extend_lease_simps [simp]:
  "wj_status (extend_lease env row) = wj_status row"
  "wj_lease_token (extend_lease env row) = wj_lease_token row"
  "wj_fencing_token (extend_lease env row) = wj_fencing_token row"
  "wj_cancel_requested_at (extend_lease env row) = wj_cancel_requested_at row"
  "wj_generation_attempt (extend_lease env row) = wj_generation_attempt row"
  "job_identity (extend_lease env row) = job_identity row"
  by (simp_all add: extend_lease_def job_identity_def)

text \<open>The rows the writes leave: each releases the lease or keeps it, and each is a step.\<close>

lemmas ending_row_defs =
  succeeded_row_def suspended_row_def failed_row_def material_gap_row_def revision_required_row_def
  atomic_failure_row_def

definition ending_row :: "WorkflowJob \<Rightarrow> WorkflowJob \<Rightarrow> bool" where
  "ending_row row row' \<longleftrightarrow>
     row_step row row' \<and> wj_status row' \<noteq> RUNNING \<and> wj_lease_token row' = None \<and>
     wj_fencing_token row' = wj_fencing_token row \<and> wj_cancel_requested_at row' = wj_cancel_requested_at row"

lemma ending_rows:
  assumes "wj_status row = RUNNING"
  shows "ending_row row (succeeded_row env row)"
    and "ending_row row (suspended_row env reason row)"
    and "ending_row row (failed_row env m row)"
    and "ending_row row (material_gap_row env m row)"
    and "ending_row row (revision_required_row env c row)"
    and "ending_row row (atomic_failure_row env d c row)"
proof -
  show "ending_row row (suspended_row env reason row)"
    by (cases reason) (simp_all add: assms ending_row_def suspended_row_def row_step_def status_step_def
        isTerminalStatus_def, simp_all add: job_identity_def)
  show "ending_row row (atomic_failure_row env d c row)"
    by (cases "failure_transition d") (simp_all add: assms ending_row_def atomic_failure_row_def Let_def
        row_step_def status_step_def isTerminalStatus_def, simp_all add: job_identity_def)
qed (simp_all add: assms ending_row_def ending_row_defs row_step_def status_step_def isTerminalStatus_def,
    simp_all add: job_identity_def)

lemma ending_write:
  assumes "db_jobs s jobId = Some row" and "wj_cancel_requested_at row = None" and "ending_row row row'"
    and "assignment_step (db_assignments s jobId) a"
    and "s' = with_job jobId row' (with_assignment jobId a s) \<or> s' = with_job jobId row' s"
  shows "write_ok jobId row s s'"
  using assms(5)
proof
  assume s': "s' = with_job jobId row' (with_assignment jobId a s)"
  have "job_step jobId s s'"
    using assms(3,4) unfolding s' ending_row_def by (intro job_step_with_assignment [OF assms(1)]) auto
  then show ?thesis
    using assms(2,3) by (auto simp: write_ok_def s' ending_row_def)
next
  assume s': "s' = with_job jobId row' s"
  have "job_step jobId s s'"
    using assms(3) unfolding s' ending_row_def by (intro job_step_with_job [OF assms(1)]) auto
  then show ?thesis
    using assms(2,3) by (auto simp: write_ok_def s' ending_row_def)
qed

text \<open>
  The successful runs of the bodies.  Before its update a body may have taken the revision of
  the assignment; the update then sees the same row.
\<close>

definition prepared :: "jstr \<Rightarrow> WorkflowJob \<Rightarrow> workflow_db \<Rightarrow> workflow_db \<Rightarrow> bool" where
  "prepared jobId row s s1 \<longleftrightarrow>
     db_jobs s jobId = Some row \<and>
     (\<exists>a. assignment_step (db_assignments s jobId) a \<and> (s1 = with_assignment jobId a s \<or> s1 = s))"

lemma prepared_refl: "db_jobs s jobId = Some row \<Longrightarrow> prepared jobId row s s"
  unfolding prepared_def by (blast intro: assignment_step_refl)

lemma prepared_row: "prepared jobId row s s1 \<Longrightarrow> db_jobs s1 jobId = Some row"
  by (auto simp: prepared_def)

lemma fence_where_running: "fence_where job row \<Longrightarrow> wj_status row = RUNNING"
  by (simp add: fence_where_def)

lemma ending_update:
  assumes "bindT (fenced_update job f) k s1 = (Inr (), s')"
    and "prepared (cj_id job) row s s1" and "fence_where job row" and "ending_row row (f row)"
  obtains s2 where "write_ok (cj_id job) row s s2" and "k () s2 = (Inr (), s')"
proof -
  have "write_ok (cj_id job) row s (with_job (cj_id job) (f row) s1)"
    using assms(2-4) by (auto simp: prepared_def fence_where_def intro: ending_write)
  then show ?thesis
    using that fenced_update_Inr [OF prepared_row [OF assms(2)] assms(3,1)] by blast
qed

lemma append_write_ok:
  assumes "write_ok jobId row s s1" and "appendEvent env jobId t d s1 = (Inr (), s')"
  shows "write_ok jobId row s s'"
  using assms by (auto simp: appendEvent_run intro: write_ok_with_event)

lemma append_bind_write_ok:
  assumes "write_ok jobId row s s1" and "bindT (appendEvent env jobId t d) k s1 = (Inr (), s')"
  obtains s2 where "write_ok jobId row s s2" and "k () s2 = (Inr (), s')"
  using assms that by (auto simp: bindT_def appendEvent_run intro: write_ok_with_event)

lemmas write_intros = append_write_ok ending_rows fence_where_running prepared_refl
lemmas write_elims = ending_update append_bind_write_ok

lemma complete_body_ok:
  "body_ok (\<lambda>env job row. bindT (fenced_update job (succeeded_row env)) (\<lambda>_.
       appendEvent env (cj_id job) (js ''workflow.succeeded'') (JObj [status_field SUCCEEDED])))"
  unfolding body_ok_def
  by (intro allI impI, erule ending_update) (blast intro: write_intros)+

lemma suspend_body_ok:
  "body_ok (\<lambda>env job row. bindT (fenced_update job (suspended_row env reason)) (\<lambda>_.
       appendEvent env (cj_id job) (js (suspension_event reason))
         (JObj [status_field (suspension_status reason),
                (js ''suspension_reason'', JStr (js (suspension_text reason)))])))"
  unfolding body_ok_def
  by (intro allI impI, erule ending_update) (blast intro: write_intros)+

lemma pause_write_ok:
  assumes "prepared (cj_id job) row s s1" and "fence_where job row"
    and "pauseForGrounding env job m ids s1 = (Inr (), s')"
  shows "write_ok (cj_id job) row s s'"
  using assms unfolding pauseForGrounding_def by (blast elim: write_elims intro: write_intros)

lemma failGeneric_write_ok:
  assumes "prepared (cj_id job) row s s1" and "fence_where job row"
    and "failGeneric env job error s1 = (Inr (), s')"
  shows "write_ok (cj_id job) row s s'"
  using assms unfolding failGeneric_def Let_def by (blast elim: write_elims intro: write_intros)

lemma persistAtomicFailure_write_ok:
  assumes "prepared (cj_id job) row s s1" and "fence_where job row"
    and "persistAtomicFailure P env row job d ks s1 = (Inr (), s')"
  shows "write_ok (cj_id job) row s s'"
  using assms(3) unfolding persistAtomicFailure_def bindT_liftE_Inr Let_def
  apply (elim exE conjE)
  apply (erule ending_update [OF _ assms(1,2)])
   apply (rule ending_rows(6) [OF fence_where_running [OF assms(2)]])
  apply (erule append_bind_write_ok, assumption)
  apply (auto split: if_splits simp: returnT_def intro: append_write_ok)
  done

text \<open>The two statements that take the revision of an assignment.\<close>

lemma update_assignment_cases:
  assumes "update_assignment jobId cond f s = (Inr n, s')"
  obtains "n = 0" and "s' = s"
  | a where "n = 1" and "db_assignments s jobId = Some a" and "cond a" and "s' = with_assignment jobId (Some (f a)) s"
  using assms that by (auto simp: update_assignment_def with_assignment_def split: option.splits if_splits)

lemma revision_prepared:
  assumes "db_jobs s jobId = Some row" and "update_assignment jobId cond f s = (Inr n, s1)"
    and "\<And>a. cond a \<Longrightarrow> assignment_step (Some a) (Some (f a))"
  shows "prepared jobId row s s1"
  using assms(2)
proof (cases rule: update_assignment_cases)
  case 1
  then show ?thesis using assms(1) by (simp add: prepared_refl)
next
  case (2 a)
  then show ?thesis
    using assms(1) assms(3) [of a] unfolding prepared_def by auto
qed

lemma requireGroundingRevision_write_ok:
  assumes "db_jobs s (cj_id job) = Some row" and "fence_where job row"
    and "requireGroundingRevision P env row job claims s = (Inr (), s')"
  shows "write_ok (cj_id job) row s s'"
proof -
  obtain n s1 where n: "update_assignment (cj_id job)
      (\<lambda>a. ga_project_id a = cj_projectId job \<and> ga_targeted_revision_attempts a = 0)
      (\<lambda>a. a\<lparr>ga_targeted_revision_attempts := ga_targeted_revision_attempts a + 1,
              ga_updated_at := db_now env\<rparr>) s = (Inr n, s1)"
    and rest: "(if n \<noteq> 1 then pauseForGrounding env job MSG_REVISIONS_EXHAUSTED (map fst claims)
      else bindT (liftE (parseJsonObject P (wj_checkpoint row))) (\<lambda>previous.
        let checkpoint = set_prop (js ''unsupported_claims'') (JArr (map claim_value claims))
             (set_prop (js ''revision_attempt'') (JNum (NInt 1))
               (set_prop (js ''phase'') (JStr (js ''revision_required''))
                 (case previous of None \<Rightarrow> [] | Some kvs \<Rightarrow> kvs)))
        in bindT (fenced_update job (revision_required_row env checkpoint)) (\<lambda>_.
           appendEvent env (cj_id job) (js ''grounding.revision_required'')
             (JObj [(js ''type'', JStr (js ''revision_required'')),
              (js ''error_code'', JStr (js ''GROUNDING_REVISION_REQUIRED'')),
              (js ''message'', JStr MSG_REVISING),
              (js ''unsupported_claim_ids'', string_array (map fst claims)),
              (js ''revision_attempt'', JNum (NInt 1))])))) s1 = (Inr (), s')"
    using assms(3) unfolding requireGroundingRevision_def by (auto elim!: bindT_InrE)
  have pre: "prepared (cj_id job) row s s1"
    using assms(1) n by (rule revision_prepared) (simp add: assignment_step_def)
  show ?thesis
  proof (cases "n = 1")
    case True
    with rest show ?thesis
      unfolding bindT_liftE_Inr Let_def
      apply (simp only: bindT_liftE_Inr refl not_True_eq_False if_False)
      apply (elim exE conjE)
      apply (erule ending_update [OF _ pre assms(2)])
       apply (rule ending_rows(5) [OF fence_where_running [OF assms(2)]])
      apply (erule append_write_ok, assumption)
      done
  next
    case False
    with rest show ?thesis
      using pre assms(2) by (auto intro: pause_write_ok)
  qed
qed

lemma fail_body_ok: "body_ok (\<lambda>env job. fail_body P env job error)"
  unfolding body_ok_def fail_body_def
  by (auto split: thrown.splits intro: prepared_refl persistAtomicFailure_write_ok pause_write_ok
      failGeneric_write_ok requireGroundingRevision_write_ok)

text \<open>Progress: the row keeps its lease, and the attempt never decreases.\<close>

lemma readGenerationAttempt_mono:
  "readGenerationAttempt P checkpoint current = Inr n \<Longrightarrow> current \<le> n"
  by (auto simp: readGenerationAttempt_def Let_def split: if_splits)

lemma progress_step:
  assumes "wj_status row = RUNNING" and "wj_generation_attempt row \<le> n"
  shows "row_step row (progress_row env checkpoint n row)"
proof -
  have "job_identity (progress_row env checkpoint n row) = job_identity row"
    by (simp add: progress_row_def job_identity_def extend_lease_def)
  then show ?thesis
    using assms by (simp add: row_step_def progress_row_def status_step_def isTerminalStatus_def)
qed

lemma reserveAtomicRevision_prepared:
  assumes "db_jobs s (cj_id job) = Some row"
    and "reserveAtomicRevision P env row' job checkpoint s = (Inr b, s1)"
  shows "prepared (cj_id job) row s s1 \<and> (\<not> b \<longrightarrow> s1 = s)"
proof -
  obtain n s2 where n: "update_assignment (cj_id job)
      (\<lambda>a. ga_project_id a = cj_projectId job \<and> ga_targeted_revision_attempts a = 0 \<and>
           ga_strict_mode a \<and> ga_contract_version a = ATOMIC_CONTRACT)
      (\<lambda>a. a\<lparr>ga_targeted_revision_attempts := 1, ga_snapshot_digest := None,
             ga_updated_at := db_now env\<rparr>) s = (Inr n, s2)"
    and rest: "(n = 1 \<longrightarrow> b \<and> s1 = s2) \<and> (n \<noteq> 1 \<longrightarrow> \<not> b \<and> s1 = s2)"
    using assms(2) unfolding reserveAtomicRevision_def
    by (auto elim!: bindT_InrE simp: tx_steps split: if_splits option.splits)
  have "prepared (cj_id job) row s s2"
    using assms(1) n by (rule revision_prepared) (simp add: assignment_step_def)
  moreover have "n \<noteq> 1 \<Longrightarrow> s2 = s"
    using n by (auto elim: update_assignment_cases)
  ultimately show ?thesis
    using rest by auto
qed

lemma progress_write_ok:
  assumes "prepared (cj_id job) row s s1" and "fence_where job row" and "wj_generation_attempt row \<le> n"
    and "bindT (fenced_update job (progress_row env checkpoint n)) k s1 = (Inr (), s')"
  obtains s2 where "write_ok (cj_id job) row s s2" and "k () s2 = (Inr (), s')"
proof -
  let ?r = "progress_row env checkpoint n row"
  have step: "row_step row ?r"
    using assms(2,3) by (simp add: progress_step fence_where_running)
  have "job_step (cj_id job) s (with_job (cj_id job) ?r s1)"
    using assms(1) step by (auto simp: prepared_def intro: job_step_with_job job_step_with_assignment)
  then have "write_ok (cj_id job) row s (with_job (cj_id job) ?r s1)"
    using assms(2) by (simp add: write_ok_def progress_row_def fence_where_def)
  then show ?thesis
    using that fenced_update_Inr [OF prepared_row [OF assms(1)] assms(2,4)] by blast
qed

lemma persist_body_ok: "body_ok (\<lambda>env job. persist_body P env job type data checkpoint)"
  unfolding body_ok_def
proof (intro allI impI)
  fix env job row s s'
  assume row: "db_jobs s (cj_id job) = Some row" and fence: "fence_where job row"
    and run: "persist_body P env job type data checkpoint row s = (Inr (), s')"
  from run obtain reserved s1 where r:
    "(if get_prop checkpoint (js ''phase'') = JStr (js ''atomic_revision_required'')
      then reserveAtomicRevision P env row job checkpoint else returnT True) s = (Inr reserved, s1)"
    and rest: "(if \<not> reserved then returnT ()
      else bindT (liftE (readGenerationAttempt P checkpoint (wj_generation_attempt row))) (\<lambda>attempt.
        bindT (fenced_update job (progress_row env checkpoint attempt)) (\<lambda>_.
        appendEvent env (cj_id job) type data))) s1 = (Inr (), s')"
    unfolding persist_body_def by (rule bindT_InrE)
  have pre: "prepared (cj_id job) row s s1 \<and> (\<not> reserved \<longrightarrow> s1 = s)"
    using r reserveAtomicRevision_prepared [OF row] prepared_refl [OF row]
    by (auto simp: returnT_def split: if_splits)
  show "write_ok (cj_id job) row s s'"
  proof (cases reserved)
    case True
    with rest obtain n where n: "readGenerationAttempt P checkpoint (wj_generation_attempt row) = Inr n"
      and w: "bindT (fenced_update job (progress_row env checkpoint n)) (\<lambda>_.
        appendEvent env (cj_id job) type data) s1 = (Inr (), s')"
      by (auto simp: bindT_liftE_Inr)
    show ?thesis
      using progress_write_ok [OF _ fence readGenerationAttempt_mono [OF n] w] pre
      by (blast intro: append_write_ok)
  next
    case False
    with rest pre row fence show ?thesis
      by (simp add: returnT_def write_ok_def fence_where_def)
  qed
qed

interpretation persist_progress: fenced_writer "\<lambda>env job. persistProgress P env job type data checkpoint"
  for P type data checkpoint
  unfolding persistProgress_def by (rule fenced_writer_fenced) (rule persist_body_ok)

interpretation completion: fenced_writer complete
  unfolding complete_def by (rule fenced_writer_fenced) (rule complete_body_ok)

interpretation suspension: fenced_writer "\<lambda>env job. suspend env job reason" for reason
  unfolding suspend_def by (rule fenced_writer_fenced) (rule suspend_body_ok)

interpretation failure: fenced_writer "\<lambda>env job. fail P env job error" for P error
  unfolding fail_def by (rule fenced_writer_fenced) (rule fail_body_ok)

end
