(* ===== verification/JsonText.thy ===== *)
theory JsonText
  imports CanonicalJson
begin

text \<open>
  The parts of the standard library that print values: \<open>JSON.stringify\<close> without a replacer,
  and \<open>Date.prototype.toISOString\<close>.
\<close>

section \<open>JSON text\<close>

definition json_number :: "platform \<Rightarrow> jsnum \<Rightarrow> jstr" where
  "json_number P n =
     (case n of
        NNegZero \<Rightarrow> [48]
      | NInt i \<Rightarrow> if abs i \<le> MAX_SAFE_INTEGER then dec_int i else number_text P n
      | _ \<Rightarrow> number_text P n)"

text \<open>
  \<open>JSON.stringify\<close>; \<open>None\<close> is \<open>undefined\<close>, which a property leaves out and an array prints as
  \<open>null\<close>.  What JSON data never holds prints as a function or a symbol does.
\<close>

fun json_stringify :: "platform \<Rightarrow> jsval \<Rightarrow> jstr option" where
  "json_stringify P JUndef = None"
| "json_stringify P JOther = None"
| "json_stringify P JNull = Some (js ''null'')"
| "json_stringify P (JBool b) = Some (if b then js ''true'' else js ''false'')"
| "json_stringify P (JStr s) = Some (json_quote s)"
| "json_stringify P (JNum n) = Some (if is_finite_number n then json_number P n else js ''null'')"
| "json_stringify P (JArr vs) =
     Some (91 # join_comma (map (case_option (js ''null'') (\<lambda>text. text)) (map (json_stringify P) vs)) @ [93])"
| "json_stringify P (JObj kvs) =
     Some (123 # join_comma (List.map_filter (\<lambda>(k, t). map_option (\<lambda>text. json_quote k @ 58 # text) t)
       (map (\<lambda>kv. (fst kv, json_stringify P (snd kv))) kvs)) @ [125])"

section \<open>Dates\<close>

definition pad_zeros :: "nat \<Rightarrow> nat \<Rightarrow> jstr" where
  "pad_zeros width n = replicate (width - length (dec_nat n)) 48 @ dec_nat n"

text \<open>The proleptic Gregorian date of a day counted from 1970-01-01, for the years 1970 to 9999.\<close>

definition civil_date :: "nat \<Rightarrow> nat \<times> nat \<times> nat" where
  "civil_date days =
     (let z = days + 719468;
          era = z div 146097;
          doe = z mod 146097;
          yoe = (doe - doe div 1460 + doe div 36524 - doe div 146096) div 365;
          doy = doe - (365 * yoe + yoe div 4 - yoe div 100);
          mp = (5 * doy + 2) div 153;
          d = doy - (153 * mp + 2) div 5 + 1;
          m = (if mp < 10 then mp + 3 else mp - 9)
      in (yoe + era * 400 + (if m \<le> 2 then 1 else 0), m, d))"

definition iso_timestamp :: "nat \<Rightarrow> jstr" where
  "iso_timestamp ms =
     (case civil_date (ms div 86400000) of (y, m, d) \<Rightarrow>
      let t = ms mod 86400000
      in pad_zeros 4 y @ 45 # pad_zeros 2 m @ 45 # pad_zeros 2 d @ 84 #
         pad_zeros 2 (t div 3600000) @ 58 # pad_zeros 2 (t div 60000 mod 60) @ 58 #
         pad_zeros 2 (t div 1000 mod 60) @ 46 # pad_zeros 3 (t mod 1000) @ [90])"

end
