(* ===== verification/WorkflowService.thy ===== *)
theory WorkflowService
  imports WorkflowFence JsonText
begin

text \<open>
  The control plane of workflows (\<open>workflow/workflow.service.ts\<close>): creating a job under an
  idempotency key, reading jobs and events, cancelling, resuming after material was supplied,
  the trusted transition, and the public view of a job
  (\<open>workflow/dto/workflow-response.dto.ts\<close>).  The owner check is
  \<open>project/project-access.policy.ts\<close>.
\<close>

section \<open>The request hash\<close>

record CreateWorkflowDto =
  dto_workflow_type :: WorkflowType
  dto_idempotency_key :: "jstr option"
  dto_input :: jsval
  dto_client_contract_version :: "jstr option"

definition MSG_INVALID_NUMBER :: jstr where
  "MSG_INVALID_NUMBER = [24037, 20316, 27969, 36755, 20837, 21253, 21547, 26080, 25928, 25968, 23383]"

definition MSG_NOT_PLAIN :: jstr where
  "MSG_NOT_PLAIN = [24037, 20316, 27969, 36755, 20837, 24517, 39035, 26159, 32, 74, 83, 79, 78, 32,
      23545, 35937]"

definition MSG_NOT_SERIALIZABLE :: jstr where
  "MSG_NOT_SERIALIZABLE = [24037, 20316, 27969, 36755, 20837, 26080, 27861, 24207, 21015, 21270]"

text \<open>
  The order in which an object lists its own string keys: the array indices by value, then the
  other keys in the order they were added, which here is sorted.
\<close>

definition is_array_index :: "jstr \<Rightarrow> bool" where
  "is_array_index k \<longleftrightarrow> is_unsigned_decimal k \<and> digits_value 0 k < 4294967295"

definition enumeration_order :: "(jstr \<times> 'a) list \<Rightarrow> (jstr \<times> 'a) list" where
  "enumeration_order kvs =
     sort_key (\<lambda>kv. digits_value 0 (fst kv)) (filter (\<lambda>kv. is_array_index (fst kv)) kvs) @
     filter (\<lambda>kv. \<not> is_array_index (fst kv)) kvs"

text \<open>
  \<open>JSON.stringify\<close> with the sorting replacer; \<open>None\<close> is \<open>undefined\<close>.  Values that are not JSON
  data are class instances here, which the replacer refuses.
\<close>

fun stableSerialize :: "platform \<Rightarrow> jsval \<Rightarrow> (thrown, jstr option) result" where
  "stableSerialize P JUndef = Inr None"
| "stableSerialize P JNull = Inr (Some (js ''null''))"
| "stableSerialize P (JBool b) = Inr (Some (if b then js ''true'' else js ''false''))"
| "stableSerialize P (JStr s) = Inr (Some (json_quote s))"
| "stableSerialize P (JNum n) =
     (if \<not> is_finite_number n then Inl (BadRequestException MSG_INVALID_NUMBER)
      else Inr (Some (json_number P n)))"
| "stableSerialize P JOther = Inl (BadRequestException MSG_NOT_PLAIN)"
| "stableSerialize P (JArr vs) =
     bindE (mapE id (map (stableSerialize P) vs)) (\<lambda>items.
     Inr (Some (91 # join_comma
       (map (\<lambda>t. case t of None \<Rightarrow> js ''null'' | Some text \<Rightarrow> text) items) @ [93])))"
| "stableSerialize P (JObj kvs) =
     bindE (mapE (\<lambda>kr. bindE (snd kr) (\<lambda>t. Inr (fst kr, t)))
             (enumeration_order (sort_key fst (map (\<lambda>kv. (fst kv, stableSerialize P (snd kv))) kvs))))
       (\<lambda>entries.
     Inr (Some (123 # join_comma
       (List.map_filter (\<lambda>e. map_option (\<lambda>text. json_quote (fst e) @ 58 # text) (snd e)) entries) @ [125])))"

definition stableJsonStringify :: "platform \<Rightarrow> jsval \<Rightarrow> (thrown, jstr) result" where
  "stableJsonStringify P v =
     bindE (stableSerialize P v) (\<lambda>serialized.
       case serialized of
         None \<Rightarrow> Inl (BadRequestException MSG_NOT_SERIALIZABLE)
       | Some text \<Rightarrow> Inr text)"

definition request_value :: "CreateWorkflowDto \<Rightarrow> jsval" where
  "request_value dto = JObj
     [(js ''workflow_type'', JStr (js (workflow_type_text (dto_workflow_type dto)))),
      (js ''input'', nullish_or (dto_input dto) JNull),
      (js ''client_contract_version'', contract_value (dto_client_contract_version dto))]"

definition createWorkflowRequestHash :: "platform \<Rightarrow> CreateWorkflowDto \<Rightarrow> (thrown, jstr) result" where
  "createWorkflowRequestHash P dto =
     bindE (stableJsonStringify P (request_value dto)) (\<lambda>canonical.
       Inr (sha256_hex P (utf8_encode canonical)))"

section \<open>Access and lookup\<close>

definition MSG_PROJECT_NOT_FOUND :: jstr where
  "MSG_PROJECT_NOT_FOUND = [39033, 30446, 19981, 23384, 22312]"

definition MSG_PROJECT_FORBIDDEN :: jstr where
  "MSG_PROJECT_FORBIDDEN = [26080, 26435, 35775, 38382, 35813, 39033, 30446]"

definition assertOwner :: "jstr \<Rightarrow> jstr \<Rightarrow> unit db_call" where
  "assertOwner userId projectId s =
     (case db_project_owner s projectId of
        None \<Rightarrow> (Inl (NotFoundException MSG_PROJECT_NOT_FOUND), s)
      | Some owner \<Rightarrow>
          if owner \<noteq> userId then (Inl (ForbiddenException MSG_PROJECT_FORBIDDEN), s) else (Inr (), s))"

definition lockOwnedProject :: "jstr \<Rightarrow> jstr \<Rightarrow> unit db_call" where
  "lockOwnedProject projectId userId s =
     (if db_project_owner s projectId \<noteq> Some userId
      then (Inl (NotFoundException MSG_PROJECT_NOT_FOUND), s) else (Inr (), s))"

definition lockOwnedJob :: "jstr \<Rightarrow> jstr \<Rightarrow> jstr \<Rightarrow> WorkflowJob db_call" where
  "lockOwnedJob jobId projectId userId s =
     (case db_jobs s jobId of
        None \<Rightarrow> (Inl (NotFoundException JOB_NOT_FOUND), s)
      | Some row \<Rightarrow>
          if wj_project_id row \<noteq> projectId \<or> wj_user_id row \<noteq> userId
          then (Inl (NotFoundException JOB_NOT_FOUND), s) else (Inr row, s))"

type_synonym job_key = "jstr \<times> jstr \<times> WorkflowType \<times> jstr"

definition job_key :: "WorkflowJob \<Rightarrow> job_key" where
  "job_key row = (wj_user_id row, wj_project_id row, wj_workflow_type row, wj_idempotency_key row)"

definition all_jobs :: "workflow_db \<Rightarrow> WorkflowJob list" where
  "all_jobs s = List.map_filter (db_jobs s) (db_job_ids s)"

definition find_by_key :: "job_key \<Rightarrow> workflow_db \<Rightarrow> WorkflowJob option" where
  "find_by_key k s = find (\<lambda>row. job_key row = k) (all_jobs s)"

definition findOne :: "jstr \<Rightarrow> jstr \<Rightarrow> jstr \<Rightarrow> WorkflowJob db_call" where
  "findOne userId projectId jobId =
     bindT (assertOwner userId projectId) (\<lambda>_. lockOwnedJob jobId projectId userId)"

section \<open>Creation\<close>

definition MSG_EMPTY_KEY :: jstr where
  "MSG_EMPTY_KEY = [24130, 31561, 38190, 19981, 33021, 20026, 31354]"

definition MSG_KEY_REUSED :: jstr where
  "MSG_KEY_REUSED = [35813, 24130, 31561, 38190, 24050, 29992, 20110, 19981, 21516, 30340, 24037, 20316,
      27969, 35831, 27714, 65292, 35831, 20351, 29992, 26032, 30340, 24130, 31561, 38190]"

definition assertSameRequest :: "WorkflowJob \<Rightarrow> jstr \<Rightarrow> (thrown, WorkflowJob) result" where
  "assertSameRequest job requestHash =
     (if wj_request_hash job \<noteq> requestHash then Inl (ConflictException MSG_KEY_REUSED) else Inr job)"

definition new_job ::
    "call_env \<Rightarrow> job_key \<Rightarrow> jstr \<Rightarrow> jsval \<Rightarrow> AuthoringPolicySelection \<Rightarrow> WorkflowJob" where
  "new_job env k requestHash input policy =
     (case k of (userId, projectId, workflowType, idempotencyKey) \<Rightarrow>
     \<lparr>wj_id = row_uuid env, wj_user_id = userId, wj_project_id = projectId,
      wj_workflow_type = workflowType, wj_idempotency_key = idempotencyKey,
      wj_request_hash = requestHash, wj_status = QUEUED,
      wj_input = json_column (nullish_or input JNull), wj_checkpoint = JNull,
      wj_workflow_definition = workflowDefinition policy, wj_authoring_mode = authoringMode policy,
      wj_rollout_policy_version = rolloutPolicyVersion policy,
      wj_rollout_policy_snapshot = json_column (policy_snapshot policy),
      wj_rollout_policy_digest = snapshotDigest policy,
      wj_server_entrypoint = serverEntrypoint policy,
      wj_client_contract_version = clientContractVersion policy,
      wj_lease_owner = None, wj_lease_token = None, wj_lease_expires_at = None,
      wj_fencing_token = 0, wj_attempt_count = 0, wj_generation_attempt = 0,
      wj_cancel_requested_at = None, wj_approved_at = None, wj_error_code = None,
      wj_error_message = None, wj_public_error_code = None, wj_public_error_message = None,
      wj_started_at = None, wj_completed_at = None, wj_created_at = db_now env,
      wj_updated_at = db_now env\<rparr>)"

text \<open>The insertion; the primary key and the unique index on the identity refuse duplicates.\<close>

definition ER_DUP_ENTRY :: thrown where
  "ER_DUP_ENTRY = PlainError (js ''ER_DUP_ENTRY'')"

definition insert_job :: "WorkflowJob \<Rightarrow> unit db_call" where
  "insert_job row s =
     (if db_jobs s (wj_id row) \<noteq> None \<or> find_by_key (job_key row) s \<noteq> None
      then (Inl ER_DUP_ENTRY, s)
      else (Inr (), s\<lparr>db_job_ids := db_job_ids s @ [wj_id row],
                      db_jobs := (db_jobs s)(wj_id row \<mapsto> row)\<rparr>))"

definition STORAGE_AUTHORITY_UNPROVEN :: thrown where
  "STORAGE_AUTHORITY_UNPROVEN = PlainError (js ''STORAGE_AUTHORITY_UNPROVEN'')"

definition select_for_job ::
    "platform \<Rightarrow> (jstr \<times> jsval) list \<Rightarrow> jstr \<Rightarrow> ServerEntrypoint \<Rightarrow> CreateWorkflowDto \<Rightarrow>
     (thrown, AuthoringPolicySelection) result" where
  "select_for_job P config projectId entrypoint dto =
     (case selectAuthoringPolicy P projectId entrypoint (dto_client_contract_version dto)
             (parseAuthoringRolloutConfig config) of
        Inl _ \<Rightarrow> Inl (PlainError (js ''canonical JSON''))
      | Inr policy \<Rightarrow> Inr policy)"

text \<open>
  \<open>readiness\<close> is the optional storage readiness service: absent, or the outcome of its
  \<open>assertReady\<close>.
\<close>

definition create ::
    "platform \<Rightarrow> call_env \<Rightarrow> (jstr \<times> jsval) list \<Rightarrow> (thrown, unit) result option \<Rightarrow>
     jstr \<Rightarrow> jstr \<Rightarrow> CreateWorkflowDto \<Rightarrow> ServerEntrypoint \<Rightarrow> WorkflowJob db_call" where
  "create P env config readiness userId projectId dto entrypoint =
     bindT (assertOwner userId projectId) (\<lambda>_.
     let explicit = map_option js_trim (dto_idempotency_key dto)
     in if explicit = Some [] then throwT (BadRequestException MSG_EMPTY_KEY)
     else
     let idempotencyKey = (case explicit of None \<Rightarrow> fresh_uuid env | Some k \<Rightarrow> k);
         identity = (userId, projectId, dto_workflow_type dto, idempotencyKey)
     in bindT (liftE (createWorkflowRequestHash P dto)) (\<lambda>requestHash.
     bindT (readT (find_by_key identity)) (\<lambda>existing.
     case existing of
       Some row \<Rightarrow> liftE (assertSameRequest row requestHash)
     | None \<Rightarrow> transaction (
         bindT (lockOwnedProject projectId userId) (\<lambda>_.
         bindT (readT (find_by_key identity)) (\<lambda>alreadyCreated.
         case alreadyCreated of
           Some row \<Rightarrow> liftE (assertSameRequest row requestHash)
         | None \<Rightarrow>
             bindT (liftE (select_for_job P config projectId entrypoint dto)) (\<lambda>policy.
             bindT (if workflowDefinition policy = js ''deterministic-authoring.v1''
                    then (case readiness of None \<Rightarrow> throwT STORAGE_AUTHORITY_UNPROVEN | Some r \<Rightarrow> liftE r)
                    else returnT ()) (\<lambda>_.
             let row = new_job env identity requestHash (dto_input dto) policy
             in bindT (insert_job row) (\<lambda>_.
             bindT (appendEvent env (wj_id row) (js ''workflow.created'') (JObj [status_field QUEUED])) (\<lambda>_.
             returnT row))))))))))"

section \<open>Events\<close>

definition MSG_CURSOR_INVALID :: jstr where
  "MSG_CURSOR_INVALID = [76, 97, 115, 116, 45, 69, 118, 101, 110, 116, 45, 73, 68, 32, 26684, 24335, 26080,
      25928]"

definition MSG_CURSOR_FOREIGN :: jstr where
  "MSG_CURSOR_FOREIGN = [76, 97, 115, 116, 45, 69, 118, 101, 110, 116, 45, 73, 68, 32, 19981, 23646, 20110,
      24403, 21069, 20219, 21153]"

definition page_limit :: "int option \<Rightarrow> nat" where
  "page_limit limit = nat (min 200 (max 1 (case limit of None \<Rightarrow> 100 | Some n \<Rightarrow> n)))"

definition event_page :: "jstr \<Rightarrow> nat \<Rightarrow> nat \<Rightarrow> workflow_db \<Rightarrow> WorkflowEvent list" where
  "event_page jobId afterSeq limit s =
     take limit (sort_key ev_seq
       (filter (\<lambda>e. afterSeq > 0 \<longrightarrow> afterSeq < ev_seq e) (job_events jobId s)))"

text \<open>\<open>isUUID\<close> is the validator of the \<open>class-validator\<close> package.\<close>

definition listEvents ::
    "(jstr \<Rightarrow> bool) \<Rightarrow> jstr \<Rightarrow> jstr \<Rightarrow> jstr \<Rightarrow> int option \<Rightarrow> jstr option \<Rightarrow> WorkflowEvent list db_call" where
  "listEvents isUUID userId projectId jobId limit lastEventId =
     bindT (findOne userId projectId jobId) (\<lambda>_.
     bindT (case lastEventId of
              None \<Rightarrow> returnT 0
            | Some eid \<Rightarrow>
                if eid = [] then returnT 0
                else if \<not> isUUID eid then throwT (BadRequestException MSG_CURSOR_INVALID)
                else bindT (readT (\<lambda>s. find (\<lambda>e. ev_id e = eid \<and> ev_job_id e = jobId) (db_events s))) (\<lambda>cursor.
                     case cursor of
                       None \<Rightarrow> throwT (BadRequestException MSG_CURSOR_FOREIGN)
                     | Some e \<Rightarrow> returnT (ev_seq e))) (\<lambda>afterSeq.
     readT (event_page jobId afterSeq (page_limit limit))))"

section \<open>Cancelling, resuming, transitions\<close>

definition MSG_TERMINAL_NOT_CANCELLABLE :: jstr where
  "MSG_TERMINAL_NOT_CANCELLABLE = [32456, 24577, 20219, 21153, 19981, 33021, 21462, 28040]"

definition MSG_NOT_WAITING_MATERIAL :: jstr where
  "MSG_NOT_WAITING_MATERIAL = [20219, 21153, 24403, 21069, 19981, 31561, 24453, 34917, 20805, 32032, 26448]"

definition save_job :: "call_env \<Rightarrow> WorkflowJob \<Rightarrow> WorkflowJob db_call" where
  "save_job env job s =
     (let row = job\<lparr>wj_updated_at := db_now env\<rparr> in (Inr row, with_job (wj_id job) row s))"

definition stopped_row :: "call_env \<Rightarrow> WorkflowJob \<Rightarrow> WorkflowJob" where
  "stopped_row env job =
     job\<lparr>wj_status := STOPPED, wj_cancel_requested_at := Some (app_now env),
         wj_completed_at := Some (app_now env), wj_lease_owner := None, wj_lease_token := None,
         wj_lease_expires_at := None\<rparr>"

definition cancel :: "call_env \<Rightarrow> jstr \<Rightarrow> jstr \<Rightarrow> jstr \<Rightarrow> WorkflowJob db_call" where
  "cancel env userId projectId jobId =
     bindT (assertOwner userId projectId) (\<lambda>_. transaction (
     bindT (lockOwnedJob jobId projectId userId) (\<lambda>job.
     if wj_status job = STOPPED then returnT job
     else if wj_status job = SUCCEEDED \<or> wj_status job = FAILED
     then throwT (ConflictException MSG_TERMINAL_NOT_CANCELLABLE)
     else
     bindT (liftE (assertWorkflowTransition (wj_status job) STOPPED)) (\<lambda>_.
     bindT (save_job env (stopped_row env job)) (\<lambda>saved.
     bindT (appendEvent env (wj_id job) (js ''workflow.cancelled'') (JObj [status_field STOPPED])) (\<lambda>_.
     returnT saved))))))"

definition delete_assignment :: "jstr \<Rightarrow> jstr \<Rightarrow> unit db_call" where
  "delete_assignment jobId projectId s =
     (case db_assignments s jobId of
        None \<Rightarrow> (Inr (), s)
      | Some a \<Rightarrow> if ga_project_id a = projectId then (Inr (), with_assignment jobId None s) else (Inr (), s))"

definition requeued_row :: "WorkflowJob \<Rightarrow> WorkflowJob" where
  "requeued_row job =
     job\<lparr>wj_status := QUEUED, wj_checkpoint := JNull, wj_error_code := None, wj_error_message := None,
         wj_public_error_code := None, wj_public_error_message := None, wj_completed_at := None,
         wj_lease_owner := None, wj_lease_token := None, wj_lease_expires_at := None\<rparr>"

definition resumeMaterial :: "call_env \<Rightarrow> jstr \<Rightarrow> jstr \<Rightarrow> jstr \<Rightarrow> WorkflowJob db_call" where
  "resumeMaterial env userId projectId jobId =
     bindT (assertOwner userId projectId) (\<lambda>_. transaction (
     bindT (lockOwnedJob jobId projectId userId) (\<lambda>job.
     if wj_status job \<noteq> WAITING_MATERIAL then throwT (ConflictException MSG_NOT_WAITING_MATERIAL)
     else
     bindT (liftE (assertWorkflowTransition (wj_status job) QUEUED)) (\<lambda>_.
     bindT (delete_assignment (wj_id job) projectId) (\<lambda>_.
     bindT (save_job env (requeued_row job)) (\<lambda>saved.
     bindT (appendEvent env (wj_id job) (js ''workflow.material_resumed'') (JObj [status_field QUEUED])) (\<lambda>_.
     returnT saved)))))))"

definition legacy_cancellable :: "jstr \<Rightarrow> jstr \<Rightarrow> jstr \<Rightarrow> WorkflowJob \<Rightarrow> bool" where
  "legacy_cancellable userId projectId resultId row \<longleftrightarrow>
     wj_user_id row = userId \<and> wj_project_id row = projectId \<and>
     wj_status row \<in> {QUEUED, RUNNING, REVISION_REQUIRED, WAITING_MATERIAL} \<and>
     wj_workflow_type row \<in> {DIRECTORY, OUTLINE, CONTENT, REWRITE, EXPAND, COMPRESS} \<and>
     (wj_id row = resultId \<or>
      as_string (get_prop (object_entries (wj_checkpoint row)) (js ''result_id'')) = Some resultId)"

text \<open>\<open>ORDER BY created_at DESC LIMIT 1\<close>\<close>

fun latest_created :: "WorkflowJob list \<Rightarrow> WorkflowJob option" where
  "latest_created [] = None"
| "latest_created (row # rows) =
     (case latest_created rows of
        None \<Rightarrow> Some row
      | Some best \<Rightarrow> if wj_created_at best \<le> wj_created_at row then Some row else Some best)"

definition cancelByLegacyResult :: "call_env \<Rightarrow> jstr \<Rightarrow> jstr \<Rightarrow> jstr \<Rightarrow> bool db_call" where
  "cancelByLegacyResult env userId projectId resultId =
     bindT (assertOwner userId projectId) (\<lambda>_.
     bindT (readT (\<lambda>s. latest_created (filter (legacy_cancellable userId projectId resultId) (all_jobs s)))) (\<lambda>found.
     case found of
       None \<Rightarrow> returnT False
     | Some row \<Rightarrow> bindT (cancel env userId projectId (wj_id row)) (\<lambda>_. returnT True)))"

definition transitioned_row :: "call_env \<Rightarrow> WorkflowStatus \<Rightarrow> WorkflowJob \<Rightarrow> WorkflowJob" where
  "transitioned_row env new job =
     (let job1 = job\<lparr>wj_status := new\<rparr>;
          job2 = (if new = RUNNING \<and> wj_started_at job1 = None
                  then job1\<lparr>wj_started_at := Some (app_now env)\<rparr> else job1)
      in if new = SUCCEEDED \<or> new = FAILED \<or> new = STOPPED
         then job2\<lparr>wj_completed_at := Some (app_now env)\<rparr> else job2)"

definition transition :: "call_env \<Rightarrow> jstr \<Rightarrow> WorkflowStatus \<Rightarrow> jstr \<Rightarrow> jsval \<Rightarrow> WorkflowJob db_call" where
  "transition env jobId new eventType data = transaction (
     bindT (lockJob jobId) (\<lambda>job.
     bindT (liftE (assertWorkflowTransition (wj_status job) new)) (\<lambda>_.
     bindT (save_job env (transitioned_row env new job)) (\<lambda>saved.
     bindT (appendEvent env (wj_id job) eventType data) (\<lambda>_.
     returnT saved)))))"

definition appendJobEvent :: "call_env \<Rightarrow> jstr \<Rightarrow> jstr \<Rightarrow> jsval \<Rightarrow> WorkflowEvent db_call" where
  "appendJobEvent env jobId type data = transaction (
     bindT (lockJob jobId) (\<lambda>_.
     bindT (appendEvent env jobId type data) (\<lambda>_.
     readT (\<lambda>s. last (db_events s)))))"

section \<open>The public view\<close>

record PublicWorkflowJobDto =
  pub_id :: jstr
  pub_project_id :: jstr
  pub_workflow_type :: WorkflowType
  pub_status :: WorkflowStatus
  pub_cancel_requested_at :: "nat option"
  pub_approved_at :: "nat option"
  pub_started_at :: "nat option"
  pub_completed_at :: "nat option"
  pub_created_at :: nat
  pub_updated_at :: nat
  pub_error :: "(jstr \<times> jstr) option"

definition MSG_PUBLIC_DEFAULT :: jstr where
  "MSG_PUBLIC_DEFAULT = [20219, 21153, 25191, 34892, 22833, 36133, 65292, 35831, 31245, 21518, 37325, 35797,
      25110, 32852, 31995, 31649, 29702, 21592]"

definition toPublicWorkflowJob :: "WorkflowJob \<Rightarrow> PublicWorkflowJobDto" where
  "toPublicWorkflowJob job =
     (let hasPublicError =
        wj_status job = FAILED \<or> wj_status job = WAITING_MATERIAL \<or>
        wj_public_error_code job \<noteq> None \<or> wj_public_error_message job \<noteq> None
      in \<lparr>pub_id = wj_id job, pub_project_id = wj_project_id job,
          pub_workflow_type = wj_workflow_type job, pub_status = wj_status job,
          pub_cancel_requested_at = wj_cancel_requested_at job, pub_approved_at = wj_approved_at job,
          pub_started_at = wj_started_at job, pub_completed_at = wj_completed_at job,
          pub_created_at = wj_created_at job, pub_updated_at = wj_updated_at job,
          pub_error =
            (if hasPublicError
             then Some (case wj_public_error_code job of None \<Rightarrow> js ''WORKFLOW_FAILED'' | Some c \<Rightarrow> c,
                        case wj_public_error_message job of None \<Rightarrow> MSG_PUBLIC_DEFAULT | Some m \<Rightarrow> m)
             else None)\<rparr>)"

end
