(* ===== verification/AuthoringApproval.thy ===== *)
theory AuthoringApproval
  imports WorkflowService
begin

text \<open>
  The approval of a proposal (\<open>authoring/proposal/authoring-proposal.service.ts\<close>, \<open>approve\<close>): the
  one call outside the workflow module that writes a job.  The table of the proposals is not part
  of \<open>workflow_db\<close>; the proposal its query locks is an argument, and the updated proposal is the
  result.  The clock of the process counts milliseconds, the column microseconds.
\<close>

datatype proposal_status = PROPOSAL_ACTIVE | PROPOSAL_APPROVED

text \<open>The columns of the locked proposal the approval reads or writes; its query finds no other status.\<close>

record locked_proposal =
  ap_id :: jstr
  ap_status :: proposal_status
  ap_expires_at :: nat
  ap_approved_at :: "nat option"
  ap_updated_at :: nat

definition MSG_NO_PROPOSAL :: jstr where
  "MSG_NO_PROPOSAL = [24403, 21069, 27809, 26377, 21487, 25209, 20934, 30340, 25552, 26696]"

definition MSG_PROPOSAL_EXPIRED :: jstr where
  "MSG_PROPOSAL_EXPIRED = [25552, 26696, 24050, 36807, 26399]"

definition MSG_APPROVAL_RACE :: jstr where
  "MSG_APPROVAL_RACE = [25552, 26696, 25209, 20934, 31454, 20105, 22833, 36133]"

definition MSG_NOT_WAITING_APPROVAL :: jstr where
  "MSG_NOT_WAITING_APPROVAL = [20219, 21153, 24403, 21069, 19981, 31561, 24453, 20154, 24037, 25209, 20934]"

definition approved_row :: "call_env \<Rightarrow> WorkflowJob \<Rightarrow> WorkflowJob" where
  "approved_row env row =
     row\<lparr>wj_status := QUEUED, wj_approved_at := Some (db_now env), wj_lease_owner := None, wj_lease_token := None,
         wj_lease_expires_at := None, wj_updated_at := db_now env\<rparr>"

definition approvable :: "jstr \<Rightarrow> jstr \<Rightarrow> WorkflowJob \<Rightarrow> bool" where
  "approvable userId projectId row \<longleftrightarrow>
     wj_project_id row = projectId \<and> wj_user_id row = userId \<and> wj_status row = WAITING_APPROVAL"

definition approve ::
    "call_env \<Rightarrow> jstr \<Rightarrow> jstr \<Rightarrow> jstr \<Rightarrow> locked_proposal option \<Rightarrow> locked_proposal db_call" where
  "approve env userId projectId jobId rows = transaction (
     case rows of
       None \<Rightarrow> throwT (NotFoundException MSG_NO_PROPOSAL)
     | Some proposal \<Rightarrow>
         if ap_status proposal = PROPOSAL_APPROVED then returnT proposal
         else if ap_expires_at proposal div 1000 \<le> app_now env div 1000 then throwT (ConflictException MSG_PROPOSAL_EXPIRED)
         else if ap_expires_at proposal \<le> db_now env then throwT (ConflictException MSG_APPROVAL_RACE)
         else
         bindT (update_job jobId (approvable userId projectId) (approved_row env)) (\<lambda>affected.
         if affected \<noteq> 1 then throwT (ConflictException MSG_NOT_WAITING_APPROVAL)
         else returnT (proposal\<lparr>ap_status := PROPOSAL_APPROVED, ap_approved_at := Some (db_now env),
           ap_updated_at := db_now env\<rparr>)))"

text \<open>An approval leaves the database as it is, or moves the one job from waiting to queued.\<close>

lemma approve_cases:
  assumes "approve env u p jobId rows s = (r, s')"
  shows "s' = s \<or> (\<exists>row. db_jobs s jobId = Some row \<and> wj_status row = WAITING_APPROVAL \<and>
    s' = with_job jobId (approved_row env row) s)"
  using assms
  by (auto simp: approve_def transaction_def bindT_def update_job_def tx_steps approvable_def with_job_def
      split: option.splits if_splits)

end
