(* ===== verification/WorkflowSystem.thy ===== *)
theory WorkflowSystem
  imports AuthoringApproval
begin

text \<open>
  The workflow runtime as a transition system: any number of workers claim, renew and write,
  while users create, approve, cancel and resume, in any order.  One step is one call, or one
  statement where a call is not a transaction; the clock each step reads is arbitrary, so every
  delay between two steps is covered.  The second component of a state is the list of the claims
  handed out so far.  The deletion of a project, which takes its jobs with it, is not a step: the
  system is that of the jobs of projects that stay.
\<close>

section \<open>Claims\<close>

lemma disj_right: "(\<not> A \<Longrightarrow> B) \<Longrightarrow> A \<or> B"
  by blast

definition claimable :: "nat \<Rightarrow> WorkflowJob \<Rightarrow> bool" where
  "claimable now row \<longleftrightarrow>
     wj_cancel_requested_at row = None \<and>
     (wj_status row = QUEUED \<or> wj_status row = REVISION_REQUIRED \<or>
      (wj_status row = RUNNING \<and> \<not> lease_active now row))"

definition claim_of :: "WorkflowJob \<Rightarrow> jsval \<Rightarrow> jsval \<Rightarrow> jstr \<Rightarrow> AuthoringPolicySelection \<Rightarrow> ClaimedWorkflowJob" where
  "claim_of row input checkpoint leaseToken policy =
     \<lparr>cj_id = wj_id row, cj_userId = wj_user_id row, cj_projectId = wj_project_id row,
      cj_workflowType = wj_workflow_type row, cj_input = input, cj_checkpoint = checkpoint,
      cj_leaseToken = leaseToken, cj_fencingToken = wj_fencing_token row + 1,
      cj_generationAttempt = wj_generation_attempt row, cj_policy = policy\<rparr>"

definition claim_event :: "call_env \<Rightarrow> WorkflowJob \<Rightarrow> jstr \<Rightarrow> workflow_db \<Rightarrow> workflow_db" where
  "claim_event env row jobId s =
     with_event env jobId
       (if wj_status row = RUNNING then js ''workflow.resumed'' else js ''workflow.started'')
       (JObj [status_field RUNNING, (js ''attempt'', JNum (NInt (int (wj_fencing_token row + 1))))]) s"

lemma claim_Some:
  assumes "claim P env jobId workerId s = (Inr (Some c), s')"
  obtains row input checkpoint policy where
    "db_jobs s jobId = Some row" and "claimable (db_now env) row"
    and "restore_columns P row = Inr policy"
    and "c = claim_of row input checkpoint (fresh_uuid env) policy"
    and "s' = claim_event env row jobId (with_job jobId (claimed_row env workerId (wj_fencing_token row + 1) row) s)"
  using assms that
  unfolding claim_def transaction_Inr_iff Let_def
  by (auto elim!: bindT_InrE simp: bindT_liftE_Inr lockJob_def update_job_def with_job_def returnT_def
      appendEvent_run liftE_def claimable_def isTerminalStatus_def claim_event_def claim_of_def ac_simps
      split: option.splits if_splits)

lemma claim_None: "claim P env jobId workerId s = (r, s') \<Longrightarrow> (\<And>c. r \<noteq> Inr (Some c)) \<Longrightarrow> s' = s"
  unfolding claim_def transaction_def Let_def
  by (auto simp: bindT_def lockJob_def update_job_def returnT_def liftE_def appendEvent_run
      split: option.splits if_splits sum.splits prod.splits)

lemma claim_runs:
  assumes "db_jobs s jobId = Some row" and "claimable (db_now env) row"
    and "restore_columns P row = Inr policy"
    and "parseJsonObject P (wj_input row) = Inr input" and "parseJsonObject P (wj_checkpoint row) = Inr checkpoint"
  shows "claim P env jobId workerId s =
    (Inr (Some (claim_of row (object_or_null input) (object_or_null checkpoint) (fresh_uuid env) policy)),
     claim_event env row jobId (with_job jobId (claimed_row env workerId (wj_fencing_token row + 1) row) s))"
  using assms unfolding claim_def transaction_def Let_def
  by (auto simp: bindT_def lockJob_def update_job_def returnT_def liftE_def appendEvent_run claimable_def
      isTerminalStatus_def claim_event_def claim_of_def with_job_def ac_simps)

lemma claimed_row_step:
  assumes "claimable now row"
  shows "row_step row (claimed_row env workerId (wj_fencing_token row + 1) row)"
proof -
  have "job_identity (claimed_row env workerId (wj_fencing_token row + 1) row) = job_identity row"
    by (simp add: claimed_row_def job_identity_def)
  then show ?thesis
    using assms by (auto simp: row_step_def claimed_row_def status_step_def claimable_def isTerminalStatus_def)
qed

lemma claim_job_step: "claim P env jobId workerId s = (r, s') \<Longrightarrow> job_step jobId s s'"
proof (cases "\<exists>c. r = Inr (Some c)")
  case True
  assume "claim P env jobId workerId s = (r, s')"
  with True obtain c where "claim P env jobId workerId s = (Inr (Some c), s')" by blast
  then show "job_step jobId s s'"
    by (rule claim_Some) (auto simp: claim_event_def
        intro!: job_step_with_event job_step_with_job claimed_row_step claimed_row_step [simplified])
next
  case False
  assume "claim P env jobId workerId s = (r, s')"
  with False show "job_step jobId s s'"
    by (auto dest: claim_None)
qed

section \<open>The other calls\<close>

lemma extend_lease_step: "wj_status row = RUNNING \<Longrightarrow> row_step row (extend_lease env row)"
  by (simp add: row_step_def status_step_def isTerminalStatus_def)

lemma renewLease_job_step:
  assumes "renewLease env job s = (r, s')"
  shows "job_step (cj_id job) s s'"
proof -
  have "s' = s \<or> (\<exists>row. db_jobs s (cj_id job) = Some row \<and> fence_where job row \<and>
      s' = with_job (cj_id job) (extend_lease env row) s)"
    using assms by (auto simp: renewLease_def update_job_def with_job_def split: option.splits if_splits)
  then show ?thesis
    by (auto intro: job_step_with_job extend_lease_step fence_where_running)
qed

text \<open>Every row stands under its own key.\<close>

definition keys_ok :: "workflow_db \<Rightarrow> bool" where
  "keys_ok s \<longleftrightarrow> (\<forall>j row. db_jobs s j = Some row \<longrightarrow> wj_id row = j)"

lemma assertOwner_run:
  "assertOwner u p s = (r, s') \<Longrightarrow> s' = s"
  by (auto simp: assertOwner_def split: option.splits if_splits)

lemma assertOwner_bind:
  assumes "bindT (assertOwner u p) k s = (r, s')"
  shows "s' = s \<or> k () s = (r, s')"
  using assms by (auto simp: bindT_def split: prod.splits sum.splits dest!: assertOwner_run)

lemma stopped_row_step:
  assumes "\<not> isTerminalStatus (wj_status job)"
  shows "row_step job ((stopped_row env job)\<lparr>wj_updated_at := t\<rparr>)"
proof -
  have "job_identity ((stopped_row env job)\<lparr>wj_updated_at := t\<rparr>) = job_identity job"
    by (simp add: stopped_row_def job_identity_def)
  moreover have "STOPPED \<in> set (ALLOWED_TRANSITIONS (wj_status job))"
    using assms by (cases "wj_status job") (simp_all add: isTerminalStatus_def)
  ultimately show ?thesis
    using assms by (simp add: row_step_def stopped_row_def status_step_def)
qed

lemma requeued_row_step:
  assumes "wj_status job = WAITING_MATERIAL"
  shows "row_step job ((requeued_row job)\<lparr>wj_updated_at := t\<rparr>)"
proof -
  have "job_identity ((requeued_row job)\<lparr>wj_updated_at := t\<rparr>) = job_identity job"
    by (simp add: requeued_row_def job_identity_def)
  then show ?thesis
    using assms by (simp add: row_step_def requeued_row_def status_step_def isTerminalStatus_def)
qed

lemma approved_row_step:
  assumes "wj_status job = WAITING_APPROVAL"
  shows "row_step job (approved_row env job)"
proof -
  have "job_identity (approved_row env job) = job_identity job"
    by (simp add: approved_row_def job_identity_def)
  then show ?thesis
    using assms by (simp add: row_step_def approved_row_def status_step_def isTerminalStatus_def)
qed

lemma approve_job_step: "approve env u p jobId rows s = (r, s') \<Longrightarrow> job_step jobId s s'"
  by (drule approve_cases) (auto intro: job_step_with_job approved_row_step)

lemma transitioned_row_step:
  assumes "new \<in> set (ALLOWED_TRANSITIONS (wj_status job))"
  shows "row_step job ((transitioned_row env new job)\<lparr>wj_updated_at := t\<rparr>)"
proof -
  have "\<not> isTerminalStatus (wj_status job)"
    using assms by (cases "wj_status job") (auto simp: isTerminalStatus_def)
  moreover have "job_identity ((transitioned_row env new job)\<lparr>wj_updated_at := t\<rparr>) = job_identity job"
    by (simp add: transitioned_row_def job_identity_def Let_def)
  ultimately show ?thesis
    using assms by (auto simp: row_step_def transitioned_row_def Let_def status_step_def)
qed

lemma cancel_cases:
  assumes "keys_ok s" and "cancel env u p jobId s = (r, s')"
  shows "s' = s \<or> (\<exists>job. db_jobs s jobId = Some job \<and> \<not> isTerminalStatus (wj_status job) \<and>
    s' = with_event env jobId (js ''workflow.cancelled'') (JObj [status_field STOPPED])
      (with_job jobId ((stopped_row env job)\<lparr>wj_updated_at := db_now env\<rparr>) s))"
  using assms assertOwner_bind [OF assms(2) [unfolded cancel_def]]
  unfolding transaction_def keys_ok_def
  by (auto simp: bindT_def lockOwnedJob_def tx_steps save_job_def appendEvent_run Let_def isTerminalStatus_def
      stopped_row_def split: option.splits if_splits sum.splits prod.splits)

lemma delete_assignment_run:
  "delete_assignment jobId p s = (r, s') \<Longrightarrow>
     r = Inr () \<and> (s' = s \<or> s' = with_assignment jobId None s)"
  by (auto simp: delete_assignment_def split: option.splits if_splits)

lemma with_assignment_same: "with_assignment jobId (db_assignments s jobId) s = s"
  by (simp add: with_assignment_def)

lemma resumeMaterial_cases:
  assumes "keys_ok s" and "resumeMaterial env u p jobId s = (r, s')"
  shows "s' = s \<or> (\<exists>job a. db_jobs s jobId = Some job \<and> wj_status job = WAITING_MATERIAL \<and>
    assignment_step (db_assignments s jobId) a \<and>
    s' = with_event env jobId (js ''workflow.material_resumed'') (JObj [status_field QUEUED])
      (with_job jobId ((requeued_row job)\<lparr>wj_updated_at := db_now env\<rparr>) (with_assignment jobId a s)))"
proof (rule disj_right)
  assume "s' \<noteq> s"
  then obtain job where job: "db_jobs s jobId = Some job" "wj_status job = WAITING_MATERIAL"
    and run: "bindT (delete_assignment (wj_id job) p) (\<lambda>_.
     bindT (save_job env (requeued_row job)) (\<lambda>saved.
     bindT (appendEvent env (wj_id job) (js ''workflow.material_resumed'') (JObj [status_field QUEUED])) (\<lambda>_.
     returnT saved))) s = (r, s')"
    using assms(2) assertOwner_bind [OF assms(2) [unfolded resumeMaterial_def]]
    unfolding transaction_def
    by (auto simp: bindT_def lockOwnedJob_def tx_steps split: option.splits if_splits sum.splits prod.splits)
  have id: "wj_id job = jobId"
    using assms(1) job(1) by (simp add: keys_ok_def)
  obtain s1 where d: "delete_assignment jobId p s = (Inr (), s1)"
    and s1': "s1 = s \<or> s1 = with_assignment jobId None s"
    using delete_assignment_run [of jobId p s] by (cases "delete_assignment jobId p s") auto
  obtain a where a: "assignment_step (db_assignments s jobId) a" and s1: "s1 = with_assignment jobId a s"
    using s1' with_assignment_same [of jobId s] assignment_step_refl by (metis assignment_step_def)
  with run d have "s' = with_event env jobId (js ''workflow.material_resumed'') (JObj [status_field QUEUED])
      (with_job jobId ((requeued_row job)\<lparr>wj_updated_at := db_now env\<rparr>) s1)"
    by (simp add: id bindT_def save_job_def appendEvent_run returnT_def Let_def requeued_row_def)
  with job a s1 show "\<exists>job a. db_jobs s jobId = Some job \<and> wj_status job = WAITING_MATERIAL \<and>
    assignment_step (db_assignments s jobId) a \<and>
    s' = with_event env jobId (js ''workflow.material_resumed'') (JObj [status_field QUEUED])
      (with_job jobId ((requeued_row job)\<lparr>wj_updated_at := db_now env\<rparr>) (with_assignment jobId a s))"
    by blast
qed

lemma transition_cases:
  assumes "keys_ok s" and "transition env jobId new t d s = (r, s')"
  shows "s' = s \<or> (\<exists>job. db_jobs s jobId = Some job \<and> new \<in> set (ALLOWED_TRANSITIONS (wj_status job)) \<and>
    s' = with_event env jobId t d
      (with_job jobId ((transitioned_row env new job)\<lparr>wj_updated_at := db_now env\<rparr>) s))"
proof (rule disj_right)
  assume "s' \<noteq> s"
  then obtain job where job: "db_jobs s jobId = Some job" "new \<in> set (ALLOWED_TRANSITIONS (wj_status job))"
    and run: "bindT (save_job env (transitioned_row env new job)) (\<lambda>saved.
     bindT (appendEvent env (wj_id job) t d) (\<lambda>_. returnT saved)) s = (r, s')"
    using assms(2) unfolding transition_def transaction_def assertWorkflowTransition_def
    by (auto simp: bindT_def lockJob_def tx_steps split: option.splits if_splits sum.splits prod.splits)
  have "wj_id job = jobId"
    using assms(1) job(1) by (simp add: keys_ok_def)
  moreover from this have "wj_id (transitioned_row env new job) = jobId"
    by (simp add: transitioned_row_def Let_def)
  ultimately show "\<exists>job. db_jobs s jobId = Some job \<and> new \<in> set (ALLOWED_TRANSITIONS (wj_status job)) \<and>
    s' = with_event env jobId t d
      (with_job jobId ((transitioned_row env new job)\<lparr>wj_updated_at := db_now env\<rparr>) s)"
    using job run by (auto simp: bindT_def save_job_def appendEvent_run returnT_def Let_def)
qed

lemma control_plane_job_step:
  assumes "keys_ok s"
  shows "cancel env u p jobId s = (r, s') \<Longrightarrow> job_step jobId s s'"
    and "resumeMaterial env u p jobId s = (r, s') \<Longrightarrow> job_step jobId s s'"
    and "transition env jobId new t d s = (r, s') \<Longrightarrow> job_step jobId s s'"
    and "appendJobEvent env jobId t d s = (r2, s') \<Longrightarrow> job_step jobId s s'"
proof -
  show "cancel env u p jobId s = (r, s') \<Longrightarrow> job_step jobId s s'"
    using cancel_cases [OF assms]
    by (fastforce intro: job_step_with_event job_step_with_job stopped_row_step)
  show "resumeMaterial env u p jobId s = (r, s') \<Longrightarrow> job_step jobId s s'"
    using resumeMaterial_cases [OF assms]
    by (fastforce intro: job_step_with_event job_step_with_assignment requeued_row_step)
  show "transition env jobId new t d s = (r, s') \<Longrightarrow> job_step jobId s s'"
    using transition_cases [OF assms]
    by (fastforce intro: job_step_with_event job_step_with_job transitioned_row_step)
  show "appendJobEvent env jobId t d s = (r2, s') \<Longrightarrow> job_step jobId s s'"
    by (auto simp: appendJobEvent_def transaction_def bindT_def lockJob_def appendEvent_run tx_steps
        intro!: job_step_with_event split: option.splits)
qed

section \<open>Creation\<close>

definition with_new_job :: "WorkflowJob \<Rightarrow> workflow_db \<Rightarrow> workflow_db" where
  "with_new_job row s =
     s\<lparr>db_job_ids := db_job_ids s @ [wj_id row], db_jobs := (db_jobs s)(wj_id row \<mapsto> row)\<rparr>"

lemma with_new_job_simps [simp]:
  "db_jobs (with_new_job row s) = (db_jobs s)(wj_id row \<mapsto> row)"
  "db_job_ids (with_new_job row s) = db_job_ids s @ [wj_id row]"
  "db_events (with_new_job row s) = db_events s"
  "db_assignments (with_new_job row s) = db_assignments s"
  "db_project_owner (with_new_job row s) = db_project_owner s"
  "job_events j (with_new_job row s) = job_events j s"
  by (simp_all add: with_new_job_def job_events_def)

lemma new_job_fields:
  "wj_id (new_job env k h i pol) = row_uuid env" "job_key (new_job env k h i pol) = k"
  "wj_status (new_job env k h i pol) = QUEUED" "wj_fencing_token (new_job env k h i pol) = 0"
  "wj_request_hash (new_job env k h i pol) = h" "wj_cancel_requested_at (new_job env k h i pol) = None"
  by (auto simp: new_job_def job_key_def split: prod.split)

definition request_key :: "call_env \<Rightarrow> jstr \<Rightarrow> jstr \<Rightarrow> CreateWorkflowDto \<Rightarrow> job_key" where
  "request_key env u p dto =
     (u, p, dto_workflow_type dto,
      case map_option js_trim (dto_idempotency_key dto) of None \<Rightarrow> fresh_uuid env | Some k \<Rightarrow> k)"

lemma create_cases:
  assumes "create P env config readiness u p dto e s = (r, s')"
  shows "s' = s \<or> (\<exists>h policy row. createWorkflowRequestHash P dto = Inr h \<and>
    select_for_job P config p e dto = Inr policy \<and>
    row = new_job env (request_key env u p dto) h (dto_input dto) policy \<and> r = Inr row \<and>
    db_jobs s (row_uuid env) = None \<and> find_by_key (request_key env u p dto) s = None \<and>
    s' = with_event env (row_uuid env) (js ''workflow.created'') (JObj [status_field QUEUED]) (with_new_job row s))"
proof (rule disj_right)
  assume "s' \<noteq> s"
  then show "\<exists>h policy row. createWorkflowRequestHash P dto = Inr h \<and>
    select_for_job P config p e dto = Inr policy \<and>
    row = new_job env (request_key env u p dto) h (dto_input dto) policy \<and> r = Inr row \<and>
    db_jobs s (row_uuid env) = None \<and> find_by_key (request_key env u p dto) s = None \<and>
    s' = with_event env (row_uuid env) (js ''workflow.created'') (JObj [status_field QUEUED]) (with_new_job row s)"
    using assms assertOwner_bind [OF assms [unfolded create_def]]
    unfolding transaction_def request_key_def
    by (auto simp: Let_def bindT_def tx_steps lockOwnedProject_def insert_job_def appendEvent_run
        new_job_fields with_new_job_def split: option.splits if_splits sum.splits prod.splits)
qed

section \<open>The transition system\<close>

type_synonym workflow_state = "workflow_db \<times> ClaimedWorkflowJob list"

definition initial_state :: "workflow_state \<Rightarrow> bool" where
  "initial_state \<sigma> \<longleftrightarrow>
     db_jobs (fst \<sigma>) = (\<lambda>_. None) \<and> db_job_ids (fst \<sigma>) = [] \<and> db_events (fst \<sigma>) = [] \<and> snd \<sigma> = []"

inductive workflow_step :: "platform \<Rightarrow> workflow_state \<Rightarrow> workflow_state \<Rightarrow> bool" for P where
  claims: "claim P env j w s = (Inr (Some c), s') \<Longrightarrow> workflow_step P (s, cs) (s', c # cs)"
| claims_nothing: "claim P env j w s = (r, s') \<Longrightarrow> (\<And>c. r \<noteq> Inr (Some c)) \<Longrightarrow> workflow_step P (s, cs) (s', cs)"
| renews: "c \<in> set cs \<Longrightarrow> renewLease env c s = (r, s') \<Longrightarrow> workflow_step P (s, cs) (s', cs)"
| progresses: "c \<in> set cs \<Longrightarrow> persistProgress P env c t d k s = (r, s') \<Longrightarrow> workflow_step P (s, cs) (s', cs)"
| completes: "c \<in> set cs \<Longrightarrow> complete env c s = (r, s') \<Longrightarrow> workflow_step P (s, cs) (s', cs)"
| suspends: "c \<in> set cs \<Longrightarrow> suspend env c reason s = (r, s') \<Longrightarrow> workflow_step P (s, cs) (s', cs)"
| fails: "c \<in> set cs \<Longrightarrow> fail P env c err s = (r, s') \<Longrightarrow> workflow_step P (s, cs) (s', cs)"
| creates: "create P env config readiness u p dto e s = (r, s') \<Longrightarrow> workflow_step P (s, cs) (s', cs)"
| approves: "approve env u p j proposal s = (r, s') \<Longrightarrow> workflow_step P (s, cs) (s', cs)"
| cancels: "cancel env u p j s = (r, s') \<Longrightarrow> workflow_step P (s, cs) (s', cs)"
| resumes: "resumeMaterial env u p j s = (r, s') \<Longrightarrow> workflow_step P (s, cs) (s', cs)"
| transitions: "transition env j new t d s = (r, s') \<Longrightarrow> workflow_step P (s, cs) (s', cs)"
| appends: "appendJobEvent env j t d s = (r, s') \<Longrightarrow> workflow_step P (s, cs) (s', cs)"
| grounds: "workflow_step P (s, cs) (s\<lparr>db_assignments := a\<rparr>, cs)"

definition workflow_reachable :: "platform \<Rightarrow> workflow_state \<Rightarrow> bool" where
  "workflow_reachable P \<sigma> \<longleftrightarrow> (\<exists>\<sigma>0. initial_state \<sigma>0 \<and> (workflow_step P)\<^sup>*\<^sup>* \<sigma>0 \<sigma>)"

text \<open>
  A step is a step of one job, a change of assignments only, or a creation; the claims grow
  only by a claim that carries the next fencing token.
\<close>

lemma workflow_step_cases:
  assumes "keys_ok s" and "workflow_step P (s, cs) (s', cs')"
  obtains (job) j where "job_step j s s'" and "cs' = cs"
  | (claim) env j w c where "claim P env j w s = (Inr (Some c), s')" and "cs' = c # cs"
  | (create) env k h i pol where "cs' = cs" and "db_jobs s (row_uuid env) = None" and "find_by_key k s = None"
      and "s' = with_event env (row_uuid env) (js ''workflow.created'') (JObj [status_field QUEUED])
        (with_new_job (new_job env k h i pol) s)"
  | (grounds) a where "cs' = cs" and "s' = s\<lparr>db_assignments := a\<rparr>"
  using assms(2)
proof (cases rule: workflow_step.cases)
  case (creates env config readiness u p dto e r)
  from create_cases [OF creates(2)] show ?thesis
  proof
    assume "s' = s"
    with creates(1) show ?thesis by (auto intro: job)
  next
    assume "\<exists>h policy row. createWorkflowRequestHash P dto = Inr h \<and>
      select_for_job P config p e dto = Inr policy \<and>
      row = new_job env (request_key env u p dto) h (dto_input dto) policy \<and> r = Inr row \<and>
      db_jobs s (row_uuid env) = None \<and> find_by_key (request_key env u p dto) s = None \<and>
      s' = with_event env (row_uuid env) (js ''workflow.created'') (JObj [status_field QUEUED]) (with_new_job row s)"
    then show ?thesis using create [OF creates(1)] by metis
  qed
qed (use assms(1) in \<open>auto intro: job claim grounds claim_job_step renewLease_job_step approve_job_step
      persist_progress.steps completion.steps suspension.steps failure.steps control_plane_job_step\<close>)

section \<open>Invariants\<close>

definition index_ok :: "workflow_db \<Rightarrow> bool" where
  "index_ok s \<longleftrightarrow>
     keys_ok s \<and> distinct (db_job_ids s) \<and> (\<forall>j. db_jobs s j \<noteq> None \<longleftrightarrow> j \<in> set (db_job_ids s)) \<and>
     distinct (map job_key (all_jobs s)) \<and> (\<forall>j. db_jobs s j = None \<longrightarrow> job_events j s = [])"

definition claims_ok :: "workflow_db \<Rightarrow> ClaimedWorkflowJob list \<Rightarrow> bool" where
  "claims_ok s cs \<longleftrightarrow>
     distinct (map (\<lambda>c. (cj_id c, cj_fencingToken c)) cs) \<and>
     (\<forall>c \<in> set cs. \<exists>row. db_jobs s (cj_id c) = Some row \<and> cj_fencingToken c \<le> wj_fencing_token row)"

definition workflow_inv :: "workflow_state \<Rightarrow> bool" where
  "workflow_inv \<sigma> \<longleftrightarrow> index_ok (fst \<sigma>) \<and> events_numbered (fst \<sigma>) \<and> claims_ok (fst \<sigma>) (snd \<sigma>)"

lemma row_step_key: "row_step row row' \<Longrightarrow> job_key row' = job_key row \<and> wj_id row' = wj_id row"
  by (auto simp: row_step_def job_identity_def job_key_def)

lemma job_step_jobs: "job_step jobId s s' \<Longrightarrow> rel_option row_step (db_jobs s j) (db_jobs s' j)"
  by (cases "j = jobId") (auto simp: job_step_def)

lemma job_step_all_jobs:
  assumes "job_step jobId s s'"
  shows "map job_key (all_jobs s') = map job_key (all_jobs s)"
proof -
  have *: "map job_key (List.map_filter (db_jobs s') js) = map job_key (List.map_filter (db_jobs s) js)" for js
  proof (induction js)
    case (Cons j js)
    then show ?case
      using job_step_jobs [OF assms, of j] row_step_key
      by (cases "db_jobs s j"; cases "db_jobs s' j") (auto simp: map_filter_simps)
  qed (simp add: map_filter_simps)
  have "db_job_ids s' = db_job_ids s"
    using assms by (simp add: job_step_def)
  then show ?thesis
    unfolding all_jobs_def by (simp add: *)
qed

lemma rel_option_defined: "rel_option R a b \<Longrightarrow> (b = None) = (a = None)"
  by (cases a; cases b) auto

lemma job_step_index_ok:
  assumes "job_step jobId s s'" and "index_ok s"
  shows "index_ok s'"
proof -
  have none: "db_jobs s' j = None \<longleftrightarrow> db_jobs s j = None" for j
    using job_step_jobs [OF assms(1), of j] by (rule rel_option_defined)
  have "keys_ok s'"
    unfolding keys_ok_def
  proof (intro allI impI)
    fix j row' assume "db_jobs s' j = Some row'"
    with job_step_jobs [OF assms(1), of j] obtain row where "db_jobs s j = Some row" "row_step row row'"
      by (auto simp: option_rel_Some2)
    then show "wj_id row' = j"
      using assms(2) row_step_key by (auto simp: index_ok_def keys_ok_def)
  qed
  moreover have "db_job_ids s' = db_job_ids s"
    using assms(1) by (simp add: job_step_def)
  moreover have "job_events j s' = []" if "db_jobs s' j = None" for j
  proof (cases "j = jobId")
    case True
    then have "s' = s"
      using assms(1) that none by (simp add: job_step_def)
    then show ?thesis
      using assms(2) that by (simp add: index_ok_def)
  next
    case False
    then have "job_events j s' = job_events j s"
      using assms(1) by (simp add: job_step_def)
    then show ?thesis
      using assms(2) that none by (simp add: index_ok_def)
  qed
  ultimately show ?thesis
    using assms(2) none job_step_all_jobs [OF assms(1)] by (auto simp: index_ok_def)
qed

lemma events_numbered_new_job: "events_numbered (with_new_job row s) = events_numbered s"
  by (simp add: events_numbered_def)

lemma map_filter_append: "List.map_filter f (xs @ ys) = List.map_filter f xs @ List.map_filter f ys"
  by (simp add: List.map_filter_def)

lemma create_index_ok:
  assumes "index_ok s" and "db_jobs s (row_uuid env) = None" and "find_by_key k s = None"
  shows "index_ok (with_event env (row_uuid env) t d (with_new_job (new_job env k h i pol) s))"
proof -
  let ?row = "new_job env k h i pol"
  let ?s = "with_new_job ?row s"
  have fresh: "row_uuid env \<notin> set (db_job_ids s)"
    using assms(1,2) unfolding index_ok_def by blast
  have "List.map_filter (db_jobs ?s) (db_job_ids s) = List.map_filter (db_jobs s) (db_job_ids s)"
    unfolding List.map_filter_def using fresh
    by (intro arg_cong2 [where f = map] filter_cong map_cong) (auto simp: new_job_fields)
  then have all: "all_jobs ?s = all_jobs s @ [?row]"
    by (simp add: all_jobs_def map_filter_append new_job_fields map_filter_simps)
  have "k \<notin> set (map job_key (all_jobs s))"
    using assms(3) by (auto simp: find_by_key_def find_None_iff)
  then have "distinct (map job_key (all_jobs ?s))"
    using assms(1) by (simp add: all index_ok_def new_job_fields)
  then have ok: "index_ok ?s"
    using assms fresh by (auto simp: index_ok_def keys_ok_def new_job_fields)
  have "all_jobs (with_event env (row_uuid env) t d ?s) = all_jobs ?s"
    by (simp add: all_jobs_def)
  then show ?thesis
    using ok by (simp add: index_ok_def keys_ok_def job_events_with_event new_job_fields)
qed

lemma claims_ok_mono:
  assumes "claims_ok s cs" and "\<And>j. rel_option row_step (db_jobs s j) (db_jobs s' j)"
  shows "claims_ok s' cs"
  unfolding claims_ok_def
proof (intro conjI ballI)
  show "distinct (map (\<lambda>c. (cj_id c, cj_fencingToken c)) cs)"
    using assms(1) by (simp add: claims_ok_def)
  fix c assume "c \<in> set cs"
  then obtain row where "db_jobs s (cj_id c) = Some row" "cj_fencingToken c \<le> wj_fencing_token row"
    using assms(1) by (auto simp: claims_ok_def)
  moreover from this assms(2) [of "cj_id c"] obtain row' where
    "db_jobs s' (cj_id c) = Some row'" "row_step row row'"
    by (auto simp: option_rel_Some1)
  ultimately show "\<exists>row'. db_jobs s' (cj_id c) = Some row' \<and> cj_fencingToken c \<le> wj_fencing_token row'"
    by (auto simp: row_step_def)
qed

lemma claim_fields:
  assumes "claim P env j w s = (Inr (Some c), s')" and "keys_ok s"
  obtains row where "db_jobs s j = Some row" and "cj_id c = j" and "cj_fencingToken c = wj_fencing_token row + 1"
    and "claimable (db_now env) row" and "db_jobs s' j = Some (claimed_row env w (wj_fencing_token row + 1) row)"
proof -
  from assms(1) obtain row input checkpoint policy where c: "db_jobs s j = Some row" "claimable (db_now env) row"
    "c = claim_of row input checkpoint (fresh_uuid env) policy"
    "s' = claim_event env row j (with_job j (claimed_row env w (wj_fencing_token row + 1) row) s)"
    by (rule claim_Some)
  moreover have "wj_id row = j"
    using assms(2) c(1) by (simp add: keys_ok_def)
  ultimately show ?thesis
    using that by (simp add: claim_of_def claim_event_def)
qed

lemma workflow_step_inv:
  assumes "workflow_step P \<sigma> \<sigma>'" and "workflow_inv \<sigma>"
  shows "workflow_inv \<sigma>'"
proof -
  obtain s cs s' cs' where \<sigma>: "\<sigma> = (s, cs)" "\<sigma>' = (s', cs')"
    by (cases \<sigma>; cases \<sigma>')
  have idx: "index_ok s" and num: "events_numbered s" and cl: "claims_ok s cs"
    using assms(2) by (simp_all add: \<sigma> workflow_inv_def)
  have keys: "keys_ok s"
    using idx by (simp add: index_ok_def)
  show ?thesis
    using keys assms(1) [unfolded \<sigma>]
  proof (cases rule: workflow_step_cases)
    case (job j)
    then have "claims_ok s' cs"
      using cl job_step_jobs by (blast intro: claims_ok_mono)
    with job show ?thesis
      using job_step_index_ok [OF job(1) idx] num by (simp add: \<sigma> workflow_inv_def job_step_def)
  next
    case (claim env j w c)
    have step: "job_step j s s'"
      using claim(1) by (rule claim_job_step)
    from claim(1) keys obtain row where row: "db_jobs s j = Some row" "cj_id c = j"
      "cj_fencingToken c = wj_fencing_token row + 1"
      "db_jobs s' j = Some (claimed_row env w (wj_fencing_token row + 1) row)"
      by (rule claim_fields)
    have "claims_ok s' cs"
      using cl step job_step_jobs by (blast intro: claims_ok_mono)
    moreover have "(cj_id c, cj_fencingToken c) \<notin> (\<lambda>d. (cj_id d, cj_fencingToken d)) ` set cs"
      using cl row(1-3) by (fastforce simp: claims_ok_def)
    ultimately have "claims_ok s' (c # cs)"
      using row(2-4) by (simp add: claims_ok_def claimed_row_def)
    with claim(2) show ?thesis
      using job_step_index_ok [OF step idx] num step by (simp add: \<sigma> workflow_inv_def job_step_def)
  next
    case (create env k h i pol)
    have "index_ok s'"
      unfolding create(4) using idx create(2,3) by (rule create_index_ok)
    moreover have "events_numbered s'"
      unfolding create(4) using num by (intro events_numbered_with_event) (simp add: events_numbered_new_job)
    moreover have "claims_ok s' cs"
      using cl create(2) unfolding create(4) claims_ok_def by (auto simp: new_job_fields)
    ultimately show ?thesis
      by (simp add: \<sigma> workflow_inv_def create(1))
  next
    case (grounds a)
    then show ?thesis
      using idx num cl
      by (simp add: \<sigma> workflow_inv_def index_ok_def keys_ok_def claims_ok_def events_numbered_def job_events_def all_jobs_def)
  qed
qed

lemma workflow_inv_initial: "initial_state \<sigma> \<Longrightarrow> workflow_inv \<sigma>"
  by (auto simp: initial_state_def workflow_inv_def index_ok_def keys_ok_def events_numbered_def
      job_events_def claims_ok_def all_jobs_def map_filter_simps)

lemma workflow_reachable_inv: "workflow_reachable P \<sigma> \<Longrightarrow> workflow_inv \<sigma>"
proof -
  assume "workflow_reachable P \<sigma>"
  then obtain \<sigma>0 where "initial_state \<sigma>0" and "(workflow_step P)\<^sup>*\<^sup>* \<sigma>0 \<sigma>"
    by (auto simp: workflow_reachable_def)
  from this(2,1) show ?thesis
    by induction (auto intro: workflow_inv_initial workflow_step_inv)
qed

end
