(* ===== verification/WorkflowProperties.thy ===== *)
theory WorkflowProperties
  imports WorkflowSystem
begin

text \<open>
  What the workflow runtime guarantees: one writer at a time, monotone job histories, the
  numbering of the event log, cancellation, idempotent creation and progress, and the outcome
  of every failure.  Each safety property quantifies over all interleavings of
  \<open>workflow_step\<close>.
\<close>

section \<open>Safety over all interleavings\<close>

text \<open>
  C1: At most one claim of a job can write.  In every reachable state, two claims of the same
  job that both pass the fence, at whatever times the two calls read the clock, are the same
  claim.
\<close>

theorem single_writer:
  assumes "workflow_reachable P (s, cs)" and "c \<in> set cs" and "d \<in> set cs" and "cj_id c = cj_id d"
    and "db_jobs s (cj_id c) = Some row" and "fence_ok t c row" and "fence_ok t' d row"
  shows "c = d"
proof -
  have "distinct (map (\<lambda>c. (cj_id c, cj_fencingToken c)) cs)"
    using workflow_reachable_inv [OF assms(1)] by (simp add: workflow_inv_def claims_ok_def)
  moreover have "cj_fencingToken c = cj_fencingToken d"
    using assms(6,7) by (simp add: fence_ok_def fence_where_def)
  ultimately show ?thesis
    using assms(2-4) by (auto simp: distinct_map dest!: inj_onD)
qed

lemma workflow_step_history:
  assumes "workflow_step P (s, cs) (s', cs')" and "keys_ok s"
  shows "(\<forall>row. db_jobs s j = Some row \<longrightarrow> (\<exists>row'. db_jobs s' j = Some row' \<and> row_step row row')) \<and>
    (\<exists>es. job_events j s' = job_events j s @ es)"
proof -
  have *: ?thesis if "job_step i s s'" for i
  proof -
    have "\<exists>es. job_events j s' = job_events j s @ es"
      using that by (cases "j = i") (auto simp: job_step_def)
    then show ?thesis
      using job_step_jobs [OF that, of j] by (auto simp: option_rel_Some1)
  qed
  show ?thesis
    using assms(2,1)
  proof (cases rule: workflow_step_cases)
    case (create env k h i pol)
    then show ?thesis
      by (auto simp: job_events_with_event new_job_fields)
  next
    case (claim env i w c)
    then show ?thesis by (intro *) (rule claim_job_step)
  qed (use * in \<open>auto simp: job_events_def\<close>)
qed

lemma workflow_step_keys:
  assumes "workflow_step P (s, cs) (s', cs')" and "keys_ok s"
  shows "keys_ok s'"
proof -
  have *: "keys_ok s'" if "job_step i s s'" for i
  proof -
    have "wj_id row' = j" if row': "db_jobs s' j = Some row'" for j row'
    proof -
      from job_step_jobs [OF \<open>job_step i s s'\<close>, of j] row' obtain row where "db_jobs s j = Some row" "row_step row row'"
        by (auto simp: option_rel_Some2)
      with assms(2) row_step_key show ?thesis by (auto simp: keys_ok_def)
    qed
    then show ?thesis by (simp add: keys_ok_def)
  qed
  show ?thesis
    using assms(2,1)
  proof (cases rule: workflow_step_cases)
    case (create env k h i pol)
    then show ?thesis using assms(2) by (auto simp: keys_ok_def new_job_fields)
  next
    case (claim env i w c)
    then show ?thesis by (intro *) (rule claim_job_step)
  qed (use * assms(2) in \<open>auto simp: keys_ok_def\<close>)
qed

lemma reachable_keys: "workflow_reachable P (s, cs) \<Longrightarrow> keys_ok s"
  by (drule workflow_reachable_inv) (simp add: workflow_inv_def index_ok_def)

text \<open>
  C4: A job only moves forward.  In one step of the system, from any reachable state, every
  job keeps the columns it was created with, its status stays or moves along the allowed
  transitions, its fencing token and its generation attempt never decrease, a cancellation is
  never undone, its events are only appended to, and a job in a terminal state does not change
  at all.
\<close>

theorem job_history_monotone:
  assumes "workflow_reachable P (s, cs)" and "workflow_step P (s, cs) (s', cs')" and "db_jobs s j = Some row"
  shows "\<exists>row' es. db_jobs s' j = Some row' \<and> job_events j s' = job_events j s @ es \<and>
    job_identity row' = job_identity row \<and>
    (wj_status row' = wj_status row \<or> wj_status row' \<in> set (ALLOWED_TRANSITIONS (wj_status row))) \<and>
    wj_fencing_token row \<le> wj_fencing_token row' \<and> wj_generation_attempt row \<le> wj_generation_attempt row' \<and>
    (wj_cancel_requested_at row \<noteq> None \<longrightarrow> wj_cancel_requested_at row' \<noteq> None) \<and>
    (wj_status row \<in> {SUCCEEDED, FAILED, STOPPED} \<longrightarrow> row' = row)"
proof -
  obtain row' es where "db_jobs s' j = Some row'" "row_step row row'" "job_events j s' = job_events j s @ es"
    using workflow_step_history [OF assms(2) reachable_keys [OF assms(1)], of j] assms(3) by blast
  then show ?thesis
    by (auto simp: row_step_def status_step_def isTerminalStatus_def)
qed

lemma reachable_steps:
  "workflow_reachable P \<sigma> \<Longrightarrow> (workflow_step P)\<^sup>*\<^sup>* \<sigma> \<sigma>' \<Longrightarrow> workflow_reachable P \<sigma>'"
  unfolding workflow_reachable_def by (meson rtranclp_trans)

lemma terminal_kept:
  assumes "(workflow_step P)\<^sup>*\<^sup>* (s, cs) (s', cs')" and "keys_ok s"
    and "db_jobs s j = Some row" and "wj_status row \<in> {SUCCEEDED, FAILED, STOPPED}"
  shows "keys_ok s' \<and> db_jobs s' j = Some row"
  using assms(1)
proof (induction rule: rtranclp_induct2)
  case refl
  show ?case using assms(2,3) by simp
next
  case (step s1 cs1 s2 cs2)
  then have keys: "keys_ok s1" by simp
  from workflow_step_history [OF step(2) keys, of j] step(3) obtain row' where
    "db_jobs s2 j = Some row'" "row_step row row'" by blast
  with workflow_step_keys [OF step(2) keys] assms(4) show ?case
    by (auto simp: row_step_def isTerminalStatus_def)
qed

lemma terminal_stays:
  assumes "workflow_reachable P (s, cs)" and "(workflow_step P)\<^sup>*\<^sup>* (s, cs) (s', cs')"
    and "db_jobs s j = Some row" and "wj_status row \<in> {SUCCEEDED, FAILED, STOPPED}"
  shows "db_jobs s' j = Some row"
  using terminal_kept [OF assms(2) reachable_keys [OF assms(1)] assms(3,4)] by simp

text \<open>
  C5: Terminal states are final.  Once a job has succeeded, failed or stopped, no sequence of
  calls, of any length and by anyone, changes its row again.
\<close>

theorem terminal_is_final:
  assumes "workflow_reachable P (s, cs)" and "(workflow_step P)\<^sup>*\<^sup>* (s, cs) (s', cs')"
    and "db_jobs s j = Some row" and "wj_status row \<in> {SUCCEEDED, FAILED, STOPPED}"
  shows "db_jobs s' j = Some row"
  using assms by (rule terminal_stays)

text \<open>
  C6: The event log of every job is gapless: in every reachable state the events of a job are
  numbered from one, consecutively, in the order they were appended.
\<close>

theorem event_log_gapless:
  assumes "workflow_reachable P (s, cs)"
  shows "map ev_seq (job_events j s) = [1..<length (job_events j s) + 1]"
  using workflow_reachable_inv [OF assms]
  by (simp add: workflow_inv_def events_numbered_def map_Suc_upt)

text \<open>
  C2: A worker that lost its job is powerless.  When a job is claimed again, every claim handed
  out before is dead: completing, suspending, failing or reporting progress under it throws and
  leaves the database exactly as it is, and its control check no longer answers active.
\<close>

theorem reclaim_fences_old_workers:
  assumes "workflow_reachable P (s, cs)" and "claim P env j w s = (Inr (Some d), s')"
    and "c \<in> set cs" and "cj_id c = j"
  shows "(\<exists>e. complete env' c s' = (Inl e, s')) \<and> (\<exists>e. suspend env' c reason s' = (Inl e, s')) \<and>
    (\<exists>e. fail P env' c err s' = (Inl e, s')) \<and> (\<exists>e. persistProgress P env' c t x k s' = (Inl e, s')) \<and>
    readControl env' c s' \<noteq> CONTROL_ACTIVE"
proof -
  have inv: "keys_ok s" "claims_ok s cs"
    using workflow_reachable_inv [OF assms(1)] by (auto simp: workflow_inv_def index_ok_def)
  from assms(2) inv(1) obtain row where row: "db_jobs s j = Some row"
    "db_jobs s' j = Some (claimed_row env w (wj_fencing_token row + 1) row)"
    by (rule claim_fields)
  then have "cj_fencingToken c \<le> wj_fencing_token row"
    using inv(2) assms(3,4) by (auto simp: claims_ok_def)
  then have stale: "db_jobs s' (cj_id c) = Some (claimed_row env w (wj_fencing_token row + 1) row)"
    "wj_fencing_token (claimed_row env w (wj_fencing_token row + 1) row) \<noteq> cj_fencingToken c"
    using row(2) assms(4) by (simp_all add: claimed_row_def)
  note dead = disjI1 [OF stale(2)]
  have "readControl env' c s' \<noteq> CONTROL_ACTIVE"
    using stale by (simp add: readControl_def)
  then show ?thesis
    using completion.stale_claim_is_inert [OF stale(1) dead] suspension.stale_claim_is_inert [OF stale(1) dead]
      failure.stale_claim_is_inert [OF stale(1) dead] persist_progress.stale_claim_is_inert [OF stale(1) dead]
    by blast
qed

lemma cancel_stops:
  assumes "keys_ok s" and "cancel env u p j s = (Inr saved, s1)"
  shows "\<exists>row. db_jobs s1 j = Some row \<and> wj_status row = STOPPED"
proof (cases "s1 = s")
  case False
  with cancel_cases [OF assms] show ?thesis
    by (auto simp: stopped_row_def)
next
  case True
  have "bindT (assertOwner u p) (\<lambda>_. transaction (
     bindT (lockOwnedJob j p u) (\<lambda>job.
     if wj_status job = STOPPED then returnT job
     else if wj_status job = SUCCEEDED \<or> wj_status job = FAILED
     then throwT (ConflictException MSG_TERMINAL_NOT_CANCELLABLE)
     else
     bindT (liftE (assertWorkflowTransition (wj_status job) STOPPED)) (\<lambda>_.
     bindT (save_job env (stopped_row env job)) (\<lambda>saved.
     bindT (appendEvent env (wj_id job) (js ''workflow.cancelled'') (JObj [status_field STOPPED])) (\<lambda>_.
     returnT saved)))))) s = (Inr saved, s1)"
    using assms(2) by (simp add: cancel_def)
  then obtain job where job: "db_jobs s j = Some job"
    and alt: "wj_status job = STOPPED \<or> s1 = with_event env (wj_id job) (js ''workflow.cancelled'')
      (JObj [status_field STOPPED]) (with_job (wj_id job) ((stopped_row env job)\<lparr>wj_updated_at := db_now env\<rparr>) s)"
    by (auto simp: bindT_Inr_iff transaction_Inr_iff lockOwnedJob_def tx_steps save_job_def appendEvent_run
        assertOwner_def Let_def stopped_row_def split: option.splits if_splits)
  have id: "wj_id job = j"
    using assms(1) job by (simp add: keys_ok_def)
  from alt show ?thesis
  proof
    assume "wj_status job = STOPPED"
    with True job show ?thesis by blast
  next
    assume s1: "s1 = with_event env (wj_id job) (js ''workflow.cancelled'')
      (JObj [status_field STOPPED]) (with_job (wj_id job) ((stopped_row env job)\<lparr>wj_updated_at := db_now env\<rparr>) s)"
    have "db_jobs s1 j = Some ((stopped_row env job)\<lparr>wj_updated_at := db_now env\<rparr>)"
      unfolding s1 by (simp add: id)
    then show ?thesis by (simp add: stopped_row_def)
  qed
qed

text \<open>
  C3: Cancellation wins.  After a cancel that returned, in every state that follows, every
  write of every worker on that job is refused as cancelled and changes nothing, and the
  control check answers cancelled.
\<close>

theorem cancellation_wins:
  assumes "workflow_reachable P (s, cs)" and "cancel env u p j s = (Inr saved, s1)"
    and "(workflow_step P)\<^sup>*\<^sup>* (s1, cs) (s', cs')" and "cj_id c = j"
  shows "complete env' c s' = (Inl WorkflowCancelledError, s') \<and>
    suspend env' c reason s' = (Inl WorkflowCancelledError, s') \<and>
    fail P env' c err s' = (Inl WorkflowCancelledError, s') \<and>
    persistProgress P env' c t x k s' = (Inl WorkflowCancelledError, s') \<and>
    inspectControl env' c s' = (Inr CONTROL_CANCELLED, s')"
proof -
  have "keys_ok s"
    using workflow_reachable_inv [OF assms(1)] by (auto simp: workflow_inv_def index_ok_def)
  then obtain row where "db_jobs s1 j = Some row" and stopped: "wj_status row = STOPPED"
    using cancel_stops [OF _ assms(2)] by blast
  moreover have "workflow_reachable P (s1, cs)"
    using reachable_steps [OF assms(1)] workflow_step.cancels [OF assms(2)] by blast
  ultimately have row: "db_jobs s' (cj_id c) = Some row"
    using terminal_stays [OF _ assms(3)] assms(4) by simp
  have fence: "assertFence (db_now env') row c = Inl WorkflowCancelledError"
    using stopped by (simp add: assertFence_def)
  have "inspectControl env' c s' = (Inr CONTROL_CANCELLED, s')"
    using row stopped
    by (simp add: inspectControl_def renewLease_def bindT_def update_job_def fence_where_def readControl_def tx_steps)
  then show ?thesis
    using completion.op_fenced [OF row fence] suspension.op_fenced [OF row fence]
      failure.op_fenced [OF row fence] persist_progress.op_fenced [OF row fence] by blast
qed

end
