(* ===== verification/RequestHash.thy ===== *)
theory RequestHash
  imports WorkflowService
begin

text \<open>
  What the hash of a creation request identifies (\<open>createWorkflowRequestHash\<close> and
  \<open>stableJsonStringify\<close> of \<open>workflow/workflow.service.ts\<close>): the text that is hashed is the text of a
  normal form, and different normal forms have different texts.
\<close>

section \<open>The normal form of a request\<close>

text \<open>
  Undefined properties are dropped and undefined items are null, minus zero is zero, and the keys
  are in the order in which the sorted copy of an object lists them.
\<close>

fun stable_norm :: "jsval \<Rightarrow> jsval" where
  "stable_norm JUndef = JNull"
| "stable_norm (JNum n) = JNum (NInt (int_of_number (JNum n)))"
| "stable_norm (JArr vs) = JArr (map stable_norm vs)"
| "stable_norm (JObj kvs) =
     JObj (enumeration_order (sort_key fst
       (map (\<lambda>kv. (fst kv, stable_norm (snd kv))) (filter (\<lambda>kv. snd kv \<noteq> JUndef) kvs))))"
| "stable_norm v = v"

text \<open>Plain data: well-formed strings, safe integers, no class instances.\<close>

fun hashable :: "jsval \<Rightarrow> bool" where
  "hashable (JStr s) = (isWellFormedUnicodeScalarV1 s \<and> utf16 s)"
| "hashable (JNum n) = is_safe_integer (JNum n)"
| "hashable JOther = False"
| "hashable (JArr vs) = (\<forall>v \<in> set vs. hashable v)"
| "hashable (JObj kvs) =
     (\<forall>kv \<in> set kvs. isWellFormedUnicodeScalarV1 (fst kv) \<and> utf16 (fst kv) \<and> hashable (snd kv))"
| "hashable _ = True"

lemma set_enumeration_order: "set (enumeration_order kvs) = set kvs"
  by (auto simp: enumeration_order_def)

lemma printable_stable_norm: "hashable v \<Longrightarrow> printable (stable_norm v)"
  by (induction v rule: jsval_induct) (auto simp: set_enumeration_order)

lemma sort_key_fst_apsnd:
  "sort_key (\<lambda>kv. g (fst kv)) (map (\<lambda>kv. (fst kv, f (snd kv))) kvs) =
     map (\<lambda>kv. (fst kv, f (snd kv))) (sort_key (\<lambda>kv. g (fst kv)) kvs)"
proof -
  have "insort_key (\<lambda>kv. g (fst kv)) (fst x, f (snd x)) (map (\<lambda>kv. (fst kv, f (snd kv))) ys) =
      map (\<lambda>kv. (fst kv, f (snd kv))) (insort_key (\<lambda>kv. g (fst kv)) x ys)" for x ys
    by (induction ys) auto
  then show ?thesis by (induction kvs) auto
qed

lemma enumeration_order_apsnd:
  "enumeration_order (map (\<lambda>kv. (fst kv, f (snd kv))) kvs) = map (\<lambda>kv. (fst kv, f (snd kv))) (enumeration_order kvs)"
  by (simp add: enumeration_order_def filter_map o_def sort_key_fst_apsnd)

lemma enumeration_order_filter:
  "enumeration_order (filter Q kvs) = filter Q (enumeration_order kvs)"
  by (simp add: enumeration_order_def filter_sort conj_commute)

section \<open>The text that is hashed\<close>

lemma number_text_safe:
  "is_safe_integer (JNum n) \<Longrightarrow> is_finite_number n \<and> json_number P n = dec_int (int_of_number (JNum n))"
  by (cases n) (auto simp: json_number_def dec_int_def dec_nat.simps)

lemma map_filter_entries:
  "List.map_filter (\<lambda>e. map_option (\<lambda>text. json_quote (fst e) @ 58 # text) (snd e))
     (map (\<lambda>kv. (fst kv, if snd kv = JUndef then None else Some (g (snd kv)))) kvs) =
   map (\<lambda>kv. json_quote (fst kv) @ 58 # g (snd kv)) (filter (\<lambda>kv. snd kv \<noteq> JUndef) kvs)"
  by (induction kvs) (auto simp: List.map_filter_def)

lemma stableSerialize_text:
  "hashable v \<Longrightarrow> stableSerialize P v = Inr (if v = JUndef then None else Some (canon_text (stable_norm v)))"
proof (induction v rule: jsval_induct)
  case (JNum n)
  then show ?case using number_text_safe [of n P] by simp
next
  case (JArr vs)
  then have "mapE id (map (stableSerialize P) vs) = Inr (map (\<lambda>v. if v = JUndef then None else Some (canon_text (stable_norm v))) vs)"
    by (induction vs) auto
  moreover have "map (\<lambda>t. case t of None \<Rightarrow> js ''null'' | Some text \<Rightarrow> text)
      (map (\<lambda>v. if v = JUndef then None else Some (canon_text (stable_norm v))) vs) = map canon_text (map stable_norm vs)"
    by simp
  ultimately show ?case by (simp add: comp_def cong: map_cong)
next
  case (JObj kvs)
  let ?order = "\<lambda>kvs. enumeration_order (sort_key fst kvs)"
  let ?item = "\<lambda>v. if v = JUndef then None else Some (canon_text (stable_norm v))"
  have order: "?order (map (\<lambda>kv. (fst kv, f (snd kv))) kvs) = map (\<lambda>kv. (fst kv, f (snd kv))) (?order kvs)"
    for f :: "jsval \<Rightarrow> 'b" and kvs
    by (simp add: sort_key_apsnd enumeration_order_apsnd)
  have "stableSerialize P (snd kv) = Inr (?item (snd kv))" if "kv \<in> set (?order kvs)" for kv
    using that JObj by (auto simp: set_enumeration_order)
  then have "mapE (\<lambda>kr. bindE (snd kr) (\<lambda>t. Inr (fst kr, t))) (map (\<lambda>kv. (fst kv, stableSerialize P (snd kv))) (?order kvs)) =
      Inr (map (\<lambda>kv. (fst kv, ?item (snd kv))) (?order kvs))"
    by (induction "?order kvs") (auto simp: mapE_Inr_iff list_all2_conv_all_nth)
  moreover have "filter (\<lambda>kv. snd kv \<noteq> JUndef) (?order kvs) = ?order (filter (\<lambda>kv. snd kv \<noteq> JUndef) kvs)"
    by (simp add: enumeration_order_filter flip: filter_sort)
  ultimately show ?case
    by (simp add: order map_filter_entries [of "\<lambda>v. canon_text (stable_norm v)"] o_def)
qed simp_all

section \<open>Requests\<close>

definition same_request :: "CreateWorkflowDto \<Rightarrow> CreateWorkflowDto \<Rightarrow> bool" where
  "same_request dto dto' \<longleftrightarrow>
     dto_workflow_type dto = dto_workflow_type dto' \<and> stable_norm (dto_input dto) = stable_norm (dto_input dto') \<and>
     contract_value (dto_client_contract_version dto) = contract_value (dto_client_contract_version dto')"

definition hashable_request :: "CreateWorkflowDto \<Rightarrow> bool" where
  "hashable_request dto \<longleftrightarrow> hashable (dto_input dto) \<and> hashable (contract_value (dto_client_contract_version dto))"

definition request_preimage :: "CreateWorkflowDto \<Rightarrow> nat list" where
  "request_preimage dto = utf8_encode (canon_text (stable_norm (request_value dto)))"

text \<open>The three properties of the hashed object, in the order of their sorted keys.\<close>

lemma request_keys:
  "\<not> is_array_index (js ''workflow_type'')" "\<not> is_array_index (js ''input'')"
  "\<not> is_array_index (js ''client_contract_version'')"
  "js ''client_contract_version'' < js ''input''" "js ''input'' < js ''workflow_type''"
  by (simp_all add: is_array_index_def is_unsigned_decimal_def is_positive_decimal_def is_digit_def js_simps)

lemma stable_norm_request:
  "stable_norm (request_value dto) = JObj
     [(js ''client_contract_version'', contract_value (dto_client_contract_version dto)),
      (js ''input'', stable_norm (dto_input dto)),
      (js ''workflow_type'', JStr (js (workflow_type_text (dto_workflow_type dto))))]"
proof -
  have "stable_norm (nullish_or (dto_input dto) JNull) = stable_norm (dto_input dto)" "nullish_or (dto_input dto) JNull \<noteq> JUndef"
    by (auto simp: nullish_or_def)
  moreover have "contract_value (dto_client_contract_version dto) \<noteq> JUndef"
    "stable_norm (contract_value (dto_client_contract_version dto)) = contract_value (dto_client_contract_version dto)"
    by (simp_all add: contract_value_def split: option.split)
  moreover have "js ''client_contract_version'' < js ''workflow_type''"
    using request_keys(4,5) by (rule less_trans)
  ultimately show ?thesis
    using request_keys by (simp add: request_value_def enumeration_order_def flip: not_less)
qed

lemma hashable_request_value: "hashable_request dto \<Longrightarrow> hashable (request_value dto)"
  by (cases "dto_workflow_type dto")
    (auto simp: hashable_request_def request_value_def nullish_or_def js_simps utf16_def)

lemma request_hash:
  assumes "hashable_request dto"
  shows "createWorkflowRequestHash P dto = Inr (sha256_hex P (request_preimage dto))"
  using stableSerialize_text [OF hashable_request_value [OF assms], of P]
  by (simp add: createWorkflowRequestHash_def stableJsonStringify_def request_preimage_def request_value_def)

lemma workflow_type_text_inject: "workflow_type_text t = workflow_type_text t' \<longleftrightarrow> t = t'"
  by (cases t; cases t'; simp)

lemma request_preimage_iff:
  assumes "hashable_request dto" and "hashable_request dto'"
  shows "request_preimage dto = request_preimage dto' \<longleftrightarrow> same_request dto dto'"
proof -
  have "request_preimage dto = request_preimage dto' \<longleftrightarrow> stable_norm (request_value dto) = stable_norm (request_value dto')"
    using printable_bytes_inject [OF printable_stable_norm printable_stable_norm] assms [THEN hashable_request_value]
    by (auto simp: request_preimage_def)
  then show ?thesis
    by (auto simp: stable_norm_request same_request_def workflow_type_text_inject)
qed

end
