(* ===== verification/WorkflowOutcomes.thy ===== *)
theory WorkflowOutcomes
  imports WorkflowProperties RequestHash
begin

text \<open>
  The functional behaviour of the workflow calls: what creation and the first claim leave, the
  idempotence of creation and of the atomic revision, and the outcome of every failure.
\<close>

section \<open>Creation and the first claim\<close>

lemma snapshot_value_column: "json_column (snapshot_value sn) = snapshot_value sn"
  by (simp add: snapshot_value_def contract_value_def split: option.splits)

lemma created_row_claimable:
  assumes "createWorkflowRequestHash P dto = Inr h" and "select_for_job P config p e dto = Inr policy"
    and "dto_client_contract_version dto \<in> {None, Some AUTHORING_CLIENT_CONTRACT}"
    and "dto_input dto = JUndef \<or> (\<exists>kvs. dto_input dto = JObj kvs)"
    and row: "row = new_job env k h (dto_input dto) policy"
  shows "claimable now row" and "restore_columns P row = Inr policy"
    and "\<exists>i. parseJsonObject P (wj_input row) = Inr i" and "parseJsonObject P (wj_checkpoint row) = Inr None"
proof -
  have sel: "selectAuthoringPolicy P p e (dto_client_contract_version dto) (parseAuthoringRolloutConfig config) = Inr policy"
    using assms(2) by (auto simp: select_for_job_def split: sum.splits)
  then obtain sn where sn: "policy_snapshot policy = snapshot_value sn"
    by (auto simp: selectAuthoringPolicy_def Let_def)
  then obtain kvs where kvs: "policy_snapshot policy = JObj kvs"
    by (simp add: snapshot_value_def)
  have "policy_columns row (policy_snapshot policy) = policy"
    by (cases policy) (simp add: policy_columns_def row new_job_def split: prod.split)
  moreover have "wj_rollout_policy_snapshot row = policy_snapshot policy"
    by (simp add: row new_job_def sn snapshot_value_column split: prod.split)
  ultimately show "restore_columns P row = Inr policy"
    using select_restore [OF assms(3) sel] kvs by (simp add: restore_columns_def)
  show "claimable now row"
    by (simp add: claimable_def row new_job_fields)
  have "wj_input row = json_column (nullish_or (dto_input dto) JNull)" "wj_checkpoint row = JNull"
    by (simp_all add: row new_job_def split: prod.split)
  then show "\<exists>i. parseJsonObject P (wj_input row) = Inr i" "parseJsonObject P (wj_checkpoint row) = Inr None"
    using assms(4) by (auto simp: nullish_or_def)
qed

lemma create_Inr_cases:
  assumes "create P env config readiness u p dto e s = (Inr row, s')"
  shows "(s' = s \<and> find_by_key (request_key env u p dto) s = Some row \<and>
      createWorkflowRequestHash P dto = Inr (wj_request_hash row)) \<or>
    (\<exists>h policy. createWorkflowRequestHash P dto = Inr h \<and>
      select_for_job P config p e dto = Inr policy \<and>
      row = new_job env (request_key env u p dto) h (dto_input dto) policy \<and>
      db_jobs s (row_uuid env) = None \<and> find_by_key (request_key env u p dto) s = None \<and>
      s' = with_event env (row_uuid env) (js ''workflow.created'') (JObj [status_field QUEUED]) (with_new_job row s))"
proof (cases "find_by_key (request_key env u p dto) s")
  case (Some x)
  then show ?thesis
    using assms unfolding create_def
    by (auto simp: request_key_def bindT_Inr_iff bindT_liftE_Inr assertOwner_def tx_steps assertSameRequest_def Let_def
        split: option.splits if_splits)
next
  case None
  have "s' \<noteq> s"
    using None assms unfolding create_def
    by (auto simp: request_key_def bindT_Inr_iff bindT_liftE_Inr assertOwner_def tx_steps transaction_Inr_iff
        lockOwnedProject_def insert_job_def appendEvent_run Let_def new_job_fields with_event_def
        split: option.splits if_splits dest!: arg_cong [where f = db_events])
  then show ?thesis
    using create_cases [OF assms] by auto
qed

lemma find_by_key_in:
  assumes "find_by_key k s = Some row" and "keys_ok s"
  shows "db_jobs s (wj_id row) = Some row" and "job_key row = k"
proof -
  have "row \<in> set (all_jobs s)" and k: "job_key row = k"
    using assms(1) by (auto simp: find_by_key_def find_Some_iff)
  then obtain j where "db_jobs s j = Some row"
    by (auto simp: all_jobs_def List.map_filter_def)
  then show "db_jobs s (wj_id row) = Some row" "job_key row = k"
    using assms(2) k by (auto simp: keys_ok_def)
qed

lemma created_job_claim:
  assumes "create P env config readiness u p dto e s = (Inr row, s')"
    and "keys_ok s" and "db_jobs s (wj_id row) = None"
    and "dto_client_contract_version dto \<in> {None, Some AUTHORING_CLIENT_CONTRACT}"
    and "dto_input dto = JUndef \<or> (\<exists>kvs. dto_input dto = JObj kvs)"
  obtains c s'' row' where "claim P env' (wj_id row) w s' = (Inr (Some c), s'')"
    and "cj_id c = wj_id row" and "cj_fencingToken c = 1" and "cj_leaseToken c = fresh_uuid env'"
    and "db_jobs s'' (wj_id row) = Some row'"
    and "\<And>now. now < db_now env' + 30000000 \<Longrightarrow> fence_ok now c row'"
proof -
  have "\<not> find_by_key (request_key env u p dto) s = Some row"
    using find_by_key_in(1) [OF _ assms(2)] assms(3) by fastforce
  with create_Inr_cases [OF assms(1)] obtain h policy where
    h: "createWorkflowRequestHash P dto = Inr h" "select_for_job P config p e dto = Inr policy"
    and row: "row = new_job env (request_key env u p dto) h (dto_input dto) policy"
    and s': "s' = with_event env (row_uuid env) (js ''workflow.created'') (JObj [status_field QUEUED]) (with_new_job row s)"
    by blast
  note ok = created_row_claimable [OF h assms(4,5) row]
  obtain i where i: "parseJsonObject P (wj_input row) = Inr i"
    using ok(3) by blast
  have row': "db_jobs s' (wj_id row) = Some row"
    by (simp add: s')
  note run = claim_runs [OF row' ok(1) ok(2) i ok(4), of env' w]
  let ?row' = "claimed_row env' w (wj_fencing_token row + 1) row"
  let ?c = "claim_of row (object_or_null i) (object_or_null None) (fresh_uuid env') policy"
  have "fence_ok now ?c ?row'" if "now < db_now env' + 30000000" for now
    using that by (simp add: fence_ok_def fence_where_def claim_of_def claimed_row_def lease_active_def
        leaseMilliseconds_def row new_job_fields)
  moreover have "cj_id ?c = wj_id row" "cj_fencingToken ?c = 1" "cj_leaseToken ?c = fresh_uuid env'"
    by (simp_all add: claim_of_def row new_job_fields)
  ultimately show ?thesis
    using that [OF run] by (simp add: claim_event_def)
qed

text \<open>
  C19: A created job can run.  The first worker that picks up a newly created job gets a claim
  with fencing token one, and the claim passes the fence for the thirty seconds of its lease:
  the policy columns written at creation always survive the check at the claim.
\<close>

theorem created_job_is_claimable:
  assumes "workflow_reachable P (s, cs)"
    and "create P env config readiness u p dto e s = (Inr row, s')" and "db_jobs s (wj_id row) = None"
    and "dto_client_contract_version dto \<in> {None, Some AUTHORING_CLIENT_CONTRACT}"
    and "dto_input dto = JUndef \<or> (\<exists>kvs. dto_input dto = JObj kvs)"
  shows "\<exists>c s'' row'. claim P env' (wj_id row) w s' = (Inr (Some c), s'') \<and>
    cj_id c = wj_id row \<and> cj_fencingToken c = 1 \<and> db_jobs s'' (wj_id row) = Some row' \<and>
    (\<forall>now < db_now env' + 30000000. fence_ok now c row')"
proof -
  have "keys_ok s"
    using workflow_reachable_inv [OF assms(1)] by (auto simp: workflow_inv_def index_ok_def)
  from created_job_claim [OF assms(2) this assms(3-5), of env' w] show ?thesis
    by metis
qed

section \<open>Idempotent creation\<close>

lemma find_snoc: "find Q xs = None \<Longrightarrow> Q x \<Longrightarrow> find Q (xs @ [x]) = Some x"
  by (induction xs) (auto split: if_splits)

lemma find_by_key_created:
  assumes "index_ok s" and "db_jobs s (row_uuid env) = None" and "find_by_key k s = None"
    and "row = new_job env k h i pol"
  shows "find_by_key k (with_event env' (row_uuid env) t d (with_new_job row s)) = Some row"
proof -
  have fresh: "row_uuid env \<notin> set (db_job_ids s)"
    using assms(1,2) unfolding index_ok_def by blast
  have "List.map_filter (db_jobs (with_new_job row s)) (db_job_ids s) = List.map_filter (db_jobs s) (db_job_ids s)"
    unfolding List.map_filter_def using fresh
    by (intro arg_cong2 [where f = map] filter_cong map_cong) (auto simp: assms(4) new_job_fields)
  then have "all_jobs (with_event env' (row_uuid env) t d (with_new_job row s)) = all_jobs s @ [row]"
    by (simp add: all_jobs_def map_filter_append assms(4) new_job_fields map_filter_simps)
  then show ?thesis
    using assms(3) find_snoc [of "\<lambda>r. job_key r = k" "all_jobs s" row]
    by (simp add: find_by_key_def assms(4) new_job_fields)
qed

lemma create_replay:
  assumes "find_by_key (request_key env u p dto) s = Some row" and "db_project_owner s p = Some u"
    and "createWorkflowRequestHash P dto = Inr h" and "map_option js_trim (dto_idempotency_key dto) \<noteq> Some []"
  shows "create P env config readiness u p dto e s = (assertSameRequest row h, s)"
  using assms
  by (cases "dto_idempotency_key dto")
    (auto simp: create_def bindT_def assertOwner_def tx_steps Let_def request_key_def)

lemma create_again:
  assumes "workflow_reachable P (s, cs)" and "dto_idempotency_key dto = Some key"
    and "create P env config readiness u p dto e s = (Inr row, s')"
  shows "createWorkflowRequestHash P dto = Inr (wj_request_hash row)"
    and "dto_idempotency_key dto' = Some key \<Longrightarrow> dto_workflow_type dto' = dto_workflow_type dto \<Longrightarrow>
      createWorkflowRequestHash P dto' = Inr h' \<Longrightarrow> create P env' config' readiness' u p dto' e' s' = (assertSameRequest row h', s')"
proof -
  have ok: "index_ok s" "keys_ok s"
    using workflow_reachable_inv [OF assms(1)] by (auto simp: workflow_inv_def index_ok_def)
  have key: "request_key env'' u p dto'' = request_key env u p dto"
    if "dto_idempotency_key dto'' = Some key" "dto_workflow_type dto'' = dto_workflow_type dto" for env'' dto''
    using that assms(2) by (simp add: request_key_def)
  have owner: "db_project_owner s p = Some u" "js_trim key \<noteq> []"
    using assms(2,3) by (auto simp: create_def bindT_Inr_iff assertOwner_def tx_steps Let_def split: option.splits if_splits)
  have found: "find_by_key (request_key env u p dto) s' = Some row \<and>
      createWorkflowRequestHash P dto = Inr (wj_request_hash row) \<and> db_project_owner s' p = Some u"
    using create_Inr_cases [OF assms(3)]
  proof (elim disjE exE conjE)
    fix h policy
    assume h: "createWorkflowRequestHash P dto = Inr h"
      and row: "row = new_job env (request_key env u p dto) h (dto_input dto) policy"
      and new: "db_jobs s (row_uuid env) = None" "find_by_key (request_key env u p dto) s = None"
      and s': "s' = with_event env (row_uuid env) (js ''workflow.created'') (JObj [status_field QUEUED]) (with_new_job row s)"
    show ?thesis
      using find_by_key_created [OF ok(1) new row] h row owner s' by (simp add: new_job_fields)
  qed (use owner in auto)
  then show "createWorkflowRequestHash P dto = Inr (wj_request_hash row)" by simp
  show "create P env' config' readiness' u p dto' e' s' = (assertSameRequest row h', s')"
    if "dto_idempotency_key dto' = Some key" "dto_workflow_type dto' = dto_workflow_type dto"
    "createWorkflowRequestHash P dto' = Inr h'"
    using that create_replay [of env' u p dto' s' row P h' config' readiness' e'] found owner key [of dto' env']
    by simp
qed

text \<open>
  C23: Creation is idempotent under an explicit key.  Repeating a creation that returned, with
  the same request, at any time and under any configuration, returns the same job and writes
  nothing.  So does any other request for the same kind of workflow under the key whose input is the
  same up to the order of keys, undefined properties and the sign of zero; and a request whose input
  or contract version is another one is refused as a conflict and writes nothing, unless its
  canonical bytes and those of the first request are a collision of SHA-256.  For the
  comparison the inputs must be plain data: well-formed strings, safe integers, no class instances.
\<close>

theorem create_idempotent:
  assumes "workflow_reachable P (s, cs)" and "dto_idempotency_key dto = Some key"
    and "create P env config readiness u p dto e s = (Inr row, s')"
  shows "create P env' config' readiness' u p dto e' s' = (Inr row, s') \<and>
    (hashable_request dto \<longrightarrow> hashable_request dto' \<longrightarrow> dto_idempotency_key dto' = Some key \<longrightarrow>
     dto_workflow_type dto' = dto_workflow_type dto \<longrightarrow>
     (if same_request dto' dto then create P env' config' readiness' u p dto' e' s' = (Inr row, s')
      else create P env' config' readiness' u p dto' e' s' = (Inl (ConflictException MSG_KEY_REUSED), s') \<or>
        (request_preimage dto' \<noteq> request_preimage dto \<and>
         sha256_hex P (request_preimage dto') = sha256_hex P (request_preimage dto))))"
proof -
  note again = create_again [OF assms]
  have "create P env' config' readiness' u p dto e' s' = (Inr row, s')"
    using again(2) [OF assms(2) refl again(1)] by (simp add: assertSameRequest_def)
  moreover have "if same_request dto' dto then create P env' config' readiness' u p dto' e' s' = (Inr row, s')
      else create P env' config' readiness' u p dto' e' s' = (Inl (ConflictException MSG_KEY_REUSED), s') \<or>
        (request_preimage dto' \<noteq> request_preimage dto \<and>
         sha256_hex P (request_preimage dto') = sha256_hex P (request_preimage dto))"
    if "hashable_request dto" "hashable_request dto'" "dto_idempotency_key dto' = Some key"
      "dto_workflow_type dto' = dto_workflow_type dto"
    using again(2) [OF that(3,4) request_hash [OF that(2)]] again(1) request_hash [OF that(1), of P]
      request_preimage_iff [OF that(2,1)] by (auto simp: assertSameRequest_def)
  ultimately show ?thesis by blast
qed

section \<open>Replaying the atomic revision\<close>

definition revision_reserved :: "ClaimedWorkflowJob \<Rightarrow> (jstr \<times> jsval) list \<Rightarrow> WorkflowJob \<Rightarrow> workflow_db \<Rightarrow> bool" where
  "revision_reserved job checkpoint row s \<longleftrightarrow>
     (\<exists>a. db_assignments s (cj_id job) = Some a \<and> ga_project_id a = cj_projectId job \<and>
        ga_targeted_revision_attempts a = 1 \<and> ga_strict_mode a \<and> ga_contract_version a = ATOMIC_CONTRACT) \<and>
     (\<exists>v. wj_checkpoint row = JObj v \<and> isDeepStrictEqual (JObj v) (JObj checkpoint))"

lemma reserve_reserved:
  assumes "revision_reserved job checkpoint row s"
  shows "reserveAtomicRevision P env row job checkpoint s = (Inr False, s)"
  using assms
  by (auto simp: revision_reserved_def reserveAtomicRevision_def bindT_def update_assignment_def tx_steps)

lemma reserveAtomicRevision_Inr:
  assumes "reserveAtomicRevision P env row job checkpoint s = (Inr b, s1)"
  shows "(\<exists>a. b \<and> s1 = with_assignment (cj_id job) (Some a) s \<and> ga_project_id a = cj_projectId job \<and>
      ga_targeted_revision_attempts a = 1 \<and> ga_strict_mode a \<and> ga_contract_version a = ATOMIC_CONTRACT) \<or>
    (\<not> b \<and> s1 = s \<and> (\<exists>a v. db_assignments s (cj_id job) = Some a \<and> ga_project_id a = cj_projectId job \<and>
      ga_targeted_revision_attempts a = 1 \<and> ga_strict_mode a \<and> ga_contract_version a = ATOMIC_CONTRACT \<and>
      parseJsonObject P (wj_checkpoint row) = Inr v \<and> isDeepStrictEqual (object_or_null v) (JObj checkpoint)))"
proof -
  obtain n s2 where n: "update_assignment (cj_id job)
      (\<lambda>a. ga_project_id a = cj_projectId job \<and> ga_targeted_revision_attempts a = 0 \<and>
           ga_strict_mode a \<and> ga_contract_version a = ATOMIC_CONTRACT)
      (\<lambda>a. a\<lparr>ga_targeted_revision_attempts := 1, ga_snapshot_digest := None,
             ga_updated_at := db_now env\<rparr>) s = (Inr n, s2)"
    using assms unfolding reserveAtomicRevision_def by (auto elim!: bindT_InrE)
  from n show ?thesis
  proof (cases rule: update_assignment_cases)
    case 1
    then show ?thesis
      using assms n unfolding reserveAtomicRevision_def
      by (auto simp: bindT_def tx_steps split: option.splits if_splits sum.splits prod.splits)
  next
    case (2 a)
    then show ?thesis
      using assms n unfolding reserveAtomicRevision_def
      by (auto simp: bindT_def tx_steps)
  qed
qed

text \<open>
  C18: The targeted revision is taken once, and reporting it is safe to repeat.  When a worker
  has reported the atomic revision, the assignment counts one revision, and reporting the same
  checkpoint again, while the lease lasts, succeeds, counts no further revision, appends no
  event and leaves the database exactly as it is.
\<close>

theorem revision_progress_replay:
  assumes "get_prop checkpoint (js ''phase'') = JStr (js ''atomic_revision_required'')"
    and "json_column (JObj checkpoint) = JObj checkpoint"
    and "persistProgress P env job t d checkpoint s = (Inr (), s')"
    and "\<not> (\<exists>r text. db_jobs s (cj_id job) = Some r \<and> wj_checkpoint r = JStr text)"
    and "db_jobs s' (cj_id job) = Some row'" and "lease_active (db_now env') row'"
  shows "persistProgress P env' job t' d' checkpoint s' = (Inr (), s') \<and>
    (\<exists>a. db_assignments s' (cj_id job) = Some a \<and> ga_targeted_revision_attempts a = 1)"
proof -
  from persist_progress.commits_fence [OF assms(3)] obtain row where
    row: "db_jobs s (cj_id job) = Some row" "fence_ok (db_now env) job row" .
  then have fence: "fence_where job row"
    by (simp add: fence_ok_def)
  have "persist_body P env job t d checkpoint row s = (Inr (), s')"
    using assms(3) row by (simp add: persistProgress_def fenced_run transaction_Inr_iff)
  then obtain b s1 where b: "reserveAtomicRevision P env row job checkpoint s = (Inr b, s1)"
    and rest: "(if \<not> b then returnT ()
      else bindT (liftE (readGenerationAttempt P checkpoint (wj_generation_attempt row))) (\<lambda>attempt.
        bindT (fenced_update job (progress_row env checkpoint attempt)) (\<lambda>_.
        appendEvent env (cj_id job) t d))) s1 = (Inr (), s')"
    using assms(1) by (auto simp: persist_body_def elim!: bindT_InrE)
  have "revision_reserved job checkpoint row' s' \<and> fence_where job row'"
    using reserveAtomicRevision_Inr [OF b]
  proof (elim disjE exE conjE)
    fix a
    assume "b" and s1: "s1 = with_assignment (cj_id job) (Some a) s"
      and a: "ga_project_id a = cj_projectId job" "ga_targeted_revision_attempts a = 1" "ga_strict_mode a"
        "ga_contract_version a = ATOMIC_CONTRACT"
    then obtain n where "bindT (fenced_update job (progress_row env checkpoint n)) (\<lambda>_.
        appendEvent env (cj_id job) t d) s1 = (Inr (), s')"
      using rest by (auto simp: bindT_liftE_Inr)
    then have s': "s' = with_event env (cj_id job) t d
        (with_job (cj_id job) (progress_row env checkpoint n row) s1)"
      using row(1) fence by (simp add: s1 bindT_def fenced_update_run appendEvent_run)
    then have r': "row' = progress_row env checkpoint n row"
      using assms(5) by simp
    show ?thesis
      using a fence assms(2)
      by (simp add: revision_reserved_def s' s1 r' progress_row_def extend_lease_def fence_where_def
          isDeepStrictEqual_def)
  next
    fix a v
    assume "\<not> b" "s1 = s" and a: "db_assignments s (cj_id job) = Some a" "ga_project_id a = cj_projectId job"
      "ga_targeted_revision_attempts a = 1" "ga_strict_mode a" "ga_contract_version a = ATOMIC_CONTRACT"
      and v: "parseJsonObject P (wj_checkpoint row) = Inr v" "isDeepStrictEqual (object_or_null v) (JObj checkpoint)"
    then have s': "s' = s"
      using rest by (simp add: returnT_def)
    then have r': "row' = row"
      using assms(5) row(1) by simp
    have "\<exists>kvs. wj_checkpoint row = JObj kvs \<and> v = Some kvs"
      using v assms(4) row(1)
      by (cases "wj_checkpoint row"; cases v) (auto simp: parseJsonObject_def isDeepStrictEqual_def)
    then show ?thesis
      using a v fence by (auto simp: revision_reserved_def s' r')
  qed
  then have ok: "revision_reserved job checkpoint row' s'" "fence_ok (db_now env') job row'"
    using assms(6) by (simp_all add: fence_ok_def)
  have "persistProgress P env' job t' d' checkpoint s' = (Inr (), s')"
    using ok(2) assms(1) reserve_reserved [OF ok(1), of P env']
    by (simp add: persistProgress_def fenced_run(3) [OF assms(5) ok(2)] transaction_def persist_body_def
        bindT_def returnT_def)
  then show ?thesis
    using ok(1) by (auto simp: revision_reserved_def)
qed

section \<open>The outcome of a failure\<close>

definition PUBLIC_MESSAGES :: "jstr list" where
  "PUBLIC_MESSAGES = [MSG_GROUNDING_UNAVAILABLE, MSG_EXECUTION_FAILED, MSG_REVISING, MSG_MATERIAL_GAP]"

definition PUBLIC_CODES :: "jstr list" where
  "PUBLIC_CODES = js ''WORKFLOW_FAILED'' # map public_code_text
     [PUBLIC_STRUCTURED_OUTPUT_INVALID, PUBLIC_GROUNDING_REVISION_REQUIRED, PUBLIC_MATERIAL_GAP,
      PUBLIC_ATOMIC_GROUNDING_UNAVAILABLE, PUBLIC_ATOMIC_COMMIT_NOT_AUTHORIZED, PUBLIC_ATOMIC_GROUNDING_FAILED]"

fun failure_status :: "ClaimedWorkflowJob \<Rightarrow> workflow_db \<Rightarrow> thrown \<Rightarrow> WorkflowStatus" where
  "failure_status job s (AtomicGroundingExecutionFailure reason n ks) =
     transition_status (failure_transition (dispositionForAtomicFailure reason n))"
| "failure_status job s (GroundingRevisionRequiredError claims) =
     (case db_assignments s (cj_id job) of
        None \<Rightarrow> WAITING_MATERIAL
      | Some a \<Rightarrow> if ga_project_id a = cj_projectId job \<and> ga_targeted_revision_attempts a = 0
                  then REVISION_REQUIRED else WAITING_MATERIAL)"
| "failure_status job s (MaterialGapError message ids) = WAITING_MATERIAL"
| "failure_status job s _ = FAILED"

text \<open>What the row shows after a failure.\<close>

definition failed_publicly :: "ClaimedWorkflowJob \<Rightarrow> workflow_db \<Rightarrow> WorkflowStatus \<Rightarrow> workflow_db \<Rightarrow> bool" where
  "failed_publicly job s status s' \<longleftrightarrow>
     (\<exists>row' es code message. db_jobs s' (cj_id job) = Some row' \<and> wj_status row' = status \<and>
        wj_lease_token row' = None \<and> job_events (cj_id job) s' = job_events (cj_id job) s @ es \<and> es \<noteq> [] \<and>
        pub_error (toPublicWorkflowJob row') = Some (code, message) \<and>
        code \<in> set PUBLIC_CODES \<and> message \<in> set PUBLIC_MESSAGES)"

lemma failed_publiclyI:
  assumes "db_jobs s' (cj_id job) = Some row'" and "wj_status row' = status" and "wj_lease_token row' = None"
    and "wj_public_error_code row' = Some code" and "wj_public_error_message row' = Some message"
    and "code \<in> set PUBLIC_CODES" and "message \<in> set PUBLIC_MESSAGES"
    and "job_events (cj_id job) s' = job_events (cj_id job) s @ es" and "es \<noteq> []"
  shows "failed_publicly job s status s'"
  using assms by (simp add: failed_publicly_def toPublicWorkflowJob_def Let_def)

lemma pause_runs:
  assumes "db_jobs s (cj_id job) = Some row" and "fence_where job row"
  shows "\<exists>s'. pauseForGrounding env job m ids s = (Inr (), s') \<and> failed_publicly job s WAITING_MATERIAL s'"
  using assms
  by (auto simp: pauseForGrounding_def bindT_def fenced_update_run appendEvent_run job_events_with_event
      material_gap_row_def release_lease_def PUBLIC_CODES_def PUBLIC_MESSAGES_def intro!: failed_publiclyI)

lemma failGeneric_runs:
  assumes "db_jobs s (cj_id job) = Some row" and "fence_where job row"
  shows "\<exists>s'. failGeneric env job err s = (Inr (), s') \<and> failed_publicly job s FAILED s'"
  using assms
  by (auto simp: failGeneric_def Let_def bindT_def fenced_update_run appendEvent_run job_events_with_event
      failed_row_def release_lease_def PUBLIC_CODES_def PUBLIC_MESSAGES_def intro!: failed_publiclyI)

lemma atomic_public:
  "public_code_text (public_code d) \<in> set PUBLIC_CODES" "atomic_public_message d \<in> set PUBLIC_MESSAGES"
  by (cases "public_code d"; simp add: PUBLIC_CODES_def) (simp add: atomic_public_message_def PUBLIC_MESSAGES_def)

lemma persistAtomicFailure_runs:
  assumes "db_jobs s (cj_id job) = Some row" and "fence_where job row"
    and "parseJsonObject P (wj_checkpoint row) = Inr previous"
  shows "\<exists>s'. persistAtomicFailure P env row job d ks s = (Inr (), s') \<and>
    failed_publicly job s (transition_status (failure_transition d)) s'"
  by (cases "failure_transition d")
    (use assms atomic_public [of d] in \<open>simp_all add: persistAtomicFailure_def bindT_def liftE_def Let_def
      fenced_update_run appendEvent_run returnT_def failed_publicly_def toPublicWorkflowJob_def
      atomic_failure_row_def release_lease_def job_events_with_event\<close>)

lemma requireGroundingRevision_runs:
  assumes "db_jobs s (cj_id job) = Some row" and "fence_where job row"
    and "parseJsonObject P (wj_checkpoint row) = Inr previous"
  shows "\<exists>s'. requireGroundingRevision P env row job claims s = (Inr (), s') \<and>
    failed_publicly job s (failure_status job s (GroundingRevisionRequiredError claims)) s'"
proof (cases "\<exists>a. db_assignments s (cj_id job) = Some a \<and> ga_project_id a = cj_projectId job \<and>
    ga_targeted_revision_attempts a = 0")
  case True
  then obtain a where a: "db_assignments s (cj_id job) = Some a" "ga_project_id a = cj_projectId job"
    "ga_targeted_revision_attempts a = 0" by blast
  obtain cp t d a' where run: "requireGroundingRevision P env row job claims s =
      (Inr (), with_event env (cj_id job) t d
        (with_job (cj_id job) (revision_required_row env cp row) (with_assignment (cj_id job) a' s)))"
    by (rule that) (simp add: requireGroundingRevision_def bindT_def liftE_def Let_def update_assignment_def a
        fenced_update_run assms appendEvent_run with_assignment_def [symmetric])
  have "failed_publicly job s REVISION_REQUIRED (with_event env (cj_id job) t d
        (with_job (cj_id job) (revision_required_row env cp row) (with_assignment (cj_id job) a' s)))"
    by (rule failed_publiclyI [of _ _ "revision_required_row env cp row"])
      (auto simp: revision_required_row_def release_lease_def PUBLIC_CODES_def PUBLIC_MESSAGES_def job_events_with_event)
  then show ?thesis
    using run a by simp
next
  case False
  then have st: "failure_status job s (GroundingRevisionRequiredError claims) = WAITING_MATERIAL"
    by (auto split: option.splits)
  have "requireGroundingRevision P env row job claims s =
      pauseForGrounding env job MSG_REVISIONS_EXHAUSTED (map fst claims) s"
    using False by (auto simp: requireGroundingRevision_def bindT_def update_assignment_def split: option.splits)
  then show ?thesis
    using pause_runs [OF assms(1,2)] unfolding st by simp
qed

lemma fail_records:
  assumes "db_jobs s (cj_id job) = Some row" and "fence_ok (db_now env) job row"
    and "wj_checkpoint row = JNull \<or> (\<exists>kvs. wj_checkpoint row = JObj kvs)"
  shows "\<exists>s'. fail P env job err s = (Inr (), s') \<and> failed_publicly job s (failure_status job s err) s'"
proof -
  have fence: "fence_where job row"
    using assms(2) by (simp add: fence_ok_def)
  obtain previous where parse: "parseJsonObject P (wj_checkpoint row) = Inr previous"
    using assms(3) by auto
  have "\<exists>s'. fail_body P env job err row s = (Inr (), s') \<and> failed_publicly job s (failure_status job s err) s'"
    using persistAtomicFailure_runs [OF assms(1) fence parse] requireGroundingRevision_runs [OF assms(1) fence parse]
      pause_runs [OF assms(1) fence] failGeneric_runs [OF assms(1) fence]
    by (cases err) (simp_all add: fail_body_def)
  then show ?thesis
    by (auto simp: fail_def fenced_run(3) [OF assms(1,2)] transaction_def)
qed


end
