(* ===== verification/WorkflowEngine.thy ===== *)
theory WorkflowEngine
  imports WorkflowOutcomes
begin

text \<open>
  The worker's engine (\<open>workflow/workflow.engine.ts\<close>): one \<open>run\<close> claims a job, iterates the
  executor's generator, persists every progress event, and settles the job; next to it the
  monitor polls the control state and aborts the run.  The executor is the injected task: a
  function from its own state, with everything the generator can do as a constructor of
  \<open>exec_step\<close>.  Between two awaited calls anything may happen, so a run is a fold over an
  arbitrary schedule of ticks of the main loop, of the monitor and of everybody else.  The poll
  of the monitor is two statements without a transaction, so it takes two ticks.
\<close>

section \<open>Executors\<close>

datatype WorkflowExecutionOutcome = COMPLETED | SUSPENDED WorkflowSuspensionReason

record 'e WorkflowExecutionEvent =
  ee_type :: jstr
  ee_data :: jsval
  ee_checkpoint :: "(jstr \<times> jsval) list"
  ee_onPersisted :: "('e \<Rightarrow> (thrown, 'e) result) option"

text \<open>
  What the generator does until it next waits for the engine: it yields an event, it calls
  \<open>context.persistProgress\<close>, it returns, or it throws.
\<close>

datatype 'e exec_step =
    Yields "'e WorkflowExecutionEvent" 'e
  | Reports "'e WorkflowExecutionEvent" 'e
  | Returns "WorkflowExecutionOutcome option"
  | Throws thrown

text \<open>
  The resumed generator sees the job, the abort signal and how its last
  \<open>persistProgress\<close> call ended.
\<close>

record 'e WorkflowTaskExecutor =
  ex_start :: "ClaimedWorkflowJob \<Rightarrow> 'e"
  ex_resume :: "ClaimedWorkflowJob \<Rightarrow> bool \<Rightarrow> (thrown, unit) result \<Rightarrow> 'e \<Rightarrow> 'e exec_step"

section \<open>The engine\<close>

fun isExecutionFenceError :: "thrown \<Rightarrow> bool" where
  "isExecutionFenceError WorkflowCancelledError = True"
| "isExecutionFenceError WorkflowLeaseLostError = True"
| "isExecutionFenceError _ = False"

fun isAbortError :: "thrown \<Rightarrow> bool" where
  "isAbortError (AbortError m) = True"
| "isAbortError _ = False"

text \<open>Where the main loop is waiting; the flag of a write says who asked for it.\<close>

datatype 'e exec_phase =
    Iterating 'e "(thrown, unit) result"
  | Persisting bool "'e WorkflowExecutionEvent" 'e
  | Writing bool "'e WorkflowExecutionEvent" 'e
  | Settling "WorkflowExecutionOutcome option"
  | Failing thrown

datatype 'e engine_phase =
    Claiming jstr
  | Executing ClaimedWorkflowJob "'e exec_phase"
  | Finished "(thrown, unit) result"

text \<open>
  The run, its abort signal, and whether the monitor is between its two statements: the renewal
  of the lease touched no row and the control state is still to be read.
\<close>

record 'e engine =
  eg_phase :: "'e engine_phase"
  eg_aborted :: bool
  eg_reading :: bool

type_synonym 'e engine_state = "'e engine \<times> workflow_db"

definition next_phase :: "ClaimedWorkflowJob \<Rightarrow> 'e exec_phase \<Rightarrow> 'e engine \<Rightarrow> 'e engine" where
  "next_phase job ph E = E\<lparr>eg_phase := Executing job ph\<rparr>"

definition swallowed :: "'e engine \<Rightarrow> thrown \<Rightarrow> bool" where
  "swallowed E err \<longleftrightarrow> isExecutionFenceError err \<or> (isAbortError err \<and> eg_aborted E)"

text \<open>The \<open>finally\<close> block stops the monitor and aborts the signal.\<close>

definition finish :: "(thrown, unit) result \<Rightarrow> 'e engine \<Rightarrow> 'e engine" where
  "finish r E = E\<lparr>eg_phase := Finished r, eg_aborted := True\<rparr>"

definition caught :: "ClaimedWorkflowJob \<Rightarrow> thrown \<Rightarrow> 'e engine \<Rightarrow> 'e engine" where
  "caught job err E = (if swallowed E err then finish (Inr ()) E else next_phase job (Failing err) E)"

text \<open>A failed write goes back to the generator when the generator asked for it.\<close>

definition write_failed :: "ClaimedWorkflowJob \<Rightarrow> bool \<Rightarrow> thrown \<Rightarrow> 'e \<Rightarrow> 'e engine \<Rightarrow> 'e engine" where
  "write_failed job reported err st E =
     (if reported then next_phase job (Iterating st (Inl err)) E else caught job err E)"

definition settle :: "call_env \<Rightarrow> ClaimedWorkflowJob \<Rightarrow> WorkflowExecutionOutcome option \<Rightarrow> unit db_call" where
  "settle env job outcome =
     (case outcome of Some (SUSPENDED reason) \<Rightarrow> suspend env job reason | _ \<Rightarrow> complete env job)"

text \<open>The main loop of a claimed job, up to its next wait.\<close>

fun exec_main ::
    "platform \<Rightarrow> 'e WorkflowTaskExecutor \<Rightarrow> call_env \<Rightarrow> ClaimedWorkflowJob \<Rightarrow> 'e exec_phase \<Rightarrow>
     'e engine_state \<Rightarrow> 'e engine_state" where
  "exec_main P X env job (Iterating st answer) (E, s) =
     (case ex_resume X job (eg_aborted E) answer st of
        Yields event st' \<Rightarrow> (next_phase job (Persisting False event st') E, s)
      | Reports event st' \<Rightarrow> (next_phase job (Persisting True event st') E, s)
      | Returns outcome \<Rightarrow> (next_phase job (Settling outcome) E, s)
      | Throws err \<Rightarrow> (caught job err E, s))"
| "exec_main P X env job (Persisting reported event st) (E, s) =
     (if eg_aborted E then (write_failed job reported WorkflowCancelledError st E, s)
      else (next_phase job (Writing reported event st) E, s))"
| "exec_main P X env job (Writing reported event st) (E, s) =
     (case persistProgress P env job (ee_type event) (ee_data event) (ee_checkpoint event) s of
        (Inl err, s') \<Rightarrow> (write_failed job reported err st E, s')
      | (Inr _, s') \<Rightarrow>
          (case ee_onPersisted event of
             None \<Rightarrow> (next_phase job (Iterating st (Inr ())) E, s')
           | Some callback \<Rightarrow>
               (case callback st of
                  Inl err \<Rightarrow> (write_failed job reported err st E, s')
                | Inr st' \<Rightarrow> (next_phase job (Iterating st' (Inr ())) E, s'))))"
| "exec_main P X env job (Settling outcome) (E, s) =
     (case settle env job outcome s of
        (Inl err, s') \<Rightarrow> (caught job err E, s')
      | (Inr _, s') \<Rightarrow> (finish (Inr ()) E, s'))"
| "exec_main P X env job (Failing err) (E, s) =
     (case fail P env job err s of
        (Inl failureError, s') \<Rightarrow>
          (finish (if swallowed E failureError then Inr () else Inl failureError) E, s')
      | (Inr _, s') \<Rightarrow> (finish (Inr ()) E, s'))"

definition claim_main ::
    "platform \<Rightarrow> 'e WorkflowTaskExecutor \<Rightarrow> jstr \<Rightarrow> call_env \<Rightarrow> jstr \<Rightarrow> 'e engine_state \<Rightarrow> 'e engine_state" where
  "claim_main P X workerId env jobId \<sigma> =
     (case \<sigma> of (E, s) \<Rightarrow>
      case claim P env jobId workerId s of
        (Inl err, s') \<Rightarrow> (E\<lparr>eg_phase := Finished (Inl err)\<rparr>, s')
      | (Inr None, s') \<Rightarrow> (E\<lparr>eg_phase := Finished (Inr ())\<rparr>, s')
      | (Inr (Some job), s') \<Rightarrow> (next_phase job (Iterating (ex_start X job) (Inr ())) E, s'))"

text \<open>One statement of the monitor, with \<open>inspectControl\<close> of the store inlined; an error of the poll is ignored.\<close>

definition monitorControl :: "call_env \<Rightarrow> 'e engine_state \<Rightarrow> 'e engine_state" where
  "monitorControl env \<sigma> =
     (case \<sigma> of (E, s) \<Rightarrow>
      case eg_phase E of
        Executing job ph \<Rightarrow>
          if eg_aborted E then (E, s)
          else if eg_reading E
          then (E\<lparr>eg_reading := False, eg_aborted := (readControl env job s \<noteq> CONTROL_ACTIVE)\<rparr>, s)
          else
          (case renewLease env job s of
             (Inl err, s') \<Rightarrow> (E, s')
           | (Inr affected, s') \<Rightarrow> (E\<lparr>eg_reading := (affected \<noteq> 1)\<rparr>, s'))
      | _ \<Rightarrow> (E, s))"

text \<open>One tick: of the main loop, of the monitor, or of everybody else.\<close>

datatype tick = MainTick call_env | MonitorTick call_env | OtherTick "workflow_db \<Rightarrow> workflow_db"

fun engine_tick ::
    "platform \<Rightarrow> 'e WorkflowTaskExecutor \<Rightarrow> jstr \<Rightarrow> tick \<Rightarrow> 'e engine_state \<Rightarrow> 'e engine_state" where
  "engine_tick P X workerId (MainTick env) (E, s) =
     (case eg_phase E of
        Claiming jobId \<Rightarrow> claim_main P X workerId env jobId (E, s)
      | Executing job ph \<Rightarrow> exec_main P X env job ph (E, s)
      | Finished r \<Rightarrow> (E, s))"
| "engine_tick P X workerId (MonitorTick env) (E, s) = monitorControl env (E, s)"
| "engine_tick P X workerId (OtherTick f) (E, s) = (E, f s)"

definition new_engine :: "jstr \<Rightarrow> 'e engine" where
  "new_engine jobId = \<lparr>eg_phase = Claiming jobId, eg_aborted = False, eg_reading = False\<rparr>"

definition run ::
    "platform \<Rightarrow> 'e WorkflowTaskExecutor \<Rightarrow> jstr \<Rightarrow> jstr \<Rightarrow> tick list \<Rightarrow> workflow_db \<Rightarrow> 'e engine_state" where
  "run P X workerId jobId schedule s =
     fold (engine_tick P X workerId) schedule (new_engine jobId, s)"

section \<open>The engine is a client of the store\<close>

lemma engine_fields [simp]:
  "eg_phase (next_phase job ph E) = Executing job ph" "eg_aborted (next_phase job ph E) = eg_aborted E"
  "eg_phase (finish r E) = Finished r" "eg_aborted (finish r E)" "eg_reading (finish r E) = eg_reading E"
  "eg_reading (next_phase job ph E) = eg_reading E"
  by (simp_all add: next_phase_def finish_def)

text \<open>The claims an engine holds.\<close>

fun held :: "'e engine_phase \<Rightarrow> ClaimedWorkflowJob list" where
  "held (Executing job ph) = [job]"
| "held _ = []"

end
