(* ===== verification/WorkerProtocol.thy ===== *)
theory WorkerProtocol
  imports WorkflowEngine
begin

text \<open>
  What a worker promises the rest of the system, without the generator, the loop and the monitor
  of the engine: one claim, progress writes of events the task emitted, one settlement that is the
  outcome the task returned, or one recorded failure.  Everybody else acts in between, under
  claims of their own.
\<close>

section \<open>What the task does\<close>

text \<open>
  The states the task is resumed in: the one it starts with, the one after an emitted event was
  stored and its callback called, and the one in which it is told that a report was refused.
\<close>

definition emitted :: "bool \<Rightarrow> 'e WorkflowExecutionEvent \<Rightarrow> 'e \<Rightarrow> 'e exec_step" where
  "emitted reported event st = (if reported then Reports event st else Yields event st)"

definition called_back :: "'e WorkflowExecutionEvent \<Rightarrow> 'e \<Rightarrow> (thrown, 'e) result" where
  "called_back event st = (case ee_onPersisted event of None \<Rightarrow> Inr st | Some callback \<Rightarrow> callback st)"

inductive task_at :: "'e WorkflowTaskExecutor \<Rightarrow> ClaimedWorkflowJob \<Rightarrow> 'e \<Rightarrow> (thrown, unit) result \<Rightarrow> bool" for X c where
  starts: "task_at X c (ex_start X c) (Inr ())"
| goes_on: "task_at X c st answer \<Longrightarrow> ex_resume X c aborted answer st = emitted reported event st' \<Longrightarrow>
    called_back event st' = Inr st'' \<Longrightarrow> task_at X c st'' (Inr ())"
| is_told: "task_at X c st answer \<Longrightarrow> ex_resume X c aborted answer st = Reports event st' \<Longrightarrow> task_at X c st' (Inl err)"

definition task_does :: "'e WorkflowTaskExecutor \<Rightarrow> ClaimedWorkflowJob \<Rightarrow> 'e exec_step \<Rightarrow> bool" where
  "task_does X c what \<longleftrightarrow> (\<exists>st answer aborted. task_at X c st answer \<and> ex_resume X c aborted answer st = what)"

section \<open>The protocol\<close>

datatype 'e worker =
    Unclaimed jstr
  | At_work ClaimedWorkflowJob
  | Storing ClaimedWorkflowJob bool "'e WorkflowExecutionEvent" 'e
  | Recording ClaimedWorkflowJob thrown
  | Over "(thrown, unit) result"

fun holds :: "'e worker \<Rightarrow> ClaimedWorkflowJob list" where
  "holds (At_work c) = [c]"
| "holds (Storing c reported event st) = [c]"
| "holds (Recording c err) = [c]"
| "holds _ = []"

text \<open>An error that says the claim is lost, or that only answers the abort, ends the run silently.\<close>

definition lost :: "bool \<Rightarrow> thrown \<Rightarrow> bool" where
  "lost aborted err \<longleftrightarrow> isExecutionFenceError err \<or> (isAbortError err \<and> aborted)"

definition over :: "(thrown, unit) result \<Rightarrow> 'e worker \<times> bool" where
  "over r = (Over r, True)"

definition caught_by :: "ClaimedWorkflowJob \<Rightarrow> bool \<Rightarrow> thrown \<Rightarrow> 'e worker \<times> bool" where
  "caught_by c aborted err = (if lost aborted err then over (Inr ()) else (Recording c err, aborted))"

text \<open>The error of a write goes to the task if the task asked for the write.\<close>

definition refused :: "ClaimedWorkflowJob \<Rightarrow> bool \<Rightarrow> bool \<Rightarrow> thrown \<Rightarrow> 'e worker \<times> bool" where
  "refused c aborted reported err = (if reported then (At_work c, aborted) else caught_by c aborted err)"

definition settled :: "ClaimedWorkflowJob \<Rightarrow> bool \<Rightarrow> (thrown, unit) result \<Rightarrow> 'e worker \<times> bool" where
  "settled c aborted r = (case r of Inl err \<Rightarrow> caught_by c aborted err | Inr _ \<Rightarrow> over (Inr ()))"

definition recorded :: "bool \<Rightarrow> (thrown, unit) result \<Rightarrow> (thrown, unit) result" where
  "recorded aborted r = (case r of Inl err \<Rightarrow> if lost aborted err then Inr () else Inl err | Inr _ \<Rightarrow> Inr ())"

inductive worker_step ::
    "platform \<Rightarrow> 'e WorkflowTaskExecutor \<Rightarrow> jstr \<Rightarrow>
     ('e worker \<times> bool) \<times> workflow_state \<Rightarrow> ('e worker \<times> bool) \<times> workflow_state \<Rightarrow> bool" for P X w where
  claims: "claim P env j w s = (Inr (Some c), s') \<Longrightarrow>
    worker_step P X w ((Unclaimed j, a), (s, cs)) ((At_work c, a), (s', c # cs))"
| declines: "claim P env j w s = (Inr None, s') \<Longrightarrow>
    worker_step P X w ((Unclaimed j, a), (s, cs)) ((Over (Inr ()), a), (s', cs))"
| breaks: "claim P env j w s = (Inl err, s') \<Longrightarrow>
    worker_step P X w ((Unclaimed j, a), (s, cs)) ((Over (Inl err), a), (s', cs))"
| begins: "task_does X c (emitted reported event st) \<Longrightarrow>
    worker_step P X w ((At_work c, False), \<tau>) ((Storing c reported event st, False), \<tau>)"
| withholds: "task_does X c (emitted reported event st) \<Longrightarrow>
    worker_step P X w ((At_work c, True), \<tau>) (refused c True reported WorkflowCancelledError, \<tau>)"
| stores: "persistProgress P env c (ee_type event) (ee_data event) (ee_checkpoint event) s = (Inr (), s') \<Longrightarrow>
    worker_step P X w ((Storing c reported event st, a), (s, cs))
      (case called_back event st of Inr _ \<Rightarrow> (At_work c, a) | Inl err \<Rightarrow> refused c a reported err, (s', cs))"
| stores_not: "persistProgress P env c (ee_type event) (ee_data event) (ee_checkpoint event) s = (Inl err, s') \<Longrightarrow>
    worker_step P X w ((Storing c reported event st, a), (s, cs)) (refused c a reported err, (s', cs))"
| throws: "task_does X c (Throws err) \<Longrightarrow> worker_step P X w ((At_work c, a), \<tau>) (caught_by c a err, \<tau>)"
| completes: "task_does X c (Returns outcome) \<Longrightarrow> outcome = None \<or> outcome = Some COMPLETED \<Longrightarrow>
    complete env c s = (r, s') \<Longrightarrow> worker_step P X w ((At_work c, a), (s, cs)) (settled c a r, (s', cs))"
| suspends: "task_does X c (Returns (Some (SUSPENDED reason))) \<Longrightarrow>
    suspend env c reason s = (r, s') \<Longrightarrow> worker_step P X w ((At_work c, a), (s, cs)) (settled c a r, (s', cs))"
| fails: "fail P env c err s = (r, s') \<Longrightarrow>
    worker_step P X w ((Recording c err, a), (s, cs)) (over (recorded a r), (s', cs))"
| renews: "c \<in> set (holds x) \<Longrightarrow> renewLease env c s = (r, s') \<Longrightarrow>
    worker_step P X w ((x, False), (s, cs)) ((x, False), (s', cs))"
| aborts: "c \<in> set (holds x) \<Longrightarrow> readControl env c s \<noteq> CONTROL_ACTIVE \<Longrightarrow>
    worker_step P X w ((x, False), (s, cs)) ((x, True), (s, cs))"
| others: "workflow_step P (s, ds) (s', new @ ds) \<Longrightarrow> set ds \<subseteq> set cs - set (holds x) \<Longrightarrow>
    worker_step P X w ((x, a), (s, cs)) ((x, a), (s', new @ cs))"

lemma worker_fields [simp]:
  "fst (over r) = Over r" "snd (over r)" "holds (Over r) = []"
  by (simp_all add: over_def)

lemma refused_holds:
  "set (holds (fst (caught_by c a err))) \<subseteq> {c}" "set (holds (fst (refused c a reported err))) \<subseteq> {c}"
  "set (holds (fst (settled c a r))) \<subseteq> {c}"
  by (auto simp: caught_by_def refused_def settled_def split: sum.splits)

section \<open>The protocol is a part of the system\<close>

text \<open>A step is possible, too, when more claims were handed out.\<close>

lemma workflow_step_more_claims:
  assumes "workflow_step P (s, ds) (s', new @ ds)" and "set ds \<subseteq> set cs"
  shows "workflow_step P (s, cs) (s', new @ cs)"
  using assms(1)
proof (cases rule: workflow_step.cases)
  case (claims env j w c)
  then have "new = [c]" by simp
  with claims show ?thesis by (auto intro: workflow_step.claims)
qed (use assms(2) in \<open>auto intro: workflow_step.intros\<close>)

lemma worker_step_system:
  assumes "worker_step P X w ((x, a), (s, cs)) (y, (s', cs'))" and "set (holds x) \<subseteq> set cs"
  shows "workflow_step P (s, cs) (s', cs') \<or> (s' = s \<and> cs' = cs)"
  using assms(1)
proof (cases rule: worker_step.cases)
  case (others ds new)
  with assms(2) show ?thesis using workflow_step_more_claims [OF others(3), of cs] by auto
next
  case (declines env j)
  then show ?thesis by (auto intro: workflow_step.claims_nothing)
next
  case (breaks env j err)
  then show ?thesis by (auto intro: workflow_step.claims_nothing)
qed (use assms(2) in \<open>auto intro: workflow_step.claims workflow_step.progresses workflow_step.completes
      workflow_step.suspends workflow_step.fails workflow_step.renews\<close>)

lemma worker_step_holds:
  assumes "worker_step P X w ((x, a), (s, cs)) (y, (s', cs'))" and "set (holds x) \<subseteq> set cs"
  shows "set (holds (fst y)) \<subseteq> set cs'" and "set cs \<subseteq> set cs'"
proof -
  from assms(1) show "set cs \<subseteq> set cs'" by (cases rule: worker_step.cases) auto
  from assms(1) show "set (holds (fst y)) \<subseteq> set cs'"
  proof (cases rule: worker_step.cases)
    case (stores env c event reported st)
    then show ?thesis using refused_holds(2) [of c a reported] assms(2) by (auto split: sum.splits)
  next
    case (others ds new)
    with assms(2) show ?thesis by auto
  qed (use assms(2) refused_holds in \<open>(simp; blast?)+\<close>)
qed

lemma worker_runs_in_system:
  assumes "(worker_step P X w)\<^sup>*\<^sup>* \<sigma> \<sigma>'" and "set (holds (fst (fst \<sigma>))) \<subseteq> set (snd (snd \<sigma>))"
  shows "(workflow_step P)\<^sup>*\<^sup>* (snd \<sigma>) (snd \<sigma>') \<and>
    set (holds (fst (fst \<sigma>'))) \<subseteq> set (snd (snd \<sigma>')) \<and> set (snd (snd \<sigma>)) \<subseteq> set (snd (snd \<sigma>'))"
  using assms(1)
proof induction
  case base
  then show ?case using assms(2) by simp
next
  case (step \<rho> \<rho>')
  obtain x a s cs y s' cs' where \<rho>: "\<rho> = ((x, a), (s, cs))" "\<rho>' = (y, (s', cs'))"
    by (metis prod.exhaust)
  note one = step.hyps(2) [unfolded \<rho>]
  from step.IH have h: "set (holds x) \<subseteq> set cs" by (simp add: \<rho>)
  from worker_step_system [OF one h] have "(workflow_step P)\<^sup>*\<^sup>* (s, cs) (s', cs')" by auto
  with step.IH worker_step_holds [OF one h] show ?case by (auto simp: \<rho> intro: rtranclp_trans)
qed

end
