(* ===== verification/WorkflowEngineProps.thy ===== *)
theory WorkflowEngineProps
  imports WorkerProtocol
begin

text \<open>
  What the engine guarantees, for every executor and every interleaving: a run is a participant
  of the workflow system, a worker lets go of a job only when the job is over for it, and a
  cancelled run stops by itself.
\<close>

section \<open>Refinement of the protocol\<close>

text \<open>
  What the protocol sees of the engine.  An event the engine has not checked the signal for and an
  outcome it has not settled are work in progress.
\<close>

fun view :: "'e engine_phase \<Rightarrow> 'e worker" where
  "view (Claiming j) = Unclaimed j"
| "view (Executing c (Iterating st answer)) = At_work c"
| "view (Executing c (Persisting reported event st)) = At_work c"
| "view (Executing c (Writing reported event st)) = Storing c reported event st"
| "view (Executing c (Settling outcome)) = At_work c"
| "view (Executing c (Failing err)) = Recording c err"
| "view (Finished r) = Over r"

definition worker_of :: "'e engine \<Rightarrow> 'e worker \<times> bool" where
  "worker_of E = (view (eg_phase E), eg_aborted E)"

fun phase_ok :: "'e WorkflowTaskExecutor \<Rightarrow> 'e engine_phase \<Rightarrow> bool" where
  "phase_ok X (Executing c (Iterating st answer)) = task_at X c st answer"
| "phase_ok X (Executing c (Persisting reported event st)) = task_does X c (emitted reported event st)"
| "phase_ok X (Executing c (Writing reported event st)) = task_does X c (emitted reported event st)"
| "phase_ok X (Executing c (Settling outcome)) = task_does X c (Returns outcome)"
| "phase_ok X _ = True"

text \<open>The engine among everybody else, who act under claims that are not its own.\<close>

definition newly :: "'e engine_phase \<Rightarrow> 'e engine_phase \<Rightarrow> ClaimedWorkflowJob list" where
  "newly ph ph' = (case ph of Claiming j \<Rightarrow> held ph' | _ \<Rightarrow> [])"

inductive engine_step ::
    "platform \<Rightarrow> 'e WorkflowTaskExecutor \<Rightarrow> jstr \<Rightarrow> 'e engine \<times> workflow_state \<Rightarrow> 'e engine \<times> workflow_state \<Rightarrow> bool"
    for P X w where
  main: "engine_tick P X w (MainTick env) (E, s) = (E', s') \<Longrightarrow>
    engine_step P X w (E, (s, cs)) (E', (s', newly (eg_phase E) (eg_phase E') @ cs))"
| monitor: "engine_tick P X w (MonitorTick env) (E, s) = (E', s') \<Longrightarrow> engine_step P X w (E, (s, cs)) (E', (s', cs))"
| others: "workflow_step P (s, ds) (s', new @ ds) \<Longrightarrow> set ds \<subseteq> set cs - set (held (eg_phase E)) \<Longrightarrow>
    engine_step P X w (E, (s, cs)) (E, (s', new @ cs))"

lemma view_holds: "holds (view ph) = held ph"
  by (induction ph rule: view.induct) simp_all

lemma caught_worker:
  "worker_of (caught job err E) = caught_by job (eg_aborted E) err" "phase_ok X (eg_phase (caught job err E))"
  by (simp_all add: worker_of_def caught_def caught_by_def swallowed_def lost_def over_def)

lemma write_failed_worker:
  "worker_of (write_failed job reported err st E) = refused job (eg_aborted E) reported err"
  "task_does X job (emitted reported event st) \<Longrightarrow> phase_ok X (eg_phase (write_failed job reported err st E))"
  using caught_worker
  by (auto simp: write_failed_def refused_def worker_of_def task_does_def emitted_def intro: is_told)

lemma task_goes_on:
  "task_does X c (emitted reported event st) \<Longrightarrow> called_back event st = Inr st' \<Longrightarrow> task_at X c st' (Inr ())"
  by (auto simp: task_does_def intro: goes_on)

lemma task_at_does: "task_at X c st answer \<Longrightarrow> task_does X c (ex_resume X c aborted answer st)"
  by (auto simp: task_does_def)

lemma iterating_simulates:
  assumes "exec_main P X env job (Iterating st answer) (E, s) = (E', s')" and "eg_phase E = Executing job (Iterating st answer)"
    and "task_at X job st answer"
  shows "phase_ok X (eg_phase E') \<and> (worker_step P X w)\<^sup>=\<^sup>= (worker_of E, (s, cs)) (worker_of E', (s', cs))"
proof (cases "ex_resume X job (eg_aborted E) answer st")
  case (Throws err)
  with assms have "worker_step P X w ((At_work job, eg_aborted E), (s, cs)) (caught_by job (eg_aborted E) err, (s, cs))"
    using task_at_does [OF assms(3), of "eg_aborted E"] by (intro worker_step.throws) simp
  with assms Throws caught_worker(1) [of job err E] caught_worker(2) [of X job err E] show ?thesis by (auto simp: worker_of_def)
qed (use assms task_at_does [OF assms(3), of "eg_aborted E"] in \<open>auto simp: worker_of_def emitted_def\<close>)

lemma persisting_simulates:
  assumes "exec_main P X env job (Persisting reported event st) (E, s) = (E', s')"
    and "eg_phase E = Executing job (Persisting reported event st)" and "task_does X job (emitted reported event st)"
  shows "phase_ok X (eg_phase E') \<and> (worker_step P X w)\<^sup>=\<^sup>= (worker_of E, (s, cs)) (worker_of E', (s', cs))"
proof (cases "eg_aborted E")
  case True
  with assms worker_step.withholds [OF assms(3), of P w "(s, cs)"]
    write_failed_worker(1) [of job reported WorkflowCancelledError st E] write_failed_worker(2) [OF assms(3)]
  show ?thesis by (auto simp: worker_of_def [of E])
next
  case False
  with assms worker_step.begins [OF assms(3), of P w "(s, cs)"] show ?thesis
    by (auto simp: worker_of_def)
qed

lemma writing_simulates:
  assumes "exec_main P X env job (Writing reported event st) (E, s) = (E', s')"
    and "eg_phase E = Executing job (Writing reported event st)" and "task_does X job (emitted reported event st)"
  shows "phase_ok X (eg_phase E') \<and> (worker_step P X w)\<^sup>=\<^sup>= (worker_of E, (s, cs)) (worker_of E', (s', cs))"
proof -
  let ?store = "persistProgress P env job (ee_type event) (ee_data event) (ee_checkpoint event) s"
  have from_E: "worker_of E = (Storing job reported event st, eg_aborted E)" by (simp add: worker_of_def assms(2))
  obtain r s1 where r: "?store = (r, s1)" by (cases ?store)
  note failed = write_failed_worker(1) write_failed_worker(2) [OF assms(3)]
  show ?thesis
  proof (cases r)
    case (Inl err)
    with r assms(1) have E': "E' = write_failed job reported err st E" "s' = s1" by simp_all
    from worker_step.stores_not [OF r [unfolded Inl], of X w reported st "eg_aborted E" cs]
    show ?thesis by (simp add: E' failed from_E)
  next
    case (Inr u)
    then have r: "?store = (Inr (), s1)" using r by simp
    with assms(1) have E': "E' = (case called_back event st of Inr st' \<Rightarrow> next_phase job (Iterating st' (Inr ())) E
        | Inl err \<Rightarrow> write_failed job reported err st E)" "s' = s1"
      by (auto simp: called_back_def split: option.splits sum.splits)
    from worker_step.stores [OF r, of X w reported st "eg_aborted E" cs] task_goes_on [OF assms(3)]
    show ?thesis by (auto simp: E' failed from_E worker_of_def [of "next_phase _ _ _"] split: sum.splits)
  qed
qed

lemma settling_simulates:
  assumes "exec_main P X env job (Settling outcome) (E, s) = (E', s')" and "eg_phase E = Executing job (Settling outcome)"
    and "task_does X job (Returns outcome)"
  shows "phase_ok X (eg_phase E') \<and> (worker_step P X w)\<^sup>=\<^sup>= (worker_of E, (s, cs)) (worker_of E', (s', cs))"
proof -
  obtain r s1 where r: "settle env job outcome s = (r, s1)" by (cases "settle env job outcome s")
  have step: "worker_step P X w ((At_work job, eg_aborted E), (s, cs)) (settled job (eg_aborted E) r, (s1, cs))"
  proof (cases "\<exists>reason. outcome = Some (SUSPENDED reason)")
    case True
    then obtain reason where "outcome = Some (SUSPENDED reason)" by blast
    with r assms(3) show ?thesis by (intro worker_step.suspends) (simp_all add: settle_def)
  next
    case False
    then have "outcome = None \<or> outcome = Some COMPLETED"
      by (metis WorkflowExecutionOutcome.exhaust not_None_eq)
    with r assms(3) show ?thesis by (intro worker_step.completes) (auto simp: settle_def)
  qed
  have "worker_of E' = settled job (eg_aborted E) r \<and> phase_ok X (eg_phase E') \<and> s' = s1"
    using assms(1) r caught_worker(1) [of job _ E] caught_worker(2) [of X job _ E]
    by (cases r) (auto simp: settled_def worker_of_def [of "finish _ _"] over_def)
  with step show ?thesis by (simp add: worker_of_def [of E] assms(2))
qed

lemma failing_simulates:
  assumes "exec_main P X env job (Failing err) (E, s) = (E', s')" and "eg_phase E = Executing job (Failing err)"
  shows "phase_ok X (eg_phase E') \<and> (worker_step P X w)\<^sup>=\<^sup>= (worker_of E, (s, cs)) (worker_of E', (s', cs))"
proof -
  obtain r s1 where r: "fail P env job err s = (r, s1)" by (cases "fail P env job err s")
  have "worker_of E' = over (recorded (eg_aborted E) r) \<and> phase_ok X (eg_phase E') \<and> s' = s1"
    using assms(1) r by (cases r) (auto simp: recorded_def worker_of_def over_def swallowed_def lost_def)
  with worker_step.fails [OF r, of X w "eg_aborted E" cs] show ?thesis by (simp add: worker_of_def [of E] assms(2))
qed

lemma claiming_simulates:
  assumes "claim_main P X w env j (E, s) = (E', s')" and "eg_phase E = Claiming j"
  shows "phase_ok X (eg_phase E') \<and>
    worker_step P X w (worker_of E, (s, cs)) (worker_of E', (s', newly (eg_phase E) (eg_phase E') @ cs))"
proof -
  obtain r s1 where r: "claim P env j w s = (r, s1)" by (cases "claim P env j w s")
  from r assms show ?thesis
    by (cases r) (auto simp: claim_main_def worker_of_def newly_def intro: worker_step.intros task_at.starts
        split: option.splits)
qed

lemma monitor_simulates:
  assumes "monitorControl env (E, s) = (E', s')"
  shows "eg_phase E' = eg_phase E \<and> (worker_step P X w)\<^sup>=\<^sup>= (worker_of E, (s, cs)) (worker_of E', (s', cs))"
proof (cases "eg_phase E")
  case (Executing job ph)
  then have mine: "job \<in> set (holds (view (eg_phase E)))" by (simp add: view_holds)
  show ?thesis
    using assms Executing worker_step.renews [OF mine, of env s _ _ P X w cs] worker_step.aborts [OF mine, of env s P X w cs]
    by (auto simp: monitorControl_def worker_of_def split: if_splits prod.splits sum.splits)
qed (use assms in \<open>auto simp: monitorControl_def\<close>)

lemma exec_main_phase:
  assumes "exec_main P X env job ph (E, s) = (E', s')" and "eg_phase E = Executing job ph" and "phase_ok X (eg_phase E)"
  shows "phase_ok X (eg_phase E') \<and> (worker_step P X w)\<^sup>=\<^sup>= (worker_of E, (s, cs)) (worker_of E', (s', cs))"
  using assms(3) unfolding assms(2)
proof (cases ph)
  case (Iterating st answer)
  with assms show ?thesis by (intro iterating_simulates) simp_all
next
  case (Persisting reported event st)
  with assms show ?thesis by (intro persisting_simulates) simp_all
next
  case (Writing reported event st)
  with assms show ?thesis by (intro writing_simulates) simp_all
next
  case (Settling outcome)
  with assms show ?thesis by (intro settling_simulates) simp_all
next
  case (Failing err)
  with assms show ?thesis by (intro failing_simulates) simp_all
qed

lemma engine_step_simulates:
  assumes "engine_step P X w (E, \<tau>) (E', \<tau>')" and "phase_ok X (eg_phase E)"
  shows "phase_ok X (eg_phase E') \<and> (worker_step P X w)\<^sup>*\<^sup>* (worker_of E, \<tau>) (worker_of E', \<tau>')"
  using assms(1)
proof (cases rule: engine_step.cases)
  case (main env s s' cs)
  show ?thesis
  proof (cases "eg_phase E")
    case (Claiming j)
    with main have "claim_main P X w env j (E, s) = (E', s')" by simp
    from claiming_simulates [OF this Claiming, of cs] show ?thesis by (auto simp: main)
  next
    case (Executing job ph)
    with main have "exec_main P X env job ph (E, s) = (E', s')" by simp
    from exec_main_phase [OF this Executing assms(2), of w cs] show ?thesis by (auto simp: main newly_def Executing)
  next
    case (Finished r)
    with main assms(2) show ?thesis by (auto simp: newly_def)
  qed
next
  case (monitor env s s' cs)
  then have "monitorControl env (E, s) = (E', s')" by simp
  from monitor_simulates [OF this, of P X w cs] assms(2) show ?thesis by (auto simp: monitor)
next
  case (others s ds s' new cs)
  then have "worker_step P X w (worker_of E, \<tau>) (worker_of E', \<tau>')"
    using worker_step.others [of P s ds s' new cs "view (eg_phase E)" X w "eg_aborted E"] by (simp add: worker_of_def view_holds)
  with assms(2) others show ?thesis by blast
qed

text \<open>
  C8: The engine keeps the protocol of a worker.  Whatever the task does, and however the steps of
  the main loop, of the monitor and of everybody else interleave, the run is a run of the protocol:
  it stores only events the task emitted before the signal was aborted, each once and in the state
  the task is then resumed in; it settles the job once, as the outcome the task returned; it records
  a failure only for an error the task or a write threw that does not mean the claim is lost; it
  aborts only after reading that the job is no longer its own.  So a run that starts in a reachable
  state ends in a reachable state of the system, and the claim it holds is one of those handed out.
\<close>

theorem engine_runs_within_system:
  assumes "workflow_reachable P (s, cs)" and "(engine_step P X w)\<^sup>*\<^sup>* (new_engine j, (s, cs)) (E, (s', cs'))"
  shows "(worker_step P X w)\<^sup>*\<^sup>* ((Unclaimed j, False), (s, cs)) ((view (eg_phase E), eg_aborted E), (s', cs')) \<and>
    workflow_reachable P (s', cs') \<and> set (held (eg_phase E)) \<subseteq> set cs'"
proof -
  from assms(2) have "phase_ok X (eg_phase E) \<and>
    (worker_step P X w)\<^sup>*\<^sup>* (worker_of (new_engine j), (s, cs)) (worker_of E, (s', cs'))"
  proof (induction "(E, (s', cs'))" arbitrary: E s' cs' rule: rtranclp_induct)
    case base
    then show ?case by (auto simp: new_engine_def)
  next
    case (step \<rho>)
    obtain E1 \<tau>1 where \<rho>: "\<rho> = (E1, \<tau>1)" by (cases \<rho>)
    then have "phase_ok X (eg_phase E1)"
      "(worker_step P X w)\<^sup>*\<^sup>* (worker_of (new_engine j), (s, cs)) (worker_of E1, \<tau>1)"
      using step.hyps(3) by (cases \<tau>1; simp)+
    with engine_step_simulates [OF step.hyps(2) [unfolded \<rho>]] show ?case by (auto intro: rtranclp_trans)
  qed
  then have "(worker_step P X w)\<^sup>*\<^sup>* ((Unclaimed j, False), (s, cs)) ((view (eg_phase E), eg_aborted E), (s', cs'))"
    by (simp add: worker_of_def new_engine_def)
  from worker_runs_in_system [OF this] this reachable_steps [OF assms(1)] show ?thesis
    by (simp add: view_holds)
qed

section \<open>When a run is over\<close>

lemma fence_thrown:
  assumes "fenced env job body s = (Inl err, s')" and "isExecutionFenceError err"
    and "\<And>row e s''. db_jobs s (cj_id job) = Some row \<Longrightarrow> fence_ok (db_now env) job row \<Longrightarrow>
      body row s = (Inl e, s'') \<Longrightarrow> \<not> isExecutionFenceError e"
  shows "s' = s \<and> (\<forall>row. db_jobs s (cj_id job) = Some row \<longrightarrow> \<not> fence_ok (db_now env) job row)"
proof (cases "db_jobs s (cj_id job)")
  case None
  then show ?thesis using assms(1) by (simp add: fenced_run)
next
  case (Some row)
  show ?thesis
  proof (cases "assertFence (db_now env) row job")
    case (Inl e)
    then show ?thesis
      using assms(1) Some fenced_run(2) [OF Some Inl] assertFence_Inl [OF Inl] by auto
  next
    case (Inr u)
    then have "fence_ok (db_now env) job row" by simp
    then show ?thesis
      using assms Some fenced_run(3) [OF Some]
      by (auto simp: transaction_def split: prod.splits sum.splits)
  qed
qed

lemma fenced_Inr:
  assumes "fenced env job body s = (Inr u, s')"
  obtains row where "db_jobs s (cj_id job) = Some row" and "fence_ok (db_now env) job row"
    and "body row s = (Inr u, s')"
proof (cases "db_jobs s (cj_id job)")
  case None
  then show ?thesis using assms by (simp add: fenced_run)
next
  case (Some row)
  then have "fence_ok (db_now env) job row"
    using assms fenced_run(2) [OF Some, of env] by (cases "assertFence (db_now env) row job") auto
  then show ?thesis
    using that Some assms by (simp add: fenced_run transaction_Inr_iff)
qed

lemma parse_error: "parseJsonObject P v = Inl e \<Longrightarrow> \<not> isExecutionFenceError e"
  by (auto simp: parseJsonObject_def Let_def split: jsval.splits option.splits)

lemma reserve_error:
  "reserveAtomicRevision P env row job checkpoint s = (Inl e, s') \<Longrightarrow> \<not> isExecutionFenceError e"
  by (auto simp: reserveAtomicRevision_def bindT_def tx_steps newAtomicGroundingExecutionFailure_def update_assignment_def
      dest: parse_error split: option.splits if_splits sum.splits prod.splits)

lemma reserve_keeps_row:
  "reserveAtomicRevision P env row job checkpoint s = (Inr b, s1) \<Longrightarrow> db_jobs s1 = db_jobs s"
  by (drule reserveAtomicRevision_Inr) auto

lemma attempt_error: "readGenerationAttempt P checkpoint n = Inl e \<Longrightarrow> \<not> isExecutionFenceError e"
  by (auto simp: readGenerationAttempt_def Let_def split: if_splits)

lemma persist_body_error:
  assumes "db_jobs s (cj_id job) = Some row" and "fence_ok (db_now env) job row"
    and "persist_body P env job t d checkpoint row s = (Inl e, s')"
  shows "\<not> isExecutionFenceError e"
proof -
  let ?r = "if get_prop checkpoint (js ''phase'') = JStr (js ''atomic_revision_required'')
            then reserveAtomicRevision P env row job checkpoint else returnT True"
  have fence: "fence_where job row"
    using assms(2) by (simp add: fence_ok_def)
  obtain q s1 where q: "?r s = (q, s1)"
    by (cases "?r s")
  show ?thesis
  proof (cases q)
    case (Inl e')
    then show ?thesis
      using assms(3) q by (auto simp: persist_body_def bindT_def returnT_def dest: reserve_error split: if_splits)
  next
    case (Inr b)
    then have "db_jobs s1 = db_jobs s"
      using q by (auto simp: returnT_def dest: reserve_keeps_row split: if_splits)
    then show ?thesis
      using assms(1,3) q Inr fence fenced_update_run [of s1 job row]
      by (auto simp: persist_body_def bindT_def returnT_def liftE_def appendEvent_run dest: attempt_error
          split: if_splits sum.splits)
  qed
qed

definition job_over :: "nat \<Rightarrow> ClaimedWorkflowJob \<Rightarrow> workflow_db \<Rightarrow> bool" where
  "job_over now job s \<longleftrightarrow> (\<forall>row. db_jobs s (cj_id job) = Some row \<longrightarrow> \<not> fence_ok now job row)"

lemma persist_over:
  "persistProgress P env job t d k s = (Inl err, s') \<Longrightarrow> isExecutionFenceError err \<Longrightarrow>
     job_over (db_now env) job s'"
  unfolding persistProgress_def job_over_def
  using fence_thrown persist_body_error by blast

lemma settle_over:
  assumes "settle env job outcome s = (r, s')" and "\<And>err. r = Inl err \<Longrightarrow> isExecutionFenceError err"
  shows "job_over (db_now env) job s'"
proof -
  obtain f t d where settle: "settle env job outcome = fenced env job (\<lambda>row.
      bindT (fenced_update job f) (\<lambda>_. appendEvent env (cj_id job) t d))"
    and ends: "\<And>row. wj_status (f row) \<noteq> RUNNING"
  proof (cases "\<exists>reason. outcome = Some (SUSPENDED reason)")
    case True
    then obtain reason where o: "outcome = Some (SUSPENDED reason)" by blast
    show ?thesis
      by (rule that [of "suspended_row env reason"])
        (simp_all add: o settle_def suspend_def suspended_row_def, cases reason, simp_all)
  next
    case False
    then have "settle env job outcome = complete env job"
      by (auto simp: settle_def split: option.splits WorkflowExecutionOutcome.splits)
    then show ?thesis
      by (intro that [of "succeeded_row env"]) (simp_all add: complete_def succeeded_row_def)
  qed
  show ?thesis
  proof (cases r)
    case (Inl err)
    then show ?thesis
      using fence_thrown [of env job "\<lambda>row. bindT (fenced_update job f) (\<lambda>_. appendEvent env (cj_id job) t d)" s err s']
        assms unfolding settle job_over_def
      by (fastforce simp: bindT_def fenced_update_run appendEvent_run fence_ok_def)
  next
    case (Inr u)
    then have "settle env job outcome s = (Inr u, s')"
      using assms(1) by simp
    then obtain row where "s' = with_event env (cj_id job) t d (with_job (cj_id job) (f row) s)"
      unfolding settle
      by (auto elim!: fenced_Inr simp: fence_ok_def bindT_def fenced_update_run appendEvent_run)
    then show ?thesis
      using ends by (auto simp: job_over_def fence_ok_def fence_where_def)
  qed
qed


lemma persist_body_fails:
  "parseJsonObject P (wj_checkpoint row) = Inl e \<Longrightarrow>
     persistAtomicFailure P env row job d ks s = (Inl e, s)"
  by (simp add: persistAtomicFailure_def)

lemma failed_publicly_over: "failed_publicly job s st s' \<Longrightarrow> st \<noteq> RUNNING \<Longrightarrow> job_over now job s'"
  by (auto simp: failed_publicly_def job_over_def fence_ok_def fence_where_def)

lemma transition_status_ends: "transition_status t \<noteq> RUNNING"
  by (cases t) simp_all

lemma failure_status_ends: "failure_status job s err \<noteq> RUNNING"
  by (cases err) (auto simp: transition_status_ends split: option.splits)

lemma requireGroundingRevision_unparsed:
  assumes "db_jobs s (cj_id job) = Some row" and "fence_where job row"
    and "parseJsonObject P (wj_checkpoint row) = Inl e"
    and "requireGroundingRevision P env row job claims s = (r, s')"
  shows "r = Inl e \<or> (r = Inr () \<and> job_over now job s')"
proof (cases "\<exists>a. db_assignments s (cj_id job) = Some a \<and> ga_project_id a = cj_projectId job \<and>
    ga_targeted_revision_attempts a = 0")
  case True
  then show ?thesis
    using assms(3,4) by (auto simp: requireGroundingRevision_def bindT_def update_assignment_def liftE_def)
next
  case False
  then have "requireGroundingRevision P env row job claims s =
      pauseForGrounding env job MSG_REVISIONS_EXHAUSTED (map fst claims) s"
    by (auto simp: requireGroundingRevision_def bindT_def update_assignment_def split: option.splits)
  moreover obtain s'' where "pauseForGrounding env job MSG_REVISIONS_EXHAUSTED (map fst claims) s = (Inr (), s'')"
    "failed_publicly job s WAITING_MATERIAL s''"
    using pause_runs [OF assms(1,2)] by blast
  ultimately show ?thesis
    using assms(4) failed_publicly_over by (metis WorkflowStatus.distinct(19,20) prod.inject)
qed

lemma fail_body_over:
  assumes "db_jobs s (cj_id job) = Some row" and "fence_ok (db_now env) job row"
    and "fail_body P env job err row s = (r, s')"
  shows "(\<exists>e. r = Inl e \<and> \<not> isExecutionFenceError e) \<or> (r = Inr () \<and> job_over now job s')"
proof (cases "parseJsonObject P (wj_checkpoint row)")
  case (Inr previous)
  have fence: "fence_where job row"
    using assms(2) by (simp add: fence_ok_def)
  obtain s'' where "fail_body P env job err row s = (Inr (), s'')" "failed_publicly job s (failure_status job s err) s''"
    using persistAtomicFailure_runs [OF assms(1) fence Inr] requireGroundingRevision_runs [OF assms(1) fence Inr]
      pause_runs [OF assms(1) fence] failGeneric_runs [OF assms(1) fence]
    by (cases err) (simp_all add: fail_body_def, blast+)
  then show ?thesis
    using assms(3) failed_publicly_over failure_status_ends by (metis prod.inject)
next
  case (Inl e)
  have fence: "fence_where job row"
    using assms(2) by (simp add: fence_ok_def)
  note over = failed_publicly_over [of job s WAITING_MATERIAL _ now] failed_publicly_over [of job s FAILED _ now]
  show ?thesis
    using assms(3) parse_error [OF Inl] persist_body_fails [OF Inl] over
      requireGroundingRevision_unparsed [OF assms(1) fence Inl, of env _ r s' now]
      pause_runs [OF assms(1) fence] failGeneric_runs [OF assms(1) fence, of env err]
    by (cases err) (simp_all add: fail_body_def, (metis prod.inject WorkflowStatus.distinct)+)
qed

lemma fail_over:
  assumes "fail P env job err s = (r, s')" and "\<And>e. r = Inl e \<Longrightarrow> isExecutionFenceError e"
  shows "job_over (db_now env) job s'"
proof (cases "\<exists>row. db_jobs s (cj_id job) = Some row \<and> fence_ok (db_now env) job row")
  case True
  then obtain row where row: "db_jobs s (cj_id job) = Some row" "fence_ok (db_now env) job row" by blast
  obtain q s'' where q: "fail_body P env job err row s = (q, s'')"
    by (cases "fail_body P env job err row s")
  then have "fail P env job err s = transaction (\<lambda>_. (q, s'')) s"
    using row by (simp add: fail_def fenced_run(3) transaction_def)
  then show ?thesis
    using fail_body_over [OF row q] assms by (auto simp: transaction_def split: sum.splits)
next
  case False
  then have "job_over (db_now env) job s"
    by (auto simp: job_over_def)
  moreover have "s' = s"
    using assms(1) False failure.op_aborts [of P env job err s _ s'] failure.commits_fence [of P env job err s s']
    by (cases r) auto
  ultimately show ?thesis by simp
qed

text \<open>The task itself threw an error that means the execution was lost.\<close>

definition task_gave_up :: "'e WorkflowTaskExecutor \<Rightarrow> ClaimedWorkflowJob \<Rightarrow> bool \<Rightarrow> 'e exec_phase \<Rightarrow> bool" where
  "task_gave_up X job aborted ph \<longleftrightarrow>
     (case ph of
        Iterating st answer \<Rightarrow>
          (case ex_resume X job aborted answer st of Throws err \<Rightarrow> isExecutionFenceError err | _ \<Rightarrow> False)
      | Writing reported event st \<Rightarrow>
          (case ee_onPersisted event of
             None \<Rightarrow> False
           | Some callback \<Rightarrow> (case callback st of Inl err \<Rightarrow> isExecutionFenceError err | Inr _ \<Rightarrow> False))
      | _ \<Rightarrow> False)"

lemma caught_finished:
  "eg_phase (caught job err E) = Finished (Inr ()) \<Longrightarrow> \<not> eg_aborted E \<Longrightarrow> isExecutionFenceError err"
  by (auto simp: caught_def swallowed_def split: if_splits)

text \<open>
  C10: A worker leaves a job alone only when the job is over for it.  When a run that holds a
  job returns without an error, either the signal was aborted or the task itself gave up, or
  the claim no longer passes the fence: the job was settled, cancelled or lost, and never just
  dropped while it was this worker's to finish.
\<close>

theorem engine_leaves_no_live_job:
  assumes "engine_tick P X w (MainTick env) (E, s) = (E', s')"
    and "eg_phase E = Executing job ph" and "eg_phase E' = Finished (Inr ())"
  shows "eg_aborted E \<or> task_gave_up X job (eg_aborted E) ph \<or>
    (\<forall>row. db_jobs s' (cj_id job) = Some row \<longrightarrow> \<not> fence_ok (db_now env) job row)"
proof (rule disjCI)
  assume neither: "\<not> (task_gave_up X job (eg_aborted E) ph \<or>
    (\<forall>row. db_jobs s' (cj_id job) = Some row \<longrightarrow> \<not> fence_ok (db_now env) job row))"
  then have live: "\<not> job_over (db_now env) job s'" and up: "\<not> task_gave_up X job (eg_aborted E) ph"
    by (simp_all add: job_over_def)
  have tick: "exec_main P X env job ph (E, s) = (E', s')"
    using assms(1,2) by simp
  show "eg_aborted E"
  proof (rule ccontr)
    assume na: "\<not> eg_aborted E"
    have "job_over (db_now env) job s'"
    proof (cases ph)
      case (Iterating st answer)
      then show ?thesis
        using tick up na assms(3) caught_finished [of job _ E]
        by (auto simp: task_gave_up_def split: exec_step.splits)
    next
      case (Persisting reported event st)
      then show ?thesis using tick na assms(3) by auto
    next
      case (Writing reported event st)
      obtain r s1 where r: "persistProgress P env job (ee_type event) (ee_data event) (ee_checkpoint event) s = (r, s1)"
        by (cases "persistProgress P env job (ee_type event) (ee_data event) (ee_checkpoint event) s")
      with tick up na assms(3) Writing have "s1 = s' \<and> (\<exists>e. r = Inl e \<and> isExecutionFenceError e)"
        by (auto simp: task_gave_up_def write_failed_def dest: caught_finished
            split: sum.splits option.splits if_splits)
      then show ?thesis
        using r persist_over by auto
    next
      case (Settling outcome)
      obtain r s1 where r: "settle env job outcome s = (r, s1)"
        by (cases "settle env job outcome s")
      with tick na assms(3) Settling have "s1 = s'" "\<And>e. r = Inl e \<Longrightarrow> isExecutionFenceError e"
        by (auto dest: caught_finished split: sum.splits)
      then show ?thesis
        using settle_over [OF r] by simp
    next
      case (Failing err)
      obtain r s1 where r: "fail P env job err s = (r, s1)"
        by (cases "fail P env job err s")
      with tick na assms(3) Failing have "s1 = s'" "\<And>e. r = Inl e \<Longrightarrow> isExecutionFenceError e"
        by (auto simp: swallowed_def finish_def split: sum.splits if_splits)
      then show ?thesis
        using fail_over [OF r] by simp
    qed
    with live show False by simp
  qed
qed

section \<open>Cancelled runs\<close>

lemma stopped_fence: "wj_status row = STOPPED \<Longrightarrow> assertFence now row job = Inl WorkflowCancelledError"
  by (simp add: assertFence_def)

definition is_main :: "tick \<Rightarrow> bool" where
  "is_main t = (case t of MainTick env \<Rightarrow> True | _ \<Rightarrow> False)"

text \<open>What a tick of everybody else does to the database; the ticks of the run do nothing here.\<close>

definition other_tick :: "tick \<Rightarrow> workflow_db \<Rightarrow> workflow_db" where
  "other_tick t s = (case t of OtherTick f \<Rightarrow> f s | _ \<Rightarrow> s)"

text \<open>Everybody else makes calls of the system, any number of them between two ticks of the run.\<close>

definition makes_calls :: "platform \<Rightarrow> tick \<Rightarrow> bool" where
  "makes_calls P t \<longleftrightarrow> (\<forall>s. \<exists>cs cs'. (workflow_step P)\<^sup>*\<^sup>* (s, cs) (other_tick t s, cs'))"

lemma calls_keep_stopped:
  assumes "makes_calls P t" and "keys_ok s" and "db_jobs s j = Some row" and "wj_status row = STOPPED"
  shows "keys_ok (other_tick t s) \<and> db_jobs (other_tick t s) j = Some row"
proof -
  obtain cs cs' where "(workflow_step P)\<^sup>*\<^sup>* (s, cs) (other_tick t s, cs')"
    using assms(1) unfolding makes_calls_def by blast
  from terminal_kept [OF this assms(2,3)] assms(4) show ?thesis by simp
qed

text \<open>Told that a report was refused as cancelled, the task makes no further report at once.\<close>

definition heeds_cancellation :: "'e WorkflowTaskExecutor \<Rightarrow> ClaimedWorkflowJob \<Rightarrow> bool" where
  "heeds_cancellation X job \<longleftrightarrow>
     (\<forall>aborted st event st'. ex_resume X job aborted (Inl WorkflowCancelledError) st \<noteq> Reports event st')"

text \<open>How many more ticks of the main loop a run of a stopped job takes at most.\<close>

fun steps_left :: "'e engine_phase \<Rightarrow> nat" where
  "steps_left (Executing c (Iterating st answer)) = (if answer = Inl WorkflowCancelledError then 3 else 6)"
| "steps_left (Executing c (Persisting reported event st)) = (if reported then 5 else 2)"
| "steps_left (Executing c (Writing reported event st)) = (if reported then 4 else 1)"
| "steps_left (Executing c (Settling outcome)) = 1"
| "steps_left (Executing c (Failing err)) = 1"
| "steps_left (Claiming j) = 6"
| "steps_left (Finished r) = 0"

definition at_job :: "ClaimedWorkflowJob \<Rightarrow> 'e engine_phase \<Rightarrow> bool" where
  "at_job job ph \<longleftrightarrow> (\<exists>ep. ph = Executing job ep) \<or> ph = Finished (Inr ())"

lemma stopped_calls:
  assumes "db_jobs s (cj_id job) = Some row" and "wj_status row = STOPPED"
  shows "persistProgress P env job t d k s = (Inl WorkflowCancelledError, s)"
    and "settle env job outcome s = (Inl WorkflowCancelledError, s)" and "fail P env job err s = (Inl WorkflowCancelledError, s)"
    and "renewLease env job s = (Inr 0, s)" and "readControl env job s = CONTROL_CANCELLED"
proof -
  note refused = completion.op_fenced [OF assms(1) stopped_fence [OF assms(2)]]
    suspension.op_fenced [OF assms(1) stopped_fence [OF assms(2)]]
  show "settle env job outcome s = (Inl WorkflowCancelledError, s)"
    using refused by (auto simp: settle_def split: option.splits WorkflowExecutionOutcome.splits)
  show "persistProgress P env job t d k s = (Inl WorkflowCancelledError, s)"
    by (rule persist_progress.op_fenced [OF assms(1) stopped_fence [OF assms(2)]])
  show "fail P env job err s = (Inl WorkflowCancelledError, s)"
    by (rule failure.op_fenced [OF assms(1) stopped_fence [OF assms(2)]])
qed (simp_all add: assms renewLease_def update_job_def fence_where_def readControl_def)

lemma caught_cancelled: "eg_phase (caught job WorkflowCancelledError E) = Finished (Inr ())"
  by (simp add: caught_def swallowed_def)

lemma caught_left: "at_job job (eg_phase (caught job err E)) \<and> steps_left (eg_phase (caught job err E)) \<le> 1"
  by (simp add: caught_def at_job_def)

lemma stopped_main_tick:
  assumes "db_jobs s (cj_id job) = Some row" and "wj_status row = STOPPED" and "heeds_cancellation X job"
    and "exec_main P X env job ph (E, s) = (E', s')"
  shows "s' = s \<and> at_job job (eg_phase E') \<and> steps_left (eg_phase E') < steps_left (Executing job ph)"
proof (cases ph)
  case (Iterating st answer)
  show ?thesis
  proof (cases "ex_resume X job (eg_aborted E) answer st")
    case (Reports event st')
    with assms(3) have "answer \<noteq> Inl WorkflowCancelledError" by (auto simp: heeds_cancellation_def)
    with Reports assms(4) Iterating show ?thesis by (auto simp: at_job_def)
  next
    case (Throws err)
    with assms(4) Iterating caught_left [of job err E] show ?thesis by auto
  qed (use assms(4) Iterating in \<open>auto simp: at_job_def\<close>)
qed (use assms(4) caught_cancelled [of job E] in \<open>auto simp: stopped_calls [OF assms(1,2)] at_job_def write_failed_def swallowed_def
    split: if_splits\<close>)

lemma stopped_tick:
  assumes "db_jobs s (cj_id job) = Some row" and "wj_status row = STOPPED" and "heeds_cancellation X job"
    and "at_job job (eg_phase E)" and "makes_calls P t" and "keys_ok s" and "engine_tick P X w t (E, s) = (E', s')"
  shows "s' = other_tick t s \<and> keys_ok s' \<and> db_jobs s' (cj_id job) = Some row \<and> at_job job (eg_phase E') \<and>
    steps_left (eg_phase E') + (if is_main t then 1 else 0) \<le> max (steps_left (eg_phase E)) (if is_main t then 1 else 0)"
proof (cases t)
  case (MainTick env)
  show ?thesis
  proof (cases "eg_phase E")
    case (Executing c ph)
    with assms(4) have c: "c = job" by (simp add: at_job_def)
    with Executing MainTick assms(7) have "exec_main P X env job ph (E, s) = (E', s')" by simp
    from stopped_main_tick [OF assms(1-3) this] show ?thesis
      using assms(1,6) by (simp add: MainTick other_tick_def is_main_def Executing c)
  qed (use assms MainTick in \<open>auto simp: at_job_def other_tick_def is_main_def\<close>)
next
  case (MonitorTick env)
  then have "s' = s \<and> eg_phase E' = eg_phase E"
    using assms(4,7) stopped_calls(4,5) [OF assms(1,2)] by (auto simp: monitorControl_def at_job_def split: if_splits)
  with assms(1,4,6) MonitorTick show ?thesis by (simp add: other_tick_def is_main_def)
next
  case (OtherTick f)
  with assms calls_keep_stopped [OF assms(5,6,1,2)] show ?thesis by (auto simp: other_tick_def is_main_def)
qed

lemma stopped_ticks:
  assumes "db_jobs s (cj_id job) = Some row" and "wj_status row = STOPPED" and "heeds_cancellation X job"
    and "at_job job (eg_phase E)" and "list_all (makes_calls P) schedule" and "keys_ok s"
  shows "\<exists>E'. fold (engine_tick P X w) schedule (E, s) = (E', fold other_tick schedule s) \<and>
    db_jobs (fold other_tick schedule s) (cj_id job) = Some row \<and> at_job job (eg_phase E') \<and>
    steps_left (eg_phase E') \<le> steps_left (eg_phase E) - length (filter is_main schedule)"
  using assms
proof (induction schedule arbitrary: E s)
  case (Cons t schedule)
  obtain E1 s1 where tick: "engine_tick P X w t (E, s) = (E1, s1)" by (cases "engine_tick P X w t (E, s)")
  from Cons.prems(5) have t: "makes_calls P t" "list_all (makes_calls P) schedule" by simp_all
  note one = stopped_tick [OF Cons.prems(1-4) t(1) Cons.prems(6) tick]
  then have "s1 = other_tick t s" by simp
  with one tick Cons.IH [of s1 E1] Cons.prems(2,3) t(2) show ?case by (auto split: if_splits)
qed simp

lemma at_job_finished: "at_job job ph \<Longrightarrow> steps_left ph = 0 \<Longrightarrow> ph = Finished (Inr ())"
  by (induction ph rule: steps_left.induct) (auto simp: at_job_def split: if_splits)

lemma stopped_monitor:
  assumes "db_jobs s (cj_id job) = Some row" and "wj_status row = STOPPED" and "eg_phase E = Executing job ph"
  shows "eg_aborted (fst (fold (engine_tick P X w) [MonitorTick e1, MonitorTick e2] (E, s)))"
  using assms by (simp add: monitorControl_def stopped_calls [OF assms(1,2)])

lemma steps_left_le: "steps_left ph \<le> 6"
  by (induction ph rule: steps_left.induct) simp_all

text \<open>
  C11: A cancelled run stops by itself, wherever it is.  Once the job is stopped, the run of a
  worker that holds it returns without an error within six ticks of its main loop, however the
  ticks of the monitor and the calls of everybody else fall between them, and it changes nothing
  more in the database: the only writes are those of everybody else, and the row of the job stays.
  Two ticks of the monitor abort the signal.  The task is assumed not to answer the refusal of a
  report with another report at once.
\<close>

theorem cancelled_run_stops:
  assumes "workflow_reachable P (s, cs)" and "db_jobs s (cj_id job) = Some row" and "wj_status row = STOPPED"
    and "eg_phase E = Executing job ph" and "heeds_cancellation X job"
    and "list_all (makes_calls P) schedule" and "6 \<le> length (filter is_main schedule)"
  shows "(\<exists>E'. fold (engine_tick P X w) schedule (E, s) = (E', fold other_tick schedule s) \<and>
      eg_phase E' = Finished (Inr ())) \<and>
    db_jobs (fold other_tick schedule s) (cj_id job) = Some row \<and>
    eg_aborted (fst (fold (engine_tick P X w) [MonitorTick e1, MonitorTick e2] (E, s)))"
proof -
  have "at_job job (eg_phase E)" by (simp add: at_job_def assms(4))
  from stopped_ticks [OF assms(2,3,5) this assms(6) reachable_keys [OF assms(1)], of w] obtain E' where
    E': "fold (engine_tick P X w) schedule (E, s) = (E', fold other_tick schedule s)"
      "db_jobs (fold other_tick schedule s) (cj_id job) = Some row" "at_job job (eg_phase E')"
      "steps_left (eg_phase E') \<le> steps_left (eg_phase E) - length (filter is_main schedule)"
    by blast
  have "steps_left (eg_phase E') = 0" using E'(4) assms(7) steps_left_le [of "eg_phase E"] by linarith
  with at_job_finished [OF E'(3)] E'(1,2) stopped_monitor [OF assms(2-4)] show ?thesis by blast
qed

end
