(* ===== verification/WorkflowRuns.thy ===== *)
theory WorkflowRuns
  imports WorkflowOutcomes
begin

text \<open>
  A concrete run of the workflow runtime on a concrete platform: one job created, claimed,
  claimed again by another worker and cancelled; and the witnesses that the hypotheses of the
  properties of the runtime hold on it.
\<close>

section \<open>A concrete run\<close>

definition demo_env :: "nat \<Rightarrow> string \<Rightarrow> call_env" where
  "demo_env now uuid =
     \<lparr>db_now = now, app_now = now, fresh_uuid = js uuid, row_uuid = js ''job-1'',
      event_uuid = (\<lambda>n. js ''event-'' @ dec_nat n)\<rparr>"

definition demo_dto :: CreateWorkflowDto where
  "demo_dto = \<lparr>dto_workflow_type = CONTENT, dto_idempotency_key = Some (js ''key''),
     dto_input = JObj [(js ''topic'', JStr (js ''a''))], dto_client_contract_version = None\<rparr>"

definition demo_db :: workflow_db where
  "demo_db = \<lparr>db_job_ids = [], db_jobs = (\<lambda>_. None), db_events = [], db_assignments = (\<lambda>_. None),
     db_project_owner = [js ''project'' \<mapsto> js ''user'']\<rparr>"

lemma mapE_ex: "(\<And>x. x \<in> set xs \<Longrightarrow> \<exists>y. f x = Inr y) \<Longrightarrow> \<exists>ys. mapE f xs = Inr ys"
  by (induction xs) (auto, metis bindE_simps(2))

fun json_data :: "jsval \<Rightarrow> bool" where
  "json_data JOther = False"
| "json_data (JNum n) = is_finite_number n"
| "json_data (JArr vs) = (\<forall>v \<in> set vs. json_data v)"
| "json_data (JObj kvs) = (\<forall>kv \<in> set kvs. json_data (snd kv))"
| "json_data _ = True"

lemma stableSerialize_total: "json_data v \<Longrightarrow> \<exists>t. stableSerialize P v = Inr t \<and> (t = None \<longleftrightarrow> v = JUndef)"
proof (induction v rule: jsval_induct)
  case (JArr vs)
  have "\<exists>ys. mapE id (map (stableSerialize P) vs) = Inr ys"
    using JArr by (intro mapE_ex) auto
  then show ?case by auto
next
  case (JObj kvs)
  have "\<exists>ys. mapE (\<lambda>kr. bindE (snd kr) (\<lambda>t. Inr (fst kr, t)))
      (enumeration_order (sort_key fst (map (\<lambda>kv. (fst kv, stableSerialize P (snd kv))) kvs))) = Inr ys"
  proof (rule mapE_ex)
    fix x
    assume "x \<in> set (enumeration_order (sort_key fst (map (\<lambda>kv. (fst kv, stableSerialize P (snd kv))) kvs)))"
    then obtain kv where "kv \<in> set kvs" "x = (fst kv, stableSerialize P (snd kv))"
      by (auto simp: set_enumeration_order)
    then show "\<exists>y. bindE (snd x) (\<lambda>t. Inr (fst x, t)) = Inr y"
      using JObj by fastforce
  qed
  then show ?case by auto
qed simp_all

lemma request_hash_total:
  assumes "json_data (dto_input dto)"
  shows "\<exists>h. createWorkflowRequestHash P dto = Inr h"
proof -
  have "json_data (request_value dto)"
    using assms by (auto simp: request_value_def nullish_or_def contract_value_def split: option.split)
  moreover have "request_value dto \<noteq> JUndef"
    by (simp add: request_value_def)
  ultimately obtain t where "stableSerialize P (request_value dto) = Inr (Some t)"
    using stableSerialize_total by blast
  then show ?thesis
    by (simp add: createWorkflowRequestHash_def stableJsonStringify_def)
qed

lemma demo_policy: "\<exists>pol. select_for_job plain_platform [] (js ''project'') WORKFLOW_API demo_dto = Inr pol \<and>
   workflowDefinition pol \<noteq> js ''deterministic-authoring.v1''"
  by (simp add: select_for_job_def selectAuthoringPolicy_def authoringPolicySnapshotDigest_def canonicalJsonV1_def
      select_snapshot_def parseAuthoringRolloutConfig_def get_prop_def nullish_or_def Let_def demo_dto_def
      snapshot_value_def contract_value_def AUTHORING_CLIENT_CONTRACT_def AUTHORING_POLICY_VERSION_def js_simps)

lemma demo_create:
  obtains row s where
    "create plain_platform (demo_env 1 ''uuid-1'') [] None (js ''user'') (js ''project'') demo_dto WORKFLOW_API demo_db = (Inr row, s)"
    and "wj_id row = js ''job-1''"
proof -
  obtain h where h: "createWorkflowRequestHash plain_platform demo_dto = Inr h"
    using request_hash_total [of demo_dto plain_platform] by (auto simp: demo_dto_def)
  obtain pol where pol: "select_for_job plain_platform [] (js ''project'') WORKFLOW_API demo_dto = Inr pol"
    "workflowDefinition pol \<noteq> js ''deterministic-authoring.v1''"
    using demo_policy by blast
  have trim: "js_trim (js ''key'') = js ''key''"
    by (simp add: js_trim_def js_simps js_white_def)
  have key: "dto_idempotency_key demo_dto = Some (js ''key'')"
    by (simp add: demo_dto_def)
  obtain row s where c: "create plain_platform (demo_env 1 ''uuid-1'') [] None (js ''user'') (js ''project'') demo_dto WORKFLOW_API demo_db = (Inr row, s)"
    by (rule that) (simp add: create_def bindT_def assertOwner_def demo_db_def key trim h pol tx_steps
        find_by_key_def all_jobs_def map_filter_simps transaction_def lockOwnedProject_def insert_job_def
        appendEvent_run new_job_fields Let_def)
  have "find_by_key k demo_db = None" for k
    by (simp add: find_by_key_def all_jobs_def demo_db_def map_filter_simps)
  then have "wj_id row = js ''job-1''"
    using create_Inr_cases [OF c] by (auto simp: new_job_fields demo_env_def)
  with c show ?thesis by (rule that)
qed

lemma demo_initial: "initial_state (demo_db, [])"
  by (simp add: initial_state_def demo_db_def)

text \<open>
  One job, created, claimed by a first worker, and claimed again by a second one after the
  lease of the first has run out.
\<close>

lemma demo_run:
  obtains row s1 c1 s2 c2 s3 r2 r3 where
    "create plain_platform (demo_env 1 ''uuid-1'') [] None (js ''user'') (js ''project'') demo_dto WORKFLOW_API demo_db = (Inr row, s1)"
    and "wj_id row = js ''job-1''"
    and "claim plain_platform (demo_env 2 ''uuid-2'') (js ''job-1'') (js ''worker-1'') s1 = (Inr (Some c1), s2)"
    and "claim plain_platform (demo_env 40000000 ''uuid-3'') (js ''job-1'') (js ''worker-2'') s2 = (Inr (Some c2), s3)"
    and "workflow_reachable plain_platform (s1, [])" and "workflow_reachable plain_platform (s2, [c1])"
    and "workflow_reachable plain_platform (s3, [c2, c1])"
    and "cj_id c1 = js ''job-1''" and "cj_id c2 = js ''job-1''"
    and "db_jobs s3 (js ''job-1'') = Some r3" and "fence_ok 40000001 c2 r3"
    and "db_jobs s2 (js ''job-1'') = Some r2" and "fence_ok 3 c1 r2" and "wj_checkpoint r2 = JNull"
    and "db_jobs s1 (js ''job-1'') = Some row" and "wj_generation_attempt row = 0"
proof -
  obtain row s1 where c: "create plain_platform (demo_env 1 ''uuid-1'') [] None (js ''user'') (js ''project'') demo_dto WORKFLOW_API demo_db = (Inr row, s1)"
    and id: "wj_id row = js ''job-1''"
    by (rule demo_create)
  have none: "find_by_key k demo_db = None" for k
    by (simp add: find_by_key_def all_jobs_def demo_db_def map_filter_simps)
  obtain h pol where h: "createWorkflowRequestHash plain_platform demo_dto = Inr h"
    "select_for_job plain_platform [] (js ''project'') WORKFLOW_API demo_dto = Inr pol"
    and row: "row = new_job (demo_env 1 ''uuid-1'') (request_key (demo_env 1 ''uuid-1'') (js ''user'') (js ''project'') demo_dto)
      h (dto_input demo_dto) pol"
    and s1: "s1 = with_event (demo_env 1 ''uuid-1'') (row_uuid (demo_env 1 ''uuid-1'')) (js ''workflow.created'')
      (JObj [status_field QUEUED]) (with_new_job row demo_db)"
    using create_Inr_cases [OF c] none by auto
  have dto: "dto_client_contract_version demo_dto \<in> {None, Some AUTHORING_CLIENT_CONTRACT}"
    "dto_input demo_dto = JUndef \<or> (\<exists>kvs. dto_input demo_dto = JObj kvs)"
    by (simp_all add: demo_dto_def)
  note ok = created_row_claimable [OF h dto row]
  obtain i where i: "parseJsonObject plain_platform (wj_input row) = Inr i"
    using ok(3) by blast
  have j1: "db_jobs s1 (js ''job-1'') = Some row"
    by (simp add: s1 id [symmetric])
  note run1 = claim_runs [OF j1 ok(1) ok(2) i ok(4), of "demo_env 2 ''uuid-2''" "js ''worker-1''"]
  let ?r2 = "claimed_row (demo_env 2 ''uuid-2'') (js ''worker-1'') (wj_fencing_token row + 1) row"
  let ?c1 = "claim_of row (object_or_null i) (object_or_null None) (fresh_uuid (demo_env 2 ''uuid-2'')) pol"
  let ?s2 = "claim_event (demo_env 2 ''uuid-2'') row (js ''job-1'') (with_job (js ''job-1'') ?r2 s1)"
  have "policy_columns ?r2 = policy_columns row"
    by (simp add: fun_eq_iff policy_columns_def claimed_row_def)
  moreover have "wj_rollout_policy_snapshot ?r2 = wj_rollout_policy_snapshot row"
    by (simp add: claimed_row_def)
  ultimately have "restore_columns plain_platform ?r2 = restore_columns plain_platform row"
    unfolding restore_columns_def by metis
  then have same: "restore_columns plain_platform ?r2 = Inr pol" "parseJsonObject plain_platform (wj_input ?r2) = Inr i"
    "parseJsonObject plain_platform (wj_checkpoint ?r2) = Inr None" "wj_id ?r2 = wj_id row"
    using ok(2,4) i by (simp, simp_all add: claimed_row_def)
  have j2: "db_jobs ?s2 (js ''job-1'') = Some ?r2"
    by (simp add: claim_event_def)
  have again: "claimable (db_now (demo_env 40000000 ''uuid-3'')) ?r2"
    using ok(1) by (simp add: claimable_def claimed_row_def lease_active_def leaseMilliseconds_def demo_env_def)
  note run2 = claim_runs [OF j2 again same(1-3), of "js ''worker-2''"]
  let ?r3 = "claimed_row (demo_env 40000000 ''uuid-3'') (js ''worker-2'') (wj_fencing_token ?r2 + 1) ?r2"
  let ?c2 = "claim_of ?r2 (object_or_null i) (object_or_null None) (fresh_uuid (demo_env 40000000 ''uuid-3'')) pol"
  let ?s3 = "claim_event (demo_env 40000000 ''uuid-3'') ?r2 (js ''job-1'') (with_job (js ''job-1'') ?r3 ?s2)"
  have reach: "workflow_reachable plain_platform (demo_db, [])"
    using demo_initial unfolding workflow_reachable_def by blast
  note step = reachable_steps [OF _ r_into_rtranclp]
  have reach1: "workflow_reachable plain_platform (s1, [])"
    by (rule step [OF reach]) (rule workflow_step.creates [OF c])
  have reach2: "workflow_reachable plain_platform (?s2, [?c1])"
    by (rule step [OF reach1]) (rule workflow_step.claims [OF run1])
  have reach3: "workflow_reachable plain_platform (?s3, [?c2, ?c1])"
    by (rule step [OF reach2]) (rule workflow_step.claims [OF run2])
  have "cj_id ?c1 = js ''job-1''" "cj_id ?c2 = js ''job-1''"
    using id same(4) by (simp_all add: claim_of_def)
  moreover have "db_jobs ?s3 (js ''job-1'') = Some ?r3"
    by (simp add: claim_event_def)
  moreover have "fence_ok 40000001 ?c2 ?r3"
    using ok(1) by (simp add: fence_ok_def fence_where_def claim_of_def claimed_row_def lease_active_def
        leaseMilliseconds_def demo_env_def claimable_def)
  moreover have "fence_ok 3 ?c1 ?r2"
    using ok(1) by (simp add: fence_ok_def fence_where_def claim_of_def claimed_row_def lease_active_def
        leaseMilliseconds_def demo_env_def claimable_def)
  moreover have "wj_checkpoint ?r2 = JNull"
    by (simp add: claimed_row_def row new_job_def split: prod.split)
  moreover have "wj_generation_attempt row = 0"
    by (simp add: row new_job_def split: prod.split)
  ultimately show ?thesis
    using that [OF c id run1 run2 reach1 reach2 reach3] j1 j2 by blast
qed

lemma demo_cancel:
  assumes "create plain_platform (demo_env 1 ''uuid-1'') [] None (js ''user'') (js ''project'') demo_dto WORKFLOW_API demo_db = (Inr row, s1)"
    and "wj_id row = js ''job-1''" and "workflow_reachable plain_platform (s1, [])"
  obtains saved s2 stopped where "cancel (demo_env 2 ''uuid-2'') (js ''user'') (js ''project'') (js ''job-1'') s1 = (Inr saved, s2)"
    and "db_jobs s2 (js ''job-1'') = Some stopped" and "wj_status stopped = STOPPED"
proof -
  have none: "find_by_key k demo_db = None" for k
    by (simp add: find_by_key_def all_jobs_def demo_db_def map_filter_simps)
  obtain h pol where row: "row = new_job (demo_env 1 ''uuid-1'') (request_key (demo_env 1 ''uuid-1'') (js ''user'') (js ''project'') demo_dto)
      h (dto_input demo_dto) pol"
    and s1: "s1 = with_event (demo_env 1 ''uuid-1'') (row_uuid (demo_env 1 ''uuid-1'')) (js ''workflow.created'')
      (JObj [status_field QUEUED]) (with_new_job row demo_db)"
    using create_Inr_cases [OF assms(1)] none by auto
  have "wj_user_id row = js ''user''" "wj_project_id row = js ''project''" "wj_status row = QUEUED"
    by (simp_all add: row new_job_def request_key_def)
  moreover have "db_project_owner s1 (js ''project'') = Some (js ''user'')" "db_jobs s1 (js ''job-1'') = Some row"
    by (simp_all add: s1 demo_db_def assms(2))
  ultimately obtain saved s2 where
    c: "cancel (demo_env 2 ''uuid-2'') (js ''user'') (js ''project'') (js ''job-1'') s1 = (Inr saved, s2)"
    by (intro that) (simp add: cancel_def bindT_def assertOwner_def transaction_def lockOwnedJob_def tx_steps
        assertWorkflowTransition_def save_job_def appendEvent_run Let_def)
  have "keys_ok s1"
    using workflow_reachable_inv [OF assms(3)] by (simp add: workflow_inv_def index_ok_def)
  with cancel_stops [OF _ c] show ?thesis
    using that [OF c] by blast
qed

section \<open>Witnesses\<close>

lemma single_writer_witness:
  "\<exists>s cs c row. workflow_reachable plain_platform (s, cs) \<and> length cs = 2 \<and> c \<in> set cs \<and>
     db_jobs s (cj_id c) = Some row \<and> fence_ok 40000001 c row \<and>
     (\<forall>d \<in> set cs. cj_id d = cj_id c \<longrightarrow> fence_ok 40000001 d row \<longrightarrow> c = d)"
proof -
  obtain c1 c2 s3 r3 where r: "workflow_reachable plain_platform (s3, [c2, c1])" "cj_id c2 = js ''job-1''"
    "db_jobs s3 (js ''job-1'') = Some r3" "fence_ok 40000001 c2 r3"
    by (rule demo_run) (rule that; assumption)
  then have "\<forall>d \<in> set [c2, c1]. cj_id d = cj_id c2 \<longrightarrow> fence_ok 40000001 d r3 \<longrightarrow> c2 = d"
    using single_writer [OF r(1), of c2] by auto
  with r show ?thesis
    by (intro exI [of _ s3] exI [of _ "[c2, c1]"] exI [of _ c2] exI [of _ r3]) simp
qed

lemma job_history_monotone_witness:
  "\<exists>s s' c row row'. workflow_step plain_platform (s, []) (s', [c]) \<and>
     db_jobs s (js ''job-1'') = Some row \<and> db_jobs s' (js ''job-1'') = Some row' \<and>
     job_identity row' = job_identity row \<and> wj_fencing_token row \<le> wj_fencing_token row'"
proof -
  obtain s1 c1 s2 where r: "workflow_reachable plain_platform (s1, [])"
    "claim plain_platform (demo_env 2 ''uuid-2'') (js ''job-1'') (js ''worker-1'') s1 = (Inr (Some c1), s2)"
    by (rule demo_run) (rule that; assumption)
  have step: "workflow_step plain_platform (s1, []) (s2, [c1])"
    by (rule workflow_step.claims [OF r(2)])
  from r(2) obtain row where "db_jobs s1 (js ''job-1'') = Some row"
    by (rule claim_Some)
  with job_history_monotone [OF r(1) step this] step show ?thesis
    by blast
qed

lemma terminal_is_final_witness:
  "\<exists>s row. workflow_reachable plain_platform (s, []) \<and> wj_status row = STOPPED \<and>
     db_jobs s (js ''job-1'') = Some row"
proof -
  obtain row s1 where r: "create plain_platform (demo_env 1 ''uuid-1'') [] None (js ''user'') (js ''project'') demo_dto WORKFLOW_API demo_db = (Inr row, s1)"
    "wj_id row = js ''job-1''" "workflow_reachable plain_platform (s1, [])"
    by (rule demo_run) (rule that; assumption)
  obtain first s2 saved where c: "cancel (demo_env 2 ''uuid-2'') (js ''user'') (js ''project'') (js ''job-1'') s1 = (Inr first, s2)"
    and job: "db_jobs s2 (js ''job-1'') = Some saved" "wj_status saved = STOPPED"
    using demo_cancel [OF r(1-3)] by blast
  have reach: "workflow_reachable plain_platform (s2, [])"
    by (rule reachable_steps [OF r(3) r_into_rtranclp]) (rule workflow_step.cancels [OF c])
  have again: "(workflow_step plain_platform)\<^sup>*\<^sup>* (s2, []) (s2, [])"
    by (rule rtranclp.rtrancl_refl)
  from job(2) have "wj_status saved \<in> {SUCCEEDED, FAILED, STOPPED}" by simp
  from terminal_is_final [OF reach again job(1) this] reach job(2) show ?thesis
    by blast
qed

lemma event_log_gapless_witness:
  "\<exists>s cs. workflow_reachable plain_platform (s, cs) \<and> cs \<noteq> [] \<and>
     map ev_seq (job_events (js ''job-1'') s) = [1..<length (job_events (js ''job-1'') s) + 1]"
proof -
  obtain c1 c2 s3 where r: "workflow_reachable plain_platform (s3, [c2, c1])"
    by (rule demo_run) (rule that; assumption)
  from event_log_gapless [OF r, of "js ''job-1''"] r show ?thesis
    by blast
qed

lemma reclaim_fences_old_workers_witness:
  "\<exists>c s. \<exists>e. complete (demo_env 40000001 ''uuid-4'') c s = (Inl e, s)"
proof -
  obtain s2 c1 s3 c2 where r: "workflow_reachable plain_platform (s2, [c1])" "cj_id c1 = js ''job-1''"
    "claim plain_platform (demo_env 40000000 ''uuid-3'') (js ''job-1'') (js ''worker-2'') s2 = (Inr (Some c2), s3)"
    by (rule demo_run) (rule that; assumption)
  have "c1 \<in> set [c1]" by simp
  from reclaim_fences_old_workers [OF r(1,3) this r(2), of "demo_env 40000001 ''uuid-4''"] show ?thesis
    by blast
qed

lemma cancellation_wins_witness:
  "\<exists>s c. complete (demo_env 3 ''uuid-3'') c s = (Inl WorkflowCancelledError, s) \<and> cj_id c = js ''job-1''"
proof -
  obtain c1 :: ClaimedWorkflowJob where id: "cj_id c1 = js ''job-1''"
    by (rule demo_run) (rule that; assumption)
  obtain row s1 where r: "create plain_platform (demo_env 1 ''uuid-1'') [] None (js ''user'') (js ''project'') demo_dto WORKFLOW_API demo_db = (Inr row, s1)"
    "wj_id row = js ''job-1''" "workflow_reachable plain_platform (s1, [])"
    by (rule demo_run) (rule that; assumption)
  obtain saved s2 where c: "cancel (demo_env 2 ''uuid-2'') (js ''user'') (js ''project'') (js ''job-1'') s1 = (Inr saved, s2)"
    using demo_cancel [OF r(1-3)] by blast
  from cancellation_wins [OF r(3) c rtranclp.rtrancl_refl id, of "demo_env 3 ''uuid-3''"] id show ?thesis
    by blast
qed

lemma created_job_is_claimable_witness:
  "\<exists>c s s' row'. claim plain_platform (demo_env 2 ''uuid-2'') (js ''job-1'') (js ''worker-1'') s = (Inr (Some c), s') \<and>
     cj_fencingToken c = 1 \<and> fence_ok 3 c row'"
proof -
  obtain row s1 where r: "create plain_platform (demo_env 1 ''uuid-1'') [] None (js ''user'') (js ''project'') demo_dto WORKFLOW_API demo_db = (Inr row, s1)"
    "wj_id row = js ''job-1''"
    by (rule demo_run) (rule that; assumption)
  have reach: "workflow_reachable plain_platform (demo_db, [])"
    using demo_initial unfolding workflow_reachable_def by blast
  have "db_jobs demo_db (wj_id row) = None" "dto_client_contract_version demo_dto \<in> {None, Some AUTHORING_CLIENT_CONTRACT}"
    "dto_input demo_dto = JUndef \<or> (\<exists>kvs. dto_input demo_dto = JObj kvs)"
    by (simp_all add: demo_db_def demo_dto_def)
  from created_job_is_claimable [OF reach r(1) this, of "demo_env 2 ''uuid-2''" "js ''worker-1''"] show ?thesis
    unfolding r(2)
  proof (elim exE conjE)
    fix c s'' row'
    assume a: "claim plain_platform (demo_env 2 ''uuid-2'') (js ''job-1'') (js ''worker-1'') s1 = (Inr (Some c), s'')"
      "cj_fencingToken c = 1" "\<forall>now<db_now (demo_env 2 ''uuid-2'') + 30000000. fence_ok now c row'"
    then have "fence_ok 3 c row'" by (simp add: demo_env_def)
    with a show ?thesis by blast
  qed
qed

text \<open>The same request with an undefined property more, and another one.\<close>

definition demo_same :: CreateWorkflowDto where
  "demo_same = demo_dto\<lparr>dto_input := JObj [(js ''note'', JUndef), (js ''topic'', JStr (js ''a''))]\<rparr>"

definition demo_other :: CreateWorkflowDto where
  "demo_other = demo_dto\<lparr>dto_input := JObj [(js ''topic'', JStr (js ''b''))]\<rparr>"

lemmas demo_dto_defs = demo_dto_def demo_same_def demo_other_def

lemma demo_requests:
  "hashable_request demo_dto" "hashable_request demo_same" "hashable_request demo_other"
  "same_request demo_same demo_dto" "\<not> same_request demo_other demo_dto"
  "sha256_hex plain_platform (request_preimage demo_other) \<noteq> sha256_hex plain_platform (request_preimage demo_dto)"
proof -
  show "hashable_request demo_dto" "hashable_request demo_same" "hashable_request demo_other"
    by (simp_all add: hashable_request_def demo_dto_defs contract_value_def utf16_def js_simps)
  have one: "enumeration_order [kv] = [kv]" for kv :: "jstr \<times> jsval" by (simp add: enumeration_order_def)
  show "same_request demo_same demo_dto" "\<not> same_request demo_other demo_dto"
    by (simp_all add: same_request_def demo_dto_defs one js_simps)
  have hd: "hd (toy_digest bs) = 48 + foldl (\<lambda>h b. (31 * h + b) mod 10) 0 bs mod 10" for bs
    by (simp add: toy_digest_def upt_conv_Cons)
  have "hd (toy_digest (request_preimage demo_other)) \<noteq> hd (toy_digest (request_preimage demo_dto))"
    unfolding hd
    by (simp add: request_preimage_def stable_norm_request demo_dto_defs one contract_value_def json_quote_def json_escape_wf
        js_simps escape_unit_def short_escape_def utf8_scalar_def)
  then show "sha256_hex plain_platform (request_preimage demo_other) \<noteq> sha256_hex plain_platform (request_preimage demo_dto)"
    by auto
qed

lemma create_idempotent_witness:
  "\<exists>row s. create plain_platform (demo_env 9 ''uuid-9'') [] None (js ''user'') (js ''project'') demo_dto LEGACY_API s = (Inr row, s) \<and>
     create plain_platform (demo_env 9 ''uuid-9'') [] None (js ''user'') (js ''project'') demo_same LEGACY_API s = (Inr row, s) \<and>
     create plain_platform (demo_env 9 ''uuid-9'') [] None (js ''user'') (js ''project'') demo_other LEGACY_API s =
       (Inl (ConflictException MSG_KEY_REUSED), s)"
proof -
  obtain row s1 where r: "create plain_platform (demo_env 1 ''uuid-1'') [] None (js ''user'') (js ''project'') demo_dto WORKFLOW_API demo_db = (Inr row, s1)"
    by (rule demo_run) (rule that; assumption)
  have reach: "workflow_reachable plain_platform (demo_db, [])"
    using demo_initial unfolding workflow_reachable_def by blast
  have key: "dto_idempotency_key demo_dto = Some (js ''key'')" "dto_idempotency_key demo_same = Some (js ''key'')"
    "dto_idempotency_key demo_other = Some (js ''key'')" "dto_workflow_type demo_same = dto_workflow_type demo_dto"
    "dto_workflow_type demo_other = dto_workflow_type demo_dto"
    by (simp_all add: demo_dto_defs)
  note again = create_idempotent [OF reach key(1) r, of "demo_env 9 ''uuid-9''" "[]" None LEGACY_API]
  from again [of demo_same] again [of demo_other] show ?thesis
    using key demo_requests by (intro exI [of _ row] exI [of _ s1]) simp
qed


definition demo_assignment :: "ClaimedWorkflowJob \<Rightarrow> GroundingAssignment" where
  "demo_assignment job =
     \<lparr>ga_workflow_job_id = cj_id job, ga_project_id = cj_projectId job, ga_retrieval_run_id = js ''run'',
      ga_retrieval_state = js ''HIT'', ga_retrieval_run_refs = JArr [], ga_evidence_ids = JArr [],
      ga_snapshot_digest = None, ga_strict_mode = True, ga_targeted_revision_attempts = 0,
      ga_contract_version = ATOMIC_CONTRACT, ga_created_at = 1, ga_updated_at = 1\<rparr>"

definition demo_checkpoint :: "(jstr \<times> jsval) list" where
  "demo_checkpoint = [(js ''phase'', JStr (js ''atomic_revision_required''))]"

lemma revision_progress_replay_witness:
  "\<exists>job s a. persistProgress plain_platform (demo_env 3 ''uuid-4'') job (js ''reset'') JNull demo_checkpoint s = (Inr (), s) \<and>
     db_assignments s (cj_id job) = Some a \<and> ga_targeted_revision_attempts a = 1"
proof -
  let ?env = "demo_env 3 ''uuid-4''"
  obtain c r and s0 :: workflow_db where r0: "db_jobs s0 (js ''job-1'') = Some r" "cj_id c = js ''job-1''"
    and fence3: "fence_ok 3 c r" and cp: "wj_checkpoint r = JNull"
    by (rule demo_run) (rule that; assumption)
  let ?s = "with_assignment (cj_id c) (Some (demo_assignment c)) s0"
  have row: "db_jobs ?s (cj_id c) = Some r"
    using r0 by simp
  have fence: "fence_ok (db_now ?env) c r" "fence_where c r"
    using fence3 by (simp_all add: demo_env_def fence_ok_def)
  have phase: "get_prop demo_checkpoint (js ''phase'') = JStr (js ''atomic_revision_required'')"
    "get_prop demo_checkpoint (js ''generation_attempt'') = JUndef"
    "json_column (JObj demo_checkpoint) = JObj demo_checkpoint"
    by (simp_all add: demo_checkpoint_def get_prop_def)
  obtain a where res: "reserveAtomicRevision plain_platform ?env r c demo_checkpoint ?s =
      (Inr True, with_assignment (cj_id c) (Some a) ?s)"
    by (rule that) (simp add: reserveAtomicRevision_def bindT_def update_assignment_def demo_assignment_def returnT_def
        with_assignment_def)
  have row1: "db_jobs (with_assignment (cj_id c) (Some a) ?s) (cj_id c) = Some r"
    using row by simp
  let ?r' = "progress_row ?env demo_checkpoint (wj_generation_attempt r) r"
  let ?s' = "with_event ?env (cj_id c) (js ''reset'') JNull
    (with_job (cj_id c) ?r' (with_assignment (cj_id c) (Some a) ?s))"
  have run: "persistProgress plain_platform ?env c (js ''reset'') JNull demo_checkpoint ?s = (Inr (), ?s')"
    unfolding persistProgress_def fenced_run(3) [OF row fence(1)] transaction_def persist_body_def
    by (simp add: phase bindT_def res readGenerationAttempt_def liftE_def fenced_update_run [OF row1 fence(2)]
        appendEvent_run)
  have "\<not> (\<exists>r text. db_jobs ?s (cj_id c) = Some r \<and> wj_checkpoint r = JStr text)"
    using row cp by auto
  moreover have "db_jobs ?s' (cj_id c) = Some ?r'"
    by simp
  moreover have "lease_active (db_now ?env) ?r'"
    by (simp add: lease_active_def progress_row_def extend_lease_def leaseMilliseconds_def)
  ultimately have "persistProgress plain_platform ?env c (js ''reset'') JNull demo_checkpoint ?s' = (Inr (), ?s') \<and>
    (\<exists>a. db_assignments ?s' (cj_id c) = Some a \<and> ga_targeted_revision_attempts a = 1)"
    by (rule revision_progress_replay [OF phase(1,3) run])
  then show ?thesis by blast
qed

end
