(* ===== verification/WorkflowEngineRuns.thy ===== *)
theory WorkflowEngineRuns
  imports WorkflowEngineProps WorkflowRuns
begin

text \<open>
  A whole run of the engine when nobody interferes: which events it writes and where it leaves
  the job; and the witnesses of the properties of the engine on concrete runs.
\<close>

section \<open>Uninterrupted runs\<close>

text \<open>
  The task emits these events, one after the other, by a yield or by a report, and then returns
  this outcome.
\<close>

fun emission :: "'e exec_step \<Rightarrow> ('e WorkflowExecutionEvent \<times> 'e) option" where
  "emission (Yields event st) = Some (event, st)"
| "emission (Reports event st) = Some (event, st)"
| "emission _ = None"

fun follows ::
    "'e WorkflowTaskExecutor \<Rightarrow> ClaimedWorkflowJob \<Rightarrow> 'e \<Rightarrow> 'e WorkflowExecutionEvent list \<Rightarrow>
     WorkflowExecutionOutcome option \<Rightarrow> bool" where
  "follows X job st [] outcome \<longleftrightarrow> ex_resume X job False (Inr ()) st = Returns outcome"
| "follows X job st (event # events) outcome \<longleftrightarrow>
     (case emission (ex_resume X job False (Inr ()) st) of
        None \<Rightarrow> False
      | Some (event', st') \<Rightarrow>
          event' = event \<and>
          (case called_back event st' of Inr st'' \<Rightarrow> follows X job st'' events outcome | Inl _ \<Rightarrow> False))"

text \<open>
  The checkpoints the store accepts: their generation attempts are safe integers that never go
  down, and at most one asks for the revision of an atomic draft, while the assignment has it.
\<close>

definition reserves_revision :: "'e WorkflowExecutionEvent \<Rightarrow> bool" where
  "reserves_revision event \<longleftrightarrow>
     get_prop (ee_checkpoint event) (js ''phase'') = JStr (js ''atomic_revision_required'')"

definition revision_open :: "ClaimedWorkflowJob \<Rightarrow> workflow_db \<Rightarrow> bool" where
  "revision_open job s \<longleftrightarrow>
     (case db_assignments s (cj_id job) of
        None \<Rightarrow> False
      | Some a \<Rightarrow> ga_project_id a = cj_projectId job \<and> ga_targeted_revision_attempts a = 0 \<and> ga_strict_mode a \<and>
          ga_contract_version a = ATOMIC_CONTRACT)"

fun storable :: "platform \<Rightarrow> bool \<Rightarrow> nat \<Rightarrow> 'e WorkflowExecutionEvent list \<Rightarrow> bool" where
  "storable P available n [] = True"
| "storable P available n (event # events) =
     ((if reserves_revision event then available else True) \<and>
      (case readGenerationAttempt P (ee_checkpoint event) n of
         Inl _ \<Rightarrow> False
       | Inr n' \<Rightarrow> storable P (available \<and> \<not> reserves_revision event) n' events))"

fun attempts_after :: "platform \<Rightarrow> nat \<Rightarrow> 'e WorkflowExecutionEvent list \<Rightarrow> nat" where
  "attempts_after P n [] = n"
| "attempts_after P n (event # events) =
     (case readGenerationAttempt P (ee_checkpoint event) n of Inl _ \<Rightarrow> n | Inr n' \<Rightarrow> attempts_after P n' events)"

definition within_lease :: "call_env \<Rightarrow> call_env \<Rightarrow> bool" where
  "within_lease e e' \<longleftrightarrow> db_now e' < db_now e + 30000000"

fun main_ticks :: "call_env list \<Rightarrow> tick list" where
  "main_ticks [] = []"
| "main_ticks (e # es) = MainTick e # MainTick e # MainTick e # main_ticks es"

definition outcome_status :: "WorkflowExecutionOutcome option \<Rightarrow> WorkflowStatus" where
  "outcome_status outcome = (case outcome of Some (SUSPENDED reason) \<Rightarrow> suspension_status reason | _ \<Rightarrow> SUCCEEDED)"

definition outcome_event :: "WorkflowExecutionOutcome option \<Rightarrow> jstr" where
  "outcome_event outcome =
     (case outcome of Some (SUSPENDED reason) \<Rightarrow> js (suspension_event reason) | _ \<Rightarrow> js ''workflow.succeeded'')"

definition live_until :: "ClaimedWorkflowJob \<Rightarrow> nat \<Rightarrow> workflow_db \<Rightarrow> WorkflowJob \<Rightarrow> bool" where
  "live_until job t s row \<longleftrightarrow>
     db_jobs s (cj_id job) = Some row \<and> fence_where job row \<and> wj_lease_expires_at row = Some t"

lemma live_fence: "live_until job t s row \<Longrightarrow> now < t \<Longrightarrow> fence_ok now job row"
  by (simp add: live_until_def fence_ok_def lease_active_def)

lemma reserve_runs:
  assumes "revision_open job s"
  shows "\<exists>a. reserveAtomicRevision P env row job checkpoint s = (Inr True, with_assignment (cj_id job) a s)"
  using assms
  by (auto simp: revision_open_def reserveAtomicRevision_def bindT_def update_assignment_def returnT_def with_assignment_def
      split: option.splits)

lemma persist_body_runs:
  assumes "reserves_revision event \<Longrightarrow> revision_open job s"
    and "db_jobs s (cj_id job) = Some row" and "fence_where job row"
    and "readGenerationAttempt P (ee_checkpoint event) (wj_generation_attempt row) = Inr n"
  shows "\<exists>s1. persist_body P env job (ee_type event) (ee_data event) (ee_checkpoint event) row s =
      (Inr (), with_event env (cj_id job) (ee_type event) (ee_data event)
        (with_job (cj_id job) (progress_row env (ee_checkpoint event) n row) s1)) \<and>
    job_events (cj_id job) s1 = job_events (cj_id job) s \<and>
    (revision_open job s \<and> \<not> reserves_revision event \<longrightarrow> revision_open job s1)"
proof (cases "reserves_revision event")
  case True
  from reserve_runs [OF assms(1) [OF this]] obtain a where
    "reserveAtomicRevision P env row job (ee_checkpoint event) s = (Inr True, with_assignment (cj_id job) a s)"
    by blast
  with True assms(2-4) show ?thesis
    by (intro exI [of _ "with_assignment (cj_id job) a s"])
      (simp add: persist_body_def reserves_revision_def bindT_def liftE_def fenced_update_run appendEvent_run)
next
  case False
  with assms(2-4) show ?thesis
    by (intro exI [of _ s])
      (simp add: persist_body_def reserves_revision_def bindT_def returnT_def liftE_def fenced_update_run appendEvent_run)
qed

lemma progress_runs:
  assumes "reserves_revision event \<Longrightarrow> revision_open job s" and "live_until job t s row" and "db_now env < t"
    and "readGenerationAttempt P (ee_checkpoint event) (wj_generation_attempt row) = Inr n"
  obtains s' row' where
    "persistProgress P env job (ee_type event) (ee_data event) (ee_checkpoint event) s = (Inr (), s')"
    and "live_until job (db_now env + 30000000) s' row'"
    and "wj_checkpoint row' = json_column (JObj (ee_checkpoint event))" and "wj_generation_attempt row' = n"
    and "map ev_type (job_events (cj_id job) s') = map ev_type (job_events (cj_id job) s) @ [ee_type event]"
    and "revision_open job s \<and> \<not> reserves_revision event \<longrightarrow> revision_open job s'"
proof -
  let ?row' = "progress_row env (ee_checkpoint event) n row"
  have row: "db_jobs s (cj_id job) = Some row" "fence_where job row"
    using assms(2) by (simp_all add: live_until_def)
  from persist_body_runs [OF assms(1) row assms(4), of env] obtain s1 where body:
    "persist_body P env job (ee_type event) (ee_data event) (ee_checkpoint event) row s =
      (Inr (), with_event env (cj_id job) (ee_type event) (ee_data event) (with_job (cj_id job) ?row' s1))"
    and s1: "job_events (cj_id job) s1 = job_events (cj_id job) s"
      "revision_open job s \<and> \<not> reserves_revision event \<longrightarrow> revision_open job s1"
    by blast
  let ?s' = "with_event env (cj_id job) (ee_type event) (ee_data event) (with_job (cj_id job) ?row' s1)"
  have "persistProgress P env job (ee_type event) (ee_data event) (ee_checkpoint event) s = (Inr (), ?s')"
    using fenced_run(3) [OF row(1) live_fence [OF assms(2,3)]] body
    by (simp add: persistProgress_def transaction_def)
  moreover have "live_until job (db_now env + 30000000) ?s' ?row'"
    using row by (simp add: live_until_def progress_row_def extend_lease_def fence_where_def leaseMilliseconds_def)
  moreover have "wj_checkpoint ?row' = json_column (JObj (ee_checkpoint event))" "wj_generation_attempt ?row' = n"
    by (simp_all add: progress_row_def extend_lease_def)
  moreover have "revision_open job ?s' = revision_open job s1" by (simp add: revision_open_def)
  ultimately show ?thesis
    using that s1 by (simp add: job_events_with_event)
qed

lemma settle_runs:
  assumes "live_until job t s row" and "db_now env < t"
  obtains s' row' where "settle env job outcome s = (Inr (), s')" and "db_jobs s' (cj_id job) = Some row'"
    and "wj_status row' = outcome_status outcome" and "wj_checkpoint row' = wj_checkpoint row"
    and "wj_generation_attempt row' = wj_generation_attempt row"
    and "map ev_type (job_events (cj_id job) s') = map ev_type (job_events (cj_id job) s) @ [outcome_event outcome]"
proof -
  have row: "db_jobs s (cj_id job) = Some row" "fence_where job row"
    using assms(1) by (simp_all add: live_until_def)
  note run = fenced_run(3) [OF row(1) live_fence [OF assms]]
  show ?thesis
  proof (cases "\<exists>reason. outcome = Some (SUSPENDED reason)")
    case True
    then obtain reason where o: "outcome = Some (SUSPENDED reason)" by blast
    let ?s' = "with_event env (cj_id job) (js (suspension_event reason))
      (JObj [status_field (suspension_status reason), (js ''suspension_reason'', JStr (js (suspension_text reason)))])
      (with_job (cj_id job) (suspended_row env reason row) s)"
    have "settle env job outcome s = (Inr (), ?s')"
      by (simp add: o settle_def suspend_def run transaction_def bindT_def fenced_update_run row appendEvent_run)
    from that [OF this] show ?thesis
      by (simp add: o job_events_with_event outcome_status_def outcome_event_def suspended_row_def release_lease_def)
  next
    case False
    then have o: "settle env job outcome = complete env job" "outcome_status outcome = SUCCEEDED"
      "outcome_event outcome = js ''workflow.succeeded''"
      by (auto simp: settle_def outcome_status_def outcome_event_def split: option.splits WorkflowExecutionOutcome.splits)
    have "settle env job outcome s = (Inr (), with_event env (cj_id job) (js ''workflow.succeeded'')
        (JObj [status_field SUCCEEDED]) (with_job (cj_id job) (succeeded_row env row) s))"
      by (simp add: o complete_def run transaction_def bindT_def fenced_update_run row appendEvent_run)
    from that [OF this] show ?thesis
      by (simp add: o job_events_with_event succeeded_row_def release_lease_def)
  qed
qed

definition last_checkpoint :: "jsval \<Rightarrow> 'e WorkflowExecutionEvent list \<Rightarrow> jsval" where
  "last_checkpoint v events = (if events = [] then v else json_column (JObj (ee_checkpoint (last events))))"

lemma three_ticks:
  assumes "emission (ex_resume X job False (Inr ()) st) = Some (event, st')" and "called_back event st' = Inr st''"
    and "persistProgress P e job (ee_type event) (ee_data event) (ee_checkpoint event) s = (Inr (), s1)"
    and "eg_phase E = Executing job (Iterating st (Inr ()))" and "\<not> eg_aborted E"
  obtains E1 where "fold (engine_tick P X w) [MainTick e, MainTick e, MainTick e] (E, s) = (E1, s1)"
    and "eg_phase E1 = Executing job (Iterating st'' (Inr ()))" and "\<not> eg_aborted E1"
proof -
  from assms(1) obtain reported where emit: "ex_resume X job False (Inr ()) st = emitted reported event st'"
    by (cases "ex_resume X job False (Inr ()) st")
      (auto simp: emitted_def intro: that [of False] that [of True])
  let ?E1 = "next_phase job (Iterating st'' (Inr ())) (next_phase job (Writing reported event st')
    (next_phase job (Persisting reported event st') E))"
  have first: "engine_tick P X w (MainTick e) (E, s) = (next_phase job (Persisting reported event st') E, s)"
    using assms(4,5) emit by (simp add: emitted_def)
  have "fold (engine_tick P X w) [MainTick e, MainTick e, MainTick e] (E, s) = (?E1, s1)"
    using assms(2,3,5) first by (auto simp: called_back_def split: option.splits sum.splits)
  from that [OF this] assms(5) show ?thesis by simp
qed

lemma loop_runs:
  assumes "follows X job st events outcome" and "storable P available (wj_generation_attempt row) events"
    and "available \<Longrightarrow> revision_open job s"
    and "length es = length events" and "live_until job t s row"
    and "successively within_lease (es @ [e'])" and "db_now (hd (es @ [e'])) < t"
    and "eg_phase E = Executing job (Iterating st (Inr ()))" and "\<not> eg_aborted E"
  shows "\<exists>E' s' row'. fold (engine_tick P X w) (main_ticks es @ [MainTick e', MainTick e']) (E, s) = (E', s') \<and>
    eg_phase E' = Finished (Inr ()) \<and> db_jobs s' (cj_id job) = Some row' \<and>
    wj_status row' = outcome_status outcome \<and> wj_checkpoint row' = last_checkpoint (wj_checkpoint row) events \<and>
    wj_generation_attempt row' = attempts_after P (wj_generation_attempt row) events \<and>
    map ev_type (job_events (cj_id job) s') =
      map ev_type (job_events (cj_id job) s) @ map ee_type events @ [outcome_event outcome]"
  using assms
proof (induction events arbitrary: available es st t s row E)
  case Nil
  then have now: "db_now e' < t" by simp
  obtain s' row' where settled: "settle e' job outcome s = (Inr (), s')" "db_jobs s' (cj_id job) = Some row'"
    "wj_status row' = outcome_status outcome" "wj_checkpoint row' = wj_checkpoint row"
    "wj_generation_attempt row' = wj_generation_attempt row"
    "map ev_type (job_events (cj_id job) s') = map ev_type (job_events (cj_id job) s) @ [outcome_event outcome]"
    by (rule settle_runs [OF Nil.prems(5) now])
  then show ?case
    using Nil.prems by (auto simp: last_checkpoint_def)
next
  case (Cons event events)
  then obtain e es' where es: "es = e # es'" by (cases es) auto
  from Cons.prems(1) obtain st' st'' where emit: "emission (ex_resume X job False (Inr ()) st) = Some (event, st')"
    and callback: "called_back event st' = Inr st''" and rest: "follows X job st'' events outcome"
    by (simp split: option.splits prod.splits sum.splits)
  from Cons.prems(2) obtain n where open1: "reserves_revision event \<Longrightarrow> available"
    and n: "readGenerationAttempt P (ee_checkpoint event) (wj_generation_attempt row) = Inr n"
    and storable: "storable P (available \<and> \<not> reserves_revision event) n events"
    by (auto split: if_splits sum.splits)
  have now: "db_now e < t" using Cons.prems(7) es by simp
  obtain s1 row1 where s1:
    "persistProgress P e job (ee_type event) (ee_data event) (ee_checkpoint event) s = (Inr (), s1)"
    "live_until job (db_now e + 30000000) s1 row1"
    "wj_checkpoint row1 = json_column (JObj (ee_checkpoint event))" "wj_generation_attempt row1 = n"
    "map ev_type (job_events (cj_id job) s1) = map ev_type (job_events (cj_id job) s) @ [ee_type event]"
    "revision_open job s \<and> \<not> reserves_revision event \<longrightarrow> revision_open job s1"
    by (rule progress_runs [OF Cons.prems(3) [OF open1] Cons.prems(5) now n])
  obtain E1 where three: "fold (engine_tick P X w) [MainTick e, MainTick e, MainTick e] (E, s) = (E1, s1)"
    "eg_phase E1 = Executing job (Iterating st'' (Inr ()))" "\<not> eg_aborted E1"
    by (rule three_ticks [OF emit callback s1(1) Cons.prems(8,9)])
  have succ: "successively within_lease (es' @ [e'])" "db_now (hd (es' @ [e'])) < db_now e + 30000000"
    using Cons.prems(6) es by (cases es'; simp add: within_lease_def)+
  have len: "length es' = length events" using Cons.prems(4) es by simp
  have open2: "revision_open job s1" if "available \<and> \<not> reserves_revision event"
    using that Cons.prems(3) s1(6) by blast
  from Cons.IH [OF rest storable [folded s1(4)] open2 len s1(2) succ three(2,3)] obtain E' s' row' where
    "fold (engine_tick P X w) (main_ticks es' @ [MainTick e', MainTick e']) (E1, s1) = (E', s')"
    "eg_phase E' = Finished (Inr ())" "db_jobs s' (cj_id job) = Some row'"
    "wj_status row' = outcome_status outcome" "wj_checkpoint row' = last_checkpoint (wj_checkpoint row1) events"
    "wj_generation_attempt row' = attempts_after P n events"
    "map ev_type (job_events (cj_id job) s') =
      map ev_type (job_events (cj_id job) s1) @ map ee_type events @ [outcome_event outcome]"
    unfolding s1(4) by blast
  moreover have "fold (engine_tick P X w) (main_ticks es @ [MainTick e', MainTick e']) (E, s) =
      fold (engine_tick P X w) (main_ticks es' @ [MainTick e', MainTick e']) (E1, s1)"
    using three(1) by (simp add: es)
  ultimately show ?case
    using s1(3,5) n by (auto simp: last_checkpoint_def)
qed

text \<open>
  C9: A run that nobody interferes with does exactly what its task says.  When the task emits
  some events, by yields or reports, and returns, and no write comes later than the lease of the
  one before, the run returns; it has appended one event per emitted event, in order, and then the
  event of the outcome; the job has the status of the outcome and the checkpoint and the
  generation attempt of the last event.  The checkpoints must be such that the store accepts
  them one after the other: their generation attempts never go down, and one of them may take the
  revision of an atomic draft if the assignment still has it.
\<close>

theorem uninterrupted_run:
  assumes "claim P e0 j w s = (Inr (Some job), s0)" and "keys_ok s" and "db_jobs s j = Some row0"
    and "follows X job (ex_start X job) events outcome"
    and "storable P (revision_open job s) (wj_generation_attempt row0) events"
    and "length es = length events" and "successively within_lease (e0 # es @ [e1])"
  shows "\<exists>E' s' row'. run P X w j (MainTick e0 # main_ticks es @ [MainTick e1, MainTick e1]) s = (E', s') \<and>
    eg_phase E' = Finished (Inr ()) \<and> db_jobs s' j = Some row' \<and>
    wj_status row' = outcome_status outcome \<and> wj_checkpoint row' = last_checkpoint (wj_checkpoint row0) events \<and>
    wj_generation_attempt row' = attempts_after P (wj_generation_attempt row0) events \<and>
    map ev_type (job_events j s') =
      map ev_type (job_events j s0) @ map ee_type events @ [outcome_event outcome]"
proof -
  obtain row where row: "db_jobs s j = Some row" "cj_id job = j" "cj_fencingToken job = wj_fencing_token row + 1"
    "claimable (db_now e0) row" "db_jobs s0 j = Some (claimed_row e0 w (wj_fencing_token row + 1) row)"
    by (rule claim_fields [OF assms(1,2)])
  obtain input checkpoint policy where c: "job = claim_of row input checkpoint (fresh_uuid e0) policy"
    and s0: "s0 = claim_event e0 row j (with_job j (claimed_row e0 w (wj_fencing_token row + 1) row) s)"
    using row(1) by (rule_tac claim_Some [OF assms(1)]) simp
  then have token: "cj_leaseToken job = fresh_uuid e0" by (simp add: claim_of_def)
  have same: "row = row0" using row(1) assms(3) by simp
  let ?row0 = "claimed_row e0 w (wj_fencing_token row + 1) row"
  have live: "live_until job (db_now e0 + 30000000) s0 ?row0"
    using row token by (simp add: live_until_def fence_where_def claimed_row_def claimable_def leaseMilliseconds_def)
  have succ: "successively within_lease (es @ [e1])" "db_now (hd (es @ [e1])) < db_now e0 + 30000000"
    using assms(7) by (cases es; simp add: within_lease_def)+
  have kept: "wj_checkpoint ?row0 = wj_checkpoint row0" "wj_generation_attempt ?row0 = wj_generation_attempt row0"
    by (simp_all add: claimed_row_def same)
  have still: "revision_open job s0" if "revision_open job s"
    using that by (simp add: s0 revision_open_def claim_event_def)
  let ?E0 = "next_phase job (Iterating (ex_start X job) (Inr ())) (new_engine j)"
  have "run P X w j (MainTick e0 # main_ticks es @ [MainTick e1, MainTick e1]) s =
      fold (engine_tick P X w) (main_ticks es @ [MainTick e1, MainTick e1]) (?E0, s0)"
    using assms(1) by (simp add: run_def claim_main_def new_engine_def)
  moreover from loop_runs [OF assms(4) assms(5) [folded kept] still assms(6) live succ, of ?E0 w] obtain E' s' row' where
    "fold (engine_tick P X w) (main_ticks es @ [MainTick e1, MainTick e1]) (?E0, s0) = (E', s')"
    "eg_phase E' = Finished (Inr ())" "db_jobs s' (cj_id job) = Some row'"
    "wj_status row' = outcome_status outcome" "wj_checkpoint row' = last_checkpoint (wj_checkpoint row0) events"
    "wj_generation_attempt row' = attempts_after P (wj_generation_attempt row0) events"
    "map ev_type (job_events (cj_id job) s') =
      map ev_type (job_events (cj_id job) s0) @ map ee_type events @ [outcome_event outcome]"
    unfolding kept by (auto simp: new_engine_def)
  ultimately show ?thesis
    using row(2) by auto
qed

section \<open>Concrete runs\<close>

definition demo_event :: "nat WorkflowExecutionEvent" where
  "demo_event = \<lparr>ee_type = js ''content.delta'', ee_data = JNull,
     ee_checkpoint = [(js ''phase'', JStr (js ''drafted'')), (js ''generation_attempt'', JNum (NInt 1))],
     ee_onPersisted = Some (\<lambda>n. Inr (n + 1))\<rparr>"

text \<open>A task of two events, the second one reported.\<close>

definition demo_task :: "nat WorkflowTaskExecutor" where
  "demo_task = \<lparr>ex_start = (\<lambda>_. 0),
     ex_resume = (\<lambda>_ _ answer n. if answer \<noteq> Inr () then Throws WorkflowCancelledError
       else if n = 0 then Yields demo_event n else if n = 1 then Reports demo_event n else Returns (Some COMPLETED))\<rparr>"

lemma demo_follows: "follows demo_task job (ex_start demo_task job) [demo_event, demo_event] (Some COMPLETED)"
  by (simp add: demo_task_def demo_event_def called_back_def)

lemma demo_attempt: "n \<le> 1 \<Longrightarrow> readGenerationAttempt P (ee_checkpoint demo_event) n = Inr 1"
  by (simp add: readGenerationAttempt_def demo_event_def get_prop_def js_simps MAX_SAFE_INTEGER_def)

lemma demo_storable: "storable P available 0 [demo_event, demo_event]" "attempts_after P 0 [demo_event, demo_event] = 1"
  by (simp_all add: demo_attempt reserves_revision_def) (simp_all add: demo_event_def get_prop_def js_simps)

definition demo_engine :: "ClaimedWorkflowJob \<Rightarrow> nat exec_phase \<Rightarrow> nat engine" where
  "demo_engine job ph = \<lparr>eg_phase = Executing job ph, eg_aborted = False, eg_reading = False\<rparr>"

lemma demo_engine_fields [simp]:
  "eg_phase (demo_engine job ph) = Executing job ph" "\<not> eg_aborted (demo_engine job ph)" "\<not> eg_reading (demo_engine job ph)"
  by (simp_all add: demo_engine_def)

theorem engine_runs_within_system_witness:
  "\<exists>s E s' c. workflow_reachable plain_platform (s, []) \<and>
     (engine_step plain_platform demo_task (js ''worker-1''))\<^sup>*\<^sup>* (new_engine (js ''job-1''), (s, [])) (E, (s', [c])) \<and>
     eg_phase E = Executing c (Writing False demo_event 0) \<and>
     (worker_step plain_platform demo_task (js ''worker-1''))\<^sup>*\<^sup>*
       ((Unclaimed (js ''job-1''), False), (s, [])) ((Storing c False demo_event 0, False), (s', [c]))"
proof (rule demo_run)
  fix row s1 c1 s2 c2 s3 r2 r3
  assume reach: "workflow_reachable plain_platform (s1, [])"
    and claim: "claim plain_platform (demo_env 2 ''uuid-2'') (js ''job-1'') (js ''worker-1'') s1 = (Inr (Some c1), s2)"
  let ?step = "engine_step plain_platform demo_task (js ''worker-1'')" and ?E0 = "new_engine (js ''job-1'') :: nat engine"
  let ?E1 = "next_phase c1 (Iterating 0 (Inr ())) ?E0"
  let ?E2 = "next_phase c1 (Persisting False demo_event 0) ?E1"
  let ?E3 = "next_phase c1 (Writing False demo_event 0) ?E2"
  have none: "\<not> eg_aborted ?E0" "eg_phase ?E0 = Claiming (js ''job-1'')" by (simp_all add: new_engine_def)
  have "?step (?E0, (s1, [])) (?E1, (s2, newly (eg_phase ?E0) (eg_phase ?E1) @ []))"
    by (rule engine_step.main [of _ _ _ "demo_env 2 ''uuid-2''"]) (use claim none in \<open>simp add: claim_main_def demo_task_def\<close>)
  moreover have "?step (?E1, (s2, [c1])) (?E2, (s2, newly (eg_phase ?E1) (eg_phase ?E2) @ [c1]))"
    by (rule engine_step.main [of _ _ _ "demo_env 3 ''uuid-3''"]) (use none in \<open>simp add: demo_task_def\<close>)
  moreover have "?step (?E2, (s2, [c1])) (?E3, (s2, newly (eg_phase ?E2) (eg_phase ?E3) @ [c1]))"
    by (rule engine_step.main [of _ _ _ "demo_env 3 ''uuid-3''"]) (use none in simp)
  ultimately have run: "?step\<^sup>*\<^sup>* (?E0, (s1, [])) (?E3, (s2, [c1]))"
    by (simp add: newly_def none)
  from engine_runs_within_system [OF reach run] reach run none show ?thesis
    by (intro exI [of _ s1] exI [of _ ?E3] exI [of _ s2] exI [of _ c1]) simp
qed

theorem engine_leaves_no_live_job_witness:
  "\<exists>job s s' E' row. fence_ok 3 job row \<and> db_jobs s (cj_id job) = Some row \<and>
     engine_tick plain_platform demo_task (js ''worker-1'') (MainTick (demo_env 3 ''uuid-3''))
       (demo_engine job (Settling (Some COMPLETED)), s) = (E', s') \<and>
     eg_phase E' = Finished (Inr ()) \<and>
     (\<forall>row. db_jobs s' (cj_id job) = Some row \<longrightarrow> \<not> fence_ok 3 job row)"
proof (rule demo_run)
  fix row s1 c1 c2 s3 r3 and s2 :: workflow_db and r2 :: WorkflowJob
  assume c1: "cj_id c1 = js ''job-1''" "db_jobs s2 (js ''job-1'') = Some r2" "fence_ok 3 c1 r2"
  have live: "live_until c1 (the (wj_lease_expires_at r2)) s2 r2" "3 < the (wj_lease_expires_at r2)"
    using c1 by (auto simp: live_until_def fence_ok_def lease_active_def split: option.splits)
  have now: "db_now (demo_env 3 ''uuid-3'') = 3"
    by (simp add: demo_env_def)
  obtain s' row' where settled: "settle (demo_env 3 ''uuid-3'') c1 (Some COMPLETED) s2 = (Inr (), s')"
    using settle_runs [OF live(1), of "demo_env 3 ''uuid-3''"] live(2) now by metis
  let ?E = "demo_engine c1 (Settling (Some COMPLETED))"
  let ?E' = "finish (Inr ()) ?E"
  have tick: "engine_tick plain_platform demo_task (js ''worker-1'') (MainTick (demo_env 3 ''uuid-3'')) (?E, s2) = (?E', s')"
    using settled by simp
  have "\<forall>row. db_jobs s' (cj_id c1) = Some row \<longrightarrow> \<not> fence_ok 3 c1 row"
    using engine_leaves_no_live_job [OF tick, of c1 "Settling (Some COMPLETED)"]
    by (simp add: task_gave_up_def now)
  then show ?thesis
    using c1 tick by (intro exI conjI) (auto simp: c1)
qed

theorem cancelled_run_stops_witness:
  "\<exists>job s row E E'. workflow_reachable plain_platform (s, []) \<and> db_jobs s (cj_id job) = Some row \<and> wj_status row = STOPPED \<and>
     eg_phase E = Executing job (Iterating 1 (Inr ())) \<and>
     fold (engine_tick plain_platform demo_task (js ''worker-1''))
       (replicate 6 (MainTick (demo_env 3 ''uuid-3''))) (E, s) = (E', s) \<and> eg_phase E' = Finished (Inr ())"
proof (rule demo_run)
  fix row s1 s2 c2 s3 r2 r3 and c1 :: ClaimedWorkflowJob
  assume c: "create plain_platform (demo_env 1 ''uuid-1'') [] None (js ''user'') (js ''project'') demo_dto WORKFLOW_API demo_db = (Inr row, s1)"
    "wj_id row = js ''job-1''" "workflow_reachable plain_platform (s1, [])" and c1: "cj_id c1 = js ''job-1''"
  obtain saved t stopped where
    cancelled: "cancel (demo_env 2 ''uuid-2'') (js ''user'') (js ''project'') (js ''job-1'') s1 = (Inr saved, t)"
    and "db_jobs t (js ''job-1'') = Some stopped" and stopped: "wj_status stopped = STOPPED"
    using demo_cancel [OF c] by blast
  then have row: "db_jobs t (cj_id c1) = Some stopped"
    by (simp add: c1)
  have reach: "workflow_reachable plain_platform (t, [])"
    by (rule reachable_steps [OF c(3) r_into_rtranclp]) (rule workflow_step.cancels [OF cancelled])
  let ?E = "demo_engine c1 (Iterating 1 (Inr ()))" and ?ticks = "replicate 6 (MainTick (demo_env 3 ''uuid-3''))"
  have heeds: "heeds_cancellation demo_task c1" by (simp add: heeds_cancellation_def demo_task_def)
  have calls: "list_all (makes_calls plain_platform) ?ticks"
    by (simp add: numeral_eq_Suc makes_calls_def other_tick_def) blast
  have quiet: "fold other_tick ?ticks t = t" by (simp add: other_tick_def numeral_eq_Suc)
  have mains: "6 \<le> length (filter is_main ?ticks)" by (simp add: is_main_def)
  have "eg_phase ?E = Executing c1 (Iterating 1 (Inr ()))" by simp
  note stops = cancelled_run_stops [OF reach row stopped this heeds calls mains, of "js ''worker-1''", unfolded quiet]
  then obtain E' where "fold (engine_tick plain_platform demo_task (js ''worker-1'')) ?ticks (?E, t) = (E', t)"
    "eg_phase E' = Finished (Inr ())"
    by blast
  with reach row stopped show ?thesis
    by (intro exI [of _ c1] exI [of _ t] exI [of _ stopped] exI [of _ ?E] exI [of _ E'] conjI) simp_all
qed

theorem uninterrupted_run_witness:
  "\<exists>s E' s' row'. run plain_platform demo_task (js ''worker-1'') (js ''job-1'')
       (MainTick (demo_env 2 ''uuid-2'') # main_ticks [demo_env 3 ''uuid-3'', demo_env 3 ''uuid-3''] @
        [MainTick (demo_env 4 ''uuid-4''), MainTick (demo_env 4 ''uuid-4'')]) s = (E', s') \<and>
     eg_phase E' = Finished (Inr ()) \<and> db_jobs s' (js ''job-1'') = Some row' \<and> wj_status row' = SUCCEEDED \<and>
     wj_checkpoint row' = json_column (JObj (ee_checkpoint demo_event)) \<and> wj_generation_attempt row' = 1"
proof (rule demo_run)
  fix row s1 c1 s2 c2 s3 r2 r3
  assume c: "claim plain_platform (demo_env 2 ''uuid-2'') (js ''job-1'') (js ''worker-1'') s1 = (Inr (Some c1), s2)"
    and reach: "workflow_reachable plain_platform (s1, [])" and row: "db_jobs s1 (js ''job-1'') = Some row" "wj_generation_attempt row = 0"
  have storable: "storable plain_platform (revision_open c1 s1) (wj_generation_attempt row) [demo_event, demo_event]"
    by (simp only: row demo_storable)
  note run = uninterrupted_run [OF c reachable_keys [OF reach] row(1) demo_follows storable,
      of "[demo_env 3 ''uuid-3'', demo_env 3 ''uuid-3'']" "demo_env 4 ''uuid-4''"]
  have "successively within_lease
      (demo_env 2 ''uuid-2'' # [demo_env 3 ''uuid-3'', demo_env 3 ''uuid-3''] @ [demo_env 4 ''uuid-4''])"
    by (simp add: within_lease_def demo_env_def)
  moreover have "outcome_status (Some COMPLETED) = SUCCEEDED"
    "last_checkpoint v [demo_event, demo_event] = json_column (JObj (ee_checkpoint demo_event))" for v
    by (simp_all add: outcome_status_def last_checkpoint_def)
  ultimately show ?thesis
    using run by (simp only: row demo_storable) auto
qed

end
