(* ===== verification/WorkflowEventStream.thy ===== *)
theory WorkflowEventStream
  imports WorkflowSystem
begin

text \<open>
  The event stream a client reads over server-sent events
  (\<open>workflow/workflow-event-stream.service.ts\<close>): a loop that lists the events after its cursor,
  writes them as frames, and ends when a poll is empty and the job is over.  Each read of the
  loop sees the database of its own moment, so a stream is a function of the databases its polls
  meet; between two reads anybody may write.
\<close>

section \<open>Frames\<close>

definition LEGACY_EVENT_TYPES :: "jstr list" where
  "LEGACY_EVENT_TYPES =
     [js ''meta'', js ''reset'', js ''token'', js ''citation'', js ''done'', js ''error'']"

definition stream_over :: "WorkflowStatus \<Rightarrow> bool" where
  "stream_over status \<longleftrightarrow> status = WAITING_MATERIAL \<or> status \<in> set TERMINAL_WORKFLOW_STATUSES"

definition toEventEnvelope :: "WorkflowEvent \<Rightarrow> jsval" where
  "toEventEnvelope event = JObj
     [(js ''id'', JStr (ev_id event)), (js ''job_id'', JStr (ev_job_id event)),
      (js ''seq'', JNum (NInt (int (ev_seq event)))), (js ''type'', JStr (ev_type event)),
      (js ''data'', ev_data event), (js ''created_at'', JStr (iso_timestamp (ev_created_at event div 1000)))]"

text \<open>A template literal prints \<open>undefined\<close> as the word.\<close>

definition event_frame :: "platform \<Rightarrow> bool \<Rightarrow> WorkflowEvent \<Rightarrow> jstr" where
  "event_frame P legacyDataOnly event =
     (let payload = (if legacyDataOnly then ev_data event else toEventEnvelope event)
      in js ''id: '' @ ev_id event @ 10 # js ''event: '' @ ev_type event @ 10 # js ''data: '' @
         (case json_stringify P payload of None \<Rightarrow> js ''undefined'' | Some text \<Rightarrow> text) @ [10, 10])"

section \<open>The loop\<close>

record stream_request =
  sr_userId :: jstr
  sr_projectId :: jstr
  sr_jobId :: jstr
  sr_limit :: "int option"
  sr_legacyDataOnly :: bool

text \<open>
  One turn of the loop: the database its list of events reads, the database the look at the job
  reads when the list is empty, and after how many frames the client disconnects, if it does.
\<close>

record stream_poll =
  sp_list_db :: workflow_db
  sp_find_db :: workflow_db
  sp_disconnect :: "nat option"

datatype stream_state = Streaming "jstr option" | Ended | Disalive | StreamFailed thrown

definition kept :: "stream_request \<Rightarrow> WorkflowEvent \<Rightarrow> bool" where
  "kept req event \<longleftrightarrow> \<not> sr_legacyDataOnly req \<or> ev_type event \<in> set LEGACY_EVENT_TYPES"

text \<open>The inner loop: the events written, the cursor it leaves, and whether the client is there.\<close>

fun write_events ::
    "stream_request \<Rightarrow> nat option \<Rightarrow> jstr option \<Rightarrow> WorkflowEvent list \<Rightarrow>
     WorkflowEvent list \<times> jstr option \<times> bool" where
  "write_events req disconnect cursor [] = ([], cursor, True)"
| "write_events req disconnect cursor (event # events) =
     (if \<not> kept req event then write_events req disconnect (Some (ev_id event)) events
      else if disconnect = Some 0 then ([], Some (ev_id event), False)
      else
        (case write_events req (map_option (\<lambda>n. n - 1) disconnect) (Some (ev_id event)) events of
           (written, rest) \<Rightarrow> (event # written, rest)))"

definition stream_turn ::
    "(jstr \<Rightarrow> bool) \<Rightarrow> stream_request \<Rightarrow> jstr option \<Rightarrow> stream_poll \<Rightarrow> WorkflowEvent list \<times> stream_state" where
  "stream_turn isUUID req cursor poll =
     (case fst (listEvents isUUID (sr_userId req) (sr_projectId req) (sr_jobId req) (sr_limit req) cursor (sp_list_db poll)) of
        Inl err \<Rightarrow> ([], StreamFailed err)
      | Inr events \<Rightarrow>
          (case write_events req (sp_disconnect poll) cursor events of
             (written, cursor', alive) \<Rightarrow>
               if \<not> alive then (written, Disalive)
               else if events = [] then
                 (case fst (findOne (sr_userId req) (sr_projectId req) (sr_jobId req) (sp_find_db poll)) of
                    Inl err \<Rightarrow> (written, StreamFailed err)
                  | Inr job \<Rightarrow> (written, if stream_over (wj_status job) then Ended else Streaming cursor'))
               else (written, Streaming cursor')))"

fun stream_events ::
    "(jstr \<Rightarrow> bool) \<Rightarrow> stream_request \<Rightarrow> jstr option \<Rightarrow> stream_poll list \<Rightarrow> WorkflowEvent list \<times> stream_state" where
  "stream_events isUUID req cursor [] = ([], Streaming cursor)"
| "stream_events isUUID req cursor (poll # polls) =
     (case stream_turn isUUID req cursor poll of
        (written, Streaming cursor') \<Rightarrow>
          (case stream_events isUUID req cursor' polls of (later, st) \<Rightarrow> (written @ later, st))
      | (written, st) \<Rightarrow> (written, st))"

definition stream ::
    "platform \<Rightarrow> (jstr \<Rightarrow> bool) \<Rightarrow> stream_request \<Rightarrow> jstr option \<Rightarrow> stream_poll list \<Rightarrow> jstr list \<times> stream_state" where
  "stream P isUUID req lastEventId polls =
     apfst (map (event_frame P (sr_legacyDataOnly req))) (stream_events isUUID req lastEventId polls)"

section \<open>Paging\<close>

lemma numbered_seq:
  assumes "events_numbered s" and "i < length (job_events j s)"
  shows "ev_seq (job_events j s ! i) = Suc i"
proof -
  have "map ev_seq (job_events j s) ! i = map Suc [0..<length (job_events j s)] ! i"
    using assms(1) by (simp add: events_numbered_def)
  then show ?thesis using assms(2) by simp
qed

lemma numbered_sorted: "events_numbered s \<Longrightarrow> sorted (map ev_seq (job_events j s))"
  by (simp add: events_numbered_def sorted_map)

lemma filter_numbered:
  assumes "events_numbered s" and "k \<le> length (job_events j s)"
  shows "filter (\<lambda>e. 0 < k \<longrightarrow> k < ev_seq e) (job_events j s) = drop k (job_events j s)"
proof -
  have "filter (\<lambda>e. 0 < k \<longrightarrow> k < ev_seq e) (take k (job_events j s)) = []" if "0 < k"
    using that assms by (auto simp: filter_empty_conv in_set_conv_nth numbered_seq)
  moreover have "filter (\<lambda>e. 0 < k \<longrightarrow> k < ev_seq e) (drop k (job_events j s)) = drop k (job_events j s)"
    using assms by (auto simp: filter_id_conv in_set_conv_nth numbered_seq)
  moreover have "filter (\<lambda>e. 0 < k \<longrightarrow> k < ev_seq e) (job_events j s) =
      filter (\<lambda>e. 0 < k \<longrightarrow> k < ev_seq e) (take k (job_events j s)) @
      filter (\<lambda>e. 0 < k \<longrightarrow> k < ev_seq e) (drop k (job_events j s))"
    by (metis append_take_drop_id filter_append)
  ultimately show ?thesis by (cases "k = 0") simp_all
qed

lemma event_page_numbered:
  assumes "events_numbered s" and "k \<le> length (job_events j s)"
  shows "event_page j k limit s = take limit (drop k (job_events j s))"
proof -
  have "sorted (map ev_seq (drop k (job_events j s)))"
    using numbered_sorted [OF assms(1), of j] by (simp add: drop_map [symmetric] sorted_wrt_drop)
  then show ?thesis
    by (simp add: event_page_def filter_numbered [OF assms] sorted_sort_id sort_key_id_if_sorted)
qed

section \<open>Cursors\<close>

text \<open>The cursor stands after the first \<open>k\<close> events of the job.\<close>

definition cursor_at :: "jstr \<Rightarrow> nat \<Rightarrow> jstr option \<Rightarrow> workflow_db \<Rightarrow> bool" where
  "cursor_at j k cursor s \<longleftrightarrow>
     k = 0 \<and> (cursor = None \<or> cursor = Some []) \<or>
     0 < k \<and> k \<le> length (job_events j s) \<and> cursor = Some (ev_id (job_events j s ! (k - 1)))"

definition ids_ok :: "(jstr \<Rightarrow> bool) \<Rightarrow> jstr \<Rightarrow> workflow_db \<Rightarrow> bool" where
  "ids_ok isUUID j s \<longleftrightarrow>
     distinct (map ev_id (job_events j s)) \<and> (\<forall>e \<in> set (job_events j s). isUUID (ev_id e) \<and> ev_id e \<noteq> [])"

definition grows :: "jstr \<Rightarrow> workflow_db \<Rightarrow> workflow_db \<Rightarrow> bool" where
  "grows j s s' \<longleftrightarrow> (\<exists>es. job_events j s' = job_events j s @ es)"

lemma grows_refl [simp]: "grows j s s"
  by (simp add: grows_def)

lemma grows_trans [trans]: "grows j s s' \<Longrightarrow> grows j s' s'' \<Longrightarrow> grows j s s''"
  by (auto simp: grows_def)

lemma cursor_at_le: "cursor_at j k cursor s \<Longrightarrow> k \<le> length (job_events j s)"
  by (auto simp: cursor_at_def)

lemma cursor_at_grows: "cursor_at j k cursor s \<Longrightarrow> grows j s s' \<Longrightarrow> cursor_at j k cursor s'"
  by (auto simp: cursor_at_def grows_def nth_append)

lemma find_distinct:
  "distinct (map f xs) \<Longrightarrow> i < length xs \<Longrightarrow> find (\<lambda>x. f x = f (xs ! i)) xs = Some (xs ! i)"
proof (induction xs arbitrary: i)
  case (Cons x xs)
  then have "f x \<noteq> f (xs ! n)" if "n < length xs" for n
    using that by (metis distinct.simps(2) image_eqI list.set_map list.simps(9) nth_mem)
  with Cons show ?case by (cases i) auto
qed simp

lemma find_in_job:
  "find (\<lambda>e. ev_id e = eid \<and> ev_job_id e = j) (db_events s) = find (\<lambda>e. ev_id e = eid) (job_events j s)"
proof -
  have "find (\<lambda>e. ev_id e = eid \<and> ev_job_id e = j) es = find (\<lambda>e. ev_id e = eid) (filter (\<lambda>e. ev_job_id e = j) es)" for es
    by (induction es) auto
  then show ?thesis
    by (simp add: job_events_def)
qed

lemma listEvents_at_cursor:
  assumes "cursor_at j k cursor s" and "events_numbered s" and "ids_ok isUUID j s"
    and "listEvents isUUID u p j limit cursor s = (Inr events, s')"
  shows "events = take (page_limit limit) (drop k (job_events j s))"
proof -
  have "fst (findOne u p j s) = Inr job \<Longrightarrow> snd (findOne u p j s) = s" for job
    by (auto simp: findOne_def bindT_def assertOwner_def lockOwnedJob_def split: option.splits)
  then have found: "findOne u p j s = (Inr job, s'') \<Longrightarrow> s'' = s" for job s''
    by (metis fst_conv snd_conv)
  show ?thesis
  proof (cases "k = 0")
    case True
    then have "cursor = None \<or> cursor = Some []"
      using assms(1) by (auto simp: cursor_at_def)
    then show ?thesis
      using assms(4) event_page_numbered [OF assms(2), of 0 j] True
      by (auto simp: listEvents_def tx_steps dest!: found elim!: bindT_InrE)
  next
    case False
    let ?e = "job_events j s ! (k - 1)"
    have k: "k - 1 < length (job_events j s)" and cursor: "cursor = Some (ev_id ?e)"
      using assms(1) False by (auto simp: cursor_at_def)
    then have "?e \<in> set (job_events j s)" by simp
    then have id: "isUUID (ev_id ?e)" "ev_id ?e \<noteq> []"
      using assms(3) by (auto simp: ids_ok_def)
    have "find (\<lambda>e. ev_id e = ev_id ?e) (job_events j s) = Some ?e"
      using find_distinct [of ev_id "job_events j s" "k - 1"] assms(3) k by (simp add: ids_ok_def)
    note look = this [unfolded One_nat_def]
    have "events = event_page j (ev_seq ?e) (page_limit limit) s"
      using assms(4) id
      by (auto simp: listEvents_def cursor tx_steps find_in_job look dest!: found elim!: bindT_InrE)
    moreover have "ev_seq ?e = k"
      using numbered_seq [OF assms(2) k] False by simp
    ultimately show ?thesis
      using event_page_numbered [OF assms(2) cursor_at_le [OF assms(1)]] by simp
  qed
qed

lemma write_events_prefix:
  assumes "write_events req d cursor events = (written, cursor', alive)"
  obtains i where "i \<le> length events" and "written = filter (kept req) (take i events)"
    and "alive \<Longrightarrow> i = length events \<and> cursor' = (if events = [] then cursor else Some (ev_id (last events)))"
proof -
  have "\<exists>i \<le> length events. written = filter (kept req) (take i events) \<and>
    (alive \<longrightarrow> i = length events \<and> cursor' = (if events = [] then cursor else Some (ev_id (last events))))"
    using assms
  proof (induction events arbitrary: d cursor written)
    case (Cons e events)
    show ?case
    proof (cases "kept req e")
      case False
      with Cons.prems obtain i where "i \<le> length events" "written = filter (kept req) (take i events)"
        "alive \<longrightarrow> i = length events \<and> cursor' = (if events = [] then Some (ev_id e) else Some (ev_id (last events)))"
        using Cons.IH [of d "Some (ev_id e)" written] by auto
      then show ?thesis
        using False by (intro exI [of _ "Suc i"]) auto
    next
      case True
      show ?thesis
      proof (cases "d = Some 0")
        case True
        with Cons.prems \<open>kept req e\<close> show ?thesis
          by (intro exI [of _ 0]) auto
      next
        case False
        with Cons.prems True obtain w where w: "write_events req (map_option (\<lambda>n. n - 1) d) (Some (ev_id e)) events =
            (w, cursor', alive)" "written = e # w"
          by (auto split: prod.splits)
        from Cons.IH [OF w(1)] obtain i where "i \<le> length events" "w = filter (kept req) (take i events)"
          "alive \<longrightarrow> i = length events \<and> cursor' = (if events = [] then Some (ev_id e) else Some (ev_id (last events)))"
          by blast
        with w(2) True show ?thesis
          by (intro exI [of _ "Suc i"]) auto
      qed
    qed
  qed simp
  then show ?thesis using that by blast
qed

section \<open>A stream is a prefix of the log\<close>

definition poll_ok :: "(jstr \<Rightarrow> bool) \<Rightarrow> jstr \<Rightarrow> stream_poll \<Rightarrow> bool" where
  "poll_ok isUUID j poll \<longleftrightarrow>
     events_numbered (sp_list_db poll) \<and> ids_ok isUUID j (sp_list_db poll)"

text \<open>What a turn of the loop does, from a cursor after the first \<open>k\<close> events.\<close>

lemma stream_turn_prefix:
  assumes "cursor_at (sr_jobId req) k cursor (sp_list_db poll)" and "poll_ok isUUID (sr_jobId req) poll"
    and "stream_turn isUUID req cursor poll = (written, st)"
  obtains m where "k \<le> m" and "m \<le> length (job_events (sr_jobId req) (sp_list_db poll))"
    and "written = filter (kept req) (drop k (take m (job_events (sr_jobId req) (sp_list_db poll))))"
    and "\<And>c. st = Streaming c \<Longrightarrow> cursor_at (sr_jobId req) m c (sp_list_db poll)"
    and "st = Ended \<Longrightarrow> m = length (job_events (sr_jobId req) (sp_list_db poll))"
proof -
  let ?j = "sr_jobId req" and ?s = "sp_list_db poll"
  let ?es = "job_events ?j ?s" and ?lim = "page_limit (sr_limit req)"
  have k: "k \<le> length ?es"
    by (rule cursor_at_le [OF assms(1)])
  have lim: "0 < ?lim"
    by (auto simp: page_limit_def split: option.splits)
  obtain r s' where r: "listEvents isUUID (sr_userId req) (sr_projectId req) ?j (sr_limit req) cursor ?s = (r, s')"
    by (cases "listEvents isUUID (sr_userId req) (sr_projectId req) ?j (sr_limit req) cursor ?s")
  show ?thesis
  proof (cases r)
    case (Inl e)
    then show ?thesis
      using assms(3) r k by (intro that [of k]) (auto simp: stream_turn_def)
  next
    case (Inr events)
    then have events: "events = take ?lim (drop k ?es)"
      using listEvents_at_cursor [OF assms(1), of isUUID] assms(2) r unfolding poll_ok_def by blast
    obtain w c alive where w: "write_events req (sp_disconnect poll) cursor events = (w, c, alive)"
      by (cases "write_events req (sp_disconnect poll) cursor events")
    from w obtain i where i: "i \<le> length events" "w = filter (kept req) (take i events)"
      "alive \<Longrightarrow> i = length events \<and> c = (if events = [] then cursor else Some (ev_id (last events)))"
      by (rule write_events_prefix) blast
    have written: "written = w"
      using assms(3) r Inr w by (auto simp: stream_turn_def split: if_splits prod.splits sum.splits)
    have "i \<le> ?lim"
      using i(1) by (simp add: events)
    then have "take i events = drop k (take (k + i) ?es)"
      by (simp add: events drop_take)
    then have prefix: "written = filter (kept req) (drop k (take (k + i) ?es))"
      by (simp add: written i(2))
    have "i \<le> length ?es - k"
      using i(1) by (simp add: events)
    then have m: "k + i \<le> length ?es"
      using k by linarith
    show ?thesis
    proof (rule that [of "k + i"])
      show "cursor_at ?j (k + i) c' ?s" if "st = Streaming c'" for c'
      proof -
        have "alive" "c' = c"
          using assms(3) r Inr w that by (auto simp: stream_turn_def split: if_splits prod.splits sum.splits)
        with i(3) have ic: "i = length events" "c' = (if events = [] then cursor else Some (ev_id (last events)))"
          by simp_all
        show ?thesis
        proof (cases "events = []")
          case True
          with ic assms(1) show ?thesis by simp
        next
          case False
          then have "last events = ?es ! (k + i - 1)" "0 < i"
            using ic(1) m by (auto simp: last_conv_nth) (auto simp: events)
          with ic False m show ?thesis by (simp add: cursor_at_def)
        qed
      qed
      show "k + i = length ?es" if "st = Ended"
      proof -
        have "events = []"
          using assms(3) r Inr w that by (auto simp: stream_turn_def split: if_splits prod.splits sum.splits)
        then have "drop k ?es = []"
          using lim by (simp add: events)
        then show ?thesis
          using k i(1) \<open>events = []\<close> by simp
      qed
    qed (use prefix m in auto)
  qed
qed

text \<open>The databases a stream reads, in the order it reads them.\<close>

definition reads :: "stream_poll list \<Rightarrow> workflow_db list" where
  "reads polls = concat (map (\<lambda>poll. [sp_list_db poll, sp_find_db poll]) polls)"

lemma reads_simps [simp]:
  "reads [] = []" "reads (poll # polls) = sp_list_db poll # sp_find_db poll # reads polls"
  by (simp_all add: reads_def)

lemma grows_last: "successively (grows j) (s # ss) \<Longrightarrow> grows j s (last (s # ss))"
proof (induction ss arbitrary: s)
  case (Cons t ss)
  then have "grows j s t" "grows j t (last (t # ss))"
    by simp_all
  from grows_trans [OF this] show ?case by simp
qed simp

lemma drop_take_split:
  assumes "k \<le> m" and "m \<le> m'" and "m \<le> length xs"
  shows "drop k (take m' xs) = drop k (take m xs) @ drop m (take m' xs)"
proof -
  have "take m' xs = take m xs @ drop m (take m' xs)"
    using append_take_drop_id [of m "take m' xs"] assms(2) by (simp add: min_absorb1)
  then have "drop k (take m' xs) = drop k (take m xs @ drop m (take m' xs))"
    by simp
  also have "\<dots> = drop k (take m xs) @ drop m (take m' xs)"
    using assms(1,3) by simp
  finally show ?thesis .
qed

lemma stream_events_prefix:
  assumes "stream_events isUUID req cursor polls = (written, st)"
    and "\<forall>poll \<in> set polls. poll_ok isUUID (sr_jobId req) poll"
    and "successively (grows (sr_jobId req)) (s # reads polls)" and "cursor_at (sr_jobId req) k cursor s"
  shows "\<exists>m \<ge> k. m \<le> length (job_events (sr_jobId req) (last (s # reads polls))) \<and>
    written = filter (kept req) (drop k (take m (job_events (sr_jobId req) (last (s # reads polls))))) \<and>
    (st = Ended \<longrightarrow> (\<exists>poll \<in> set polls. m = length (job_events (sr_jobId req) (sp_list_db poll))))"
  using assms
proof (induction polls arbitrary: cursor written s k)
  case Nil
  then show ?case using cursor_at_le by fastforce
next
  case (Cons poll polls)
  let ?j = "sr_jobId req" and ?s = "sp_list_db poll"
  have grows: "grows ?j s ?s" "grows ?j ?s (sp_find_db poll)"
    "successively (grows ?j) (sp_find_db poll # reads polls)"
    using Cons.prems(3) by (simp_all add: successively_Cons)
  then obtain es where final: "job_events ?j (last (s # reads (poll # polls))) = job_events ?j ?s @ es"
    using grows_trans [OF grows(2) grows_last [OF grows(3)]] by (auto simp: grows_def)
  obtain w st1 where turn: "stream_turn isUUID req cursor poll = (w, st1)"
    by (cases "stream_turn isUUID req cursor poll")
  obtain m where m: "k \<le> m" "m \<le> length (job_events ?j ?s)"
    "w = filter (kept req) (drop k (take m (job_events ?j ?s)))"
    "\<And>c. st1 = Streaming c \<Longrightarrow> cursor_at ?j m c ?s" "st1 = Ended \<Longrightarrow> m = length (job_events ?j ?s)"
    using stream_turn_prefix [OF cursor_at_grows [OF Cons.prems(4) grows(1)] _ turn] Cons.prems(2)
    by (metis list.set_intros(1))
  show ?case
  proof (cases "\<exists>c. st1 = Streaming c")
    case False
    then have "written = w" "st = st1"
      using Cons.prems(1) turn by (auto split: stream_state.splits)
    then have "st = Ended \<Longrightarrow> m = length (job_events ?j ?s)"
      using m(5) by simp
    moreover have "m \<le> length (job_events ?j (last (s # reads (poll # polls))))"
      "written = filter (kept req) (drop k (take m (job_events ?j (last (s # reads (poll # polls))))))"
      using m(2,3) \<open>written = w\<close> unfolding final by simp_all
    ultimately show ?thesis
      using m(1) by (intro exI [of _ m] conjI) auto
  next
    case True
    then obtain c rest where c: "st1 = Streaming c" and rest: "stream_events isUUID req c polls = (rest, st)"
      and written: "written = w @ rest"
      using Cons.prems(1) turn by (auto split: prod.splits)
    have "\<exists>m' \<ge> m. m' \<le> length (job_events ?j (last (sp_find_db poll # reads polls))) \<and>
      rest = filter (kept req) (drop m (take m' (job_events ?j (last (sp_find_db poll # reads polls))))) \<and>
      (st = Ended \<longrightarrow> (\<exists>poll \<in> set polls. m' = length (job_events ?j (sp_list_db poll))))"
      by (rule Cons.IH [OF rest _ grows(3) cursor_at_grows [OF m(4) [OF c] grows(2)]])
        (use Cons.prems(2) in simp)
    then obtain m' where m': "m \<le> m'" "m' \<le> length (job_events ?j (last (sp_find_db poll # reads polls)))"
      "rest = filter (kept req) (drop m (take m' (job_events ?j (last (sp_find_db poll # reads polls)))))"
      "st = Ended \<longrightarrow> (\<exists>poll \<in> set polls. m' = length (job_events ?j (sp_list_db poll)))"
      by blast
    have last: "last (sp_find_db poll # reads polls) = last (s # reads (poll # polls))"
      by simp
    let ?all = "job_events ?j (last (s # reads (poll # polls)))"
    have "m \<le> length ?all" "take m ?all = take m (job_events ?j ?s)"
      using m(2) final by simp_all
    then have "drop k (take m' ?all) = drop k (take m (job_events ?j ?s)) @ drop m (take m' ?all)"
      using drop_take_split [OF m(1) m'(1)] by metis
    then have "written = filter (kept req) (drop k (take m' ?all))"
      using written m(3) m'(3) last by simp
    moreover have "k \<le> m'"
      using m(1) m'(1) by simp
    ultimately show ?thesis
      using m'(2,4) unfolding last by (intro exI [of _ m'] conjI) auto
  qed
qed

text \<open>
  C12: A stream is a gapless part of the log.  Whatever is written between its reads, the frames a
  client receives are those of consecutive events, in order and each once, beginning with the
  event after the cursor the client asked for; and when the stream ends by itself, the client
  has every event that its last list of events could see.
\<close>

theorem stream_is_gapless:
  assumes "stream P isUUID req lastEventId polls = (frames, st)"
    and "\<forall>poll \<in> set polls. poll_ok isUUID (sr_jobId req) poll"
    and "successively (grows (sr_jobId req)) (s # reads polls)" and "cursor_at (sr_jobId req) k lastEventId s"
  shows "\<exists>m \<ge> k. m \<le> length (job_events (sr_jobId req) (last (s # reads polls))) \<and>
    frames = map (event_frame P (sr_legacyDataOnly req))
      (filter (kept req) (drop k (take m (job_events (sr_jobId req) (last (s # reads polls)))))) \<and>
    (st = Ended \<longrightarrow> (\<exists>poll \<in> set polls. m = length (job_events (sr_jobId req) (sp_list_db poll))))"
proof -
  obtain written where "stream_events isUUID req lastEventId polls = (written, st)"
    and frames: "frames = map (event_frame P (sr_legacyDataOnly req)) written"
    using assms(1) by (auto simp: stream_def apfst_def map_prod_def split: prod.splits)
  from stream_events_prefix [OF this(1) assms(2-4)] frames show ?thesis
    by blast
qed

end
