(* ===== verification/WorkflowStreamRuns.thy ===== *)
theory WorkflowStreamRuns
  imports WorkflowEngineRuns WorkflowEventStream
begin

text \<open>
  Concrete streams: the witness that the hypotheses of the gapless stream hold, and the race in
  which a stream ends before its client has the last events of the job.
\<close>

definition stream_policy :: AuthoringPolicySelection where
  "stream_policy = \<lparr>workflowDefinition = [], authoringMode = [], rolloutPolicyVersion = [], policy_snapshot = JNull,
     snapshotDigest = [], serverEntrypoint = [], clientContractVersion = None\<rparr>"

definition running_row :: WorkflowJob where
  "running_row = (new_job (demo_env 1 ''uuid-1'') (js ''user'', js ''project'', CONTENT, js ''key'') [] JNull stream_policy)
     \<lparr>wj_status := RUNNING, wj_lease_token := Some (js ''lease''), wj_lease_expires_at := Some 100,
      wj_fencing_token := 1\<rparr>"

definition running_claim :: ClaimedWorkflowJob where
  "running_claim = claim_of (running_row\<lparr>wj_fencing_token := 0\<rparr>) JNull JNull (js ''lease'') stream_policy"

definition log_event :: "nat \<Rightarrow> WorkflowEvent" where
  "log_event n = \<lparr>ev_id = js ''event-'' @ dec_nat n, ev_job_id = js ''job-1'', ev_seq = Suc n, ev_type = js ''token'',
     ev_data = JNull, ev_created_at = 1\<rparr>"

definition stream_db :: "nat \<Rightarrow> workflow_db" where
  "stream_db n = demo_db\<lparr>db_job_ids := [js ''job-1''], db_jobs := [js ''job-1'' \<mapsto> running_row],
     db_events := map log_event [0..<n]\<rparr>"

definition stream_req :: stream_request where
  "stream_req = \<lparr>sr_userId = js ''user'', sr_projectId = js ''project'', sr_jobId = js ''job-1'', sr_limit = None,
     sr_legacyDataOnly = False\<rparr>"

lemma stream_db_events: "job_events (js ''job-1'') (stream_db n) = map log_event [0..<n]"
  by (simp add: job_events_def stream_db_def log_event_def filter_id_conv)

lemma stream_db_job: "db_jobs (stream_db n) (js ''job-1'') = Some running_row"
  by (simp add: stream_db_def)

lemma stream_db_numbered: "events_numbered (stream_db n)"
proof -
  have "job_events j (stream_db n) = (if j = js ''job-1'' then map log_event [0..<n] else [])" for j
    by (auto simp: job_events_def stream_db_def log_event_def filter_id_conv filter_empty_conv)
  then show ?thesis
    by (simp add: events_numbered_def log_event_def)
qed

lemma stream_db_poll_ok: "poll_ok (\<lambda>_. True) (js ''job-1'') \<lparr>sp_list_db = stream_db n, sp_find_db = s, sp_disconnect = d\<rparr>"
  by (auto simp: poll_ok_def stream_db_numbered ids_ok_def stream_db_events log_event_def distinct_map inj_on_def)

theorem stream_is_gapless_witness:
  "\<exists>frames st m. stream plain_platform (\<lambda>_. True) stream_req None
       [\<lparr>sp_list_db = stream_db 2, sp_find_db = stream_db 2, sp_disconnect = None\<rparr>] = (frames, st) \<and>
     m \<le> 2 \<and> frames = map (event_frame plain_platform False) (take m (map log_event [0..<2]))"
proof -
  let ?polls = "[\<lparr>sp_list_db = stream_db 2, sp_find_db = stream_db 2, sp_disconnect = None\<rparr>]"
  obtain frames st where s: "stream plain_platform (\<lambda>_. True) stream_req None ?polls = (frames, st)"
    by (cases "stream plain_platform (\<lambda>_. True) stream_req None ?polls")
  have req: "sr_jobId stream_req = js ''job-1''" "sr_legacyDataOnly stream_req = False" "kept stream_req = (\<lambda>_. True)"
    by (simp_all add: stream_req_def kept_def fun_eq_iff)
  have "\<forall>poll \<in> set ?polls. poll_ok (\<lambda>_. True) (sr_jobId stream_req) poll"
    by (simp add: req stream_db_poll_ok)
  moreover have "successively (grows (sr_jobId stream_req)) (stream_db 2 # reads ?polls)"
    by simp
  moreover have "cursor_at (sr_jobId stream_req) 0 None (stream_db 2)"
    by (simp add: cursor_at_def)
  ultimately have "\<exists>m \<ge> 0. m \<le> length (job_events (sr_jobId stream_req) (last (stream_db 2 # reads ?polls))) \<and>
      frames = map (event_frame plain_platform (sr_legacyDataOnly stream_req)) (filter (kept stream_req)
        (drop 0 (take m (job_events (sr_jobId stream_req) (last (stream_db 2 # reads ?polls)))))) \<and>
      (st = Ended \<longrightarrow> (\<exists>poll \<in> set ?polls. m = length (job_events (sr_jobId stream_req) (sp_list_db poll))))"
    by (rule stream_is_gapless [OF s])
  then show ?thesis
    using s by (auto simp: req stream_db_events)
qed

text \<open>
  The list of events and the look at the job are two reads.  When the worker completes the job
  between them, the list is empty, the job is over, and the stream ends although the event of
  the completion was never sent.
\<close>

theorem stream_can_end_early:
  "\<exists>s'. complete (demo_env 2 ''uuid-2'') running_claim (stream_db 2) = (Inr (), s') \<and>
     stream P (\<lambda>_. True) stream_req (Some (js ''event-'' @ dec_nat 1))
       [\<lparr>sp_list_db = stream_db 2, sp_find_db = s', sp_disconnect = None\<rparr>] = ([], Ended) \<and>
     length (job_events (js ''job-1'') s') = 3"
proof -
  let ?env = "demo_env 2 ''uuid-2''"
  have claim: "cj_id running_claim = js ''job-1''" "cj_leaseToken running_claim = js ''lease''"
    "cj_fencingToken running_claim = 1"
    by (simp_all add: running_claim_def claim_of_def running_row_def new_job_fields demo_env_def)
  have row: "wj_status running_row = RUNNING" "wj_lease_token running_row = Some (js ''lease'')"
    "wj_fencing_token running_row = 1" "wj_lease_expires_at running_row = Some 100"
    "wj_project_id running_row = js ''project''" "wj_user_id running_row = js ''user''"
    "wj_cancel_requested_at running_row = None"
    by (simp_all add: running_row_def new_job_def)
  have "fence_ok (db_now ?env) running_claim running_row"
    by (simp add: fence_ok_def fence_where_def lease_active_def claim row demo_env_def)
  then have fenced: "fenced ?env running_claim body (stream_db 2) = transaction (body running_row) (stream_db 2)" for body
    using fenced_run(3) [of "stream_db 2" running_claim running_row] by (simp add: claim stream_db_job)
  let ?s' = "with_event ?env (js ''job-1'') (js ''workflow.succeeded'') (JObj [status_field SUCCEEDED])
      (with_job (js ''job-1'') (succeeded_row ?env running_row) (stream_db 2))"
  have completed: "complete ?env running_claim (stream_db 2) = (Inr (), ?s')"
    by (simp add: complete_def fenced transaction_def bindT_def fenced_update_def update_job_def claim stream_db_job
        fence_where_def row appendEvent_run with_job_def returnT_def)
  have owner: "db_project_owner (stream_db 2) (js ''project'') = Some (js ''user'')"
    by (simp add: stream_db_def demo_db_def)
  have events: "db_events (stream_db 2) = [log_event 0, log_event 1]"
    by (simp add: stream_db_def numeral_2_eq_2)
  have one: "dec_nat (Suc 0) = [49]"
    by (simp add: dec_nat.simps)
  have poll: "listEvents (\<lambda>_. True) (js ''user'') (js ''project'') (js ''job-1'') None
      (Some (js ''event-'' @ dec_nat 1)) (stream_db 2) = (Inr [], stream_db 2)"
    by (simp add: listEvents_def findOne_def bindT_def assertOwner_def owner lockOwnedJob_def stream_db_job row events
        tx_steps one log_event_def event_page_def stream_db_events)
  have "findOne (js ''user'') (js ''project'') (js ''job-1'') ?s' = (Inr (succeeded_row ?env running_row), ?s')"
    using row by (simp add: findOne_def bindT_def assertOwner_def owner lockOwnedJob_def succeeded_row_def release_lease_def)
  then have "stream P (\<lambda>_. True) stream_req (Some (js ''event-'' @ dec_nat 1))
       [\<lparr>sp_list_db = stream_db 2, sp_find_db = ?s', sp_disconnect = None\<rparr>] = ([], Ended)"
    using poll by (simp add: stream_def stream_turn_def stream_req_def stream_over_def TERMINAL_WORKFLOW_STATUSES_def
        succeeded_row_def release_lease_def)
  moreover have "length (job_events (js ''job-1'') ?s') = 3"
    by (simp add: job_events_with_event stream_db_events)
  ultimately show ?thesis
    using completed by blast
qed

end
