(* ===== verification/WorkflowRecovery.thy ===== *)
theory WorkflowRecovery
  imports WorkflowEngineRuns
begin

text \<open>
  Delivery and recovery of workflows (\<open>workflow/workflow-dispatch.service.ts\<close>,
  \<open>workflow/workflow-recovery.dispatcher.ts\<close>): the trigger a job gets in the queue, and the
  periodic scan that triggers every job a worker could claim.  How the queue answers a trigger,
  and when, is the input of the model; the queue itself is a third-party package.
\<close>

section \<open>Dispatch\<close>

text \<open>How a delivery ends: acknowledged, refused, or not before the timeout.\<close>

datatype delivery = Acknowledged | Refused | TimedOut

record dispatcher =
  dp_pending :: "jstr list"
  dp_triggers :: "jstr list"

definition clearPendingDelivery :: "jstr \<Rightarrow> dispatcher \<Rightarrow> dispatcher" where
  "clearPendingDelivery jobId d = d\<lparr>dp_pending := removeAll jobId (dp_pending d)\<rparr>"

text \<open>A delivery that is still pending is joined, not repeated.\<close>

definition startDelivery :: "jstr \<Rightarrow> dispatcher \<Rightarrow> dispatcher" where
  "startDelivery jobId d =
     (if jobId \<in> set (dp_pending d) then d
      else d\<lparr>dp_pending := jobId # dp_pending d, dp_triggers := dp_triggers d @ [jobId]\<rparr>)"

definition dispatch :: "delivery \<Rightarrow> jstr \<Rightarrow> dispatcher \<Rightarrow> bool \<times> dispatcher" where
  "dispatch answer jobId d =
     (answer = Acknowledged, clearPendingDelivery jobId (startDelivery jobId d))"

definition createAndDispatch ::
    "platform \<Rightarrow> call_env \<Rightarrow> (jstr \<times> jsval) list \<Rightarrow> (thrown, unit) result option \<Rightarrow> jstr \<Rightarrow> jstr \<Rightarrow>
     CreateWorkflowDto \<Rightarrow> ServerEntrypoint \<Rightarrow> (WorkflowJob \<Rightarrow> (thrown, unit) result) \<Rightarrow> delivery \<Rightarrow>
     dispatcher \<times> workflow_db \<Rightarrow> (thrown, WorkflowJob) result \<times> dispatcher \<times> workflow_db" where
  "createAndDispatch P env config readiness userId projectId dto entrypoint onPersisted answer \<sigma> =
     (case \<sigma> of (d, s) \<Rightarrow>
      case create P env config readiness userId projectId dto entrypoint s of
        (Inl err, s') \<Rightarrow> (Inl err, d, s')
      | (Inr job, s') \<Rightarrow>
          (case onPersisted job of
             Inl err \<Rightarrow> (Inl err, d, s')
           | Inr _ \<Rightarrow> (Inr job, snd (dispatch answer (wj_id job) d), s')))"

section \<open>The recovery scan\<close>

record recovery_options =
  ro_intervalMs :: "nat option"
  ro_failureBackoffMs :: "nat option"

definition intervalMs :: "recovery_options \<Rightarrow> nat" where
  "intervalMs options = max 100 (case ro_intervalMs options of None \<Rightarrow> 5000 | Some n \<Rightarrow> n)"

definition failureBackoffMs :: "recovery_options \<Rightarrow> nat" where
  "failureBackoffMs options =
     max (intervalMs options) (case ro_failureBackoffMs options of None \<Rightarrow> 15000 | Some n \<Rightarrow> n)"

text \<open>The condition of the scan's query; the lease is compared with the clock of the database.\<close>

definition recoverable :: "nat \<Rightarrow> WorkflowJob \<Rightarrow> bool" where
  "recoverable now row \<longleftrightarrow>
     wj_status row = QUEUED \<or> wj_status row = REVISION_REQUIRED \<or>
     (wj_status row = RUNNING \<and> (case wj_lease_expires_at row of None \<Rightarrow> True | Some t \<Rightarrow> t \<le> now))"

definition recovery_rows :: "nat \<Rightarrow> workflow_db \<Rightarrow> WorkflowJob list" where
  "recovery_rows now s = take 100 (sort_key wj_created_at (filter (recoverable now) (all_jobs s)))"

type_synonym retry_map = "jstr \<Rightarrow> nat option"

definition backed_off :: "nat \<Rightarrow> retry_map \<Rightarrow> jstr \<Rightarrow> bool" where
  "backed_off now retryAfter jobId \<longleftrightarrow> (case retryAfter jobId of None \<Rightarrow> False | Some t \<Rightarrow> now < t)"

definition due_ids :: "nat \<Rightarrow> nat \<Rightarrow> retry_map \<Rightarrow> workflow_db \<Rightarrow> jstr list" where
  "due_ids dbNow now retryAfter s =
     filter (\<lambda>jobId. \<not> backed_off now retryAfter jobId) (map wj_id (recovery_rows dbNow s))"

text \<open>
  One worker of the scan; the ids are distinct, so the workers of a scan never meet on a job and
  their order does not matter.  The answer of a delivery comes with the time it came at.
\<close>

fun deliver_all ::
    "nat \<Rightarrow> (jstr \<Rightarrow> delivery \<times> nat) \<Rightarrow> jstr list \<Rightarrow> retry_map \<times> dispatcher \<Rightarrow> retry_map \<times> dispatcher" where
  "deliver_all backoff answer [] \<sigma> = \<sigma>"
| "deliver_all backoff answer (jobId # jobIds) (retryAfter, d) =
     (case dispatch (fst (answer jobId)) jobId d of
        (delivered, d') \<Rightarrow>
          deliver_all backoff answer jobIds
            (if delivered then retryAfter(jobId := None) else retryAfter(jobId \<mapsto> snd (answer jobId) + backoff), d'))"

definition forget_old :: "nat \<Rightarrow> nat \<Rightarrow> retry_map \<Rightarrow> retry_map" where
  "forget_old backoff now retryAfter jobId =
     (case retryAfter jobId of None \<Rightarrow> None | Some t \<Rightarrow> if t + backoff < now then None else Some t)"

definition scanAndDispatch ::
    "recovery_options \<Rightarrow> nat \<Rightarrow> nat \<Rightarrow> (jstr \<Rightarrow> delivery \<times> nat) \<Rightarrow> workflow_db \<Rightarrow>
     retry_map \<times> dispatcher \<Rightarrow> retry_map \<times> dispatcher" where
  "scanAndDispatch options dbNow now answer s \<sigma> =
     apfst (forget_old (failureBackoffMs options) now)
       (deliver_all (failureBackoffMs options) answer (due_ids dbNow now (fst \<sigma>) s) \<sigma>)"

section \<open>What a scan triggers\<close>

text \<open>In a reachable state only a stopped job has a requested cancellation.\<close>

definition cancels_stopped :: "workflow_db \<Rightarrow> bool" where
  "cancels_stopped s \<longleftrightarrow>
     (\<forall>j row. db_jobs s j = Some row \<longrightarrow> wj_cancel_requested_at row \<noteq> None \<longrightarrow> wj_status row = STOPPED)"

lemma cancels_stopped_job_step:
  assumes "job_step j s s'" and "cancels_stopped s"
  shows "cancels_stopped s'"
  unfolding cancels_stopped_def
proof (intro allI impI)
  fix i row'
  assume row': "db_jobs s' i = Some row'" "wj_cancel_requested_at row' \<noteq> None"
  then obtain row where row: "db_jobs s i = Some row" "row_step row row'"
    using job_step_jobs [OF assms(1), of i] by (auto simp: option_rel_Some2)
  show "wj_status row' = STOPPED"
  proof (cases "wj_cancel_requested_at row = None")
    case True
    with row row' show ?thesis by (auto simp: row_step_def)
  next
    case False
    then have "wj_status row = STOPPED"
      using assms(2) row(1) by (simp add: cancels_stopped_def)
    with row(2) show ?thesis by (auto simp: row_step_def isTerminalStatus_def)
  qed
qed

lemma cancels_stopped_reachable:
  assumes "workflow_reachable P (s, cs)"
  shows "cancels_stopped s"
proof -
  obtain \<sigma>0 where init: "initial_state \<sigma>0" and steps: "(workflow_step P)\<^sup>*\<^sup>* \<sigma>0 (s, cs)"
    using assms by (auto simp: workflow_reachable_def)
  have "workflow_reachable P \<sigma>0"
    using init unfolding workflow_reachable_def by blast
  from steps have "cancels_stopped (fst (s, cs))"
  proof (induction rule: rtranclp_induct)
    case base
    then show ?case using init by (cases \<sigma>0) (simp add: initial_state_def cancels_stopped_def)
  next
    case (step \<sigma>1 \<sigma>2)
    obtain s1 cs1 s2 cs2 where \<sigma>: "\<sigma>1 = (s1, cs1)" "\<sigma>2 = (s2, cs2)"
      by (cases \<sigma>1; cases \<sigma>2)
    have "workflow_reachable P \<sigma>1"
      using reachable_steps [OF \<open>workflow_reachable P \<sigma>0\<close> step(1)] .
    then have keys: "keys_ok s1"
      using workflow_reachable_inv by (auto simp: \<sigma> workflow_inv_def index_ok_def)
    have ok: "cancels_stopped s1"
      using step(3) by (simp add: \<sigma>)
    show ?case
      using keys step(2) [unfolded \<sigma>]
    proof (cases rule: workflow_step_cases)
      case (create env k h i pol)
      have "wj_cancel_requested_at (new_job env k h i pol) = None"
        by (simp add: new_job_def split: prod.split)
      moreover have "db_jobs s2 = (db_jobs s1)(wj_id (new_job env k h i pol) \<mapsto> new_job env k h i pol)"
        using create(4) by (simp add: with_new_job_def)
      ultimately show ?thesis
        using ok by (auto simp: \<sigma> cancels_stopped_def)
    next
      case (claim env j w c)
      show ?thesis
        using cancels_stopped_job_step [OF claim_job_step [OF claim(1)] ok] by (simp add: \<sigma>)
    next
      case (grounds a)
      then show ?thesis using ok by (simp add: \<sigma> cancels_stopped_def)
    next
      case (job j)
      show ?thesis
        using cancels_stopped_job_step [OF job(1) ok] by (simp add: \<sigma>)
    qed
  qed
  then show ?thesis by simp
qed

lemma recoverable_claimable:
  assumes "cancels_stopped s" and "db_jobs s j = Some row"
  shows "recoverable now row \<longleftrightarrow> claimable now row"
proof -
  have "wj_cancel_requested_at row \<noteq> None \<Longrightarrow> wj_status row = STOPPED"
    using assms unfolding cancels_stopped_def by blast
  then show ?thesis
    by (cases "wj_cancel_requested_at row"; cases "wj_lease_expires_at row")
      (auto simp: recoverable_def claimable_def lease_active_def not_less)
qed

lemma in_all_jobs:
  assumes "index_ok s"
  shows "row \<in> set (all_jobs s) \<longleftrightarrow> db_jobs s (wj_id row) = Some row"
proof -
  have "row \<in> set (all_jobs s) \<longleftrightarrow> (\<exists>j \<in> set (db_job_ids s). db_jobs s j = Some row)"
    by (force simp: all_jobs_def List.map_filter_def image_iff)
  moreover have "j \<in> set (db_job_ids s) \<and> wj_id row = j" if "db_jobs s j = Some row" for j
    using assms that by (auto simp: index_ok_def keys_ok_def)
  ultimately show ?thesis by blast
qed

lemma all_jobs_ids: "index_ok s \<Longrightarrow> map wj_id (all_jobs s) = db_job_ids s"
proof -
  assume idx: "index_ok s"
  have "map wj_id (List.map_filter (db_jobs s) js) = js" if "set js \<subseteq> set (db_job_ids s)" for js
    using that
  proof (induction js)
    case (Cons j js)
    have "db_jobs s j \<noteq> None"
      using idx Cons.prems unfolding index_ok_def by (metis insert_subset list.simps(15))
    then obtain row where "db_jobs s j = Some row" by blast
    moreover have "wj_id row = j"
      using calculation idx by (auto simp: index_ok_def keys_ok_def)
    ultimately show ?case
      using Cons by (simp add: map_filter_simps)
  qed (simp add: map_filter_simps)
  then show ?thesis
    by (simp add: all_jobs_def)
qed

lemma distinct_recovery: "index_ok s \<Longrightarrow> distinct (map wj_id (recovery_rows now s))"
proof -
  assume "index_ok s"
  then have "distinct (map wj_id (all_jobs s))"
    by (simp add: all_jobs_ids) (simp add: index_ok_def)
  then have "distinct (map wj_id (sort_key wj_created_at (filter (recoverable now) (all_jobs s))))"
    by (simp add: distinct_map_filter)
  then show ?thesis
    by (simp add: recovery_rows_def take_map [symmetric] distinct_take)
qed

text \<open>What the columns of a row must be for a claim to hand the job out: a policy and two JSON texts that parse.\<close>

definition row_readable :: "platform \<Rightarrow> WorkflowJob \<Rightarrow> bool" where
  "row_readable P row \<longleftrightarrow>
     (case (restore_columns P row, parseJsonObject P (wj_input row), parseJsonObject P (wj_checkpoint row)) of
        (Inr policy, Inr input, Inr checkpoint) \<Rightarrow> True
      | _ \<Rightarrow> False)"

lemma claim_unreadable:
  assumes "db_jobs s j = Some row" and "claimable (db_now env) row" and "\<not> row_readable P row"
  shows "\<exists>err. claim P env j w s = (Inl err, s)"
  using assms unfolding claim_def transaction_def Let_def
  by (auto simp: row_readable_def bindT_def lockJob_def update_job_def returnT_def liftE_def appendEvent_run claimable_def
      isTerminalStatus_def split: sum.splits)

lemma claim_readable:
  assumes "db_jobs s j = Some row" and "claimable (db_now env) row" and "row_readable P row" and "wj_id row = j"
  shows "\<exists>c s'. claim P env j w s = (Inr (Some c), s') \<and> cj_id c = j"
proof -
  from assms(3) obtain policy input checkpoint where
    "restore_columns P row = Inr policy" "parseJsonObject P (wj_input row) = Inr input"
    "parseJsonObject P (wj_checkpoint row) = Inr checkpoint"
    by (auto simp: row_readable_def split: sum.splits)
  from claim_runs [OF assms(1,2) this, of w] assms(4) show ?thesis by (simp add: claim_of_def)
qed

text \<open>
  C22: The scan triggers what a worker can claim.  In every reachable state, each job the scan
  triggers is not backed off, and a claim of it at the same moment, by any worker, succeeds if the
  stored columns of the job can be read and throws otherwise; it never answers that there is
  nothing to do.  No job is triggered twice in a scan, and at most a hundred are.  When no more
  than a hundred jobs wait, every job some claim at that moment would hand out and that is not
  backed off is triggered.
\<close>

theorem recovery_triggers_claimable_jobs:
  assumes "workflow_reachable P (s, cs)"
  shows "distinct (due_ids dbNow now retryAfter s) \<and> length (due_ids dbNow now retryAfter s) \<le> 100 \<and>
    (\<forall>j \<in> set (due_ids dbNow now retryAfter s). \<not> backed_off now retryAfter j \<and>
       (\<exists>row. db_jobs s j = Some row \<and>
          (\<forall>env w. db_now env = dbNow \<longrightarrow>
             (if row_readable P row then \<exists>c s'. claim P env j w s = (Inr (Some c), s') \<and> cj_id c = j
              else \<exists>err. claim P env j w s = (Inl err, s))))) \<and>
    (length (filter (recoverable dbNow) (all_jobs s)) \<le> 100 \<longrightarrow>
       (\<forall>env j w c s'. db_now env = dbNow \<longrightarrow> claim P env j w s = (Inr (Some c), s') \<longrightarrow> \<not> backed_off now retryAfter j \<longrightarrow>
          j \<in> set (due_ids dbNow now retryAfter s)))"
proof -
  have idx: "index_ok s"
    using workflow_reachable_inv [OF assms] by (simp add: workflow_inv_def)
  note claimable = recoverable_claimable [OF cancels_stopped_reachable [OF assms]]
  have "length (recovery_rows dbNow s) \<le> 100"
    by (simp add: recovery_rows_def)
  then have "length (due_ids dbNow now retryAfter s) \<le> 100"
    unfolding due_ids_def by (metis length_filter_le length_map order_trans)
  moreover have "distinct (due_ids dbNow now retryAfter s)"
    using distinct_recovery [OF idx] by (simp add: due_ids_def)
  moreover have "\<not> backed_off now retryAfter j \<and> (\<exists>row. db_jobs s j = Some row \<and>
      (\<forall>env w. db_now env = dbNow \<longrightarrow>
         (if row_readable P row then \<exists>c s'. claim P env j w s = (Inr (Some c), s') \<and> cj_id c = j
          else \<exists>err. claim P env j w s = (Inl err, s))))"
    if j: "j \<in> set (due_ids dbNow now retryAfter s)" for j
  proof -
    from j obtain row where row: "row \<in> set (recovery_rows dbNow s)" "wj_id row = j" "\<not> backed_off now retryAfter j"
      by (auto simp: due_ids_def)
    then have "row \<in> set (all_jobs s)" "recoverable dbNow row"
      by (auto simp: recovery_rows_def dest!: in_set_takeD)
    with row(2) have "db_jobs s j = Some row" "claimable dbNow row"
      using in_all_jobs [OF idx] claimable by blast+
    with row(2,3) claim_readable claim_unreadable show ?thesis by (metis (no_types, lifting))
  qed
  moreover have "j \<in> set (due_ids dbNow now retryAfter s)"
    if few: "length (filter (recoverable dbNow) (all_jobs s)) \<le> 100" and env: "db_now env = dbNow"
      and c: "claim P env j w s = (Inr (Some c), s')" and free: "\<not> backed_off now retryAfter j" for env j w c s'
  proof -
    from c obtain row where row: "db_jobs s j = Some row" "claimable dbNow row"
      using env by (rule_tac claim_Some) auto
    have id: "wj_id row = j"
      using idx row(1) by (auto simp: index_ok_def keys_ok_def)
    then have "row \<in> set (filter (recoverable dbNow) (all_jobs s))"
      using row in_all_jobs [OF idx] claimable [OF row(1)] by simp
    then have "row \<in> set (recovery_rows dbNow s)"
      using few by (simp add: recovery_rows_def)
    then show ?thesis
      using id free by (auto simp: due_ids_def)
  qed
  ultimately show ?thesis by blast
qed

section \<open>Backing off\<close>

lemma deliver_all_answers:
  assumes "distinct jobIds" and "deliver_all backoff answer jobIds (r, d) = (r', d')"
  shows "r' j = (if j \<in> set jobIds
      then if fst (answer j) = Acknowledged then None else Some (snd (answer j) + backoff) else r j)"
  using assms
proof (induction jobIds arbitrary: r d)
  case (Cons i jobIds)
  let ?r = "if fst (answer i) = Acknowledged then r(i := None) else r(i \<mapsto> snd (answer i) + backoff)"
  have "deliver_all backoff answer jobIds (?r, snd (dispatch (fst (answer i)) i d)) = (r', d')"
    using Cons.prems(2) by (simp add: dispatch_def split: if_splits)
  with Cons.IH [OF _ this] Cons.prems(1) show ?case
    by auto
qed simp

text \<open>
  A delivery that failed is not repeated at once.  When the queue refuses a trigger or does
  not answer in time, no scan triggers that job again before the backoff has passed; when the
  queue acknowledges, nothing delays the next trigger.
\<close>

theorem recovery_backs_off:
  assumes "workflow_reachable P (s, cs)" and "j \<in> set (due_ids dbNow now r s)"
    and "scanAndDispatch options dbNow now answer s (r, d) = (r', d')" and "now \<le> snd (answer j)"
  shows "if fst (answer j) = Acknowledged then r' j = None
    else \<forall>dbNow' now' s'. j \<in> set (due_ids dbNow' now' r' s') \<longrightarrow>
      snd (answer j) + failureBackoffMs options \<le> now'"
proof -
  let ?b = "failureBackoffMs options"
  have "distinct (due_ids dbNow now r s)"
    using workflow_reachable_inv [OF assms(1)] distinct_recovery by (simp add: workflow_inv_def due_ids_def)
  moreover obtain r1 where r1: "deliver_all ?b answer (due_ids dbNow now r s) (r, d) = (r1, d')"
    "r' = forget_old ?b now r1"
    using assms(3) by (auto simp: scanAndDispatch_def apfst_def map_prod_def split: prod.splits)
  ultimately have "r1 j = (if fst (answer j) = Acknowledged then None else Some (snd (answer j) + ?b))"
    using deliver_all_answers [OF _ r1(1), of j] assms(2) by simp
  then have r': "r' j = (if fst (answer j) = Acknowledged then None else Some (snd (answer j) + ?b))"
    using assms(4) by (simp add: r1(2) forget_old_def)
  show ?thesis
  proof (cases "fst (answer j) = Acknowledged")
    case False
    then have "backed_off now' r' j" if "now' < snd (answer j) + ?b" for now'
      using that r' by (simp add: backed_off_def)
    then show ?thesis
      using False by (fastforce simp: due_ids_def not_less [symmetric])
  qed (use r' in simp)
qed

section \<open>Witnesses\<close>

lemma demo_due:
  assumes "create plain_platform (demo_env 1 ''uuid-1'') [] None (js ''user'') (js ''project'') demo_dto WORKFLOW_API demo_db = (Inr row, s1)"
    and "wj_id row = js ''job-1''"
  shows "due_ids 2 2 (\<lambda>_. None) s1 = [js ''job-1'']"
proof -
  have none: "find_by_key k demo_db = None" for k
    by (simp add: find_by_key_def all_jobs_def demo_db_def map_filter_simps)
  obtain h pol where row: "row = new_job (demo_env 1 ''uuid-1'') (request_key (demo_env 1 ''uuid-1'') (js ''user'') (js ''project'') demo_dto)
      h (dto_input demo_dto) pol"
    and s1: "s1 = with_event (demo_env 1 ''uuid-1'') (row_uuid (demo_env 1 ''uuid-1'')) (js ''workflow.created'')
      (JObj [status_field QUEUED]) (with_new_job row demo_db)"
    using create_Inr_cases [OF assms(1)] none by auto
  have "wj_status row = QUEUED"
    by (simp add: row new_job_def split: prod.split)
  moreover have "all_jobs s1 = [row]"
    using assms(2) by (simp add: all_jobs_def s1 demo_db_def map_filter_simps)
  ultimately show ?thesis
    using assms(2) by (simp add: due_ids_def recovery_rows_def recoverable_def backed_off_def)
qed

lemma recovery_triggers_claimable_jobs_witness:
  "\<exists>s c s'. workflow_reachable plain_platform (s, []) \<and> due_ids 2 2 (\<lambda>_. None) s = [js ''job-1''] \<and>
     claim plain_platform (demo_env 2 ''uuid-2'') (js ''job-1'') (js ''worker-3'') s = (Inr (Some c), s')"
proof (rule demo_run)
  fix row s1 c1 s2 c2 s3 r2 r3
  assume c: "create plain_platform (demo_env 1 ''uuid-1'') [] None (js ''user'') (js ''project'') demo_dto WORKFLOW_API demo_db = (Inr row, s1)"
    "wj_id row = js ''job-1''" and reach: "workflow_reachable plain_platform (s1, [])"
    and claim: "claim plain_platform (demo_env 2 ''uuid-2'') (js ''job-1'') (js ''worker-1'') s1 = (Inr (Some c1), s2)"
  note due = demo_due [OF c]
  have "js ''job-1'' \<in> set (due_ids 2 2 (\<lambda>_. None) s1)"
    by (simp add: due)
  with recovery_triggers_claimable_jobs [OF reach, of 2 2 "\<lambda>_. None"] obtain r where
    "\<forall>env w. db_now env = 2 \<longrightarrow>
      (if row_readable plain_platform r then \<exists>c s'. claim plain_platform env (js ''job-1'') w s1 = (Inr (Some c), s') \<and> cj_id c = js ''job-1''
       else \<exists>err. claim plain_platform env (js ''job-1'') w s1 = (Inl err, s1))"
    by blast
  moreover have "db_now (demo_env 2 ''uuid-2'') = 2" by (simp add: demo_env_def)
  ultimately have r: "if row_readable plain_platform r
      then \<exists>c s'. claim plain_platform (demo_env 2 ''uuid-2'') (js ''job-1'') w s1 = (Inr (Some c), s') \<and> cj_id c = js ''job-1''
      else \<exists>err. claim plain_platform (demo_env 2 ''uuid-2'') (js ''job-1'') w s1 = (Inl err, s1)" for w
    by blast
  from r [of "js ''worker-1''"] claim have "row_readable plain_platform r" by (auto split: if_splits)
  with r [of "js ''worker-3''"] due reach show ?thesis by auto
qed

lemma recovery_backs_off_witness:
  "\<exists>s r' d'. workflow_reachable plain_platform (s, []) \<and> due_ids 2 2 (\<lambda>_. None) s = [js ''job-1''] \<and>
     scanAndDispatch \<lparr>ro_intervalMs = None, ro_failureBackoffMs = None\<rparr> 2 2 (\<lambda>_. (TimedOut, 3)) s
       (\<lambda>_. None, \<lparr>dp_pending = [], dp_triggers = []\<rparr>) = (r', d') \<and>
     (\<forall>dbNow' now' s'. js ''job-1'' \<in> set (due_ids dbNow' now' r' s') \<longrightarrow>
       3 + failureBackoffMs \<lparr>ro_intervalMs = None, ro_failureBackoffMs = None\<rparr> \<le> now')"
proof (rule demo_run)
  fix row s1 c1 s2 c2 s3 r2 r3
  assume c: "create plain_platform (demo_env 1 ''uuid-1'') [] None (js ''user'') (js ''project'') demo_dto WORKFLOW_API demo_db = (Inr row, s1)"
    "wj_id row = js ''job-1''" and reach: "workflow_reachable plain_platform (s1, [])"
  let ?o = "\<lparr>ro_intervalMs = None, ro_failureBackoffMs = None\<rparr>"
  let ?d = "\<lparr>dp_pending = [], dp_triggers = []\<rparr>"
  note due = demo_due [OF c]
  obtain r' d' where scan: "scanAndDispatch ?o 2 2 (\<lambda>_. (TimedOut, 3)) s1 (\<lambda>_. None, ?d) = (r', d')"
    by (cases "scanAndDispatch ?o 2 2 (\<lambda>_. (TimedOut, 3)) s1 (\<lambda>_. None, ?d)")
  have "js ''job-1'' \<in> set (due_ids 2 2 (\<lambda>_. None) s1)"
    by (simp add: due)
  then have "\<forall>dbNow' now' s'. js ''job-1'' \<in> set (due_ids dbNow' now' r' s') \<longrightarrow> 3 + failureBackoffMs ?o \<le> now'"
    using recovery_backs_off [OF reach _ scan] by simp
  then show ?thesis
    using due reach scan by blast
qed

end
