(* ===== verification/AtomicContracts.thy ===== *)
theory AtomicContracts
  imports AtomicFailure Patterns
begin

text \<open>
  The data of atomic grounding (\<open>citation/atomic-grounding/contracts.ts\<close>): the draft a model
  proposes, the canonical claims the verifier makes of it, and the result of a verification.
  Every closed union of strings is a datatype with the function that gives its strings.
\<close>

section \<open>Closed unions\<close>

datatype Polarity = AFFIRMED | NEGATED

datatype Quantifier = Q_PLAIN | Q_ALL | Q_NONE | Q_NOT_ALL | Q_NOT_NONE | Q_SOME | Q_OTHER

datatype Comparator = CMP_EQ | CMP_GT | CMP_GTE | CMP_LT | CMP_LTE | CMP_APPROX | CMP_RANGE

datatype QuantityDimension =
  DIM_COUNT | DIM_RATIO | DIM_DURATION | DIM_POWER | DIM_ENERGY | DIM_CURRENCY | DIM_LENGTH |
  DIM_MASS | DIM_TEMPERATURE | DIM_OTHER

datatype claim_presentation = SENTENCE | BULLET | ORDERED_ITEM

datatype structure_presentation = HEADING_1 | HEADING_2 | HEADING_3 | COLUMN

datatype separator_token = SPACE | LINE_BREAK | PARAGRAPH_BREAK

datatype draft_status = DRAFT | MATERIAL_GAP_STATUS

datatype MaterialGapReason =
  GAP_NO_EVIDENCE | GAP_INSUFFICIENT_EVIDENCE | GAP_AMBIGUOUS_EVIDENCE | GAP_UNSUPPORTED_QUANTIFIER

fun polarity_text :: "Polarity \<Rightarrow> string" where
  "polarity_text AFFIRMED = ''affirmed''"
| "polarity_text NEGATED = ''negated''"

fun quantifier_text :: "Quantifier \<Rightarrow> string" where
  "quantifier_text Q_PLAIN = ''plain''"
| "quantifier_text Q_ALL = ''all''"
| "quantifier_text Q_NONE = ''none''"
| "quantifier_text Q_NOT_ALL = ''not_all''"
| "quantifier_text Q_NOT_NONE = ''not_none''"
| "quantifier_text Q_SOME = ''some''"
| "quantifier_text Q_OTHER = ''other''"

fun comparator_text :: "Comparator \<Rightarrow> string" where
  "comparator_text CMP_EQ = ''eq''"
| "comparator_text CMP_GT = ''gt''"
| "comparator_text CMP_GTE = ''gte''"
| "comparator_text CMP_LT = ''lt''"
| "comparator_text CMP_LTE = ''lte''"
| "comparator_text CMP_APPROX = ''approx''"
| "comparator_text CMP_RANGE = ''range''"

fun dimension_text :: "QuantityDimension \<Rightarrow> string" where
  "dimension_text DIM_COUNT = ''count''"
| "dimension_text DIM_RATIO = ''ratio''"
| "dimension_text DIM_DURATION = ''duration''"
| "dimension_text DIM_POWER = ''power''"
| "dimension_text DIM_ENERGY = ''energy''"
| "dimension_text DIM_CURRENCY = ''currency''"
| "dimension_text DIM_LENGTH = ''length''"
| "dimension_text DIM_MASS = ''mass''"
| "dimension_text DIM_TEMPERATURE = ''temperature''"
| "dimension_text DIM_OTHER = ''other''"

fun claim_presentation_text :: "claim_presentation \<Rightarrow> string" where
  "claim_presentation_text SENTENCE = ''sentence''"
| "claim_presentation_text BULLET = ''bullet''"
| "claim_presentation_text ORDERED_ITEM = ''ordered_item''"

fun structure_presentation_text :: "structure_presentation \<Rightarrow> string" where
  "structure_presentation_text HEADING_1 = ''heading_1''"
| "structure_presentation_text HEADING_2 = ''heading_2''"
| "structure_presentation_text HEADING_3 = ''heading_3''"
| "structure_presentation_text COLUMN = ''column''"

fun separator_text :: "separator_token \<Rightarrow> string" where
  "separator_text SPACE = ''space''"
| "separator_text LINE_BREAK = ''line_break''"
| "separator_text PARAGRAPH_BREAK = ''paragraph_break''"

fun draft_status_text :: "draft_status \<Rightarrow> string" where
  "draft_status_text DRAFT = ''draft''"
| "draft_status_text MATERIAL_GAP_STATUS = ''material_gap''"

fun gap_reason :: "MaterialGapReason \<Rightarrow> AtomicGroundingReasonCode" where
  "gap_reason GAP_NO_EVIDENCE = NO_EVIDENCE"
| "gap_reason GAP_INSUFFICIENT_EVIDENCE = INSUFFICIENT_EVIDENCE"
| "gap_reason GAP_AMBIGUOUS_EVIDENCE = AMBIGUOUS_EVIDENCE"
| "gap_reason GAP_UNSUPPORTED_QUANTIFIER = UNSUPPORTED_QUANTIFIER"

fun gap_reason_text :: "MaterialGapReason \<Rightarrow> string" where
  "gap_reason_text GAP_NO_EVIDENCE = ''NO_EVIDENCE''"
| "gap_reason_text GAP_INSUFFICIENT_EVIDENCE = ''INSUFFICIENT_EVIDENCE''"
| "gap_reason_text GAP_AMBIGUOUS_EVIDENCE = ''AMBIGUOUS_EVIDENCE''"
| "gap_reason_text GAP_UNSUPPORTED_QUANTIFIER = ''UNSUPPORTED_QUANTIFIER''"

section \<open>Proposals\<close>

record QuantityProposal =
  qp_quantity_id :: jstr
  qp_surface :: jstr
  qp_start :: nat
  qp_end :: nat
  qp_dimension :: QuantityDimension
  qp_value :: jstr
  qp_unit :: "jstr option"
  qp_comparator :: Comparator
  qp_range_end :: "jstr option"

record SurfaceAnchorProposal =
  sa_surface :: jstr
  sa_start :: nat
  sa_end :: nat

text \<open>The start of a claim's span is the constant 0, so a span is its fragment and its end.\<close>

record AtomicClaimProposal =
  ac_proposal_claim_id :: jstr
  ac_revision_of :: "jstr option"
  ac_claim_text :: jstr
  ac_fragment_id :: jstr
  ac_span_end :: nat
  ac_subject :: SurfaceAnchorProposal
  ac_predicate :: SurfaceAnchorProposal
  ac_polarity :: Polarity
  ac_quantifier :: Quantifier
  ac_quantities :: "QuantityProposal list"
  ac_evidence_ids :: "jstr list"

datatype RenderFragmentProposal =
    ClaimRef (fragment_id: jstr) jstr claim_presentation
  | StructureRef (fragment_id: jstr) jstr structure_presentation
  | Separator (fragment_id: jstr) separator_token

record GroundedDraftProposal =
  gd_status :: draft_status
  gd_claims :: "AtomicClaimProposal list"
  gd_fragments :: "RenderFragmentProposal list"
  gd_ordering :: "jstr list"
  gd_material_gap :: "(MaterialGapReason \<times> jstr list) option"

section \<open>Canonical claims and verification results\<close>

record CanonicalTextAnchorV1 =
  ca_surface_nfc :: jstr
  ca_start :: nat
  ca_end :: nat

record CanonicalQuantityV1 =
  cq_ordinal :: nat
  cq_surface_nfc :: jstr
  cq_start :: nat
  cq_end :: nat
  cq_dimension :: QuantityDimension
  cq_base_value :: jstr
  cq_base_unit :: "jstr option"
  cq_comparator :: Comparator
  cq_range_end_base_value :: "jstr option"
  cq_typed_equivalence_eligible :: bool

text \<open>A canonical claim without its rendered text.\<close>

record CanonicalClaimBase =
  cc_candidate_claim_key :: jstr
  cc_source_claim_text_nfc :: jstr
  cc_subject_anchor :: CanonicalTextAnchorV1
  cc_predicate_anchor :: CanonicalTextAnchorV1
  cc_polarity :: Polarity
  cc_quantifier :: Quantifier
  cc_quantities :: "CanonicalQuantityV1 list"
  cc_evidence_ids :: "jstr list"
  cc_ordinal :: nat
  cc_presentation :: claim_presentation
  cc_previous_structure_id :: "jstr option"
  cc_next_structure_id :: "jstr option"
  cc_revision_attempt :: nat
  cc_revision_of :: "jstr option"

datatype support_status = SUPPORTED | UNSUPPORTED | UNVERIFIABLE

datatype verification_method =
  ATOMIC_EXTRACT_EXACT | ATOMIC_TYPED_EQUIVALENT | ATOMIC_UNSUPPORTED | ATOMIC_UNVERIFIABLE

record AtomicVerifiedClaimV1 =
  vc_candidate_claim_key :: jstr
  vc_base :: CanonicalClaimBase
  vc_support_status :: support_status
  vc_verification_method :: verification_method
  vc_evidence_refs :: "(jstr \<times> jstr) list"
  vc_reason_codes :: "AtomicGroundingReasonCode list"

datatype verification_decision = ALLOW | TARGETED_RETRIEVAL_REVISION | WAITING_MATERIAL_DECISION

record AtomicVerificationResult =
  vr_decision :: verification_decision
  vr_canonical_proposal :: GroundedDraftProposal
  vr_claims :: "AtomicVerifiedClaimV1 list"
  vr_material_gap_reason :: "AtomicGroundingReasonCode option"

text \<open>The approved render context: the structures a draft may refer to.\<close>

datatype render_source_kind = WORKFLOW_INPUT | DIRECTORY_SOURCE | OUTLINE_SOURCE | STYLE_TEMPLATE

record render_context_entry =
  re_structure_id :: jstr
  re_source_kind :: render_source_kind
  re_source_id :: jstr
  re_source_version :: jstr
  re_label_nfc :: jstr
  re_presentation :: structure_presentation

end
