(* ===== verification/GroundedDraft.thy ===== *)
theory GroundedDraft
  imports AtomicContracts JsonText
begin

text \<open>
  The parser of a proposed draft (\<open>citation/atomic-grounding/grounded-draft.schema.ts\<close>): the
  byte limit, the closed records, the render graph, the spans and anchors, and the canonical
  order.  A refusal is the \<open>TypeError\<close> with its message.  The values parsed are JSON data: where
  a field holds something JSON does not have, only the message may differ from the code's.
\<close>

type_synonym 'a parsed = "(jstr, 'a) result"

definition GROUNDED_DRAFT_SCHEMA_VERSION :: jstr where
  "GROUNDED_DRAFT_SCHEMA_VERSION = js ''grounded-draft.v1''"

definition MAX_PROPOSAL_BYTES :: nat where "MAX_PROPOSAL_BYTES = 4194304"
definition MAX_CLAIMS :: nat where "MAX_CLAIMS = 500"
definition MAX_RENDER_FRAGMENTS :: nat where "MAX_RENDER_FRAGMENTS = 2000"
definition MAX_NESTED_ITEMS :: nat where "MAX_NESTED_ITEMS = 256"
definition MAX_EVIDENCE_IDS :: nat where "MAX_EVIDENCE_IDS = 3"
definition MAX_CLAIM_TEXT_BYTES :: nat where "MAX_CLAIM_TEXT_BYTES = 1000"

definition draft_fail :: "jstr \<Rightarrow> 'a parsed" where
  "draft_fail message = Inl (js ''invalid grounded draft: '' @ message)"

section \<open>Field parsers\<close>

definition closed_record :: "jsval \<Rightarrow> string list \<Rightarrow> jstr \<Rightarrow> (jstr \<times> jsval) list parsed" where
  "closed_record v keys label =
     (case v of
        JObj kvs \<Rightarrow>
          if length kvs \<noteq> length keys \<or> list_ex (\<lambda>kv. fst kv \<notin> set (map js keys)) kvs
          then draft_fail (label @ js '' has unknown or missing fields'')
          else Inr kvs
      | _ \<Rightarrow> draft_fail (label @ js '' must be an object''))"

definition draft_text :: "platform \<Rightarrow> jsval \<Rightarrow> jstr \<Rightarrow> bool \<Rightarrow> jstr parsed" where
  "draft_text P v label allowEmpty =
     (let refuse = draft_fail (label @ js '' must be a '' @
        (if allowEmpty then [] else js ''non-empty '') @ js ''string'')
      in case v of
           JStr s \<Rightarrow>
             if (\<not> allowEmpty \<and> s = []) \<or> \<not> isWellFormedUnicodeScalarV1 s then refuse else Inr (nfc P s)
         | _ \<Rightarrow> refuse)"

definition draft_identifier :: "platform \<Rightarrow> jsval \<Rightarrow> jstr \<Rightarrow> jstr parsed" where
  "draft_identifier P v label =
     bindE (draft_text P v label False) (\<lambda>parsed.
     if \<not> is_safe_id parsed then draft_fail (label @ js '' is not a safe identifier'') else Inr parsed)"

definition hasForbiddenClaimControl :: "jstr \<Rightarrow> bool" where
  "hasForbiddenClaimControl s \<longleftrightarrow> list_ex (\<lambda>c. c \<le> 0x1f \<or> c = 0x7f) s"

definition claimText :: "platform \<Rightarrow> jsval \<Rightarrow> jstr \<Rightarrow> jstr parsed" where
  "claimText P v label =
     (if \<not> (case v of JStr s \<Rightarrow> utf8_length s \<le> MAX_CLAIM_TEXT_BYTES | _ \<Rightarrow> False)
      then draft_fail (label @ js '' exceeds the UTF-8 byte limit'')
      else
        bindE (draft_text P v label False) (\<lambda>parsed.
        if hasForbiddenClaimControl parsed \<or> js_includes parsed [96, 96, 96]
        then draft_fail (label @ js '' exceeds limits or contains forbidden bytes'')
        else Inr parsed))"

definition draft_integer :: "jsval \<Rightarrow> jstr \<Rightarrow> nat parsed" where
  "draft_integer v label =
     (if \<not> is_safe_integer v \<or> int_of_number v < 0
      then draft_fail (label @ js '' must be a non-negative safe integer'')
      else Inr (nat (int_of_number v)))"

definition enumValue :: "jsval \<Rightarrow> 'a list \<Rightarrow> ('a \<Rightarrow> string) \<Rightarrow> jstr \<Rightarrow> 'a parsed" where
  "enumValue v values name label =
     (case (case v of JStr s \<Rightarrow> find (\<lambda>x. js (name x) = s) values | _ \<Rightarrow> None) of
        None \<Rightarrow> draft_fail (label @ js '' is outside the closed enum'')
      | Some x \<Rightarrow> Inr x)"

definition bounded_array :: "jsval \<Rightarrow> nat \<Rightarrow> jstr \<Rightarrow> jsval list parsed" where
  "bounded_array v limit label =
     (case v of
        JArr vs \<Rightarrow> if length vs > limit then draft_fail (label @ js '' must be a bounded array'') else Inr vs
      | _ \<Rightarrow> draft_fail (label @ js '' must be a bounded array''))"

definition decimal :: "platform \<Rightarrow> jsval \<Rightarrow> jstr \<Rightarrow> jstr parsed" where
  "decimal P v label =
     bindE (draft_text P v label False) (\<lambda>parsed.
     if \<not> is_fixed_decimal parsed then draft_fail (label @ js '' must be fixed decimal'') else Inr parsed)"

text \<open>\<open>v === null ? null : parse(v)\<close>, and \<open>.map((item, index) => parse(item, index))\<close>.\<close>

definition nullable :: "jsval \<Rightarrow> (jsval \<Rightarrow> 'a parsed) \<Rightarrow> 'a option parsed" where
  "nullable v parse = (if v = JNull then Inr None else bindE (parse v) (\<lambda>x. Inr (Some x)))"

definition map_indexed :: "(nat \<Rightarrow> 'a \<Rightarrow> 'b parsed) \<Rightarrow> 'a list \<Rightarrow> 'b list parsed" where
  "map_indexed f xs = mapE (\<lambda>(i, x). f i x) (enumerate 0 xs)"

definition at_index :: "string \<Rightarrow> nat \<Rightarrow> jstr" where
  "at_index name i = js name @ 91 # dec_nat i @ [93]"

definition polarities :: "Polarity list" where
  "polarities = [AFFIRMED, NEGATED]"

definition quantifiers :: "Quantifier list" where
  "quantifiers = [Q_PLAIN, Q_ALL, Q_NONE, Q_NOT_ALL, Q_NOT_NONE, Q_SOME, Q_OTHER]"

definition comparators :: "Comparator list" where
  "comparators = [CMP_EQ, CMP_GT, CMP_GTE, CMP_LT, CMP_LTE, CMP_APPROX, CMP_RANGE]"

definition dimensions :: "QuantityDimension list" where
  "dimensions =
     [DIM_COUNT, DIM_RATIO, DIM_DURATION, DIM_POWER, DIM_ENERGY, DIM_CURRENCY, DIM_LENGTH, DIM_MASS,
      DIM_TEMPERATURE, DIM_OTHER]"

definition materialGapReasons :: "MaterialGapReason list" where
  "materialGapReasons =
     [GAP_NO_EVIDENCE, GAP_INSUFFICIENT_EVIDENCE, GAP_AMBIGUOUS_EVIDENCE, GAP_UNSUPPORTED_QUANTIFIER]"

section \<open>Records\<close>

definition ANCHOR_KEYS :: "string list" where
  "ANCHOR_KEYS = [''surface'', ''start_utf16'', ''end_utf16'']"

definition parseAnchor :: "platform \<Rightarrow> jsval \<Rightarrow> jstr \<Rightarrow> SurfaceAnchorProposal parsed" where
  "parseAnchor P v label =
     bindE (closed_record v ANCHOR_KEYS label) (\<lambda>item.
     bindE (draft_text P (get_prop item (js ''surface'')) (label @ js ''.surface'') False) (\<lambda>surface.
     bindE (draft_integer (get_prop item (js ''start_utf16'')) (label @ js ''.start_utf16'')) (\<lambda>start.
     bindE (draft_integer (get_prop item (js ''end_utf16'')) (label @ js ''.end_utf16'')) (\<lambda>stop.
     Inr \<lparr>sa_surface = surface, sa_start = start, sa_end = stop\<rparr>))))"

definition QUANTITY_KEYS :: "string list" where
  "QUANTITY_KEYS =
     [''quantity_id'', ''surface'', ''start_utf16'', ''end_utf16'', ''dimension'', ''value'', ''unit'',
      ''comparator'', ''range_end'']"

definition parseQuantity :: "platform \<Rightarrow> jsval \<Rightarrow> jstr \<Rightarrow> QuantityProposal parsed" where
  "parseQuantity P v label =
     bindE (closed_record v QUANTITY_KEYS label) (\<lambda>item.
     bindE (enumValue (get_prop item (js ''comparator'')) comparators comparator_text (label @ js ''.comparator'')) (\<lambda>comparator.
     bindE (nullable (get_prop item (js ''range_end'')) (\<lambda>r. decimal P r (label @ js ''.range_end''))) (\<lambda>rangeEnd.
     if (comparator = CMP_RANGE) \<noteq> (rangeEnd \<noteq> None)
     then draft_fail (label @ js ''.range_end does not match comparator'')
     else
     bindE (draft_identifier P (get_prop item (js ''quantity_id'')) (label @ js ''.quantity_id'')) (\<lambda>quantityId.
     bindE (draft_text P (get_prop item (js ''surface'')) (label @ js ''.surface'') False) (\<lambda>surface.
     bindE (draft_integer (get_prop item (js ''start_utf16'')) (label @ js ''.start_utf16'')) (\<lambda>start.
     bindE (draft_integer (get_prop item (js ''end_utf16'')) (label @ js ''.end_utf16'')) (\<lambda>stop.
     bindE (enumValue (get_prop item (js ''dimension'')) dimensions dimension_text (label @ js ''.dimension'')) (\<lambda>dimension.
     bindE (decimal P (get_prop item (js ''value'')) (label @ js ''.value'')) (\<lambda>val.
     bindE (nullable (get_prop item (js ''unit'')) (\<lambda>u. draft_text P u (label @ js ''.unit'') False)) (\<lambda>unit.
     Inr \<lparr>qp_quantity_id = quantityId, qp_surface = surface, qp_start = start, qp_end = stop,
       qp_dimension = dimension, qp_value = val, qp_unit = unit, qp_comparator = comparator,
       qp_range_end = rangeEnd\<rparr>))))))))))"

definition CLAIM_KEYS :: "string list" where
  "CLAIM_KEYS =
     [''proposal_claim_id'', ''revision_of_candidate_claim_key'', ''claim_text'', ''span'', ''subject'',
      ''predicate'', ''polarity'', ''quantifier'', ''quantities'', ''evidence_ids'']"

definition SPAN_KEYS :: "string list" where
  "SPAN_KEYS = [''fragment_id'', ''start_utf16'', ''end_utf16'']"

definition parseClaim :: "platform \<Rightarrow> nat \<Rightarrow> jsval \<Rightarrow> AtomicClaimProposal parsed" where
  "parseClaim P index v =
     (let label = at_index ''claims'' index in
     bindE (closed_record v CLAIM_KEYS label) (\<lambda>item.
     bindE (closed_record (get_prop item (js ''span'')) SPAN_KEYS (label @ js ''.span'')) (\<lambda>span.
     bindE (draft_integer (get_prop span (js ''start_utf16'')) (label @ js ''.span.start_utf16'')) (\<lambda>start.
     if start \<noteq> 0 then draft_fail (label @ js ''.span.start_utf16 must be zero'')
     else
     bindE (bounded_array (get_prop item (js ''quantities'')) MAX_NESTED_ITEMS (label @ js ''.quantities'')) (\<lambda>rawQuantities.
     bindE (map_indexed (\<lambda>i q. parseQuantity P q (label @ at_index ''.quantities'' i)) rawQuantities) (\<lambda>quantities.
     bindE (bounded_array (get_prop item (js ''evidence_ids'')) MAX_EVIDENCE_IDS (label @ js ''.evidence_ids'')) (\<lambda>rawEvidence.
     bindE (map_indexed (\<lambda>i e. draft_identifier P e (label @ at_index ''.evidence_ids'' i)) rawEvidence) (\<lambda>evidenceIds.
     if evidenceIds = [] then draft_fail (label @ js ''.evidence_ids is empty'')
     else if \<not> distinct evidenceIds then draft_fail (label @ js ''.evidence_ids contains duplicates'')
     else
     bindE (draft_identifier P (get_prop item (js ''proposal_claim_id'')) (label @ js ''.proposal_claim_id'')) (\<lambda>claimId.
     bindE (nullable (get_prop item (js ''revision_of_candidate_claim_key''))
        (\<lambda>k. draft_identifier P k (label @ js ''.revision_of_candidate_claim_key''))) (\<lambda>revisionOf.
     bindE (claimText P (get_prop item (js ''claim_text'')) (label @ js ''.claim_text'')) (\<lambda>claimText.
     bindE (draft_identifier P (get_prop span (js ''fragment_id'')) (label @ js ''.span.fragment_id'')) (\<lambda>fragmentId.
     bindE (draft_integer (get_prop span (js ''end_utf16'')) (label @ js ''.span.end_utf16'')) (\<lambda>spanEnd.
     bindE (parseAnchor P (get_prop item (js ''subject'')) (label @ js ''.subject'')) (\<lambda>subject.
     bindE (parseAnchor P (get_prop item (js ''predicate'')) (label @ js ''.predicate'')) (\<lambda>predicate.
     bindE (enumValue (get_prop item (js ''polarity'')) polarities polarity_text (label @ js ''.polarity'')) (\<lambda>polarity.
     bindE (enumValue (get_prop item (js ''quantifier'')) quantifiers quantifier_text (label @ js ''.quantifier'')) (\<lambda>quantifier.
     Inr \<lparr>ac_proposal_claim_id = claimId, ac_revision_of = revisionOf, ac_claim_text = claimText,
       ac_fragment_id = fragmentId, ac_span_end = spanEnd, ac_subject = subject, ac_predicate = predicate,
       ac_polarity = polarity, ac_quantifier = quantifier, ac_quantities = quantities,
       ac_evidence_ids = sort evidenceIds\<rparr>)))))))))))))))))"

definition parseFragment :: "platform \<Rightarrow> nat \<Rightarrow> jsval \<Rightarrow> RenderFragmentProposal parsed" where
  "parseFragment P index v =
     (let label = at_index ''render_fragments'' index in
     (case v of
        JObj kvs \<Rightarrow>
          let kind = get_prop kvs (js ''kind'') in
          if kind = JStr (js ''claim_ref'') then
            bindE (closed_record v [''fragment_id'', ''kind'', ''claim_id'', ''presentation''] label) (\<lambda>item.
            bindE (draft_identifier P (get_prop item (js ''fragment_id'')) (label @ js ''.fragment_id'')) (\<lambda>fragmentId.
            bindE (draft_identifier P (get_prop item (js ''claim_id'')) (label @ js ''.claim_id'')) (\<lambda>claimId.
            bindE (enumValue (get_prop item (js ''presentation'')) [SENTENCE, BULLET, ORDERED_ITEM]
              claim_presentation_text (label @ js ''.presentation'')) (\<lambda>presentation.
            Inr (ClaimRef fragmentId claimId presentation)))))
          else if kind = JStr (js ''structure_ref'') then
            bindE (closed_record v [''fragment_id'', ''kind'', ''structure_id'', ''presentation''] label) (\<lambda>item.
            bindE (draft_identifier P (get_prop item (js ''fragment_id'')) (label @ js ''.fragment_id'')) (\<lambda>fragmentId.
            bindE (draft_identifier P (get_prop item (js ''structure_id'')) (label @ js ''.structure_id'')) (\<lambda>structureId.
            bindE (enumValue (get_prop item (js ''presentation'')) [HEADING_1, HEADING_2, HEADING_3, COLUMN]
              structure_presentation_text (label @ js ''.presentation'')) (\<lambda>presentation.
            Inr (StructureRef fragmentId structureId presentation)))))
          else if kind = JStr (js ''separator'') then
            bindE (closed_record v [''fragment_id'', ''kind'', ''token''] label) (\<lambda>item.
            bindE (draft_identifier P (get_prop item (js ''fragment_id'')) (label @ js ''.fragment_id'')) (\<lambda>fragmentId.
            bindE (enumValue (get_prop item (js ''token'')) [SPACE, LINE_BREAK, PARAGRAPH_BREAK]
              separator_text (label @ js ''.token'')) (\<lambda>token.
            Inr (Separator fragmentId token))))
          else draft_fail (label @ js ''.kind is outside the closed union'')
      | _ \<Rightarrow> draft_fail (label @ js '' must be an object'')))"

definition assertProposalUtf8Bytes :: "platform \<Rightarrow> jsval \<Rightarrow> nat \<Rightarrow> unit parsed" where
  "assertProposalUtf8Bytes P v limit =
     (case json_stringify P v of
        None \<Rightarrow> draft_fail (js ''proposal exceeds the UTF-8 byte limit'')
      | Some serialized \<Rightarrow>
          if utf8_length serialized > limit
          then draft_fail (js ''proposal exceeds the UTF-8 byte limit'') else Inr ())"

definition PROPOSAL_KEYS :: "string list" where
  "PROPOSAL_KEYS =
     [''schema_version'', ''status'', ''claims'', ''render_fragments'', ''ordering'', ''material_gap'']"

definition parseMaterialGap :: "platform \<Rightarrow> jsval \<Rightarrow> (MaterialGapReason \<times> jstr list) parsed" where
  "parseMaterialGap P v =
     bindE (closed_record v [''reason_code'', ''missing_topics''] (js ''material_gap'')) (\<lambda>gap.
     bindE (enumValue (get_prop gap (js ''reason_code'')) materialGapReasons gap_reason_text
       (js ''material_gap.reason_code'')) (\<lambda>reason.
     bindE (bounded_array (get_prop gap (js ''missing_topics'')) MAX_NESTED_ITEMS
       (js ''material_gap.missing_topics'')) (\<lambda>raw.
     bindE (map_indexed (\<lambda>i t. draft_text P t (at_index ''material_gap.missing_topics'' i) True) raw) (\<lambda>topics.
     Inr (reason, topics)))))"

definition parseClosedProposalObject :: "platform \<Rightarrow> jsval \<Rightarrow> GroundedDraftProposal parsed" where
  "parseClosedProposalObject P v =
     bindE (closed_record v PROPOSAL_KEYS (js ''proposal'')) (\<lambda>item.
     if get_prop item (js ''schema_version'') \<noteq> JStr GROUNDED_DRAFT_SCHEMA_VERSION
     then draft_fail (js ''schema_version is not allowlisted'')
     else
     bindE (enumValue (get_prop item (js ''status'')) [DRAFT, MATERIAL_GAP_STATUS] draft_status_text (js ''status'')) (\<lambda>status.
     bindE (bounded_array (get_prop item (js ''claims'')) MAX_CLAIMS (js ''claims'')) (\<lambda>rawClaims.
     bindE (map_indexed (parseClaim P) rawClaims) (\<lambda>claims.
     bindE (bounded_array (get_prop item (js ''render_fragments'')) MAX_RENDER_FRAGMENTS (js ''render_fragments'')) (\<lambda>rawFragments.
     bindE (map_indexed (parseFragment P) rawFragments) (\<lambda>fragments.
     bindE (bounded_array (get_prop item (js ''ordering'')) MAX_RENDER_FRAGMENTS (js ''ordering'')) (\<lambda>rawOrdering.
     bindE (map_indexed (\<lambda>i x. draft_identifier P x (at_index ''ordering'' i)) rawOrdering) (\<lambda>ids.
     bindE (nullable (get_prop item (js ''material_gap'')) (parseMaterialGap P)) (\<lambda>materialGap.
     if status = MATERIAL_GAP_STATUS \<and>
        (claims \<noteq> [] \<or> fragments \<noteq> [] \<or> ids \<noteq> [] \<or> materialGap = None)
     then draft_fail (js ''material_gap status has draft content or no gap'')
     else if status = DRAFT \<and> (claims = [] \<or> fragments = [] \<or> ids = [] \<or> materialGap \<noteq> None)
     then draft_fail (js ''draft status is empty or contains a material gap'')
     else Inr \<lparr>gd_status = status, gd_claims = claims, gd_fragments = fragments, gd_ordering = ids,
            gd_material_gap = materialGap\<rparr>)))))))))"

section \<open>The render graph\<close>

definition assertUnique :: "jstr list \<Rightarrow> string \<Rightarrow> unit parsed" where
  "assertUnique values label =
     (if \<not> distinct values then draft_fail (js label @ js '' contains duplicates'') else Inr ())"

fun count_claim_refs ::
    "AtomicClaimProposal list \<Rightarrow> RenderFragmentProposal list \<Rightarrow> (jstr \<Rightarrow> nat) \<Rightarrow> (jstr \<Rightarrow> nat) parsed" where
  "count_claim_refs claims [] counts = Inr counts"
| "count_claim_refs claims (ClaimRef fragmentId claimId presentation # fragments) counts =
     (case find (\<lambda>c. ac_proposal_claim_id c = claimId) claims of
        None \<Rightarrow> draft_fail (js ''claim_ref is dangling or disagrees with claim span'')
      | Some claim \<Rightarrow>
          if ac_fragment_id claim \<noteq> fragmentId
          then draft_fail (js ''claim_ref is dangling or disagrees with claim span'')
          else count_claim_refs claims fragments (counts(claimId := counts claimId + 1)))"
| "count_claim_refs claims (fragment # fragments) counts = count_claim_refs claims fragments counts"

definition assertUniqueIdsAndClosedRenderGraph :: "GroundedDraftProposal \<Rightarrow> unit parsed" where
  "assertUniqueIdsAndClosedRenderGraph draft =
     bindE (assertUnique (map ac_proposal_claim_id (gd_claims draft)) ''proposal claim IDs'') (\<lambda>_.
     bindE (assertUnique (map fragment_id (gd_fragments draft)) ''fragment IDs'') (\<lambda>_.
     bindE (assertUnique (gd_ordering draft) ''ordering'') (\<lambda>_.
     let fragmentIds = map fragment_id (gd_fragments draft) in
     if length (gd_ordering draft) \<noteq> length (remdups fragmentIds) \<or>
        list_ex (\<lambda>i. i \<notin> set fragmentIds) (gd_ordering draft)
     then draft_fail (js ''ordering must contain every fragment exactly once'')
     else
     bindE (count_claim_refs (gd_claims draft) (gd_fragments draft) (\<lambda>_. 0)) (\<lambda>counts.
     if list_ex (\<lambda>claim. counts (ac_proposal_claim_id claim) \<noteq> 1) (gd_claims draft)
     then draft_fail (js ''each claim must have exactly one claim_ref'')
     else Inr ()))))"

section \<open>Spans, anchors and order\<close>

definition exactAnchor :: "jstr \<Rightarrow> SurfaceAnchorProposal \<Rightarrow> string \<Rightarrow> unit parsed" where
  "exactAnchor claim_text anchor label =
     (if sa_start anchor \<ge> sa_end anchor \<or> sa_end anchor > length claim_text \<or>
         slice claim_text (sa_start anchor) (sa_end anchor) \<noteq> sa_surface anchor
      then draft_fail (js label @ js '' does not exactly anchor claim_text'') else Inr ())"

fun check_quantities :: "jstr \<Rightarrow> int \<Rightarrow> QuantityProposal list \<Rightarrow> unit parsed" where
  "check_quantities claim_text previousEnd [] = Inr ()"
| "check_quantities claim_text previousEnd (q # qs) =
     (if qp_start q \<ge> qp_end q \<or> qp_end q > length claim_text \<or>
         slice claim_text (qp_start q) (qp_end q) \<noteq> qp_surface q \<or>
         index_of claim_text (qp_surface q) \<noteq> Some (qp_start q) \<or>
         last_index_of claim_text (qp_surface q) \<noteq> Some (qp_start q) \<or>
         int (qp_start q) < previousEnd
      then draft_fail (js ''quantity span is ambiguous, invalid, or overlapping'')
      else check_quantities claim_text (int (qp_end q)) qs)"

definition assert_claim_spans :: "AtomicClaimProposal \<Rightarrow> unit parsed" where
  "assert_claim_spans claim =
     (if ac_span_end claim \<noteq> length (ac_claim_text claim)
      then draft_fail (js ''claim span must occupy its entire fragment'')
      else
      bindE (exactAnchor (ac_claim_text claim) (ac_subject claim) ''subject'') (\<lambda>_.
      bindE (exactAnchor (ac_claim_text claim) (ac_predicate claim) ''predicate'') (\<lambda>_.
      if sa_start (ac_subject claim) < sa_end (ac_predicate claim) \<and>
         sa_end (ac_subject claim) > sa_start (ac_predicate claim)
      then draft_fail (js ''subject and predicate anchors overlap'')
      else
      bindE (assertUnique (map qp_quantity_id (ac_quantities claim)) ''quantity IDs'') (\<lambda>_.
      check_quantities (ac_claim_text claim) (-1) (sort_key qp_start (ac_quantities claim))))))"

definition assertClaimSpansAndAnchors :: "GroundedDraftProposal \<Rightarrow> unit parsed" where
  "assertClaimSpansAndAnchors draft =
     bindE (mapE assert_claim_spans (gd_claims draft)) (\<lambda>_. Inr ())"

text \<open>\<open>ordinalByFragmentId\<close>; every identifier looked up is in the ordering.\<close>

definition ordinal_of :: "jstr list \<Rightarrow> jstr \<Rightarrow> nat" where
  "ordinal_of ids x = length (takeWhile (\<lambda>y. y \<noteq> x) ids)"

definition canonicalizeProposalOrder :: "GroundedDraftProposal \<Rightarrow> GroundedDraftProposal" where
  "canonicalizeProposalOrder draft =
     draft\<lparr>gd_claims := sort_key (\<lambda>claim. ordinal_of (gd_ordering draft) (ac_fragment_id claim))
              (map (\<lambda>claim. claim\<lparr>ac_quantities := sort_key qp_start (ac_quantities claim),
                 ac_evidence_ids := sort (ac_evidence_ids claim)\<rparr>) (gd_claims draft)),
            gd_fragments := sort_key (\<lambda>fragment. ordinal_of (gd_ordering draft) (fragment_id fragment))
              (gd_fragments draft)\<rparr>"

definition parse_draft :: "platform \<Rightarrow> jsval \<Rightarrow> GroundedDraftProposal parsed" where
  "parse_draft P v =
     bindE (assertProposalUtf8Bytes P v MAX_PROPOSAL_BYTES) (\<lambda>_.
     bindE (parseClosedProposalObject P v) (\<lambda>draft.
     bindE (assertUniqueIdsAndClosedRenderGraph draft) (\<lambda>_.
     bindE (assertClaimSpansAndAnchors draft) (\<lambda>_.
     Inr (canonicalizeProposalOrder draft)))))"

end
