(* ===== verification/GroundedDraftProps.thy ===== *)
theory GroundedDraftProps
  imports GroundedDraft "HOL-Library.Sublist"
begin

text \<open>
  What a parsed draft is.  \<open>draft_ok\<close> is the contract of the parser: closed identifiers, texts in
  NFC, exact anchors, disjoint quantities in order, and a render graph whose fragments stand in
  the draft's ordering with each claim referred to once.  Every draft the parser returns has it.
\<close>

section \<open>Field parsers\<close>

lemma draft_fail_not_Inr [simp]: "draft_fail m \<noteq> Inr x"
  by (simp add: draft_fail_def)

lemma if_draft_fail_Inr [parse_simps]:
  "(if c then draft_fail m else r) = Inr x \<longleftrightarrow> \<not> c \<and> r = Inr x"
  by simp

lemma closed_record_Inr [parse_simps]:
  "closed_record v keys label = Inr kvs \<longleftrightarrow>
     v = JObj kvs \<and> length kvs = length keys \<and> fst ` set kvs \<subseteq> js ` set keys"
  by (auto simp: closed_record_def list_ex_iff split: jsval.splits)

lemma draft_text_Inr [parse_simps]:
  "draft_text P v label allowEmpty = Inr s \<longleftrightarrow>
     (\<exists>r. v = JStr r \<and> (allowEmpty \<or> r \<noteq> []) \<and> isWellFormedUnicodeScalarV1 r \<and> s = nfc P r)"
  by (cases v) (auto simp: draft_text_def Let_def)

lemma draft_identifier_Inr [parse_simps]:
  "draft_identifier P v label = Inr s \<longleftrightarrow>
     (\<exists>r. v = JStr r \<and> r \<noteq> [] \<and> isWellFormedUnicodeScalarV1 r \<and> s = nfc P r \<and> is_safe_id s)"
  by (auto simp: draft_identifier_def bindE_Inr_iff draft_text_Inr)

lemma decimal_Inr [parse_simps]:
  "decimal P v label = Inr s \<longleftrightarrow>
     (\<exists>r. v = JStr r \<and> r \<noteq> [] \<and> isWellFormedUnicodeScalarV1 r \<and> s = nfc P r \<and> is_fixed_decimal s)"
  by (auto simp: decimal_def bindE_Inr_iff draft_text_Inr)

lemma claimText_Inr [parse_simps]:
  "claimText P v label = Inr s \<longleftrightarrow>
     (\<exists>r. v = JStr r \<and> utf8_length r \<le> MAX_CLAIM_TEXT_BYTES \<and> r \<noteq> [] \<and> isWellFormedUnicodeScalarV1 r \<and>
        s = nfc P r \<and> \<not> hasForbiddenClaimControl s \<and> \<not> js_includes s [96, 96, 96])"
  by (cases v) (auto simp: claimText_def bindE_Inr_iff draft_text_Inr)

lemma draft_integer_Inr [parse_simps]:
  "draft_integer v label = Inr n \<longleftrightarrow> is_safe_integer v \<and> int_of_number v = int n"
  by (auto simp: draft_integer_def)

lemma enumValue_Inr:
  "enumValue v values name label = Inr x \<Longrightarrow> x \<in> set values \<and> v = JStr (js (name x))"
  by (cases v) (auto simp: enumValue_def find_Some_iff split: option.splits)

lemma enumValue_name:
  assumes "x \<in> set values" and "inj_on name (set values)"
  shows "enumValue (JStr (js (name x))) values name label = Inr x"
proof (cases "find (\<lambda>y. js (name y) = js (name x)) values")
  case None
  with assms(1) show ?thesis by (auto simp: find_None_iff)
next
  case (Some y)
  then have "y \<in> set values" "name y = name x" by (auto simp: find_Some_iff)
  then have "y = x" using assms by (auto dest: inj_onD)
  with Some show ?thesis by (simp add: enumValue_def)
qed

lemma nullable_Inr [parse_simps]:
  "nullable v parse = Inr x \<longleftrightarrow> (v = JNull \<and> x = None) \<or> (v \<noteq> JNull \<and> (\<exists>y. parse v = Inr y \<and> x = Some y))"
  by (auto simp: nullable_def bindE_Inr_iff)

lemma bounded_array_Inr [parse_simps]:
  "bounded_array v limit label = Inr vs \<longleftrightarrow> v = JArr vs \<and> length vs \<le> limit"
  by (cases v) (auto simp: bounded_array_def)

lemma map_indexed_Inr:
  assumes "map_indexed f xs = Inr ys"
  shows "length ys = length xs" and "\<And>y. y \<in> set ys \<Longrightarrow> \<exists>i. \<exists>x \<in> set xs. f i x = Inr y"
proof -
  show "length ys = length xs" using mapE_length [OF assms [unfolded map_indexed_def]] by simp
  fix y assume "y \<in> set ys"
  from mapE_set [OF assms [unfolded map_indexed_def] this]
  obtain p where "p \<in> set (enumerate 0 xs)" "(case p of (i, x) \<Rightarrow> f i x) = Inr y" .
  then show "\<exists>i. \<exists>x \<in> set xs. f i x = Inr y"
    by (auto simp: in_set_enumerate_eq split: prod.splits) (metis nth_mem)
qed

lemma map_indexed_all:
  assumes "\<And>i x. x \<in> set xs \<Longrightarrow> f i (g x) = Inr x"
  shows "map_indexed f (map g xs) = Inr xs"
proof -
  have "mapE (\<lambda>(i, x). f i x) (enumerate n (map g xs)) = Inr xs" for n
    using assms by (induction xs arbitrary: n) auto
  then show ?thesis by (simp add: map_indexed_def)
qed

lemma js_units_get_prop [intro]: "js_units (JObj kvs) \<Longrightarrow> js_units (get_prop kvs k)"
  by (auto simp: get_prop_def split: option.splits dest!: map_of_SomeD)

section \<open>The contract of a parsed draft\<close>

definition text_ok :: "platform \<Rightarrow> jstr \<Rightarrow> bool" where
  "text_ok P s \<longleftrightarrow> isWellFormedUnicodeScalarV1 s \<and> nfc P s = s"

definition anchor_ok :: "platform \<Rightarrow> jstr \<Rightarrow> SurfaceAnchorProposal \<Rightarrow> bool" where
  "anchor_ok P t a \<longleftrightarrow>
     sa_start a < sa_end a \<and> sa_end a \<le> length t \<and> slice t (sa_start a) (sa_end a) = sa_surface a \<and>
     text_ok P (sa_surface a)"

definition quantity_in :: "jstr \<Rightarrow> QuantityProposal \<Rightarrow> bool" where
  "quantity_in t q \<longleftrightarrow>
     qp_start q < qp_end q \<and> qp_end q \<le> length t \<and> slice t (qp_start q) (qp_end q) = qp_surface q \<and>
     index_of t (qp_surface q) = Some (qp_start q) \<and> last_index_of t (qp_surface q) = Some (qp_start q)"

definition quantity_fields_ok :: "platform \<Rightarrow> QuantityProposal \<Rightarrow> bool" where
  "quantity_fields_ok P q \<longleftrightarrow>
     is_safe_id (qp_quantity_id q) \<and> text_ok P (qp_surface q) \<and> is_fixed_decimal (qp_value q) \<and>
     pred_option (\<lambda>u. text_ok P u \<and> u \<noteq> []) (qp_unit q) \<and>
     pred_option is_fixed_decimal (qp_range_end q) \<and> (qp_comparator q = CMP_RANGE \<longleftrightarrow> qp_range_end q \<noteq> None)"

definition claim_fields_ok :: "platform \<Rightarrow> AtomicClaimProposal \<Rightarrow> bool" where
  "claim_fields_ok P c \<longleftrightarrow>
     is_safe_id (ac_proposal_claim_id c) \<and> pred_option is_safe_id (ac_revision_of c) \<and>
     is_safe_id (ac_fragment_id c) \<and>
     text_ok P (ac_claim_text c) \<and> \<not> hasForbiddenClaimControl (ac_claim_text c) \<and>
     \<not> js_includes (ac_claim_text c) [96, 96, 96] \<and>
     text_ok P (sa_surface (ac_subject c)) \<and> text_ok P (sa_surface (ac_predicate c)) \<and>
     length (ac_quantities c) \<le> MAX_NESTED_ITEMS \<and> list_all (quantity_fields_ok P) (ac_quantities c) \<and>
     ac_evidence_ids c \<noteq> [] \<and> length (ac_evidence_ids c) \<le> MAX_EVIDENCE_IDS \<and>
     list_all is_safe_id (ac_evidence_ids c) \<and> distinct (ac_evidence_ids c) \<and> sorted (ac_evidence_ids c)"

definition claim_ok :: "platform \<Rightarrow> AtomicClaimProposal \<Rightarrow> bool" where
  "claim_ok P c \<longleftrightarrow>
     claim_fields_ok P c \<and> ac_span_end c = length (ac_claim_text c) \<and>
     anchor_ok P (ac_claim_text c) (ac_subject c) \<and> anchor_ok P (ac_claim_text c) (ac_predicate c) \<and>
     (sa_end (ac_subject c) \<le> sa_start (ac_predicate c) \<or> sa_end (ac_predicate c) \<le> sa_start (ac_subject c)) \<and>
     distinct (map qp_quantity_id (ac_quantities c)) \<and>
     (\<forall>q \<in> set (ac_quantities c). quantity_in (ac_claim_text c) q) \<and>
     sorted_wrt (\<lambda>p q. qp_end p \<le> qp_start q) (ac_quantities c)"

fun fragment_fields_ok :: "RenderFragmentProposal \<Rightarrow> bool" where
  "fragment_fields_ok (ClaimRef f c p) \<longleftrightarrow> is_safe_id f \<and> is_safe_id c"
| "fragment_fields_ok (StructureRef f s p) \<longleftrightarrow> is_safe_id f \<and> is_safe_id s"
| "fragment_fields_ok (Separator f t) \<longleftrightarrow> is_safe_id f"

text \<open>The fragment and the claim of each reference, in the order of the fragments.\<close>

fun claim_refs :: "RenderFragmentProposal list \<Rightarrow> (jstr \<times> jstr) list" where
  "claim_refs [] = []"
| "claim_refs (ClaimRef f c p # frs) = (f, c) # claim_refs frs"
| "claim_refs (fr # frs) = claim_refs frs"

definition status_ok :: "platform \<Rightarrow> GroundedDraftProposal \<Rightarrow> bool" where
  "status_ok P d \<longleftrightarrow>
     (case gd_status d of
        DRAFT \<Rightarrow> gd_claims d \<noteq> [] \<and> gd_fragments d \<noteq> [] \<and> gd_ordering d \<noteq> [] \<and> gd_material_gap d = None
      | MATERIAL_GAP_STATUS \<Rightarrow> gd_claims d = [] \<and> gd_fragments d = [] \<and> gd_ordering d = [] \<and> gd_material_gap d \<noteq> None) \<and>
     pred_option (\<lambda>g. length (snd g) \<le> MAX_NESTED_ITEMS \<and> list_all (text_ok P) (snd g)) (gd_material_gap d)"

definition draft_ok :: "platform \<Rightarrow> GroundedDraftProposal \<Rightarrow> bool" where
  "draft_ok P d \<longleftrightarrow>
     status_ok P d \<and>
     length (gd_claims d) \<le> MAX_CLAIMS \<and> length (gd_fragments d) \<le> MAX_RENDER_FRAGMENTS \<and>
     list_all (claim_ok P) (gd_claims d) \<and> list_all fragment_fields_ok (gd_fragments d) \<and>
     distinct (map ac_proposal_claim_id (gd_claims d)) \<and>
     distinct (gd_ordering d) \<and> map fragment_id (gd_fragments d) = gd_ordering d \<and>
     claim_refs (gd_fragments d) = map (\<lambda>c. (ac_fragment_id c, ac_proposal_claim_id c)) (gd_claims d)"

section \<open>Records\<close>

lemma text_ok_nfc:
  assumes "unicode_normalizer (nfc P)" "isWellFormedUnicodeScalarV1 r" "utf16 r"
  shows "text_ok P (nfc P r)"
  using assms by (simp add: text_ok_def unicode_normalizer_def)

lemma nfc_nonempty: "unicode_normalizer (nfc P) \<Longrightarrow> r \<noteq> [] \<Longrightarrow> nfc P r \<noteq> []"
  by (simp add: unicode_normalizer_def)

lemma js_units_str: "js_units v \<Longrightarrow> v = JStr r \<Longrightarrow> utf16 r"
  by simp

lemma js_units_items: "js_units v \<Longrightarrow> v = JArr vs \<Longrightarrow> x \<in> set vs \<Longrightarrow> js_units x"
  by simp

lemma parseAnchor_text:
  assumes "parseAnchor P v label = Inr a" and "js_units v" and "unicode_normalizer (nfc P)"
  shows "text_ok P (sa_surface a)"
  using assms js_units_get_prop [of _ "js ''surface''"] text_ok_nfc [OF assms(3)]
  by (fastforce simp: parseAnchor_def parse_simps result_iffs)

lemma parseQuantity_fields:
  assumes "parseQuantity P v label = Inr q" and "js_units v" and "unicode_normalizer (nfc P)"
  shows "quantity_fields_ok P q"
proof -
  from assms(1) obtain kvs where v: "v = JObj kvs"
    and rng: "(qp_comparator q = CMP_RANGE) = (qp_range_end q \<noteq> None)"
    and rangeEnd: "nullable (get_prop kvs (js ''range_end'')) (\<lambda>r. decimal P r (label @ js ''.range_end'')) = Inr (qp_range_end q)"
    and id: "draft_identifier P (get_prop kvs (js ''quantity_id'')) (label @ js ''.quantity_id'') = Inr (qp_quantity_id q)"
    and surface: "draft_text P (get_prop kvs (js ''surface'')) (label @ js ''.surface'') False = Inr (qp_surface q)"
    and val: "decimal P (get_prop kvs (js ''value'')) (label @ js ''.value'') = Inr (qp_value q)"
    and unit: "nullable (get_prop kvs (js ''unit'')) (\<lambda>u. draft_text P u (label @ js ''.unit'') False) = Inr (qp_unit q)"
    by (auto simp: parseQuantity_def bindE_Inr_iff if_draft_fail_Inr closed_record_Inr)
  have units: "js_units (get_prop kvs k)" for k using assms(2) v by auto
  have "text_ok P (qp_surface q)"
    using surface units [of "js ''surface''"] text_ok_nfc [OF assms(3)] by (auto simp: draft_text_Inr)
  moreover have "pred_option (\<lambda>u. text_ok P u \<and> u \<noteq> []) (qp_unit q)"
    using unit units [of "js ''unit''"] text_ok_nfc [OF assms(3)] nfc_nonempty [OF assms(3)]
    by (auto simp: nullable_Inr draft_text_Inr)
  ultimately show ?thesis
    using rng rangeEnd id val by (auto simp: quantity_fields_ok_def nullable_Inr draft_identifier_Inr decimal_Inr)
qed

lemma parseClaim_fields:
  assumes "parseClaim P i v = Inr c" and "js_units v" and "unicode_normalizer (nfc P)"
  shows "claim_fields_ok P c"
proof -
  let ?l = "at_index ''claims'' i"
  from assms(1) obtain kvs svs rq re ids where v: "v = JObj kvs"
    and rq: "bounded_array (get_prop kvs (js ''quantities'')) MAX_NESTED_ITEMS (?l @ js ''.quantities'') = Inr rq"
    and qs: "map_indexed (\<lambda>j q. parseQuantity P q (?l @ at_index ''.quantities'' j)) rq = Inr (ac_quantities c)"
    and re: "bounded_array (get_prop kvs (js ''evidence_ids'')) MAX_EVIDENCE_IDS (?l @ js ''.evidence_ids'') = Inr re"
    and ids: "map_indexed (\<lambda>j e. draft_identifier P e (?l @ at_index ''.evidence_ids'' j)) re = Inr ids"
    and ev: "ac_evidence_ids c = sort ids" "ids \<noteq> []" "distinct ids"
    and cid: "draft_identifier P (get_prop kvs (js ''proposal_claim_id'')) (?l @ js ''.proposal_claim_id'') = Inr (ac_proposal_claim_id c)"
    and rev: "nullable (get_prop kvs (js ''revision_of_candidate_claim_key''))
        (\<lambda>k. draft_identifier P k (?l @ js ''.revision_of_candidate_claim_key'')) = Inr (ac_revision_of c)"
    and body: "claimText P (get_prop kvs (js ''claim_text'')) (?l @ js ''.claim_text'') = Inr (ac_claim_text c)"
    and fid: "draft_identifier P (get_prop svs (js ''fragment_id'')) (?l @ js ''.span.fragment_id'') = Inr (ac_fragment_id c)"
    and subj: "parseAnchor P (get_prop kvs (js ''subject'')) (?l @ js ''.subject'') = Inr (ac_subject c)"
    and prd: "parseAnchor P (get_prop kvs (js ''predicate'')) (?l @ js ''.predicate'') = Inr (ac_predicate c)"
    by (auto simp: parseClaim_def Let_def bindE_Inr_iff if_draft_fail_Inr closed_record_Inr simp del: if_split)
  have units: "js_units (get_prop kvs k)" for k using assms(2) v by auto
  have "sort ids \<noteq> []" using ev(2) by (metis length_0_conv length_sort)
  moreover have "list_all (quantity_fields_ok P) (ac_quantities c)" "length (ac_quantities c) \<le> MAX_NESTED_ITEMS"
    using map_indexed_Inr [OF qs] rq units [of "js ''quantities''"] parseQuantity_fields [OF _ _ assms(3)]
    by (fastforce simp: bounded_array_Inr list_all_iff)+
  moreover have "list_all is_safe_id ids" "length ids \<le> MAX_EVIDENCE_IDS"
    using map_indexed_Inr [OF ids] re by (fastforce simp: bounded_array_Inr draft_identifier_Inr list_all_iff)+
  moreover have "text_ok P (ac_claim_text c)"
    using body units [of "js ''claim_text''"] text_ok_nfc [OF assms(3)] by (auto simp: claimText_Inr)
  ultimately show ?thesis
    using ev cid rev body fid parseAnchor_text [OF subj units assms(3)] parseAnchor_text [OF prd units assms(3)]
    by (auto simp: claim_fields_ok_def draft_identifier_Inr nullable_Inr claimText_Inr list_all_iff)
qed

lemma parseFragment_fields: "parseFragment P i v = Inr fr \<Longrightarrow> fragment_fields_ok fr"
  by (cases v) (auto simp: parseFragment_def Let_def result_iffs parse_simps split: if_splits)

section \<open>The assertions\<close>

lemma exactAnchor_Inr:
  "exactAnchor t a label = Inr u \<longleftrightarrow>
     sa_start a < sa_end a \<and> sa_end a \<le> length t \<and> slice t (sa_start a) (sa_end a) = sa_surface a"
  by (auto simp: exactAnchor_def)

lemma check_quantities_Inr:
  "check_quantities t e qs = Inr u \<longleftrightarrow>
     (\<forall>q \<in> set qs. quantity_in t q \<and> e \<le> int (qp_start q)) \<and>
     sorted_wrt (\<lambda>p q. qp_end p \<le> qp_start q) qs"
proof (induction qs arbitrary: e)
  case (Cons q qs)
  have chain: "e \<le> int (qp_start r)"
    if "quantity_in t q" "e \<le> int (qp_start q)" "qp_end q \<le> qp_start r" for r
    using that by (simp add: quantity_in_def)
  have step: "check_quantities t e (q # qs) = Inr () \<longleftrightarrow>
      quantity_in t q \<and> e \<le> int (qp_start q) \<and> check_quantities t (int (qp_end q)) qs = Inr ()"
    by (simp add: if_draft_fail_Inr quantity_in_def not_le not_less) blast
  show ?case using chain Cons.IH [of "int (qp_end q)"] by (simp add: step del: check_quantities.simps) blast
qed simp

lemma assertUnique_Inr [parse_simps]: "assertUnique xs label = Inr u \<longleftrightarrow> distinct xs"
  by (simp add: assertUnique_def)

text \<open>One claim of the canonical draft.\<close>

definition canonical_claim :: "AtomicClaimProposal \<Rightarrow> AtomicClaimProposal" where
  "canonical_claim c = c\<lparr>ac_quantities := sort_key qp_start (ac_quantities c), ac_evidence_ids := sort (ac_evidence_ids c)\<rparr>"

lemma canonical_claim_simps [simp]:
  "ac_proposal_claim_id (canonical_claim c) = ac_proposal_claim_id c"
  "ac_fragment_id (canonical_claim c) = ac_fragment_id c"
  "ac_claim_text (canonical_claim c) = ac_claim_text c"
  by (simp_all add: canonical_claim_def)

lemma canonical_claim_ok:
  assumes "claim_fields_ok P c" and "assert_claim_spans c = Inr u"
  shows "claim_ok P (canonical_claim c)"
proof -
  have "claim_fields_ok P (canonical_claim c)"
    using assms(1) by (auto simp: claim_fields_ok_def canonical_claim_def list_all_iff dest: arg_cong [of _ _ length])
  then show ?thesis
    using assms
    by (auto simp: claim_ok_def assert_claim_spans_def bindE_Inr_iff parse_simps exactAnchor_Inr check_quantities_Inr
        anchor_ok_def claim_fields_ok_def canonical_claim_def)
qed

section \<open>The render graph\<close>

lemma claim_refs_mset: "mset (claim_refs xs) = image_mset (\<lambda>fr. case fr of ClaimRef f c p \<Rightarrow> (f, c) | _ \<Rightarrow> undefined)
    (filter_mset (\<lambda>fr. case fr of ClaimRef f c p \<Rightarrow> True | _ \<Rightarrow> False) (mset xs))"
  by (induction xs rule: claim_refs.induct) auto

lemma claim_refs_sort: "mset (claim_refs (sort_key k xs)) = mset (claim_refs xs)"
  by (simp add: claim_refs_mset)

lemma subseq_distinct: "subseq xs ys \<Longrightarrow> distinct ys \<Longrightarrow> distinct xs"
  by (auto simp: subseq_conv_nths)

lemma subseq_sorted: "subseq xs ys \<Longrightarrow> sorted ys \<Longrightarrow> sorted xs"
  by (auto simp: subseq_conv_nths sorted_nths)

lemma claim_refs_fst: "subseq (map fst (claim_refs xs)) (map fragment_id xs)"
  by (induction xs rule: claim_refs.induct) auto

lemma count_claim_refs_Inr:
  assumes "count_claim_refs claims frs counts = Inr n"
  shows "(\<forall>(f, c) \<in> set (claim_refs frs). \<exists>claim \<in> set claims. ac_proposal_claim_id claim = c \<and> ac_fragment_id claim = f) \<and>
    (\<forall>c. n c = counts c + count_list (map snd (claim_refs frs)) c)"
  using assms
proof (induction claims frs counts rule: count_claim_refs.induct)
  case (2 claims f c p frs counts)
  then obtain claim where claim: "find (\<lambda>x. ac_proposal_claim_id x = c) claims = Some claim" "ac_fragment_id claim = f"
      and n: "count_claim_refs claims frs (counts(c := counts c + 1)) = Inr n"
    by (auto split: option.splits if_splits)
  have "claim \<in> set claims" "ac_proposal_claim_id claim = c" using claim(1) by (auto simp: find_Some_iff)
  then show ?case using "2.IH" [OF claim(1) _ n] claim(2) by auto
qed auto

lemma ordinal_of_nth: "distinct ids \<Longrightarrow> i < length ids \<Longrightarrow> ordinal_of ids (ids ! i) = i"
proof (induction ids arbitrary: i)
  case (Cons x ids)
  then show ?case by (cases i) (auto simp: ordinal_of_def)
qed simp

lemma map_ordinal_of: "distinct ids \<Longrightarrow> map (ordinal_of ids) ids = [0..<length ids]"
  by (intro nth_equalityI) (simp_all add: ordinal_of_nth)

lemma sorted_by_ordinal:
  assumes "distinct ids" and "mset (map f xs) = mset ids" and "sorted (map (ordinal_of ids) (map f xs))"
  shows "map f xs = ids"
proof (rule sorted_key_unique [where f = "ordinal_of ids"])
  show "distinct (map (ordinal_of ids) (map f xs))"
    using assms(1,2) map_ordinal_of [OF assms(1)] by (metis distinct_upt mset_map mset_eq_imp_distinct_iff)
qed (use assms map_ordinal_of [OF assms(1)] in simp_all)

abbreviation claim_pair :: "AtomicClaimProposal \<Rightarrow> jstr \<times> jstr" where
  "claim_pair c \<equiv> (ac_fragment_id c, ac_proposal_claim_id c)"

lemma claim_refs_cover:
  assumes "count_claim_refs claims frs (\<lambda>_. 0) = Inr counts"
    and "\<And>c. c \<in> set claims \<Longrightarrow> counts (ac_proposal_claim_id c) = 1"
    and d: "distinct (map ac_proposal_claim_id claims)" "distinct (map fragment_id frs)"
  shows "mset (claim_refs frs) = mset (map claim_pair claims)"
proof -
  have refs: "\<exists>claim \<in> set claims. ac_proposal_claim_id claim = c \<and> ac_fragment_id claim = f"
      if "(f, c) \<in> set (claim_refs frs)" for f c
    using count_claim_refs_Inr [OF assms(1)] that by fastforce
  have cnt: "counts c = count_list (map snd (claim_refs frs)) c" for c
    using count_claim_refs_Inr [OF assms(1)] by simp
  have "set (claim_refs frs) = set (map claim_pair claims)"
  proof (intro equalityI subsetI)
    fix x assume "x \<in> set (claim_refs frs)"
    then show "x \<in> set (map claim_pair claims)" using refs [of "fst x" "snd x"] by force
  next
    fix x assume "x \<in> set (map claim_pair claims)"
    then obtain c where c: "c \<in> set claims" "x = claim_pair c" by auto
    then have "count_list (map snd (claim_refs frs)) (ac_proposal_claim_id c) \<noteq> 0"
      using assms(2) [OF c(1)] cnt [of "ac_proposal_claim_id c"] by simp
    then obtain f where f: "(f, ac_proposal_claim_id c) \<in> set (claim_refs frs)" by (auto simp: count_list_0_iff)
    from refs [OF this] obtain c' where c': "c' \<in> set claims" "ac_proposal_claim_id c' = ac_proposal_claim_id c"
        "ac_fragment_id c' = f" by auto
    have "inj_on ac_proposal_claim_id (set claims)" using d(1) by (simp add: distinct_map)
    then have "c' = c" using c(1) c'(1,2) by (simp add: inj_onD)
    then show "x \<in> set (claim_refs frs)" using f c c' by simp
  qed
  moreover have "distinct (map fst (claim_refs frs))" by (rule subseq_distinct [OF claim_refs_fst d(2)])
  then have "distinct (claim_refs frs)" by (simp only: distinct_map)
  moreover have "distinct (map snd (map claim_pair claims))" using d(1) by (simp add: comp_def)
  then have "distinct (map claim_pair claims)" by (simp only: distinct_map)
  ultimately show ?thesis using set_eq_iff_mset_eq_distinct by blast
qed

lemma claim_refs_ordered:
  assumes "map fragment_id frs = ids" and "distinct ids"
  shows "distinct (map (\<lambda>x. ordinal_of ids (fst x)) (claim_refs frs)) \<and>
    sorted (map (\<lambda>x. ordinal_of ids (fst x)) (claim_refs frs))"
proof -
  have "subseq (map (ordinal_of ids) (map fst (claim_refs frs))) [0..<length ids]"
    using subseq_map [OF claim_refs_fst, of "ordinal_of ids" frs] assms map_ordinal_of [OF assms(2)] by simp
  from subseq_distinct [OF this distinct_upt] subseq_sorted [OF this sorted_upt]
  show ?thesis by (simp add: comp_def)
qed

lemma canonical_render_graph:
  assumes "assertUniqueIdsAndClosedRenderGraph draft = Inr u"
  shows "distinct (gd_ordering draft) \<and> distinct (map ac_proposal_claim_id (gd_claims draft)) \<and>
    map fragment_id (gd_fragments (canonicalizeProposalOrder draft)) = gd_ordering draft \<and>
    claim_refs (gd_fragments (canonicalizeProposalOrder draft)) = map claim_pair (gd_claims (canonicalizeProposalOrder draft))"
proof -
  let ?ids = "gd_ordering draft" and ?claims = "gd_claims draft" and ?frs = "gd_fragments draft"
  let ?frs' = "gd_fragments (canonicalizeProposalOrder draft)" and ?claims' = "gd_claims (canonicalizeProposalOrder draft)"
  let ?key = "\<lambda>x. ordinal_of ?ids (fst x)"
  from assms obtain counts where d: "distinct (map ac_proposal_claim_id ?claims)" "distinct (map fragment_id ?frs)" "distinct ?ids"
    and len: "length ?ids = length (remdups (map fragment_id ?frs))" and sub: "set ?ids \<subseteq> set (map fragment_id ?frs)"
    and counts: "count_claim_refs ?claims ?frs (\<lambda>_. 0) = Inr counts"
    and one: "\<And>c. c \<in> set ?claims \<Longrightarrow> counts (ac_proposal_claim_id c) = 1"
    by (auto simp: assertUniqueIdsAndClosedRenderGraph_def Let_def bindE_Inr_iff parse_simps list_ex_iff)
  have "set ?ids = set (map fragment_id ?frs)"
    using sub len d(2) distinct_card [OF d(2)] distinct_card [OF d(3)]
    by (intro card_subset_eq) (simp_all add: distinct_remdups_id)
  then have ids: "mset (map fragment_id ?frs) = mset ?ids"
    using set_eq_iff_mset_eq_distinct [OF d(3,2)] by simp
  have frs': "?frs' = sort_key (\<lambda>fr. ordinal_of ?ids (fragment_id fr)) ?frs"
    by (simp add: canonicalizeProposalOrder_def)
  have "sorted (map (ordinal_of ?ids) (map fragment_id ?frs'))"
    using sorted_sort_key [of "\<lambda>fr. ordinal_of ?ids (fragment_id fr)" ?frs] by (simp add: frs' comp_def)
  then have order: "map fragment_id ?frs' = ?ids"
    using ids by (intro sorted_by_ordinal d(3)) (simp_all add: frs')
  have claims': "?claims' = sort_key (\<lambda>c. ordinal_of ?ids (ac_fragment_id c)) (map canonical_claim ?claims)"
    by (simp add: canonicalizeProposalOrder_def canonical_claim_def [abs_def])
  then have "mset (map claim_pair ?claims') = mset (map claim_pair ?claims)"
    by (simp add: multiset.map_comp comp_def)
  then have "mset (claim_refs ?frs') = mset (map claim_pair ?claims')"
    using claim_refs_cover [OF counts one d(1,2)] by (simp add: frs' claim_refs_sort)
  moreover have "sorted (map ?key (map claim_pair ?claims'))"
    using sorted_sort_key [of "\<lambda>c. ordinal_of ?ids (ac_fragment_id c)" "map canonical_claim ?claims"]
    by (simp add: claims' comp_def)
  ultimately have "claim_refs ?frs' = map claim_pair ?claims'"
    using claim_refs_ordered [OF order d(3)] by (intro sorted_key_unique [where f = ?key]) simp_all
  with order d show ?thesis by simp
qed

section \<open>Properties\<close>

lemma parseClosedProposalObject_fields:
  assumes "parseClosedProposalObject P v = Inr d" and "js_units v" and "unicode_normalizer (nfc P)"
  shows "status_ok P d \<and> length (gd_claims d) \<le> MAX_CLAIMS \<and> length (gd_fragments d) \<le> MAX_RENDER_FRAGMENTS \<and>
    list_all (claim_fields_ok P) (gd_claims d) \<and> list_all fragment_fields_ok (gd_fragments d)"
proof -
  from assms(1) obtain kvs rc rf ro where v: "v = JObj kvs"
    and rc: "bounded_array (get_prop kvs (js ''claims'')) MAX_CLAIMS (js ''claims'') = Inr rc"
      "map_indexed (parseClaim P) rc = Inr (gd_claims d)"
    and rf: "bounded_array (get_prop kvs (js ''render_fragments'')) MAX_RENDER_FRAGMENTS (js ''render_fragments'') = Inr rf"
      "map_indexed (parseFragment P) rf = Inr (gd_fragments d)"
    and gap: "nullable (get_prop kvs (js ''material_gap'')) (parseMaterialGap P) = Inr (gd_material_gap d)"
    and st: "\<not> (gd_status d = MATERIAL_GAP_STATUS \<and>
        (gd_claims d \<noteq> [] \<or> gd_fragments d \<noteq> [] \<or> gd_ordering d \<noteq> [] \<or> gd_material_gap d = None))"
      "\<not> (gd_status d = DRAFT \<and>
        (gd_claims d = [] \<or> gd_fragments d = [] \<or> gd_ordering d = [] \<or> gd_material_gap d \<noteq> None))"
    by (clarsimp simp: parseClosedProposalObject_def bindE_Inr_iff if_draft_fail_Inr closed_record_Inr simp del: if_split)
  have units: "js_units (get_prop kvs k)" for k using assms(2) v by auto
  have "list_all (claim_fields_ok P) (gd_claims d)" "length (gd_claims d) \<le> MAX_CLAIMS"
    using map_indexed_Inr [OF rc(2)] rc(1) units [of "js ''claims''"] parseClaim_fields [OF _ _ assms(3)]
    by (fastforce simp: bounded_array_Inr list_all_iff)+
  moreover have "list_all fragment_fields_ok (gd_fragments d)" "length (gd_fragments d) \<le> MAX_RENDER_FRAGMENTS"
    using map_indexed_Inr [OF rf(2)] rf(1) parseFragment_fields by (fastforce simp: bounded_array_Inr list_all_iff)+
  moreover have "length (snd g) \<le> MAX_NESTED_ITEMS \<and> list_all (text_ok P) (snd g)" if g: "gd_material_gap d = Some g" for g
  proof -
    from gap g have "parseMaterialGap P (get_prop kvs (js ''material_gap'')) = Inr g" by (auto simp: nullable_Inr)
    then obtain gvs raw where gvs: "get_prop kvs (js ''material_gap'') = JObj gvs"
      and raw: "bounded_array (get_prop gvs (js ''missing_topics'')) MAX_NESTED_ITEMS (js ''material_gap.missing_topics'') = Inr raw"
        "map_indexed (\<lambda>i t. draft_text P t (at_index ''material_gap.missing_topics'' i) True) raw = Inr (snd g)"
      by (auto simp: parseMaterialGap_def bindE_Inr_iff closed_record_Inr)
    have "js_units (get_prop gvs (js ''missing_topics''))" using units [of "js ''material_gap''"] gvs by auto
    then show ?thesis
      using map_indexed_Inr [OF raw(2)] raw(1) text_ok_nfc [OF assms(3)]
      by (fastforce simp: bounded_array_Inr list_all_iff draft_text_Inr)
  qed
  ultimately show ?thesis
    using st by (cases "gd_material_gap d"; cases "gd_status d") (auto simp: status_ok_def)
qed

lemma parse_draft_contract:
  assumes "unicode_normalizer (nfc P)" and "js_units v" and "parse_draft P v = Inr d"
  shows "draft_ok P d"
proof -
  from assms(3) obtain d0 where d0: "parseClosedProposalObject P v = Inr d0"
    and graph: "assertUniqueIdsAndClosedRenderGraph d0 = Inr ()" and spans: "assertClaimSpansAndAnchors d0 = Inr ()"
    and d: "d = canonicalizeProposalOrder d0"
    by (auto simp: parse_draft_def)
  note fields = parseClosedProposalObject_fields [OF d0 assms(2,1)]
  from spans obtain us where "mapE assert_claim_spans (gd_claims d0) = Inr us"
    by (auto simp: assertClaimSpansAndAnchors_def)
  then have "assert_claim_spans c = Inr ()" if "c \<in> set (gd_claims d0)" for c
    using that by (auto simp: mapE_Inr_iff list_all2_conv_all_nth in_set_conv_nth)
  then have claims: "list_all (claim_ok P) (gd_claims d)"
    using fields canonical_claim_ok
    by (fastforce simp: d canonicalizeProposalOrder_def list_all_iff canonical_claim_def [symmetric])
  have "distinct (map ac_proposal_claim_id (gd_claims d))"
    using canonical_render_graph [OF graph]
    by (simp add: d canonicalizeProposalOrder_def canonical_claim_def [symmetric] comp_def)
  moreover have "gd_ordering d = gd_ordering d0" "gd_status d = gd_status d0" "gd_material_gap d = gd_material_gap d0"
      "length (gd_claims d) = length (gd_claims d0)" "mset (gd_fragments d) = mset (gd_fragments d0)"
    by (simp_all add: d canonicalizeProposalOrder_def)
  moreover from this(4,5) have "gd_claims d = [] \<longleftrightarrow> gd_claims d0 = []" "gd_fragments d = [] \<longleftrightarrow> gd_fragments d0 = []"
      "length (gd_fragments d) = length (gd_fragments d0)" "set (gd_fragments d) = set (gd_fragments d0)"
    by (metis length_0_conv, metis mset_zero_iff, metis size_mset, metis mset_eq_setD)
  ultimately show ?thesis
    using fields claims canonical_render_graph [OF graph]
    by (simp add: draft_ok_def status_ok_def list_all_iff d [symmetric] split: draft_status.splits)
qed

text \<open>
  C7: every draft the parser returns satisfies its contract: safe and unique identifiers, texts in
  NFC without control characters, anchors that hold the text they name, quantities that occur
  once, in order and disjoint, and an ordering that lists every fragment once, in which the
  claims stand in the order of their single references.
\<close>

theorem parsed_draft_ok:
  assumes "unicode_normalizer (nfc P)" and "js_units v" and "parse_draft P v = Inr d"
  shows "draft_ok P d"
  using assms by (rule parse_draft_contract)

end
