(* ===== verification/GroundedDraftRoundtrip.thy ===== *)
theory GroundedDraftRoundtrip
  imports GroundedDraftProps
begin

text \<open>
  A draft as the JSON value it is stored and sent as, and the round trip: the parser accepts
  every draft that satisfies its contract and returns it unchanged, as long as its text is within
  the byte limits the parser checks on the value.
\<close>

section \<open>Drafts as values\<close>

definition num_value :: "nat \<Rightarrow> jsval" where
  "num_value n = JNum (NInt (int n))"

definition option_value :: "jstr option \<Rightarrow> jsval" where
  "option_value x = (case x of None \<Rightarrow> JNull | Some s \<Rightarrow> JStr s)"

definition anchor_value :: "SurfaceAnchorProposal \<Rightarrow> jsval" where
  "anchor_value a = JObj
     [(js ''surface'', JStr (sa_surface a)), (js ''start_utf16'', num_value (sa_start a)),
      (js ''end_utf16'', num_value (sa_end a))]"

definition quantity_value :: "QuantityProposal \<Rightarrow> jsval" where
  "quantity_value q = JObj
     [(js ''quantity_id'', JStr (qp_quantity_id q)), (js ''surface'', JStr (qp_surface q)),
      (js ''start_utf16'', num_value (qp_start q)), (js ''end_utf16'', num_value (qp_end q)),
      (js ''dimension'', JStr (js (dimension_text (qp_dimension q)))), (js ''value'', JStr (qp_value q)),
      (js ''unit'', option_value (qp_unit q)), (js ''comparator'', JStr (js (comparator_text (qp_comparator q)))),
      (js ''range_end'', option_value (qp_range_end q))]"

definition span_value :: "AtomicClaimProposal \<Rightarrow> jsval" where
  "span_value c = JObj
     [(js ''fragment_id'', JStr (ac_fragment_id c)), (js ''start_utf16'', num_value 0),
      (js ''end_utf16'', num_value (ac_span_end c))]"

definition claim_value :: "AtomicClaimProposal \<Rightarrow> jsval" where
  "claim_value c = JObj
     [(js ''proposal_claim_id'', JStr (ac_proposal_claim_id c)),
      (js ''revision_of_candidate_claim_key'', option_value (ac_revision_of c)),
      (js ''claim_text'', JStr (ac_claim_text c)), (js ''span'', span_value c),
      (js ''subject'', anchor_value (ac_subject c)), (js ''predicate'', anchor_value (ac_predicate c)),
      (js ''polarity'', JStr (js (polarity_text (ac_polarity c)))),
      (js ''quantifier'', JStr (js (quantifier_text (ac_quantifier c)))),
      (js ''quantities'', JArr (map quantity_value (ac_quantities c))),
      (js ''evidence_ids'', JArr (map JStr (ac_evidence_ids c)))]"

fun fragment_value :: "RenderFragmentProposal \<Rightarrow> jsval" where
  "fragment_value (ClaimRef f c p) = JObj
     [(js ''fragment_id'', JStr f), (js ''kind'', JStr (js ''claim_ref'')), (js ''claim_id'', JStr c),
      (js ''presentation'', JStr (js (claim_presentation_text p)))]"
| "fragment_value (StructureRef f s p) = JObj
     [(js ''fragment_id'', JStr f), (js ''kind'', JStr (js ''structure_ref'')), (js ''structure_id'', JStr s),
      (js ''presentation'', JStr (js (structure_presentation_text p)))]"
| "fragment_value (Separator f t) = JObj
     [(js ''fragment_id'', JStr f), (js ''kind'', JStr (js ''separator'')),
      (js ''token'', JStr (js (separator_text t)))]"

definition gap_value :: "(MaterialGapReason \<times> jstr list) option \<Rightarrow> jsval" where
  "gap_value g = (case g of None \<Rightarrow> JNull | Some (reason, topics) \<Rightarrow> JObj
     [(js ''reason_code'', JStr (js (gap_reason_text reason))), (js ''missing_topics'', JArr (map JStr topics))])"

definition draft_value :: "GroundedDraftProposal \<Rightarrow> jsval" where
  "draft_value d = JObj
     [(js ''schema_version'', JStr GROUNDED_DRAFT_SCHEMA_VERSION),
      (js ''status'', JStr (js (draft_status_text (gd_status d)))),
      (js ''claims'', JArr (map claim_value (gd_claims d))),
      (js ''render_fragments'', JArr (map fragment_value (gd_fragments d))),
      (js ''ordering'', JArr (map JStr (gd_ordering d))),
      (js ''material_gap'', gap_value (gd_material_gap d))]"

text \<open>The byte limits of the value.\<close>

definition draft_fits :: "platform \<Rightarrow> GroundedDraftProposal \<Rightarrow> bool" where
  "draft_fits P d \<longleftrightarrow>
     list_all (\<lambda>c. utf8_length (ac_claim_text c) \<le> MAX_CLAIM_TEXT_BYTES) (gd_claims d) \<and>
     assertProposalUtf8Bytes P (draft_value d) MAX_PROPOSAL_BYTES = Inr ()"

section \<open>Fields\<close>

lemma safe_id_ascii: "is_safe_id s \<Longrightarrow> \<forall>c \<in> set s. c < 128"
  by (cases s) (auto simp: is_safe_id_def list_all_iff char_class_defs is_digit_def)

lemma fixed_decimal_ascii:
  assumes "is_fixed_decimal s" shows "\<forall>c \<in> set s. c < 128" and "s \<noteq> []"
proof -
  let ?u = "if s \<noteq> [] \<and> hd s = 45 then tl s else s"
  have i: "is_unsigned_decimal (takeWhile (\<lambda>c. c \<noteq> 46) ?u)"
    and f: "dropWhile (\<lambda>c. c \<noteq> 46) ?u = [] \<or> list_all is_digit (tl (dropWhile (\<lambda>c. c \<noteq> 46) ?u))"
    using assms by (auto simp: is_fixed_decimal_def Let_def)
  have "c < 128" if "c \<in> set (takeWhile (\<lambda>c. c \<noteq> 46) ?u)" for c
    using i that by (auto simp: is_unsigned_decimal_def is_positive_decimal_def list_all_iff is_digit_def)
  moreover have "c < 128" if "c \<in> set (dropWhile (\<lambda>c. c \<noteq> 46) ?u)" for c
    using f that hd_dropWhile [of "\<lambda>c. c \<noteq> 46" ?u]
    by (cases "dropWhile (\<lambda>c. c \<noteq> 46) ?u") (auto simp: list_all_iff is_digit_def)
  ultimately have u: "\<forall>c \<in> set ?u. c < 128"
    by (metis UnE set_append takeWhile_dropWhile_id)
  then show "\<forall>c \<in> set s. c < 128" by (cases s) (auto split: if_splits)
  show "s \<noteq> []" using i by (auto simp: is_unsigned_decimal_def is_positive_decimal_def)
qed

lemma ascii_nfc: "unicode_normalizer (nfc P) \<Longrightarrow> \<forall>c \<in> set s. c < 128 \<Longrightarrow> nfc P s = s"
  by (simp add: unicode_normalizer_def)

lemma length_le_utf8: "length s \<le> utf8_length s"
  unfolding utf8_length_def
proof (induction s rule: utf8_encode.induct)
  case (2 c s)
  have pair: "length (utf8_scalar (pair_scalar c d)) = 4" for d
    by (simp add: utf8_scalar_def pair_scalar_def)
  show ?case
    using 2 utf8_scalar_length_bmp(1) [of c]
    by (cases s) (auto simp: pair simp del: utf8_encode.simps(2) simp add: utf8_encode.simps(2) [of c])
qed simp

text \<open>Facts about the platform that every step of the round trip uses.\<close>

lemma draft_text_value: "text_ok P s \<Longrightarrow> allowEmpty \<or> s \<noteq> [] \<Longrightarrow> draft_text P (JStr s) label allowEmpty = Inr s"
  by (auto simp: draft_text_Inr text_ok_def)

lemma draft_identifier_value:
  "unicode_normalizer (nfc P) \<Longrightarrow> is_safe_id s \<Longrightarrow> draft_identifier P (JStr s) label = Inr s"
  using safe_id_ascii [of s] ascii_nfc [of P s] by (auto simp: draft_identifier_Inr wf_ascii) (simp add: is_safe_id_def)

lemma decimal_value:
  "unicode_normalizer (nfc P) \<Longrightarrow> is_fixed_decimal s \<Longrightarrow> decimal P (JStr s) label = Inr s"
  using fixed_decimal_ascii [of s] ascii_nfc [of P s] by (auto simp: decimal_Inr wf_ascii)

lemma draft_integer_value: "int n \<le> MAX_SAFE_INTEGER \<Longrightarrow> draft_integer (num_value n) label = Inr n"
  by (simp add: draft_integer_Inr num_value_def)

lemma nullable_value:
  "(\<And>s. x = Some s \<Longrightarrow> parse (JStr s) = Inr s) \<Longrightarrow> nullable (option_value x) parse = Inr x"
  by (cases x) (auto simp: nullable_Inr option_value_def)

lemma enumValue_values [simp]:
  "enumValue (JStr (js (polarity_text p))) polarities polarity_text l = Inr p"
  "enumValue (JStr (js (quantifier_text q))) quantifiers quantifier_text l = Inr q"
  "enumValue (JStr (js (comparator_text c))) comparators comparator_text l = Inr c"
  "enumValue (JStr (js (dimension_text d))) dimensions dimension_text l = Inr d"
  "enumValue (JStr (js (claim_presentation_text cp))) [SENTENCE, BULLET, ORDERED_ITEM] claim_presentation_text l = Inr cp"
  "enumValue (JStr (js (structure_presentation_text sp))) [HEADING_1, HEADING_2, HEADING_3, COLUMN] structure_presentation_text l = Inr sp"
  "enumValue (JStr (js (separator_text st))) [SPACE, LINE_BREAK, PARAGRAPH_BREAK] separator_text l = Inr st"
  "enumValue (JStr (js (draft_status_text ds))) [DRAFT, MATERIAL_GAP_STATUS] draft_status_text l = Inr ds"
  "enumValue (JStr (js (gap_reason_text g))) materialGapReasons gap_reason_text l = Inr g"
  by ((cases p; simp add: enumValue_def polarities_def),
      (cases q; simp add: enumValue_def quantifiers_def),
      (cases c; simp add: enumValue_def comparators_def),
      (cases d; simp add: enumValue_def dimensions_def),
      (cases cp; simp add: enumValue_def),
      (cases sp; simp add: enumValue_def),
      (cases st; simp add: enumValue_def),
      (cases ds; simp add: enumValue_def),
      (cases g; simp add: enumValue_def materialGapReasons_def))

section \<open>Records\<close>

lemma anchor_roundtrip:
  assumes "anchor_ok P t a" and "int (length t) \<le> MAX_SAFE_INTEGER"
  shows "parseAnchor P (anchor_value a) label = Inr a"
proof -
  have "sa_surface a \<noteq> []" using assms(1) length_slice [of "sa_end a" t "sa_start a"] by (auto simp: anchor_ok_def)
  then show ?thesis
    using assms by (auto simp: parseAnchor_def anchor_value_def closed_record_def ANCHOR_KEYS_def get_prop_def
        draft_text_value draft_integer_value anchor_ok_def)
qed

lemma quantity_roundtrip:
  assumes "unicode_normalizer (nfc P)" and "quantity_fields_ok P q" and "quantity_in t q"
    and "int (length t) \<le> MAX_SAFE_INTEGER"
  shows "parseQuantity P (quantity_value q) label = Inr q"
proof -
  have "qp_surface q \<noteq> []" using assms(3) length_slice [of "qp_end q" t "qp_start q"] by (auto simp: quantity_in_def)
  moreover have "nullable (option_value (qp_range_end q)) (\<lambda>r. decimal P r l) = Inr (qp_range_end q)" for l
    using assms(1,2) by (intro nullable_value decimal_value) (auto simp: quantity_fields_ok_def)
  moreover have "nullable (option_value (qp_unit q)) (\<lambda>u. draft_text P u l False) = Inr (qp_unit q)" for l
    using assms(2) by (intro nullable_value draft_text_value) (auto simp: quantity_fields_ok_def)
  ultimately show ?thesis
    using assms by (auto simp: parseQuantity_def quantity_value_def closed_record_def QUANTITY_KEYS_def get_prop_def
        draft_text_value draft_integer_value draft_identifier_value decimal_value quantity_fields_ok_def quantity_in_def)
qed

lemma claim_roundtrip:
  assumes "unicode_normalizer (nfc P)" and "claim_ok P c" and "utf8_length (ac_claim_text c) \<le> MAX_CLAIM_TEXT_BYTES"
  shows "parseClaim P i (claim_value c) = Inr c"
proof -
  let ?l = "at_index ''claims'' i"
  have bound: "int (length (ac_claim_text c)) \<le> MAX_SAFE_INTEGER"
    using assms(3) length_le_utf8 [of "ac_claim_text c"] by (simp add: MAX_CLAIM_TEXT_BYTES_def MAX_SAFE_INTEGER_def)
  have fields: "claim_fields_ok P c" using assms(2) by (simp add: claim_ok_def)
  have "map_indexed (\<lambda>j q. parseQuantity P q (?l @ at_index ''.quantities'' j)) (map quantity_value (ac_quantities c)) = Inr (ac_quantities c)"
    using assms fields by (intro map_indexed_all quantity_roundtrip [OF assms(1) _ _ bound]) (auto simp: claim_ok_def claim_fields_ok_def list_all_iff)
  moreover have "map_indexed (\<lambda>j e. draft_identifier P e (?l @ at_index ''.evidence_ids'' j)) (map JStr (ac_evidence_ids c)) = Inr (ac_evidence_ids c)"
    using fields by (intro map_indexed_all draft_identifier_value assms(1)) (auto simp: claim_fields_ok_def list_all_iff)
  moreover have "nullable (option_value (ac_revision_of c)) (\<lambda>k. draft_identifier P k l) = Inr (ac_revision_of c)" for l
    using fields by (intro nullable_value draft_identifier_value assms(1)) (auto simp: claim_fields_ok_def)
  moreover have "ac_claim_text c \<noteq> []" using assms(2) by (auto simp: claim_ok_def anchor_ok_def)
  then have "claimText P (JStr (ac_claim_text c)) l = Inr (ac_claim_text c)" for l
    using fields assms(3) by (auto simp: claimText_Inr claim_fields_ok_def text_ok_def)
  moreover have "parseAnchor P (anchor_value (ac_subject c)) l = Inr (ac_subject c)"
      "parseAnchor P (anchor_value (ac_predicate c)) l = Inr (ac_predicate c)" for l
    using assms(2) by (auto simp: claim_ok_def intro!: anchor_roundtrip [OF _ bound])
  moreover have "sort (ac_evidence_ids c) = ac_evidence_ids c"
    using fields by (simp add: claim_fields_ok_def sorted_sort_id)
  moreover have "draft_integer (num_value (ac_span_end c)) l = Inr (ac_span_end c)" "draft_integer (num_value 0) l = Inr 0" for l
    using assms(2) bound by (auto simp: claim_ok_def MAX_SAFE_INTEGER_def intro!: draft_integer_value)
  ultimately show ?thesis
    using fields assms(1)
    by (simp add: parseClaim_def Let_def claim_value_def span_value_def closed_record_def bounded_array_def CLAIM_KEYS_def
        SPAN_KEYS_def get_prop_def draft_identifier_value claim_fields_ok_def)
qed

lemma fragment_roundtrip:
  assumes "unicode_normalizer (nfc P)" and "fragment_fields_ok fr"
  shows "parseFragment P i (fragment_value fr) = Inr fr"
  using assms by (cases fr) (simp_all add: parseFragment_def Let_def closed_record_def get_prop_def draft_identifier_value)

lemma gap_roundtrip:
  assumes "status_ok P d"
  shows "nullable (gap_value (gd_material_gap d)) (parseMaterialGap P) = Inr (gd_material_gap d)"
proof (cases "gd_material_gap d")
  case (Some g)
  then obtain reason topics where g: "gd_material_gap d = Some (reason, topics)" by (cases g) auto
  have "map_indexed (\<lambda>j t. draft_text P t (at_index ''material_gap.missing_topics'' j) True) (map JStr topics) = Inr topics"
    using assms g by (intro map_indexed_all draft_text_value) (auto simp: status_ok_def list_all_iff)
  then show ?thesis
    using assms g by (simp add: gap_value_def nullable_def parseMaterialGap_def closed_record_def bounded_array_def get_prop_def status_ok_def)
qed (simp add: gap_value_def nullable_def)

section \<open>The round trip\<close>

lemma closed_object_roundtrip:
  assumes "unicode_normalizer (nfc P)" and "draft_ok P d"
    and "list_all (\<lambda>c. utf8_length (ac_claim_text c) \<le> MAX_CLAIM_TEXT_BYTES) (gd_claims d)"
  shows "parseClosedProposalObject P (draft_value d) = Inr d"
proof -
  have st: "status_ok P d" and claims: "list_all (claim_ok P) (gd_claims d)"
    and frs: "list_all fragment_fields_ok (gd_fragments d)" and ids: "map fragment_id (gd_fragments d) = gd_ordering d"
    and len: "length (gd_claims d) \<le> MAX_CLAIMS" "length (gd_fragments d) \<le> MAX_RENDER_FRAGMENTS"
    using assms(2) by (simp_all add: draft_ok_def)
  have "map_indexed (parseClaim P) (map claim_value (gd_claims d)) = Inr (gd_claims d)"
    using assms(1,3) claims by (intro map_indexed_all claim_roundtrip) (auto simp: list_all_iff)
  moreover have "map_indexed (parseFragment P) (map fragment_value (gd_fragments d)) = Inr (gd_fragments d)"
    using assms(1) frs by (intro map_indexed_all fragment_roundtrip) (auto simp: list_all_iff)
  moreover have "map_indexed (\<lambda>i x. draft_identifier P x (at_index ''ordering'' i)) (map JStr (gd_ordering d)) = Inr (gd_ordering d)"
  proof (intro map_indexed_all draft_identifier_value assms(1))
    fix x assume "x \<in> set (gd_ordering d)"
    then obtain fr where "fr \<in> set (gd_fragments d)" "x = fragment_id fr" by (auto simp flip: ids)
    with frs show "is_safe_id x" by (cases fr) (auto simp: list_all_iff)
  qed
  moreover have "length (gd_ordering d) \<le> MAX_RENDER_FRAGMENTS" using len(2) by (simp flip: ids)
  moreover have "\<not> (gd_status d = MATERIAL_GAP_STATUS \<and>
        (gd_claims d \<noteq> [] \<or> gd_fragments d \<noteq> [] \<or> gd_ordering d \<noteq> [] \<or> gd_material_gap d = None))"
      "\<not> (gd_status d = DRAFT \<and>
        (gd_claims d = [] \<or> gd_fragments d = [] \<or> gd_ordering d = [] \<or> gd_material_gap d \<noteq> None))"
    using st by (auto simp: status_ok_def)
  ultimately show ?thesis
    using len gap_roundtrip [OF st]
    by (simp add: parseClosedProposalObject_def draft_value_def closed_record_def bounded_array_def PROPOSAL_KEYS_def get_prop_def)
qed

lemma count_claim_refs_ok:
  assumes "distinct (map ac_proposal_claim_id claims)"
  shows "set (claim_refs frs) \<subseteq> claim_pair ` set claims \<Longrightarrow> \<exists>n. count_claim_refs claims frs counts = Inr n"
proof (induction frs arbitrary: counts)
  case (Cons fr frs)
  show ?case
  proof (cases fr)
    case (ClaimRef f c p)
    with Cons.prems obtain claim where claim: "claim \<in> set claims" "ac_proposal_claim_id claim = c" "ac_fragment_id claim = f"
      and sub: "set (claim_refs frs) \<subseteq> claim_pair ` set claims"
      by auto
    then obtain x where x: "find (\<lambda>x. ac_proposal_claim_id x = c) claims = Some x"
      by (cases "find (\<lambda>x. ac_proposal_claim_id x = c) claims") (auto simp: find_None_iff)
    then have "x \<in> set claims" "ac_proposal_claim_id x = c" by (auto simp: find_Some_iff)
    moreover have "inj_on ac_proposal_claim_id (set claims)" using assms by (simp add: distinct_map)
    ultimately have "x = claim" using claim by (simp add: inj_onD)
    with x claim Cons.IH [OF sub] ClaimRef show ?thesis by simp
  qed (use Cons in auto)
qed simp

lemma count_list_distinct: "distinct xs \<Longrightarrow> x \<in> set xs \<Longrightarrow> count_list xs x = 1"
  by (induction xs) (auto simp: count_list_0_iff)

lemma render_graph_ok:
  assumes "draft_ok P d"
  shows "assertUniqueIdsAndClosedRenderGraph d = Inr ()"
proof -
  have refs: "claim_refs (gd_fragments d) = map claim_pair (gd_claims d)"
    and ids: "map fragment_id (gd_fragments d) = gd_ordering d"
    and dist: "distinct (map ac_proposal_claim_id (gd_claims d))" "distinct (gd_ordering d)"
    using assms by (simp_all add: draft_ok_def)
  obtain n where n: "count_claim_refs (gd_claims d) (gd_fragments d) (\<lambda>_. 0) = Inr n"
    using count_claim_refs_ok [OF dist(1), of "gd_fragments d"] by (auto simp: refs)
  have "n (ac_proposal_claim_id c) = 1" if "c \<in> set (gd_claims d)" for c
  proof -
    have "n (ac_proposal_claim_id c) = count_list (map ac_proposal_claim_id (gd_claims d)) (ac_proposal_claim_id c)"
      using count_claim_refs_Inr [OF n] by (simp add: refs comp_def)
    then show ?thesis using count_list_distinct [OF dist(1)] that by simp
  qed
  then have "\<not> list_ex (\<lambda>c. n (ac_proposal_claim_id c) \<noteq> 1) (gd_claims d)" by (auto simp: list_ex_iff)
  moreover have "\<not> list_ex (\<lambda>i. i \<notin> set (gd_ordering d)) (gd_ordering d)" by (auto simp: list_ex_iff)
  ultimately show ?thesis
    unfolding assertUniqueIdsAndClosedRenderGraph_def Let_def ids
    by (simp add: assertUnique_def dist n distinct_remdups_id)
qed

lemma quantities_in_order: "claim_ok P c \<Longrightarrow> sort_key qp_start (ac_quantities c) = ac_quantities c"
proof (rule sort_key_id_if_sorted)
  assume c: "claim_ok P c"
  have "sorted_wrt (\<lambda>p q. qp_start p \<le> qp_start q) (ac_quantities c)"
  proof (rule sorted_wrt_mono_rel [where P = "\<lambda>p q. qp_end p \<le> qp_start q"])
    show "qp_start p \<le> qp_start q" if "p \<in> set (ac_quantities c)" "qp_end p \<le> qp_start q" for p q
      using c that by (fastforce simp: claim_ok_def quantity_in_def)
  qed (use c in \<open>simp add: claim_ok_def\<close>)
  then show "sorted (map qp_start (ac_quantities c))" by (simp add: sorted_wrt_map)
qed

lemma claim_spans_ok: "claim_ok P c \<Longrightarrow> assert_claim_spans c = Inr ()"
proof -
  assume c: "claim_ok P c"
  have "check_quantities (ac_claim_text c) (- 1) (ac_quantities c) = Inr ()"
    using c by (simp add: check_quantities_Inr claim_ok_def)
  moreover have "exactAnchor (ac_claim_text c) (ac_subject c) l = Inr ()" "exactAnchor (ac_claim_text c) (ac_predicate c) l = Inr ()" for l
    using c by (simp_all add: exactAnchor_Inr claim_ok_def anchor_ok_def)
  moreover have "ac_span_end c = length (ac_claim_text c)" "distinct (map qp_quantity_id (ac_quantities c))"
      "\<not> (sa_start (ac_subject c) < sa_end (ac_predicate c) \<and> sa_end (ac_subject c) > sa_start (ac_predicate c))"
    using c by (auto simp: claim_ok_def)
  ultimately show ?thesis
    by (simp add: assert_claim_spans_def assertUnique_def quantities_in_order [OF c])
qed

lemma canonical_order_id:
  assumes "draft_ok P d" shows "canonicalizeProposalOrder d = d"
proof -
  let ?ids = "gd_ordering d"
  have refs: "claim_refs (gd_fragments d) = map claim_pair (gd_claims d)"
    and ids: "map fragment_id (gd_fragments d) = ?ids" "distinct ?ids"
    using assms by (simp_all add: draft_ok_def)
  have "sorted (map (ordinal_of ?ids) (map fragment_id (gd_fragments d)))"
    using ids map_ordinal_of [OF ids(2)] by simp
  then have fr: "sort_key (\<lambda>fr. ordinal_of ?ids (fragment_id fr)) (gd_fragments d) = gd_fragments d"
    by (intro sort_key_id_if_sorted) (simp add: comp_def)
  have claims: "map canonical_claim (gd_claims d) = gd_claims d"
  proof (rule map_idI)
    fix c assume "c \<in> set (gd_claims d)"
    with assms have c: "claim_ok P c" by (simp add: draft_ok_def list_all_iff)
    from quantities_in_order [OF this]
    show "canonical_claim c = c"
      using c by (simp add: canonical_claim_def claim_ok_def claim_fields_ok_def sorted_sort_id)
  qed
  have "sorted (map (\<lambda>x. ordinal_of ?ids (fst x)) (map claim_pair (gd_claims d)))"
    using claim_refs_ordered [OF ids] refs by simp
  then have "sort_key (\<lambda>c. ordinal_of ?ids (ac_fragment_id c)) (map canonical_claim (gd_claims d)) = gd_claims d"
    unfolding claims by (intro sort_key_id_if_sorted) (simp add: comp_def)
  with fr show ?thesis by (simp add: canonicalizeProposalOrder_def canonical_claim_def [abs_def])
qed

lemma draft_value_parses:
  assumes "unicode_normalizer (nfc P)" and "draft_ok P d" and "draft_fits P d"
  shows "parse_draft P (draft_value d) = Inr d"
proof -
  have "mapE assert_claim_spans (gd_claims d) = Inr (map (\<lambda>_. ()) (gd_claims d))"
    using assms(2) claim_spans_ok by (intro mapE_all) (auto simp: draft_ok_def list_all_iff)
  then show ?thesis
    using assms closed_object_roundtrip [OF assms(1,2)] render_graph_ok [OF assms(2)] canonical_order_id [OF assms(2)]
    by (simp add: parse_draft_def draft_fits_def assertClaimSpansAndAnchors_def)
qed

text \<open>
  C28: the parser returns unchanged every draft that satisfies its contract, read back from its
  JSON value, when the value is within the byte limits: what is stored can be parsed again.
\<close>

theorem draft_reparse:
  assumes "unicode_normalizer (nfc P)" and "draft_ok P d" and "draft_fits P d"
  shows "parse_draft P (draft_value d) = Inr d"
  using assms by (rule draft_value_parses)

section \<open>A concrete draft\<close>

definition sample_claim :: AtomicClaimProposal where
  "sample_claim =
     \<lparr>ac_proposal_claim_id = js ''c1'', ac_revision_of = None, ac_claim_text = js ''A is 5 kW'',
      ac_fragment_id = js ''f2'', ac_span_end = 9,
      ac_subject = \<lparr>sa_surface = js ''A'', sa_start = 0, sa_end = 1\<rparr>,
      ac_predicate = \<lparr>sa_surface = js ''is'', sa_start = 2, sa_end = 4\<rparr>,
      ac_polarity = AFFIRMED, ac_quantifier = Q_PLAIN,
      ac_quantities = [\<lparr>qp_quantity_id = js ''q1'', qp_surface = js ''5 kW'', qp_start = 5, qp_end = 9,
        qp_dimension = DIM_POWER, qp_value = js ''5'', qp_unit = Some (js ''kW''), qp_comparator = CMP_EQ,
        qp_range_end = None\<rparr>],
      ac_evidence_ids = [js ''e1'', js ''e2'']\<rparr>"

definition sample_draft :: GroundedDraftProposal where
  "sample_draft =
     \<lparr>gd_status = DRAFT, gd_claims = [sample_claim],
      gd_fragments = [StructureRef (js ''f1'') (js ''s1'') HEADING_1, ClaimRef (js ''f2'') (js ''c1'') SENTENCE],
      gd_ordering = [js ''f1'', js ''f2''], gd_material_gap = None\<rparr>"

lemmas sample_evaluation =
  draft_ok_def status_ok_def claim_ok_def claim_fields_ok_def quantity_fields_ok_def quantity_in_def anchor_ok_def
  text_ok_def sample_draft_def sample_claim_def is_safe_id_def is_fixed_decimal_def is_unsigned_decimal_def
  is_positive_decimal_def is_digit_def ascii_alnum_def ascii_upper_def ascii_lower_def hasForbiddenClaimControl_def
  js_includes_def slice_def MAX_CLAIMS_def MAX_RENDER_FRAGMENTS_def MAX_NESTED_ITEMS_def MAX_EVIDENCE_IDS_def

lemma sample_draft_ok: "draft_ok plain_platform sample_draft"
  by (simp add: sample_evaluation js_def)

definition plain_unit :: "nat \<Rightarrow> bool" where
  "plain_unit c \<longleftrightarrow> 32 \<le> c \<and> c < 128 \<and> c \<noteq> 34 \<and> c \<noteq> 92"

lemma json_quote_plain: "list_all plain_unit s \<Longrightarrow> json_quote s = 34 # s @ [34]"
proof -
  assume "list_all plain_unit s"
  then have "json_escape s = s"
    by (induction s) (auto simp: plain_unit_def escape_unit_def short_escape_def)
  then show ?thesis by (simp add: json_quote_def)
qed

lemma utf8_length_ascii: "list_all (\<lambda>c. c < 128) s \<Longrightarrow> utf8_length s = length s"
  unfolding utf8_length_def by (induction s) (auto simp: utf8_scalar_def)

lemma sample_draft_fits: "draft_fits plain_platform sample_draft"
proof -
  have "utf8_length (js ''A is 5 kW'') \<le> MAX_CLAIM_TEXT_BYTES"
    by (simp add: utf8_length_def utf8_scalar_def MAX_CLAIM_TEXT_BYTES_def js_def)
  moreover have "assertProposalUtf8Bytes plain_platform (draft_value sample_draft) MAX_PROPOSAL_BYTES = Inr ()"
    by (simp add: assertProposalUtf8Bytes_def draft_value_def sample_draft_def sample_claim_def claim_value_def anchor_value_def
        quantity_value_def span_value_def option_value_def num_value_def gap_value_def GROUNDED_DRAFT_SCHEMA_VERSION_def
        MAX_PROPOSAL_BYTES_def json_number_def MAX_SAFE_INTEGER_def dec_int_def dec_nat.simps
        List.map_filter_simps json_quote_plain plain_unit_def utf8_length_ascii js_def)
  ultimately show ?thesis by (simp add: draft_fits_def sample_draft_def sample_claim_def)
qed

theorem draft_reparse_witness:
  "parse_draft plain_platform (draft_value sample_draft) = Inr sample_draft"
  by (rule draft_reparse [OF plain_platform_normalizer sample_draft_ok sample_draft_fits])

lemma sample_draft_parses: "parse_draft plain_platform (draft_value sample_draft) = Inr sample_draft"
  by (rule draft_value_parses [OF plain_platform_normalizer sample_draft_ok sample_draft_fits])

theorem parsed_draft_ok_witness:
  "\<exists>d. parse_draft plain_platform (draft_value sample_draft) = Inr d \<and> draft_ok plain_platform d"
proof -
  have "js_units (draft_value sample_draft)"
    by (simp add: draft_value_def sample_draft_def sample_claim_def claim_value_def anchor_value_def quantity_value_def
        span_value_def option_value_def num_value_def gap_value_def GROUNDED_DRAFT_SCHEMA_VERSION_def js_def)
  from parsed_draft_ok [OF plain_platform_normalizer this sample_draft_parses] sample_draft_parses
  show ?thesis by blast
qed

end
