(* ===== verification/GroundedDraftSchema.thy ===== *)
theory GroundedDraftSchema
  imports GroundedDraftRoundtrip
begin

text \<open>
  The JSON schema of a draft, the contract sent with the request to the model
  (\<open>citation/atomic-grounding/grounded-draft.schema.ts\<close>), under the meaning JSON Schema gives its
  keywords, and its agreement with the parser: what the parser returns is valid.
\<close>

section \<open>The keywords\<close>

datatype schema =
    S_String nat "nat option" "jstr \<Rightarrow> bool"
  | S_Enum "string list"
  | S_Const jsval
  | S_Integer int int
  | S_Null
  | S_Object "(string \<times> schema) list"
  | S_Array nat "nat option" bool schema
  | S_OneOf "schema list"
  | S_Properties "(string \<times> schema) list"
  | S_MinItems nat
  | S_MaxItems nat
  | S_AllOf "schema list"
  | S_IfThen schema schema

text \<open>The length of a string is the number of its code points.\<close>

fun code_points :: "jstr \<Rightarrow> nat" where
  "code_points [] = 0"
| "code_points (c # s) = (if high_surrogate c \<and> s \<noteq> [] \<and> low_surrogate (hd s) then code_points s else Suc (code_points s))"

definition within_limits :: "nat \<Rightarrow> nat option \<Rightarrow> nat \<Rightarrow> bool" where
  "within_limits low high n \<longleftrightarrow> low \<le> n \<and> pred_option (\<lambda>h. n \<le> h) high"

text \<open>
  \<open>S_Object\<close> is \<open>additionalProperties: false\<close> with every property required; \<open>S_Properties\<close> only
  constrains the properties that are present.
\<close>

fun valid :: "schema \<Rightarrow> jsval \<Rightarrow> bool" where
  "valid (S_String low high pattern) v \<longleftrightarrow>
     (case v of JStr s \<Rightarrow> within_limits low high (code_points s) \<and> pattern s | _ \<Rightarrow> False)"
| "valid (S_Enum values) v \<longleftrightarrow> (case v of JStr s \<Rightarrow> s \<in> set (map js values) | _ \<Rightarrow> False)"
| "valid (S_Const c) v \<longleftrightarrow> v = c"
| "valid (S_Integer low high) v \<longleftrightarrow>
     (case v of JNum (NInt i) \<Rightarrow> low \<le> i \<and> i \<le> high | JNum NNegZero \<Rightarrow> low \<le> 0 \<and> 0 \<le> high | _ \<Rightarrow> False)"
| "valid S_Null v \<longleftrightarrow> v = JNull"
| "valid (S_Object props) v \<longleftrightarrow>
     (case v of
        JObj kvs \<Rightarrow>
          list_all (\<lambda>kv. fst kv \<in> set (map (\<lambda>p. js (fst p)) props)) kvs \<and>
          list_all (\<lambda>p. map_of kvs (js (fst p)) \<noteq> None) props \<and>
          list_all (\<lambda>p. valid (snd p) (get_prop kvs (js (fst p)))) props
      | _ \<Rightarrow> False)"
| "valid (S_Array low high unique items) v \<longleftrightarrow>
     (case v of
        JArr vs \<Rightarrow> within_limits low high (length vs) \<and> (unique \<longrightarrow> distinct vs) \<and> list_all (valid items) vs
      | _ \<Rightarrow> False)"
| "valid (S_OneOf ss) v \<longleftrightarrow> length (filter (\<lambda>s. valid s v) ss) = 1"
| "valid (S_Properties props) v \<longleftrightarrow>
     (case v of
        JObj kvs \<Rightarrow> list_all (\<lambda>p. map_of kvs (js (fst p)) = None \<or> valid (snd p) (get_prop kvs (js (fst p)))) props
      | _ \<Rightarrow> True)"
| "valid (S_MinItems n) v \<longleftrightarrow> (case v of JArr vs \<Rightarrow> n \<le> length vs | _ \<Rightarrow> True)"
| "valid (S_MaxItems n) v \<longleftrightarrow> (case v of JArr vs \<Rightarrow> length vs \<le> n | _ \<Rightarrow> True)"
| "valid (S_AllOf ss) v \<longleftrightarrow> list_all (\<lambda>s. valid s v) ss"
| "valid (S_IfThen c s) v \<longleftrightarrow> (valid c v \<longrightarrow> valid s v)"

section \<open>The schema of a draft\<close>

definition stringSchema :: schema where
  "stringSchema = S_String 0 None (\<lambda>_. True)"

definition nonEmptySchema :: schema where
  "nonEmptySchema = S_String 1 None (\<lambda>_. True)"

definition idSchema :: schema where
  "idSchema = S_String 1 (Some 512) is_safe_id"

definition offsetSchema :: schema where
  "offsetSchema = S_Integer 0 4194304"

definition decimalSchema :: schema where
  "decimalSchema = S_String 0 None is_fixed_decimal"

definition anchorSchema :: schema where
  "anchorSchema = S_Object
     [(''surface'', nonEmptySchema), (''start_utf16'', offsetSchema), (''end_utf16'', offsetSchema)]"

definition quantitySchema :: schema where
  "quantitySchema = S_Object
     [(''quantity_id'', idSchema), (''surface'', nonEmptySchema), (''start_utf16'', offsetSchema),
      (''end_utf16'', offsetSchema), (''dimension'', S_Enum (map dimension_text dimensions)),
      (''value'', decimalSchema), (''unit'', S_OneOf [stringSchema, S_Null]),
      (''comparator'', S_Enum (map comparator_text comparators)),
      (''range_end'', S_OneOf [decimalSchema, S_Null])]"

definition spanSchema :: schema where
  "spanSchema = S_Object
     [(''fragment_id'', idSchema), (''start_utf16'', S_Const (JNum (NInt 0))), (''end_utf16'', offsetSchema)]"

definition claimSchema :: schema where
  "claimSchema = S_Object
     [(''proposal_claim_id'', idSchema),
      (''revision_of_candidate_claim_key'', S_OneOf [idSchema, S_Null]),
      (''claim_text'', S_String 1 (Some 1000) (\<lambda>_. True)), (''span'', spanSchema),
      (''subject'', anchorSchema), (''predicate'', anchorSchema),
      (''polarity'', S_Enum (map polarity_text polarities)),
      (''quantifier'', S_Enum (map quantifier_text quantifiers)),
      (''quantities'', S_Array 0 (Some MAX_NESTED_ITEMS) False quantitySchema),
      (''evidence_ids'', S_Array 1 (Some MAX_EVIDENCE_IDS) True idSchema)]"

definition fragmentSchema :: schema where
  "fragmentSchema = S_OneOf
     [S_Object [(''fragment_id'', idSchema), (''kind'', S_Const (JStr (js ''claim_ref''))), (''claim_id'', idSchema),
        (''presentation'', S_Enum [''sentence'', ''bullet'', ''ordered_item''])],
      S_Object [(''fragment_id'', idSchema), (''kind'', S_Const (JStr (js ''structure_ref''))), (''structure_id'', idSchema),
        (''presentation'', S_Enum [''heading_1'', ''heading_2'', ''heading_3'', ''column''])],
      S_Object [(''fragment_id'', idSchema), (''kind'', S_Const (JStr (js ''separator''))),
        (''token'', S_Enum [''space'', ''line_break'', ''paragraph_break''])]]"

definition materialGapSchema :: schema where
  "materialGapSchema = S_Object
     [(''reason_code'', S_Enum (map gap_reason_text materialGapReasons)),
      (''missing_topics'', S_Array 0 (Some MAX_NESTED_ITEMS) False stringSchema)]"

definition groundedDraftJsonSchema :: schema where
  "groundedDraftJsonSchema = S_AllOf
     [S_Object
        [(''schema_version'', S_Const (JStr GROUNDED_DRAFT_SCHEMA_VERSION)),
         (''status'', S_Enum [''draft'', ''material_gap'']),
         (''claims'', S_Array 0 (Some MAX_CLAIMS) False claimSchema),
         (''render_fragments'', S_Array 0 (Some MAX_RENDER_FRAGMENTS) False fragmentSchema),
         (''ordering'', S_Array 0 (Some MAX_RENDER_FRAGMENTS) True idSchema),
         (''material_gap'', S_OneOf [S_Null, materialGapSchema])],
      S_IfThen (S_Properties [(''status'', S_Const (JStr (js ''draft'')))])
        (S_Properties [(''claims'', S_MinItems 1), (''render_fragments'', S_MinItems 1), (''ordering'', S_MinItems 1),
           (''material_gap'', S_Null)]),
      S_IfThen (S_Properties [(''status'', S_Const (JStr (js ''material_gap'')))])
        (S_Properties [(''claims'', S_MaxItems 0), (''render_fragments'', S_MaxItems 0), (''ordering'', S_MaxItems 0),
           (''material_gap'', materialGapSchema)])]"

section \<open>Agreement\<close>

lemma code_points_le: "code_points s \<le> length s"
  by (induction s rule: code_points.induct) auto

lemma code_points_pos: "s \<noteq> [] \<Longrightarrow> 1 \<le> code_points s"
  by (induction s rule: code_points.induct) (auto split: if_splits)

lemma valid_id [simp]: "valid idSchema (JStr s) \<longleftrightarrow> is_safe_id s"
  using code_points_le [of s] code_points_pos [of s]
  by (auto simp: idSchema_def within_limits_def is_safe_id_def)

lemma valid_offset [simp]: "valid offsetSchema (num_value n) \<longleftrightarrow> n \<le> 4194304"
  by (auto simp: offsetSchema_def num_value_def)

lemma valid_strings [simp]:
  "valid stringSchema (JStr s)" "valid nonEmptySchema (JStr s) \<longleftrightarrow> s \<noteq> []" "valid decimalSchema (JStr s) \<longleftrightarrow> is_fixed_decimal s"
  "\<not> valid stringSchema JNull" "\<not> valid idSchema JNull" "\<not> valid decimalSchema JNull"
  using code_points_pos [of s]
  by (auto simp: stringSchema_def nonEmptySchema_def decimalSchema_def idSchema_def within_limits_def)

lemma valid_nullable:
  assumes "\<not> valid s JNull" and "\<And>x. o' = Some x \<Longrightarrow> valid s (JStr x)"
  shows "valid (S_OneOf [s, S_Null]) (option_value o')"
  using assms by (cases o') (auto simp: option_value_def)

lemma enum_complete [simp]:
  "p \<in> set polarities" "q \<in> set quantifiers" "c \<in> set comparators" "d \<in> set dimensions" "g \<in> set materialGapReasons"
  by ((cases p; simp add: polarities_def), (cases q; simp add: quantifiers_def), (cases c; simp add: comparators_def),
      (cases d; simp add: dimensions_def), (cases g; simp add: materialGapReasons_def))

lemma enum_texts [simp]: "x \<in> set xs \<Longrightarrow> js (f x) \<in> (\<lambda>y. js (f y)) ` set xs"
  by (rule imageI)

lemma anchor_valid:
  assumes "anchor_ok P t a" and "length t \<le> 4194304"
  shows "valid anchorSchema (anchor_value a)"
proof -
  have "sa_surface a \<noteq> []" using assms(1) length_slice [of "sa_end a" t "sa_start a"] by (auto simp: anchor_ok_def)
  then show ?thesis using assms by (simp add: anchorSchema_def anchor_value_def get_prop_def anchor_ok_def)
qed

lemma quantity_valid:
  assumes "quantity_fields_ok P q" and "quantity_in t q" and "length t \<le> 4194304"
  shows "valid quantitySchema (quantity_value q)"
proof -
  have "qp_surface q \<noteq> []" using assms(2) length_slice [of "qp_end q" t "qp_start q"] by (auto simp: quantity_in_def)
  moreover have "valid (S_OneOf [stringSchema, S_Null]) (option_value (qp_unit q))"
      "valid (S_OneOf [decimalSchema, S_Null]) (option_value (qp_range_end q))"
    using assms(1) by (auto intro!: valid_nullable simp: quantity_fields_ok_def simp del: valid.simps)
  ultimately show ?thesis
    using assms by (simp add: quantitySchema_def quantity_value_def get_prop_def quantity_fields_ok_def quantity_in_def
        del: valid.simps(8))
qed

lemma claim_valid:
  assumes "claim_ok P c" and "utf8_length (ac_claim_text c) \<le> MAX_CLAIM_TEXT_BYTES"
  shows "valid claimSchema (claim_value c)"
proof -
  have fields: "claim_fields_ok P c" using assms(1) by (simp add: claim_ok_def)
  have len: "length (ac_claim_text c) \<le> 1000"
    using assms(2) length_le_utf8 [of "ac_claim_text c"] by (simp add: MAX_CLAIM_TEXT_BYTES_def)
  have "ac_claim_text c \<noteq> []" using assms(1) by (auto simp: claim_ok_def anchor_ok_def)
  then have body: "valid (S_String 1 (Some 1000) (\<lambda>_. True)) (JStr (ac_claim_text c))"
    using code_points_le [of "ac_claim_text c"] code_points_pos [of "ac_claim_text c"] len by (simp add: within_limits_def)
  have span: "valid spanSchema (span_value c)"
    using assms(1) fields len
    by (simp add: spanSchema_def span_value_def get_prop_def claim_ok_def claim_fields_ok_def) (simp add: num_value_def)
  have anchors: "valid anchorSchema (anchor_value (ac_subject c))" "valid anchorSchema (anchor_value (ac_predicate c))"
    using assms(1) len by (auto simp: claim_ok_def intro!: anchor_valid)
  have "valid (S_OneOf [idSchema, S_Null]) (option_value (ac_revision_of c))"
    using fields by (auto intro!: valid_nullable simp: claim_fields_ok_def simp del: valid.simps)
  moreover have "valid (S_Array 0 (Some MAX_NESTED_ITEMS) False quantitySchema) (JArr (map quantity_value (ac_quantities c)))"
    using fields assms(1) len quantity_valid [of P _ "ac_claim_text c"]
    by (simp add: within_limits_def list_all_iff claim_ok_def claim_fields_ok_def)
  moreover have "valid (S_Array 1 (Some MAX_EVIDENCE_IDS) True idSchema) (JArr (map JStr (ac_evidence_ids c)))"
    using fields by (cases "ac_evidence_ids c") (auto simp: within_limits_def list_all_iff claim_fields_ok_def distinct_map inj_on_def)
  ultimately show ?thesis
    using fields body span anchors
    by (simp add: claimSchema_def claim_value_def get_prop_def claim_fields_ok_def del: valid.simps(1,7,8))
qed

lemma fragment_valid: "fragment_fields_ok fr \<Longrightarrow> valid fragmentSchema (fragment_value fr)"
proof (cases fr)
  case (ClaimRef f c p)
  then show "fragment_fields_ok fr \<Longrightarrow> ?thesis" by (cases p) (simp_all add: fragmentSchema_def get_prop_def)
next
  case (StructureRef f s p)
  then show "fragment_fields_ok fr \<Longrightarrow> ?thesis" by (cases p) (simp_all add: fragmentSchema_def get_prop_def)
next
  case (Separator f t)
  then show "fragment_fields_ok fr \<Longrightarrow> ?thesis" by (cases t) (simp_all add: fragmentSchema_def get_prop_def)
qed

lemma gap_valid:
  assumes "length topics \<le> MAX_NESTED_ITEMS"
  shows "valid materialGapSchema (gap_value (Some (reason, topics)))"
  using assms by (simp add: materialGapSchema_def gap_value_def get_prop_def within_limits_def list_all_iff)

text \<open>
  C31: a draft the parser can return, within the byte limits, is valid under the JSON schema the
  model is asked to follow: the parser never lets through what the schema forbids.
\<close>

theorem parsed_draft_valid:
  assumes "draft_ok P d" and "draft_fits P d"
  shows "valid groundedDraftJsonSchema (draft_value d)"
proof -
  have st: "status_ok P d" and claims: "list_all (claim_ok P) (gd_claims d)"
    and frs: "list_all fragment_fields_ok (gd_fragments d)" and ids: "map fragment_id (gd_fragments d) = gd_ordering d"
    and len: "length (gd_claims d) \<le> MAX_CLAIMS" "length (gd_fragments d) \<le> MAX_RENDER_FRAGMENTS"
    and dist: "distinct (gd_ordering d)"
    using assms(1) by (simp_all add: draft_ok_def)
  have "valid (S_Array 0 (Some MAX_CLAIMS) False claimSchema) (JArr (map claim_value (gd_claims d)))"
    using claims len(1) claim_valid [of P] assms(2) by (simp add: within_limits_def list_all_iff draft_fits_def)
  moreover have "valid (S_Array 0 (Some MAX_RENDER_FRAGMENTS) False fragmentSchema) (JArr (map fragment_value (gd_fragments d)))"
    using frs len(2) fragment_valid by (simp add: within_limits_def list_all_iff)
  moreover have "is_safe_id (fragment_id fr)" if "fr \<in> set (gd_fragments d)" for fr
    using frs that by (cases fr) (auto simp: list_all_iff)
  then have "valid (S_Array 0 (Some MAX_RENDER_FRAGMENTS) True idSchema) (JArr (map JStr (gd_ordering d)))"
    using len(2) dist by (simp add: within_limits_def list_all_iff distinct_map inj_on_def flip: ids)
  moreover have gap: "valid materialGapSchema (gap_value (gd_material_gap d))" if "gd_material_gap d \<noteq> None"
    using st that gap_valid by (cases "gd_material_gap d") (auto simp: status_ok_def)
  moreover have null: "\<not> valid materialGapSchema JNull" by (simp add: materialGapSchema_def)
  moreover have "gd_ordering d = [] \<longleftrightarrow> gd_fragments d = []" by (simp flip: ids)
  moreover have "gap_value (gd_material_gap d) = JNull \<longleftrightarrow> gd_material_gap d = None"
    by (cases "gd_material_gap d") (auto simp: gap_value_def)
  ultimately show ?thesis
    using st
    by (cases "gd_status d")
      (simp_all add: groundedDraftJsonSchema_def draft_value_def get_prop_def status_ok_def Suc_le_eq del: valid.simps(7))
qed

theorem parsed_draft_valid_witness:
  "valid groundedDraftJsonSchema (draft_value sample_draft)"
  by (rule parsed_draft_valid [OF sample_draft_ok sample_draft_fits])

end
