(* ===== verification/Regexp.thy ===== *)
theory Regexp
  imports JsString
begin

text \<open>
  The regular expressions of the standard library, as far as the program uses them: a
  backtracking matcher that tries the alternatives in their order and repetitions greedily,
  records groups, and folds case under the flag \<open>i\<close>.  It works on code units: no expression of
  the program names a character outside the basic plane.
\<close>

datatype rx =
    REps
  | RSat "nat \<Rightarrow> bool"
  | RLit jstr
  | RSeq rx rx
  | RAlt rx rx
  | ROpt rx
  | RStar rx
  | RRep nat nat rx
  | RGroup nat rx
  | REnd

type_synonym captures = "(nat \<times> jstr) list"

text \<open>Simple case folding of ASCII, and of the two other characters that fold to ASCII letters.\<close>

definition case_fold :: "nat \<Rightarrow> nat" where
  "case_fold c =
     (if 65 \<le> c \<and> c \<le> 90 then c + 32 else if c = 0x212A then 107 else if c = 0x17F then 115 else c)"

fun strip_literal :: "bool \<Rightarrow> jstr \<Rightarrow> jstr \<Rightarrow> jstr option" where
  "strip_literal ci [] s = Some s"
| "strip_literal ci (p # ps) [] = None"
| "strip_literal ci (p # ps) (c # s) =
     (if c = p \<or> (ci \<and> case_fold c = case_fold p) then strip_literal ci ps s else None)"

type_synonym 'r rx_cont = "jstr \<Rightarrow> captures \<Rightarrow> 'r option"

text \<open>A greedy repetition; an iteration that consumes nothing is not repeated.\<close>

primrec rx_star :: "('r rx_cont \<Rightarrow> 'r rx_cont) \<Rightarrow> nat \<Rightarrow> 'r rx_cont \<Rightarrow> 'r rx_cont" where
  "rx_star f 0 k s cs = k s cs"
| "rx_star f (Suc n) k s cs =
     (case f (\<lambda>s' cs'. if length s' < length s then rx_star f n k s' cs' else None) s cs of
        None \<Rightarrow> k s cs
      | Some x \<Rightarrow> Some x)"

text \<open>At most \<open>n\<close> further iterations, and exactly \<open>n\<close> iterations before \<open>k\<close>.\<close>

primrec rx_upto :: "('r rx_cont \<Rightarrow> 'r rx_cont) \<Rightarrow> nat \<Rightarrow> 'r rx_cont \<Rightarrow> 'r rx_cont" where
  "rx_upto f 0 k s cs = k s cs"
| "rx_upto f (Suc n) k s cs = (case f (rx_upto f n k) s cs of None \<Rightarrow> k s cs | Some x \<Rightarrow> Some x)"

primrec rx_times :: "('r rx_cont \<Rightarrow> 'r rx_cont) \<Rightarrow> nat \<Rightarrow> 'r rx_cont \<Rightarrow> 'r rx_cont" where
  "rx_times f 0 k s cs = k s cs"
| "rx_times f (Suc n) k s cs = f (rx_times f n k) s cs"

lemma rx_numerals [simp]:
  "rx_upto f (numeral m) k s cs = (case f (rx_upto f (pred_numeral m) k) s cs of None \<Rightarrow> k s cs | Some x \<Rightarrow> Some x)"
  "rx_times f (numeral m) k s cs = f (rx_times f (pred_numeral m) k) s cs"
  by (simp_all add: numeral_eq_Suc)

primrec rx_match :: "bool \<Rightarrow> rx \<Rightarrow> 'r rx_cont \<Rightarrow> 'r rx_cont" where
  "rx_match ci REps k s cs = k s cs"
| "rx_match ci (RSat p) k s cs =
     (case s of [] \<Rightarrow> None | c # s' \<Rightarrow> if p c then k s' cs else None)"
| "rx_match ci (RLit l) k s cs =
     (case strip_literal ci l s of None \<Rightarrow> None | Some s' \<Rightarrow> k s' cs)"
| "rx_match ci (RSeq a b) k s cs = rx_match ci a (rx_match ci b k) s cs"
| "rx_match ci (RAlt a b) k s cs =
     (case rx_match ci a k s cs of None \<Rightarrow> rx_match ci b k s cs | Some x \<Rightarrow> Some x)"
| "rx_match ci (ROpt a) k s cs =
     (case rx_match ci a k s cs of None \<Rightarrow> k s cs | Some x \<Rightarrow> Some x)"
| "rx_match ci (RStar a) k s cs = rx_star (rx_match ci a) (length s) k s cs"
| "rx_match ci (RRep n m a) k s cs = rx_times (rx_match ci a) n (rx_upto (rx_match ci a) (m - n) k) s cs"
| "rx_match ci (RGroup i a) k s cs =
     rx_match ci a (\<lambda>s' cs'. k s' ((i, take (length s - length s') s) # cs')) s cs"
| "rx_match ci REnd k s cs = (if s = [] then k s cs else None)"

definition rx_plus :: "rx \<Rightarrow> rx" where
  "rx_plus a = RSeq a (RStar a)"

fun rx_seq :: "rx list \<Rightarrow> rx" where
  "rx_seq [] = REps"
| "rx_seq [a] = a"
| "rx_seq (a # rs) = RSeq a (rx_seq rs)"

fun rx_any :: "jstr list \<Rightarrow> rx" where
  "rx_any [] = RSat (\<lambda>_. False)"
| "rx_any [l] = RLit l"
| "rx_any (l # ls) = RAlt (RLit l) (rx_any ls)"

section \<open>Using an expression\<close>

text \<open>\<open>exec\<close> of an expression anchored at the start: the matched text and the groups.\<close>

definition rx_exec :: "bool \<Rightarrow> rx \<Rightarrow> jstr \<Rightarrow> (jstr \<times> captures) option" where
  "rx_exec ci r s = rx_match ci r (\<lambda>s' cs. Some (take (length s - length s') s, cs)) s []"

definition group :: "captures \<Rightarrow> nat \<Rightarrow> jstr option" where
  "group cs i = map_of cs i"

text \<open>\<open>test\<close> of an expression that may match anywhere.\<close>

fun rx_test :: "rx \<Rightarrow> jstr \<Rightarrow> bool" where
  "rx_test r [] = (rx_exec False r [] \<noteq> None)"
| "rx_test r (c # s) = (rx_exec False r (c # s) \<noteq> None \<or> rx_test r s)"

text \<open>
  \<open>replace(/r/g, '')\<close> and \<open>match(/r/g)\<close> of an expression that matches no empty text: what is
  left of the string, and the matches in their order.
\<close>

function rx_scan :: "rx \<Rightarrow> jstr \<Rightarrow> jstr \<times> jstr list" where
  "rx_scan r s =
     (case s of
        [] \<Rightarrow> ([], [])
      | c # s' \<Rightarrow>
          (case rx_exec False r s of
             Some (m # ms, _) \<Rightarrow> (case rx_scan r (drop (length (m # ms)) s) of (t, xs) \<Rightarrow> (t, (m # ms) # xs))
           | _ \<Rightarrow> (case rx_scan r s' of (t, xs) \<Rightarrow> (c # t, xs))))"
  by pat_completeness auto
termination by (relation "measure (\<lambda>(r, s). length s)") auto

declare rx_scan.simps [simp del]

section \<open>What a match consumes\<close>

text \<open>An expression that cannot match the empty text.\<close>

primrec rx_solid :: "rx \<Rightarrow> bool" where
  "rx_solid REps = False"
| "rx_solid (RSat p) = True"
| "rx_solid (RLit l) = (l \<noteq> [])"
| "rx_solid (RSeq a b) = (rx_solid a \<or> rx_solid b)"
| "rx_solid (RAlt a b) = (rx_solid a \<and> rx_solid b)"
| "rx_solid (ROpt a) = False"
| "rx_solid (RStar a) = False"
| "rx_solid (RRep n m a) = (n \<noteq> 0 \<and> rx_solid a)"
| "rx_solid (RGroup i a) = rx_solid a"
| "rx_solid REnd = False"

lemma strip_literal_suffix:
  "strip_literal ci l s = Some s' \<Longrightarrow> \<exists>p. s = p @ s' \<and> length p = length l"
proof (induction ci l s rule: strip_literal.induct)
  case (3 ci p ps c s)
  then obtain q where "s = q @ s' \<and> length q = length ps" by (auto split: if_splits)
  then show ?case by (intro exI [of _ "c # q"]) simp
qed auto

text \<open>
  A matcher consumes a prefix of the text: whatever it returns, its continuation returned it on
  the rest of the text.
\<close>

definition consumes :: "bool \<Rightarrow> ('r rx_cont \<Rightarrow> 'r rx_cont) \<Rightarrow> bool" where
  "consumes solid f \<longleftrightarrow>
     (\<forall>k s cs x. f k s cs = Some x \<longrightarrow>
        (\<exists>p s' cs'. s = p @ s' \<and> (solid \<longrightarrow> p \<noteq> []) \<and> k s' cs' = Some x))"

lemma consumesI:
  "(\<And>k s cs x. f k s cs = Some x \<Longrightarrow> \<exists>p s' cs'. s = p @ s' \<and> (solid \<longrightarrow> p \<noteq> []) \<and> k s' cs' = Some x) \<Longrightarrow> consumes solid f"
  by (simp add: consumes_def)

lemma consumesD:
  assumes "consumes solid f" and "f k s cs = Some x"
  obtains p s' cs' where "s = p @ s'" and "solid \<longrightarrow> p \<noteq> []" and "k s' cs' = Some x"
proof -
  from assms(1) have "\<forall>k s cs x. f k s cs = Some x \<longrightarrow>
      (\<exists>p s' cs'. s = p @ s' \<and> (solid \<longrightarrow> p \<noteq> []) \<and> k s' cs' = Some x)"
    by (simp only: consumes_def)
  with assms(2) have "\<exists>p s' cs'. s = p @ s' \<and> (solid \<longrightarrow> p \<noteq> []) \<and> k s' cs' = Some x" by simp
  with that show thesis by (elim exE conjE)
qed

lemma consumes_weaken: "consumes solid f \<Longrightarrow> consumes False f"
  unfolding consumes_def by blast

lemma consumes_comp:
  assumes "consumes a f" and "consumes b g"
  shows "consumes (a \<or> b) (\<lambda>k. f (g k))"
proof (rule consumesI)
  fix k s cs x assume "f (g k) s cs = Some x"
  from consumesD [OF assms(1) this] obtain p s1 cs1 where 1: "s = p @ s1" "a \<longrightarrow> p \<noteq> []" "g k s1 cs1 = Some x" .
  from consumesD [OF assms(2) 1(3)] obtain q s2 cs2 where "s1 = q @ s2" "b \<longrightarrow> q \<noteq> []" "k s2 cs2 = Some x" .
  with 1 have "s = (p @ q) @ s2 \<and> (a \<or> b \<longrightarrow> p @ q \<noteq> []) \<and> k s2 cs2 = Some x" by auto
  then show "\<exists>p s' cs'. s = p @ s' \<and> (a \<or> b \<longrightarrow> p \<noteq> []) \<and> k s' cs' = Some x" by blast
qed

lemma consumes_star:
  assumes "consumes False f" shows "consumes False (rx_star f n)"
proof (induction n)
  case (Suc n)
  show ?case
  proof (rule consumesI)
    fix k s cs x assume x: "rx_star f (Suc n) k s cs = Some x"
    show "\<exists>p s' cs'. s = p @ s' \<and> (False \<longrightarrow> p \<noteq> []) \<and> k s' cs' = Some x"
    proof (cases "f (\<lambda>s' cs'. if length s' < length s then rx_star f n k s' cs' else None) s cs")
      case None
      with x have "s = [] @ s \<and> k s cs = Some x" by simp
      then show ?thesis by blast
    next
      case (Some y)
      from consumesD [OF assms this] obtain p s1 cs1 where
        "s = p @ s1" "(if length s1 < length s then rx_star f n k s1 cs1 else None) = Some y" .
      moreover from this have "rx_star f n k s1 cs1 = Some y" by (auto split: if_splits)
      from consumesD [OF Suc.IH this] obtain q s2 cs2 where "s1 = q @ s2" "k s2 cs2 = Some y" .
      ultimately have "s = (p @ q) @ s2 \<and> k s2 cs2 = Some x" using x Some by simp
      then show ?thesis by blast
    qed
  qed
qed (auto simp: consumes_def)

lemma consumes_upto:
  assumes "consumes False f" shows "consumes False (rx_upto f n)"
proof (induction n)
  case (Suc n)
  have "consumes False (\<lambda>k. f (rx_upto f n k))" using consumes_comp [OF assms Suc.IH] by simp
  then show ?case
    unfolding consumes_def by (fastforce split: option.splits)
qed (auto simp: consumes_def)

lemma consumes_times:
  assumes "consumes solid f" shows "consumes (n \<noteq> 0 \<and> solid) (rx_times f n)"
proof (induction n)
  case (Suc n)
  have "consumes solid (\<lambda>k. f (rx_times f n k))"
    using consumes_comp [OF assms consumes_weaken [OF Suc.IH]] by simp
  then show ?case by (simp add: consumes_def)
qed (auto simp: consumes_def)

lemma consumes_alt:
  assumes "consumes a f" and "consumes b g"
  shows "consumes (a \<and> b) (\<lambda>k s cs. case f k s cs of None \<Rightarrow> g k s cs | Some x \<Rightarrow> Some x)"
proof (rule consumesI)
  fix k s cs x assume "(case f k s cs of None \<Rightarrow> g k s cs | Some x \<Rightarrow> Some x) = Some x"
  then consider (left) "f k s cs = Some x" | (right) "g k s cs = Some x" by (auto split: option.splits)
  then show "\<exists>p s' cs'. s = p @ s' \<and> (a \<and> b \<longrightarrow> p \<noteq> []) \<and> k s' cs' = Some x"
  proof cases
    case left
    from consumesD [OF assms(1) this] obtain p s' cs' where "s = p @ s'" "a \<longrightarrow> p \<noteq> []" "k s' cs' = Some x" .
    then have "s = p @ s' \<and> (a \<and> b \<longrightarrow> p \<noteq> []) \<and> k s' cs' = Some x" by simp
    then show ?thesis by (intro exI)
  next
    case right
    from consumesD [OF assms(2) this] obtain p s' cs' where "s = p @ s'" "b \<longrightarrow> p \<noteq> []" "k s' cs' = Some x" .
    then have "s = p @ s' \<and> (a \<and> b \<longrightarrow> p \<noteq> []) \<and> k s' cs' = Some x" by simp
    then show ?thesis by (intro exI)
  qed
qed

lemma consumes_skip: "consumes False (\<lambda>k. k)"
proof (rule consumesI)
  fix k :: "'r rx_cont" and s cs x assume "k s cs = Some x"
  then have "s = [] @ s \<and> k s cs = Some x" by simp
  then show "\<exists>p s' cs'. s = p @ s' \<and> (False \<longrightarrow> p \<noteq> []) \<and> k s' cs' = Some x" by blast
qed

lemma consumes_group:
  assumes "consumes a f"
  shows "consumes a (\<lambda>k s cs. f (\<lambda>s' cs'. k s' (h s s' cs')) s cs)"
proof (rule consumesI)
  fix k s cs x assume "f (\<lambda>s' cs'. k s' (h s s' cs')) s cs = Some x"
  from consumesD [OF assms this] obtain p s' cs' where "s = p @ s'" "a \<longrightarrow> p \<noteq> []" "k s' (h s s' cs') = Some x" .
  then show "\<exists>p s' cs'. s = p @ s' \<and> (a \<longrightarrow> p \<noteq> []) \<and> k s' cs' = Some x" by blast
qed

lemma rx_match_combinators:
  "rx_match ci REps = (\<lambda>k. k)"
  "rx_match ci REnd = (\<lambda>k s cs. if s = [] then k s cs else None)"
  "rx_match ci (RSeq a b) = (\<lambda>k. rx_match ci a (rx_match ci b k))"
  "rx_match ci (RAlt a b) = (\<lambda>k s cs. case rx_match ci a k s cs of None \<Rightarrow> rx_match ci b k s cs | Some x \<Rightarrow> Some x)"
  "rx_match ci (ROpt a) = (\<lambda>k s cs. case rx_match ci a k s cs of None \<Rightarrow> k s cs | Some x \<Rightarrow> Some x)"
  "rx_match ci (RRep n m a) = (\<lambda>k. rx_times (rx_match ci a) n (rx_upto (rx_match ci a) (m - n) k))"
  "rx_match ci (RGroup i a) =
     (\<lambda>k s cs. rx_match ci a (\<lambda>s' cs'. k s' ((i, take (length s - length s') s) # cs')) s cs)"
  by (simp_all add: fun_eq_iff)

lemma consumes_match: "consumes (rx_solid r) (rx_match ci r :: 'r rx_cont \<Rightarrow> 'r rx_cont)"
proof (induction r)
  case (RSat p)
  show ?case
  proof (rule consumesI)
    fix k :: "'r rx_cont" and s cs x assume "rx_match ci (RSat p) k s cs = Some x"
    then obtain c s' where "s = [c] @ s' \<and> k s' cs = Some x" by (cases s) (auto split: if_splits)
    then show "\<exists>q s' cs'. s = q @ s' \<and> (rx_solid (RSat p) \<longrightarrow> q \<noteq> []) \<and> k s' cs' = Some x" by blast
  qed
next
  case (RLit l)
  show ?case
  proof (rule consumesI)
    fix k :: "'r rx_cont" and s cs x assume "rx_match ci (RLit l) k s cs = Some x"
    then obtain s' where s': "strip_literal ci l s = Some s'" "k s' cs = Some x" by (auto split: option.splits)
    from strip_literal_suffix [OF s'(1)] obtain q where "s = q @ s'" "length q = length l" by blast
    with s'(2) have "s = q @ s' \<and> (rx_solid (RLit l) \<longrightarrow> q \<noteq> []) \<and> k s' cs = Some x" by auto
    then show "\<exists>q s' cs'. s = q @ s' \<and> (rx_solid (RLit l) \<longrightarrow> q \<noteq> []) \<and> k s' cs' = Some x" by blast
  qed
next
  case (RSeq a b)
  from consumes_comp [OF this] show ?case by (simp add: rx_match_combinators)
next
  case (RAlt a b)
  from consumes_alt [OF this] show ?case by (simp add: rx_match_combinators)
next
  case (ROpt a)
  from consumes_alt [OF this consumes_skip] show ?case by (simp add: rx_match_combinators)
next
  case (RStar a)
  show ?case
  proof (rule consumesI)
    fix k :: "'r rx_cont" and s cs x assume "rx_match ci (RStar a) k s cs = Some x"
    then have "rx_star (rx_match ci a) (length s) k s cs = Some x" by simp
    from consumesD [OF consumes_star [OF consumes_weaken [OF RStar]] this]
    show "\<exists>q s' cs'. s = q @ s' \<and> (rx_solid (RStar a) \<longrightarrow> q \<noteq> []) \<and> k s' cs' = Some x" by simp blast
  qed
next
  case (RRep n m a)
  from consumes_comp [OF consumes_times [OF RRep] consumes_upto [OF consumes_weaken [OF RRep]]]
  show ?case by (simp add: rx_match_combinators)
next
  case (RGroup i a)
  from consumes_group [OF this, of "\<lambda>s s' cs'. (i, take (length s - length s') s) # cs'"]
  show ?case by (simp add: rx_match_combinators)
next
  case REps
  show ?case by (simp add: rx_match_combinators consumes_skip)
next
  case REnd
  show ?case
  proof (rule consumesI)
    fix k :: "'r rx_cont" and s cs x assume "rx_match ci REnd k s cs = Some x"
    then have "s = [] @ s \<and> k s cs = Some x" by (simp split: if_splits)
    then show "\<exists>q s' cs'. s = q @ s' \<and> (rx_solid REnd \<longrightarrow> q \<noteq> []) \<and> k s' cs' = Some x" by simp blast
  qed
qed

text \<open>A match is a prefix of the text, and not empty when the expression is solid.\<close>

lemma rx_exec_prefix:
  assumes "rx_exec ci r s = Some (m, cs)"
  shows "(\<exists>s'. s = m @ s') \<and> (rx_solid r \<longrightarrow> m \<noteq> [])"
proof -
  from consumesD [OF consumes_match assms [unfolded rx_exec_def]]
  obtain p s' cs' where "s = p @ s'" "rx_solid r \<longrightarrow> p \<noteq> []" "Some (take (length s - length s') s, cs') = Some (m, cs)" .
  then show ?thesis by auto
qed

lemma rx_exec_length: "rx_exec ci r s = Some (m, cs) \<Longrightarrow> length m \<le> length s"
  using rx_exec_prefix [of ci r s m cs] by auto

end
