(* ===== verification/FixedDecimal.thy ===== *)
theory FixedDecimal
  imports Regexp Patterns Prelude
begin

text \<open>
  The numbers of the quantity lexer (\<open>citation/atomic-grounding/quantity-lexer.ts\<close>): fixed decimals
  as a coefficient and a scale, their canonical printing, and the parsers of Arabic and Chinese
  numerals.
\<close>

record FixedDecimal =
  fd_coefficient :: int
  fd_scale :: nat

section \<open>Canonical form and printing\<close>

fun strip_zeros :: "int \<Rightarrow> nat \<Rightarrow> FixedDecimal" where
  "strip_zeros c 0 = \<lparr>fd_coefficient = c, fd_scale = 0\<rparr>"
| "strip_zeros c (Suc n) =
     (if c mod 10 = 0 then strip_zeros (c div 10) n else \<lparr>fd_coefficient = c, fd_scale = Suc n\<rparr>)"

definition normalizeFixed :: "FixedDecimal \<Rightarrow> FixedDecimal" where
  "normalizeFixed v =
     (if fd_coefficient v = 0 then \<lparr>fd_coefficient = 0, fd_scale = 0\<rparr>
      else strip_zeros (fd_coefficient v) (fd_scale v))"

definition padStart :: "nat \<Rightarrow> jstr \<Rightarrow> jstr" where
  "padStart width s = replicate (width - length s) 48 @ s"

definition fixedToString :: "FixedDecimal \<Rightarrow> jstr" where
  "fixedToString v =
     (let normalized = normalizeFixed v;
          negative = fd_coefficient normalized < 0;
          digits = dec_nat (nat \<bar>fd_coefficient normalized\<bar>);
          printed =
            (if fd_scale normalized > 0 then
               let padded = padStart (fd_scale normalized + 1) digits;
                   cut = length padded - fd_scale normalized
               in take cut padded @ 46 # drop cut padded
             else digits)
      in (if negative then [45] else []) @ printed)"

section \<open>Arabic numerals\<close>

definition digit_rx :: rx where
  "digit_rx = RSat is_digit"

definition nonzero_digit_rx :: rx where
  "nonzero_digit_rx = RSat (\<lambda>c. 49 \<le> c \<and> c \<le> 57)"

definition fraction_rx :: rx where
  "fraction_rx = ROpt (RSeq (RLit [46]) (rx_plus digit_rx))"

definition integer_rx :: rx where
  "integer_rx = RAlt (RLit [48]) (RSeq nonzero_digit_rx (RStar digit_rx))"

text \<open>The sign may be a plus, a hyphen or U+2212.\<close>

definition ARABIC_NUMBER :: rx where
  "ARABIC_NUMBER =
     RSeq (ROpt (RSat (\<lambda>c. c = 43 \<or> c = 8722 \<or> c = 45)))
       (RAlt (RSeq integer_rx fraction_rx)
         (rx_seq [nonzero_digit_rx, RRep 0 2 digit_rx, rx_plus (RSeq (RLit [44]) (RRep 3 3 digit_rx)), fraction_rx]))"

definition DECIMAL :: rx where
  "DECIMAL = rx_seq [ROpt (RSat (\<lambda>c. c = 43 \<or> c = 45)), integer_rx, fraction_rx, REnd]"

definition GROUPED_DECIMAL :: rx where
  "GROUPED_DECIMAL = RSeq ARABIC_NUMBER REnd"

fun replace_first :: "nat \<Rightarrow> nat \<Rightarrow> jstr \<Rightarrow> jstr" where
  "replace_first a b [] = []"
| "replace_first a b (c # s) = (if c = a then b # s else c # replace_first a b s)"

text \<open>\<open>BigInt\<close> of a string of digits.\<close>

definition digits_int :: "jstr \<Rightarrow> int" where
  "digits_int s = int (digits_value 0 s)"

definition parseArabicFixed :: "jstr \<Rightarrow> FixedDecimal option" where
  "parseArabicFixed raw =
     (if rx_exec False GROUPED_DECIMAL raw = None then None
      else
        let normalized = replace_first 8722 45 (filter (\<lambda>c. c \<noteq> 44) raw)
        in if rx_exec False DECIMAL normalized = None then None
        else
          let negative = starts_with normalized [45];
              unsigned = (if normalized \<noteq> [] \<and> hd normalized \<in> {43, 45} then tl normalized else normalized);
              integerPart = takeWhile (\<lambda>c. c \<noteq> 46) unsigned;
              decimalPart = takeWhile (\<lambda>c. c \<noteq> 46) (drop (Suc (length integerPart)) unsigned);
              magnitude = digits_int (integerPart @ decimalPart)
          in Some (normalizeFixed
               \<lparr>fd_coefficient = (if negative then - magnitude else magnitude), fd_scale = length decimalPart\<rparr>))"

section \<open>Chinese numerals\<close>

definition ZH_TEN_THOUSAND :: nat where "ZH_TEN_THOUSAND = 19975"
definition ZH_HUNDRED_MILLION :: nat where "ZH_HUNDRED_MILLION = 20159"
definition ZH_POINT :: nat where "ZH_POINT = 28857"
definition ZH_NEGATIVE :: nat where "ZH_NEGATIVE = 36127"

definition zh_digits :: "(nat \<times> nat) list" where
  "zh_digits =
     [(38646, 0), (12295, 0), (19968, 1), (20108, 2), (20004, 2), (19977, 3), (22235, 4),
      (20116, 5), (20845, 6), (19971, 7), (20843, 8), (20061, 9)]"

definition zh_digit :: "nat \<Rightarrow> nat option" where
  "zh_digit c = map_of zh_digits c"

definition zh_small_unit :: "nat \<Rightarrow> nat option" where
  "zh_small_unit c = map_of [(21313, 10), (30334, 100), (21315, 1000)] c"

text \<open>The decimal digits of a text of Chinese digits; \<open>None\<close> when a character is not a digit.\<close>

fun zh_digit_text :: "jstr \<Rightarrow> jstr option" where
  "zh_digit_text [] = Some []"
| "zh_digit_text (c # s) =
     (case zh_digit c of
        None \<Rightarrow> None
      | Some d \<Rightarrow> (case zh_digit_text s of None \<Rightarrow> None | Some t \<Rightarrow> Some ((48 + d) # t)))"

text \<open>The loop over a section with units: the total, the pending digit, the last unit, whether one was seen.\<close>

fun small_section :: "jstr \<Rightarrow> nat \<Rightarrow> nat option \<Rightarrow> nat \<Rightarrow> bool \<Rightarrow> nat option" where
  "small_section [] acc pending previousUnit sawUnit =
     (if pending = Some 0 then None else Some (acc + (case pending of None \<Rightarrow> 0 | Some d \<Rightarrow> d)))"
| "small_section (c # s) acc pending previousUnit sawUnit =
     (case zh_digit c of
        Some digit \<Rightarrow>
          (case pending of
             Some p \<Rightarrow>
               if p = 0 \<and> digit \<noteq> 0 then small_section s acc (Some digit) previousUnit sawUnit else None
           | None \<Rightarrow> small_section s acc (Some digit) previousUnit sawUnit)
      | None \<Rightarrow>
          (case zh_small_unit c of
             None \<Rightarrow> None
           | Some unitValue \<Rightarrow>
               if unitValue \<ge> previousUnit \<or> pending = Some 0 then None
               else if pending = None \<and> (unitValue \<noteq> 10 \<or> sawUnit) then None
               else
                 small_section s (acc + (case pending of None \<Rightarrow> 1 | Some d \<Rightarrow> d) * unitValue) None unitValue True))"

definition parseSmallSection :: "jstr \<Rightarrow> nat option" where
  "parseSmallSection s =
     (if s = [] then Some 0
      else if \<not> list_ex (\<lambda>c. zh_small_unit c \<noteq> None) s
      then map_option (digits_value 0) (zh_digit_text s)
      else small_section s 0 None 10000 False)"

definition boundedSection :: "jstr \<Rightarrow> nat option" where
  "boundedSection s =
     (case parseSmallSection s of None \<Rightarrow> None | Some n \<Rightarrow> if n \<le> 9999 then Some n else None)"

lemma index_of_bound: "index_of s p = Some i \<Longrightarrow> i + length p \<le> length s"
proof (induction s p arbitrary: i rule: index_of.induct)
  case (2 c s p)
  show ?case
  proof (cases "starts_with (c # s) p")
    case True
    with 2 show ?thesis by (auto simp: starts_with_iff dest: arg_cong [of _ _ length])
  next
    case False
    with "2.prems" obtain j where "index_of s p = Some j" "i = Suc j" by auto
    with "2.IH" [OF False] show ?thesis by fastforce
  qed
qed (auto split: if_splits)

definition sections_below :: "jstr \<Rightarrow> nat option" where
  "sections_below raw =
     (let yiIndex = index_of raw [ZH_HUNDRED_MILLION]; wanIndex = index_of raw [ZH_TEN_THOUSAND]
      in if (yiIndex \<noteq> None \<and> last_index_of raw [ZH_HUNDRED_MILLION] \<noteq> yiIndex) \<or>
            (wanIndex \<noteq> None \<and> last_index_of raw [ZH_TEN_THOUSAND] \<noteq> wanIndex) \<or>
            (case (yiIndex, wanIndex) of (Some y, Some w) \<Rightarrow> y > w | _ \<Rightarrow> False)
         then None
         else if yiIndex = None \<and> wanIndex = None then parseSmallSection raw
         else
           (case (case yiIndex of
                    None \<Rightarrow> Some (0, raw)
                  | Some y \<Rightarrow>
                      (case boundedSection (take y raw) of
                         None \<Rightarrow> None
                       | Some n \<Rightarrow> if n = 0 then None else Some (n * 100000000, drop (y + 1) raw))) of
              None \<Rightarrow> None
            | Some (yi, remainder) \<Rightarrow>
                (case (case index_of remainder [ZH_TEN_THOUSAND] of
                         None \<Rightarrow> Some (yi, remainder)
                       | Some w \<Rightarrow>
                           (case boundedSection (take w remainder) of
                              None \<Rightarrow> None
                            | Some n \<Rightarrow> if n = 0 then None else Some (yi + n * 10000, drop (w + 1) remainder))) of
                   None \<Rightarrow> None
                 | Some (acc, remainder') \<Rightarrow> map_option (\<lambda>n. acc + n) (boundedSection remainder'))))"

function parseChineseInteger :: "jstr \<Rightarrow> nat option" where
  "parseChineseInteger raw =
     (if raw = [] then Some 0
      else
        case index_of raw [ZH_TEN_THOUSAND, ZH_HUNDRED_MILLION] of
          None \<Rightarrow> sections_below raw
        | Some compoundIndex \<Rightarrow>
            if last_index_of raw [ZH_TEN_THOUSAND, ZH_HUNDRED_MILLION] \<noteq> Some compoundIndex \<or>
               list_ex (\<lambda>c. c = ZH_TEN_THOUSAND \<or> c = ZH_HUNDRED_MILLION) (take compoundIndex raw)
            then None
            else
              (case (boundedSection (take compoundIndex raw), parseChineseInteger (drop (compoundIndex + 2) raw)) of
                 (Some left, Some tail) \<Rightarrow>
                   if left = 0 \<or> tail \<ge> 1000000000000 then None else Some (left * 1000000000000 + tail)
               | _ \<Rightarrow> None))"
  by pat_completeness auto
termination
  by (relation "measure length") (auto dest: index_of_bound)

declare parseChineseInteger.simps [simp del]

definition parseChineseFixed :: "jstr \<Rightarrow> FixedDecimal option" where
  "parseChineseFixed raw =
     (let negative = starts_with raw [ZH_NEGATIVE];
          unsigned = (if negative then tl raw else raw);
          whole = takeWhile (\<lambda>c. c \<noteq> ZH_POINT) unsigned;
          after = drop (Suc (length whole)) unsigned
      in if ZH_POINT \<in> set after then None
      else
        case parseChineseInteger whole of
          None \<Rightarrow> None
        | Some integer \<Rightarrow>
            (case zh_digit_text after of
               None \<Rightarrow> None
             | Some decimalDigits \<Rightarrow>
                 let coefficient = int integer * 10 ^ length decimalDigits + digits_int decimalDigits
                 in Some (normalizeFixed
                      \<lparr>fd_coefficient = (if negative then - coefficient else coefficient),
                       fd_scale = length decimalDigits\<rparr>)))"

definition parseNumber :: "jstr \<Rightarrow> FixedDecimal option" where
  "parseNumber raw = (if list_ex is_digit raw then parseArabicFixed raw else parseChineseFixed raw)"

end
