(* ===== verification/FixedDecimalProps.thy ===== *)
theory FixedDecimalProps
  imports FixedDecimal
begin

text \<open>
  What the numbers of the lexer mean: the canonical form keeps the value and is unique, the
  printed form determines it, and the parser of Arabic numerals reads back what is printed.
\<close>

section \<open>The canonical form\<close>

definition normalized :: "FixedDecimal \<Rightarrow> bool" where
  "normalized v \<longleftrightarrow> fd_scale v = 0 \<or> fd_coefficient v mod 10 \<noteq> 0"

definition same_value :: "FixedDecimal \<Rightarrow> FixedDecimal \<Rightarrow> bool" where
  "same_value v w \<longleftrightarrow> fd_coefficient v * 10 ^ fd_scale w = fd_coefficient w * 10 ^ fd_scale v"

lemma strip_zeros_normalized: "normalized (strip_zeros c n)"
  by (induction c n rule: strip_zeros.induct) (auto simp: normalized_def)

lemma strip_zeros_value: "c * 10 ^ fd_scale (strip_zeros c n) = fd_coefficient (strip_zeros c n) * 10 ^ n"
proof (induction c n rule: strip_zeros.induct)
  case (2 c n)
  show ?case
  proof (cases "c mod 10 = 0")
    case True
    then have c: "c = 10 * (c div 10)" by presburger
    have "c * 10 ^ fd_scale (strip_zeros (c div 10) n) = 10 * (c div 10 * 10 ^ fd_scale (strip_zeros (c div 10) n))"
      by (subst c) simp
    with True 2 show ?thesis by simp
  qed simp
qed simp

lemma normalizeFixed_normalized [simp]: "normalized (normalizeFixed v)"
  by (simp add: normalizeFixed_def strip_zeros_normalized) (simp add: normalized_def)

lemma normalizeFixed_value: "same_value v (normalizeFixed v)"
  by (simp add: same_value_def normalizeFixed_def strip_zeros_value)

lemma normalized_unique_le:
  assumes "normalized w" and "same_value v w" and "fd_scale v \<le> fd_scale w"
  shows "v = w"
proof -
  obtain d where d: "fd_scale w = fd_scale v + d" using assms(3) le_Suc_ex by blast
  have "fd_coefficient v * 10 ^ d * 10 ^ fd_scale v = fd_coefficient w * 10 ^ fd_scale v"
    using assms(2) by (simp add: same_value_def d power_add mult_ac)
  then have c: "fd_coefficient w = fd_coefficient v * 10 ^ d" by simp
  have "d = 0"
  proof (rule ccontr)
    assume "d \<noteq> 0"
    then obtain e where "d = Suc e" by (cases d) auto
    with c d assms(1) show False by (simp add: normalized_def mod_mult_left_eq)
  qed
  with c d show ?thesis by (intro FixedDecimal.equality) simp_all
qed

lemma same_value_sym: "same_value v w \<Longrightarrow> same_value w v"
  by (simp add: same_value_def)

lemma same_value_trans:
  assumes "same_value u v" and "same_value v w" shows "same_value u w"
proof -
  let ?c = fd_coefficient and ?s = "\<lambda>x. (10::int) ^ fd_scale x"
  have "?c u * ?s w * ?s v = (?c u * ?s v) * ?s w" by (simp only: mult_ac)
  also have "\<dots> = (?c v * ?s u) * ?s w" using assms(1) by (simp only: same_value_def)
  also have "\<dots> = (?c v * ?s w) * ?s u" by (simp only: mult_ac)
  also have "\<dots> = (?c w * ?s v) * ?s u" using assms(2) by (simp only: same_value_def)
  also have "\<dots> = ?c w * ?s u * ?s v" by (simp only: mult_ac)
  finally have "?c u * ?s w * ?s v = ?c w * ?s u * ?s v" .
  then show ?thesis by (simp add: same_value_def)
qed

lemma normalized_unique:
  assumes "normalized v" and "normalized w" and "same_value v w" shows "v = w"
proof (cases "fd_scale v \<le> fd_scale w")
  case True
  with normalized_unique_le [OF assms(2,3)] show ?thesis .
next
  case False
  with normalized_unique_le [OF assms(1) same_value_sym [OF assms(3)]] show ?thesis by simp
qed

lemma normalizeFixed_idem: "normalized v \<Longrightarrow> normalizeFixed v = v"
  by (rule normalized_unique [OF normalizeFixed_normalized _ same_value_sym [OF normalizeFixed_value]])

section \<open>The printed form\<close>

text \<open>The parts of a printed number: its integer digits and its decimal digits.\<close>

definition whole_digits :: "jstr \<Rightarrow> bool" where
  "whole_digits s \<longleftrightarrow> s = [48] \<or> (\<exists>d ds. s = d # ds \<and> 49 \<le> d \<and> d \<le> 57 \<and> (\<forall>c \<in> set ds. is_digit c))"

definition decimal_tail :: "jstr \<Rightarrow> bool" where
  "decimal_tail s \<longleftrightarrow> s = [] \<or> (\<exists>ds. s = 46 # ds \<and> ds \<noteq> [] \<and> (\<forall>c \<in> set ds. is_digit c))"

lemma is_digit_48: "is_digit 48" by (simp add: is_digit_def)

lemma dec_nat_whole: "whole_digits (dec_nat n)"
proof (cases "n = 0")
  case True
  then show ?thesis by (simp add: whole_digits_def)
next
  case False
  obtain d ds where s: "dec_nat n = d # ds" by (cases "dec_nat n") auto
  have "\<forall>c \<in> set (d # ds). is_digit c" using dec_nat_digits [of n] s by simp
  moreover have "d \<noteq> 48" using dec_nat_head [OF False] s by simp
  ultimately show ?thesis by (auto simp: whole_digits_def s is_digit_def)
qed

text \<open>The digits cut before the last \<open>n\<close> of them, padded so that one stands before the cut.\<close>

lemma padded_digits:
  fixes m :: nat
  assumes "0 < n"
  defines "p \<equiv> padStart (n + 1) (dec_nat m)"
  shows "whole_digits (take (length p - n) p)" and "length (drop (length p - n) p) = n"
    and "\<forall>c \<in> set p. is_digit c" and "digits_value 0 p = m"
proof -
  have zeros: "digits_value 0 (replicate k 48 @ s) = digits_value 0 s" for k s
    by (induction k) simp_all
  show "digits_value 0 p = m" by (simp add: p_def padStart_def zeros)
  show "\<forall>c \<in> set p. is_digit c" using dec_nat_digits by (auto simp: p_def padStart_def is_digit_48)
  have len: "n + 1 \<le> length p" by (simp add: p_def padStart_def)
  then show "length (drop (length p - n) p) = n" by simp
  show "whole_digits (take (length p - n) p)"
  proof (cases "length (dec_nat m) \<le> n")
    case True
    then obtain k where k: "n + 1 - length (dec_nat m) = Suc k" by (metis Suc_diff_le Suc_eq_plus1)
    then have "p = 48 # replicate k 48 @ dec_nat m" "length p = n + 1" using True by (simp_all add: p_def padStart_def)
    then show ?thesis by (simp add: whole_digits_def)
  next
    case False
    then have p: "p = dec_nat m" by (simp add: p_def padStart_def)
    from False have pos: "0 < length p - n" by (simp add: p)
    from dec_nat_whole [of m] show ?thesis
    proof (unfold whole_digits_def, elim disjE exE conjE)
      assume "dec_nat m = [48]"
      with p False assms(1) show "take (length p - n) p = [48] \<or> (\<exists>d ds. take (length p - n) p = d # ds \<and> 49 \<le> d \<and> d \<le> 57 \<and> (\<forall>c\<in>set ds. is_digit c))" by simp
    next
      fix d ds assume d: "dec_nat m = d # ds" "49 \<le> d" "d \<le> 57" "\<forall>c \<in> set ds. is_digit c"
      then have "take (length p - n) p = d # take (length p - n - 1) ds" using pos p by (simp add: take_Cons')
      with d show "take (length p - n) p = [48] \<or> (\<exists>d ds. take (length p - n) p = d # ds \<and> 49 \<le> d \<and> d \<le> 57 \<and> (\<forall>c\<in>set ds. is_digit c))"
        by (auto dest: in_set_takeD)
    qed
  qed
qed

lemma fixedToString_shape:
  obtains whole ds where
    "fixedToString v = (if fd_coefficient (normalizeFixed v) < 0 then [45] else []) @ whole @ (if ds = [] then [] else 46 # ds)"
    and "whole_digits whole" and "\<forall>c \<in> set ds. is_digit c" and "length ds = fd_scale (normalizeFixed v)"
    and "digits_value 0 (whole @ ds) = nat \<bar>fd_coefficient (normalizeFixed v)\<bar>"
proof (cases "fd_scale (normalizeFixed v) = 0")
  case True
  then show thesis
    by (intro that [of "dec_nat (nat \<bar>fd_coefficient (normalizeFixed v)\<bar>)" "[]"])
      (simp_all add: fixedToString_def Let_def dec_nat_whole)
next
  case False
  let ?n = "fd_scale (normalizeFixed v)" and ?m = "nat \<bar>fd_coefficient (normalizeFixed v)\<bar>"
  let ?p = "padStart (?n + 1) (dec_nat ?m)"
  from False have n: "0 < ?n" by simp
  note pad = padded_digits [OF n, of ?m]
  from pad(2) n have "drop (length ?p - ?n) ?p \<noteq> []" by auto
  then show thesis
    using n pad(1,3,4) pad(2)
    by (intro that [of "take (length ?p - ?n) ?p" "drop (length ?p - ?n) ?p"])
      (simp_all only: fixedToString_def Let_def if_True if_False append_take_drop_id in_set_dropD Ball_def, auto dest: in_set_dropD)
qed

section \<open>Reading it back\<close>

lemma digit_step: "is_digit d \<Longrightarrow> rx_match ci digit_rx k (d # s) cs = k s cs"
  by (simp add: digit_rx_def)

lemma star_digits:
  assumes "\<forall>c \<in> set ds. is_digit c" and "s = [] \<or> \<not> is_digit (hd s)" and "k s cs = Some x" and "length ds \<le> n"
  shows "rx_star (rx_match ci digit_rx) n k (ds @ s) cs = Some x"
  using assms
proof (induction ds arbitrary: n)
  case Nil
  then show ?case by (cases n) (auto simp: digit_rx_def split: list.splits)
next
  case (Cons d ds)
  then obtain m where m: "n = Suc m" by (cases n) auto
  with Cons have "rx_star (rx_match ci digit_rx) m k (ds @ s) cs = Some x" by simp
  with m Cons.prems(1) show ?case by (simp add: digit_step)
qed

lemma integer_match:
  assumes "whole_digits w" and "s = [] \<or> \<not> is_digit (hd s)" and "k s cs = Some x"
  shows "rx_match ci integer_rx k (w @ s) cs = Some x"
  using assms(1) unfolding whole_digits_def
proof (elim disjE exE conjE)
  assume "w = [48]"
  with assms(3) show ?thesis by (simp add: integer_rx_def)
next
  fix d ds assume d: "w = d # ds" "49 \<le> d" "d \<le> 57" "\<forall>c \<in> set ds. is_digit c"
  have "rx_star (rx_match ci digit_rx) (length (ds @ s)) k (ds @ s) cs = Some x"
    using d(4) assms(2,3) by (intro star_digits) simp_all
  moreover have "case_fold d \<noteq> case_fold 48" using d(2,3) by (simp add: case_fold_def)
  ultimately show ?thesis using d by (simp add: integer_rx_def nonzero_digit_rx_def)
qed

lemma fraction_match:
  assumes "decimal_tail s" and "k [] cs = Some x"
  shows "rx_match ci fraction_rx k s cs = Some x"
  using assms(1) unfolding decimal_tail_def
proof (elim disjE exE conjE)
  assume "s = []"
  with assms(2) show ?thesis by (simp add: fraction_rx_def)
next
  fix ds assume ds: "s = 46 # ds" "ds \<noteq> []" "\<forall>c \<in> set ds. is_digit c"
  then obtain e es where e: "ds = e # es" by (cases ds) auto
  have "rx_star (rx_match ci digit_rx) (length es) k (es @ []) cs = Some x"
    using ds e assms(2) by (intro star_digits) simp_all
  then have "rx_star (rx_match ci (RSat is_digit)) (length es) k es cs = Some x" by (simp add: digit_rx_def)
  with ds e show ?thesis by (simp add: fraction_rx_def rx_plus_def digit_rx_def)
qed

definition sign :: "bool \<Rightarrow> jstr" where
  "sign negative = (if negative then [45] else [])"

lemma decimal_tail_hd: "decimal_tail s \<Longrightarrow> s = [] \<or> \<not> is_digit (hd s)"
  by (auto simp: decimal_tail_def is_digit_def)

lemma whole_digits_hd: "whole_digits w \<Longrightarrow> \<exists>d ds. w = d # ds \<and> is_digit d"
  by (auto simp: whole_digits_def is_digit_def)

lemma number_matches:
  assumes "whole_digits w" and "decimal_tail s"
  shows "rx_exec False GROUPED_DECIMAL (sign negative @ w @ s) \<noteq> None"
    and "rx_exec False DECIMAL (sign negative @ w @ s) \<noteq> None"
proof -
  obtain d ds where d: "w = d # ds" "is_digit d" using whole_digits_hd [OF assms(1)] by blast
  then have "d \<noteq> 43" "d \<noteq> 45" "d \<noteq> 8722" by (auto simp: is_digit_def)
  note d = d this
  have core: "rx_match False integer_rx (rx_match False fraction_rx (rx_match False REnd k)) (w @ s) [] = Some x"
    "rx_match False integer_rx (rx_match False (RSeq fraction_rx REnd) k) (w @ s) [] = Some x"
    if "k [] [] = Some x" for k :: "(jstr \<times> captures) rx_cont" and x
    using that by (simp_all add: integer_match [OF assms(1) decimal_tail_hd [OF assms(2)]] fraction_match [OF assms(2)])
  show "rx_exec False DECIMAL (sign negative @ w @ s) \<noteq> None"
    using core d by (cases negative) (simp_all add: rx_exec_def DECIMAL_def sign_def)
  show "rx_exec False GROUPED_DECIMAL (sign negative @ w @ s) \<noteq> None"
    using core d by (cases negative) (simp_all add: rx_exec_def GROUPED_DECIMAL_def ARABIC_NUMBER_def sign_def)
qed

lemma parse_printed:
  assumes "whole_digits w" and "\<forall>c \<in> set ds. is_digit c"
  shows "parseArabicFixed (sign negative @ w @ (if ds = [] then [] else 46 # ds)) =
    Some (normalizeFixed \<lparr>fd_coefficient = (if negative then - digits_int (w @ ds) else digits_int (w @ ds)), fd_scale = length ds\<rparr>)"
proof -
  let ?t = "if ds = [] then [] else 46 # ds"
  have tail: "decimal_tail ?t" using assms(2) by (auto simp: decimal_tail_def)
  obtain d es where d: "w = d # es" "is_digit d" using whole_digits_hd [OF assms(1)] by blast
  have w: "\<forall>c \<in> set w. is_digit c" using assms(1) by (auto simp: whole_digits_def is_digit_def)
  have digit: "is_digit c \<Longrightarrow> c \<noteq> 44 \<and> c \<noteq> 8722 \<and> c \<noteq> 46 \<and> c \<noteq> 45 \<and> c \<noteq> 43" for c by (auto simp: is_digit_def)
  have plain: "filter (\<lambda>c. c \<noteq> 44) (sign negative @ w @ ?t) = sign negative @ w @ ?t"
    using w assms(2) digit by (auto simp: sign_def filter_id_conv)
  have keep: "8722 \<notin> set u \<Longrightarrow> replace_first 8722 45 u = u" for u
    by (induction u) auto
  have minus: "replace_first 8722 45 (sign negative @ w @ ?t) = sign negative @ w @ ?t"
    using w assms(2) digit by (intro keep) (auto simp: sign_def)
  have whole: "takeWhile (\<lambda>c. c \<noteq> 46) (w @ ?t) = w"
    using w digit by (auto simp: takeWhile_append2)
  have tailw: "takeWhile (\<lambda>c. c \<noteq> 46) ds = ds"
    using assms(2) digit by (auto simp: takeWhile_eq_all_conv)
  have neg: "starts_with (sign negative @ w @ ?t) [45] = negative" using d digit by (auto simp: sign_def)
  have unsigned: "(if sign negative @ w @ ?t \<noteq> [] \<and> hd (sign negative @ w @ ?t) \<in> {43, 45}
      then tl (sign negative @ w @ ?t) else sign negative @ w @ ?t) = w @ ?t"
    using d digit by (auto simp: sign_def)
  have "drop (Suc (length w)) (w @ ?t) = ds" by simp
  then show ?thesis
    using number_matches [OF assms(1) tail, of negative]
    unfolding parseArabicFixed_def plain minus Let_def neg unsigned whole by (simp add: tailw)
qed

text \<open>The parser reads a printed number back, in its canonical form.\<close>

lemma parse_fixedToString: "parseArabicFixed (fixedToString v) = Some (normalizeFixed v)"
proof -
  let ?n = "normalizeFixed v"
  obtain w ds where s: "fixedToString v = (if fd_coefficient ?n < 0 then [45] else []) @ w @ (if ds = [] then [] else 46 # ds)"
    and w: "whole_digits w" and ds: "\<forall>c \<in> set ds. is_digit c" and len: "length ds = fd_scale ?n"
    and val: "digits_value 0 (w @ ds) = nat \<bar>fd_coefficient ?n\<bar>"
    using fixedToString_shape by metis
  have "(if fd_coefficient ?n < 0 then - digits_int (w @ ds) else digits_int (w @ ds)) = fd_coefficient ?n"
    by (simp add: digits_int_def val)
  then show ?thesis
    using parse_printed [OF w ds, of "fd_coefficient ?n < 0"] normalizeFixed_idem [OF normalizeFixed_normalized, of v] len
    by (cases "normalizeFixed v") (simp add: s sign_def)
qed

lemma fixedToString_chars: "c \<in> set (fixedToString v) \<Longrightarrow> c = 45 \<or> c = 46 \<or> is_digit c"
proof -
  assume c: "c \<in> set (fixedToString v)"
  obtain w ds where s: "fixedToString v = (if fd_coefficient (normalizeFixed v) < 0 then [45] else []) @ w @ (if ds = [] then [] else 46 # ds)"
    and w: "whole_digits w" and ds: "\<forall>c \<in> set ds. is_digit c"
    using fixedToString_shape by metis
  have "\<forall>c \<in> set w. is_digit c" using w by (auto simp: whole_digits_def is_digit_def)
  with c ds show ?thesis unfolding s by (auto split: if_splits)
qed

lemma fixedToString_nonempty: "fixedToString v \<noteq> []"
  using fixedToString_shape [of v] by (metis append_is_Nil_conv whole_digits_hd list.distinct(1))

text \<open>
  C30: the printed form of a number is the same exactly when the value is: two quantities are
  compared as strings, and the comparison neither separates equal values written with
  different scales nor confuses different ones.
\<close>

theorem printed_equal_iff_same_value:
  "fixedToString v = fixedToString w \<longleftrightarrow>
     fd_coefficient v * 10 ^ fd_scale w = fd_coefficient w * 10 ^ fd_scale v"
proof
  assume "fixedToString v = fixedToString w"
  then have "normalizeFixed v = normalizeFixed w" using parse_fixedToString by (metis option.inject)
  then have "same_value v w" by (metis normalizeFixed_value same_value_sym same_value_trans)
  then show "fd_coefficient v * 10 ^ fd_scale w = fd_coefficient w * 10 ^ fd_scale v" by (simp add: same_value_def)
next
  assume "fd_coefficient v * 10 ^ fd_scale w = fd_coefficient w * 10 ^ fd_scale v"
  then have "same_value v w" by (simp add: same_value_def)
  then have "same_value (normalizeFixed v) (normalizeFixed w)"
    by (metis normalizeFixed_value same_value_sym same_value_trans)
  then have "normalizeFixed v = normalizeFixed w" by (intro normalized_unique) simp_all
  then show "fixedToString v = fixedToString w" by (simp add: fixedToString_def)
qed

end
