(* ===== verification/AtomicRenderer.thy ===== *)
theory AtomicRenderer
  imports AtomicContracts CanonicalJson
begin

text \<open>
  The renderer of a verified draft (\<open>citation/atomic-grounding/atomic-renderer.ts\<close>): the
  fragments in their order, with every claim escaped to plain text and its position in the
  output recorded.  All refusals are the single \<open>TypeError\<close> \<open>RENDER_FAILED\<close>.
\<close>

datatype render_error = RENDER_FAILED_ERROR

section \<open>Plain text\<close>

definition hasForbiddenControl :: "jstr \<Rightarrow> bool" where
  "hasForbiddenControl s \<longleftrightarrow> list_ex (\<lambda>c. c \<le> 0x1f \<or> (0x7f \<le> c \<and> c \<le> 0x9f)) s"

definition ascii_punctuation :: "nat \<Rightarrow> bool" where
  "ascii_punctuation c \<longleftrightarrow>
     (0x21 \<le> c \<and> c \<le> 0x2f) \<or> (0x3a \<le> c \<and> c \<le> 0x40) \<or> (0x5b \<le> c \<and> c \<le> 0x60) \<or> (0x7b \<le> c \<and> c \<le> 0x7e)"

text \<open>
  The loop over the code points of a well-formed string; a code point above the basic plane is
  never punctuation, so its two code units are copied one after the other.
\<close>

fun escape_units :: "jstr \<Rightarrow> jstr" where
  "escape_units [] = []"
| "escape_units (c # s) = (if ascii_punctuation c then 92 # c # escape_units s else c # escape_units s)"

definition escapePlainTextV1 :: "platform \<Rightarrow> jstr \<Rightarrow> (render_error, jstr) result" where
  "escapePlainTextV1 P s =
     (if \<not> isWellFormedUnicodeScalarV1 s \<or> nfc P s \<noteq> s \<or> hasForbiddenControl s
      then Inl RENDER_FAILED_ERROR else Inr (escape_units s))"

definition validateContextLabel :: "platform \<Rightarrow> jstr \<Rightarrow> (render_error, unit) result" where
  "validateContextLabel P label =
     guardE (\<not> (\<not> isWellFormedUnicodeScalarV1 label \<or> nfc P label \<noteq> label \<or> utf8_length label > 200 \<or>
       hasForbiddenControl label \<or> 60 \<in> set label \<or> 62 \<in> set label \<or> js_includes label (js ''--'')))
       RENDER_FAILED_ERROR"

fun structure_frame :: "structure_presentation \<Rightarrow> jstr \<times> jstr" where
  "structure_frame HEADING_1 = (js ''# '', [])"
| "structure_frame HEADING_2 = (js ''## '', [])"
| "structure_frame HEADING_3 = (js ''### '', [])"
| "structure_frame COLUMN = (js ''<!-- column:'', js '' -->'')"

definition structureBytes :: "platform \<Rightarrow> structure_presentation \<Rightarrow> jstr \<Rightarrow> (render_error, jstr) result" where
  "structureBytes P presentation label =
     bindE (escapePlainTextV1 P label) (\<lambda>escapedLabel.
     case structure_frame presentation of (before, after) \<Rightarrow> Inr (before @ escapedLabel @ after))"

fun claim_mark :: "claim_presentation \<Rightarrow> jstr" where
  "claim_mark SENTENCE = []"
| "claim_mark BULLET = js ''- ''"
| "claim_mark ORDERED_ITEM = js ''1. ''"

definition claimPrefix :: "claim_presentation \<Rightarrow> nat \<Rightarrow> jstr" where
  "claimPrefix presentation paragraphOrdinal =
     js ''<!-- paragraph_key:p'' @ dec_nat paragraphOrdinal @ js '' -->'' @ 10 # claim_mark presentation"

fun separator_bytes :: "separator_token \<Rightarrow> jstr" where
  "separator_bytes SPACE = [32]"
| "separator_bytes LINE_BREAK = [10]"
| "separator_bytes PARAGRAPH_BREAK = [10, 10]"

section \<open>The rendering loop\<close>

record rendered_claim =
  rc_candidate_claim_key :: jstr
  rc_rendered_claim_text :: jstr
  rc_output_start :: nat
  rc_output_end :: nat
  rc_fragment_ordinal :: nat
  rc_previous_structure_id :: "jstr option"
  rc_next_structure_id :: "jstr option"

record AtomicRenderResult =
  ar_text :: jstr
  ar_utf8_byte_length :: nat
  ar_utf16_length :: nat
  ar_claims :: "rendered_claim list"

record render_state =
  rs_text :: jstr
  rs_paragraph_ordinal :: nat
  rs_consumed :: "jstr list"
  rs_rendered :: "rendered_claim list"

record render_maps =
  rm_contexts :: "jstr \<Rightarrow> render_context_entry option"
  rm_fragments :: "jstr \<Rightarrow> RenderFragmentProposal option"
  rm_claims :: "jstr \<Rightarrow> AtomicClaimProposal option"
  rm_verified :: "nat \<Rightarrow> AtomicVerifiedClaimV1 option"

definition render_claim ::
    "platform \<Rightarrow> render_maps \<Rightarrow> nat \<Rightarrow> jstr \<Rightarrow> claim_presentation \<Rightarrow> render_state \<Rightarrow> (render_error, render_state) result" where
  "render_claim P M ordinal claimId presentation st =
     (case (rm_claims M claimId, rm_verified M ordinal) of
        (Some proposalClaim, Some verified) \<Rightarrow>
          if claimId \<in> set (rs_consumed st) \<or>
             cc_source_claim_text_nfc (vc_base verified) \<noteq> ac_claim_text proposalClaim \<or>
             cc_presentation (vc_base verified) \<noteq> presentation
          then Inl RENDER_FAILED_ERROR
          else
            bindE (escapePlainTextV1 P (cc_source_claim_text_nfc (vc_base verified))) (\<lambda>rendered.
            let paragraphOrdinal = rs_paragraph_ordinal st + 1;
                text' = rs_text st @ claimPrefix presentation paragraphOrdinal
            in Inr \<lparr>rs_text = text' @ rendered, rs_paragraph_ordinal = paragraphOrdinal,
                 rs_consumed = claimId # rs_consumed st,
                 rs_rendered = rs_rendered st @
                   [\<lparr>rc_candidate_claim_key = vc_candidate_claim_key verified, rc_rendered_claim_text = rendered,
                     rc_output_start = length text', rc_output_end = length text' + length rendered,
                     rc_fragment_ordinal = ordinal,
                     rc_previous_structure_id = cc_previous_structure_id (vc_base verified),
                     rc_next_structure_id = cc_next_structure_id (vc_base verified)\<rparr>]\<rparr>)
      | _ \<Rightarrow> Inl RENDER_FAILED_ERROR)"

definition render_fragment ::
    "platform \<Rightarrow> render_maps \<Rightarrow> nat \<Rightarrow> jstr \<Rightarrow> render_state \<Rightarrow> (render_error, render_state) result" where
  "render_fragment P M ordinal fragmentId st =
     (case rm_fragments M fragmentId of
        None \<Rightarrow> Inl RENDER_FAILED_ERROR
      | Some (Separator _ token) \<Rightarrow> Inr (st\<lparr>rs_text := rs_text st @ separator_bytes token\<rparr>)
      | Some (StructureRef _ structureId presentation) \<Rightarrow>
          (case rm_contexts M structureId of
             None \<Rightarrow> Inl RENDER_FAILED_ERROR
           | Some context \<Rightarrow>
               if re_presentation context \<noteq> presentation then Inl RENDER_FAILED_ERROR
               else bindE (structureBytes P (re_presentation context) (re_label_nfc context)) (\<lambda>bytes.
                    Inr (st\<lparr>rs_text := rs_text st @ bytes\<rparr>)))
      | Some (ClaimRef _ claimId presentation) \<Rightarrow> render_claim P M ordinal claimId presentation st)"

fun render_loop ::
    "platform \<Rightarrow> render_maps \<Rightarrow> nat \<Rightarrow> jstr list \<Rightarrow> render_state \<Rightarrow> (render_error, render_state) result" where
  "render_loop P M ordinal [] st = Inr st"
| "render_loop P M ordinal (fragmentId # ids) st =
     bindE (render_fragment P M ordinal fragmentId st) (\<lambda>st'. render_loop P M (Suc ordinal) ids st')"

text \<open>A \<open>Map\<close> that refuses a second entry under a key.\<close>

fun unique_map :: "('a \<Rightarrow> 'k) \<Rightarrow> 'a list \<Rightarrow> (render_error, 'k \<Rightarrow> 'a option) result" where
  "unique_map key [] = Inr (\<lambda>_. None)"
| "unique_map key (x # xs) =
     bindE (unique_map key xs) (\<lambda>m. if m (key x) \<noteq> None then Inl RENDER_FAILED_ERROR else Inr (m(key x \<mapsto> x)))"

definition renderAtomicDraftV1 ::
    "platform \<Rightarrow> AtomicVerificationResult \<Rightarrow> render_context_entry list \<Rightarrow> (render_error, AtomicRenderResult) result" where
  "renderAtomicDraftV1 P verification context_entries =
     (let proposal = vr_canonical_proposal verification
      in if gd_status proposal \<noteq> DRAFT then Inl RENDER_FAILED_ERROR
      else
      bindE (mapE (\<lambda>entry. validateContextLabel P (re_label_nfc entry)) context_entries) (\<lambda>_.
      bindE (unique_map re_structure_id context_entries) (\<lambda>contexts.
      bindE (unique_map fragment_id (gd_fragments proposal)) (\<lambda>fragments.
      if length (gd_ordering proposal) \<noteq> length (gd_fragments proposal) \<or> \<not> distinct (gd_ordering proposal)
      then Inl RENDER_FAILED_ERROR
      else
      bindE (unique_map ac_proposal_claim_id (gd_claims proposal)) (\<lambda>proposalClaims.
      bindE (unique_map (\<lambda>c. cc_ordinal (vc_base c)) (vr_claims verification)) (\<lambda>verifiedByOrdinal.
      bindE (render_loop P
              \<lparr>rm_contexts = contexts, rm_fragments = fragments, rm_claims = proposalClaims, rm_verified = verifiedByOrdinal\<rparr>
              0 (gd_ordering proposal)
              \<lparr>rs_text = [], rs_paragraph_ordinal = 0, rs_consumed = [], rs_rendered = []\<rparr>) (\<lambda>st.
      if length (rs_consumed st) \<noteq> length (gd_claims proposal) \<or>
         length (rs_rendered st) \<noteq> length (vr_claims verification)
      then Inl RENDER_FAILED_ERROR
      else Inr \<lparr>ar_text = rs_text st, ar_utf8_byte_length = utf8_length (rs_text st),
            ar_utf16_length = length (rs_text st), ar_claims = rs_rendered st\<rparr>)))))))"

end
