(* ===== verification/RenderContext.thy ===== *)
theory RenderContext
  imports AtomicRenderer JsonText
begin

text \<open>
  The approved render context (\<open>citation/atomic-grounding/approved-render-context.service.ts\<close>): the
  headings and columns a draft may refer to, read from the workflow's input and the project's
  current directory, outline and style template, and the check of a context that was stored.
  Every refusal is the one \<open>TypeError\<close> \<open>RENDER_CONTEXT_INVALID\<close>.
\<close>

datatype render_context_error = InvalidRenderContext

type_synonym 'a context_result = "(render_context_error, 'a) result"

definition APPROVED_RENDER_CONTEXT_VERSION :: jstr where
  "APPROVED_RENDER_CONTEXT_VERSION = js ''approved-render-context.v1''"

section \<open>Fields\<close>

definition PRESENTATIONS :: "structure_presentation list" where
  "PRESENTATIONS = [HEADING_1, HEADING_2, HEADING_3, COLUMN]"

fun source_kind_text :: "render_source_kind \<Rightarrow> string" where
  "source_kind_text WORKFLOW_INPUT = ''workflow_input''"
| "source_kind_text DIRECTORY_SOURCE = ''directory''"
| "source_kind_text OUTLINE_SOURCE = ''outline''"
| "source_kind_text STYLE_TEMPLATE = ''style_template''"

definition SOURCE_KINDS :: "render_source_kind list" where
  "SOURCE_KINDS = [WORKFLOW_INPUT, DIRECTORY_SOURCE, OUTLINE_SOURCE, STYLE_TEMPLATE]"

text \<open>The member of a list of constants a value is the string of.\<close>

definition member_of :: "jsval \<Rightarrow> 'a list \<Rightarrow> ('a \<Rightarrow> string) \<Rightarrow> 'a context_result" where
  "member_of v values name =
     (case v of
        JStr s \<Rightarrow> (case find (\<lambda>x. js (name x) = s) values of None \<Rightarrow> Inl InvalidRenderContext | Some x \<Rightarrow> Inr x)
      | _ \<Rightarrow> Inl InvalidRenderContext)"

definition presentation :: "jsval \<Rightarrow> structure_presentation context_result" where
  "presentation v = member_of v PRESENTATIONS structure_presentation_text"

definition forbidden_context_control :: "jstr \<Rightarrow> bool" where
  "forbidden_context_control s \<longleftrightarrow> list_ex (\<lambda>c. c \<le> 0x1f \<or> (0x7f \<le> c \<and> c \<le> 0x9f)) s"

definition safeId :: "platform \<Rightarrow> jsval \<Rightarrow> jstr context_result" where
  "safeId P v = (case v of JStr s \<Rightarrow> if is_safe_id s then Inr (nfc P s) else Inl InvalidRenderContext | _ \<Rightarrow> Inl InvalidRenderContext)"

definition safeVersion :: "platform \<Rightarrow> jsval \<Rightarrow> jstr context_result" where
  "safeVersion P v =
     (let version = (if is_safe_integer v \<and> int_of_number v \<ge> 0 then JStr (dec_int (int_of_number v)) else v)
      in case version of
           JStr s \<Rightarrow>
             if s = [] \<or> nfc P s \<noteq> s \<or> \<not> isWellFormedUnicodeScalarV1 s \<or> utf8_length s > 512 \<or> forbidden_context_control s
             then Inl InvalidRenderContext else Inr s
         | _ \<Rightarrow> Inl InvalidRenderContext)"

definition safeLabel :: "platform \<Rightarrow> jsval \<Rightarrow> jstr context_result" where
  "safeLabel P v =
     (case v of
        JStr s \<Rightarrow>
          if \<not> isWellFormedUnicodeScalarV1 s then Inl InvalidRenderContext
          else
            let label = nfc P s
            in if label = [] \<or> utf8_length label > 200 \<or> forbidden_context_control label \<or> 60 \<in> set label \<or>
                  62 \<in> set label \<or> js_includes label (js ''--'')
               then Inl InvalidRenderContext else Inr label
      | _ \<Rightarrow> Inl InvalidRenderContext)"

text \<open>
  The version of a row with a timestamp: a \<open>Date\<close> of the driver, or a text that the
  implementation-defined \<open>Date\<close> constructor reads, which is the parameter \<open>date_ms\<close>.
\<close>

datatype date_column = DateAt nat | InvalidDate | DateText jstr | OtherColumn

definition stableDateVersion :: "(jstr \<Rightarrow> nat option) \<Rightarrow> date_column \<Rightarrow> jstr context_result" where
  "stableDateVersion date_ms v =
     (case v of
        DateAt ms \<Rightarrow> Inr (iso_timestamp ms)
      | DateText s \<Rightarrow>
          if s = [] then Inl InvalidRenderContext
          else (case date_ms s of None \<Rightarrow> Inl InvalidRenderContext | Some ms \<Rightarrow> Inr (iso_timestamp ms))
      | _ \<Rightarrow> Inl InvalidRenderContext)"

definition plainRecord :: "jsval \<Rightarrow> (jstr \<times> jsval) list context_result" where
  "plainRecord v = (case v of JObj kvs \<Rightarrow> Inr kvs | _ \<Rightarrow> Inl InvalidRenderContext)"

definition exactRecord :: "jsval \<Rightarrow> string list \<Rightarrow> (jstr \<times> jsval) list context_result" where
  "exactRecord v keys =
     bindE (plainRecord v) (\<lambda>kvs.
     if length kvs \<noteq> length keys \<or> list_ex (\<lambda>kv. fst kv \<notin> set (map js keys)) kvs
     then Inl InvalidRenderContext else Inr kvs)"

definition decodedJson :: "platform \<Rightarrow> jsval \<Rightarrow> jsval context_result" where
  "decodedJson P v =
     (case v of
        JStr s \<Rightarrow> (case json_parse P s of None \<Rightarrow> Inl InvalidRenderContext | Some x \<Rightarrow> Inr x)
      | _ \<Rightarrow> Inr v)"

definition jsonRecord :: "platform \<Rightarrow> jsval \<Rightarrow> (jstr \<times> jsval) list context_result" where
  "jsonRecord P v = bindE (decodedJson P v) plainRecord"

text \<open>\<open>a ?? b\<close>, and the values that count as true.\<close>

definition coalesce :: "jsval \<Rightarrow> jsval \<Rightarrow> jsval" where
  "coalesce a b = (if a = JUndef \<or> a = JNull then b else a)"

fun truthy :: "jsval \<Rightarrow> bool" where
  "truthy JUndef = False"
| "truthy JNull = False"
| "truthy (JBool b) = b"
| "truthy (JNum n) = (n \<noteq> NInt 0 \<and> n \<noteq> NNegZero \<and> n \<noteq> NNaN)"
| "truthy (JStr s) = (s \<noteq> [])"
| "truthy _ = True"

definition filled :: "jstr option \<Rightarrow> bool" where
  "filled x \<longleftrightarrow> (case x of None \<Rightarrow> False | Some s \<Rightarrow> s \<noteq> [])"

section \<open>Checking a context\<close>

definition ENTRY_KEYS :: "string list" where
  "ENTRY_KEYS = [''structure_id'', ''source_kind'', ''source_id'', ''source_version'', ''label_nfc'', ''presentation'']"

definition parse_entry :: "platform \<Rightarrow> jsval \<Rightarrow> render_context_entry context_result" where
  "parse_entry P raw =
     bindE (exactRecord raw ENTRY_KEYS) (\<lambda>entry.
     bindE (safeId P (get_prop entry (js ''structure_id''))) (\<lambda>structureId.
     bindE (safeId P (get_prop entry (js ''source_id''))) (\<lambda>sourceId.
     bindE (safeVersion P (get_prop entry (js ''source_version''))) (\<lambda>sourceVersion.
     bindE (safeLabel P (get_prop entry (js ''label_nfc''))) (\<lambda>label.
     bindE (member_of (get_prop entry (js ''source_kind'')) SOURCE_KINDS source_kind_text) (\<lambda>kind.
     bindE (presentation (get_prop entry (js ''presentation''))) (\<lambda>shown.
     Inr \<lparr>re_structure_id = structureId, re_source_kind = kind, re_source_id = sourceId,
       re_source_version = sourceVersion, re_label_nfc = label, re_presentation = shown\<rparr>)))))))"

definition ordered_entries :: "render_context_entry list \<Rightarrow> render_context_entry list context_result" where
  "ordered_entries entries =
     (let sorted_entries = sort_key re_structure_id entries
      in if \<not> distinct (map re_structure_id sorted_entries) then Inl InvalidRenderContext else Inr sorted_entries)"

definition validateApprovedRenderContextV1 :: "platform \<Rightarrow> jsval \<Rightarrow> render_context_entry list context_result" where
  "validateApprovedRenderContextV1 P v =
     bindE (exactRecord v [''context_version'', ''entries'']) (\<lambda>context.
     case get_prop context (js ''entries'') of
       JArr raws \<Rightarrow>
         if get_prop context (js ''context_version'') \<noteq> JStr APPROVED_RENDER_CONTEXT_VERSION then Inl InvalidRenderContext
         else bindE (mapE (parse_entry P) raws) ordered_entries
     | _ \<Rightarrow> Inl InvalidRenderContext)"

text \<open>A context as the value that is checked, digested and stored.\<close>

definition entry_value :: "render_context_entry \<Rightarrow> jsval" where
  "entry_value e = JObj
     [(js ''structure_id'', JStr (re_structure_id e)), (js ''source_kind'', JStr (js (source_kind_text (re_source_kind e)))),
      (js ''source_id'', JStr (re_source_id e)), (js ''source_version'', JStr (re_source_version e)),
      (js ''label_nfc'', JStr (re_label_nfc e)),
      (js ''presentation'', JStr (js (structure_presentation_text (re_presentation e))))]"

definition context_value :: "render_context_entry list \<Rightarrow> jsval" where
  "context_value entries = JObj
     [(js ''context_version'', JStr APPROVED_RENDER_CONTEXT_VERSION), (js ''entries'', JArr (map entry_value entries))]"

section \<open>The rows read\<close>

record context_job_row =
  cj_id :: jstr
  cj_project_id :: jstr
  cj_request_hash :: jsval
  cj_input :: jsval

record version_row =
  ve_id :: jstr
  ve_project_id :: jstr
  ve_version_number :: jsval
  ve_content :: jsval
  ve_is_current :: bool
  ve_chapter_node_id :: "jstr option"
  ve_section_node_id :: "jstr option"

record style_row =
  st_id :: jstr
  st_project_id :: jstr
  st_updated_at :: date_column
  st_features :: jsval
  st_completed :: bool

record context_tables =
  ct_workflow_jobs :: "context_job_row list"
  ct_directory_versions :: "version_row list"
  ct_outline_versions :: "version_row list"
  ct_style_templates :: "style_row list"

definition one_row :: "'a list \<Rightarrow> 'a context_result" where
  "one_row rows = (case rows of [r] \<Rightarrow> Inr r | _ \<Rightarrow> Inl InvalidRenderContext)"

definition optionalOne :: "'a list \<Rightarrow> 'a option context_result" where
  "optionalOne rows = (case rows of [] \<Rightarrow> Inr None | [r] \<Rightarrow> Inr (Some r) | _ \<Rightarrow> Inl InvalidRenderContext)"

section \<open>Entries of the sources\<close>

definition entry_of ::
    "render_source_kind \<Rightarrow> jstr \<Rightarrow> jstr \<Rightarrow> jstr \<Rightarrow> jstr \<Rightarrow> structure_presentation \<Rightarrow> render_context_entry" where
  "entry_of kind sourceId sourceVersion structureId label shown =
     \<lparr>re_structure_id = structureId, re_source_kind = kind, re_source_id = sourceId,
      re_source_version = sourceVersion, re_label_nfc = label, re_presentation = shown\<rparr>"

definition explicit_entry :: "platform \<Rightarrow> jstr \<Rightarrow> jstr \<Rightarrow> jsval \<Rightarrow> render_context_entry context_result" where
  "explicit_entry P sourceId sourceVersion raw =
     bindE (plainRecord raw) (\<lambda>item.
     bindE (safeId P (get_prop item (js ''structure_id''))) (\<lambda>structureId.
     bindE (safeLabel P (coalesce (get_prop item (js ''label'')) (get_prop item (js ''label_nfc'')))) (\<lambda>label.
     bindE (presentation (get_prop item (js ''presentation''))) (\<lambda>shown.
     Inr (entry_of WORKFLOW_INPUT sourceId sourceVersion structureId label shown)))))"

definition title_entry :: "platform \<Rightarrow> jstr \<Rightarrow> jstr \<Rightarrow> string \<times> jsval \<times> structure_presentation \<Rightarrow> render_context_entry list context_result" where
  "title_entry P sourceId sourceVersion common =
     (case common of (structureId, label, shown) \<Rightarrow>
        if \<not> is_string label \<or> label = JStr [] then Inr []
        else bindE (safeLabel P label) (\<lambda>text.
             Inr [entry_of WORKFLOW_INPUT sourceId sourceVersion (js structureId) text shown]))"

definition workflowEntries :: "platform \<Rightarrow> context_job_row \<Rightarrow> (jstr \<times> jsval) list \<Rightarrow> render_context_entry list context_result" where
  "workflowEntries P row input =
     bindE (safeId P (JStr (cj_id row))) (\<lambda>sourceId.
     bindE (safeVersion P (cj_request_hash row)) (\<lambda>sourceVersion.
     bindE (case get_prop input (js ''render_context_entries'') of
              JArr raws \<Rightarrow> mapE (explicit_entry P sourceId sourceVersion) raws
            | _ \<Rightarrow> Inr []) (\<lambda>explicit.
     bindE (mapE (title_entry P sourceId sourceVersion)
              [(''workflow:chapter_title'', get_prop input (js ''chapter_title''), HEADING_1),
               (''workflow:section_title'', get_prop input (js ''section_title''), HEADING_2)]) (\<lambda>common.
     Inr (explicit @ concat common)))))"

datatype directory_node_type = CHAPTER_NODE | SECTION_NODE

record directory_node =
  dn_raw :: "(jstr \<times> jsval) list"
  dn_node_id :: jstr
  dn_parent_node_id :: "jstr option"
  dn_node_type :: directory_node_type

definition parse_node :: "platform \<Rightarrow> jsval \<Rightarrow> directory_node context_result" where
  "parse_node P raw =
     bindE (plainRecord raw) (\<lambda>node.
     bindE (safeId P (coalesce (get_prop node (js ''structure_id''))
              (coalesce (get_prop node (js ''node_id'')) (get_prop node (js ''id''))))) (\<lambda>nodeId.
     bindE (member_of (get_prop node (js ''node_type'')) [CHAPTER_NODE, SECTION_NODE]
              (\<lambda>t. case t of CHAPTER_NODE \<Rightarrow> ''chapter'' | SECTION_NODE \<Rightarrow> ''section'')) (\<lambda>nodeType.
     bindE (if get_prop node (js ''parent_node_id'') = JUndef \<or> get_prop node (js ''parent_node_id'') = JNull then Inr None
            else bindE (safeId P (get_prop node (js ''parent_node_id''))) (\<lambda>p. Inr (Some p))) (\<lambda>parentNodeId.
     Inr \<lparr>dn_raw = node, dn_node_id = nodeId, dn_parent_node_id = parentNodeId, dn_node_type = nodeType\<rparr>))))"

text \<open>The nodes under their identifiers; a repeated identifier is refused.\<close>

definition directory_nodes :: "platform \<Rightarrow> jsval list \<Rightarrow> (jstr \<times> directory_node) list context_result" where
  "directory_nodes P raws =
     bindE (mapE (parse_node P) raws) (\<lambda>nodes.
     if \<not> distinct (map dn_node_id nodes) then Inl InvalidRenderContext
     else Inr (map (\<lambda>n. (dn_node_id n, n)) nodes))"

text \<open>The walk from a node to its root, which refuses a cycle and an unknown parent.\<close>

function ancestors :: "(jstr \<times> directory_node) list \<Rightarrow> directory_node \<Rightarrow> jstr list \<Rightarrow> directory_node list context_result" where
  "ancestors nodes cursor seen =
     (if dn_node_id cursor \<in> set seen \<or> dn_node_id cursor \<notin> set (map fst nodes) then Inl InvalidRenderContext
      else
        case dn_parent_node_id cursor of
          None \<Rightarrow> Inr [cursor]
        | Some p \<Rightarrow>
            (case map_of nodes p of
               None \<Rightarrow> Inl InvalidRenderContext
             | Some parent \<Rightarrow>
                 bindE (ancestors nodes parent (dn_node_id cursor # seen)) (\<lambda>rest. Inr (cursor # rest))))"
  by pat_completeness auto
termination
  by (relation "measure (\<lambda>(nodes, cursor, seen). card (set (map fst nodes) - set seen))")
    (fastforce simp: card_gt_0_iff intro!: diff_less)+

declare ancestors.simps [simp del]

definition node_entry :: "platform \<Rightarrow> jstr \<Rightarrow> jstr \<Rightarrow> directory_node \<Rightarrow> render_context_entry context_result" where
  "node_entry P sourceId sourceVersion node =
     bindE (safeLabel P (coalesce (get_prop (dn_raw node) (js ''label'')) (get_prop (dn_raw node) (js ''title'')))) (\<lambda>label.
     bindE (if get_prop (dn_raw node) (js ''presentation'') = JUndef
            then Inr (case dn_node_type node of CHAPTER_NODE \<Rightarrow> HEADING_1 | SECTION_NODE \<Rightarrow> HEADING_2)
            else presentation (get_prop (dn_raw node) (js ''presentation''))) (\<lambda>shown.
     Inr (entry_of DIRECTORY_SOURCE sourceId sourceVersion (dn_node_id node) label shown)))"

definition directoryEntries ::
    "platform \<Rightarrow> version_row \<Rightarrow> jstr option \<Rightarrow> jstr option \<Rightarrow> render_context_entry list context_result" where
  "directoryEntries P row chapterNodeId sectionNodeId =
     (if \<not> filled chapterNodeId \<or> (sectionNodeId \<noteq> None \<and> sectionNodeId = chapterNodeId) then Inl InvalidRenderContext
      else
      bindE (safeId P (JStr (ve_id row))) (\<lambda>sourceId.
      bindE (safeVersion P (ve_version_number row)) (\<lambda>sourceVersion.
      bindE (decodedJson P (ve_content row)) (\<lambda>decoded.
      bindE (case decoded of
               JArr raws \<Rightarrow> Inr raws
             | _ \<Rightarrow> bindE (plainRecord decoded) (\<lambda>content.
                    Inr (case get_prop content (js ''nodes'') of JArr raws \<Rightarrow> raws | _ \<Rightarrow> []))) (\<lambda>rawNodes.
      bindE (directory_nodes P rawNodes) (\<lambda>nodes.
      case map_of nodes (the chapterNodeId) of
        None \<Rightarrow> Inl InvalidRenderContext
      | Some chapter \<Rightarrow>
          if dn_node_type chapter \<noteq> CHAPTER_NODE then Inl InvalidRenderContext
          else
            (case (if filled sectionNodeId then map_of nodes (the sectionNodeId) else Some chapter) of
               None \<Rightarrow> Inl InvalidRenderContext
             | Some target \<Rightarrow>
                 if filled sectionNodeId \<and> dn_node_type target \<noteq> SECTION_NODE then Inl InvalidRenderContext
                 else
                 bindE (ancestors nodes target []) (\<lambda>selected.
                 if the chapterNodeId \<notin> set (map dn_node_id selected) then Inl InvalidRenderContext
                 else mapE (node_entry P sourceId sourceVersion) selected))))))))"

definition outline_prefix :: "jstr \<Rightarrow> string \<Rightarrow> jstr" where
  "outline_prefix sourceId suffix = js ''outline:'' @ sourceId @ js suffix"

definition outline_section :: "platform \<Rightarrow> jstr \<Rightarrow> jstr \<Rightarrow> nat \<Rightarrow> jsval \<Rightarrow> render_context_entry context_result" where
  "outline_section P sourceId sourceVersion index raw =
     bindE (plainRecord raw) (\<lambda>item.
     bindE (safeId P (coalesce (get_prop item (js ''structure_id''))
              (JStr (outline_prefix sourceId '':column:'' @ dec_nat index)))) (\<lambda>structureId.
     bindE (safeLabel P (coalesce (get_prop item (js ''label'')) (get_prop item (js ''column'')))) (\<lambda>label.
     bindE (if get_prop item (js ''presentation'') = JUndef then Inr COLUMN
            else presentation (get_prop item (js ''presentation''))) (\<lambda>shown.
     Inr (entry_of OUTLINE_SOURCE sourceId sourceVersion structureId label shown)))))"

definition outline_title :: "platform \<Rightarrow> jstr \<Rightarrow> jstr \<Rightarrow> (jstr \<times> jsval) list \<Rightarrow> render_context_entry list context_result" where
  "outline_title P sourceId sourceVersion content =
     (if \<not> is_string (get_prop content (js ''node_title'')) \<or> get_prop content (js ''node_title'') = JStr [] then Inr []
      else
      bindE (safeId P (coalesce (get_prop content (js ''structure_id'')) (JStr (outline_prefix sourceId '':node-title'')))) (\<lambda>structureId.
      bindE (safeLabel P (get_prop content (js ''node_title''))) (\<lambda>label.
      bindE (if get_prop content (js ''presentation'') = JUndef then Inr HEADING_2
             else presentation (get_prop content (js ''presentation''))) (\<lambda>shown.
      Inr [entry_of OUTLINE_SOURCE sourceId sourceVersion structureId label shown]))))"

definition outlineEntries :: "platform \<Rightarrow> version_row \<Rightarrow> render_context_entry list context_result" where
  "outlineEntries P row =
     bindE (safeId P (JStr (ve_id row))) (\<lambda>sourceId.
     bindE (safeVersion P (ve_version_number row)) (\<lambda>sourceVersion.
     bindE (jsonRecord P (ve_content row)) (\<lambda>content.
     bindE (outline_title P sourceId sourceVersion content) (\<lambda>titles.
     bindE (case get_prop content (js ''sections'') of
              JArr raws \<Rightarrow> mapE (\<lambda>(index, raw). outline_section P sourceId sourceVersion index raw) (enumerate 0 raws)
            | _ \<Rightarrow> Inr []) (\<lambda>columns.
     Inr (titles @ columns))))))"

text \<open>The walk over the tree of a style template, a node before its children.\<close>

lemma child_smaller:
  assumes "get_prop kvs k = JArr vs" and "v \<in> set vs"
  shows "size v < size (JObj kvs)"
proof -
  from assms(1) have "(k, JArr vs) \<in> set kvs"
    by (auto simp: get_prop_def split: option.splits dest: map_of_SomeD)
  then have "size (JArr vs) \<le> size_list (size_prod (\<lambda>_. 0) size) kvs"
    by (induction kvs) auto
  moreover have "size v \<le> size_list size vs" using assms(2) by (rule size_list_estimation') simp
  ultimately show ?thesis by simp
qed

function style_nodes :: "platform \<Rightarrow> jstr \<Rightarrow> jstr \<Rightarrow> jsval \<Rightarrow> render_context_entry list context_result" where
  "style_nodes P sourceId sourceVersion raw =
     (case raw of
        JObj node \<Rightarrow>
          bindE (safeId P (coalesce (get_prop node (js ''structure_id'')) (get_prop node (js ''id'')))) (\<lambda>structureId.
          bindE (safeLabel P (coalesce (get_prop node (js ''label'')) (get_prop node (js ''title'')))) (\<lambda>label.
          bindE (if get_prop node (js ''presentation'') = JUndef then Inr COLUMN
                 else presentation (get_prop node (js ''presentation''))) (\<lambda>shown.
          bindE (case get_prop node (js ''children'') of
                   JArr children \<Rightarrow> mapE (style_nodes P sourceId sourceVersion) children
                 | _ \<Rightarrow> Inr []) (\<lambda>below.
          Inr (entry_of STYLE_TEMPLATE sourceId sourceVersion structureId label shown # concat below)))))
      | _ \<Rightarrow> Inl InvalidRenderContext)"
  by pat_completeness auto
termination
  by (relation "measure (\<lambda>(P, i, v, raw). size raw)") (auto dest: child_smaller)

declare style_nodes.simps [simp del]

definition styleEntries :: "platform \<Rightarrow> (jstr \<Rightarrow> nat option) \<Rightarrow> style_row \<Rightarrow> render_context_entry list context_result" where
  "styleEntries P date_ms row =
     bindE (safeId P (JStr (st_id row))) (\<lambda>sourceId.
     bindE (stableDateVersion date_ms (st_updated_at row)) (\<lambda>sourceVersion.
     bindE (jsonRecord P (st_features row)) (\<lambda>features.
     if \<not> truthy (get_prop features (js ''structure_tree'')) then Inr []
     else style_nodes P sourceId sourceVersion (get_prop features (js ''structure_tree'')))))"

section \<open>Building the context\<close>

definition assertProject :: "jstr \<Rightarrow> jstr \<Rightarrow> unit context_result" where
  "assertProject rowProjectId projectId = guardE (rowProjectId = projectId) InvalidRenderContext"

definition assertScoped :: "context_job_row \<Rightarrow> jstr \<Rightarrow> jstr \<Rightarrow> unit context_result" where
  "assertScoped row workflowJobId projectId =
     bindE (guardE (cj_id row = workflowJobId) InvalidRenderContext) (\<lambda>_. assertProject (cj_project_id row) projectId)"

text \<open>A source the workflow pinned must be there, and be the one it pinned.\<close>

definition assertPinnedSourcePresent :: "(jstr \<times> jsval) list \<Rightarrow> string \<Rightarrow> bool \<Rightarrow> unit context_result" where
  "assertPinnedSourcePresent input prefix present =
     guardE (present \<or>
       \<not> list_ex (\<lambda>k. map_of input (js (prefix @ k)) \<noteq> None) [''_id'', ''_version_id'', ''_version'']) InvalidRenderContext"

definition version_template :: "jsval \<Rightarrow> jstr context_result" where
  "version_template v =
     (case v of
        JStr s \<Rightarrow> Inr s
      | _ \<Rightarrow> if is_safe_integer v then Inr (dec_int (int_of_number v)) else Inl InvalidRenderContext)"

definition assertExpectedSource :: "(jstr \<times> jsval) list \<Rightarrow> string \<Rightarrow> jstr \<Rightarrow> jstr context_result \<Rightarrow> unit context_result" where
  "assertExpectedSource input prefix rowId current =
     (let expectedId = coalesce (get_prop input (js (prefix @ ''_id''))) (get_prop input (js (prefix @ ''_version_id'')));
          expectedVersion = get_prop input (js (prefix @ ''_version''))
      in if expectedId \<noteq> JUndef \<and> expectedId \<noteq> JStr rowId then Inl InvalidRenderContext
         else if expectedVersion = JUndef then Inr ()
         else
         bindE (version_template expectedVersion) (\<lambda>expected.
         bindE current (\<lambda>version. guardE (expected = version) InvalidRenderContext)))"

text \<open>The rows of an outline query: those of the chapter and section when the input names them.\<close>

definition outline_scope :: "(jstr \<Rightarrow> jstr \<Rightarrow> bool) \<Rightarrow> jstr option \<Rightarrow> jstr option \<Rightarrow> version_row \<Rightarrow> bool" where
  "outline_scope sql_eq chapterNodeId sectionNodeId row \<longleftrightarrow>
     \<not> filled chapterNodeId \<or>
     (pred_option (\<lambda>c. sql_eq c (the chapterNodeId)) (ve_chapter_node_id row) \<and> ve_chapter_node_id row \<noteq> None \<and>
      (if filled sectionNodeId
       then ve_section_node_id row \<noteq> None \<and> pred_option (\<lambda>s. sql_eq s (the sectionNodeId)) (ve_section_node_id row)
       else ve_section_node_id row = None))"

text \<open>The context of a job; \<open>sql_eq\<close> is the equality of the database's collation.\<close>

definition build_context ::
    "platform \<Rightarrow> (jstr \<Rightarrow> nat option) \<Rightarrow> (jstr \<Rightarrow> jstr \<Rightarrow> bool) \<Rightarrow> context_tables \<Rightarrow> jstr \<Rightarrow> jstr \<Rightarrow> render_context_entry list context_result" where
  "build_context P date_ms sql_eq db workflowJobId projectId =
     bindE (one_row (filter (\<lambda>r. sql_eq (cj_id r) workflowJobId \<and> sql_eq (cj_project_id r) projectId) (ct_workflow_jobs db))) (\<lambda>workflow.
     bindE (assertScoped workflow workflowJobId projectId) (\<lambda>_.
     bindE (jsonRecord P (cj_input workflow)) (\<lambda>input.
     bindE (optionalOne (filter (\<lambda>r. sql_eq (ve_project_id r) projectId \<and> ve_is_current r) (ct_directory_versions db))) (\<lambda>directory.
     bindE (assertPinnedSourcePresent input ''directory'' (directory \<noteq> None)) (\<lambda>_.
     bindE (case directory of None \<Rightarrow> Inr () | Some row \<Rightarrow>
              bindE (assertProject (ve_project_id row) projectId) (\<lambda>_.
              assertExpectedSource input ''directory'' (ve_id row) (safeVersion P (ve_version_number row)))) (\<lambda>_.
     let chapterNodeId = as_string (get_prop input (js ''chapter_node_id''));
         sectionNodeId = as_string (get_prop input (js ''section_node_id''))
     in
     bindE (optionalOne (filter (\<lambda>r. sql_eq (ve_project_id r) projectId \<and> ve_is_current r \<and>
              outline_scope sql_eq chapterNodeId sectionNodeId r) (ct_outline_versions db))) (\<lambda>outline.
     bindE (assertPinnedSourcePresent input ''outline'' (outline \<noteq> None)) (\<lambda>_.
     bindE (case outline of None \<Rightarrow> Inr () | Some row \<Rightarrow>
              bindE (assertProject (ve_project_id row) projectId) (\<lambda>_.
              assertExpectedSource input ''outline'' (ve_id row) (safeVersion P (ve_version_number row)))) (\<lambda>_.
     bindE (optionalOne (filter (\<lambda>r. sql_eq (st_project_id r) projectId \<and> st_completed r) (ct_style_templates db))) (\<lambda>styleTemplate.
     bindE (assertPinnedSourcePresent input ''style_template'' (styleTemplate \<noteq> None)) (\<lambda>_.
     bindE (case styleTemplate of None \<Rightarrow> Inr () | Some row \<Rightarrow>
              bindE (assertProject (st_project_id row) projectId) (\<lambda>_.
              assertExpectedSource input ''style_template'' (st_id row) (stableDateVersion date_ms (st_updated_at row)))) (\<lambda>_.
     bindE (workflowEntries P workflow input) (\<lambda>ws.
     bindE (case directory of None \<Rightarrow> Inr [] | Some row \<Rightarrow> directoryEntries P row chapterNodeId sectionNodeId) (\<lambda>ds.
     bindE (case outline of None \<Rightarrow> Inr [] | Some row \<Rightarrow> outlineEntries P row) (\<lambda>os.
     bindE (case styleTemplate of None \<Rightarrow> Inr [] | Some row \<Rightarrow> styleEntries P date_ms row) (\<lambda>ss.
     validateApprovedRenderContextV1 P (context_value (ws @ ds @ os @ ss))))))))))))))))))"

end
