(* ===== verification/RenderContextProps.thy ===== *)
theory RenderContextProps
  imports RenderContext GroundedDraftRoundtrip
begin

text \<open>
  What the check of a stored render context establishes, and that a checked context is accepted
  again, unchanged, from the value it is stored as.
\<close>

section \<open>Entries\<close>

definition version_ok :: "platform \<Rightarrow> jstr \<Rightarrow> bool" where
  "version_ok P s \<longleftrightarrow>
     s \<noteq> [] \<and> nfc P s = s \<and> isWellFormedUnicodeScalarV1 s \<and> utf8_length s \<le> 512 \<and> \<not> forbidden_context_control s"

definition label_ok :: "platform \<Rightarrow> jstr \<Rightarrow> bool" where
  "label_ok P s \<longleftrightarrow>
     s \<noteq> [] \<and> nfc P s = s \<and> isWellFormedUnicodeScalarV1 s \<and> utf8_length s \<le> 200 \<and> \<not> forbidden_context_control s \<and>
     60 \<notin> set s \<and> 62 \<notin> set s \<and> \<not> js_includes s (js ''--'')"

definition entry_ok :: "platform \<Rightarrow> render_context_entry \<Rightarrow> bool" where
  "entry_ok P e \<longleftrightarrow>
     is_safe_id (re_structure_id e) \<and> is_safe_id (re_source_id e) \<and> version_ok P (re_source_version e) \<and>
     label_ok P (re_label_nfc e)"

definition context_ok :: "platform \<Rightarrow> render_context_entry list \<Rightarrow> bool" where
  "context_ok P entries \<longleftrightarrow> list_all (entry_ok P) entries \<and> sorted_wrt (<) (map re_structure_id entries)"

lemma dec_int_version:
  assumes "unicode_normalizer (nfc P)" and "0 \<le> i" and "i \<le> MAX_SAFE_INTEGER"
  shows "version_ok P (dec_int i)"
proof -
  have digits: "\<forall>c \<in> set (dec_nat (nat i)). is_digit c" by (rule dec_nat_digits)
  then have ascii: "\<forall>c \<in> set (dec_nat (nat i)). c < 128" by (auto simp: is_digit_def)
  have "nat i < 10 ^ 16" using assms(3) by (simp add: MAX_SAFE_INTEGER_def)
  from length_dec_nat [OF this] have "utf8_length (dec_nat (nat i)) \<le> 512"
    using ascii by (simp add: utf8_length_ascii list_all_iff)
  moreover have "\<not> forbidden_context_control (dec_nat (nat i))"
    using digits by (fastforce simp: forbidden_context_control_def list_ex_iff is_digit_def)
  ultimately show ?thesis
    using assms ascii by (simp add: version_ok_def dec_int_def ascii_nfc wf_ascii)
qed

lemma safeVersion_Inr:
  "unicode_normalizer (nfc P) \<Longrightarrow> safeVersion P v = Inr s \<Longrightarrow> version_ok P s"
  by (cases v) (auto simp: safeVersion_def Let_def version_ok_def not_less split: if_splits)

lemma safeVersion_value: "version_ok P s \<Longrightarrow> safeVersion P (JStr s) = Inr s"
  by (auto simp: safeVersion_def version_ok_def)

lemma safeLabel_Inr:
  assumes "unicode_normalizer (nfc P)" and "js_units v" and "safeLabel P v = Inr s"
  shows "label_ok P s"
  using assms by (cases v) (auto simp: safeLabel_def Let_def label_ok_def unicode_normalizer_def not_less split: if_splits)

lemma safeLabel_value: "label_ok P s \<Longrightarrow> safeLabel P (JStr s) = Inr s"
  by (auto simp: safeLabel_def label_ok_def)

lemma safe_id_nfc:
  assumes "unicode_normalizer (nfc P)" and "is_safe_id s"
  shows "nfc P s = s"
  by (rule ascii_nfc [OF assms(1)]) (rule safe_id_ascii [OF assms(2)])

lemma safeId_Inr: "unicode_normalizer (nfc P) \<Longrightarrow> safeId P v = Inr s \<Longrightarrow> is_safe_id s"
  by (cases v) (auto simp: safeId_def safe_id_nfc split: if_splits)

lemma safeId_value: "unicode_normalizer (nfc P) \<Longrightarrow> is_safe_id s \<Longrightarrow> safeId P (JStr s) = Inr s"
  by (simp add: safeId_def safe_id_nfc)

lemma member_of_name:
  "member_of (JStr (js (source_kind_text k))) SOURCE_KINDS source_kind_text = Inr k"
  "member_of (JStr (js (structure_presentation_text p))) PRESENTATIONS structure_presentation_text = Inr p"
  by (cases k; simp add: member_of_def SOURCE_KINDS_def) (cases p; simp add: member_of_def PRESENTATIONS_def)

lemma parse_entry_Inr:
  assumes "unicode_normalizer (nfc P)" and "js_units v" and "parse_entry P v = Inr e"
  shows "entry_ok P e"
proof -
  from assms(3) obtain kvs where v: "v = JObj kvs"
    and e: "safeId P (get_prop kvs (js ''structure_id'')) = Inr (re_structure_id e)"
      "safeId P (get_prop kvs (js ''source_id'')) = Inr (re_source_id e)"
      "safeVersion P (get_prop kvs (js ''source_version'')) = Inr (re_source_version e)"
      "safeLabel P (get_prop kvs (js ''label_nfc'')) = Inr (re_label_nfc e)"
    by (auto simp: parse_entry_def exactRecord_def plainRecord_def result_iffs split: jsval.splits)
  have "js_units (get_prop kvs k)" for k using assms(2) v by auto
  with e show ?thesis
    using assms(1) safeLabel_Inr safeVersion_Inr safeId_Inr by (auto simp: entry_ok_def)
qed

lemma parse_entry_value:
  assumes "unicode_normalizer (nfc P)" and "entry_ok P e"
  shows "parse_entry P (entry_value e) = Inr e"
  using assms
  by (simp add: parse_entry_def entry_value_def exactRecord_def plainRecord_def ENTRY_KEYS_def get_prop_def presentation_def
      safeId_value safeVersion_value safeLabel_value member_of_name entry_ok_def)

section \<open>Contexts\<close>

lemma ordered_entries_Inr:
  "ordered_entries entries = Inr ctx \<longleftrightarrow> distinct (map re_structure_id entries) \<and> ctx = sort_key re_structure_id entries"
  by (auto simp: ordered_entries_def Let_def)

lemma validated_context_ok:
  assumes "unicode_normalizer (nfc P)" and "js_units v" and "validateApprovedRenderContextV1 P v = Inr ctx"
  shows "context_ok P ctx"
proof -
  from assms(3) obtain kvs raws entries where v: "v = JObj kvs" "get_prop kvs (js ''entries'') = JArr raws"
      and entries: "mapE (parse_entry P) raws = Inr entries" "ordered_entries entries = Inr ctx"
    by (auto simp: validateApprovedRenderContextV1_def exactRecord_def plainRecord_def result_iffs split: jsval.splits)
  have "js_units (JArr raws)" using assms(2) v by (metis js_units_get_prop)
  then have "\<forall>e \<in> set entries. entry_ok P e"
    using entries(1) parse_entry_Inr [OF assms(1)] by (fastforce simp: mapE_Inr_iff list_all2_conv_all_nth in_set_conv_nth)
  then show ?thesis
    using entries(2) by (auto simp: context_ok_def list_all_iff ordered_entries_Inr strict_sorted_iff)
qed

lemma context_ok_distinct: "context_ok P ctx \<Longrightarrow> distinct (map re_structure_id ctx) \<and> sort_key re_structure_id ctx = ctx"
  by (simp add: context_ok_def strict_sorted_iff sort_key_id_if_sorted)

lemma context_value_validates:
  assumes "unicode_normalizer (nfc P)" and "context_ok P ctx"
  shows "validateApprovedRenderContextV1 P (context_value ctx) = Inr ctx"
proof -
  have "mapE (parse_entry P) (map entry_value ctx) = Inr ctx"
    using assms parse_entry_value by (induction ctx) (auto simp: context_ok_def)
  with context_ok_distinct [OF assms(2)] show ?thesis
    by (simp add: validateApprovedRenderContextV1_def context_value_def exactRecord_def plainRecord_def get_prop_def
        ordered_entries_Inr)
qed

text \<open>
  C29: a context the check accepts meets its contract, identifiers that are safe and in strictly
  increasing order, versions and labels in NFC, bounded and free of control characters and markup,
  and the value it is stored as is accepted again as the same context.
\<close>

theorem context_revalidates:
  assumes "unicode_normalizer (nfc P)" and "js_units v" and "validateApprovedRenderContextV1 P v = Inr ctx"
  shows "context_ok P ctx \<and> validateApprovedRenderContextV1 P (context_value ctx) = Inr ctx"
  using validated_context_ok [OF assms] context_value_validates [OF assms(1)] by blast

section \<open>A concrete context\<close>

definition sample_entry :: render_context_entry where
  "sample_entry =
     \<lparr>re_structure_id = js ''s1'', re_source_kind = OUTLINE_SOURCE, re_source_id = js ''o'',
      re_source_version = js ''1'', re_label_nfc = js ''T!'', re_presentation = HEADING_1\<rparr>"

lemma sample_entry_ok: "entry_ok plain_platform sample_entry"
  by (simp add: entry_ok_def sample_entry_def version_ok_def label_ok_def is_safe_id_def char_class_defs
      forbidden_context_control_def js_includes_def utf8_length_def utf8_scalar_def js_def)

lemma context_revalidates_witness:
  "context_ok plain_platform [sample_entry] \<and>
   validateApprovedRenderContextV1 plain_platform (context_value [sample_entry]) = Inr [sample_entry]"
proof -
  have "validateApprovedRenderContextV1 plain_platform (context_value [sample_entry]) = Inr [sample_entry]"
    using sample_entry_ok by (intro context_value_validates plain_platform_normalizer) (simp add: context_ok_def)
  moreover have "js_units (context_value [sample_entry])"
    by (simp add: context_value_def entry_value_def sample_entry_def APPROVED_RENDER_CONTEXT_VERSION_def js_def)
  ultimately show ?thesis
    using context_revalidates [OF plain_platform_normalizer] by blast
qed

end
