(* ===== verification/QuantityLexer.thy ===== *)
theory QuantityLexer
  imports FixedDecimal AtomicContracts JsValue
begin

text \<open>
  The quantity lexer (\<open>citation/atomic-grounding/quantity-lexer.ts\<close>): it cuts the quantities out
  of a text, converts them to base units, and analyses polarity and quantifier; and it recomputes
  a proposed claim from its text alone.  A refusal is the \<open>TypeError\<close> with its message.
\<close>

type_synonym 'a lexed = "(jstr, 'a) result"

record UnitDefinition =
  ud_dimension :: QuantityDimension
  ud_base_unit :: "jstr option"
  ud_multiplier :: int
  ud_decimal_shift :: nat

text \<open>A quantity with the text it was read from.\<close>

record InternalQuantity = CanonicalQuantityV1 +
  iq_lexical_value :: jstr
  iq_lexical_unit :: "jstr option"
  iq_lexical_range_end :: "jstr option"

definition toPublicQuantity :: "InternalQuantity \<Rightarrow> CanonicalQuantityV1" where
  "toPublicQuantity q = CanonicalQuantityV1.truncate q"

section \<open>Expressions\<close>

definition CHINESE_NUMBER :: rx where
  "CHINESE_NUMBER =
     RSeq (ROpt (RLit [ZH_NEGATIVE]))
       (rx_plus (RSat (\<lambda>c. c \<in> set [38646, 12295, 19968, 20108, 20004, 19977, 22235, 20116, 20845, 19971, 20843, 20061, 21313, 30334, 21315, 19975, 20159, 28857])))"

definition NUMBER :: rx where
  "NUMBER = RAlt ARABIC_NUMBER CHINESE_NUMBER"

definition PREFIXES :: "jstr list" where
  "PREFIXES = [[19981, 36229, 36807], [19981, 23569, 20110], [33267, 23569], [36229, 36807], [22823, 20110], [23567, 20110], [32422]]"

definition equals_rx :: rx where
  "equals_rx = ROpt (rx_any [[20026], [31561, 20110]])"

definition PREFIX :: rx where
  "PREFIX = RSeq (rx_any PREFIXES) equals_rx"

definition SUFFIXES :: "jstr list" where
  "SUFFIXES = [[21450, 20197, 19978], [21450, 20197, 19979], [20197, 19978], [20197, 19979], [24038, 21491]]"

definition UNITS :: "jstr list" where
  "UNITS =
     [[25668, 27663, 24230], [20154, 27665, 24065, 20803], [20154, 27665, 24065], js ''GWh'', js ''MWh'', js ''kWh'', js ''Wh'', js ''GW'', js ''MW'', js ''kW'',
      js ''W'', [20806, 29926, 26102], [21315, 29926, 26102], [29926, 26102], [21513, 29926], [20806, 29926], [21315, 29926], [29926], [20159, 20803], [19975, 20803], [32654, 20803],
      [27431, 20803], [20010, 26376], [23567, 26102], [20998, 38047], [20844, 37324], [21400, 31859], [27627, 31859], [20844, 26020], [21315, 20811], [30334, 20998, 27604], [27604, 20363],
      [176, 67], [8451], js ''km'', js ''cm'', js ''mm'', js ''kg'', [24180], [26376], [22825], [26085], [31186], [20803], [20010],
      [21488], [22871], [20154], [39033], [20214], [31859], js ''m'', [21544], js ''t'', [20811], js ''g'', js ''%'']"

definition white_rx :: rx where
  "white_rx = RStar (RSat js_white)"

definition scale_rx :: rx where
  "scale_rx = rx_any [[ZH_TEN_THOUSAND], [ZH_HUNDRED_MILLION]]"

definition rangePattern :: rx where
  "rangePattern = rx_seq
     [RGroup 1 NUMBER, white_rx, rx_any [[33267], [21040], [126], [65374], [8212], [45]], white_rx, RGroup 2 NUMBER,
      white_rx, ROpt (RGroup 3 scale_rx), white_rx, RGroup 4 (rx_any UNITS)]"

definition percentChinesePattern :: rx where
  "percentChinesePattern = rx_seq
     [ROpt (RGroup 1 PREFIX), white_rx, RLit [30334, 20998, 20043], RGroup 2 NUMBER, white_rx, ROpt (RGroup 3 (rx_any SUFFIXES))]"

definition prefixedCurrencyPattern :: rx where
  "prefixedCurrencyPattern = rx_seq
     [RGroup 1 (RLit [20154, 27665, 24065]), white_rx, RGroup 2 NUMBER, white_rx, RGroup 3 (rx_any [[20159, 20803], [19975, 20803], [20803]]),
      white_rx, ROpt (RGroup 4 (rx_any SUFFIXES))]"

definition ordinaryPattern :: rx where
  "ordinaryPattern = rx_seq
     [ROpt (RGroup 1 PREFIX), white_rx, RGroup 2 NUMBER, white_rx, ROpt (RGroup 3 scale_rx), white_rx,
      ROpt (RGroup 4 (rx_any UNITS)), white_rx, ROpt (RGroup 5 (rx_any SUFFIXES))]"

text \<open>A text that ends in the announcement of a ratio.\<close>

definition ratioContext :: rx where
  "ratioContext = rx_seq
     [rx_any [[21344, 27604], [27604, 20363], [27604, 29575], [23436, 25104, 29575], [29575]], white_rx, ROpt (rx_any [[20026], [26159], [36798, 21040]]),
      white_rx, REnd]"

section \<open>Units and comparators\<close>

definition prefixComparator :: "jstr \<Rightarrow> Comparator option" where
  "prefixComparator = map_of
     [([19981, 36229, 36807], CMP_LTE), ([19981, 23569, 20110], CMP_GTE), ([33267, 23569], CMP_GTE), ([36229, 36807], CMP_GT), ([22823, 20110], CMP_GT),
      ([23567, 20110], CMP_LT), ([32422], CMP_APPROX)]"

definition suffixComparator :: "jstr \<Rightarrow> Comparator option" where
  "suffixComparator = map_of
     [([21450, 20197, 19978], CMP_GTE), ([20197, 19978], CMP_GTE), ([21450, 20197, 19979], CMP_LTE), ([20197, 19979], CMP_LTE), ([24038, 21491], CMP_APPROX)]"

definition unit_def :: "QuantityDimension \<Rightarrow> jstr option \<Rightarrow> int \<Rightarrow> UnitDefinition" where
  "unit_def dimension base multiplier =
     \<lparr>ud_dimension = dimension, ud_base_unit = base, ud_multiplier = multiplier, ud_decimal_shift = 0\<rparr>"

definition shiftedUnit :: "QuantityDimension \<Rightarrow> jstr option \<Rightarrow> nat \<Rightarrow> UnitDefinition" where
  "shiftedUnit dimension base shift =
     \<lparr>ud_dimension = dimension, ud_base_unit = base, ud_multiplier = 1, ud_decimal_shift = shift\<rparr>"

abbreviation base_unit :: "string \<Rightarrow> jstr option" where
  "base_unit s \<equiv> Some (js s)"

definition unitDefinitions :: "(jstr \<times> UnitDefinition) list" where
  "unitDefinitions =
     [(js ''W'', unit_def DIM_POWER (base_unit ''W'') 1), (js ''kW'', unit_def DIM_POWER (base_unit ''W'') 1000),
      (js ''MW'', unit_def DIM_POWER (base_unit ''W'') 1000000), (js ''GW'', unit_def DIM_POWER (base_unit ''W'') 1000000000),
      ([29926], unit_def DIM_POWER (base_unit ''W'') 1), ([21315, 29926], unit_def DIM_POWER (base_unit ''W'') 1000),
      ([20806, 29926], unit_def DIM_POWER (base_unit ''W'') 1000000), ([21513, 29926], unit_def DIM_POWER (base_unit ''W'') 1000000000),
      (js ''Wh'', unit_def DIM_ENERGY (base_unit ''Wh'') 1), (js ''kWh'', unit_def DIM_ENERGY (base_unit ''Wh'') 1000),
      (js ''MWh'', unit_def DIM_ENERGY (base_unit ''Wh'') 1000000), (js ''GWh'', unit_def DIM_ENERGY (base_unit ''Wh'') 1000000000),
      ([29926, 26102], unit_def DIM_ENERGY (base_unit ''Wh'') 1), ([21315, 29926, 26102], unit_def DIM_ENERGY (base_unit ''Wh'') 1000),
      ([20806, 29926, 26102], unit_def DIM_ENERGY (base_unit ''Wh'') 1000000),
      ([24180], unit_def DIM_DURATION (base_unit ''month'') 12), ([20010, 26376], unit_def DIM_DURATION (base_unit ''month'') 1),
      ([26376], unit_def DIM_DURATION (base_unit ''month'') 1), ([22825], unit_def DIM_DURATION (base_unit ''second'') 86400),
      ([26085], unit_def DIM_DURATION (base_unit ''second'') 86400), ([23567, 26102], unit_def DIM_DURATION (base_unit ''second'') 3600),
      ([20998, 38047], unit_def DIM_DURATION (base_unit ''second'') 60), ([31186], unit_def DIM_DURATION (base_unit ''second'') 1),
      (js ''%'', shiftedUnit DIM_RATIO None 2), ([30334, 20998, 20043], shiftedUnit DIM_RATIO None 2),
      ([30334, 20998, 27604], shiftedUnit DIM_RATIO None 2), ([27604, 20363], unit_def DIM_RATIO None 1),
      ([20803], unit_def DIM_CURRENCY (base_unit ''CNY'') 1), ([20154, 27665, 24065, 20803], unit_def DIM_CURRENCY (base_unit ''CNY'') 1),
      ([20154, 27665, 24065], unit_def DIM_CURRENCY (base_unit ''CNY'') 1), ([19975, 20803], unit_def DIM_CURRENCY (base_unit ''CNY'') 10000),
      ([20159, 20803], unit_def DIM_CURRENCY (base_unit ''CNY'') 100000000), ([32654, 20803], unit_def DIM_CURRENCY (base_unit ''USD'') 1),
      ([27431, 20803], unit_def DIM_CURRENCY (base_unit ''EUR'') 1),
      ([20010], unit_def DIM_COUNT (base_unit ''count'') 1), ([21488], unit_def DIM_COUNT (base_unit ''count'') 1),
      ([22871], unit_def DIM_COUNT (base_unit ''count'') 1), ([20154], unit_def DIM_COUNT (base_unit ''count'') 1),
      ([39033], unit_def DIM_COUNT (base_unit ''count'') 1), ([20214], unit_def DIM_COUNT (base_unit ''count'') 1),
      (js ''m'', unit_def DIM_LENGTH (base_unit ''m'') 1), ([31859], unit_def DIM_LENGTH (base_unit ''m'') 1),
      (js ''km'', unit_def DIM_LENGTH (base_unit ''m'') 1000), ([20844, 37324], unit_def DIM_LENGTH (base_unit ''m'') 1000),
      (js ''cm'', shiftedUnit DIM_LENGTH (base_unit ''m'') 2), ([21400, 31859], shiftedUnit DIM_LENGTH (base_unit ''m'') 2),
      (js ''mm'', shiftedUnit DIM_LENGTH (base_unit ''m'') 3), ([27627, 31859], shiftedUnit DIM_LENGTH (base_unit ''m'') 3),
      (js ''g'', unit_def DIM_MASS (base_unit ''g'') 1), ([20811], unit_def DIM_MASS (base_unit ''g'') 1),
      (js ''kg'', unit_def DIM_MASS (base_unit ''g'') 1000), ([20844, 26020], unit_def DIM_MASS (base_unit ''g'') 1000),
      ([21315, 20811], unit_def DIM_MASS (base_unit ''g'') 1000), (js ''t'', unit_def DIM_MASS (base_unit ''g'') 1000000),
      ([21544], unit_def DIM_MASS (base_unit ''g'') 1000000),
      ([176, 67], unit_def DIM_TEMPERATURE (base_unit ''celsius'') 1), ([8451], unit_def DIM_TEMPERATURE (base_unit ''celsius'') 1),
      ([25668, 27663, 24230], unit_def DIM_TEMPERATURE (base_unit ''celsius'') 1)]"

definition unitFor :: "jstr option \<Rightarrow> jstr \<Rightarrow> UnitDefinition" where
  "unitFor rawUnit leadingContext =
     (case (case rawUnit of None \<Rightarrow> None | Some u \<Rightarrow> map_of unitDefinitions u) of
        Some exact \<Rightarrow> exact
      | None \<Rightarrow>
          if rx_test ratioContext leadingContext then unit_def DIM_RATIO None 1 else unit_def DIM_OTHER None 1)"

definition multiply :: "FixedDecimal \<Rightarrow> UnitDefinition \<Rightarrow> int \<Rightarrow> jstr" where
  "multiply v d scaleMultiplier = fixedToString
     \<lparr>fd_coefficient = fd_coefficient v * ud_multiplier d * scaleMultiplier, fd_scale = fd_scale v + ud_decimal_shift d\<rparr>"

text \<open>The prefix without the copula it may end in.\<close>

definition ends_with :: "jstr \<Rightarrow> jstr \<Rightarrow> bool" where
  "ends_with s p \<longleftrightarrow> length p \<le> length s \<and> drop (length s - length p) s = p"

definition strip_equals :: "jstr \<Rightarrow> jstr" where
  "strip_equals p =
     (if ends_with p [20026] then take (length p - 1) p
      else if ends_with p [31561, 20110] then take (length p - 2) p else p)"

definition classifyComparator :: "jstr option \<Rightarrow> jstr option \<Rightarrow> Comparator lexed" where
  "classifyComparator prefix suffix =
     (let fromPrefix = (case prefix of None \<Rightarrow> None | Some p \<Rightarrow> prefixComparator (strip_equals p));
          fromSuffix = (case suffix of None \<Rightarrow> None | Some s \<Rightarrow> suffixComparator s)
      in if fromPrefix \<noteq> None \<and> fromSuffix \<noteq> None \<and> fromPrefix \<noteq> fromSuffix
         then Inl (js ''ambiguous mixed quantity comparator'')
         else Inr (case fromPrefix of Some c \<Rightarrow> c | None \<Rightarrow> (case fromSuffix of Some c \<Rightarrow> c | None \<Rightarrow> CMP_EQ)))"

section \<open>The lexer\<close>

record quantity_match =
  qm_surface :: jstr
  qm_start :: nat
  qm_prefix :: "jstr option"
  qm_first :: jstr
  qm_scale :: "jstr option"
  qm_unit :: "jstr option"
  qm_suffix :: "jstr option"
  qm_range_end :: "jstr option"

definition scale_multiplier :: "jstr option \<Rightarrow> int" where
  "scale_multiplier scale =
     (if scale = Some [ZH_HUNDRED_MILLION] then 100000000 else if scale = Some [ZH_TEN_THOUSAND] then 10000 else 1)"

definition quantityFromMatch :: "quantity_match \<Rightarrow> InternalQuantity lexed" where
  "quantityFromMatch i =
     (case parseNumber (qm_first i) of
        None \<Rightarrow> Inl (js ''malformed quantity number'')
      | Some first \<Rightarrow>
          let scaleMultiplier = scale_multiplier (qm_scale i);
              u = unitFor (qm_unit i)
                (take (case index_of (qm_surface i) (qm_first i) of None \<Rightarrow> 0 | Some n \<Rightarrow> n) (qm_surface i))
          in
          bindE (if qm_range_end i \<noteq> None then Inr CMP_RANGE else classifyComparator (qm_prefix i) (qm_suffix i)) (\<lambda>comparator.
          bindE (case qm_range_end i of
                   None \<Rightarrow> Inr None
                 | Some raw \<Rightarrow>
                     (case parseNumber raw of
                        None \<Rightarrow> Inl (js ''malformed quantity range end'')
                      | Some n \<Rightarrow> Inr (Some n))) (\<lambda>rangeEnd.
          Inr \<lparr>cq_ordinal = 0, cq_surface_nfc = qm_surface i, cq_start = qm_start i,
            cq_end = qm_start i + length (qm_surface i), cq_dimension = ud_dimension u,
            cq_base_value = multiply first u scaleMultiplier, cq_base_unit = ud_base_unit u,
            cq_comparator = comparator,
            cq_range_end_base_value = map_option (\<lambda>r. multiply r u scaleMultiplier) rangeEnd,
            cq_typed_equivalence_eligible =
              (comparator \<noteq> CMP_APPROX \<and> comparator \<noteq> CMP_RANGE \<and> ud_dimension u \<noteq> DIM_OTHER),
            iq_lexical_value = fixedToString (first\<lparr>fd_coefficient := fd_coefficient first * scaleMultiplier\<rparr>),
            iq_lexical_unit = qm_unit i,
            iq_lexical_range_end =
              map_option (\<lambda>r. fixedToString (r\<lparr>fd_coefficient := fd_coefficient r * scaleMultiplier\<rparr>)) rangeEnd\<rparr>)))"

definition exponent_rx :: rx where
  "exponent_rx = rx_seq
     [ROpt (RSat (\<lambda>c. c = 43 \<or> c = 45)), rx_plus digit_rx, ROpt (RSeq (RLit [46]) (rx_plus digit_rx)),
      RSat (\<lambda>c. c = 101 \<or> c = 69), ROpt (RSat (\<lambda>c. c = 43 \<or> c = 45)), rx_plus digit_rx]"

definition two_points_rx :: rx where
  "two_points_rx = rx_seq [rx_plus digit_rx, RLit [46], RStar digit_rx, RLit [46], rx_plus digit_rx]"

definition two_prefixes_rx :: rx where
  "two_prefixes_rx = rx_seq [rx_any PREFIXES, equals_rx, white_rx, rx_any PREFIXES]"

definition malformedQuantityGuard :: "jstr \<Rightarrow> unit lexed" where
  "malformedQuantityGuard t =
     guardE (\<not> (rx_test exponent_rx t \<or> rx_test two_points_rx t \<or> rx_test two_prefixes_rx t))
       (js ''unsupported or ambiguous quantity syntax'')"

definition PERCENT_UNIT :: jstr where
  "PERCENT_UNIT = [30334, 20998, 20043]"

text \<open>The text of a group that took part in the match.\<close>

definition matched :: "captures \<Rightarrow> nat \<Rightarrow> jstr" where
  "matched cs i = (case group cs i of None \<Rightarrow> [] | Some t \<Rightarrow> t)"

definition percent_quantity :: "nat \<Rightarrow> jstr \<Rightarrow> captures \<Rightarrow> InternalQuantity lexed" where
  "percent_quantity index surface cs =
     (case parseNumber (matched cs 2) of
        None \<Rightarrow> Inl (js ''malformed Chinese percentage'')
      | Some v \<Rightarrow>
          bindE (classifyComparator (group cs 1) (group cs 3)) (\<lambda>comparator.
          Inr \<lparr>cq_ordinal = 0, cq_surface_nfc = surface, cq_start = index, cq_end = index + length surface,
            cq_dimension = DIM_RATIO,
            cq_base_value = fixedToString \<lparr>fd_coefficient = fd_coefficient v, fd_scale = fd_scale v + 2\<rparr>,
            cq_base_unit = None, cq_comparator = comparator, cq_range_end_base_value = None,
            cq_typed_equivalence_eligible = (comparator \<noteq> CMP_APPROX),
            iq_lexical_value = fixedToString v, iq_lexical_unit = Some PERCENT_UNIT, iq_lexical_range_end = None\<rparr>))"

definition range_quantity :: "nat \<Rightarrow> jstr \<Rightarrow> captures \<Rightarrow> InternalQuantity lexed" where
  "range_quantity index surface cs = quantityFromMatch
     \<lparr>qm_surface = surface, qm_start = index, qm_prefix = None, qm_first = matched cs 1, qm_scale = group cs 3,
      qm_unit = group cs 4, qm_suffix = None, qm_range_end = group cs 2\<rparr>"

definition currency_quantity :: "nat \<Rightarrow> jstr \<Rightarrow> captures \<Rightarrow> InternalQuantity lexed" where
  "currency_quantity index surface cs = quantityFromMatch
     \<lparr>qm_surface = surface, qm_start = index, qm_prefix = None, qm_first = matched cs 2, qm_scale = None,
      qm_unit = group cs 3, qm_suffix = group cs 4, qm_range_end = None\<rparr>"

text \<open>The number of an ordinary match is never empty, so a match is always taken.\<close>

definition ordinary_quantity :: "jstr \<Rightarrow> nat \<Rightarrow> jstr \<Rightarrow> captures \<Rightarrow> InternalQuantity lexed" where
  "ordinary_quantity normalized index surface cs =
     (let contextualBareRatio = (group cs 4 = None \<and> rx_test ratioContext (slice normalized (index - 16) index))
      in bindE (quantityFromMatch
           \<lparr>qm_surface = surface, qm_start = index, qm_prefix = group cs 1, qm_first = matched cs 2,
            qm_scale = group cs 3, qm_unit = group cs 4, qm_suffix = group cs 5, qm_range_end = None\<rparr>) (\<lambda>parsed.
         Inr (if contextualBareRatio
              then parsed\<lparr>cq_dimension := DIM_RATIO, cq_base_unit := None,
                     cq_typed_equivalence_eligible :=
                       (cq_comparator parsed \<noteq> CMP_APPROX \<and> cq_comparator parsed \<noteq> CMP_RANGE)\<rparr>
              else parsed)))"

text \<open>One iteration of the loop: the quantity found at the index, if any, and the next index.\<close>

definition found :: "nat \<Rightarrow> jstr \<Rightarrow> InternalQuantity lexed \<Rightarrow> (InternalQuantity option \<times> nat) lexed" where
  "found index surface q = bindE q (\<lambda>x. Inr (Some x, index + length surface))"

definition lex_step :: "jstr \<Rightarrow> nat \<Rightarrow> (InternalQuantity option \<times> nat) lexed" where
  "lex_step normalized index =
     (let remaining = drop index normalized in
      case rx_exec True rangePattern remaining of
        Some (surface, cs) \<Rightarrow> found index surface (range_quantity index surface cs)
      | None \<Rightarrow>
      (case rx_exec False percentChinesePattern remaining of
        Some (surface, cs) \<Rightarrow> found index surface (percent_quantity index surface cs)
      | None \<Rightarrow>
      (case rx_exec False prefixedCurrencyPattern remaining of
        Some (surface, cs) \<Rightarrow> found index surface (currency_quantity index surface cs)
      | None \<Rightarrow>
      (case rx_exec True ordinaryPattern remaining of
        Some (surface, cs) \<Rightarrow> found index surface (ordinary_quantity normalized index surface cs)
      | None \<Rightarrow> Inr (None, index + 1)))))"

section \<open>The loop ends\<close>

text \<open>No expression of the lexer matches the empty text, so every iteration goes on.\<close>

lemma solid_numbers: "rx_solid ARABIC_NUMBER" "rx_solid CHINESE_NUMBER" "rx_solid NUMBER"
  by (simp_all add: ARABIC_NUMBER_def integer_rx_def nonzero_digit_rx_def rx_plus_def CHINESE_NUMBER_def NUMBER_def)

lemma solid_patterns:
  "rx_solid rangePattern" "rx_solid percentChinesePattern" "rx_solid prefixedCurrencyPattern" "rx_solid ordinaryPattern"
  by (simp_all add: rangePattern_def percentChinesePattern_def prefixedCurrencyPattern_def ordinaryPattern_def solid_numbers)

lemma surface_at:
  assumes "rx_exec ci r (drop index t) = Some (surface, cs)" and "rx_solid r"
  shows "surface \<noteq> [] \<and> index + length surface \<le> length t \<and> slice t index (index + length surface) = surface"
proof -
  from rx_exec_prefix [OF assms(1)] assms(2) obtain s' where s: "drop index t = surface @ s'" "surface \<noteq> []" by blast
  from arg_cong [OF s(1), of length] have "length t - index = length surface + length s'" by simp
  moreover have "0 < length surface" using s(2) by simp
  ultimately have "index + length surface \<le> length t" by linarith
  then show ?thesis using s by (simp add: slice_def)
qed

text \<open>What an iteration finds starts where the iteration does and ends where the next one starts.\<close>

definition quantity_at :: "jstr \<Rightarrow> nat \<Rightarrow> nat \<Rightarrow> 'a CanonicalQuantityV1_scheme \<Rightarrow> bool" where
  "quantity_at t i j q \<longleftrightarrow> cq_start q = i \<and> cq_end q = j \<and> slice t i j = cq_surface_nfc q"

lemma quantityFromMatch_at:
  "quantityFromMatch m = Inr q \<Longrightarrow>
     cq_start q = qm_start m \<and> cq_end q = qm_start m + length (qm_surface m) \<and> cq_surface_nfc q = qm_surface m"
  by (auto simp: quantityFromMatch_def Let_def split: option.splits)

lemma lex_step_advances:
  assumes "lex_step t i = Inr (q, j)" and "i < length t"
  shows "i < j \<and> j \<le> length t \<and> (case q of None \<Rightarrow> True | Some x \<Rightarrow> quantity_at t i j x)"
proof -
  have step: ?thesis
    if "rx_exec ci r (drop i t) = Some (surface, cs)" and "rx_solid r" and "found i surface x = Inr (q, j)"
      and "\<And>y. x = Inr y \<Longrightarrow> cq_start y = i \<and> cq_end y = i + length surface \<and> cq_surface_nfc y = surface"
    for ci r surface cs x
    using surface_at [OF that(1,2)] that(3,4) by (auto simp: found_def quantity_at_def)
  show ?thesis
  proof (cases "rx_exec True rangePattern (drop i t)")
    case (Some p)
    then obtain surface cs where p: "rx_exec True rangePattern (drop i t) = Some (surface, cs)" by (cases p) auto
    show ?thesis
      using assms(1) p quantityFromMatch_at
      by (intro step [OF p solid_patterns(1)]) (fastforce simp: lex_step_def range_quantity_def)+
  next
    case 1: None
    show ?thesis
    proof (cases "rx_exec False percentChinesePattern (drop i t)")
      case (Some p)
      then obtain surface cs where p: "rx_exec False percentChinesePattern (drop i t) = Some (surface, cs)" by (cases p) auto
      show ?thesis
        using assms(1) 1 p
        by (intro step [OF p solid_patterns(2)]) (auto simp: lex_step_def percent_quantity_def split: option.splits)
    next
      case 2: None
      show ?thesis
      proof (cases "rx_exec False prefixedCurrencyPattern (drop i t)")
        case (Some p)
        then obtain surface cs where p: "rx_exec False prefixedCurrencyPattern (drop i t) = Some (surface, cs)" by (cases p) auto
        show ?thesis
          using assms(1) 1 2 p quantityFromMatch_at
          by (intro step [OF p solid_patterns(3)]) (fastforce simp: lex_step_def currency_quantity_def)+
      next
        case 3: None
        show ?thesis
        proof (cases "rx_exec True ordinaryPattern (drop i t)")
          case (Some p)
          then obtain surface cs where p: "rx_exec True ordinaryPattern (drop i t) = Some (surface, cs)" by (cases p) auto
          show ?thesis
            using assms(1) 1 2 3 p quantityFromMatch_at
            by (intro step [OF p solid_patterns(4)]) (fastforce simp: lex_step_def ordinary_quantity_def Let_def)+
        next
          case None
          with 1 2 3 assms show ?thesis by (auto simp: lex_step_def)
        qed
      qed
    qed
  qed
qed

function lex_loop :: "jstr \<Rightarrow> nat \<Rightarrow> InternalQuantity list lexed" where
  "lex_loop t i =
     (if i < length t then
        bindE (lex_step t i) (\<lambda>(q, j).
        bindE (lex_loop t j) (\<lambda>qs. Inr (case q of None \<Rightarrow> qs | Some x \<Rightarrow> x # qs)))
      else Inr [])"
  by pat_completeness auto
termination
  by (relation "measure (\<lambda>(t, i). length t - i)") (auto dest: lex_step_advances)

declare lex_loop.simps [simp del]

definition internalLexQuantities :: "platform \<Rightarrow> jstr \<Rightarrow> InternalQuantity list lexed" where
  "internalLexQuantities P t =
     (let normalized = nfc P t in
      bindE (malformedQuantityGuard normalized) (\<lambda>_.
      bindE (lex_loop normalized 0) (\<lambda>quantities.
      Inr (map (\<lambda>(ordinal, q). q\<lparr>cq_ordinal := ordinal\<rparr>) (enumerate 0 quantities)))))"

definition lexQuantitiesV1 :: "platform \<Rightarrow> jstr \<Rightarrow> CanonicalQuantityV1 list lexed" where
  "lexQuantitiesV1 P t = bindE (internalLexQuantities P t) (\<lambda>qs. Inr (map toPublicQuantity qs))"

end
