(* ===== verification/AtomRecompute.thy ===== *)
theory AtomRecompute
  imports QuantityLexer
begin

text \<open>
  What the lexer's module (\<open>citation/atomic-grounding/quantity-lexer.ts\<close>) makes of a whole text: its
  quantifier and polarity, and the recomputation of a proposed claim from its text alone, which
  refuses every field that disagrees.
\<close>

section \<open>Quantifier and polarity\<close>

definition quantifier_patterns :: "(Quantifier \<times> rx) list" where
  "quantifier_patterns =
     [(Q_NOT_NONE, rx_seq [rx_any [[24182, 38750], [19981, 26159]], RLit [27809, 26377], ROpt (RLit [20219, 20309])]),
      (Q_NOT_ALL, rx_seq [rx_any [[24182, 38750], [19981, 26159]], rx_any [[25152, 26377], [20840, 37096]]]),
      (Q_NONE, rx_any [[27809, 26377, 20219, 20309], [26080, 20219, 20309], [27809, 26377, 19968, 20010]]),
      (Q_ALL, rx_any [[25152, 26377], [20840, 37096], [27599, 20010]]),
      (Q_SOME, rx_any [[37096, 20998], [26377, 20123], [19968, 20123]])]"

definition recomputeQuantifier :: "jstr \<Rightarrow> Quantifier" where
  "recomputeQuantifier t =
     (let unique = map fst (filter (\<lambda>(_, expression). rx_test expression t) quantifier_patterns);
          scoped = filter (\<lambda>item. \<not> ((item = Q_NONE \<and> Q_NOT_NONE \<in> set unique) \<or>
            (item = Q_ALL \<and> Q_NOT_ALL \<in> set unique))) unique
      in if unique = [] then Q_PLAIN else (case scoped of [q] \<Rightarrow> q | _ \<Rightarrow> Q_OTHER))"

definition quantified_negation_rx :: rx where
  "quantified_negation_rx =
     RAlt (RSeq (rx_any [[24182, 38750], [19981, 26159]])
            (RAlt (RSeq (RLit [27809, 26377]) (ROpt (RLit [20219, 20309]))) (rx_any [[25152, 26377], [20840, 37096]])))
       (rx_any [[27809, 26377, 20219, 20309], [26080, 20219, 20309], [27809, 26377, 19968, 20010]])"

definition negative_rx :: rx where
  "negative_rx = rx_any
     [[24182, 38750], [19981, 33021], [19981, 24471], [19981, 21487, 20197], [26410, 33021], [27809, 26377], [19981, 26159], [26080], [26410], [19981]]"

text \<open>The text with every quantity blanked out, the last one first.\<close>

definition blank_quantities :: "jstr \<Rightarrow> 'a CanonicalQuantityV1_scheme list \<Rightarrow> jstr" where
  "blank_quantities t quantities =
     foldl (\<lambda>skeleton q. take (cq_start q) skeleton @ replicate (cq_end q - cq_start q) 32 @ drop (cq_end q) skeleton)
       t (rev quantities)"

definition analyzePolarity :: "jstr \<Rightarrow> InternalQuantity list \<Rightarrow> Polarity \<times> bool" where
  "analyzePolarity t quantities =
     (let skeleton = fst (rx_scan quantified_negation_rx (blank_quantities t quantities));
          negativeTokens = snd (rx_scan negative_rx skeleton)
      in (if length negativeTokens mod 2 = 0 then AFFIRMED else NEGATED, length negativeTokens \<le> 1))"

record AnalyzedAtomicTextV1 =
  an_source_text_nfc :: jstr
  an_polarity :: Polarity
  an_quantifier :: Quantifier
  an_quantities :: "CanonicalQuantityV1 list"
  an_typed_equivalence_eligible :: bool

definition hasForbiddenAtomControl :: "jstr \<Rightarrow> bool" where
  "hasForbiddenAtomControl s \<longleftrightarrow> list_ex (\<lambda>c. c \<le> 0x1f \<or> c = 0x7f) s"

definition analyzeAtomicTextV1 :: "platform \<Rightarrow> jstr \<Rightarrow> AnalyzedAtomicTextV1 lexed" where
  "analyzeAtomicTextV1 P t =
     (let source = nfc P t in
      if source = [] \<or> hasForbiddenAtomControl source \<or> js_includes source [96, 96, 96]
      then Inl (js ''atom source contains forbidden control or fence'')
      else
      bindE (internalLexQuantities P source) (\<lambda>internal.
      let (polarity, eligible) = analyzePolarity source internal;
          quantifier = recomputeQuantifier source
      in Inr \<lparr>an_source_text_nfc = source, an_polarity = polarity, an_quantifier = quantifier,
           an_quantities = map toPublicQuantity internal,
           an_typed_equivalence_eligible = (eligible \<and> quantifier \<noteq> Q_SOME \<and> quantifier \<noteq> Q_OTHER)\<rparr>))"

section \<open>Recomputing a claim\<close>

record RecomputedAtomV1 =
  ra_source_claim_text_nfc :: jstr
  ra_subject_anchor :: CanonicalTextAnchorV1
  ra_predicate_anchor :: CanonicalTextAnchorV1
  ra_polarity :: Polarity
  ra_quantifier :: Quantifier
  ra_quantities :: "CanonicalQuantityV1 list"

definition anchors_exactly :: "platform \<Rightarrow> jstr \<Rightarrow> SurfaceAnchorProposal \<Rightarrow> bool" where
  "anchors_exactly P t anchor \<longleftrightarrow>
     sa_start anchor < sa_end anchor \<and> sa_end anchor \<le> length t \<and>
     slice t (sa_start anchor) (sa_end anchor) = nfc P (sa_surface anchor)"

text \<open>
  The properties every object inherits: looked up as a unit they give a value without a
  dimension, which agrees with no proposal.
\<close>

definition inherited_names :: "jstr list" where
  "inherited_names = map js
     [''constructor'', ''toString'', ''toLocaleString'', ''valueOf'', ''hasOwnProperty'', ''isPrototypeOf'',
      ''propertyIsEnumerable'', ''__proto__'', ''__defineGetter__'', ''__defineSetter__'',
      ''__lookupGetter__'', ''__lookupSetter__'']"

definition canonicalProposalQuantity :: "QuantityProposal \<Rightarrow> (jstr \<times> jstr option \<times> jstr option) lexed" where
  "canonicalProposalQuantity proposal =
     (case parseArabicFixed (qp_value proposal) of
        None \<Rightarrow> Inl (js ''proposal quantity value is not fixed decimal'')
      | Some v \<Rightarrow>
          let u = (if qp_unit proposal = None \<and> qp_dimension proposal = DIM_RATIO then unit_def DIM_RATIO None 1
                   else unitFor (qp_unit proposal) [])
          in if (case qp_unit proposal of None \<Rightarrow> False | Some raw \<Rightarrow> raw \<in> set inherited_names) \<or>
                ud_dimension u \<noteq> qp_dimension proposal
             then Inl (js ''proposal quantity dimension/unit mismatch'')
             else
               (case qp_range_end proposal of
                  None \<Rightarrow> Inr (multiply v u 1, ud_base_unit u, None)
                | Some raw \<Rightarrow>
                    (case parseArabicFixed raw of
                       None \<Rightarrow> Inl (js ''proposal range end is not fixed decimal'')
                     | Some rangeEnd \<Rightarrow> Inr (multiply v u 1, ud_base_unit u, Some (multiply rangeEnd u 1)))))"

definition quantity_agrees ::
    "platform \<Rightarrow> InternalQuantity \<Rightarrow> QuantityProposal \<Rightarrow> jstr \<times> jstr option \<times> jstr option \<Rightarrow> bool" where
  "quantity_agrees P expected proposed canonical \<longleftrightarrow>
     nfc P (qp_surface proposed) = cq_surface_nfc expected \<and>
     qp_start proposed = cq_start expected \<and> qp_end proposed = cq_end expected \<and>
     qp_dimension proposed = cq_dimension expected \<and> qp_comparator proposed = cq_comparator expected \<and>
     map_option fixedToString (parseArabicFixed (qp_value proposed)) = Some (iq_lexical_value expected) \<and>
     map_option (nfc P) (qp_unit proposed) = iq_lexical_unit expected \<and>
     (case qp_range_end proposed of
        None \<Rightarrow> None
      | Some r \<Rightarrow> map_option fixedToString (parseArabicFixed r)) = iq_lexical_range_end expected \<and>
     canonical = (cq_base_value expected, cq_base_unit expected, cq_range_end_base_value expected)"

text \<open>The loop over the quantities, with the identifiers and the ranges seen so far.\<close>

fun compare_quantities ::
    "platform \<Rightarrow> jstr \<Rightarrow> (InternalQuantity \<times> QuantityProposal) list \<Rightarrow> jstr list \<Rightarrow> (nat \<times> nat) list \<Rightarrow> unit lexed" where
  "compare_quantities P source [] seenIds seenRanges = Inr ()"
| "compare_quantities P source ((expected, proposed) # pairs) seenIds seenRanges =
     (if qp_quantity_id proposed \<in> set seenIds \<or> qp_start proposed \<ge> qp_end proposed \<or>
         qp_end proposed > length source \<or>
         list_ex (\<lambda>(from, to). qp_start proposed < to \<and> qp_end proposed > from) seenRanges
      then Inl (js ''claim quantity ID, offset, or overlap mismatch'')
      else
      bindE (canonicalProposalQuantity proposed) (\<lambda>canonical.
      if \<not> quantity_agrees P expected proposed canonical then Inl (js ''claim quantity fields mismatch'')
      else compare_quantities P source pairs (qp_quantity_id proposed # seenIds)
             ((qp_start proposed, qp_end proposed) # seenRanges)))"

definition canonical_anchor :: "platform \<Rightarrow> SurfaceAnchorProposal \<Rightarrow> CanonicalTextAnchorV1" where
  "canonical_anchor P anchor =
     \<lparr>ca_surface_nfc = nfc P (sa_surface anchor), ca_start = sa_start anchor, ca_end = sa_end anchor\<rparr>"

definition recomputeAtomV1 :: "platform \<Rightarrow> AtomicClaimProposal \<Rightarrow> RecomputedAtomV1 lexed" where
  "recomputeAtomV1 P claim =
     (let source = nfc P (ac_claim_text claim) in
      if source = [] \<or> hasForbiddenAtomControl source \<or> js_includes source [96, 96, 96]
      then Inl (js ''claim source contains forbidden control or fence'')
      else if ac_span_end claim \<noteq> length source \<or> \<not> anchors_exactly P source (ac_subject claim) \<or>
        \<not> anchors_exactly P source (ac_predicate claim) \<or>
        (sa_start (ac_subject claim) < sa_end (ac_predicate claim) \<and>
         sa_end (ac_subject claim) > sa_start (ac_predicate claim))
      then Inl (js ''claim anchor or span mismatch'')
      else
      bindE (internalLexQuantities P source) (\<lambda>lexical.
      bindE (analyzeAtomicTextV1 P source) (\<lambda>analyzed.
      if an_polarity analyzed \<noteq> ac_polarity claim then Inl (js ''claim polarity mismatch'')
      else if an_quantifier analyzed \<noteq> ac_quantifier claim then Inl (js ''claim quantifier mismatch'')
      else if length lexical \<noteq> length (ac_quantities claim) then Inl (js ''claim quantity cardinality mismatch'')
      else
      bindE (compare_quantities P source (zip lexical (ac_quantities claim)) [] []) (\<lambda>_.
      let exactOnly = \<not> an_typed_equivalence_eligible analyzed
      in Inr \<lparr>ra_source_claim_text_nfc = source, ra_subject_anchor = canonical_anchor P (ac_subject claim),
           ra_predicate_anchor = canonical_anchor P (ac_predicate claim), ra_polarity = an_polarity analyzed,
           ra_quantifier = an_quantifier analyzed,
           ra_quantities = map (\<lambda>q. (toPublicQuantity q)
             \<lparr>cq_typed_equivalence_eligible := cq_typed_equivalence_eligible q \<and> \<not> exactOnly\<rparr>) lexical\<rparr>))))"

definition sortEvidenceIdsV1 :: "jstr list \<Rightarrow> jstr list" where
  "sortEvidenceIdsV1 values = sort values"

end
