(* ===== verification/AtomicVerifier.thy ===== *)
theory AtomicVerifier
  imports AtomRecompute GroundedDraft CanonicalJson
begin

text \<open>
  The verifier of a proposed draft (\<open>citation/atomic-grounding/atomic-grounding.verifier.ts\<close>): it
  parses the proposal, checks the assignment, recomputes every claim from its text and compares
  it with each piece of evidence it cites.  A thrown value is an \<open>AtomicVerificationFailure\<close> with
  its disposition, or any other error, which \<open>verify\<close> turns into the closed failure.
\<close>

section \<open>Evidence and input\<close>

text \<open>The fields of an assigned snapshot that are not strings by their type are values.\<close>

record AssignedEvidenceSnapshot =
  ev_evidence_id :: jstr
  ev_chunk_id :: jstr
  ev_project_id :: jstr
  ev_file_id :: jstr
  ev_document_id :: jstr
  ev_retrieval_run_id :: jstr
  ev_ingestion_key :: "jstr option"
  ev_exact_span_text :: jsval
  ev_exact_span_document_start :: jsval
  ev_exact_span_document_end :: jsval
  ev_candidate_rank :: jsval
  ev_score_sparse :: "jsnum option"
  ev_score_dense :: "jsnum option"
  ev_score_fusion :: jsnum
  ev_score_rerank :: jsnum
  ev_rank_sparse :: jsval
  ev_rank_dense :: jsval
  ev_rank_fusion :: jsval
  ev_rank_rerank :: jsval
  ev_index_snapshot :: jsval
  ev_snapshot_digest :: jsval

record AtomicVerificationInput =
  vi_workflow_job_id :: jsval
  vi_project_id :: jsval
  vi_generation_attempt :: jsval
  vi_revision_attempt :: nat
  vi_proposal :: jsval
  vi_assignment_digest :: jstr
  vi_evidence :: "AssignedEvidenceSnapshot list"

datatype verify_error = AtomicVerificationFailure AtomicFailureDisposition | OtherVerifyError jstr

type_synonym 'a verifying = "(verify_error, 'a) result"

section \<open>Results\<close>

definition safeFallbackProposal :: GroundedDraftProposal where
  "safeFallbackProposal =
     \<lparr>gd_status = MATERIAL_GAP_STATUS, gd_claims = [], gd_fragments = [], gd_ordering = [],
      gd_material_gap = Some (GAP_NO_EVIDENCE, [])\<rparr>"

definition decisionFor :: "AtomicGroundingReasonCode \<Rightarrow> nat \<Rightarrow> verification_decision verifying" where
  "decisionFor reason revisionAttempt =
     (let disposition = dispositionForAtomicFailure reason revisionAttempt
      in case failure_transition disposition of
           TO_REVISION_REQUIRED \<Rightarrow> Inr TARGETED_RETRIEVAL_REVISION
         | TO_WAITING_MATERIAL \<Rightarrow> Inr WAITING_MATERIAL_DECISION
         | TO_FAILED \<Rightarrow> Inl (AtomicVerificationFailure disposition))"

definition failedResult ::
    "GroundedDraftProposal \<Rightarrow> AtomicGroundingReasonCode \<Rightarrow> nat \<Rightarrow> AtomicVerifiedClaimV1 list \<Rightarrow> AtomicVerificationResult verifying" where
  "failedResult proposal reason revisionAttempt claims =
     bindE (decisionFor reason revisionAttempt) (\<lambda>decision.
     Inr \<lparr>vr_decision = decision, vr_canonical_proposal = proposal, vr_claims = claims,
       vr_material_gap_reason = Some reason\<rparr>)"

section \<open>Comparing a claim with a piece of evidence\<close>

definition extract_punctuation :: "nat list" where
  "extract_punctuation = [12290, 65281, 65311] @ js ''!?'' @ [65307] @ js '';.''"

definition drop_last_punctuation :: "jstr \<Rightarrow> jstr" where
  "drop_last_punctuation s = (if s \<noteq> [] \<and> last s \<in> set extract_punctuation then butlast s else s)"

definition normalizeExtractText :: "platform \<Rightarrow> jstr \<Rightarrow> jstr" where
  "normalizeExtractText P t =
     (let spaced = map (\<lambda>c. if c = 0x3000 then 32 else c) (nfc P t);
          left = dropWhile (\<lambda>c. c = 32) spaced;
          trimmed = rev (dropWhile (\<lambda>c. c = 32) (rev left))
      in drop_last_punctuation trimmed)"

definition text_or_empty :: "jstr option \<Rightarrow> jstr" where
  "text_or_empty t = (case t of None \<Rightarrow> [] | Some s \<Rightarrow> s)"

definition quantityTuple :: "CanonicalQuantityV1 \<Rightarrow> jstr" where
  "quantityTuple q =
     js (dimension_text (cq_dimension q)) @ 0 # cq_base_value q @ 0 # text_or_empty (cq_base_unit q) @
     0 # js (comparator_text (cq_comparator q)) @ 0 # text_or_empty (cq_range_end_base_value q)"

definition quantity_mark :: "nat \<Rightarrow> jstr" where
  "quantity_mark index = js ''__Q'' @ dec_nat index @ js ''__''"

text \<open>The text with every quantity replaced by its mark, the last one first.\<close>

definition mark_quantities :: "jstr \<Rightarrow> CanonicalQuantityV1 list \<Rightarrow> jstr" where
  "mark_quantities t quantities =
     foldl (\<lambda>result (index, q). take (cq_start q) result @ quantity_mark index @ drop (cq_end q) result)
       t (rev (enumerate 0 quantities))"

definition typedSkeleton :: "platform \<Rightarrow> jstr \<Rightarrow> CanonicalQuantityV1 list \<Rightarrow> jstr" where
  "typedSkeleton P t quantities = normalizeExtractText P (mark_quantities (nfc P t) quantities)"

text \<open>A comparison is the method that supports the claim, or the reason why nothing does.\<close>

datatype support_method = EXACT | TYPED

definition typed_eligible :: "RecomputedAtomV1 \<Rightarrow> AnalyzedAtomicTextV1 \<Rightarrow> bool" where
  "typed_eligible recomputed evidence \<longleftrightarrow>
     ra_quantifier recomputed \<noteq> Q_SOME \<and> ra_quantifier recomputed \<noteq> Q_OTHER \<and>
     an_quantifier evidence \<noteq> Q_SOME \<and> an_quantifier evidence \<noteq> Q_OTHER \<and>
     an_typed_equivalence_eligible evidence \<and>
     list_all cq_typed_equivalence_eligible (ra_quantities recomputed) \<and>
     list_all cq_typed_equivalence_eligible (an_quantities evidence)"

definition compareOneEvidenceDefault ::
    "platform \<Rightarrow> RecomputedAtomV1 \<Rightarrow> jstr \<Rightarrow> (AtomicGroundingReasonCode, support_method) result" where
  "compareOneEvidenceDefault P recomputed evidenceText =
     (if normalizeExtractText P (ra_source_claim_text_nfc recomputed) = normalizeExtractText P evidenceText
      then Inr EXACT
      else
        case analyzeAtomicTextV1 P evidenceText of
          Inl _ \<Rightarrow> Inl ATOM_EXACT_MISMATCH
        | Inr evidence \<Rightarrow>
            if \<not> typed_eligible recomputed evidence then Inl ATOM_EXACT_MISMATCH
            else if ra_polarity recomputed \<noteq> an_polarity evidence then Inl ATOM_POLARITY_MISMATCH
            else if ra_quantifier recomputed \<noteq> an_quantifier evidence then Inl ATOM_QUANTIFIER_MISMATCH
            else if map quantityTuple (ra_quantities recomputed) \<noteq> map quantityTuple (an_quantities evidence)
            then Inl ATOM_QUANTITY_MISMATCH
            else if typedSkeleton P (ra_source_claim_text_nfc recomputed) (ra_quantities recomputed) \<noteq>
                    typedSkeleton P (an_source_text_nfc evidence) (an_quantities evidence)
            then Inl ATOM_TYPED_SKELETON_MISMATCH
            else Inr TYPED)"

section \<open>The canonical claim\<close>

definition CANDIDATE_CLAIM_KEY_VERSION :: jstr where
  "CANDIDATE_CLAIM_KEY_VERSION = js ''candidate-claim-key.v1''"

definition candidateClaimKey :: "platform \<Rightarrow> jstr \<Rightarrow> int \<Rightarrow> nat \<Rightarrow> jstr" where
  "candidateClaimKey P workflowJobId generationAttempt initialClaimFragmentOrdinal =
     sha256_hex P
       (utf8_encode CANDIDATE_CLAIM_KEY_VERSION @ 0 # utf8_encode (nfc P workflowJobId) @
        0 # dec_int generationAttempt @ 0 # dec_nat initialClaimFragmentOrdinal)"

text \<open>
  The first structure on the way: the fragments are looked up by their identifier, and a later
  fragment replaces an earlier one.
\<close>

fun first_structure :: "(jstr \<Rightarrow> RenderFragmentProposal option) \<Rightarrow> jstr list \<Rightarrow> jstr option" where
  "first_structure fragments [] = None"
| "first_structure fragments (i # ids) =
     (case fragments i of Some (StructureRef _ s _) \<Rightarrow> Some s | _ \<Rightarrow> first_structure fragments ids)"

definition fragment_map :: "GroundedDraftProposal \<Rightarrow> jstr \<Rightarrow> RenderFragmentProposal option" where
  "fragment_map proposal = map_of (rev (map (\<lambda>fr. (fragment_id fr, fr)) (gd_fragments proposal)))"

definition previous_structure :: "GroundedDraftProposal \<Rightarrow> nat \<Rightarrow> jstr option" where
  "previous_structure proposal ordinal = first_structure (fragment_map proposal) (rev (take ordinal (gd_ordering proposal)))"

definition next_structure :: "GroundedDraftProposal \<Rightarrow> nat \<Rightarrow> jstr option" where
  "next_structure proposal ordinal = first_structure (fragment_map proposal) (drop (Suc ordinal) (gd_ordering proposal))"

text \<open>The presentation of the first claim reference with the identifier.\<close>

fun claim_ref_presentation :: "RenderFragmentProposal list \<Rightarrow> jstr \<Rightarrow> claim_presentation option" where
  "claim_ref_presentation [] i = None"
| "claim_ref_presentation (ClaimRef f c p # frs) i = (if f = i then Some p else claim_ref_presentation frs i)"
| "claim_ref_presentation (fr # frs) i = claim_ref_presentation frs i"

definition text_value :: "jsval \<Rightarrow> jstr" where
  "text_value v = (case v of JStr s \<Rightarrow> s | _ \<Rightarrow> [])"

definition canonicalClaimBase ::
    "platform \<Rightarrow> AtomicVerificationInput \<Rightarrow> GroundedDraftProposal \<Rightarrow> AtomicClaimProposal \<Rightarrow> RecomputedAtomV1 \<Rightarrow> CanonicalClaimBase verifying" where
  "canonicalClaimBase P input proposal claim recomputed =
     (let ordinal = ordinal_of (gd_ordering proposal) (ac_fragment_id claim) in
      case claim_ref_presentation (gd_fragments proposal) (ac_fragment_id claim) of
        None \<Rightarrow> Inl (OtherVerifyError (js ''closed render graph invariant violated''))
      | Some presentation \<Rightarrow>
          if ac_fragment_id claim \<notin> set (gd_ordering proposal)
          then Inl (OtherVerifyError (js ''closed render graph invariant violated''))
          else Inr \<lparr>
            cc_candidate_claim_key =
              (case ac_revision_of claim of
                 Some key \<Rightarrow>
                   if vi_revision_attempt input = 1 then key
                   else candidateClaimKey P (text_value (vi_workflow_job_id input))
                          (int_of_number (vi_generation_attempt input)) ordinal
               | None \<Rightarrow> candidateClaimKey P (text_value (vi_workflow_job_id input))
                   (int_of_number (vi_generation_attempt input)) ordinal),
            cc_source_claim_text_nfc = ra_source_claim_text_nfc recomputed,
            cc_subject_anchor = ra_subject_anchor recomputed, cc_predicate_anchor = ra_predicate_anchor recomputed,
            cc_polarity = ra_polarity recomputed, cc_quantifier = ra_quantifier recomputed,
            cc_quantities = ra_quantities recomputed, cc_evidence_ids = ac_evidence_ids claim,
            cc_ordinal = ordinal, cc_presentation = presentation,
            cc_previous_structure_id = previous_structure proposal ordinal,
            cc_next_structure_id = next_structure proposal ordinal,
            cc_revision_attempt = vi_revision_attempt input, cc_revision_of = ac_revision_of claim\<rparr>)"

definition recomputeFailureReason :: "jstr \<Rightarrow> AtomicGroundingReasonCode" where
  "recomputeFailureReason message =
     (if js_includes message (js ''anchor'') \<or> js_includes message (js ''span'') then ATOM_ANCHOR_MISMATCH
      else if js_includes message (js ''polarity'') then ATOM_POLARITY_MISMATCH
      else if js_includes message (js ''quantifier'') then ATOM_QUANTIFIER_MISMATCH
      else if js_includes message (js ''quantity'') then ATOM_QUANTITY_MISMATCH
      else SCHEMA_INVALID)"

definition evidence_ref :: "AssignedEvidenceSnapshot \<Rightarrow> jstr \<times> jstr" where
  "evidence_ref item = (ev_evidence_id item, text_value (ev_snapshot_digest item))"

definition unverifiableClaim ::
    "CanonicalClaimBase \<Rightarrow> (jstr \<times> jstr) list \<Rightarrow> AtomicGroundingReasonCode \<Rightarrow> AtomicVerifiedClaimV1" where
  "unverifiableClaim base evidenceRefs reason =
     \<lparr>vc_candidate_claim_key = cc_candidate_claim_key base, vc_base = base, vc_support_status = UNVERIFIABLE,
      vc_verification_method = ATOMIC_UNVERIFIABLE, vc_evidence_refs = evidenceRefs, vc_reason_codes = [reason]\<rparr>"

section \<open>Verification\<close>

text \<open>The evidence a claim cites: all of it, or what came before the first unknown identifier.\<close>

fun cited_evidence ::
    "(jstr \<Rightarrow> AssignedEvidenceSnapshot option) \<Rightarrow> jstr list \<Rightarrow>
     (AssignedEvidenceSnapshot list, AssignedEvidenceSnapshot list) result" where
  "cited_evidence evidenceById [] = Inr []"
| "cited_evidence evidenceById (i # ids) =
     (case evidenceById i of
        None \<Rightarrow> Inl []
      | Some item \<Rightarrow>
          (case cited_evidence evidenceById ids of
             Inl items \<Rightarrow> Inl (item # items)
           | Inr items \<Rightarrow> Inr (item # items)))"

fun first_refusal :: "(AtomicGroundingReasonCode, support_method) result list \<Rightarrow> AtomicGroundingReasonCode" where
  "first_refusal [] = ATOM_EXACT_MISMATCH"
| "first_refusal (Inl reason # cs) = reason"
| "first_refusal (Inr m # cs) = first_refusal cs"

definition unsupported_reason :: "(AtomicGroundingReasonCode, support_method) result list \<Rightarrow> AtomicGroundingReasonCode" where
  "unsupported_reason perEvidence =
     (if length perEvidence > 1 \<and> list_all isl perEvidence then ATOM_EVIDENCE_MOSAIC_UNSUPPORTED
      else first_refusal perEvidence)"

definition compared_claim ::
    "CanonicalClaimBase \<Rightarrow> (jstr \<times> jstr) list \<Rightarrow> (AtomicGroundingReasonCode, support_method) result list \<Rightarrow> AtomicVerifiedClaimV1" where
  "compared_claim base evidenceRefs perEvidence =
     (if perEvidence \<noteq> [] \<and> list_all (\<lambda>c. \<not> isl c) perEvidence
      then \<lparr>vc_candidate_claim_key = cc_candidate_claim_key base, vc_base = base, vc_support_status = SUPPORTED,
            vc_verification_method =
              (if Inr TYPED \<in> set perEvidence then ATOMIC_TYPED_EQUIVALENT else ATOMIC_EXTRACT_EXACT),
            vc_evidence_refs = evidenceRefs, vc_reason_codes = []\<rparr>
      else \<lparr>vc_candidate_claim_key = cc_candidate_claim_key base, vc_base = base, vc_support_status = UNSUPPORTED,
            vc_verification_method = ATOMIC_UNSUPPORTED, vc_evidence_refs = evidenceRefs,
            vc_reason_codes = [unsupported_reason perEvidence]\<rparr>)"

text \<open>The loop over the claims, with the claims verified so far.\<close>

fun verify_claims ::
    "platform \<Rightarrow> AtomicVerificationInput \<Rightarrow> GroundedDraftProposal \<Rightarrow> (jstr \<Rightarrow> AssignedEvidenceSnapshot option) \<Rightarrow>
     AtomicClaimProposal list \<Rightarrow> AtomicVerifiedClaimV1 list \<Rightarrow> AtomicVerificationResult verifying" where
  "verify_claims P input proposal evidenceById [] verified =
     Inr \<lparr>vr_decision = ALLOW, vr_canonical_proposal = proposal, vr_claims = verified, vr_material_gap_reason = None\<rparr>"
| "verify_claims P input proposal evidenceById (claim # claims) verified =
     (case recomputeAtomV1 P claim of
        Inl message \<Rightarrow> failedResult proposal (recomputeFailureReason message) (vi_revision_attempt input) verified
      | Inr recomputed \<Rightarrow>
          bindE (canonicalClaimBase P input proposal claim recomputed) (\<lambda>base.
          case cited_evidence evidenceById (ac_evidence_ids claim) of
            Inl items \<Rightarrow>
              failedResult proposal EVIDENCE_UNKNOWN (vi_revision_attempt input)
                (verified @ [unverifiableClaim base (map evidence_ref items) EVIDENCE_UNKNOWN])
          | Inr items \<Rightarrow>
              let perEvidence = map (\<lambda>item. compareOneEvidenceDefault P recomputed (text_value (ev_exact_span_text item))) items;
                  compared = compared_claim base (map evidence_ref items) perEvidence
              in if vc_support_status compared \<noteq> SUPPORTED
                 then failedResult proposal (unsupported_reason perEvidence) (vi_revision_attempt input) (verified @ [compared])
                 else verify_claims P input proposal evidenceById claims (verified @ [compared])))"

definition evidence_readable :: "AssignedEvidenceSnapshot \<Rightarrow> bool" where
  "evidence_readable item \<longleftrightarrow>
     (case ev_snapshot_digest item of JStr d \<Rightarrow> is_sha256 d | _ \<Rightarrow> False) \<and>
     (case ev_exact_span_text item of JStr s \<Rightarrow> s \<noteq> [] | _ \<Rightarrow> False)"

text \<open>A field that must be a string that is not empty.\<close>

definition filled_text :: "jsval \<Rightarrow> bool" where
  "filled_text v \<longleftrightarrow> (case v of JStr s \<Rightarrow> s \<noteq> [] | _ \<Rightarrow> False)"

definition verifyClosed :: "platform \<Rightarrow> AtomicVerificationInput \<Rightarrow> AtomicVerificationResult verifying" where
  "verifyClosed P input =
     (let attempt = vi_revision_attempt input in
      case parse_draft P (vi_proposal input) of
        Inl _ \<Rightarrow> failedResult safeFallbackProposal SCHEMA_INVALID attempt []
      | Inr proposal \<Rightarrow>
          if \<not> filled_text (vi_workflow_job_id input) \<or> \<not> filled_text (vi_project_id input) \<or>
             \<not> is_safe_integer (vi_generation_attempt input) \<or> int_of_number (vi_generation_attempt input) < 0
          then failedResult proposal SCHEMA_INVALID attempt []
          else if vi_assignment_digest input = [] then failedResult proposal ASSIGNMENT_MISSING attempt []
          else if \<not> is_sha256 (vi_assignment_digest input)
          then failedResult proposal ASSIGNMENT_CONTRACT_MISMATCH attempt []
          else if gd_status proposal = MATERIAL_GAP_STATUS
          then failedResult proposal
                 (case gd_material_gap proposal of None \<Rightarrow> NO_EVIDENCE | Some (reason, _) \<Rightarrow> gap_reason reason) attempt []
          else if attempt = 0 \<and> list_ex (\<lambda>claim. ac_revision_of claim \<noteq> None) (gd_claims proposal)
          then failedResult proposal REVISION_INVARIANT_VIOLATION attempt []
          else if vi_evidence input = [] then failedResult proposal NO_EVIDENCE attempt []
          else if \<not> distinct (map ev_evidence_id (vi_evidence input))
          then failedResult proposal ASSIGNMENT_SNAPSHOT_DRIFT attempt []
          else if list_ex (\<lambda>item. JStr (ev_project_id item) \<noteq> vi_project_id input) (vi_evidence input)
          then failedResult proposal EVIDENCE_OWNERSHIP_INVALID attempt []
          else if list_ex (\<lambda>item. \<not> evidence_readable item) (vi_evidence input)
          then failedResult proposal EVIDENCE_SNAPSHOT_DRIFT attempt []
          else verify_claims P input proposal
                 (map_of (map (\<lambda>item. (ev_evidence_id item, item)) (vi_evidence input))) (gd_claims proposal) [])"

definition verify :: "platform \<Rightarrow> AtomicVerificationInput \<Rightarrow> (AtomicFailureDisposition, AtomicVerificationResult) result" where
  "verify P input =
     (case verifyClosed P input of
        Inr result \<Rightarrow> Inr result
      | Inl (AtomicVerificationFailure disposition) \<Rightarrow> Inl disposition
      | Inl (OtherVerifyError _) \<Rightarrow> Inl failClosedUnknownAtomicError)"

end
