(* ===== verification/GroundingRead.thy ===== *)
theory GroundingRead
  imports AtomicContracts
begin

text \<open>
  The read side of grounding (\<open>citation/grounding-read-policy.ts\<close>): a stored verdict is shown as
  supported only when the stored atomic claim has exactly the shape of the current version;
  everything else is capped to \<open>UNVERIFIABLE\<close>.
\<close>

record PersistedGroundingReadInput =
  gi_contract_version :: jsval
  gi_atomic_claim :: jsval
  gi_support_status :: jsval
  gi_support_score :: jsval
  gi_verification_method :: jsval

record PersistedGroundingReadVerdict =
  gr_support_status :: support_status
  gr_support_score :: nat
  gr_verification_method :: jstr

definition CAPPED_VERDICT :: PersistedGroundingReadVerdict where
  "CAPPED_VERDICT =
     \<lparr>gr_support_status = UNVERIFIABLE, gr_support_score = 0, gr_verification_method = js ''legacy_unverifiable''\<rparr>"

definition ALLOWED_ATOMIC_METHODS :: "string list" where
  "ALLOWED_ATOMIC_METHODS = [''atomic_extract_exact'', ''atomic_typed_equivalent'']"

definition ATOMIC_CANONICALIZER_VERSION :: jstr where "ATOMIC_CANONICALIZER_VERSION = js ''atomic-canonicalizer.v1''"
definition QUANTITY_LEXER_VERSION :: jstr where "QUANTITY_LEXER_VERSION = js ''quantity-lexer.v1''"
definition ATOMIC_VERIFIER_VERSION :: jstr where "ATOMIC_VERIFIER_VERSION = js ''atomic-verifier.v1''"
definition CANONICAL_ATOMIC_CLAIM_VERSION :: jstr where "CANONICAL_ATOMIC_CLAIM_VERSION = js ''canonical-atomic-claim.v1''"

section \<open>Shapes\<close>

definition isNullableString :: "jsval \<Rightarrow> bool" where
  "isNullableString v \<longleftrightarrow> v = JNull \<or> is_string v"

fun isInteger :: "jsval \<Rightarrow> bool" where
  "isInteger (JNum (NInt i)) = True"
| "isInteger (JNum NNegZero) = True"
| "isInteger _ = False"

definition includes_text :: "string list \<Rightarrow> jsval \<Rightarrow> bool" where
  "includes_text allowed v \<longleftrightarrow> (case v of JStr s \<Rightarrow> s \<in> set (map js allowed) | _ \<Rightarrow> False)"

text \<open>The entries of an object whose keys are exactly the given ones.\<close>

definition exact_entries :: "jsval \<Rightarrow> string list \<Rightarrow> (jstr \<times> jsval) list option" where
  "exact_entries v keys =
     (case v of JObj kvs \<Rightarrow> if sort (map fst kvs) = sort (map js keys) then Some kvs else None | _ \<Rightarrow> None)"

definition isAnchor :: "jsval \<Rightarrow> bool" where
  "isAnchor v \<longleftrightarrow>
     (case exact_entries v [''surface_nfc'', ''start_utf16'', ''end_utf16''] of
        None \<Rightarrow> False
      | Some kvs \<Rightarrow>
          is_string (get_prop kvs (js ''surface_nfc'')) \<and> isInteger (get_prop kvs (js ''start_utf16'')) \<and>
          isInteger (get_prop kvs (js ''end_utf16'')))"

definition QUANTITY_FIELDS :: "string list" where
  "QUANTITY_FIELDS =
     [''ordinal'', ''surface_nfc'', ''start_utf16'', ''end_utf16'', ''dimension'', ''base_value'', ''base_unit'',
      ''comparator'', ''range_end_base_value'', ''typed_equivalence_eligible'']"

definition isQuantity :: "jsval \<Rightarrow> bool" where
  "isQuantity v \<longleftrightarrow>
     (case exact_entries v QUANTITY_FIELDS of
        None \<Rightarrow> False
      | Some kvs \<Rightarrow>
          isInteger (get_prop kvs (js ''ordinal'')) \<and> is_string (get_prop kvs (js ''surface_nfc'')) \<and>
          isInteger (get_prop kvs (js ''start_utf16'')) \<and> isInteger (get_prop kvs (js ''end_utf16'')) \<and>
          includes_text [''count'', ''ratio'', ''duration'', ''power'', ''energy'', ''currency'', ''length'', ''mass'',
            ''temperature'', ''other''] (get_prop kvs (js ''dimension'')) \<and>
          is_string (get_prop kvs (js ''base_value'')) \<and> isNullableString (get_prop kvs (js ''base_unit'')) \<and>
          includes_text [''eq'', ''gt'', ''gte'', ''lt'', ''lte'', ''approx'', ''range''] (get_prop kvs (js ''comparator'')) \<and>
          isNullableString (get_prop kvs (js ''range_end_base_value'')) \<and>
          (case get_prop kvs (js ''typed_equivalence_eligible'') of JBool b \<Rightarrow> True | _ \<Rightarrow> False))"

definition CLAIM_FIELDS :: "string list" where
  "CLAIM_FIELDS =
     [''canonical_claim_version'', ''candidate_claim_key'', ''source_claim_text_nfc'', ''rendered_claim_text'',
      ''subject_anchor'', ''predicate_anchor'', ''polarity'', ''quantifier'', ''quantities'', ''evidence_ids'',
      ''fragment'', ''revision'']"

definition every :: "(jsval \<Rightarrow> bool) \<Rightarrow> jsval \<Rightarrow> bool" where
  "every p v \<longleftrightarrow> (case v of JArr vs \<Rightarrow> list_all p vs | _ \<Rightarrow> False)"

definition isFragment :: "jsval \<Rightarrow> bool" where
  "isFragment v \<longleftrightarrow>
     (case exact_entries v [''ordinal'', ''presentation'', ''previous_structure_id'', ''next_structure_id''] of
        None \<Rightarrow> False
      | Some kvs \<Rightarrow>
          isInteger (get_prop kvs (js ''ordinal'')) \<and>
          includes_text [''sentence'', ''bullet'', ''ordered_item''] (get_prop kvs (js ''presentation'')) \<and>
          isNullableString (get_prop kvs (js ''previous_structure_id'')) \<and>
          isNullableString (get_prop kvs (js ''next_structure_id'')))"

definition isRevision :: "jsval \<Rightarrow> bool" where
  "isRevision v \<longleftrightarrow>
     (case exact_entries v [''attempt'', ''revision_of_candidate_claim_key''] of
        None \<Rightarrow> False
      | Some kvs \<Rightarrow>
          get_prop kvs (js ''attempt'') \<in> {JNum (NInt 0), JNum NNegZero, JNum (NInt 1)} \<and>
          isNullableString (get_prop kvs (js ''revision_of_candidate_claim_key'')))"

definition isCanonicalAtomicClaimV1 :: "jsval \<Rightarrow> bool" where
  "isCanonicalAtomicClaimV1 v \<longleftrightarrow>
     (case exact_entries v CLAIM_FIELDS of
        None \<Rightarrow> False
      | Some kvs \<Rightarrow>
          get_prop kvs (js ''canonical_claim_version'') = JStr CANONICAL_ATOMIC_CLAIM_VERSION \<and>
          is_string (get_prop kvs (js ''candidate_claim_key'')) \<and>
          is_string (get_prop kvs (js ''source_claim_text_nfc'')) \<and>
          is_string (get_prop kvs (js ''rendered_claim_text'')) \<and>
          isAnchor (get_prop kvs (js ''subject_anchor'')) \<and> isAnchor (get_prop kvs (js ''predicate_anchor'')) \<and>
          includes_text [''affirmed'', ''negated''] (get_prop kvs (js ''polarity'')) \<and>
          includes_text [''plain'', ''all'', ''none'', ''not_all'', ''not_none'', ''some'', ''other'']
            (get_prop kvs (js ''quantifier'')) \<and>
          every isQuantity (get_prop kvs (js ''quantities'')) \<and>
          every is_string (get_prop kvs (js ''evidence_ids'')) \<and>
          isFragment (get_prop kvs (js ''fragment'')) \<and> isRevision (get_prop kvs (js ''revision'')))"

text \<open>The stored column is JSON text or an already parsed value.\<close>

definition parseJson :: "platform \<Rightarrow> jsval \<Rightarrow> jsval" where
  "parseJson P v = (case v of JStr s \<Rightarrow> (case json_parse P s of None \<Rightarrow> JNull | Some x \<Rightarrow> x) | _ \<Rightarrow> v)"

definition isPersistedAtomicClaimV1 :: "platform \<Rightarrow> jsval \<Rightarrow> bool" where
  "isPersistedAtomicClaimV1 P v \<longleftrightarrow>
     (case exact_entries (parseJson P v)
        [''canonicalizer_version'', ''quantity_lexer_version'', ''verifier_version'', ''canonical_claim''] of
        None \<Rightarrow> False
      | Some kvs \<Rightarrow>
          get_prop kvs (js ''canonicalizer_version'') = JStr ATOMIC_CANONICALIZER_VERSION \<and>
          get_prop kvs (js ''quantity_lexer_version'') = JStr QUANTITY_LEXER_VERSION \<and>
          get_prop kvs (js ''verifier_version'') = JStr ATOMIC_VERIFIER_VERSION \<and>
          isCanonicalAtomicClaimV1 (get_prop kvs (js ''canonical_claim'')))"

definition capPersistedGroundingForRead ::
    "platform \<Rightarrow> PersistedGroundingReadInput \<Rightarrow> PersistedGroundingReadVerdict" where
  "capPersistedGroundingForRead P i =
     (case gi_verification_method i of
        JStr method \<Rightarrow>
          if gi_contract_version i \<noteq> JStr (js ''atomic:v1'') \<or> gi_support_status i \<noteq> JStr (js ''SUPPORTED'') \<or>
             gi_support_score i \<noteq> JNum (NInt 1) \<or> method \<notin> set (map js ALLOWED_ATOMIC_METHODS) \<or>
             \<not> isPersistedAtomicClaimV1 P (gi_atomic_claim i)
          then CAPPED_VERDICT
          else \<lparr>gr_support_status = SUPPORTED, gr_support_score = 1, gr_verification_method = method\<rparr>
      | _ \<Rightarrow> CAPPED_VERDICT)"

section \<open>What is stored for a verified claim\<close>

definition opt_value :: "jstr option \<Rightarrow> jsval" where
  "opt_value x = (case x of None \<Rightarrow> JNull | Some s \<Rightarrow> JStr s)"

definition int_value :: "nat \<Rightarrow> jsval" where
  "int_value n = JNum (NInt (int n))"

definition stored_anchor :: "CanonicalTextAnchorV1 \<Rightarrow> jsval" where
  "stored_anchor a = JObj
     [(js ''surface_nfc'', JStr (ca_surface_nfc a)), (js ''start_utf16'', int_value (ca_start a)),
      (js ''end_utf16'', int_value (ca_end a))]"

definition stored_quantity :: "CanonicalQuantityV1 \<Rightarrow> jsval" where
  "stored_quantity q = JObj
     [(js ''ordinal'', int_value (cq_ordinal q)), (js ''surface_nfc'', JStr (cq_surface_nfc q)),
      (js ''start_utf16'', int_value (cq_start q)), (js ''end_utf16'', int_value (cq_end q)),
      (js ''dimension'', JStr (js (dimension_text (cq_dimension q)))), (js ''base_value'', JStr (cq_base_value q)),
      (js ''base_unit'', opt_value (cq_base_unit q)), (js ''comparator'', JStr (js (comparator_text (cq_comparator q)))),
      (js ''range_end_base_value'', opt_value (cq_range_end_base_value q)),
      (js ''typed_equivalence_eligible'', JBool (cq_typed_equivalence_eligible q))]"

definition stored_claim :: "CanonicalClaimBase \<Rightarrow> jstr \<Rightarrow> jsval" where
  "stored_claim c rendered = JObj
     [(js ''canonical_claim_version'', JStr CANONICAL_ATOMIC_CLAIM_VERSION),
      (js ''candidate_claim_key'', JStr (cc_candidate_claim_key c)),
      (js ''source_claim_text_nfc'', JStr (cc_source_claim_text_nfc c)), (js ''rendered_claim_text'', JStr rendered),
      (js ''subject_anchor'', stored_anchor (cc_subject_anchor c)),
      (js ''predicate_anchor'', stored_anchor (cc_predicate_anchor c)),
      (js ''polarity'', JStr (js (polarity_text (cc_polarity c)))),
      (js ''quantifier'', JStr (js (quantifier_text (cc_quantifier c)))),
      (js ''quantities'', JArr (map stored_quantity (cc_quantities c))),
      (js ''evidence_ids'', JArr (map JStr (cc_evidence_ids c))),
      (js ''fragment'', JObj [(js ''ordinal'', int_value (cc_ordinal c)),
         (js ''presentation'', JStr (js (claim_presentation_text (cc_presentation c)))),
         (js ''previous_structure_id'', opt_value (cc_previous_structure_id c)),
         (js ''next_structure_id'', opt_value (cc_next_structure_id c))]),
      (js ''revision'', JObj [(js ''attempt'', int_value (cc_revision_attempt c)),
         (js ''revision_of_candidate_claim_key'', opt_value (cc_revision_of c))])]"

definition stored_record :: "CanonicalClaimBase \<Rightarrow> jstr \<Rightarrow> jsval" where
  "stored_record c rendered = JObj
     [(js ''canonicalizer_version'', JStr ATOMIC_CANONICALIZER_VERSION),
      (js ''quantity_lexer_version'', JStr QUANTITY_LEXER_VERSION),
      (js ''verifier_version'', JStr ATOMIC_VERIFIER_VERSION), (js ''canonical_claim'', stored_claim c rendered)]"

lemma stored_shapes [simp]:
  "isInteger (int_value n)" "isNullableString (opt_value x)" "isNullableString JNull" "isNullableString (JStr s)"
  by (auto simp: int_value_def opt_value_def isNullableString_def split: option.splits)

lemma stored_anchor_shape [simp]: "isAnchor (stored_anchor a)"
  by (simp add: isAnchor_def stored_anchor_def exact_entries_def get_prop_def)

lemma stored_quantity_shape [simp]: "isQuantity (stored_quantity q)"
proof -
  have "includes_text [''count'', ''ratio'', ''duration'', ''power'', ''energy'', ''currency'', ''length'', ''mass'',
      ''temperature'', ''other''] (JStr (js (dimension_text (cq_dimension q))))"
    by (cases "cq_dimension q") (simp_all add: includes_text_def)
  moreover have "includes_text [''eq'', ''gt'', ''gte'', ''lt'', ''lte'', ''approx'', ''range'']
      (JStr (js (comparator_text (cq_comparator q))))"
    by (cases "cq_comparator q") (simp_all add: includes_text_def)
  ultimately show ?thesis
    by (simp add: isQuantity_def stored_quantity_def QUANTITY_FIELDS_def exact_entries_def get_prop_def)
qed

lemma stored_claim_shape: "cc_revision_attempt c \<le> 1 \<Longrightarrow> isCanonicalAtomicClaimV1 (stored_claim c rendered)"
proof -
  assume a: "cc_revision_attempt c \<le> 1"
  have "includes_text [''affirmed'', ''negated''] (JStr (js (polarity_text (cc_polarity c))))"
    by (cases "cc_polarity c") (simp_all add: includes_text_def)
  moreover have "includes_text [''plain'', ''all'', ''none'', ''not_all'', ''not_none'', ''some'', ''other'']
      (JStr (js (quantifier_text (cc_quantifier c))))"
    by (cases "cc_quantifier c") (simp_all add: includes_text_def)
  moreover have "includes_text [''sentence'', ''bullet'', ''ordered_item''] (JStr (js (claim_presentation_text (cc_presentation c))))"
    by (cases "cc_presentation c") (simp_all add: includes_text_def)
  moreover have "int_value (cc_revision_attempt c) \<in> {JNum (NInt 0), JNum NNegZero, JNum (NInt 1)}"
    using a by (auto simp: int_value_def)
  ultimately show ?thesis
    by (simp add: isCanonicalAtomicClaimV1_def stored_claim_def CLAIM_FIELDS_def exact_entries_def get_prop_def every_def
        isFragment_def isRevision_def list_all_iff)
qed


definition stored_sample :: CanonicalClaimBase where
  "stored_sample =
     \<lparr>cc_candidate_claim_key = js ''key'', cc_source_claim_text_nfc = js ''A is 5'',
      cc_subject_anchor = \<lparr>ca_surface_nfc = js ''A'', ca_start = 0, ca_end = 1\<rparr>,
      cc_predicate_anchor = \<lparr>ca_surface_nfc = js ''is'', ca_start = 2, ca_end = 4\<rparr>,
      cc_polarity = AFFIRMED, cc_quantifier = Q_PLAIN, cc_quantities = [], cc_evidence_ids = [js ''e1''],
      cc_ordinal = 0, cc_presentation = SENTENCE, cc_previous_structure_id = None, cc_next_structure_id = None,
      cc_revision_attempt = 1, cc_revision_of = Some (js ''old'')\<rparr>"

definition reading_platform :: platform where
  "reading_platform = plain_platform\<lparr>json_parse := (\<lambda>s. if s = js ''column'' then Some (stored_record stored_sample []) else None)\<rparr>"


end
