(* ===== verification/SealedCandidate.thy ===== *)
theory SealedCandidate
  imports AtomicVerifier RenderContext GroundedDraftRoundtrip GroundingRead
begin

text \<open>
  Sealing a verified draft (\<open>citation/atomic-grounding/sealed-grounded-candidate.ts\<close>): the rendered
  output, the claims with their positions and evidence, the evidence snapshots and the digests
  that bind them are put in one envelope; and the check that a targeted revision changes nothing
  but the claims it may change.  Each of the two throws a single \<open>TypeError\<close>.
\<close>

section \<open>Versions and data\<close>

definition ATOMIC_GROUNDING_CONTRACT_VERSION :: jstr where "ATOMIC_GROUNDING_CONTRACT_VERSION = js ''atomic:v1''"
definition CANONICAL_JSON_VERSION :: jstr where "CANONICAL_JSON_VERSION = js ''canonical-json.v1''"
definition PLAIN_TEXT_ESCAPE_VERSION :: jstr where "PLAIN_TEXT_ESCAPE_VERSION = js ''escape-plain-text.v1''"
definition ATOMIC_RENDERER_VERSION :: jstr where "ATOMIC_RENDERER_VERSION = js ''atomic-renderer.v1''"
definition SEALED_GROUNDED_CANDIDATE_VERSION :: jstr where
  "SEALED_GROUNDED_CANDIDATE_VERSION = js ''sealed-grounded-candidate.v1''"
definition PERSISTED_CLAIM_ID_VERSION :: jstr where "PERSISTED_CLAIM_ID_VERSION = js ''persisted-claim-id.v1''"
definition ATOMIC_CLAIM_LEDGER_VERSION :: jstr where "ATOMIC_CLAIM_LEDGER_VERSION = js ''atomic-claim-ledger.v1''"
definition NON_TARGET_INVARIANT_VERSION :: jstr where "NON_TARGET_INVARIANT_VERSION = js ''non-target-invariant.v1''"

datatype retrieval_state = READY | DEGRADED | STATE_NO_HIT | RETRIEVAL_ERROR

record GroundingAssignmentSnapshot =
  as_workflow_job_id :: jstr
  as_project_id :: jstr
  as_retrieval_run_id :: jstr
  as_retrieval_run_refs :: "jstr list option"
  as_retrieval_state :: retrieval_state
  as_contract_version :: jstr
  as_strict_mode :: bool
  as_targeted_revision_attempts :: int
  as_snapshot_digest :: jsval
  as_evidence :: "AssignedEvidenceSnapshot list"

datatype workflow_type = CONTENT_WORKFLOW | REWRITE_WORKFLOW | EXPAND_WORKFLOW | COMPRESS_WORKFLOW

fun sealed_type_text :: "workflow_type \<Rightarrow> string" where
  "sealed_type_text CONTENT_WORKFLOW = ''content''"
| "sealed_type_text REWRITE_WORKFLOW = ''rewrite''"
| "sealed_type_text EXPAND_WORKFLOW = ''expand''"
| "sealed_type_text COMPRESS_WORKFLOW = ''compress''"

record sealed_workflow =
  sw_workflow_job_id :: jstr
  sw_project_id :: jstr
  sw_workflow_type :: workflow_type
  sw_generation_attempt :: int
  sw_revision_attempt :: nat

record SealedEvidenceSnapshotV1 =
  se_evidence_id :: jstr
  se_retrieval_run_id :: jstr
  se_chunk_id :: jstr
  se_project_id :: jstr
  se_file_id :: jstr
  se_document_id :: jstr
  se_ingestion_key :: "jstr option"
  se_exact_span_text_nfc :: jstr
  se_exact_span_document_start :: "nat option"
  se_exact_span_document_end :: "nat option"
  se_candidate_rank :: nat
  se_score_sparse :: "jstr option"
  se_score_dense :: "jstr option"
  se_score_fusion :: jstr
  se_score_rerank :: jstr
  se_rank_sparse :: "nat option"
  se_rank_dense :: "nat option"
  se_rank_fusion :: nat
  se_rank_rerank :: nat
  se_index_snapshot :: jsval
  se_evidence_snapshot_digest :: jstr

record SealedClaimV1 =
  sc_candidate_claim_key :: jstr
  sc_persisted_claim_id :: jstr
  sc_canonical_claim :: CanonicalClaimBase
  sc_rendered_claim_text :: jstr
  sc_output_start :: nat
  sc_output_end :: nat
  sc_verification_method :: verification_method
  sc_evidence_refs :: "(jstr \<times> jstr) list"
  sc_non_target_invariant_digest :: jstr

record sealed_digests =
  sd_proposal_digest :: jstr
  sd_render_context_digest :: jstr
  sd_render_digest :: jstr
  sd_assignment_digest :: jstr
  sd_ledger_digest :: jstr

record SealedGroundedCandidateV1 =
  sg_workflow :: sealed_workflow
  sg_canonical_proposal :: GroundedDraftProposal
  sg_render_context :: "render_context_entry list"
  sg_output_text :: jstr
  sg_output_utf8_byte_length :: nat
  sg_output_utf16_length :: nat
  sg_claims :: "SealedClaimV1 list"
  sg_evidence_snapshots :: "SealedEvidenceSnapshotV1 list"
  sg_digests :: sealed_digests
  sg_envelope_digest :: jstr

datatype seal_error = InvalidCandidate

type_synonym 'a sealing = "(seal_error, 'a) result"

section \<open>Values\<close>

definition claim_base_entries :: "CanonicalClaimBase \<Rightarrow> (jstr \<times> jsval) list" where
  "claim_base_entries c =
     [(js ''canonical_claim_version'', JStr CANONICAL_ATOMIC_CLAIM_VERSION),
      (js ''candidate_claim_key'', JStr (cc_candidate_claim_key c)),
      (js ''source_claim_text_nfc'', JStr (cc_source_claim_text_nfc c)),
      (js ''subject_anchor'', stored_anchor (cc_subject_anchor c)),
      (js ''predicate_anchor'', stored_anchor (cc_predicate_anchor c)),
      (js ''polarity'', JStr (js (polarity_text (cc_polarity c)))),
      (js ''quantifier'', JStr (js (quantifier_text (cc_quantifier c)))),
      (js ''quantities'', JArr (map stored_quantity (cc_quantities c))),
      (js ''evidence_ids'', JArr (map JStr (cc_evidence_ids c))),
      (js ''fragment'', JObj [(js ''ordinal'', num_value (cc_ordinal c)),
         (js ''presentation'', JStr (js (claim_presentation_text (cc_presentation c)))),
         (js ''previous_structure_id'', option_value (cc_previous_structure_id c)),
         (js ''next_structure_id'', option_value (cc_next_structure_id c))])]"

definition revision_entry :: "CanonicalClaimBase \<Rightarrow> jstr \<times> jsval" where
  "revision_entry c =
     (js ''revision'', JObj [(js ''attempt'', num_value (cc_revision_attempt c)),
        (js ''revision_of_candidate_claim_key'', option_value (cc_revision_of c))])"

definition rendered_entries :: "jstr option \<Rightarrow> (jstr \<times> jsval) list" where
  "rendered_entries rendered = (case rendered of None \<Rightarrow> [] | Some t \<Rightarrow> [(js ''rendered_claim_text'', JStr t)])"

text \<open>A canonical claim with its rendered text, or its base without.\<close>

definition canonical_claim_value :: "CanonicalClaimBase \<Rightarrow> jstr option \<Rightarrow> jsval" where
  "canonical_claim_value c rendered = JObj (claim_base_entries c @ revision_entry c # rendered_entries rendered)"

definition evidence_refs_value :: "(jstr \<times> jstr) list \<Rightarrow> jsval" where
  "evidence_refs_value refs =
     JArr (map (\<lambda>(i, d). JObj [(js ''evidence_id'', JStr i), (js ''evidence_snapshot_digest'', JStr d)]) refs)"

fun method_text :: "verification_method \<Rightarrow> string" where
  "method_text ATOMIC_EXTRACT_EXACT = ''atomic_extract_exact''"
| "method_text ATOMIC_TYPED_EQUIVALENT = ''atomic_typed_equivalent''"
| "method_text ATOMIC_UNSUPPORTED = ''atomic_unsupported''"
| "method_text ATOMIC_UNVERIFIABLE = ''atomic_unverifiable''"

definition sealed_claim_value :: "SealedClaimV1 \<Rightarrow> jsval" where
  "sealed_claim_value c = JObj
     [(js ''candidate_claim_key'', JStr (sc_candidate_claim_key c)),
      (js ''persisted_claim_id'', JStr (sc_persisted_claim_id c)),
      (js ''canonical_claim'', canonical_claim_value (sc_canonical_claim c) (Some (sc_rendered_claim_text c))),
      (js ''output_char_start_utf16'', num_value (sc_output_start c)),
      (js ''output_char_end_utf16'', num_value (sc_output_end c)),
      (js ''support_status'', JStr (js ''SUPPORTED'')), (js ''support_score'', JStr (js ''1'')),
      (js ''verification_method'', JStr (js (method_text (sc_verification_method c)))),
      (js ''evidence_refs'', evidence_refs_value (sc_evidence_refs c)),
      (js ''non_target_invariant_digest'', JStr (sc_non_target_invariant_digest c))]"

definition nat_value :: "nat option \<Rightarrow> jsval" where
  "nat_value n = (case n of None \<Rightarrow> JNull | Some k \<Rightarrow> num_value k)"

definition sealed_evidence_value :: "SealedEvidenceSnapshotV1 \<Rightarrow> jsval" where
  "sealed_evidence_value e = JObj
     [(js ''evidence_id'', JStr (se_evidence_id e)), (js ''retrieval_run_id'', JStr (se_retrieval_run_id e)),
      (js ''chunk_id'', JStr (se_chunk_id e)), (js ''project_id'', JStr (se_project_id e)),
      (js ''file_id'', JStr (se_file_id e)), (js ''document_id'', JStr (se_document_id e)),
      (js ''ingestion_key'', option_value (se_ingestion_key e)),
      (js ''exact_span_text_nfc'', JStr (se_exact_span_text_nfc e)),
      (js ''exact_span_document_start'', nat_value (se_exact_span_document_start e)),
      (js ''exact_span_document_end'', nat_value (se_exact_span_document_end e)),
      (js ''candidate_rank'', num_value (se_candidate_rank e)),
      (js ''scores'', JObj [(js ''sparse'', option_value (se_score_sparse e)), (js ''dense'', option_value (se_score_dense e)),
         (js ''fusion'', JStr (se_score_fusion e)), (js ''rerank'', JStr (se_score_rerank e))]),
      (js ''ranks'', JObj [(js ''sparse'', nat_value (se_rank_sparse e)), (js ''dense'', nat_value (se_rank_dense e)),
         (js ''fusion'', num_value (se_rank_fusion e)), (js ''rerank'', num_value (se_rank_rerank e))]),
      (js ''index_snapshot'', se_index_snapshot e),
      (js ''evidence_snapshot_digest'', JStr (se_evidence_snapshot_digest e))]"

definition sealed_workflow_value :: "sealed_workflow \<Rightarrow> jsval" where
  "sealed_workflow_value w = JObj
     [(js ''workflow_job_id'', JStr (sw_workflow_job_id w)), (js ''project_id'', JStr (sw_project_id w)),
      (js ''workflow_type'', JStr (js (sealed_type_text (sw_workflow_type w)))),
      (js ''generation_attempt'', JNum (NInt (sw_generation_attempt w))),
      (js ''revision_attempt'', num_value (sw_revision_attempt w))]"

definition digest_entries :: "sealed_digests \<Rightarrow> (jstr \<times> jsval) list" where
  "digest_entries d =
     [(js ''proposal_digest'', JStr (sd_proposal_digest d)), (js ''render_context_digest'', JStr (sd_render_context_digest d)),
      (js ''render_digest'', JStr (sd_render_digest d)), (js ''assignment_digest'', JStr (sd_assignment_digest d)),
      (js ''ledger_digest'', JStr (sd_ledger_digest d))]"

text \<open>The envelope with the given entries of its digests.\<close>

definition envelope_with :: "SealedGroundedCandidateV1 \<Rightarrow> (jstr \<times> jsval) list \<Rightarrow> jsval" where
  "envelope_with c digests = JObj
     [(js ''envelope_version'', JStr SEALED_GROUNDED_CANDIDATE_VERSION),
      (js ''contract_version'', JStr ATOMIC_GROUNDING_CONTRACT_VERSION),
      (js ''schema_version'', JStr GROUNDED_DRAFT_SCHEMA_VERSION),
      (js ''canonical_json_version'', JStr CANONICAL_JSON_VERSION),
      (js ''canonicalizer_version'', JStr ATOMIC_CANONICALIZER_VERSION),
      (js ''quantity_lexer_version'', JStr QUANTITY_LEXER_VERSION),
      (js ''plain_text_escape_version'', JStr PLAIN_TEXT_ESCAPE_VERSION),
      (js ''renderer_version'', JStr ATOMIC_RENDERER_VERSION),
      (js ''verifier_version'', JStr ATOMIC_VERIFIER_VERSION),
      (js ''workflow'', sealed_workflow_value (sg_workflow c)),
      (js ''canonical_proposal'', draft_value (sg_canonical_proposal c)),
      (js ''render_context'', context_value (sg_render_context c)),
      (js ''server_output'', JObj [(js ''text'', JStr (sg_output_text c)),
         (js ''utf8_byte_length'', num_value (sg_output_utf8_byte_length c)),
         (js ''utf16_length'', num_value (sg_output_utf16_length c))]),
      (js ''claims'', JArr (map sealed_claim_value (sg_claims c))),
      (js ''evidence_snapshots'', JArr (map sealed_evidence_value (sg_evidence_snapshots c))),
      (js ''digests'', JObj digests)]"

definition candidate_value :: "SealedGroundedCandidateV1 \<Rightarrow> jsval" where
  "candidate_value c = envelope_with c (digest_entries (sg_digests c) @ [(js ''envelope_digest'', JStr (sg_envelope_digest c))])"

text \<open>The envelope without its own digest.\<close>

definition withoutEnvelopeDigest :: "SealedGroundedCandidateV1 \<Rightarrow> jsval" where
  "withoutEnvelopeDigest c = envelope_with c (digest_entries (sg_digests c))"

section \<open>Comparing and digesting\<close>

definition sameCanonical :: "platform \<Rightarrow> jsval \<Rightarrow> jsval \<Rightarrow> bool" where
  "sameCanonical P left right \<longleftrightarrow>
     (case (canonicalJsonV1 P left, canonicalJsonV1 P right) of (Inr a, Inr b) \<Rightarrow> a = b | _ \<Rightarrow> False)"

definition constantTimeEqual :: "jstr \<Rightarrow> jstr \<Rightarrow> bool" where
  "constantTimeEqual left right \<longleftrightarrow> utf8_encode left = utf8_encode right"

definition sha256Utf8 :: "platform \<Rightarrow> jstr \<Rightarrow> jstr" where
  "sha256Utf8 P s = sha256_hex P (utf8_encode s)"

definition digest_or_invalid :: "platform \<Rightarrow> jstr \<Rightarrow> jsval \<Rightarrow> jstr sealing" where
  "digest_or_invalid P version v = (case digestCanonicalV1 P version v of Inl _ \<Rightarrow> Inl InvalidCandidate | Inr d \<Rightarrow> Inr d)"

definition sealed_claim_key :: "platform \<Rightarrow> jstr \<Rightarrow> int \<Rightarrow> nat \<Rightarrow> jstr" where
  "sealed_claim_key P workflowJobId generationAttempt initialOrdinal =
     sha256Utf8 P (CANDIDATE_CLAIM_KEY_VERSION @ 0 # nfc P workflowJobId @ 0 # dec_int generationAttempt @ 0 # dec_nat initialOrdinal)"

text \<open>The exponent notation of a number written out.\<close>

fun drop_leading_zeros :: "jstr \<Rightarrow> jstr" where
  "drop_leading_zeros (c # d # s) = (if c = 48 \<and> is_digit d then drop_leading_zeros (d # s) else c # d # s)"
| "drop_leading_zeros s = s"

definition parse_exponent :: "jstr \<Rightarrow> int" where
  "parse_exponent s =
     (if s \<noteq> [] \<and> hd s = 45 then - int (digits_value 0 (tl s))
      else if s \<noteq> [] \<and> hd s = 43 then int (digits_value 0 (tl s)) else int (digits_value 0 s))"

definition place_point :: "jstr \<Rightarrow> int \<Rightarrow> jstr" where
  "place_point digits targetPoint =
     (if targetPoint \<le> 0 then js ''0.'' @ replicate (nat (- targetPoint)) 48 @ digits
      else if targetPoint \<ge> int (length digits) then digits @ replicate (nat targetPoint - length digits) 48
      else take (nat targetPoint) digits @ 46 # drop (nat targetPoint) digits)"

definition trim_fraction :: "jstr \<Rightarrow> jstr" where
  "trim_fraction s =
     (if 46 \<in> set s then
        let t = rev (dropWhile (\<lambda>c. c = 48) (rev s))
        in if t \<noteq> [] \<and> last t = 46 then butlast t else t
      else s)"

definition lower_e :: "nat \<Rightarrow> nat" where
  "lower_e c = (if c = 69 then 101 else c)"

definition fixedDecimal :: "platform \<Rightarrow> jsnum \<Rightarrow> jstr sealing" where
  "fixedDecimal P n =
     (if \<not> is_finite_number n then Inl InvalidCandidate
      else if n = NNegZero then Inr [48]
      else
        let source = json_number P n
        in if 101 \<notin> set source \<and> 69 \<notin> set source then Inr source
           else
             let lowered = map lower_e source;
                 coefficient = takeWhile (\<lambda>c. c \<noteq> 101) lowered;
                 exponent = parse_exponent (drop (Suc (length coefficient)) lowered);
                 negative = (coefficient \<noteq> [] \<and> hd coefficient = 45);
                 unsigned = (if negative then tl coefficient else coefficient);
                 digits = filter (\<lambda>c. c \<noteq> 46) unsigned;
                 originalPoint = (case index_of unsigned [46] of None \<Rightarrow> length digits | Some i \<Rightarrow> i);
                 result = drop_leading_zeros (trim_fraction (place_point digits (int originalPoint + exponent)));
                 completed = (if result \<noteq> [] \<and> hd result = 46 then 48 # result else result)
             in Inr ((if negative then [45] else []) @ completed))"

section \<open>Evidence and context\<close>

definition safeNonNegativeInteger :: "jsval \<Rightarrow> nat sealing" where
  "safeNonNegativeInteger v =
     (if \<not> is_safe_integer v \<or> int_of_number v < 0 then Inl InvalidCandidate else Inr (nat (int_of_number v)))"

definition nullableRank :: "jsval \<Rightarrow> nat option sealing" where
  "nullableRank v = (if v = JNull then Inr None else bindE (safeNonNegativeInteger v) (\<lambda>n. Inr (Some n)))"

definition nullable_score :: "platform \<Rightarrow> jsnum option \<Rightarrow> jstr option sealing" where
  "nullable_score P score = (case score of None \<Rightarrow> Inr None | Some n \<Rightarrow> bindE (fixedDecimal P n) (\<lambda>d. Inr (Some d)))"

definition sealedEvidence :: "platform \<Rightarrow> AssignedEvidenceSnapshot \<Rightarrow> SealedEvidenceSnapshotV1 sealing" where
  "sealedEvidence P source =
     (case (ev_snapshot_digest source, ev_exact_span_text source) of
        (JStr d, JStr spanText) \<Rightarrow>
          if \<not> is_sha256 d then Inl InvalidCandidate
          else
          bindE (nullableRank (ev_exact_span_document_start source)) (\<lambda>documentStart.
          bindE (nullableRank (ev_exact_span_document_end source)) (\<lambda>documentEnd.
          bindE (safeNonNegativeInteger (ev_candidate_rank source)) (\<lambda>candidateRank.
          bindE (nullable_score P (ev_score_sparse source)) (\<lambda>sparseScore.
          bindE (nullable_score P (ev_score_dense source)) (\<lambda>denseScore.
          bindE (fixedDecimal P (ev_score_fusion source)) (\<lambda>fusionScore.
          bindE (fixedDecimal P (ev_score_rerank source)) (\<lambda>rerankScore.
          bindE (nullableRank (ev_rank_sparse source)) (\<lambda>sparseRank.
          bindE (nullableRank (ev_rank_dense source)) (\<lambda>denseRank.
          bindE (safeNonNegativeInteger (ev_rank_fusion source)) (\<lambda>fusionRank.
          bindE (safeNonNegativeInteger (ev_rank_rerank source)) (\<lambda>rerankRank.
          bindE (case canonicalJsonV1 P (ev_index_snapshot source) of Inl _ \<Rightarrow> Inl InvalidCandidate | Inr _ \<Rightarrow> Inr ()) (\<lambda>_.
          Inr \<lparr>se_evidence_id = nfc P (ev_evidence_id source), se_retrieval_run_id = nfc P (ev_retrieval_run_id source),
            se_chunk_id = nfc P (ev_chunk_id source), se_project_id = nfc P (ev_project_id source),
            se_file_id = nfc P (ev_file_id source), se_document_id = nfc P (ev_document_id source),
            se_ingestion_key = map_option (nfc P) (ev_ingestion_key source),
            se_exact_span_text_nfc = nfc P spanText, se_exact_span_document_start = documentStart,
            se_exact_span_document_end = documentEnd, se_candidate_rank = candidateRank,
            se_score_sparse = sparseScore, se_score_dense = denseScore, se_score_fusion = fusionScore,
            se_score_rerank = rerankScore, se_rank_sparse = sparseRank, se_rank_dense = denseRank,
            se_rank_fusion = fusionRank, se_rank_rerank = rerankRank, se_index_snapshot = ev_index_snapshot source,
            se_evidence_snapshot_digest = d\<rparr>))))))))))))
      | _ \<Rightarrow> Inl InvalidCandidate)"

definition sortedRenderContext :: "platform \<Rightarrow> render_context_entry list \<Rightarrow> render_context_entry list sealing" where
  "sortedRenderContext P context =
     (let entries = sort_key re_structure_id (map (\<lambda>entry. entry
            \<lparr>re_structure_id := nfc P (re_structure_id entry), re_source_id := nfc P (re_source_id entry),
             re_source_version := nfc P (re_source_version entry)\<rparr>) context)
      in if \<not> distinct (map re_structure_id entries) then Inl InvalidCandidate else Inr entries)"

section \<open>Claims\<close>

definition invariantDigest :: "platform \<Rightarrow> CanonicalClaimBase \<Rightarrow> jstr option \<Rightarrow> (jstr \<times> jstr) list \<Rightarrow> jstr sealing" where
  "invariantDigest P c rendered evidenceRefs =
     digest_or_invalid P NON_TARGET_INVARIANT_VERSION (JObj
       [(js ''candidate_claim_key'', JStr (cc_candidate_claim_key c)),
        (js ''canonical_claim_without_revision'', JObj (claim_base_entries c @ rendered_entries rendered)),
        (js ''evidence_refs'', evidence_refs_value (sort_key fst evidenceRefs)),
        (js ''fragment_ordinal'', num_value (cc_ordinal c)),
        (js ''presentation'', JStr (js (claim_presentation_text (cc_presentation c)))),
        (js ''previous_structure_id'', option_value (cc_previous_structure_id c)),
        (js ''next_structure_id'', option_value (cc_next_structure_id c))])"

definition persistedClaimId :: "platform \<Rightarrow> jstr \<Rightarrow> jstr \<Rightarrow> CanonicalClaimBase \<Rightarrow> jstr \<Rightarrow> nat \<Rightarrow> nat \<Rightarrow> jstr sealing" where
  "persistedClaimId P workflowJobId renderDigest c rendered from to =
     (case serializeCanonical (nfc P) False (canonical_claim_value c (Some rendered)) of
        Inr (Some canonicalText) \<Rightarrow>
          Inr (sha256Utf8 P (PERSISTED_CLAIM_ID_VERSION @ 0 # nfc P workflowJobId @ 0 # ATOMIC_VERIFIER_VERSION @ 0 # renderDigest @
            0 # canonicalText @ 0 # dec_nat from @ 0 # dec_nat to))
      | _ \<Rightarrow> Inl InvalidCandidate)"

definition assertClaimIdentity :: "platform \<Rightarrow> sealed_workflow \<Rightarrow> AtomicVerifiedClaimV1 \<Rightarrow> unit sealing" where
  "assertClaimIdentity P workflow claim =
     (let c = vc_base claim;
          initialKey = sealed_claim_key P (sw_workflow_job_id workflow) (sw_generation_attempt workflow) (cc_ordinal c);
          expectedKey = (if cc_revision_attempt c = 1 \<and> cc_revision_of c \<noteq> None then the (cc_revision_of c) else initialKey)
      in guardE (vc_candidate_claim_key claim = cc_candidate_claim_key c \<and> vc_candidate_claim_key claim = expectedKey \<and>
           cc_revision_attempt c = sw_revision_attempt workflow) InvalidCandidate)"

type_synonym evidence_index = "jstr \<Rightarrow> AssignedEvidenceSnapshot option"

definition refs_match :: "platform \<Rightarrow> evidence_index \<Rightarrow> jstr list \<Rightarrow> (jstr \<times> jstr) list \<Rightarrow> bool" where
  "refs_match P assignmentEvidence canonicalEvidenceIds evidenceRefs \<longleftrightarrow>
     evidenceRefs \<noteq> [] \<and> distinct (map fst evidenceRefs) \<and>
     sameCanonical P (JArr (map JStr canonicalEvidenceIds)) (JArr (map JStr (map fst evidenceRefs))) \<and>
     list_all (\<lambda>(i, d). case assignmentEvidence i of None \<Rightarrow> False | Some e \<Rightarrow> ev_snapshot_digest e = JStr d) evidenceRefs"

definition seal_claim ::
    "platform \<Rightarrow> sealed_workflow \<Rightarrow> (jstr \<Rightarrow> AtomicVerifiedClaimV1 option) \<Rightarrow> jstr \<Rightarrow> jstr \<Rightarrow> evidence_index \<Rightarrow>
     rendered_claim \<Rightarrow> SealedClaimV1 sealing" where
  "seal_claim P workflow verifiedByKey output renderDigest assignmentEvidence position =
     (case verifiedByKey (rc_candidate_claim_key position) of
        None \<Rightarrow> Inl InvalidCandidate
      | Some verified \<Rightarrow>
          if rc_fragment_ordinal position \<noteq> cc_ordinal (vc_base verified) \<or>
             slice output (rc_output_start position) (rc_output_end position) \<noteq> rc_rendered_claim_text position
          then Inl InvalidCandidate
          else
          bindE (assertClaimIdentity P workflow verified) (\<lambda>_.
          let evidenceRefs = sort_key fst (vc_evidence_refs verified);
              canonicalEvidenceIds = sort (cc_evidence_ids (vc_base verified))
          in if \<not> refs_match P assignmentEvidence canonicalEvidenceIds evidenceRefs then Inl InvalidCandidate
             else
             let canonicalClaim = (vc_base verified)\<lparr>cc_evidence_ids := canonicalEvidenceIds\<rparr> in
             bindE (persistedClaimId P (sw_workflow_job_id workflow) renderDigest canonicalClaim
                      (rc_rendered_claim_text position) (rc_output_start position) (rc_output_end position)) (\<lambda>persisted.
             bindE (invariantDigest P canonicalClaim (Some (rc_rendered_claim_text position)) evidenceRefs) (\<lambda>invariant.
             Inr \<lparr>sc_candidate_claim_key = vc_candidate_claim_key verified, sc_persisted_claim_id = persisted,
               sc_canonical_claim = canonicalClaim, sc_rendered_claim_text = rc_rendered_claim_text position,
               sc_output_start = rc_output_start position, sc_output_end = rc_output_end position,
               sc_verification_method = vc_verification_method verified, sc_evidence_refs = evidenceRefs,
               sc_non_target_invariant_digest = invariant\<rparr>))))"

definition buildSealedClaims ::
    "platform \<Rightarrow> sealed_workflow \<Rightarrow> AtomicVerifiedClaimV1 list \<Rightarrow> AtomicRenderResult \<Rightarrow> jstr \<Rightarrow> evidence_index \<Rightarrow> SealedClaimV1 list sealing" where
  "buildSealedClaims P workflow verified rendered renderDigest assignmentEvidence =
     (if \<not> distinct (map vc_candidate_claim_key verified) then Inl InvalidCandidate
      else
      bindE (mapE (seal_claim P workflow (map_of (map (\<lambda>c. (vc_candidate_claim_key c, c)) verified)) (ar_text rendered)
               renderDigest assignmentEvidence) (ar_claims rendered)) (\<lambda>claims.
      if length claims \<noteq> length verified then Inl InvalidCandidate
      else Inr (sort_key sc_output_start claims)))"

section \<open>Sealing\<close>

record SealGroundedCandidateInput =
  si_workflow :: sealed_workflow
  si_verification :: AtomicVerificationResult
  si_assignment :: GroundingAssignmentSnapshot
  si_render_context :: "render_context_entry list"

definition validateSealInput ::
    "platform \<Rightarrow> SealGroundedCandidateInput \<Rightarrow> (AtomicVerificationResult \<times> render_context_entry list \<times> jstr) sealing" where
  "validateSealInput P input =
     (let workflow = si_workflow input; assignment = si_assignment input; verification = si_verification input in
      if vr_decision verification \<noteq> ALLOW \<or> vr_claims verification = [] \<or>
         list_ex (\<lambda>claim. vc_support_status claim \<noteq> SUPPORTED \<or>
           (vc_verification_method claim \<noteq> ATOMIC_EXTRACT_EXACT \<and> vc_verification_method claim \<noteq> ATOMIC_TYPED_EQUIVALENT))
           (vr_claims verification) \<or>
         as_workflow_job_id assignment \<noteq> sw_workflow_job_id workflow \<or> as_project_id assignment \<noteq> sw_project_id workflow \<or>
         as_targeted_revision_attempts assignment \<noteq> int (sw_revision_attempt workflow) \<or>
         \<bar>sw_generation_attempt workflow\<bar> > MAX_SAFE_INTEGER \<or> sw_generation_attempt workflow < 0 \<or>
         (sw_revision_attempt workflow \<noteq> 0 \<and> sw_revision_attempt workflow \<noteq> 1)
      then Inl InvalidCandidate
      else
        case as_snapshot_digest assignment of
          JStr d \<Rightarrow>
            if \<not> is_sha256 d then Inl InvalidCandidate
            else
              (case parse_draft P (draft_value (vr_canonical_proposal verification)) of
                 Inl _ \<Rightarrow> Inl InvalidCandidate
               | Inr canonicalProposal \<Rightarrow>
                   bindE (sortedRenderContext P (si_render_context input)) (\<lambda>renderContext.
                   Inr (verification\<lparr>vr_canonical_proposal := canonicalProposal\<rparr>, renderContext, d)))
        | _ \<Rightarrow> Inl InvalidCandidate)"

text \<open>The values of a \<open>Set\<close> in the order they were first added.\<close>

definition in_order_of_first :: "'a list \<Rightarrow> 'a list" where
  "in_order_of_first xs = rev (remdups (rev xs))"

definition seal_evidence :: "platform \<Rightarrow> evidence_index \<Rightarrow> jstr \<Rightarrow> SealedEvidenceSnapshotV1 sealing" where
  "seal_evidence P assignmentEvidence evidenceId =
     (case assignmentEvidence evidenceId of None \<Rightarrow> Inl InvalidCandidate | Some item \<Rightarrow> sealedEvidence P item)"

definition sealGroundedCandidateV1 :: "platform \<Rightarrow> SealGroundedCandidateInput \<Rightarrow> SealedGroundedCandidateV1 sealing" where
  "sealGroundedCandidateV1 P input =
     bindE (validateSealInput P input) (\<lambda>(verification, renderContext, snapshotDigest).
     let evidence = as_evidence (si_assignment input);
         assignmentEvidence = map_of (map (\<lambda>item. (ev_evidence_id item, item)) evidence)
     in if \<not> distinct (map ev_evidence_id evidence) then Inl InvalidCandidate
        else
          case renderAtomicDraftV1 P verification renderContext of
            Inl _ \<Rightarrow> Inl InvalidCandidate
          | Inr rendered \<Rightarrow>
              let renderDigest = sha256Utf8 P (ATOMIC_RENDERER_VERSION @ 0 # ar_text rendered) in
              bindE (buildSealedClaims P (si_workflow input) (vr_claims verification) rendered renderDigest assignmentEvidence) (\<lambda>claims.
              bindE (mapE (seal_evidence P assignmentEvidence)
                      (in_order_of_first (concat (map (\<lambda>c. map fst (sc_evidence_refs c)) claims)))) (\<lambda>snapshots.
              bindE (digest_or_invalid P GROUNDED_DRAFT_SCHEMA_VERSION (draft_value (vr_canonical_proposal verification))) (\<lambda>proposalDigest.
              bindE (digest_or_invalid P APPROVED_RENDER_CONTEXT_VERSION (context_value renderContext)) (\<lambda>renderContextDigest.
              bindE (digest_or_invalid P ATOMIC_CLAIM_LEDGER_VERSION (JArr (map sealed_claim_value claims))) (\<lambda>ledgerDigest.
              let envelope =
                \<lparr>sg_workflow = (si_workflow input)\<lparr>sw_workflow_job_id := nfc P (sw_workflow_job_id (si_workflow input)),
                   sw_project_id := nfc P (sw_project_id (si_workflow input))\<rparr>,
                 sg_canonical_proposal = vr_canonical_proposal verification, sg_render_context = renderContext,
                 sg_output_text = ar_text rendered, sg_output_utf8_byte_length = ar_utf8_byte_length rendered,
                 sg_output_utf16_length = ar_utf16_length rendered, sg_claims = claims,
                 sg_evidence_snapshots = sort_key se_evidence_id snapshots,
                 sg_digests = \<lparr>sd_proposal_digest = proposalDigest, sd_render_context_digest = renderContextDigest,
                   sd_render_digest = renderDigest,
                   sd_assignment_digest = sha256Utf8 P (ATOMIC_GROUNDING_CONTRACT_VERSION @ 0 # snapshotDigest),
                   sd_ledger_digest = ledgerDigest\<rparr>,
                 sg_envelope_digest = []\<rparr>
              in
              bindE (digest_or_invalid P SEALED_GROUNDED_CANDIDATE_VERSION (withoutEnvelopeDigest envelope)) (\<lambda>envelopeDigest.
              Inr (envelope\<lparr>sg_envelope_digest := envelopeDigest\<rparr>))))))))"

section \<open>Targeted revision\<close>

datatype revision_error = RevisionInvariantViolation

type_synonym 'a revising = "(revision_error, 'a) result"

record AtomicRevisionBaseV1 =
  rb_verification :: AtomicVerificationResult
  rb_allowed_candidate_claim_keys :: "jstr list"
  rb_proposal_digest :: jstr

definition revisionInvariant :: "platform \<Rightarrow> AtomicVerifiedClaimV1 \<Rightarrow> jstr sealing" where
  "revisionInvariant P claim = invariantDigest P (vc_base claim) None (vc_evidence_refs claim)"

text \<open>The proposed claims under the position of their fragment in the ordering.\<close>

definition claims_by_ordinal :: "GroundedDraftProposal \<Rightarrow> nat \<Rightarrow> AtomicClaimProposal option" where
  "claims_by_ordinal proposal ordinal =
     map_of (rev (map (\<lambda>claim. (ordinal_of (gd_ordering proposal) (ac_fragment_id claim), claim))
       (filter (\<lambda>claim. ac_fragment_id claim \<in> set (gd_ordering proposal)) (gd_claims proposal)))) ordinal"

definition target_kept :: "jstr \<Rightarrow> CanonicalClaimBase \<Rightarrow> CanonicalClaimBase \<Rightarrow> AtomicClaimProposal \<Rightarrow> bool" where
  "target_kept key previous replacement replacementProposal \<longleftrightarrow>
     cc_revision_of replacement = Some key \<and> ac_revision_of replacementProposal = Some key \<and>
     cc_ordinal previous = cc_ordinal replacement \<and> cc_presentation previous = cc_presentation replacement \<and>
     cc_previous_structure_id previous = cc_previous_structure_id replacement \<and>
     cc_next_structure_id previous = cc_next_structure_id replacement"

definition other_unchanged ::
    "platform \<Rightarrow> AtomicVerifiedClaimV1 \<Rightarrow> AtomicVerifiedClaimV1 \<Rightarrow> AtomicClaimProposal \<Rightarrow> AtomicClaimProposal \<Rightarrow> bool" where
  "other_unchanged P previous replacement previousProposal replacementProposal \<longleftrightarrow>
     cc_revision_of (vc_base replacement) = None \<and> ac_revision_of replacementProposal = None \<and>
     (case (revisionInvariant P previous, revisionInvariant P replacement) of (Inr a, Inr b) \<Rightarrow> a = b | _ \<Rightarrow> False) \<and>
     sameCanonical P (claim_value previousProposal) (claim_value replacementProposal)"

definition revision_step ::
    "platform \<Rightarrow> jstr list \<Rightarrow> GroundedDraftProposal \<Rightarrow> GroundedDraftProposal \<Rightarrow>
     AtomicVerifiedClaimV1 \<Rightarrow> AtomicVerifiedClaimV1 \<Rightarrow> bool" where
  "revision_step P allowed baseProposal nextProposal previous replacement \<longleftrightarrow>
     vc_candidate_claim_key previous = vc_candidate_claim_key replacement \<and>
     cc_revision_attempt (vc_base replacement) = 1 \<and>
     (case (claims_by_ordinal baseProposal (cc_ordinal (vc_base previous)),
            claims_by_ordinal nextProposal (cc_ordinal (vc_base replacement))) of
        (Some previousProposal, Some replacementProposal) \<Rightarrow>
          (if vc_candidate_claim_key previous \<in> set allowed
           then target_kept (vc_candidate_claim_key previous) (vc_base previous) (vc_base replacement) replacementProposal
           else other_unchanged P previous replacement previousProposal replacementProposal) \<and>
          cc_source_claim_text_nfc (vc_base replacement) = ac_claim_text replacementProposal \<and>
          sameCanonical P (JArr (map JStr (cc_evidence_ids (vc_base replacement))))
            (JArr (map JStr (ac_evidence_ids replacementProposal)))
      | _ \<Rightarrow> False)"

definition validateTargetedRevisionV1 :: "platform \<Rightarrow> AtomicRevisionBaseV1 \<Rightarrow> AtomicVerificationResult \<Rightarrow> unit revising" where
  "validateTargetedRevisionV1 P b next =
     (case (parse_draft P (draft_value (vr_canonical_proposal (rb_verification b))),
            parse_draft P (draft_value (vr_canonical_proposal next))) of
        (Inr baseProposal, Inr nextProposal) \<Rightarrow>
          let allowed = rb_allowed_candidate_claim_keys b;
              baseClaims = vr_claims (rb_verification b)
          in
          guardE
            ((case digestCanonicalV1 P GROUNDED_DRAFT_SCHEMA_VERSION (draft_value baseProposal) of
                Inl _ \<Rightarrow> False | Inr expected \<Rightarrow> constantTimeEqual expected (rb_proposal_digest b)) \<and>
             allowed \<noteq> [] \<and> distinct allowed \<and> length baseClaims = length (vr_claims next) \<and>
             sameCanonical P (JArr (map JStr (gd_ordering baseProposal))) (JArr (map JStr (gd_ordering nextProposal))) \<and>
             sameCanonical P (JArr (map fragment_value (gd_fragments baseProposal)))
               (JArr (map fragment_value (gd_fragments nextProposal))) \<and>
             list_all (\<lambda>(previous, replacement). revision_step P allowed baseProposal nextProposal previous replacement)
               (zip baseClaims (vr_claims next)) \<and>
             set allowed \<subseteq> set (map vc_candidate_claim_key baseClaims)) RevisionInvariantViolation
      | _ \<Rightarrow> Inl RevisionInvariantViolation)"

end
