(* ===== verification/SealedRecovery.thy ===== *)
theory SealedRecovery
  imports SealedCandidate
begin

text \<open>
  Recovering a sealed candidate from a checkpoint
  (\<open>citation/atomic-grounding/sealed-grounded-candidate.ts\<close>): the closed parser of the envelope, its
  digest, the comparison with the current assignment and render context by verifying and sealing
  once more.  A refusal is a closed failure with its reason, or another error.
\<close>

section \<open>Parsing\<close>

definition candidate_record :: "jsval \<Rightarrow> string list \<Rightarrow> (jstr \<times> jsval) list sealing" where
  "candidate_record v keys =
     (case v of
        JObj kvs \<Rightarrow>
          if length kvs \<noteq> length keys \<or> list_ex (\<lambda>kv. fst kv \<notin> set (map js keys)) kvs then Inl InvalidCandidate else Inr kvs
      | _ \<Rightarrow> Inl InvalidCandidate)"

definition candidate_array :: "jsval \<Rightarrow> jsval list sealing" where
  "candidate_array v = (case v of JArr vs \<Rightarrow> Inr vs | _ \<Rightarrow> Inl InvalidCandidate)"

definition candidate_string :: "platform \<Rightarrow> jsval \<Rightarrow> jstr sealing" where
  "candidate_string P v = (case v of JStr s \<Rightarrow> if nfc P s \<noteq> s then Inl InvalidCandidate else Inr s | _ \<Rightarrow> Inl InvalidCandidate)"

definition nullable_candidate_string :: "platform \<Rightarrow> jsval \<Rightarrow> jstr option sealing" where
  "nullable_candidate_string P v = (if v = JNull then Inr None else bindE (candidate_string P v) (\<lambda>s. Inr (Some s)))"

definition candidate_digest :: "platform \<Rightarrow> jsval \<Rightarrow> jstr sealing" where
  "candidate_digest P v = bindE (candidate_string P v) (\<lambda>s. if \<not> is_sha256 s then Inl InvalidCandidate else Inr s)"

definition enumString :: "platform \<Rightarrow> jsval \<Rightarrow> 'a list \<Rightarrow> ('a \<Rightarrow> string) \<Rightarrow> 'a sealing" where
  "enumString P v allowed name =
     bindE (candidate_string P v) (\<lambda>s.
     case find (\<lambda>x. js (name x) = s) allowed of None \<Rightarrow> Inl InvalidCandidate | Some x \<Rightarrow> Inr x)"

definition parse_sealed_anchor :: "platform \<Rightarrow> jsval \<Rightarrow> CanonicalTextAnchorV1 sealing" where
  "parse_sealed_anchor P v =
     bindE (candidate_record v [''surface_nfc'', ''start_utf16'', ''end_utf16'']) (\<lambda>item.
     bindE (candidate_string P (get_prop item (js ''surface_nfc''))) (\<lambda>surface.
     bindE (safeNonNegativeInteger (get_prop item (js ''start_utf16''))) (\<lambda>from.
     bindE (safeNonNegativeInteger (get_prop item (js ''end_utf16''))) (\<lambda>to.
     Inr \<lparr>ca_surface_nfc = surface, ca_start = from, ca_end = to\<rparr>))))"

definition candidate_bool :: "jsval \<Rightarrow> bool sealing" where
  "candidate_bool v = (case v of JBool b \<Rightarrow> Inr b | _ \<Rightarrow> Inl InvalidCandidate)"

definition parse_sealed_quantity :: "platform \<Rightarrow> jsval \<Rightarrow> CanonicalQuantityV1 sealing" where
  "parse_sealed_quantity P v =
     bindE (candidate_record v QUANTITY_FIELDS) (\<lambda>item.
     bindE (candidate_bool (get_prop item (js ''typed_equivalence_eligible''))) (\<lambda>eligible.
     bindE (safeNonNegativeInteger (get_prop item (js ''ordinal''))) (\<lambda>ordinal.
     bindE (candidate_string P (get_prop item (js ''surface_nfc''))) (\<lambda>surface.
     bindE (safeNonNegativeInteger (get_prop item (js ''start_utf16''))) (\<lambda>from.
     bindE (safeNonNegativeInteger (get_prop item (js ''end_utf16''))) (\<lambda>to.
     bindE (enumString P (get_prop item (js ''dimension'')) dimensions dimension_text) (\<lambda>dimension.
     bindE (candidate_string P (get_prop item (js ''base_value''))) (\<lambda>baseValue.
     bindE (nullable_candidate_string P (get_prop item (js ''base_unit''))) (\<lambda>baseUnit.
     bindE (enumString P (get_prop item (js ''comparator'')) comparators comparator_text) (\<lambda>comparator.
     bindE (nullable_candidate_string P (get_prop item (js ''range_end_base_value''))) (\<lambda>rangeEnd.
     Inr \<lparr>cq_ordinal = ordinal, cq_surface_nfc = surface, cq_start = from, cq_end = to, cq_dimension = dimension,
       cq_base_value = baseValue, cq_base_unit = baseUnit, cq_comparator = comparator,
       cq_range_end_base_value = rangeEnd, cq_typed_equivalence_eligible = eligible\<rparr>)))))))))))"

definition presentations :: "claim_presentation list" where
  "presentations = [SENTENCE, BULLET, ORDERED_ITEM]"

definition parseCanonicalClaim :: "platform \<Rightarrow> jsval \<Rightarrow> (CanonicalClaimBase \<times> jstr) sealing" where
  "parseCanonicalClaim P v =
     bindE (candidate_record v CLAIM_FIELDS) (\<lambda>item.
     if get_prop item (js ''canonical_claim_version'') \<noteq> JStr CANONICAL_ATOMIC_CLAIM_VERSION then Inl InvalidCandidate
     else
     bindE (candidate_record (get_prop item (js ''fragment''))
              [''ordinal'', ''presentation'', ''previous_structure_id'', ''next_structure_id'']) (\<lambda>fragment.
     bindE (candidate_record (get_prop item (js ''revision'')) [''attempt'', ''revision_of_candidate_claim_key'']) (\<lambda>revision.
     bindE (safeNonNegativeInteger (get_prop revision (js ''attempt''))) (\<lambda>attempt.
     if attempt \<noteq> 0 \<and> attempt \<noteq> 1 then Inl InvalidCandidate
     else
     bindE (candidate_string P (get_prop item (js ''candidate_claim_key''))) (\<lambda>key.
     bindE (candidate_string P (get_prop item (js ''source_claim_text_nfc''))) (\<lambda>source.
     bindE (candidate_string P (get_prop item (js ''rendered_claim_text''))) (\<lambda>rendered.
     bindE (parse_sealed_anchor P (get_prop item (js ''subject_anchor''))) (\<lambda>subject.
     bindE (parse_sealed_anchor P (get_prop item (js ''predicate_anchor''))) (\<lambda>predicate.
     bindE (enumString P (get_prop item (js ''polarity'')) polarities polarity_text) (\<lambda>polarity.
     bindE (enumString P (get_prop item (js ''quantifier'')) quantifiers quantifier_text) (\<lambda>quantifier.
     bindE (candidate_array (get_prop item (js ''quantities''))) (\<lambda>rawQuantities.
     bindE (mapE (parse_sealed_quantity P) rawQuantities) (\<lambda>quantities.
     bindE (candidate_array (get_prop item (js ''evidence_ids''))) (\<lambda>rawIds.
     bindE (mapE (candidate_string P) rawIds) (\<lambda>evidenceIds.
     bindE (safeNonNegativeInteger (get_prop fragment (js ''ordinal''))) (\<lambda>ordinal.
     bindE (enumString P (get_prop fragment (js ''presentation'')) presentations claim_presentation_text) (\<lambda>shown.
     bindE (nullable_candidate_string P (get_prop fragment (js ''previous_structure_id''))) (\<lambda>previous.
     bindE (nullable_candidate_string P (get_prop fragment (js ''next_structure_id''))) (\<lambda>following.
     bindE (nullable_candidate_string P (get_prop revision (js ''revision_of_candidate_claim_key''))) (\<lambda>revisionOf.
     Inr (\<lparr>cc_candidate_claim_key = key, cc_source_claim_text_nfc = source, cc_subject_anchor = subject,
       cc_predicate_anchor = predicate, cc_polarity = polarity, cc_quantifier = quantifier, cc_quantities = quantities,
       cc_evidence_ids = evidenceIds, cc_ordinal = ordinal, cc_presentation = shown,
       cc_previous_structure_id = previous, cc_next_structure_id = following,
       cc_revision_attempt = attempt, cc_revision_of = revisionOf\<rparr>, rendered)))))))))))))))))))))"

definition parseEvidenceRef :: "platform \<Rightarrow> jsval \<Rightarrow> (jstr \<times> jstr) sealing" where
  "parseEvidenceRef P v =
     bindE (candidate_record v [''evidence_id'', ''evidence_snapshot_digest'']) (\<lambda>item.
     bindE (candidate_string P (get_prop item (js ''evidence_id''))) (\<lambda>i.
     bindE (candidate_digest P (get_prop item (js ''evidence_snapshot_digest''))) (\<lambda>d. Inr (i, d))))"

definition SEALED_CLAIM_FIELDS :: "string list" where
  "SEALED_CLAIM_FIELDS =
     [''candidate_claim_key'', ''persisted_claim_id'', ''canonical_claim'', ''output_char_start_utf16'',
      ''output_char_end_utf16'', ''support_status'', ''support_score'', ''verification_method'', ''evidence_refs'',
      ''non_target_invariant_digest'']"

definition parseSealedClaim :: "platform \<Rightarrow> jsval \<Rightarrow> SealedClaimV1 sealing" where
  "parseSealedClaim P v =
     bindE (candidate_record v SEALED_CLAIM_FIELDS) (\<lambda>item.
     if get_prop item (js ''support_status'') \<noteq> JStr (js ''SUPPORTED'') \<or>
        get_prop item (js ''support_score'') \<noteq> JStr (js ''1'')
     then Inl InvalidCandidate
     else
     bindE (candidate_string P (get_prop item (js ''candidate_claim_key''))) (\<lambda>key.
     bindE (candidate_digest P (get_prop item (js ''persisted_claim_id''))) (\<lambda>persisted.
     bindE (parseCanonicalClaim P (get_prop item (js ''canonical_claim''))) (\<lambda>(canonicalClaim, rendered).
     bindE (safeNonNegativeInteger (get_prop item (js ''output_char_start_utf16''))) (\<lambda>from.
     bindE (safeNonNegativeInteger (get_prop item (js ''output_char_end_utf16''))) (\<lambda>to.
     bindE (enumString P (get_prop item (js ''verification_method'')) [ATOMIC_EXTRACT_EXACT, ATOMIC_TYPED_EQUIVALENT] method_text) (\<lambda>method.
     bindE (candidate_array (get_prop item (js ''evidence_refs''))) (\<lambda>rawRefs.
     bindE (mapE (parseEvidenceRef P) rawRefs) (\<lambda>refs.
     bindE (candidate_digest P (get_prop item (js ''non_target_invariant_digest''))) (\<lambda>invariant.
     Inr \<lparr>sc_candidate_claim_key = key, sc_persisted_claim_id = persisted, sc_canonical_claim = canonicalClaim,
       sc_rendered_claim_text = rendered, sc_output_start = from, sc_output_end = to,
       sc_verification_method = method, sc_evidence_refs = refs, sc_non_target_invariant_digest = invariant\<rparr>))))))))))"

definition parseRenderContext :: "platform \<Rightarrow> jsval \<Rightarrow> render_context_entry list sealing" where
  "parseRenderContext P v =
     (case validateApprovedRenderContextV1 P v of Inl _ \<Rightarrow> Inl InvalidCandidate | Inr entries \<Rightarrow> Inr entries)"

definition EVIDENCE_FIELDS :: "string list" where
  "EVIDENCE_FIELDS =
     [''evidence_id'', ''retrieval_run_id'', ''chunk_id'', ''project_id'', ''file_id'', ''document_id'', ''ingestion_key'',
      ''exact_span_text_nfc'', ''exact_span_document_start'', ''exact_span_document_end'', ''candidate_rank'', ''scores'',
      ''ranks'', ''index_snapshot'', ''evidence_snapshot_digest'']"

definition SCORE_FIELDS :: "string list" where
  "SCORE_FIELDS = [''sparse'', ''dense'', ''fusion'', ''rerank'']"

definition parseEvidenceSnapshot :: "platform \<Rightarrow> jsval \<Rightarrow> SealedEvidenceSnapshotV1 sealing" where
  "parseEvidenceSnapshot P v =
     bindE (candidate_record v EVIDENCE_FIELDS) (\<lambda>item.
     bindE (candidate_record (get_prop item (js ''scores'')) SCORE_FIELDS) (\<lambda>scores.
     bindE (candidate_record (get_prop item (js ''ranks'')) SCORE_FIELDS) (\<lambda>ranks.
     bindE (if is_object (get_prop item (js ''index_snapshot'')) then Inr () else Inl InvalidCandidate) (\<lambda>_.
     bindE (case canonicalJsonV1 P (get_prop item (js ''index_snapshot'')) of Inl _ \<Rightarrow> Inl InvalidCandidate | Inr _ \<Rightarrow> Inr ()) (\<lambda>_.
     bindE (candidate_string P (get_prop item (js ''evidence_id''))) (\<lambda>evidenceId.
     bindE (candidate_string P (get_prop item (js ''retrieval_run_id''))) (\<lambda>runId.
     bindE (candidate_string P (get_prop item (js ''chunk_id''))) (\<lambda>chunkId.
     bindE (candidate_string P (get_prop item (js ''project_id''))) (\<lambda>projectId.
     bindE (candidate_string P (get_prop item (js ''file_id''))) (\<lambda>fileId.
     bindE (candidate_string P (get_prop item (js ''document_id''))) (\<lambda>documentId.
     bindE (nullable_candidate_string P (get_prop item (js ''ingestion_key''))) (\<lambda>ingestionKey.
     bindE (candidate_string P (get_prop item (js ''exact_span_text_nfc''))) (\<lambda>spanText.
     bindE (nullableRank (get_prop item (js ''exact_span_document_start''))) (\<lambda>documentStart.
     bindE (nullableRank (get_prop item (js ''exact_span_document_end''))) (\<lambda>documentEnd.
     bindE (safeNonNegativeInteger (get_prop item (js ''candidate_rank''))) (\<lambda>candidateRank.
     bindE (nullable_candidate_string P (get_prop scores (js ''sparse''))) (\<lambda>sparseScore.
     bindE (nullable_candidate_string P (get_prop scores (js ''dense''))) (\<lambda>denseScore.
     bindE (candidate_string P (get_prop scores (js ''fusion''))) (\<lambda>fusionScore.
     bindE (candidate_string P (get_prop scores (js ''rerank''))) (\<lambda>rerankScore.
     bindE (nullableRank (get_prop ranks (js ''sparse''))) (\<lambda>sparseRank.
     bindE (nullableRank (get_prop ranks (js ''dense''))) (\<lambda>denseRank.
     bindE (safeNonNegativeInteger (get_prop ranks (js ''fusion''))) (\<lambda>fusionRank.
     bindE (safeNonNegativeInteger (get_prop ranks (js ''rerank''))) (\<lambda>rerankRank.
     bindE (candidate_digest P (get_prop item (js ''evidence_snapshot_digest''))) (\<lambda>d.
     Inr \<lparr>se_evidence_id = evidenceId, se_retrieval_run_id = runId, se_chunk_id = chunkId, se_project_id = projectId,
       se_file_id = fileId, se_document_id = documentId, se_ingestion_key = ingestionKey,
       se_exact_span_text_nfc = spanText, se_exact_span_document_start = documentStart,
       se_exact_span_document_end = documentEnd, se_candidate_rank = candidateRank, se_score_sparse = sparseScore,
       se_score_dense = denseScore, se_score_fusion = fusionScore, se_score_rerank = rerankScore,
       se_rank_sparse = sparseRank, se_rank_dense = denseRank, se_rank_fusion = fusionRank,
       se_rank_rerank = rerankRank, se_index_snapshot = get_prop item (js ''index_snapshot''),
       se_evidence_snapshot_digest = d\<rparr>)))))))))))))))))))))))))"

definition workflow_types :: "workflow_type list" where
  "workflow_types = [CONTENT_WORKFLOW, REWRITE_WORKFLOW, EXPAND_WORKFLOW, COMPRESS_WORKFLOW]"

definition parse_sealed_workflow :: "platform \<Rightarrow> jsval \<Rightarrow> sealed_workflow sealing" where
  "parse_sealed_workflow P v =
     bindE (candidate_record v [''workflow_job_id'', ''project_id'', ''workflow_type'', ''generation_attempt'', ''revision_attempt'']) (\<lambda>item.
     bindE (safeNonNegativeInteger (get_prop item (js ''revision_attempt''))) (\<lambda>revisionAttempt.
     if revisionAttempt \<noteq> 0 \<and> revisionAttempt \<noteq> 1 then Inl InvalidCandidate
     else
     bindE (candidate_string P (get_prop item (js ''workflow_job_id''))) (\<lambda>jobId.
     bindE (candidate_string P (get_prop item (js ''project_id''))) (\<lambda>projectId.
     bindE (enumString P (get_prop item (js ''workflow_type'')) workflow_types sealed_type_text) (\<lambda>workflowType.
     bindE (safeNonNegativeInteger (get_prop item (js ''generation_attempt''))) (\<lambda>generationAttempt.
     Inr \<lparr>sw_workflow_job_id = jobId, sw_project_id = projectId, sw_workflow_type = workflowType,
       sw_generation_attempt = int generationAttempt, sw_revision_attempt = revisionAttempt\<rparr>))))))"

definition CHECKPOINT_FIELDS :: "string list" where
  "CHECKPOINT_FIELDS =
     [''envelope_version'', ''contract_version'', ''schema_version'', ''canonical_json_version'', ''canonicalizer_version'',
      ''quantity_lexer_version'', ''plain_text_escape_version'', ''renderer_version'', ''verifier_version'', ''workflow'',
      ''canonical_proposal'', ''render_context'', ''server_output'', ''claims'', ''evidence_snapshots'', ''digests'']"

definition checkpoint_versions :: "(string \<times> jstr) list" where
  "checkpoint_versions =
     [(''envelope_version'', SEALED_GROUNDED_CANDIDATE_VERSION), (''contract_version'', ATOMIC_GROUNDING_CONTRACT_VERSION),
      (''schema_version'', GROUNDED_DRAFT_SCHEMA_VERSION), (''canonical_json_version'', CANONICAL_JSON_VERSION),
      (''canonicalizer_version'', ATOMIC_CANONICALIZER_VERSION), (''quantity_lexer_version'', QUANTITY_LEXER_VERSION),
      (''plain_text_escape_version'', PLAIN_TEXT_ESCAPE_VERSION), (''renderer_version'', ATOMIC_RENDERER_VERSION),
      (''verifier_version'', ATOMIC_VERIFIER_VERSION)]"

definition parse_digests :: "platform \<Rightarrow> jsval \<Rightarrow> (sealed_digests \<times> jstr) sealing" where
  "parse_digests P v =
     bindE (candidate_record v [''proposal_digest'', ''render_context_digest'', ''render_digest'', ''assignment_digest'',
              ''ledger_digest'', ''envelope_digest'']) (\<lambda>digests.
     bindE (candidate_digest P (get_prop digests (js ''proposal_digest''))) (\<lambda>proposalDigest.
     bindE (candidate_digest P (get_prop digests (js ''render_context_digest''))) (\<lambda>contextDigest.
     bindE (candidate_digest P (get_prop digests (js ''render_digest''))) (\<lambda>renderDigest.
     bindE (candidate_digest P (get_prop digests (js ''assignment_digest''))) (\<lambda>assignmentDigest.
     bindE (candidate_digest P (get_prop digests (js ''ledger_digest''))) (\<lambda>ledgerDigest.
     bindE (candidate_digest P (get_prop digests (js ''envelope_digest''))) (\<lambda>envelopeDigest.
     Inr (\<lparr>sd_proposal_digest = proposalDigest, sd_render_context_digest = contextDigest, sd_render_digest = renderDigest,
       sd_assignment_digest = assignmentDigest, sd_ledger_digest = ledgerDigest\<rparr>, envelopeDigest))))))))"

definition parseCheckpoint :: "platform \<Rightarrow> jsval \<Rightarrow> SealedGroundedCandidateV1 sealing" where
  "parseCheckpoint P v =
     bindE (candidate_record v CHECKPOINT_FIELDS) (\<lambda>item.
     if list_ex (\<lambda>(field, version). get_prop item (js field) \<noteq> JStr version) checkpoint_versions then Inl InvalidCandidate
     else
     bindE (parse_sealed_workflow P (get_prop item (js ''workflow''))) (\<lambda>workflow.
     bindE (candidate_record (get_prop item (js ''server_output'')) [''text'', ''utf8_byte_length'', ''utf16_length'']) (\<lambda>serverOutput.
     bindE (parse_digests P (get_prop item (js ''digests''))) (\<lambda>(digests, envelopeDigest).
     bindE (case parse_draft P (get_prop item (js ''canonical_proposal'')) of Inl _ \<Rightarrow> Inl InvalidCandidate | Inr d \<Rightarrow> Inr d) (\<lambda>proposal.
     bindE (parseRenderContext P (get_prop item (js ''render_context''))) (\<lambda>renderContext.
     bindE (candidate_string P (get_prop serverOutput (js ''text''))) (\<lambda>output.
     bindE (safeNonNegativeInteger (get_prop serverOutput (js ''utf8_byte_length''))) (\<lambda>utf8Length.
     bindE (safeNonNegativeInteger (get_prop serverOutput (js ''utf16_length''))) (\<lambda>utf16Length.
     bindE (candidate_array (get_prop item (js ''claims''))) (\<lambda>rawClaims.
     bindE (mapE (parseSealedClaim P) rawClaims) (\<lambda>claims.
     bindE (candidate_array (get_prop item (js ''evidence_snapshots''))) (\<lambda>rawSnapshots.
     bindE (mapE (parseEvidenceSnapshot P) rawSnapshots) (\<lambda>snapshots.
     Inr \<lparr>sg_workflow = workflow, sg_canonical_proposal = proposal, sg_render_context = renderContext,
       sg_output_text = output, sg_output_utf8_byte_length = utf8Length, sg_output_utf16_length = utf16Length,
       sg_claims = claims, sg_evidence_snapshots = snapshots, sg_digests = digests,
       sg_envelope_digest = envelopeDigest\<rparr>)))))))))))))"

section \<open>Recovery\<close>

datatype recovery_error = ClosedRecoveryFailure AtomicGroundingReasonCode | OtherRecoveryError

type_synonym 'a recovering = "(recovery_error, 'a) result"

definition recoveryFailure :: "AtomicGroundingReasonCode \<Rightarrow> 'a recovering" where
  "recoveryFailure reason = Inl (ClosedRecoveryFailure reason)"

definition envelope_digest_matches :: "platform \<Rightarrow> SealedGroundedCandidateV1 \<Rightarrow> bool option" where
  "envelope_digest_matches P parsed =
     (case digestCanonicalV1 P SEALED_GROUNDED_CANDIDATE_VERSION (withoutEnvelopeDigest parsed) of
        Inl _ \<Rightarrow> None
      | Inr stored \<Rightarrow> Some (constantTimeEqual stored (sg_envelope_digest parsed)))"

definition parseSealedGroundedCandidateWorkflowV1 :: "platform \<Rightarrow> jsval \<Rightarrow> sealed_workflow recovering" where
  "parseSealedGroundedCandidateWorkflowV1 P checkpoint =
     (case parseCheckpoint P checkpoint of
        Inl _ \<Rightarrow> recoveryFailure ENVELOPE_INVALID
      | Inr parsed \<Rightarrow>
          (case envelope_digest_matches P parsed of
             None \<Rightarrow> Inl OtherRecoveryError
           | Some False \<Rightarrow> recoveryFailure ENVELOPE_DIGEST_MISMATCH
           | Some True \<Rightarrow> Inr (sg_workflow parsed)))"

definition same_claim :: "platform \<Rightarrow> sealed_workflow \<Rightarrow> AtomicVerifiedClaimV1 \<Rightarrow> SealedClaimV1 \<Rightarrow> bool" where
  "same_claim P workflow fresh stored \<longleftrightarrow>
     vc_support_status fresh = SUPPORTED \<and> vc_candidate_claim_key fresh = sc_candidate_claim_key stored \<and>
     vc_candidate_claim_key fresh = cc_candidate_claim_key (vc_base fresh) \<and>
     vc_verification_method fresh = sc_verification_method stored \<and>
     cc_revision_attempt (vc_base fresh) = sw_revision_attempt workflow \<and>
     cc_revision_attempt (sc_canonical_claim stored) = sw_revision_attempt workflow \<and>
     sameCanonical P (canonical_claim_value (vc_base fresh) None) (canonical_claim_value (sc_canonical_claim stored) None) \<and>
     sameCanonical P (evidence_refs_value (vc_evidence_refs fresh)) (evidence_refs_value (sc_evidence_refs stored))"

definition verification_input ::
    "sealed_workflow \<Rightarrow> GroundedDraftProposal \<Rightarrow> jstr \<Rightarrow> AssignedEvidenceSnapshot list \<Rightarrow> AtomicVerificationInput" where
  "verification_input w proposal assignmentDigest evidence =
     \<lparr>vi_workflow_job_id = JStr (sw_workflow_job_id w), vi_project_id = JStr (sw_project_id w),
      vi_generation_attempt = JNum (NInt (sw_generation_attempt w)), vi_revision_attempt = sw_revision_attempt w,
      vi_proposal = draft_value proposal, vi_assignment_digest = assignmentDigest, vi_evidence = evidence\<rparr>"

definition verifyEnvelopeAgainstCurrentAssignment ::
    "platform \<Rightarrow> SealedGroundedCandidateV1 \<Rightarrow> GroundingAssignmentSnapshot \<Rightarrow> AtomicVerificationResult sealing" where
  "verifyEnvelopeAgainstCurrentAssignment P envelope assignment =
     (case as_snapshot_digest assignment of
        JStr d \<Rightarrow>
          if as_targeted_revision_attempts assignment \<noteq> int (sw_revision_attempt (sg_workflow envelope)) then Inl InvalidCandidate
          else
            (case verify P (verification_input (sg_workflow envelope) (sg_canonical_proposal envelope) d (as_evidence assignment)) of
               Inl _ \<Rightarrow> Inl InvalidCandidate
             | Inr verification \<Rightarrow>
                 if vr_decision verification \<noteq> ALLOW \<or> length (vr_claims verification) \<noteq> length (sg_claims envelope) \<or>
                    \<not> sameCanonical P (draft_value (vr_canonical_proposal verification)) (draft_value (sg_canonical_proposal envelope)) \<or>
                    \<not> list_all (\<lambda>(fresh, stored). same_claim P (sg_workflow envelope) fresh stored)
                        (zip (vr_claims verification) (sg_claims envelope))
                 then Inl InvalidCandidate else Inr verification)
      | _ \<Rightarrow> Inl InvalidCandidate)"

text \<open>The comparison of the digests, in the order of the loop.\<close>

definition compare_digests :: "SealedGroundedCandidateV1 \<Rightarrow> SealedGroundedCandidateV1 \<Rightarrow> unit recovering" where
  "compare_digests recovered parsed =
     (let differ = (\<lambda>field. \<not> constantTimeEqual (field (sg_digests recovered)) (field (sg_digests parsed))) in
      if differ sd_proposal_digest then recoveryFailure ENVELOPE_DIGEST_MISMATCH
      else if differ sd_render_context_digest then recoveryFailure RECOVERY_RENDER_CONTEXT_DRIFT
      else if differ sd_render_digest then recoveryFailure ENVELOPE_DIGEST_MISMATCH
      else if differ sd_assignment_digest then recoveryFailure RECOVERY_ASSIGNMENT_DRIFT
      else if differ sd_ledger_digest then recoveryFailure ENVELOPE_DIGEST_MISMATCH
      else if \<not> constantTimeEqual (sg_envelope_digest recovered) (sg_envelope_digest parsed)
      then recoveryFailure ENVELOPE_DIGEST_MISMATCH else Inr ())"

definition recoverSealedGroundedCandidateV1 ::
    "platform \<Rightarrow> jsval \<Rightarrow> GroundingAssignmentSnapshot \<Rightarrow> jsval \<Rightarrow> (AtomicGroundingReasonCode, SealedGroundedCandidateV1) result" where
  "recoverSealedGroundedCandidateV1 P checkpoint assignment currentContext =
     (case parseCheckpoint P checkpoint of
        Inl _ \<Rightarrow> Inl ENVELOPE_INVALID
      | Inr parsed \<Rightarrow>
          (case envelope_digest_matches P parsed of
             None \<Rightarrow> Inl ENVELOPE_INVALID
           | Some False \<Rightarrow> Inl ENVELOPE_DIGEST_MISMATCH
           | Some True \<Rightarrow>
               (case as_snapshot_digest assignment of
                  JStr d \<Rightarrow>
                    if \<not> constantTimeEqual (sha256Utf8 P (ATOMIC_GROUNDING_CONTRACT_VERSION @ 0 # d)) (sd_assignment_digest (sg_digests parsed))
                    then Inl RECOVERY_ASSIGNMENT_DRIFT
                    else
                      (case validateApprovedRenderContextV1 P currentContext of
                         Inl _ \<Rightarrow> Inl RECOVERY_RENDER_CONTEXT_DRIFT
                       | Inr renderContext \<Rightarrow>
                           (case digestCanonicalV1 P APPROVED_RENDER_CONTEXT_VERSION (context_value renderContext) of
                              Inl _ \<Rightarrow> Inl ENVELOPE_INVALID
                            | Inr contextDigest \<Rightarrow>
                                if \<not> constantTimeEqual contextDigest (sd_render_context_digest (sg_digests parsed))
                                then Inl RECOVERY_RENDER_CONTEXT_DRIFT
                                else
                                  (case verifyEnvelopeAgainstCurrentAssignment P parsed assignment of
                                     Inl _ \<Rightarrow> Inl RECOVERY_ASSIGNMENT_DRIFT
                                   | Inr verification \<Rightarrow>
                                       (case sealGroundedCandidateV1 P \<lparr>si_workflow = sg_workflow parsed,
                                               si_verification = verification, si_assignment = assignment,
                                               si_render_context = renderContext\<rparr> of
                                          Inl _ \<Rightarrow> Inl ENVELOPE_INVALID
                                        | Inr recovered \<Rightarrow>
                                            (case compare_digests recovered parsed of
                                               Inl (ClosedRecoveryFailure reason) \<Rightarrow> Inl reason
                                             | Inl OtherRecoveryError \<Rightarrow> Inl ENVELOPE_INVALID
                                             | Inr _ \<Rightarrow>
                                                 if \<not> sameCanonical P (candidate_value recovered) (candidate_value parsed)
                                                 then Inl ENVELOPE_DIGEST_MISMATCH else Inr recovered)))))
                | _ \<Rightarrow> Inl RECOVERY_ASSIGNMENT_DRIFT)))"

end
