(* ===== verification/AtomicMetrics.thy ===== *)
theory AtomicMetrics
  imports SealedCandidate
begin

text \<open>
  The metrics of atomic grounding (\<open>citation/atomic-grounding/atomic-grounding.metrics.ts\<close>): the
  recorder, which checks its arguments and hands points to a sink, and the sink of production, which
  accepts only points with the closed labels, sums counters and fills histograms, and prints them.
  The values recorded are counts, byte sizes and milliseconds, all of them integers.
\<close>

section \<open>Points\<close>

datatype metric_name =
    GROUNDING_PROPOSAL_TOTAL | GROUNDING_CLAIM_TOTAL | GROUNDING_FAIL_CLOSED_TOTAL | GROUNDING_REVISION_TOTAL
  | GROUNDING_MATERIAL_GAP_TOTAL | GROUNDING_STRUCTURED_REPAIR_TOTAL | GROUNDING_PROPOSAL_BYTES
  | GROUNDING_PROPOSAL_CLAIM_COUNT | GROUNDING_RENDER_LATENCY_MS | GROUNDING_TIME_TO_FIRST_RENDERED_TOKEN_MS

datatype metric_kind = COUNTER | HISTOGRAM

datatype revision_outcome = REVISION_REQUIRED_OUTCOME | REVISION_SEALED | REVISION_EXHAUSTED_OUTCOME

record AtomicMetricPoint =
  mp_name :: metric_name
  mp_kind :: metric_kind
  mp_value :: int
  mp_labels :: "(jstr \<times> jstr) list"

datatype metric_error = MetricInvalid

fun metric_name_text :: "metric_name \<Rightarrow> string" where
  "metric_name_text GROUNDING_PROPOSAL_TOTAL = ''grounding_proposal_total''"
| "metric_name_text GROUNDING_CLAIM_TOTAL = ''grounding_claim_total''"
| "metric_name_text GROUNDING_FAIL_CLOSED_TOTAL = ''grounding_fail_closed_total''"
| "metric_name_text GROUNDING_REVISION_TOTAL = ''grounding_revision_total''"
| "metric_name_text GROUNDING_MATERIAL_GAP_TOTAL = ''grounding_material_gap_total''"
| "metric_name_text GROUNDING_STRUCTURED_REPAIR_TOTAL = ''grounding_structured_repair_total''"
| "metric_name_text GROUNDING_PROPOSAL_BYTES = ''grounding_proposal_bytes''"
| "metric_name_text GROUNDING_PROPOSAL_CLAIM_COUNT = ''grounding_proposal_claim_count''"
| "metric_name_text GROUNDING_RENDER_LATENCY_MS = ''grounding_render_latency_ms''"
| "metric_name_text GROUNDING_TIME_TO_FIRST_RENDERED_TOKEN_MS = ''grounding_time_to_first_rendered_token_ms''"

fun outcome_text :: "revision_outcome \<Rightarrow> string" where
  "outcome_text REVISION_REQUIRED_OUTCOME = ''required''"
| "outcome_text REVISION_SEALED = ''sealed''"
| "outcome_text REVISION_EXHAUSTED_OUTCOME = ''exhausted''"

fun verdict_text :: "support_status \<Rightarrow> string" where
  "verdict_text SUPPORTED = ''SUPPORTED''"
| "verdict_text UNSUPPORTED = ''UNSUPPORTED''"
| "verdict_text UNVERIFIABLE = ''UNVERIFIABLE''"

definition COUNTER_NAMES :: "metric_name list" where
  "COUNTER_NAMES =
     [GROUNDING_PROPOSAL_TOTAL, GROUNDING_CLAIM_TOTAL, GROUNDING_FAIL_CLOSED_TOTAL, GROUNDING_REVISION_TOTAL,
      GROUNDING_MATERIAL_GAP_TOTAL, GROUNDING_STRUCTURED_REPAIR_TOTAL]"

definition latency_buckets :: "int list" where
  "latency_buckets = [1, 5, 10, 25, 50, 100, 250, 500, 1000, 2500, 5000, 10000]"

definition HISTOGRAM_BUCKETS :: "(metric_name \<times> int list) list" where
  "HISTOGRAM_BUCKETS =
     [(GROUNDING_PROPOSAL_BYTES, [1024, 4096, 16384, 65536, 262144, 1048576, 4194304]),
      (GROUNDING_PROPOSAL_CLAIM_COUNT, [1, 5, 10, 25, 50, 100, 250, 500]),
      (GROUNDING_RENDER_LATENCY_MS, latency_buckets), (GROUNDING_TIME_TO_FIRST_RENDERED_TOKEN_MS, latency_buckets)]"

fun METRIC_LABEL_KEYS :: "metric_name \<Rightarrow> string list" where
  "METRIC_LABEL_KEYS GROUNDING_PROPOSAL_TOTAL = [''schema'', ''status'', ''workflow_type'']"
| "METRIC_LABEL_KEYS GROUNDING_PROPOSAL_BYTES = [''schema'', ''status'', ''workflow_type'']"
| "METRIC_LABEL_KEYS GROUNDING_PROPOSAL_CLAIM_COUNT = [''schema'', ''status'', ''workflow_type'']"
| "METRIC_LABEL_KEYS GROUNDING_STRUCTURED_REPAIR_TOTAL = [''schema'', ''workflow_type'']"
| "METRIC_LABEL_KEYS GROUNDING_CLAIM_TOTAL = [''method'', ''verdict'', ''workflow_type'']"
| "METRIC_LABEL_KEYS GROUNDING_FAIL_CLOSED_TOTAL = [''reason'', ''workflow_type'']"
| "METRIC_LABEL_KEYS GROUNDING_REVISION_TOTAL = [''outcome'']"
| "METRIC_LABEL_KEYS GROUNDING_MATERIAL_GAP_TOTAL = [''reason'']"
| "METRIC_LABEL_KEYS GROUNDING_RENDER_LATENCY_MS = [''workflow_type'']"
| "METRIC_LABEL_KEYS GROUNDING_TIME_TO_FIRST_RENDERED_TOKEN_MS = [''workflow_type'']"

section \<open>The recorder\<close>

type_synonym 'a metric_result = "(metric_error, 'a) result"

definition observation :: "int \<Rightarrow> unit metric_result" where
  "observation v = guardE (0 \<le> v) MetricInvalid"

definition safeIntegerObservation :: "int \<Rightarrow> unit metric_result" where
  "safeIntegerObservation v = guardE (\<bar>v\<bar> \<le> MAX_SAFE_INTEGER \<and> 0 \<le> v) MetricInvalid"

definition repairObservation :: "int \<Rightarrow> unit metric_result" where
  "repairObservation v = guardE (v = 0 \<or> v = 1) MetricInvalid"

definition metric_point :: "metric_name \<Rightarrow> metric_kind \<Rightarrow> int \<Rightarrow> (string \<times> jstr) list \<Rightarrow> AtomicMetricPoint metric_result" where
  "metric_point name kind v labels =
     bindE (observation v) (\<lambda>_.
     Inr \<lparr>mp_name = name, mp_kind = kind, mp_value = v, mp_labels = map (\<lambda>(k, l). (js k, l)) labels\<rparr>)"

text \<open>The points a call of the recorder hands to the sink, in order.\<close>

definition proposal_points :: "workflow_type \<Rightarrow> draft_status \<Rightarrow> int \<Rightarrow> int \<Rightarrow> int \<Rightarrow> AtomicMetricPoint list metric_result" where
  "proposal_points workflowType status bytes claimCount repairAttempts =
     bindE (safeIntegerObservation bytes) (\<lambda>_.
     bindE (safeIntegerObservation claimCount) (\<lambda>_.
     bindE (repairObservation repairAttempts) (\<lambda>_.
     let labels = [(''schema'', GROUNDED_DRAFT_SCHEMA_VERSION), (''status'', js (draft_status_text status)),
                   (''workflow_type'', js (sealed_type_text workflowType))]
     in
     bindE (metric_point GROUNDING_PROPOSAL_TOTAL COUNTER 1 labels) (\<lambda>p1.
     bindE (metric_point GROUNDING_PROPOSAL_BYTES HISTOGRAM bytes labels) (\<lambda>p2.
     bindE (metric_point GROUNDING_PROPOSAL_CLAIM_COUNT HISTOGRAM claimCount labels) (\<lambda>p3.
     bindE (metric_point GROUNDING_STRUCTURED_REPAIR_TOTAL COUNTER repairAttempts
       [(''schema'', GROUNDED_DRAFT_SCHEMA_VERSION), (''workflow_type'', js (sealed_type_text workflowType))]) (\<lambda>p4.
     Inr [p1, p2, p3, p4])))))))"

definition one_point :: "AtomicMetricPoint metric_result \<Rightarrow> AtomicMetricPoint list metric_result" where
  "one_point r = bindE r (\<lambda>p. Inr [p])"

definition claim_points :: "workflow_type \<Rightarrow> verification_method \<Rightarrow> support_status \<Rightarrow> AtomicMetricPoint list metric_result" where
  "claim_points workflowType method verdict =
     one_point (metric_point GROUNDING_CLAIM_TOTAL COUNTER 1
       [(''method'', js (method_text method)), (''verdict'', js (verdict_text verdict)),
        (''workflow_type'', js (sealed_type_text workflowType))])"

definition fail_closed_points :: "workflow_type \<Rightarrow> AtomicGroundingReasonCode \<Rightarrow> AtomicMetricPoint list metric_result" where
  "fail_closed_points workflowType reason =
     one_point (metric_point GROUNDING_FAIL_CLOSED_TOTAL COUNTER 1
       [(''reason'', reason_text reason), (''workflow_type'', js (sealed_type_text workflowType))])"

definition revision_points :: "revision_outcome \<Rightarrow> AtomicMetricPoint list metric_result" where
  "revision_points outcome =
     one_point (metric_point GROUNDING_REVISION_TOTAL COUNTER 1 [(''outcome'', js (outcome_text outcome))])"

definition material_gap_points :: "AtomicGroundingReasonCode \<Rightarrow> AtomicMetricPoint list metric_result" where
  "material_gap_points reason =
     one_point (metric_point GROUNDING_MATERIAL_GAP_TOTAL COUNTER 1 [(''reason'', reason_text reason)])"

definition render_latency_points :: "workflow_type \<Rightarrow> int \<Rightarrow> AtomicMetricPoint list metric_result" where
  "render_latency_points workflowType milliseconds =
     bindE (observation milliseconds) (\<lambda>_.
     one_point (metric_point GROUNDING_RENDER_LATENCY_MS HISTOGRAM milliseconds
       [(''workflow_type'', js (sealed_type_text workflowType))]))"

definition first_rendered_token_points :: "workflow_type \<Rightarrow> int \<Rightarrow> AtomicMetricPoint list metric_result" where
  "first_rendered_token_points workflowType milliseconds =
     bindE (observation milliseconds) (\<lambda>_.
     one_point (metric_point GROUNDING_TIME_TO_FIRST_RENDERED_TOKEN_MS HISTOGRAM milliseconds
       [(''workflow_type'', js (sealed_type_text workflowType))]))"

section \<open>The exporter\<close>

definition all_reasons :: "AtomicGroundingReasonCode list" where
  "all_reasons =
     [SCHEMA_INVALID, NO_EVIDENCE, INSUFFICIENT_EVIDENCE, AMBIGUOUS_EVIDENCE, UNSUPPORTED_QUANTIFIER, EMPTY_STRICT_DRAFT,
      RENDER_GRAPH_INVALID, ASSIGNMENT_MISSING, ASSIGNMENT_CONTRACT_MISMATCH, ASSIGNMENT_PROJECT_MISMATCH,
      ASSIGNMENT_SNAPSHOT_DRIFT, NO_HIT, RETRIEVAL_STATE_INVALID, EVIDENCE_UNKNOWN, EVIDENCE_OWNERSHIP_INVALID,
      EVIDENCE_NOT_SELECTED, EVIDENCE_INGESTION_INACTIVE, EVIDENCE_OFFSET_DRIFT, EVIDENCE_RUN_DRIFT,
      EVIDENCE_LEGACY_AMBIGUOUS, EVIDENCE_SNAPSHOT_DRIFT, ATOM_ANCHOR_MISMATCH, ATOM_POLARITY_MISMATCH,
      ATOM_QUANTIFIER_MISMATCH, ATOM_QUANTITY_MISMATCH, ATOM_EXACT_MISMATCH, ATOM_TYPED_SKELETON_MISMATCH,
      ATOM_EVIDENCE_MOSAIC_UNSUPPORTED, RENDER_CONTEXT_INVALID, RENDER_FAILED, REVISION_INVARIANT_VIOLATION,
      REVISION_EXHAUSTED, ENVELOPE_INVALID, ENVELOPE_DIGEST_MISMATCH, RECOVERY_ASSIGNMENT_DRIFT,
      RECOVERY_RENDER_CONTEXT_DRIFT, ATOMIC_GROUNDING_DISABLED, ATOMIC_COMMIT_NOT_AUTHORIZED, INTERNAL_FAIL_CLOSED]"

text \<open>The values a label may have, when it is one of the closed ones.\<close>

definition label_values :: "string \<Rightarrow> jstr list option" where
  "label_values key = map_of
     [(''workflow_type'', map js [''content'', ''rewrite'', ''expand'', ''compress'']),
      (''status'', map js [''draft'', ''material_gap'']), (''schema'', [GROUNDED_DRAFT_SCHEMA_VERSION]),
      (''method'', map js [''atomic_extract_exact'', ''atomic_typed_equivalent'', ''atomic_unsupported'', ''atomic_unverifiable'']),
      (''verdict'', map js [''SUPPORTED'', ''UNSUPPORTED'', ''UNVERIFIABLE'']), (''reason'', map reason_text all_reasons),
      (''outcome'', map js [''required'', ''sealed'', ''exhausted''])] key"

definition assertLabelValue :: "string \<Rightarrow> jstr option \<Rightarrow> unit metric_result" where
  "assertLabelValue key v =
     guardE (case label_values key of None \<Rightarrow> True | Some vs \<Rightarrow> (case v of None \<Rightarrow> False | Some s \<Rightarrow> s \<in> set vs)) MetricInvalid"

definition assertExportablePoint :: "AtomicMetricPoint \<Rightarrow> unit metric_result" where
  "assertExportablePoint p =
     bindE (guardE ((mp_name p \<in> set COUNTER_NAMES) = (mp_kind p = COUNTER)) MetricInvalid) (\<lambda>_.
     bindE (observation (mp_value p)) (\<lambda>_.
     bindE (if mp_kind p = COUNTER then safeIntegerObservation (mp_value p) else Inr ()) (\<lambda>_.
     let expectedKeys = METRIC_LABEL_KEYS (mp_name p) in
     bindE (guardE (sort (map fst (mp_labels p)) = sort (map js expectedKeys)) MetricInvalid) (\<lambda>_.
     bindE (mapE (\<lambda>key. assertLabelValue key (map_of (mp_labels p) (js key))) expectedKeys) (\<lambda>_. Inr ())))))"

definition histogramBuckets :: "metric_name \<Rightarrow> int list metric_result" where
  "histogramBuckets name = (case map_of HISTOGRAM_BUCKETS name of None \<Rightarrow> Inl MetricInvalid | Some bs \<Rightarrow> Inr bs)"

text \<open>
  The key of a series: its name and its labels, sorted.  The labels of an exportable point are
  ASCII words, on which the sorting by locale and by code unit is the same.
\<close>

type_synonym metric_key = "metric_name \<times> (jstr \<times> jstr) list"

definition metricKey :: "metric_name \<Rightarrow> (jstr \<times> jstr) list \<Rightarrow> metric_key" where
  "metricKey name labels = (name, sort_key fst labels)"

record HistogramAggregate =
  ha_count :: int
  ha_sum :: int
  ha_buckets :: "int list"

text \<open>The two maps keep the order in which their keys were first set.\<close>

record exporter_state =
  ex_counters :: "(metric_key \<times> int) list"
  ex_histograms :: "(metric_key \<times> HistogramAggregate) list"

fun map_set :: "'k \<Rightarrow> 'v \<Rightarrow> ('k \<times> 'v) list \<Rightarrow> ('k \<times> 'v) list" where
  "map_set k v [] = [(k, v)]"
| "map_set k v ((k', v') # kvs) = (if k' = k then (k, v) # kvs else (k', v') # map_set k v kvs)"

definition add_observation :: "int list \<Rightarrow> int \<Rightarrow> HistogramAggregate \<Rightarrow> HistogramAggregate" where
  "add_observation buckets v a =
     \<lparr>ha_count = ha_count a + 1, ha_sum = ha_sum a + v,
      ha_buckets = map (\<lambda>(boundary, n). if v \<le> boundary then n + 1 else n) (zip buckets (ha_buckets a))\<rparr>"

definition record_point :: "AtomicMetricPoint \<Rightarrow> exporter_state \<Rightarrow> exporter_state metric_result" where
  "record_point p st =
     bindE (assertExportablePoint p) (\<lambda>_.
     let key = metricKey (mp_name p) (mp_labels p) in
     if mp_kind p = COUNTER
     then Inr (st\<lparr>ex_counters := map_set key
       ((case map_of (ex_counters st) key of None \<Rightarrow> 0 | Some n \<Rightarrow> n) + mp_value p) (ex_counters st)\<rparr>)
     else
     bindE (histogramBuckets (mp_name p)) (\<lambda>buckets.
     let aggregate =
       (case map_of (ex_histograms st) key of
          None \<Rightarrow> \<lparr>ha_count = 0, ha_sum = 0, ha_buckets = map (\<lambda>_. 0) buckets\<rparr>
        | Some a \<Rightarrow> a)
     in Inr (st\<lparr>ex_histograms := map_set key (add_observation buckets (mp_value p) aggregate) (ex_histograms st)\<rparr>)))"

fun record_points :: "AtomicMetricPoint list \<Rightarrow> exporter_state \<Rightarrow> exporter_state metric_result" where
  "record_points [] st = Inr st"
| "record_points (p # ps) st = bindE (record_point p st) (record_points ps)"

text \<open>The text exposition.\<close>

definition formatLabels :: "(jstr \<times> jstr) list \<Rightarrow> jstr" where
  "formatLabels labels =
     (let entries = sort_key fst labels in
      if entries = [] then []
      else 123 # join_comma (map (\<lambda>(k, v). k @ [61, 34] @ v @ [34]) entries) @ [125])"

definition sample_line :: "jstr \<Rightarrow> (jstr \<times> jstr) list \<Rightarrow> int \<Rightarrow> jstr" where
  "sample_line name labels v = name @ formatLabels labels @ 32 # dec_int v"

definition type_line :: "metric_name \<Rightarrow> string \<Rightarrow> jstr" where
  "type_line name kind = js ''# TYPE '' @ js (metric_name_text name) @ 32 # js kind"

definition counter_lines :: "exporter_state \<Rightarrow> metric_name \<Rightarrow> jstr list" where
  "counter_lines st name =
     type_line name ''counter'' #
       map (\<lambda>((n, labels), v). sample_line (js (metric_name_text name)) labels v)
         (filter (\<lambda>((n, labels), v). n = name) (ex_counters st))"

definition aggregate_lines :: "metric_name \<Rightarrow> int list \<Rightarrow> (jstr \<times> jstr) list \<Rightarrow> HistogramAggregate \<Rightarrow> jstr list" where
  "aggregate_lines name buckets labels a =
     (let text = js (metric_name_text name) in
      map (\<lambda>(boundary, n). sample_line (text @ js ''_bucket'') (labels @ [(js ''le'', dec_int boundary)]) n)
        (zip buckets (ha_buckets a)) @
      [sample_line (text @ js ''_bucket'') (labels @ [(js ''le'', js ''+Inf'')]) (ha_count a),
       sample_line (text @ js ''_sum'') labels (ha_sum a), sample_line (text @ js ''_count'') labels (ha_count a)])"

definition histogram_lines :: "exporter_state \<Rightarrow> metric_name \<times> int list \<Rightarrow> jstr list" where
  "histogram_lines st series =
     (case series of (name, buckets) \<Rightarrow>
        type_line name ''histogram'' #
          concat (map (\<lambda>((n, labels), a). aggregate_lines name buckets labels a)
            (filter (\<lambda>((n, labels), a). n = name) (ex_histograms st))))"

definition exposition :: "exporter_state \<Rightarrow> jstr" where
  "exposition st =
     concat (map (\<lambda>line. line @ [10])
       (concat (map (counter_lines st) COUNTER_NAMES) @ concat (map (histogram_lines st) HISTOGRAM_BUCKETS)))"

end
