(* ===== verification/AtomicCoordinator.thy ===== *)
theory AtomicCoordinator
  imports SealedRecovery AtomicMetrics
begin

text \<open>
  The coordinator of atomic grounding (\<open>citation/atomic-grounding/atomic-grounding-coordinator.service.ts\<close>):
  it loads the assignment, builds the render context, asks the agent for a draft, verifies, checks a
  revision, renders and seals; or recovers a sealed candidate.  Its collaborators are a record of
  functions; the state is the list of the metric points recorded.
\<close>

section \<open>Inputs and outcomes\<close>

record draft_revision =
  dr_base_proposal :: jsval
  dr_allowed_candidate_claim_keys :: "jstr list"
  dr_non_target_invariant_digests :: "(jstr \<times> jstr) list"

record AtomicGroundingGenerationInput =
  gi_workflow_job_id :: jstr
  gi_project_id :: jstr
  gi_workflow_type :: workflow_type
  gi_generation_attempt :: int
  gi_revision_attempt :: nat
  gi_authoring_context :: jsval
  gi_revision :: "draft_revision option"
  gi_persists :: bool
  gi_request_idempotency_key :: "jstr option"

datatype AtomicGroundingOutcome =
    Sealed SealedGroundedCandidateV1
  | RevisionRequired GroundedDraftProposal "(jstr \<times> jstr \<times> AtomicGroundingReasonCode) list" "jstr \<Rightarrow> jstr option" jstr
  | MaterialGap AtomicGroundingReasonCode "jstr list"

text \<open>What is thrown, by the classes the handlers test for; the last is a value that is no \<open>Error\<close>.\<close>

datatype coordinator_thrown =
    CoordinatorError AtomicGroundingReasonCode nat
  | ClosedFailureError AtomicGroundingReasonCode
  | VerificationFailureError AtomicFailureDisposition
  | GatewayError jstr
  | MessageError jstr
  | NoErrorValue

text \<open>What the agent is asked, and what it returns.\<close>

record GroundedDraftModelInput =
  mi_workflow_type :: workflow_type
  mi_workflow_job_id :: jstr
  mi_generation_attempt :: int
  mi_revision_attempt :: nat
  mi_authoring_context :: jsval
  mi_render_context :: "render_context_entry list"
  mi_evidence :: "(jstr \<times> jsval) list"
  mi_revision :: "draft_revision option"

record model_options =
  mo_workflow_job_id :: jstr
  mo_node :: jstr
  mo_attempt :: int
  mo_request_idempotency_key :: "jstr option"

record GroundedDraftGenerationResult =
  gr_proposal :: jsval
  gr_repair_attempts :: int
  gr_proposal_bytes :: int

text \<open>The collaborators; the prepared draft of the agent is opaque, of type \<open>'d\<close>.\<close>

record 'd coordinator_world =
  cw_load_assignment :: "jstr \<Rightarrow> (coordinator_thrown, GroundingAssignmentSnapshot option) result"
  cw_build_context :: "jstr \<Rightarrow> jstr \<Rightarrow> (coordinator_thrown, render_context_entry list) result"
  cw_generate :: "GroundedDraftModelInput \<Rightarrow> model_options \<Rightarrow> (coordinator_thrown, GroundedDraftGenerationResult) result"
  cw_prepare :: "GroundedDraftModelInput \<Rightarrow> model_options \<Rightarrow> (coordinator_thrown, 'd) result"
  cw_complete :: "'d \<Rightarrow> (coordinator_thrown, GroundedDraftGenerationResult) result"
  cw_persist :: "SealedGroundedCandidateV1 \<Rightarrow> (coordinator_thrown, unit) result"
  cw_render_milliseconds :: int

record 'd PreparedAtomicGroundingGeneration =
  pg_input :: AtomicGroundingGenerationInput
  pg_assignment :: GroundingAssignmentSnapshot
  pg_render_context :: "render_context_entry list"
  pg_draft :: 'd

type_synonym 'a coordinated = "(AtomicMetricPoint list, coordinator_thrown, 'a) tx"

text \<open>A call of the recorder: its points, or the \<open>TypeError\<close> it throws.\<close>

definition metrics :: "AtomicMetricPoint list metric_result \<Rightarrow> unit coordinated" where
  "metrics r = (case r of Inl _ \<Rightarrow> throwT (MessageError (js ''ATOMIC_METRIC_INVALID'')) | Inr ps \<Rightarrow> writeT (\<lambda>points. points @ ps))"

definition catchT :: "'a coordinated \<Rightarrow> (coordinator_thrown \<Rightarrow> 'a coordinated) \<Rightarrow> 'a coordinated" where
  "catchT body handler points = (case body points of (Inl e, points') \<Rightarrow> handler e points' | (Inr x, points') \<Rightarrow> (Inr x, points'))"

section \<open>Refusals\<close>

definition outcome :: "AtomicGroundingGenerationInput \<Rightarrow> AtomicGroundingReasonCode \<Rightarrow> AtomicVerificationResult option \<Rightarrow> AtomicGroundingOutcome coordinated" where
  "outcome input reason verification =
     (let disposition = dispositionForAtomicFailure reason (gi_revision_attempt input) in
      bindT (metrics (fail_closed_points (gi_workflow_type input) (internal_reason disposition))) (\<lambda>_.
      if failure_transition disposition = TO_FAILED
      then throwT (CoordinatorError (internal_reason disposition) (gi_revision_attempt input))
      else
      bindT (metrics (material_gap_points (internal_reason disposition))) (\<lambda>_.
      returnT (MaterialGap (internal_reason disposition)
        (case verification of None \<Rightarrow> [] | Some v \<Rightarrow> map vc_candidate_claim_key (vr_claims v))))))"

definition gateway_reason :: "jstr \<Rightarrow> AtomicGroundingReasonCode option" where
  "gateway_reason code = (if code = js ''STRUCTURED_OUTPUT_INVALID'' then Some SCHEMA_INVALID else None)"

definition message_reason :: "jstr \<Rightarrow> AtomicGroundingReasonCode option" where
  "message_reason message =
     (if message = js ''RENDER_CONTEXT_INVALID'' then Some RENDER_CONTEXT_INVALID
      else if message = js ''RENDER_FAILED'' then Some RENDER_FAILED
      else if message = js ''REVISION_INVARIANT_VIOLATION'' then Some REVISION_INVARIANT_VIOLATION
      else if message = js ''SEALED_CANDIDATE_INVALID'' then Some ENVELOPE_INVALID
      else None)"

text \<open>A gateway error with another code is an error with some other message.\<close>

fun knownReason :: "coordinator_thrown \<Rightarrow> AtomicGroundingReasonCode option" where
  "knownReason (ClosedFailureError reason) = Some reason"
| "knownReason (VerificationFailureError disposition) = Some (internal_reason disposition)"
| "knownReason (GatewayError code) = gateway_reason code"
| "knownReason (MessageError message) = message_reason message"
| "knownReason (CoordinatorError reason attempt) =
     message_reason (public_code_text (public_code (dispositionForAtomicFailure reason attempt)))"
| "knownReason NoErrorValue = None"

section \<open>The assignment\<close>

fun first_evidence_fault ::
    "jstr \<Rightarrow> jstr list \<Rightarrow> jstr list \<Rightarrow> AssignedEvidenceSnapshot list \<Rightarrow> AtomicGroundingReasonCode option" where
  "first_evidence_fault projectId runRefs seen [] = None"
| "first_evidence_fault projectId runRefs seen (e # es) =
     (if ev_project_id e \<noteq> projectId \<or> ev_retrieval_run_id e \<notin> set runRefs then Some EVIDENCE_OWNERSHIP_INVALID
      else if ev_evidence_id e \<in> set seen \<or> \<not> evidence_readable e then Some EVIDENCE_SNAPSHOT_DRIFT
      else first_evidence_fault projectId runRefs (ev_evidence_id e # seen) es)"

definition assignment_fault :: "AtomicGroundingGenerationInput \<Rightarrow> GroundingAssignmentSnapshot \<Rightarrow> AtomicGroundingReasonCode option" where
  "assignment_fault input a =
     (if as_contract_version a \<noteq> ATOMIC_GROUNDING_CONTRACT_VERSION \<or> \<not> as_strict_mode a then Some ASSIGNMENT_CONTRACT_MISMATCH
      else if as_workflow_job_id a \<noteq> gi_workflow_job_id input \<or> as_project_id a \<noteq> gi_project_id input
      then Some ASSIGNMENT_PROJECT_MISMATCH
      else if as_retrieval_state a = STATE_NO_HIT then Some NO_HIT
      else if as_retrieval_state a \<noteq> READY \<and> as_retrieval_state a \<noteq> DEGRADED then Some RETRIEVAL_STATE_INVALID
      else if as_targeted_revision_attempts a \<noteq> int (gi_revision_attempt input) \<or>
        (case as_snapshot_digest a of JStr d \<Rightarrow> \<not> is_sha256 d | _ \<Rightarrow> True)
      then Some ASSIGNMENT_SNAPSHOT_DRIFT
      else if as_evidence a = [] then Some NO_EVIDENCE
      else first_evidence_fault (gi_project_id input)
        (case as_retrieval_run_refs a of None \<Rightarrow> [as_retrieval_run_id a] | Some refs \<Rightarrow> refs) [] (as_evidence a))"

text \<open>An assignment or the reason why there is none to use.\<close>

definition loadAssignment ::
    "'d coordinator_world \<Rightarrow> AtomicGroundingGenerationInput \<Rightarrow>
     (coordinator_thrown, (AtomicGroundingReasonCode, GroundingAssignmentSnapshot) result) result" where
  "loadAssignment W input =
     bindE (cw_load_assignment W (gi_workflow_job_id input)) (\<lambda>found.
     case found of
       None \<Rightarrow> Inr (Inl ASSIGNMENT_MISSING)
     | Some a \<Rightarrow> (case assignment_fault input a of Some reason \<Rightarrow> Inr (Inl reason) | None \<Rightarrow> Inr (Inr a)))"

section \<open>Revisions\<close>

definition unsupported :: "AtomicVerificationResult \<Rightarrow> (jstr \<times> jstr \<times> AtomicGroundingReasonCode) list" where
  "unsupported verification =
     map (\<lambda>c. (vc_candidate_claim_key c, cc_source_claim_text_nfc (vc_base c),
            (case vc_reason_codes c of
               reason # _ \<Rightarrow> reason
             | [] \<Rightarrow> (case vr_material_gap_reason verification of Some reason \<Rightarrow> reason | None \<Rightarrow> INTERNAL_FAIL_CLOSED))))
       (filter (\<lambda>c. vc_support_status c \<noteq> SUPPORTED) (vr_claims verification))"

text \<open>
  The digests of the claims that are not targets, under their keys; a later claim replaces an
  earlier one with the same key.  The references are sorted by identifier: \<open>localeCompare\<close> is the
  parameter \<open>locale_order\<close>, which sorts a list of references.
\<close>

definition coordinator_invariant :: "platform \<Rightarrow> ((jstr \<times> jstr) list \<Rightarrow> (jstr \<times> jstr) list) \<Rightarrow> AtomicVerifiedClaimV1 \<Rightarrow> jstr sealing" where
  "coordinator_invariant P locale_order claim =
     digest_or_invalid P NON_TARGET_INVARIANT_VERSION (JObj
       [(js ''candidate_claim_key'', JStr (vc_candidate_claim_key claim)),
        (js ''canonical_claim_without_revision'', JObj (claim_base_entries (vc_base claim))),
        (js ''evidence_refs'', evidence_refs_value (locale_order (vc_evidence_refs claim))),
        (js ''fragment_ordinal'', num_value (cc_ordinal (vc_base claim))),
        (js ''presentation'', JStr (js (claim_presentation_text (cc_presentation (vc_base claim))))),
        (js ''previous_structure_id'', option_value (cc_previous_structure_id (vc_base claim))),
        (js ''next_structure_id'', option_value (cc_next_structure_id (vc_base claim)))])"

definition invariantDigests ::
    "platform \<Rightarrow> ((jstr \<times> jstr) list \<Rightarrow> (jstr \<times> jstr) list) \<Rightarrow> AtomicVerificationResult \<Rightarrow> jstr list \<Rightarrow> (jstr \<Rightarrow> jstr option) sealing" where
  "invariantDigests P locale_order verification excluded =
     bindE (mapE (\<lambda>c. bindE (coordinator_invariant P locale_order c) (\<lambda>d. Inr (vc_candidate_claim_key c, d)))
              (filter (\<lambda>c. vc_candidate_claim_key c \<notin> set excluded) (vr_claims verification))) (\<lambda>entries.
     Inr (map_of (rev entries)))"

text \<open>Two closed maps are the same when they have the same entries.\<close>

definition sameClosedMap :: "(jstr \<Rightarrow> jstr option) \<Rightarrow> (jstr \<times> jstr) list \<Rightarrow> bool" where
  "sameClosedMap left right \<longleftrightarrow> left = map_of right"

definition revision_input :: "AtomicGroundingGenerationInput \<Rightarrow> nat \<Rightarrow> GroundedDraftProposal \<Rightarrow> GroundingAssignmentSnapshot \<Rightarrow> AtomicVerificationInput" where
  "revision_input input attempt proposal a =
     \<lparr>vi_workflow_job_id = JStr (gi_workflow_job_id input), vi_project_id = JStr (gi_project_id input),
      vi_generation_attempt = JNum (NInt (gi_generation_attempt input)), vi_revision_attempt = attempt,
      vi_proposal = draft_value proposal, vi_assignment_digest = text_value (as_snapshot_digest a),
      vi_evidence = as_evidence a\<rparr>"

text \<open>Why a revision is refused, if it is; what the verifier or a digest throws passes through.\<close>

definition validateRevision ::
    "platform \<Rightarrow> ((jstr \<times> jstr) list \<Rightarrow> (jstr \<times> jstr) list) \<Rightarrow> AtomicGroundingGenerationInput \<Rightarrow> GroundingAssignmentSnapshot \<Rightarrow>
     AtomicVerificationResult \<Rightarrow> (coordinator_thrown, AtomicGroundingReasonCode option) result" where
  "validateRevision P locale_order input a next =
     (case gi_revision input of
        None \<Rightarrow> Inr (Some REVISION_INVARIANT_VIOLATION)
      | Some revision \<Rightarrow>
          if dr_allowed_candidate_claim_keys revision = [] then Inr (Some REVISION_INVARIANT_VIOLATION)
          else
            (case parse_draft P (dr_base_proposal revision) of
               Inl _ \<Rightarrow> Inr (Some REVISION_INVARIANT_VIOLATION)
             | Inr baseProposal \<Rightarrow>
                 (case verify P (revision_input input 0 baseProposal a) of
                    Inl disposition \<Rightarrow> Inl (VerificationFailureError disposition)
                  | Inr base \<Rightarrow>
                      if \<not> distinct (dr_allowed_candidate_claim_keys revision) then Inr (Some REVISION_INVARIANT_VIOLATION)
                      else
                        (case invariantDigests P locale_order base (dr_allowed_candidate_claim_keys revision) of
                           Inl _ \<Rightarrow> Inl (MessageError (js ''Canonical JSON''))
                         | Inr expected \<Rightarrow>
                             if \<not> sameClosedMap expected (dr_non_target_invariant_digests revision)
                             then Inr (Some REVISION_INVARIANT_VIOLATION)
                             else
                               (case digestCanonicalV1 P GROUNDED_DRAFT_SCHEMA_VERSION (draft_value (vr_canonical_proposal base)) of
                                  Inl _ \<Rightarrow> Inr (Some REVISION_INVARIANT_VIOLATION)
                                | Inr proposalDigest \<Rightarrow>
                                    (case validateTargetedRevisionV1 P
                                        \<lparr>rb_verification = base,
                                         rb_allowed_candidate_claim_keys = dr_allowed_candidate_claim_keys revision,
                                         rb_proposal_digest = proposalDigest\<rparr> next of
                                       Inl _ \<Rightarrow> Inr (Some REVISION_INVARIANT_VIOLATION)
                                     | Inr _ \<Rightarrow> Inr None))))))"

definition verificationOutcome ::
    "platform \<Rightarrow> ((jstr \<times> jstr) list \<Rightarrow> (jstr \<times> jstr) list) \<Rightarrow> AtomicGroundingGenerationInput \<Rightarrow> AtomicVerificationResult \<Rightarrow>
     GroundingAssignmentSnapshot \<Rightarrow> AtomicGroundingOutcome coordinated" where
  "verificationOutcome P locale_order input verification a =
     (let reason = (case vr_material_gap_reason verification of Some r \<Rightarrow> r | None \<Rightarrow> INTERNAL_FAIL_CLOSED);
          claims = unsupported verification
      in if vr_decision verification = TARGETED_RETRIEVAL_REVISION \<and> gi_revision_attempt input = 0 \<and> claims \<noteq> []
         then
           bindT (metrics (fail_closed_points (gi_workflow_type input) reason)) (\<lambda>_.
           bindT (metrics (revision_points REVISION_REQUIRED_OUTCOME)) (\<lambda>_.
           case invariantDigests P locale_order verification (map fst claims) of
             Inl _ \<Rightarrow> throwT (MessageError (js ''Canonical JSON''))
           | Inr digests \<Rightarrow>
               returnT (RevisionRequired (vr_canonical_proposal verification) claims digests (as_retrieval_run_id a))))
         else if gi_revision_attempt input = 1 then
           bindT (metrics (revision_points REVISION_EXHAUSTED_OUTCOME)) (\<lambda>_. outcome input REVISION_EXHAUSTED (Some verification))
         else outcome input reason (Some verification))"

section \<open>Generation\<close>

definition buildModelInput ::
    "AtomicGroundingGenerationInput \<Rightarrow> GroundingAssignmentSnapshot \<Rightarrow> render_context_entry list \<Rightarrow> GroundedDraftModelInput" where
  "buildModelInput input a context =
     \<lparr>mi_workflow_type = gi_workflow_type input, mi_workflow_job_id = gi_workflow_job_id input,
      mi_generation_attempt = gi_generation_attempt input, mi_revision_attempt = gi_revision_attempt input,
      mi_authoring_context = gi_authoring_context input, mi_render_context = context,
      mi_evidence = map (\<lambda>e. (ev_evidence_id e, ev_exact_span_text e)) (as_evidence a), mi_revision = gi_revision input\<rparr>"

definition buildModelOptions :: "AtomicGroundingGenerationInput \<Rightarrow> model_options" where
  "buildModelOptions input =
     \<lparr>mo_workflow_job_id = gi_workflow_job_id input,
      mo_node = (if gi_revision_attempt input = 1 then js ''atomic_grounded_revision'' else js ''atomic_grounded_draft''),
      mo_attempt = gi_generation_attempt input,
      mo_request_idempotency_key =
        (case gi_request_idempotency_key input of Some k \<Rightarrow> if k = [] then None else Some k | None \<Rightarrow> None)\<rparr>"

fun claim_metrics :: "workflow_type \<Rightarrow> AtomicVerifiedClaimV1 list \<Rightarrow> unit coordinated" where
  "claim_metrics w [] = returnT ()"
| "claim_metrics w (c # cs) =
     bindT (metrics (claim_points w (vc_verification_method c) (vc_support_status c))) (\<lambda>_. claim_metrics w cs)"

text \<open>
  What \<open>persist_sealed_candidate\<close> throws leaves the method as it is, through all handlers: the body
  ends with that error apart from the errors that are handled.
\<close>

datatype generation_end = Finished AtomicGroundingOutcome | PersistenceFailed coordinator_thrown

definition seal_step ::
    "platform \<Rightarrow> 'd coordinator_world \<Rightarrow> AtomicGroundingGenerationInput \<Rightarrow> GroundingAssignmentSnapshot \<Rightarrow> render_context_entry list \<Rightarrow>
     AtomicVerificationResult \<Rightarrow> generation_end coordinated" where
  "seal_step P W input a context verification =
     (case renderAtomicDraftV1 P verification context of
        Inl _ \<Rightarrow> bindT (outcome input RENDER_FAILED (Some verification)) (\<lambda>r. returnT (Finished r))
      | Inr _ \<Rightarrow>
          bindT (metrics (render_latency_points (gi_workflow_type input) (max 0 (cw_render_milliseconds W)))) (\<lambda>_.
          case sealGroundedCandidateV1 P
              \<lparr>si_workflow = \<lparr>sw_workflow_job_id = gi_workflow_job_id input, sw_project_id = gi_project_id input,
                 sw_workflow_type = gi_workflow_type input, sw_generation_attempt = gi_generation_attempt input,
                 sw_revision_attempt = gi_revision_attempt input\<rparr>,
               si_verification = verification, si_assignment = a, si_render_context = context\<rparr> of
            Inl _ \<Rightarrow> bindT (outcome input ENVELOPE_INVALID (Some verification)) (\<lambda>r. returnT (Finished r))
          | Inr candidate \<Rightarrow>
              if gi_revision_attempt input = 1 then
                bindT (metrics (revision_points REVISION_SEALED)) (\<lambda>_.
                case (if gi_persists input then cw_persist W candidate else Inr ()) of
                  Inl e \<Rightarrow> returnT (PersistenceFailed e)
                | Inr _ \<Rightarrow> returnT (Finished (Sealed candidate)))
              else returnT (Finished (Sealed candidate))))"

definition generate_from ::
    "platform \<Rightarrow> ((jstr \<times> jstr) list \<Rightarrow> (jstr \<times> jstr) list) \<Rightarrow> 'd coordinator_world \<Rightarrow> AtomicGroundingGenerationInput \<Rightarrow>
     GroundingAssignmentSnapshot \<Rightarrow> render_context_entry list \<Rightarrow> GroundedDraftGenerationResult \<Rightarrow> generation_end coordinated" where
  "generate_from P locale_order W input a context generated =
     (case parse_draft P (gr_proposal generated) of
        Inl _ \<Rightarrow> bindT (outcome input SCHEMA_INVALID None) (\<lambda>r. returnT (Finished r))
      | Inr proposal \<Rightarrow>
          bindT (metrics (proposal_points (gi_workflow_type input) (gd_status proposal) (gr_proposal_bytes generated)
            (int (length (gd_claims proposal))) (gr_repair_attempts generated))) (\<lambda>_.
          case verify P (revision_input input (gi_revision_attempt input) proposal a) of
            Inl disposition \<Rightarrow> throwT (VerificationFailureError disposition)
          | Inr verification \<Rightarrow>
              bindT (claim_metrics (gi_workflow_type input) (vr_claims verification)) (\<lambda>_.
              if vr_decision verification \<noteq> ALLOW
              then bindT (verificationOutcome P locale_order input verification a) (\<lambda>r. returnT (Finished r))
              else if gi_revision_attempt input = 1 then
                bindT (liftE (validateRevision P locale_order input a verification)) (\<lambda>refusal.
                case refusal of
                  Some reason \<Rightarrow> bindT (outcome input reason (Some verification)) (\<lambda>r. returnT (Finished r))
                | None \<Rightarrow> seal_step P W input a context verification)
              else if gi_revision input \<noteq> None
              then bindT (outcome input REVISION_INVARIANT_VIOLATION (Some verification)) (\<lambda>r. returnT (Finished r))
              else seal_step P W input a context verification)))"

definition generate_body ::
    "platform \<Rightarrow> ((jstr \<times> jstr) list \<Rightarrow> (jstr \<times> jstr) list) \<Rightarrow> 'd coordinator_world \<Rightarrow> AtomicGroundingGenerationInput \<Rightarrow>
     'd PreparedAtomicGroundingGeneration option \<Rightarrow> generation_end coordinated" where
  "generate_body P locale_order W input prepared =
     bindT (liftE (case prepared of Some p \<Rightarrow> Inr (Inr (pg_assignment p)) | None \<Rightarrow> loadAssignment W input)) (\<lambda>assignment.
     case assignment of
       Inl reason \<Rightarrow> bindT (outcome input reason None) (\<lambda>r. returnT (Finished r))
     | Inr a \<Rightarrow>
         bindT (liftE (case prepared of
             Some p \<Rightarrow> Inr (pg_render_context p)
           | None \<Rightarrow> cw_build_context W (gi_workflow_job_id input) (gi_project_id input))) (\<lambda>context.
         bindT (liftE (case prepared of
             Some p \<Rightarrow> cw_complete W (pg_draft p)
           | None \<Rightarrow> cw_generate W (buildModelInput input a context) (buildModelOptions input))) (\<lambda>generated.
         generate_from P locale_order W input a context generated)))"

definition fail_closed :: "AtomicGroundingGenerationInput \<Rightarrow> nat \<Rightarrow> 'a coordinated" where
  "fail_closed input attempt =
     bindT (metrics (fail_closed_points (gi_workflow_type input) (internal_reason failClosedUnknownAtomicError))) (\<lambda>_.
     throwT (CoordinatorError (internal_reason failClosedUnknownAtomicError) attempt))"

definition generate ::
    "platform \<Rightarrow> ((jstr \<times> jstr) list \<Rightarrow> (jstr \<times> jstr) list) \<Rightarrow> 'd coordinator_world \<Rightarrow> AtomicGroundingGenerationInput \<Rightarrow>
     'd PreparedAtomicGroundingGeneration option \<Rightarrow> AtomicGroundingOutcome coordinated" where
  "generate P locale_order W input prepared =
     bindT (catchT (generate_body P locale_order W input prepared) (\<lambda>e.
       case e of
         CoordinatorError _ _ \<Rightarrow> throwT e
       | _ \<Rightarrow>
           (case knownReason e of
              Some reason \<Rightarrow> bindT (outcome input reason None) (\<lambda>r. returnT (Finished r))
            | None \<Rightarrow> fail_closed input (gi_revision_attempt input)))) (\<lambda>finish.
     case finish of Finished r \<Rightarrow> returnT r | PersistenceFailed e \<Rightarrow> throwT e)"

section \<open>Preparing a revision, recovery\<close>

definition prepareRevisionModel ::
    "'d coordinator_world \<Rightarrow> AtomicGroundingGenerationInput \<Rightarrow> 'd PreparedAtomicGroundingGeneration coordinated" where
  "prepareRevisionModel W input =
     (if gi_revision_attempt input \<noteq> 1 \<or> gi_revision input = None then throwT (CoordinatorError REVISION_INVARIANT_VIOLATION 1)
      else
      catchT
        (bindT (liftE (loadAssignment W input)) (\<lambda>assignment.
         case assignment of
           Inl reason \<Rightarrow> throwT (CoordinatorError reason 1)
         | Inr a \<Rightarrow>
             bindT (liftE (cw_build_context W (gi_workflow_job_id input) (gi_project_id input))) (\<lambda>context.
             bindT (liftE (cw_prepare W (buildModelInput input a context) (buildModelOptions input))) (\<lambda>draft.
             returnT \<lparr>pg_input = input, pg_assignment = a, pg_render_context = context, pg_draft = draft\<rparr>))))
        (\<lambda>e. case e of
               CoordinatorError _ _ \<Rightarrow> throwT e
             | _ \<Rightarrow> (case knownReason e of
                       Some reason \<Rightarrow> throwT (CoordinatorError reason 1)
                     | None \<Rightarrow> fail_closed input 1)))"

definition executePreparedRevision ::
    "platform \<Rightarrow> ((jstr \<times> jstr) list \<Rightarrow> (jstr \<times> jstr) list) \<Rightarrow> 'd coordinator_world \<Rightarrow>
     'd PreparedAtomicGroundingGeneration \<Rightarrow> AtomicGroundingOutcome coordinated" where
  "executePreparedRevision P locale_order W prepared = generate P locale_order W (pg_input prepared) (Some prepared)"

record AtomicGroundingRecoveryInput =
  ri_workflow_job_id :: jstr
  ri_project_id :: jstr
  ri_checkpoint :: jsval

definition recovery_generation_input :: "AtomicGroundingRecoveryInput \<Rightarrow> workflow_type \<Rightarrow> int \<Rightarrow> nat \<Rightarrow> AtomicGroundingGenerationInput" where
  "recovery_generation_input input w generationAttempt revisionAttempt =
     \<lparr>gi_workflow_job_id = ri_workflow_job_id input, gi_project_id = ri_project_id input, gi_workflow_type = w,
      gi_generation_attempt = generationAttempt, gi_revision_attempt = revisionAttempt, gi_authoring_context = JObj [],
      gi_revision = None, gi_persists = False, gi_request_idempotency_key = None\<rparr>"

definition recover :: "platform \<Rightarrow> 'd coordinator_world \<Rightarrow> AtomicGroundingRecoveryInput \<Rightarrow> AtomicGroundingOutcome coordinated" where
  "recover P W input =
     (case parseSealedGroundedCandidateWorkflowV1 P (ri_checkpoint input) of
        Inl (ClosedRecoveryFailure reason) \<Rightarrow> outcome (recovery_generation_input input CONTENT_WORKFLOW 0 0) reason None
      | Inl OtherRecoveryError \<Rightarrow> outcome (recovery_generation_input input CONTENT_WORKFLOW 0 0) ENVELOPE_INVALID None
      | Inr w \<Rightarrow>
          let generation = recovery_generation_input input (sw_workflow_type w) (sw_generation_attempt w) (sw_revision_attempt w) in
          if sw_workflow_job_id w \<noteq> ri_workflow_job_id input \<or> sw_project_id w \<noteq> ri_project_id input
          then outcome generation ENVELOPE_INVALID None
          else
            (case loadAssignment W generation of
               Inl _ \<Rightarrow> outcome generation RECOVERY_ASSIGNMENT_DRIFT None
             | Inr (Inl _) \<Rightarrow> outcome generation RECOVERY_ASSIGNMENT_DRIFT None
             | Inr (Inr a) \<Rightarrow>
                 (case cw_build_context W (ri_workflow_job_id input) (ri_project_id input) of
                    Inl _ \<Rightarrow> outcome generation RECOVERY_RENDER_CONTEXT_DRIFT None
                  | Inr context \<Rightarrow>
                      (case recoverSealedGroundedCandidateV1 P (ri_checkpoint input) a (context_value context) of
                         Inl reason \<Rightarrow> outcome generation reason None
                       | Inr candidate \<Rightarrow> returnT (Sealed candidate)))))"

end
