(* ===== verification/QuantityLexerProps.thy ===== *)
theory QuantityLexerProps
  imports AtomRecompute FixedDecimalProps
begin

text \<open>
  What the lexer returns: quantities that stand in the text in order without overlap, whose
  fields are determined by the tuple they are compared by; and its values on two texts.
\<close>

section \<open>The loop\<close>

lemma lex_loop_end: "length t \<le> i \<Longrightarrow> lex_loop t i = Inr []"
  by (subst lex_loop.simps) simp

lemma lex_loop_skip: "lex_step t i = Inr (None, j) \<Longrightarrow> i < length t \<Longrightarrow> lex_loop t i = lex_loop t j"
  by (subst lex_loop.simps) (cases "lex_loop t j"; simp)

lemma lex_loop_take:
  "lex_step t i = Inr (Some q, j) \<Longrightarrow> i < length t \<Longrightarrow> lex_loop t i = bindE (lex_loop t j) (\<lambda>qs. Inr (q # qs))"
  by (subst lex_loop.simps) simp

section \<open>Positions\<close>

definition quantities_ordered :: "jstr \<Rightarrow> nat \<Rightarrow> 'a CanonicalQuantityV1_scheme list \<Rightarrow> bool" where
  "quantities_ordered t i qs \<longleftrightarrow>
     (\<forall>q \<in> set qs. i \<le> cq_start q \<and> cq_start q < cq_end q \<and> cq_end q \<le> length t \<and>
        slice t (cq_start q) (cq_end q) = cq_surface_nfc q) \<and>
     sorted_wrt (\<lambda>p q. cq_end p \<le> cq_start q) qs"

lemma lex_loop_ordered: "lex_loop t i = Inr qs \<Longrightarrow> quantities_ordered t i qs"
proof (induction t i arbitrary: qs rule: lex_loop.induct)
  case (1 t i)
  show ?case
  proof (cases "i < length t")
    case False
    with 1(2) have "qs = []" by (subst (asm) lex_loop.simps) simp
    then show ?thesis by (simp add: quantities_ordered_def)
  next
    case True
    with 1(2) obtain q j rest where step: "lex_step t i = Inr (q, j)" and tail: "lex_loop t j = Inr rest"
      and qs: "qs = (case q of None \<Rightarrow> rest | Some x \<Rightarrow> x # rest)"
      by (subst (asm) lex_loop.simps) (auto simp: bindE_Inr_iff)
    have "quantities_ordered t j rest" by (rule 1(1) [OF True step refl tail])
    with lex_step_advances [OF step True] show ?thesis
      by (auto simp: qs quantities_ordered_def quantity_at_def split: option.splits)
  qed
qed

lemma internalLex_Inr:
  assumes "internalLexQuantities P t = Inr qs"
  obtains raw where "lex_loop (nfc P t) 0 = Inr raw" and "qs = map (\<lambda>(n, q). q\<lparr>cq_ordinal := n\<rparr>) (enumerate 0 raw)"
  using assms by (auto simp: internalLexQuantities_def Let_def)

lemma enumerate_split: "map snd (enumerate n xs) = xs" "map fst (enumerate n xs) = [n..<n + length xs]"
  by (simp_all add: enumerate_eq_zip)

lemma ordinals: "map cq_ordinal (map (\<lambda>(n, q). q\<lparr>cq_ordinal := n\<rparr>) (enumerate 0 raw)) = [0..<length raw]"
  using enumerate_split(2) [of 0 raw] by (simp add: comp_def case_prod_unfold)

lemma numbered_ball:
  assumes "\<And>q n. p (q\<lparr>cq_ordinal := n\<rparr>) \<longleftrightarrow> p q"
  shows "(\<forall>q \<in> set (map (\<lambda>(n, q). q\<lparr>cq_ordinal := n\<rparr>) (enumerate m raw)). p q) \<longleftrightarrow> (\<forall>q \<in> set raw. p q)"
  by (induction raw arbitrary: m) (simp_all add: assms)

lemma numbered_increasing:
  "sorted_wrt (\<lambda>p q. cq_end p \<le> cq_start q) (map (\<lambda>(n, q). q\<lparr>cq_ordinal := n\<rparr>) (enumerate m raw)) \<longleftrightarrow>
     sorted_wrt (\<lambda>p q. cq_end p \<le> cq_start q) raw"
proof (induction raw arbitrary: m)
  case (Cons q raw)
  have "(\<forall>r \<in> set (map (\<lambda>(n, q). q\<lparr>cq_ordinal := n\<rparr>) (enumerate (Suc m) raw)). cq_end q \<le> cq_start r) \<longleftrightarrow>
      (\<forall>r \<in> set raw. cq_end q \<le> cq_start r)"
    by (rule numbered_ball) simp
  with Cons show ?case by simp
qed simp

lemma ordered_ordinal:
  "quantities_ordered t i (map (\<lambda>(n, q). q\<lparr>cq_ordinal := n\<rparr>) (enumerate m raw)) = quantities_ordered t i raw"
  unfolding quantities_ordered_def numbered_increasing
  by (subst numbered_ball) simp_all

lemma internalLex_ordered:
  assumes "internalLexQuantities P t = Inr qs"
  shows "quantities_ordered (nfc P t) 0 qs" and "map cq_ordinal qs = [0..<length qs]"
  using assms lex_loop_ordered ordinals by (auto elim!: internalLex_Inr simp: ordered_ordinal)

text \<open>
  C32: the quantities of a text stand in it: each is a non-empty slice of the normalized text and
  its surface is that slice, they follow one another without overlap, and their ordinals count
  them from 0.
\<close>

theorem lexed_quantities_ordered:
  assumes "lexQuantitiesV1 P t = Inr qs"
  shows "map cq_ordinal qs = [0..<length qs] \<and> sorted_wrt (\<lambda>p q. cq_end p \<le> cq_start q) qs \<and>
    (\<forall>q \<in> set qs. cq_start q < cq_end q \<and> cq_end q \<le> length (nfc P t) \<and>
       slice (nfc P t) (cq_start q) (cq_end q) = cq_surface_nfc q)"
proof -
  from assms obtain raw where raw: "internalLexQuantities P t = Inr raw" and qs: "qs = map toPublicQuantity raw"
    by (auto simp: lexQuantitiesV1_def)
  from internalLex_ordered [OF raw] show ?thesis
    by (auto simp: qs quantities_ordered_def toPublicQuantity_def CanonicalQuantityV1.truncate_def sorted_wrt_map comp_def)
qed

text \<open>The loop with a bound on its iterations; \<open>None\<close> when it did not end within them.\<close>

fun lex_bounded :: "nat \<Rightarrow> jstr \<Rightarrow> nat \<Rightarrow> InternalQuantity list lexed option" where
  "lex_bounded 0 t i = (if i < length t then None else Some (Inr []))"
| "lex_bounded (Suc n) t i =
     (if i < length t then
        case lex_step t i of
          Inl e \<Rightarrow> Some (Inl e)
        | Inr (q, j) \<Rightarrow>
            map_option (\<lambda>r. bindE r (\<lambda>qs. Inr (case q of None \<Rightarrow> qs | Some x \<Rightarrow> x # qs))) (lex_bounded n t j)
      else Some (Inr []))"

lemma lex_bounded_enough: "length t - i \<le> n \<Longrightarrow> lex_bounded n t i = Some (lex_loop t i)"
proof (induction n arbitrary: i)
  case 0
  then show ?case by (subst lex_loop.simps) simp
next
  case (Suc n)
  show ?case
  proof (cases "i < length t")
    case False
    then show ?thesis by (subst lex_loop.simps) simp
  next
    case True
    show ?thesis
    proof (cases "lex_step t i")
      case (Inl e)
      with True show ?thesis by (subst lex_loop.simps) simp
    next
      case (Inr p)
      then obtain q j where step: "lex_step t i = Inr (q, j)" by (cases p) simp
      from lex_step_advances [OF step True] Suc.prems have "length t - j \<le> n" by linarith
      then have "lex_bounded n t j = Some (lex_loop t j)" by (rule Suc.IH)
      with True step show ?thesis by (subst lex_loop.simps) simp
    qed
  qed
qed

text \<open>
  C33: the lexer ends on every text: each iteration moves on, so a text of \<open>n\<close> code units takes at most
  \<open>n\<close> iterations, whatever it contains, and the bounded loop returns what the lexer does.
\<close>

theorem lexer_terminates: "lex_bounded (length t) t 0 = Some (lex_loop t 0)"
  by (rule lex_bounded_enough) simp

section \<open>Fields\<close>

text \<open>
  The fields that enter the tuple of a quantity are ASCII texts, free of its separator and never
  empty, a range has an end, and what may be compared by value is neither approximate nor a range.
\<close>

definition plain_text :: "jstr \<Rightarrow> bool" where
  "plain_text s \<longleftrightarrow> s \<noteq> [] \<and> (\<forall>c \<in> set s. 0 < c \<and> c < 128)"

definition plain_fields :: "'a CanonicalQuantityV1_scheme \<Rightarrow> bool" where
  "plain_fields q \<longleftrightarrow>
     plain_text (cq_base_value q) \<and> pred_option plain_text (cq_base_unit q) \<and>
     pred_option plain_text (cq_range_end_base_value q) \<and>
     (cq_comparator q = CMP_RANGE \<longleftrightarrow> cq_range_end_base_value q \<noteq> None) \<and>
     (cq_typed_equivalence_eligible q \<longrightarrow> cq_comparator q \<noteq> CMP_APPROX \<and> cq_comparator q \<noteq> CMP_RANGE)"

lemma fixedToString_plain [simp]: "plain_text (fixedToString v)"
  using fixedToString_chars fixedToString_nonempty by (fastforce simp: plain_text_def is_digit_def)

lemma unitFor_plain: "pred_option plain_text (ud_base_unit (unitFor raw context))"
proof -
  have "list_all (\<lambda>d. pred_option plain_text (ud_base_unit (snd d))) unitDefinitions"
    by (simp add: unitDefinitions_def unit_def_def shiftedUnit_def js_def plain_text_def)
  then show ?thesis
    by (auto simp: unitFor_def unit_def_def list_all_iff plain_text_def js_def split: option.splits dest!: map_of_SomeD)
qed

lemma classifyComparator_not_range: "classifyComparator p s = Inr c \<Longrightarrow> c \<noteq> CMP_RANGE"
  by (auto simp: classifyComparator_def Let_def prefixComparator_def suffixComparator_def
      split: option.splits if_splits dest!: map_of_SomeD)

lemma quantityFromMatch_plain: "quantityFromMatch m = Inr q \<Longrightarrow> plain_fields q"
  using unitFor_plain
  by (auto simp: quantityFromMatch_def Let_def plain_fields_def multiply_def option.pred_map
      split: option.splits dest: classifyComparator_not_range)

lemma percent_plain: "percent_quantity i surface cs = Inr q \<Longrightarrow> plain_fields q"
  by (auto simp: percent_quantity_def plain_fields_def split: option.splits dest: classifyComparator_not_range)

lemma ordinary_plain: "ordinary_quantity t i surface cs = Inr q \<Longrightarrow> plain_fields q"
proof -
  assume "ordinary_quantity t i surface cs = Inr q"
  then obtain m p where p: "quantityFromMatch m = Inr p"
    and "q = p \<or> q = p\<lparr>cq_dimension := DIM_RATIO, cq_base_unit := None,
      cq_typed_equivalence_eligible := (cq_comparator p \<noteq> CMP_APPROX \<and> cq_comparator p \<noteq> CMP_RANGE)\<rparr>"
    by (auto simp: ordinary_quantity_def Let_def split: if_splits)
  with quantityFromMatch_plain [OF p] show ?thesis by (auto simp: plain_fields_def)
qed

lemma lex_step_plain: "lex_step t i = Inr (Some q, j) \<Longrightarrow> plain_fields q"
  by (auto simp: lex_step_def Let_def found_def range_quantity_def currency_quantity_def
      split: option.splits prod.splits dest: quantityFromMatch_plain percent_plain ordinary_plain)

lemma lex_loop_plain: "lex_loop t i = Inr qs \<Longrightarrow> list_all plain_fields qs"
proof (induction t i arbitrary: qs rule: lex_loop.induct)
  case (1 t i)
  show ?case
  proof (cases "i < length t")
    case False
    with 1(2) show ?thesis by (subst (asm) lex_loop.simps) simp
  next
    case True
    with 1(2) obtain q j rest where step: "lex_step t i = Inr (q, j)" and tail: "lex_loop t j = Inr rest"
      and qs: "qs = (case q of None \<Rightarrow> rest | Some x \<Rightarrow> x # rest)"
      by (subst (asm) lex_loop.simps) (auto simp: bindE_Inr_iff)
    have "list_all plain_fields rest" by (rule 1(1) [OF True step refl tail])
    with step lex_step_plain show ?thesis by (auto simp: qs split: option.splits)
  qed
qed

lemma internalLex_plain: "internalLexQuantities P t = Inr qs \<Longrightarrow> list_all plain_fields qs"
  using lex_loop_plain
  by (fastforce elim!: internalLex_Inr simp: list_all_iff in_set_enumerate_eq plain_fields_def)

lemma toPublicQuantity_fields [simp]:
  "cq_start (toPublicQuantity q) = cq_start q" "cq_end (toPublicQuantity q) = cq_end q"
  "cq_ordinal (toPublicQuantity q) = cq_ordinal q" "cq_surface_nfc (toPublicQuantity q) = cq_surface_nfc q"
  "cq_typed_equivalence_eligible (toPublicQuantity q) = cq_typed_equivalence_eligible q"
  "plain_fields (toPublicQuantity q) = plain_fields q"
  by (simp_all add: toPublicQuantity_def CanonicalQuantityV1.truncate_def plain_fields_def)

section \<open>Evaluation\<close>

lemmas rx_evaluation =
  rx_exec_def rangePattern_def percentChinesePattern_def prefixedCurrencyPattern_def ordinaryPattern_def
  NUMBER_def ARABIC_NUMBER_def CHINESE_NUMBER_def integer_rx_def fraction_rx_def digit_rx_def nonzero_digit_rx_def
  rx_plus_def is_digit_def white_rx_def scale_rx_def UNITS_def SUFFIXES_def PREFIXES_def PREFIX_def equals_rx_def
  js_white_def ZH_NEGATIVE_def ZH_TEN_THOUSAND_def ZH_HUNDRED_MILLION_def ZH_POINT_def case_fold_def js_def group_def


lemmas lexer_evaluation =
  lex_step_def rx_evaluation found_def ordinary_quantity_def quantityFromMatch_def unitFor_def unitDefinitions_def
  ratioContext_def slice_def parseNumber_def parseArabicFixed_def GROUPED_DECIMAL_def DECIMAL_def
  matched_def classifyComparator_def multiply_def unit_def_def shiftedUnit_def scale_multiplier_def
  fixedToString_def normalizeFixed_def digits_int_def dec_nat.simps

definition demo_quantity :: "jstr \<Rightarrow> jstr \<Rightarrow> jstr \<Rightarrow> InternalQuantity" where
  "demo_quantity surface number u =
     \<lparr>cq_ordinal = 0, cq_surface_nfc = surface, cq_start = 2, cq_end = 2 + length surface, cq_dimension = DIM_POWER,
      cq_base_value = js ''5000'', cq_base_unit = Some (js ''W''), cq_comparator = CMP_EQ,
      cq_range_end_base_value = None, cq_typed_equivalence_eligible = True, iq_lexical_value = number,
      iq_lexical_unit = Some u, iq_lexical_range_end = None\<rparr>"

lemma demo_steps:
  "lex_step (js ''A=5kW'') 0 = Inr (None, 1)" "lex_step (js ''A=5kW'') 1 = Inr (None, 2)"
  "lex_step (js ''A=5kW'') 2 = Inr (Some (demo_quantity (js ''5kW'') (js ''5'') (js ''kW'')), 5)"
  "lex_step (js ''A=5000W'') 0 = Inr (None, 1)" "lex_step (js ''A=5000W'') 1 = Inr (None, 2)"
  "lex_step (js ''A=5000W'') 2 = Inr (Some (demo_quantity (js ''5000W'') (js ''5000'') (js ''W'')), 7)"
  by (simp_all add: lexer_evaluation demo_quantity_def)

lemma demo_guards:
  "malformedQuantityGuard (js ''A=5kW'') = Inr ()" "malformedQuantityGuard (js ''A=5000W'') = Inr ()"
  by (simp_all add: malformedQuantityGuard_def exponent_rx_def two_points_rx_def two_prefixes_rx_def rx_evaluation)

lemma demo_lexed:
  "internalLexQuantities plain_platform (js ''A=5kW'') = Inr [demo_quantity (js ''5kW'') (js ''5'') (js ''kW'')]"
  "internalLexQuantities plain_platform (js ''A=5000W'') = Inr [demo_quantity (js ''5000W'') (js ''5000'') (js ''W'')]"
  by (simp_all add: internalLexQuantities_def demo_guards demo_quantity_def lex_loop_end
      lex_loop_skip [OF demo_steps(1)] lex_loop_skip [OF demo_steps(2), simplified] lex_loop_take [OF demo_steps(3)]
      lex_loop_skip [OF demo_steps(4)] lex_loop_skip [OF demo_steps(5), simplified] lex_loop_take [OF demo_steps(6)])

theorem lexed_quantities_ordered_witness:
  "\<exists>qs. lexQuantitiesV1 plain_platform (js ''A=5kW'') = Inr qs \<and> map cq_ordinal qs = [0] \<and> cq_end (hd qs) \<le> 5"
proof -
  obtain qs where qs: "lexQuantitiesV1 plain_platform (js ''A=5kW'') = Inr qs" "length qs = 1"
    by (simp add: lexQuantitiesV1_def demo_lexed)
  from lexed_quantities_ordered [OF qs(1)] qs show ?thesis by (cases qs) auto
qed

end
