(* ===== verification/AtomicVerifierProps.thy ===== *)
theory AtomicVerifierProps
  imports AtomicVerifier QuantityLexerProps GroundedDraftRoundtrip
begin

text \<open>
  What an allowed verification shows: every claim of the draft is supported by each piece of
  evidence it cites, as the same text or as the same statement with the same quantities.
\<close>

section \<open>Quantities compared by their tuples\<close>

definition same_quantity :: "CanonicalQuantityV1 \<Rightarrow> CanonicalQuantityV1 \<Rightarrow> bool" where
  "same_quantity p q \<longleftrightarrow>
     cq_dimension p = cq_dimension q \<and> cq_base_value p = cq_base_value q \<and> cq_base_unit p = cq_base_unit q \<and>
     cq_comparator p = cq_comparator q \<and> cq_range_end_base_value p = cq_range_end_base_value q"

lemma split_at_nul:
  "a @ 0 # x = b @ 0 # y \<Longrightarrow> 0 \<notin> set a \<Longrightarrow> 0 \<notin> set b \<Longrightarrow> a = b \<and> x = y" for a b x y :: jstr
proof (induction a arbitrary: b)
  case Nil
  then show ?case by (cases b) auto
next
  case (Cons c a)
  then show ?case by (cases b) auto
qed

lemma texts_plain: "0 \<notin> set (js (dimension_text d))" "0 \<notin> set (js (comparator_text c))"
  by (cases d; simp add: js_def) (cases c; simp add: js_def)

lemma dimension_text_inject: "dimension_text a = dimension_text b \<longleftrightarrow> a = b"
  by (cases a; cases b) simp_all

lemma comparator_text_inject: "comparator_text a = comparator_text b \<longleftrightarrow> a = b"
  by (cases a; cases b) simp_all

lemma text_or_empty_inject:
  "pred_option (\<lambda>u. u \<noteq> []) x \<Longrightarrow> pred_option (\<lambda>u. u \<noteq> []) y \<Longrightarrow> text_or_empty x = text_or_empty y \<Longrightarrow> x = y"
  by (auto simp: text_or_empty_def split: option.splits)

lemma quantityTuple_same:
  assumes "quantityTuple p = quantityTuple q" and "plain_fields p" and "plain_fields q"
  shows "same_quantity p q"
proof -
  have unit: "0 \<notin> set (text_or_empty (cq_base_unit r))" "pred_option (\<lambda>u. u \<noteq> []) (cq_base_unit r)"
      "pred_option (\<lambda>u. u \<noteq> []) (cq_range_end_base_value r)" "0 \<notin> set (cq_base_value r)"
    if "plain_fields r" for r :: CanonicalQuantityV1
    using that by (cases "cq_base_unit r"; cases "cq_range_end_base_value r"; auto simp: plain_fields_def plain_text_def text_or_empty_def)+
  note p = unit [OF assms(2)] and q = unit [OF assms(3)]
  from assms(1) have 1: "js (dimension_text (cq_dimension p)) @ 0 # cq_base_value p @ 0 # text_or_empty (cq_base_unit p) @
      0 # js (comparator_text (cq_comparator p)) @ 0 # text_or_empty (cq_range_end_base_value p) =
    js (dimension_text (cq_dimension q)) @ 0 # cq_base_value q @ 0 # text_or_empty (cq_base_unit q) @
      0 # js (comparator_text (cq_comparator q)) @ 0 # text_or_empty (cq_range_end_base_value q)"
    by (simp only: quantityTuple_def)
  note 2 = split_at_nul [OF 1 texts_plain(1) texts_plain(1)]
  note 3 = split_at_nul [OF conjunct2 [OF 2] p(4) q(4)]
  note 4 = split_at_nul [OF conjunct2 [OF 3] p(1) q(1)]
  note 5 = split_at_nul [OF conjunct2 [OF 4] texts_plain(2) texts_plain(2)]
  from 2 3 4 5 text_or_empty_inject [OF p(2) q(2)] text_or_empty_inject [OF p(3) q(3)]
  show ?thesis by (simp add: same_quantity_def dimension_text_inject comparator_text_inject)
qed

section \<open>Support\<close>

text \<open>
  A text supports a claim: it says the same up to white space at the ends and closing punctuation,
  or it is the same statement, of the same polarity and quantifier, around the same quantities,
  none of them approximate or a range.
\<close>

definition supports :: "platform \<Rightarrow> CanonicalClaimBase \<Rightarrow> jstr \<Rightarrow> bool" where
  "supports P c t \<longleftrightarrow>
     normalizeExtractText P (cc_source_claim_text_nfc c) = normalizeExtractText P t \<or>
     (\<exists>e. analyzeAtomicTextV1 P t = Inr e \<and> cc_polarity c = an_polarity e \<and> cc_quantifier c = an_quantifier e \<and>
        cc_quantifier c \<noteq> Q_SOME \<and> cc_quantifier c \<noteq> Q_OTHER \<and>
        list_all2 same_quantity (cc_quantities c) (an_quantities e) \<and>
        list_all (\<lambda>q. cq_comparator q \<noteq> CMP_APPROX \<and> cq_comparator q \<noteq> CMP_RANGE) (cc_quantities c) \<and>
        typedSkeleton P (cc_source_claim_text_nfc c) (cc_quantities c) =
          typedSkeleton P (an_source_text_nfc e) (an_quantities e))"

lemma analyzed_plain: "analyzeAtomicTextV1 P t = Inr e \<Longrightarrow> list_all plain_fields (an_quantities e)"
  by (auto simp: analyzeAtomicTextV1_def Let_def case_prod_unfold list.pred_map comp_def dest!: internalLex_plain
      split: if_splits)

text \<open>What a recomputed claim has of the proposed one.\<close>

definition recomputed_from :: "platform \<Rightarrow> AtomicClaimProposal \<Rightarrow> RecomputedAtomV1 \<Rightarrow> bool" where
  "recomputed_from P claim r \<longleftrightarrow>
     ra_source_claim_text_nfc r = nfc P (ac_claim_text claim) \<and> ra_polarity r = ac_polarity claim \<and>
     ra_quantifier r = ac_quantifier claim \<and> list_all plain_fields (ra_quantities r)"

lemma narrowed_plain:
  "plain_fields q \<Longrightarrow> plain_fields (toPublicQuantity q\<lparr>cq_typed_equivalence_eligible := cq_typed_equivalence_eligible q \<and> b\<rparr>)"
  by (auto simp: plain_fields_def toPublicQuantity_def CanonicalQuantityV1.truncate_def)

lemma recompute_Inr: "recomputeAtomV1 P claim = Inr r \<Longrightarrow> recomputed_from P claim r"
  by (auto simp: recomputeAtomV1_def Let_def bindE_Inr_iff recomputed_from_def narrowed_plain
      list_all_iff dest!: internalLex_plain split: if_splits)

lemma compare_supports:
  assumes "compareOneEvidenceDefault P r t = Inr m" and "list_all plain_fields (ra_quantities r)"
    and "cc_source_claim_text_nfc c = ra_source_claim_text_nfc r" and "cc_polarity c = ra_polarity r"
    and "cc_quantifier c = ra_quantifier r" and "cc_quantities c = ra_quantities r"
  shows "supports P c t"
proof (cases "normalizeExtractText P (ra_source_claim_text_nfc r) = normalizeExtractText P t")
  case True
  with assms(3) show ?thesis by (simp add: supports_def)
next
  case False
  with assms(1) obtain e where e: "analyzeAtomicTextV1 P t = Inr e" "typed_eligible r e"
      "ra_polarity r = an_polarity e" "ra_quantifier r = an_quantifier e"
      "map quantityTuple (ra_quantities r) = map quantityTuple (an_quantities e)"
      "typedSkeleton P (ra_source_claim_text_nfc r) (ra_quantities r) =
        typedSkeleton P (an_source_text_nfc e) (an_quantities e)"
    by (auto simp: compareOneEvidenceDefault_def split: sum.splits if_splits)
  have "list_all2 same_quantity (ra_quantities r) (an_quantities e)"
    using e(5) assms(2) analyzed_plain [OF e(1)] quantityTuple_same
    by (auto simp: list_all2_conv_all_nth list_all_length dest: map_eq_imp_length_eq) (metis length_map nth_map)
  moreover have "list_all (\<lambda>q. cq_comparator q \<noteq> CMP_APPROX \<and> cq_comparator q \<noteq> CMP_RANGE) (ra_quantities r)"
    using e(2) assms(2) by (auto simp: typed_eligible_def list_all_iff plain_fields_def)
  ultimately show ?thesis using e assms(3-6) by (auto simp: supports_def typed_eligible_def)
qed

section \<open>The loop over the claims\<close>

text \<open>How a claim of the proposal becomes a supported one.\<close>

definition verified_as ::
    "platform \<Rightarrow> AtomicVerificationInput \<Rightarrow> GroundedDraftProposal \<Rightarrow> (jstr \<Rightarrow> AssignedEvidenceSnapshot option) \<Rightarrow>
     AtomicClaimProposal \<Rightarrow> AtomicVerifiedClaimV1 \<Rightarrow> bool" where
  "verified_as P input proposal evidenceById claim v \<longleftrightarrow>
     (\<exists>r c items. recomputeAtomV1 P claim = Inr r \<and> canonicalClaimBase P input proposal claim r = Inr c \<and>
        cited_evidence evidenceById (ac_evidence_ids claim) = Inr items \<and>
        v = compared_claim c (map evidence_ref items)
              (map (\<lambda>item. compareOneEvidenceDefault P r (text_value (ev_exact_span_text item))) items) \<and>
        vc_support_status v = SUPPORTED)"

lemma failedResult_not_allow: "failedResult d reason n cs = Inr r \<Longrightarrow> vr_decision r \<noteq> ALLOW"
  by (auto simp: failedResult_def decisionFor_def Let_def bindE_Inr_iff split: AtomicGroundingTransition.splits)

lemma verify_claims_allow:
  assumes "verify_claims P input proposal evidenceById claims verified = Inr r" and "vr_decision r = ALLOW"
  shows "vr_canonical_proposal r = proposal \<and> vr_material_gap_reason r = None \<and>
    (\<exists>vs. vr_claims r = verified @ vs \<and> list_all2 (verified_as P input proposal evidenceById) claims vs)"
  using assms
proof (induction P input proposal evidenceById claims verified rule: verify_claims.induct)
  case (1 P input proposal evidenceById verified)
  then show ?case by auto
next
  case (2 P input proposal evidenceById claim claims verified)
  note run = 2(2) and allow = 2(3)
  obtain a where rec: "recomputeAtomV1 P claim = Inr a"
    using run allow by (cases "recomputeAtomV1 P claim") (auto dest: failedResult_not_allow)
  obtain c where c: "canonicalClaimBase P input proposal claim a = Inr c"
    using run rec by (cases "canonicalClaimBase P input proposal claim a") auto
  obtain items where items: "cited_evidence evidenceById (ac_evidence_ids claim) = Inr items"
    using run allow rec c
    by (cases "cited_evidence evidenceById (ac_evidence_ids claim)") (auto dest: failedResult_not_allow)
  define compared where "compared = compared_claim c (map evidence_ref items)
    (map (\<lambda>item. compareOneEvidenceDefault P a (text_value (ev_exact_span_text item))) items)"
  from 2(2,3) rec c items have "vc_support_status compared = SUPPORTED"
    "verify_claims P input proposal evidenceById claims (verified @ [compared]) = Inr r"
    by (auto simp: compared_def Let_def split: if_splits dest: failedResult_not_allow)
  with 2(1) [OF rec c items refl compared_def] allow
  obtain vs where "vr_canonical_proposal r = proposal" "vr_material_gap_reason r = None"
      "vr_claims r = verified @ compared # vs" "list_all2 (verified_as P input proposal evidenceById) claims vs"
    by auto
  moreover have "verified_as P input proposal evidenceById claim compared"
    using rec c items \<open>vc_support_status compared = SUPPORTED\<close> by (auto simp: verified_as_def compared_def)
  ultimately show ?case by auto
qed

text \<open>What holds of the input of an allowed verification.\<close>

definition input_accepted :: "platform \<Rightarrow> AtomicVerificationInput \<Rightarrow> GroundedDraftProposal \<Rightarrow> bool" where
  "input_accepted P input proposal \<longleftrightarrow>
     parse_draft P (vi_proposal input) = Inr proposal \<and> gd_status proposal = DRAFT \<and>
     filled_text (vi_workflow_job_id input) \<and> filled_text (vi_project_id input) \<and>
     is_safe_integer (vi_generation_attempt input) \<and> 0 \<le> int_of_number (vi_generation_attempt input) \<and>
     is_sha256 (vi_assignment_digest input) \<and>
     (vi_revision_attempt input = 0 \<longrightarrow> list_all (\<lambda>claim. ac_revision_of claim = None) (gd_claims proposal)) \<and>
     distinct (map ev_evidence_id (vi_evidence input)) \<and>
     list_all (\<lambda>item. JStr (ev_project_id item) = vi_project_id input \<and> evidence_readable item) (vi_evidence input)"

lemma refused_if:
  "(if c then failedResult d reason n cs else x) = Inr r \<and> vr_decision r = ALLOW \<longleftrightarrow> \<not> c \<and> x = Inr r \<and> vr_decision r = ALLOW"
  using failedResult_not_allow by (cases c) auto

lemma verify_allow:
  assumes "verify P input = Inr r" and "vr_decision r = ALLOW"
  shows "input_accepted P input (vr_canonical_proposal r) \<and> vr_material_gap_reason r = None \<and>
    list_all2 (verified_as P input (vr_canonical_proposal r)
      (map_of (map (\<lambda>item. (ev_evidence_id item, item)) (vi_evidence input)))) (gd_claims (vr_canonical_proposal r)) (vr_claims r)"
proof -
  from assms(1) have run: "verifyClosed P input = Inr r"
    by (auto simp: verify_def split: sum.splits verify_error.splits)
  obtain proposal where parse: "parse_draft P (vi_proposal input) = Inr proposal"
    using run assms(2) failedResult_not_allow
    by (cases "parse_draft P (vi_proposal input)") (auto simp: verifyClosed_def)
  from run assms(2) have "verifyClosed P input = Inr r \<and> vr_decision r = ALLOW" by (rule conjI)
  note steps = this [unfolded verifyClosed_def Let_def parse sum.case refused_if]
  then have checks: "input_accepted P input proposal"
    using parse by (cases "gd_status proposal") (auto simp: input_accepted_def list_ex_iff list_all_iff not_less)
  from steps have claims: "verify_claims P input proposal (map_of (map (\<lambda>item. (ev_evidence_id item, item)) (vi_evidence input)))
      (gd_claims proposal) [] = Inr r" by (elim conjE)
  from verify_claims_allow [OF claims assms(2)] checks show ?thesis by auto
qed

section \<open>Supported claims\<close>

text \<open>
  A claim of the result answers the claim of the draft: it has its text, polarity and quantifier, it
  cites exactly the evidence the draft names, and each piece is assigned to the project, is bound
  by its digest, and supports the claim.
\<close>

definition claim_supported :: "platform \<Rightarrow> AtomicVerificationInput \<Rightarrow> AtomicClaimProposal \<Rightarrow> AtomicVerifiedClaimV1 \<Rightarrow> bool" where
  "claim_supported P input claim v \<longleftrightarrow>
     vc_support_status v = SUPPORTED \<and> vc_verification_method v \<in> {ATOMIC_EXTRACT_EXACT, ATOMIC_TYPED_EQUIVALENT} \<and>
     cc_source_claim_text_nfc (vc_base v) = nfc P (ac_claim_text claim) \<and>
     cc_polarity (vc_base v) = ac_polarity claim \<and> cc_quantifier (vc_base v) = ac_quantifier claim \<and>
     cc_evidence_ids (vc_base v) = ac_evidence_ids claim \<and>
     map fst (vc_evidence_refs v) = ac_evidence_ids claim \<and> vc_evidence_refs v \<noteq> [] \<and>
     (\<forall>(i, d) \<in> set (vc_evidence_refs v). \<exists>item \<in> set (vi_evidence input).
        ev_evidence_id item = i \<and> JStr (ev_project_id item) = vi_project_id input \<and>
        ev_snapshot_digest item = JStr d \<and> is_sha256 d \<and>
        (\<exists>t. ev_exact_span_text item = JStr t \<and> supports P (vc_base v) t))"

lemma cited_evidence_Inr:
  "cited_evidence m ids = Inr items \<longleftrightarrow> map m ids = map Some items"
proof (induction ids arbitrary: items)
  case (Cons i ids)
  show ?case
  proof (cases "m i")
    case (Some e)
    show ?thesis
    proof (cases "cited_evidence m ids")
      case (Inl xs)
      with Cons.IH have "map m ids \<noteq> map Some ys" for ys by auto
      with Some Inl show ?thesis by (auto simp: Cons_eq_map_conv)
    next
      case (Inr xs)
      with Cons.IH [of xs] have "map m ids = map Some xs" by simp
      with Some Inr show ?thesis by (auto simp: Cons_eq_map_conv inj_map_eq_map)
    qed
  qed auto
qed auto

lemma cited_ids:
  assumes "\<And>i item. m i = Some item \<Longrightarrow> ev_evidence_id item = i" and "map m ids = map Some items"
  shows "map ev_evidence_id items = ids"
  using assms(2) by (induction ids arbitrary: items) (auto simp: Cons_eq_map_conv dest: assms(1))

lemma cited_known:
  assumes "map m ids = map Some items" and "item \<in> set items"
  shows "\<exists>i. m i = Some item"
proof -
  from assms(2) have "Some item \<in> set (map Some items)" by simp
  then show ?thesis unfolding assms(1) [symmetric] by auto
qed

lemma compared_claim_simps [simp]:
  "vc_base (compared_claim c refs cs) = c" "vc_evidence_refs (compared_claim c refs cs) = refs"
  "vc_candidate_claim_key (compared_claim c refs cs) = cc_candidate_claim_key c"
  "vc_support_status (compared_claim c refs cs) = SUPPORTED \<longleftrightarrow> cs \<noteq> [] \<and> list_all (\<lambda>c. \<not> isl c) cs"
  by (simp_all add: compared_claim_def)

lemma canonicalClaimBase_Inr:
  assumes "canonicalClaimBase P input proposal claim r = Inr c"
  shows "cc_source_claim_text_nfc c = ra_source_claim_text_nfc r \<and> cc_polarity c = ra_polarity r \<and>
    cc_quantifier c = ra_quantifier r \<and> cc_quantities c = ra_quantities r \<and> cc_evidence_ids c = ac_evidence_ids claim \<and>
    cc_ordinal c = ordinal_of (gd_ordering proposal) (ac_fragment_id claim) \<and>
    claim_ref_presentation (gd_fragments proposal) (ac_fragment_id claim) = Some (cc_presentation c) \<and>
    ac_fragment_id claim \<in> set (gd_ordering proposal) \<and>
    cc_revision_attempt c = vi_revision_attempt input \<and> cc_revision_of c = ac_revision_of claim"
  using assms by (auto simp: canonicalClaimBase_def Let_def split: option.splits if_splits)

lemma readable_iff:
  "evidence_readable item \<longleftrightarrow>
     (\<exists>d t. ev_snapshot_digest item = JStr d \<and> is_sha256 d \<and> ev_exact_span_text item = JStr t \<and> t \<noteq> [])"
  by (cases "ev_snapshot_digest item"; cases "ev_exact_span_text item") (simp_all add: evidence_readable_def)

lemma verified_as_supported:
  assumes "verified_as P input proposal (map_of (map (\<lambda>item. (ev_evidence_id item, item)) (vi_evidence input))) claim v"
    and "list_all (\<lambda>item. JStr (ev_project_id item) = vi_project_id input \<and> evidence_readable item) (vi_evidence input)"
  shows "claim_supported P input claim v"
proof -
  let ?m = "map_of (map (\<lambda>item. (ev_evidence_id item, item)) (vi_evidence input))"
  from assms(1) obtain r c items where rec: "recomputeAtomV1 P claim = Inr r"
    and c: "canonicalClaimBase P input proposal claim r = Inr c"
    and items: "map ?m (ac_evidence_ids claim) = map Some items"
    and v: "v = compared_claim c (map evidence_ref items)
        (map (\<lambda>item. compareOneEvidenceDefault P r (text_value (ev_exact_span_text item))) items)"
    and sup: "vc_support_status v = SUPPORTED"
    by (auto simp: verified_as_def cited_evidence_Inr)
  note base = canonicalClaimBase_Inr [OF c] and made = recompute_Inr [OF rec]
  have known: "ev_evidence_id item = i \<and> item \<in> set (vi_evidence input)" if "?m i = Some item" for i item
    using that by (auto dest!: map_of_SomeD)
  have ids: "map ev_evidence_id items = ac_evidence_ids claim"
    using known by (intro cited_ids [OF _ items]) blast
  have "\<exists>i. ?m i = Some item" if "item \<in> set items" for item by (rule cited_known [OF items that])
  with known have assigned: "item \<in> set (vi_evidence input)" if "item \<in> set items" for item using that by blast
  have item: "supports P c t \<and> is_sha256 d \<and> JStr (ev_project_id item) = vi_project_id input"
    if "item \<in> set items" and "ev_exact_span_text item = JStr t" and "ev_snapshot_digest item = JStr d" for item t d
  proof -
    have "\<not> isl (compareOneEvidenceDefault P r t)"
      using sup that by (auto simp: v list_all_iff text_value_def)
    then obtain m where m: "compareOneEvidenceDefault P r t = Inr m" by (cases "compareOneEvidenceDefault P r t") auto
    have "supports P c t"
      using base made by (intro compare_supports [OF m]) (auto simp: recomputed_from_def)
    with assms(2) assigned [OF that(1)] that show ?thesis by (auto simp: list_all_iff readable_iff)
  qed
  have readable: "\<exists>t d. ev_exact_span_text item = JStr t \<and> ev_snapshot_digest item = JStr d" if "item \<in> set items" for item
    using assms(2) assigned [OF that] by (auto simp: list_all_iff readable_iff)
  have how: "vc_verification_method v \<in> {ATOMIC_EXTRACT_EXACT, ATOMIC_TYPED_EQUIVALENT}"
    using sup by (auto simp: v compared_claim_def split: if_splits)
  have some: "items \<noteq> []" using sup by (simp add: v)
  have "\<exists>e \<in> set (vi_evidence input). ev_evidence_id e = ev_evidence_id item \<and>
      JStr (ev_project_id e) = vi_project_id input \<and> ev_snapshot_digest e = JStr (text_value (ev_snapshot_digest item)) \<and>
      is_sha256 (text_value (ev_snapshot_digest item)) \<and> (\<exists>t. ev_exact_span_text e = JStr t \<and> supports P c t)"
    if "item \<in> set items" for item
  proof -
    from readable [OF that] obtain t d where td: "ev_exact_span_text item = JStr t" "ev_snapshot_digest item = JStr d" by blast
    show ?thesis
      using item [OF that td] assigned [OF that] td by (intro bexI [of _ item]) (simp_all add: text_value_def)
  qed
  then have refs: "\<forall>(i, d) \<in> set (map evidence_ref items). \<exists>e \<in> set (vi_evidence input). ev_evidence_id e = i \<and>
      JStr (ev_project_id e) = vi_project_id input \<and> ev_snapshot_digest e = JStr d \<and> is_sha256 d \<and>
      (\<exists>t. ev_exact_span_text e = JStr t \<and> supports P c t)"
    by (simp add: evidence_ref_def)
  have fst: "map fst (map evidence_ref items) = ac_evidence_ids claim" using ids by (simp add: evidence_ref_def comp_def)
  show ?thesis
    unfolding claim_supported_def
    using sup how base made some fst refs by (simp add: v recomputed_from_def)
qed

lemma verify_supported:
  assumes "verify P input = Inr r" and "vr_decision r = ALLOW"
  shows "parse_draft P (vi_proposal input) = Inr (vr_canonical_proposal r) \<and>
    list_all2 (claim_supported P input) (gd_claims (vr_canonical_proposal r)) (vr_claims r)"
proof -
  note ok = verify_allow [OF assms]
  then have "list_all (\<lambda>item. JStr (ev_project_id item) = vi_project_id input \<and> evidence_readable item) (vi_evidence input)"
    by (simp add: input_accepted_def)
  with ok show ?thesis
    by (auto simp: input_accepted_def elim!: list_all2_mono intro: verified_as_supported)
qed

text \<open>
  C14: the verifier allows a draft only when every claim stands on its evidence.  The draft it returns is
  the parsed proposal, and its claims answer one by one: each has the text, polarity and quantifier
  the draft states, and every piece of evidence the draft cites for it is assigned to the project,
  readable, and supports it, as the same text or as the same statement around equal quantities.
\<close>

theorem verify_allows_supported_only:
  assumes "verify P input = Inr r" and "vr_decision r = ALLOW"
  shows "parse_draft P (vi_proposal input) = Inr (vr_canonical_proposal r) \<and>
    list_all2 (claim_supported P input) (gd_claims (vr_canonical_proposal r)) (vr_claims r)"
  using assms by (rule verify_supported)

section \<open>A concrete verification\<close>

definition atom_claim :: AtomicClaimProposal where
  "atom_claim =
     \<lparr>ac_proposal_claim_id = js ''c1'', ac_revision_of = None, ac_claim_text = js ''A=5kW'',
      ac_fragment_id = js ''f2'', ac_span_end = 5,
      ac_subject = \<lparr>sa_surface = js ''A'', sa_start = 0, sa_end = 1\<rparr>,
      ac_predicate = \<lparr>sa_surface = js ''='', sa_start = 1, sa_end = 2\<rparr>,
      ac_polarity = AFFIRMED, ac_quantifier = Q_PLAIN,
      ac_quantities = [\<lparr>qp_quantity_id = js ''q1'', qp_surface = js ''5kW'', qp_start = 2, qp_end = 5,
        qp_dimension = DIM_POWER, qp_value = js ''5'', qp_unit = Some (js ''kW''), qp_comparator = CMP_EQ,
        qp_range_end = None\<rparr>],
      ac_evidence_ids = [js ''e1'', js ''e2'']\<rparr>"

definition atom_draft :: GroundedDraftProposal where
  "atom_draft =
     \<lparr>gd_status = DRAFT, gd_claims = [atom_claim],
      gd_fragments = [StructureRef (js ''f1'') (js ''s1'') HEADING_1, ClaimRef (js ''f2'') (js ''c1'') SENTENCE],
      gd_ordering = [js ''f1'', js ''f2''], gd_material_gap = None\<rparr>"

definition atom_evidence :: "string \<Rightarrow> string \<Rightarrow> AssignedEvidenceSnapshot" where
  "atom_evidence i t =
     \<lparr>ev_evidence_id = js i, ev_chunk_id = js ''k'', ev_project_id = js ''p'', ev_file_id = js ''f'',
      ev_document_id = js ''d'', ev_retrieval_run_id = js ''r'', ev_ingestion_key = None,
      ev_exact_span_text = JStr (js t), ev_exact_span_document_start = JNull, ev_exact_span_document_end = JNull,
      ev_candidate_rank = JNum (NInt 1), ev_score_sparse = None, ev_score_dense = None, ev_score_fusion = NInt 1,
      ev_score_rerank = NInt 1, ev_rank_sparse = JNull, ev_rank_dense = JNull, ev_rank_fusion = JNum (NInt 1),
      ev_rank_rerank = JNum (NInt 1), ev_index_snapshot = JObj [], ev_snapshot_digest = JStr (replicate 64 97)\<rparr>"

definition atom_input :: AtomicVerificationInput where
  "atom_input =
     \<lparr>vi_workflow_job_id = JStr (js ''w''), vi_project_id = JStr (js ''p''), vi_generation_attempt = JNum (NInt 1),
      vi_revision_attempt = 0, vi_proposal = draft_value atom_draft, vi_assignment_digest = replicate 64 98,
      vi_evidence = [atom_evidence ''e1'' ''A=5kW.'', atom_evidence ''e2'' ''A=5000W'']\<rparr>"

lemma atom_draft_ok: "draft_ok plain_platform atom_draft"
  by (simp add: sample_evaluation atom_draft_def atom_claim_def js_def)

lemma atom_draft_fits: "draft_fits plain_platform atom_draft"
proof -
  have "utf8_length (js ''A=5kW'') \<le> MAX_CLAIM_TEXT_BYTES"
    by (simp add: utf8_length_def utf8_scalar_def MAX_CLAIM_TEXT_BYTES_def js_def)
  moreover have "assertProposalUtf8Bytes plain_platform (draft_value atom_draft) MAX_PROPOSAL_BYTES = Inr ()"
    by (simp add: assertProposalUtf8Bytes_def draft_value_def atom_draft_def atom_claim_def claim_value_def anchor_value_def
        quantity_value_def span_value_def option_value_def num_value_def gap_value_def GROUNDED_DRAFT_SCHEMA_VERSION_def
        MAX_PROPOSAL_BYTES_def json_number_def MAX_SAFE_INTEGER_def dec_int_def dec_nat.simps
        List.map_filter_simps json_quote_plain plain_unit_def utf8_length_ascii js_def)
  ultimately show ?thesis by (simp add: draft_fits_def atom_draft_def atom_claim_def)
qed

lemma atom_draft_parses: "parse_draft plain_platform (draft_value atom_draft) = Inr atom_draft"
  by (rule draft_value_parses [OF plain_platform_normalizer atom_draft_ok atom_draft_fits])

lemmas text_evaluation =
  recomputeQuantifier_def quantifier_patterns_def analyzePolarity_def blank_quantities_def quantified_negation_rx_def
  negative_rx_def rx_scan.simps hasForbiddenAtomControl_def js_includes_def

lemma atom_text:
  "analyzePolarity (js ''A=5kW'') [demo_quantity (js ''5kW'') (js ''5'') (js ''kW'')] = (AFFIRMED, True)"
  "analyzePolarity (js ''A=5000W'') [demo_quantity (js ''5000W'') (js ''5000'') (js ''W'')] = (AFFIRMED, True)"
  "recomputeQuantifier (js ''A=5kW'') = Q_PLAIN" "recomputeQuantifier (js ''A=5000W'') = Q_PLAIN"
  "\<not> hasForbiddenAtomControl (js ''A=5kW'')" "\<not> hasForbiddenAtomControl (js ''A=5000W'')"
  "\<not> js_includes (js ''A=5kW'') [96, 96, 96]" "\<not> js_includes (js ''A=5000W'') [96, 96, 96]"
proof -
  have blanks: "replicate 3 (32::nat) = [32, 32, 32]" "replicate 5 (32::nat) = [32, 32, 32, 32, 32]"
    by (simp_all add: numeral_eq_Suc)
  show "analyzePolarity (js ''A=5kW'') [demo_quantity (js ''5kW'') (js ''5'') (js ''kW'')] = (AFFIRMED, True)"
    "analyzePolarity (js ''A=5000W'') [demo_quantity (js ''5000W'') (js ''5000'') (js ''W'')] = (AFFIRMED, True)"
    by (simp_all add: text_evaluation rx_evaluation demo_quantity_def blanks)
qed (simp_all add: text_evaluation rx_evaluation)

lemma atom_analyzed:
  "analyzeAtomicTextV1 plain_platform (js ''A=5kW'') = Inr
     \<lparr>an_source_text_nfc = js ''A=5kW'', an_polarity = AFFIRMED, an_quantifier = Q_PLAIN,
      an_quantities = [toPublicQuantity (demo_quantity (js ''5kW'') (js ''5'') (js ''kW''))],
      an_typed_equivalence_eligible = True\<rparr>"
  "analyzeAtomicTextV1 plain_platform (js ''A=5000W'') = Inr
     \<lparr>an_source_text_nfc = js ''A=5000W'', an_polarity = AFFIRMED, an_quantifier = Q_PLAIN,
      an_quantities = [toPublicQuantity (demo_quantity (js ''5000W'') (js ''5000'') (js ''W''))],
      an_typed_equivalence_eligible = True\<rparr>"
  by (simp_all add: analyzeAtomicTextV1_def demo_lexed atom_text)

definition atom_recomputed :: RecomputedAtomV1 where
  "atom_recomputed =
     \<lparr>ra_source_claim_text_nfc = js ''A=5kW'',
      ra_subject_anchor = \<lparr>ca_surface_nfc = js ''A'', ca_start = 0, ca_end = 1\<rparr>,
      ra_predicate_anchor = \<lparr>ca_surface_nfc = js ''='', ca_start = 1, ca_end = 2\<rparr>,
      ra_polarity = AFFIRMED, ra_quantifier = Q_PLAIN,
      ra_quantities = [toPublicQuantity (demo_quantity (js ''5kW'') (js ''5'') (js ''kW''))]\<rparr>"

lemma atom_recomputes: "recomputeAtomV1 plain_platform atom_claim = Inr atom_recomputed"
proof -
  have quantity: "canonicalProposalQuantity (hd (ac_quantities atom_claim)) = Inr (js ''5000'', Some (js ''W''), None)"
    by (simp add: atom_claim_def canonicalProposalQuantity_def inherited_names_def lexer_evaluation)
  have printed: "map_option fixedToString (parseArabicFixed (js ''5'')) = Some (js ''5'')"
    by (simp add: lexer_evaluation)
  have anchors: "slice (js ''A=5kW'') 0 (Suc 0) = js ''A''" "slice (js ''A=5kW'') (Suc 0) 2 = js ''=''"
    by (simp_all add: slice_def js_def)
  show ?thesis
    using quantity printed
    by (simp add: recomputeAtomV1_def atom_claim_def atom_text demo_lexed atom_analyzed anchors_exactly_def anchors Let_def
        canonical_anchor_def quantity_agrees_def demo_quantity_def toPublicQuantity_def CanonicalQuantityV1.truncate_def
        atom_recomputed_def)
qed

lemma atom_compared:
  "compareOneEvidenceDefault plain_platform atom_recomputed (js ''A=5kW.'') = Inr EXACT"
  "compareOneEvidenceDefault plain_platform atom_recomputed (js ''A=5000W'') = Inr TYPED"
proof -
  have texts: "normalizeExtractText plain_platform (js ''A=5kW'') = js ''A=5kW''"
      "normalizeExtractText plain_platform (js ''A=5kW.'') = js ''A=5kW''"
      "normalizeExtractText plain_platform (js ''A=5000W'') = js ''A=5000W''"
    by (simp_all add: normalizeExtractText_def drop_last_punctuation_def extract_punctuation_def js_def)
  have skeletons: "typedSkeleton plain_platform (js ''A=5kW'') [toPublicQuantity (demo_quantity (js ''5kW'') (js ''5'') (js ''kW''))] =
      typedSkeleton plain_platform (js ''A=5000W'') [toPublicQuantity (demo_quantity (js ''5000W'') (js ''5000'') (js ''W''))]"
    by (simp add: typedSkeleton_def mark_quantities_def demo_quantity_def quantity_mark_def js_def)
  have tuples: "quantityTuple (toPublicQuantity (demo_quantity (js ''5kW'') (js ''5'') (js ''kW''))) =
      quantityTuple (toPublicQuantity (demo_quantity (js ''5000W'') (js ''5000'') (js ''W'')))"
    by (simp add: quantityTuple_def demo_quantity_def toPublicQuantity_def CanonicalQuantityV1.truncate_def)
  have eligible: "cq_typed_equivalence_eligible (demo_quantity s n u)" for s n u by (simp add: demo_quantity_def)
  show "compareOneEvidenceDefault plain_platform atom_recomputed (js ''A=5kW.'') = Inr EXACT"
    "compareOneEvidenceDefault plain_platform atom_recomputed (js ''A=5000W'') = Inr TYPED"
    by (simp_all add: compareOneEvidenceDefault_def texts atom_analyzed typed_eligible_def skeletons tuples eligible atom_recomputed_def)
qed

text \<open>The claim \<open>A=5kW\<close> cites the same text and the typed equivalent \<open>A=5000W\<close>: both support it.\<close>

lemma atom_verify:
  assumes c: "canonicalClaimBase plain_platform atom_input atom_draft atom_claim atom_recomputed = Inr c"
  shows "verify plain_platform atom_input = Inr \<lparr>vr_decision = ALLOW, vr_canonical_proposal = atom_draft,
      vr_claims = [compared_claim c (map evidence_ref (vi_evidence atom_input)) [Inr EXACT, Inr TYPED]],
      vr_material_gap_reason = None\<rparr>"
proof -
  let ?e1 = "atom_evidence ''e1'' ''A=5kW.''" and ?e2 = "atom_evidence ''e2'' ''A=5000W''"
  have checks: "is_sha256 (replicate 64 98)" "evidence_readable ?e1" "evidence_readable ?e2"
    by (simp_all add: is_sha256_def lower_hex_def evidence_readable_def atom_evidence_def list_all_iff)
  have fields: "ev_evidence_id (atom_evidence i t) = js i" "ev_project_id (atom_evidence i t) = js ''p''"
      "ev_exact_span_text (atom_evidence i t) = JStr (js t)" for i t by (simp_all add: atom_evidence_def)
  have ids: "ac_evidence_ids atom_claim = [js ''e1'', js ''e2'']" by (simp add: atom_claim_def)
  have claims: "verify_claims plain_platform atom_input atom_draft
      (map_of (map (\<lambda>item. (ev_evidence_id item, item)) [?e1, ?e2])) [atom_claim] [] =
    Inr \<lparr>vr_decision = ALLOW, vr_canonical_proposal = atom_draft,
      vr_claims = [compared_claim c [evidence_ref ?e1, evidence_ref ?e2] [Inr EXACT, Inr TYPED]], vr_material_gap_reason = None\<rparr>"
    using c ids by (simp add: atom_recomputes fields atom_compared text_value_def Let_def)
  have draft: "gd_status atom_draft = DRAFT" "gd_claims atom_draft = [atom_claim]" "ac_revision_of atom_claim = None"
    by (simp_all add: atom_draft_def atom_claim_def)
  have input: "vi_workflow_job_id atom_input = JStr (js ''w'')" "vi_project_id atom_input = JStr (js ''p'')"
      "vi_generation_attempt atom_input = JNum (NInt 1)" "vi_revision_attempt atom_input = 0"
      "vi_proposal atom_input = draft_value atom_draft" "vi_assignment_digest atom_input = replicate 64 98"
      "vi_evidence atom_input = [?e1, ?e2]"
    by (simp_all add: atom_input_def)
  show ?thesis
    using claims draft
    by (simp add: verify_def verifyClosed_def input atom_draft_parses checks filled_text_def MAX_SAFE_INTEGER_def
        fields del: verify_claims.simps)
qed

lemma atom_verified:
  obtains r where "verify plain_platform atom_input = Inr r" and "vr_decision r = ALLOW"
    and "vr_canonical_proposal r = atom_draft" and "map vc_verification_method (vr_claims r) = [ATOMIC_TYPED_EQUIVALENT]"
proof -
  obtain c where c: "canonicalClaimBase plain_platform atom_input atom_draft atom_claim atom_recomputed = Inr c"
    by (auto simp: canonicalClaimBase_def atom_draft_def atom_claim_def Let_def)
  show thesis by (rule that [OF atom_verify [OF c]]) (simp_all add: compared_claim_def)
qed

theorem verify_allows_supported_only_witness:
  "\<exists>r v. verify plain_platform atom_input = Inr r \<and> vr_claims r = [v] \<and> claim_supported plain_platform atom_input atom_claim v \<and>
     vc_verification_method v = ATOMIC_TYPED_EQUIVALENT"
proof -
  obtain r where r: "verify plain_platform atom_input = Inr r" "vr_decision r = ALLOW"
      "vr_canonical_proposal r = atom_draft" "map vc_verification_method (vr_claims r) = [ATOMIC_TYPED_EQUIVALENT]"
    by (rule atom_verified)
  from verify_allows_supported_only [OF r(1,2)] r(3,4) r(1) show ?thesis
    by (auto simp: atom_draft_def list_all2_Cons1)
qed

end
