(* ===== verification/AtomicRendererProps.thy ===== *)
theory AtomicRendererProps
  imports AtomicRenderer
begin

text \<open>
  What the renderer guarantees: every recorded position holds the escaped text of the verified
  claim of that ordinal, each verified claim is rendered once, and the paragraph markers of the
  output are exactly those the renderer wrote: no claim and no label can forge one.
\<close>

section \<open>Escaping\<close>

fun unescape_units :: "jstr \<Rightarrow> jstr" where
  "unescape_units [] = []"
| "unescape_units [c] = [c]"
| "unescape_units (c # d # s) = (if c = 92 then d # unescape_units s else c # unescape_units (d # s))"

lemma unescape_escape [simp]: "unescape_units (escape_units s) = s"
proof (induction s)
  case (Cons c s)
  show ?case
  proof (cases "ascii_punctuation c")
    case False
    then have "c \<noteq> 92" by (auto simp: ascii_punctuation_def)
    then have "unescape_units (c # t) = c # unescape_units t" for t by (cases t) auto
    with Cons False show ?thesis by simp
  qed (simp add: Cons)
qed simp

lemma escapePlainText_Inr_iff:
  "escapePlainTextV1 P s = Inr e \<longleftrightarrow>
     isWellFormedUnicodeScalarV1 s \<and> nfc P s = s \<and> \<not> hasForbiddenControl s \<and> e = escape_units s"
  by (auto simp: escapePlainTextV1_def)

lemma hd_escape_units: "escape_units s = [] \<or> hd (escape_units s) \<noteq> 33"
  by (cases s) (auto simp: ascii_punctuation_def)

section \<open>Paragraph markers\<close>

definition paragraph_marker :: jstr where
  "paragraph_marker = js ''<!-- paragraph_key:p''"

fun marker_count :: "jstr \<Rightarrow> nat" where
  "marker_count [] = 0"
| "marker_count (c # s) = (if starts_with (c # s) paragraph_marker then 1 else 0) + marker_count s"

text \<open>A text that ends in no part of a marker longer than its first character.\<close>

fun tail_closed :: "jstr \<Rightarrow> bool" where
  "tail_closed [] = True"
| "tail_closed (c # s) \<longleftrightarrow>
     (starts_with paragraph_marker (c # s) \<longrightarrow> s = [] \<or> c # s = paragraph_marker) \<and> tail_closed s"

lemma marker_units:
  "paragraph_marker = [60, 33, 45, 45, 32, 112, 97, 114, 97, 103, 114, 97, 112, 104, 95, 107, 101, 121, 58, 112]"
  by (simp add: paragraph_marker_def js_def)

lemma starts_with_append:
  "starts_with (s @ t) p \<longleftrightarrow> starts_with s p \<or> (\<exists>q. q \<noteq> [] \<and> p = s @ q \<and> starts_with t q)"
  unfolding starts_with_iff by (auto simp: append_eq_append_conv2)

lemma marker_boundary:
  assumes "tail_closed (c # a)" and "p = [] \<or> hd p \<noteq> 33"
  shows "starts_with (c # a @ p) paragraph_marker \<longleftrightarrow> starts_with (c # a) paragraph_marker"
proof -
  have "\<not> starts_with p q" if "q \<noteq> []" "paragraph_marker = (c # a) @ q" for q
  proof -
    have "starts_with paragraph_marker (c # a)" using that by (auto simp: starts_with_iff)
    moreover have "c # a \<noteq> paragraph_marker" using that by (metis append_self_conv)
    ultimately have "a = []" using assms(1) by simp
    then have "hd q = 33" using that by (auto simp: marker_units)
    then show ?thesis using assms(2) that(1) by (cases p; cases q) auto
  qed
  then show ?thesis using starts_with_append [of "c # a" p paragraph_marker] by auto
qed

lemma marker_append:
  assumes "tail_closed a" and "tail_closed p" and "p = [] \<or> hd p \<noteq> 33"
  shows "tail_closed (a @ p) \<and> marker_count (a @ p) = marker_count a + marker_count p"
  using assms
proof (induction a)
  case (Cons c a)
  have "starts_with paragraph_marker (c # a @ p) \<Longrightarrow> a @ p = [] \<or> c # a @ p = paragraph_marker"
  proof -
    assume s: "starts_with paragraph_marker (c # a @ p)"
    then have "starts_with paragraph_marker (c # a)" by (auto simp: starts_with_iff)
    then have "a = [] \<or> c # a = paragraph_marker" using Cons.prems(1) by simp
    then show ?thesis
    proof
      assume "a = []"
      with s Cons.prems(3) show ?thesis by (cases p) (auto simp: starts_with_iff marker_units)
    next
      assume "c # a = paragraph_marker"
      with s have "p = []" unfolding starts_with_iff
        by (metis append_Cons append_is_Nil_conv append_self_conv append_assoc)
      with \<open>c # a = paragraph_marker\<close> show ?thesis by simp
    qed
  qed
  moreover have "tail_closed (a @ p) \<and> marker_count (a @ p) = marker_count a + marker_count p"
    using Cons by simp
  ultimately show ?case using marker_boundary [OF Cons.prems(1,3)] by simp
qed simp

lemma no_open_marker:
  assumes "\<And>u v. s \<noteq> u @ 60 # 33 # v"
  shows "tail_closed s \<and> marker_count s = 0"
  using assms
proof (induction s)
  case (Cons c s)
  have s: "\<And>u v. s \<noteq> u @ 60 # 33 # v" using Cons.prems by (metis append_Cons)
  have "\<not> (c = 60 \<and> (\<exists>v. s = 33 # v))" using Cons.prems [of "[]"] by auto
  then show ?case using Cons.IH [OF s] by (cases s) (auto simp: marker_units starts_with_iff)
qed simp

lemma escape_units_no_open: "escape_units s \<noteq> u @ 60 # 33 # v"
proof (induction s arbitrary: u)
  case (Cons c s)
  show ?case
  proof
    assume eq: "escape_units (c # s) = u @ 60 # 33 # v"
    show False
    proof (cases "ascii_punctuation c")
      case True
      with eq have e: "92 # c # escape_units s = u @ 60 # 33 # v" by simp
      then obtain u' where u: "u = 92 # u'" by (cases u) auto
      show False
      proof (cases u')
        case Nil
        with e u have "escape_units s = 33 # v" by simp
        with hd_escape_units [of s] show False by simp
      next
        case (Cons d u'')
        with e u have "escape_units s = u'' @ 60 # 33 # v" by simp
        with Cons.IH show False by blast
      qed
    next
      case False
      with eq have e: "c # escape_units s = u @ 60 # 33 # v" by simp
      from False have "c \<noteq> 60" by (auto simp: ascii_punctuation_def)
      with e obtain u' where "u = c # u'" by (cases u) auto
      with e Cons.IH show False by simp
    qed
  qed
qed simp

lemmas escape_markers = no_open_marker [OF escape_units_no_open]

text \<open>A piece of output that adds \<open>n\<close> markers whatever precedes it.\<close>

definition adds_markers :: "nat \<Rightarrow> jstr \<Rightarrow> bool" where
  "adds_markers n p \<longleftrightarrow> tail_closed p \<and> (p = [] \<or> hd p \<noteq> 33) \<and> marker_count p = n"

lemma adds_markers_append: "adds_markers m p \<Longrightarrow> adds_markers n q \<Longrightarrow> adds_markers (m + n) (p @ q)"
  using marker_append [of p q] by (auto simp: adds_markers_def hd_append)

lemma adds_escape: "adds_markers 0 (escape_units s)"
  using escape_markers [of s] hd_escape_units [of s] by (simp add: adds_markers_def)

lemma adds_plain: "60 \<notin> set p \<Longrightarrow> p = [] \<or> hd p \<noteq> 33 \<Longrightarrow> adds_markers 0 p"
proof -
  assume "60 \<notin> set p" "p = [] \<or> hd p \<noteq> 33"
  moreover from this(1) have "p \<noteq> u @ 60 # 33 # v" for u v by auto
  ultimately show "adds_markers 0 p" using no_open_marker [of p] by (simp add: adds_markers_def)
qed

lemma adds_claimPrefix: "adds_markers 1 (claimPrefix presentation n)"
proof -
  have "adds_markers 1 paragraph_marker"
    by (simp add: adds_markers_def marker_units)
  moreover have "adds_markers 0 (dec_nat n)"
  proof (rule adds_plain)
    have digit: "is_digit c" if "c \<in> set (dec_nat n)" for c using dec_nat_digits that by blast
    show "60 \<notin> set (dec_nat n)" using digit [of 60] by (auto simp: is_digit_def)
    have "is_digit (hd (dec_nat n))" by (rule digit) simp
    then show "dec_nat n = [] \<or> hd (dec_nat n) \<noteq> 33" by (auto simp: is_digit_def)
  qed
  moreover have "adds_markers 0 (js '' -->'' @ 10 # claim_mark presentation)"
    by (rule adds_plain) (cases presentation; simp add: js_def)+
  moreover have "claimPrefix presentation n =
      (paragraph_marker @ dec_nat n) @ js '' -->'' @ 10 # claim_mark presentation"
    by (simp add: claimPrefix_def paragraph_marker_def)
  ultimately show ?thesis
    using adds_markers_append by (metis add.right_neutral)
qed

lemma adds_structure:
  assumes "structureBytes P presentation label = Inr bytes"
  shows "adds_markers 0 bytes"
proof -
  obtain "before" "after" where f: "structure_frame presentation = (before, after)" by fastforce
  then have "adds_markers 0 before" "adds_markers 0 after"
    by (cases presentation; auto simp: adds_markers_def marker_units js_def)+
  moreover have "bytes = before @ escape_units label @ after"
    using assms f by (auto simp: structureBytes_def escapePlainText_Inr_iff)
  ultimately show ?thesis
    using adds_markers_append [OF _ adds_markers_append [OF adds_escape]] by fastforce
qed

lemma adds_separator: "adds_markers 0 (separator_bytes token)"
  by (cases token) (auto intro!: adds_plain)

section \<open>The rendering loop\<close>

lemma unique_map_Inr:
  "unique_map key xs = Inr m \<Longrightarrow>
     distinct (map key xs) \<and> (\<forall>k x. m k = Some x \<longleftrightarrow> x \<in> set xs \<and> key x = k)"
proof (induction xs arbitrary: m)
  case (Cons x xs)
  then obtain m' where m': "unique_map key xs = Inr m'" "m' (key x) = None" "m = m'(key x \<mapsto> x)"
    by (auto simp: result_iffs)
  from Cons.IH [OF m'(1)]
  have ih: "distinct (map key xs)" "\<And>k x. m' k = Some x \<longleftrightarrow> x \<in> set xs \<and> key x = k" by auto
  have "key x \<notin> key ` set xs"
    using ih(2) m'(2) by (metis imageE option.distinct(1))
  moreover from this have "m k = Some z \<longleftrightarrow> z \<in> set (x # xs) \<and> key z = k" for k z
    using ih(2) [of k z] m'(2,3) by auto
  ultimately show ?case using ih(1) by auto
qed auto

text \<open>A rendered claim, against the verified claim of its ordinal and the text it stands in.\<close>

definition rendered_in :: "jstr \<Rightarrow> AtomicVerifiedClaimV1 \<Rightarrow> rendered_claim \<Rightarrow> bool" where
  "rendered_in t v c \<longleftrightarrow>
     rc_output_start c \<le> rc_output_end c \<and> rc_output_end c \<le> length t \<and>
     slice t (rc_output_start c) (rc_output_end c) = rc_rendered_claim_text c \<and>
     unescape_units (rc_rendered_claim_text c) = cc_source_claim_text_nfc (vc_base v) \<and>
     rc_candidate_claim_key c = vc_candidate_claim_key v \<and>
     rc_fragment_ordinal c = cc_ordinal (vc_base v)"

lemma rendered_in_append: "rendered_in t v c \<Longrightarrow> rendered_in (t @ u) v c"
  by (auto simp: rendered_in_def slice_def)

definition render_inv :: "render_maps \<Rightarrow> nat \<Rightarrow> render_state \<Rightarrow> bool" where
  "render_inv M n st \<longleftrightarrow>
     (\<forall>c \<in> set (rs_rendered st). rc_fragment_ordinal c < n \<and>
        (\<exists>v. rm_verified M (rc_fragment_ordinal c) = Some v \<and> rendered_in (rs_text st) v c)) \<and>
     sorted_wrt (\<lambda>a b. rc_output_end a \<le> rc_output_start b) (rs_rendered st) \<and>
     sorted_wrt (<) (map rc_fragment_ordinal (rs_rendered st)) \<and>
     tail_closed (rs_text st) \<and> marker_count (rs_text st) = length (rs_rendered st)"

lemma render_inv_append:
  assumes "render_inv M n st" and "adds_markers 0 p"
  shows "render_inv M (Suc n) (st\<lparr>rs_text := rs_text st @ p\<rparr>)"
proof -
  from assms(1) have "tail_closed (rs_text st)" by (simp add: render_inv_def)
  with assms(2) have "tail_closed (rs_text st @ p) \<and> marker_count (rs_text st @ p) = marker_count (rs_text st)"
    using marker_append [of "rs_text st" p] by (simp add: adds_markers_def)
  with assms(1) show ?thesis
    by (fastforce simp: render_inv_def intro: rendered_in_append less_SucI)
qed

lemma render_inv_claim:
  assumes "render_inv M n st" and "adds_markers 1 p" and "rm_verified M n = Some v"
    and "cc_ordinal (vc_base v) = n"
    and "escapePlainTextV1 P (cc_source_claim_text_nfc (vc_base v)) = Inr r"
  shows "render_inv M (Suc n) \<lparr>rs_text = (rs_text st @ p) @ r, rs_paragraph_ordinal = po, rs_consumed = co,
    rs_rendered = rs_rendered st @ [\<lparr>rc_candidate_claim_key = vc_candidate_claim_key v, rc_rendered_claim_text = r,
      rc_output_start = length (rs_text st @ p), rc_output_end = length (rs_text st @ p) + length r,
      rc_fragment_ordinal = n, rc_previous_structure_id = pr, rc_next_structure_id = ne\<rparr>]\<rparr>"
proof -
  have r: "r = escape_units (cc_source_claim_text_nfc (vc_base v))" using assms(5) by (simp add: escapePlainText_Inr_iff)
  have "adds_markers 1 (p @ r)" using adds_markers_append [OF assms(2) adds_escape] r by simp
  moreover have "tail_closed (rs_text st)" "marker_count (rs_text st) = length (rs_rendered st)"
    using assms(1) by (simp_all add: render_inv_def)
  ultimately have "tail_closed (rs_text st @ p @ r)" "marker_count (rs_text st @ p @ r) = Suc (length (rs_rendered st))"
    using marker_append [of "rs_text st" "p @ r"] by (simp_all add: adds_markers_def)
  moreover have "\<forall>c \<in> set (rs_rendered st). rc_output_end c \<le> length (rs_text st)"
    using assms(1) by (fastforce simp: render_inv_def rendered_in_def)
  moreover have "\<forall>c \<in> set (rs_rendered st). rc_fragment_ordinal c < Suc n \<and>
      (\<exists>v. rm_verified M (rc_fragment_ordinal c) = Some v \<and> rendered_in (rs_text st @ p @ r) v c)"
    using assms(1) by (fastforce simp: render_inv_def intro: rendered_in_append less_SucI)
  moreover have "sorted_wrt (\<lambda>a b. rc_output_end a \<le> rc_output_start b) (rs_rendered st)"
    "sorted_wrt (<) (map rc_fragment_ordinal (rs_rendered st))"
    "\<forall>c \<in> set (rs_rendered st). rc_fragment_ordinal c < n"
    using assms(1) by (simp_all add: render_inv_def)
  moreover have "slice (rs_text st @ p @ r) (length (rs_text st @ p)) (length (rs_text st @ p) + length r) = r"
    by (simp add: slice_def)
  ultimately show ?thesis
    using assms(3,4) r unfolding render_inv_def by (auto simp: sorted_wrt_append rendered_in_def [of _ v])
qed

lemma render_fragment_inv:
  assumes "render_inv M n st" and "render_fragment P M n f st = Inr st'"
    and "\<And>k v. rm_verified M k = Some v \<Longrightarrow> cc_ordinal (vc_base v) = k"
  shows "render_inv M (Suc n) st'"
proof -
  from assms(2) obtain fr where fr: "rm_fragments M f = Some fr"
    by (auto simp: render_fragment_def split: option.splits)
  show ?thesis
  proof (cases fr)
    case (Separator i token)
    with fr assms(2) have "st' = st\<lparr>rs_text := rs_text st @ separator_bytes token\<rparr>"
      by (simp add: render_fragment_def)
    then show ?thesis using render_inv_append [OF assms(1) adds_separator] by simp
  next
    case (StructureRef i sid pres)
    with fr assms(2) obtain bytes and entry :: render_context_entry where
        "structureBytes P (re_presentation entry) (re_label_nfc entry) = Inr bytes"
        "st' = st\<lparr>rs_text := rs_text st @ bytes\<rparr>"
      by (auto simp: render_fragment_def result_iffs split: option.splits if_splits)
    then show ?thesis using render_inv_append [OF assms(1) adds_structure] by simp
  next
    case (ClaimRef i cid pres)
    with fr assms(2) have "render_claim P M n cid pres st = Inr st'"
      by (simp add: render_fragment_def)
    then obtain v r where v: "rm_verified M n = Some v"
        "escapePlainTextV1 P (cc_source_claim_text_nfc (vc_base v)) = Inr r"
      and st': "st' = \<lparr>rs_text = (rs_text st @ claimPrefix pres (rs_paragraph_ordinal st + 1)) @ r,
        rs_paragraph_ordinal = rs_paragraph_ordinal st + 1, rs_consumed = cid # rs_consumed st,
        rs_rendered = rs_rendered st @ [\<lparr>rc_candidate_claim_key = vc_candidate_claim_key v, rc_rendered_claim_text = r,
          rc_output_start = length (rs_text st @ claimPrefix pres (rs_paragraph_ordinal st + 1)),
          rc_output_end = length (rs_text st @ claimPrefix pres (rs_paragraph_ordinal st + 1)) + length r,
          rc_fragment_ordinal = n, rc_previous_structure_id = cc_previous_structure_id (vc_base v),
          rc_next_structure_id = cc_next_structure_id (vc_base v)\<rparr>]\<rparr>"
      by (auto simp: render_claim_def Let_def result_iffs split: option.splits)
    show ?thesis
      unfolding st' by (rule render_inv_claim [OF assms(1) adds_claimPrefix v(1) assms(3) [OF v(1)] v(2)])
  qed
qed

lemma render_loop_inv:
  assumes "render_loop P M n ids st = Inr st'" and "render_inv M n st"
    and "\<And>k v. rm_verified M k = Some v \<Longrightarrow> cc_ordinal (vc_base v) = k"
  shows "render_inv M (n + length ids) st'"
  using assms(1,2)
proof (induction ids arbitrary: n st)
  case (Cons f ids)
  then obtain st1 where st1: "render_fragment P M n f st = Inr st1" "render_loop P M (Suc n) ids st1 = Inr st'"
    by auto
  show ?case using Cons.IH [OF st1(2) render_fragment_inv [OF Cons.prems(2) st1(1) assms(3)]] by simp
qed simp

lemma render_result:
  assumes "renderAtomicDraftV1 P verification entries = Inr r"
  obtains M st where "render_inv M (length (gd_ordering (vr_canonical_proposal verification))) st"
    and "\<And>k v. rm_verified M k = Some v \<longleftrightarrow> v \<in> set (vr_claims verification) \<and> cc_ordinal (vc_base v) = k"
    and "distinct (map (\<lambda>v. cc_ordinal (vc_base v)) (vr_claims verification))"
    and "ar_text r = rs_text st" and "ar_claims r = rs_rendered st"
    and "length (rs_rendered st) = length (vr_claims verification)"
proof -
  from assms obtain contexts fragments proposalClaims verified st where
      u: "unique_map (\<lambda>c. cc_ordinal (vc_base c)) (vr_claims verification) = Inr verified"
    and loop: "render_loop P \<lparr>rm_contexts = contexts, rm_fragments = fragments, rm_claims = proposalClaims, rm_verified = verified\<rparr>
       0 (gd_ordering (vr_canonical_proposal verification))
       \<lparr>rs_text = [], rs_paragraph_ordinal = 0, rs_consumed = [], rs_rendered = []\<rparr> = Inr st"
    and r: "ar_text r = rs_text st" "ar_claims r = rs_rendered st"
       "length (rs_rendered st) = length (vr_claims verification)"
    by (auto simp: renderAtomicDraftV1_def Let_def result_iffs)
  from unique_map_Inr [OF u]
  have m: "distinct (map (\<lambda>v. cc_ordinal (vc_base v)) (vr_claims verification))"
    "\<And>k v. verified k = Some v \<longleftrightarrow> v \<in> set (vr_claims verification) \<and> cc_ordinal (vc_base v) = k"
    by auto
  show thesis
    by (rule that [OF render_loop_inv [OF loop, simplified]]) (use m r in \<open>auto simp: render_inv_def\<close>)
qed

section \<open>Properties\<close>

lemma render_located:
  assumes "renderAtomicDraftV1 P verification entries = Inr r"
  shows "sorted_wrt (\<lambda>a b. rc_output_end a \<le> rc_output_start b) (ar_claims r) \<and>
    sorted_wrt (<) (map rc_fragment_ordinal (ar_claims r)) \<and>
    (\<forall>c \<in> set (ar_claims r). \<exists>v \<in> set (vr_claims verification). rendered_in (ar_text r) v c) \<and>
    (\<forall>v \<in> set (vr_claims verification). \<exists>c \<in> set (ar_claims r). rendered_in (ar_text r) v c)"
proof -
  from assms obtain M st where inv: "render_inv M (length (gd_ordering (vr_canonical_proposal verification))) st"
    and M: "\<And>k v. rm_verified M k = Some v \<longleftrightarrow> v \<in> set (vr_claims verification) \<and> cc_ordinal (vc_base v) = k"
    and d: "distinct (map (\<lambda>v. cc_ordinal (vc_base v)) (vr_claims verification))"
    and r: "ar_text r = rs_text st" "ar_claims r = rs_rendered st"
    and len: "length (rs_rendered st) = length (vr_claims verification)"
    by (rule render_result) blast
  have "\<exists>v \<in> set (vr_claims verification). rendered_in (ar_text r) v c" if "c \<in> set (ar_claims r)" for c
    using inv that M r by (fastforce simp: render_inv_def)
  moreover have sorted: "sorted_wrt (<) (map rc_fragment_ordinal (ar_claims r))"
    using inv r by (simp add: render_inv_def)
  ultimately have sub: "rc_fragment_ordinal ` set (ar_claims r) \<subseteq> (\<lambda>v. cc_ordinal (vc_base v)) ` set (vr_claims verification)"
    by (fastforce simp: rendered_in_def)
  have "distinct (map rc_fragment_ordinal (ar_claims r))"
    using sorted by (simp add: strict_sorted_iff)
  from distinct_card [OF this] distinct_card [OF d]
  have "card (rc_fragment_ordinal ` set (ar_claims r)) = card ((\<lambda>v. cc_ordinal (vc_base v)) ` set (vr_claims verification))"
    using len r by simp
  with sub have eq: "rc_fragment_ordinal ` set (ar_claims r) = (\<lambda>v. cc_ordinal (vc_base v)) ` set (vr_claims verification)"
    by (intro card_subset_eq) simp_all
  have "\<exists>c \<in> set (ar_claims r). rendered_in (ar_text r) v c" if v: "v \<in> set (vr_claims verification)" for v
  proof -
    from eq v obtain c where c: "c \<in> set (ar_claims r)" "cc_ordinal (vc_base v) = rc_fragment_ordinal c" by blast
    with inv r obtain w where "rm_verified M (rc_fragment_ordinal c) = Some w" "rendered_in (ar_text r) w c"
      by (auto simp: render_inv_def)
    moreover have "rm_verified M (rc_fragment_ordinal c) = Some v" using M v c(2) by simp
    ultimately show ?thesis using c(1) by auto
  qed
  with \<open>\<And>c. c \<in> set (ar_claims r) \<Longrightarrow> \<exists>v \<in> set (vr_claims verification). rendered_in (ar_text r) v c\<close>
  show ?thesis using inv r by (auto simp: render_inv_def)
qed

text \<open>
  C27: the result of a render records, for every verified claim and for nothing else, one rendered
  claim: its key, its ordinal, the position in the output where its escaped text stands, and the
  escaping can be undone.  The positions follow the order of the fragments and do not overlap.
\<close>

theorem rendered_claims_located:
  assumes "renderAtomicDraftV1 P verification entries = Inr r"
  shows "sorted_wrt (\<lambda>a b. rc_output_end a \<le> rc_output_start b) (ar_claims r) \<and>
    sorted_wrt (<) (map rc_fragment_ordinal (ar_claims r)) \<and>
    (\<forall>c \<in> set (ar_claims r). \<exists>v \<in> set (vr_claims verification). rendered_in (ar_text r) v c) \<and>
    (\<forall>v \<in> set (vr_claims verification). \<exists>c \<in> set (ar_claims r). rendered_in (ar_text r) v c)"
  using assms by (rule render_located)

text \<open>
  C20: the output holds as many paragraph markers as rendered claims: neither the text of a claim
  nor a label can forge a marker or complete one begun by its neighbour.
\<close>

theorem paragraph_markers_not_forged:
  assumes "renderAtomicDraftV1 P verification entries = Inr r"
  shows "marker_count (ar_text r) = length (ar_claims r)"
  using render_result [OF assms] by (metis render_inv_def)

section \<open>A concrete draft\<close>

definition demo_anchor :: "nat \<Rightarrow> nat \<Rightarrow> CanonicalTextAnchorV1" where
  "demo_anchor a b = \<lparr>ca_surface_nfc = slice (js ''A<!-- b'') a b, ca_start = a, ca_end = b\<rparr>"

definition demo_draft :: GroundedDraftProposal where
  "demo_draft =
     \<lparr>gd_status = DRAFT,
      gd_claims = [\<lparr>ac_proposal_claim_id = js ''c1'', ac_revision_of = None, ac_claim_text = js ''A<!-- b'',
        ac_fragment_id = js ''f3'', ac_span_end = 8,
        ac_subject = \<lparr>sa_surface = js ''A'', sa_start = 0, sa_end = 1\<rparr>,
        ac_predicate = \<lparr>sa_surface = js ''b'', sa_start = 7, sa_end = 8\<rparr>,
        ac_polarity = AFFIRMED, ac_quantifier = Q_PLAIN, ac_quantities = [], ac_evidence_ids = [js ''e1'']\<rparr>],
      gd_fragments = [StructureRef (js ''f1'') (js ''s1'') HEADING_2, Separator (js ''f2'') PARAGRAPH_BREAK,
        ClaimRef (js ''f3'') (js ''c1'') BULLET],
      gd_ordering = [js ''f1'', js ''f2'', js ''f3''], gd_material_gap = None\<rparr>"

definition demo_verification :: AtomicVerificationResult where
  "demo_verification =
     \<lparr>vr_decision = ALLOW, vr_canonical_proposal = demo_draft,
      vr_claims = [\<lparr>vc_candidate_claim_key = js ''key'',
        vc_base = \<lparr>cc_candidate_claim_key = js ''key'', cc_source_claim_text_nfc = js ''A<!-- b'',
          cc_subject_anchor = demo_anchor 0 1, cc_predicate_anchor = demo_anchor 7 8,
          cc_polarity = AFFIRMED, cc_quantifier = Q_PLAIN, cc_quantities = [], cc_evidence_ids = [js ''e1''],
          cc_ordinal = 2, cc_presentation = BULLET, cc_previous_structure_id = Some (js ''s1''),
          cc_next_structure_id = None, cc_revision_attempt = 0, cc_revision_of = None\<rparr>,
        vc_support_status = SUPPORTED, vc_verification_method = ATOMIC_EXTRACT_EXACT,
        vc_evidence_refs = [], vc_reason_codes = []\<rparr>],
      vr_material_gap_reason = None\<rparr>"

definition demo_context :: "render_context_entry list" where
  "demo_context = [\<lparr>re_structure_id = js ''s1'', re_source_kind = OUTLINE_SOURCE, re_source_id = js ''o'',
     re_source_version = js ''1'', re_label_nfc = js ''T!'', re_presentation = HEADING_2\<rparr>]"

lemma demo_render_claims:
  "(case renderAtomicDraftV1 plain_platform demo_verification demo_context of
      Inl _ \<Rightarrow> False
    | Inr r \<Rightarrow> ar_claims r = [\<lparr>rc_candidate_claim_key = js ''key'',
        rc_rendered_claim_text = [65, 92, 60, 92, 33, 92, 45, 92, 45, 32, 98],
        rc_output_start = 36, rc_output_end = 47, rc_fragment_ordinal = 2,
        rc_previous_structure_id = Some (js ''s1''), rc_next_structure_id = None\<rparr>])"
proof -
  have escaped: "escapePlainTextV1 plain_platform (js ''T!'') = Inr (js ''T'' @ [92, 33])"
    "escapePlainTextV1 plain_platform (js ''A<!-- b'') = Inr [65, 92, 60, 92, 33, 92, 45, 92, 45, 32, 98]"
    by (simp_all add: escapePlainTextV1_def hasForbiddenControl_def ascii_punctuation_def js_def)
  have label: "validateContextLabel plain_platform (js ''T!'') = Inr ()"
    by (simp add: validateContextLabel_def hasForbiddenControl_def js_includes_def utf8_length_def utf8_scalar_def js_def)
  have prefix: "length (claimPrefix BULLET (Suc 0)) = 28" by (simp add: claimPrefix_def js_def dec_nat.simps)
  show ?thesis
    by (simp add: renderAtomicDraftV1_def Let_def demo_verification_def demo_draft_def demo_context_def
        label escaped prefix render_fragment_def render_claim_def structureBytes_def)
qed

lemma demo_render:
  obtains r where "renderAtomicDraftV1 plain_platform demo_verification demo_context = Inr r"
    and "length (ar_claims r) = 1"
  using demo_render_claims by (fastforce split: sum.splits)

theorem rendered_claims_located_witness:
  "\<exists>r. renderAtomicDraftV1 plain_platform demo_verification demo_context = Inr r \<and>
     (\<exists>c \<in> set (ar_claims r). rendered_in (ar_text r) (hd (vr_claims demo_verification)) c)"
proof -
  obtain r where r: "renderAtomicDraftV1 plain_platform demo_verification demo_context = Inr r"
    by (rule demo_render)
  from rendered_claims_located [OF r] r show ?thesis by (auto simp: demo_verification_def)
qed

theorem paragraph_markers_not_forged_witness:
  "\<exists>r. renderAtomicDraftV1 plain_platform demo_verification demo_context = Inr r \<and> marker_count (ar_text r) = 1"
proof -
  obtain r where r: "renderAtomicDraftV1 plain_platform demo_verification demo_context = Inr r"
      "length (ar_claims r) = 1"
    by (rule demo_render)
  with paragraph_markers_not_forged [OF r(1)] show ?thesis by auto
qed

end
