(* ===== verification/SealedProps.thy ===== *)
theory SealedProps
  imports SealedRecovery AtomicVerifierProps AtomicRendererProps
begin

text \<open>
  What a sealed candidate is bound to: each of its claims is a verified claim, stands escaped at its
  recorded position of the output, and refers to evidence of the assignment whose snapshot is in
  the envelope; every digest is the digest of the part it is named after.
\<close>

section \<open>Steps of sealing\<close>

lemma digest_or_invalid_Inr [simp]: "digest_or_invalid P version v = Inr d \<longleftrightarrow> digestCanonicalV1 P version v = Inr d"
  by (auto simp: digest_or_invalid_def split: sum.splits)

lemma canonicalJson_Inr: "(\<exists>bs. canonicalJsonV1 P v = Inr bs) \<longleftrightarrow> canonicalizable (nfc P) v"
  by (simp only: canonicalJsonV1_Inr_iff) blast

lemma digest_canonicalizable: "digestCanonicalV1 P version v = Inr d \<Longrightarrow> canonicalizable (nfc P) v"
  unfolding canonicalJson_Inr [symmetric] by (auto simp: digestCanonicalV1_def split: if_splits)

lemma sameCanonical_Inr: "sameCanonical P v w \<longleftrightarrow> (\<exists>bs. canonicalJsonV1 P v = Inr bs \<and> canonicalJsonV1 P w = Inr bs)"
  by (auto simp: sameCanonical_def split: sum.splits)

lemma sameCanonical_refl: "canonicalizable (nfc P) v \<Longrightarrow> sameCanonical P v v"
  by (simp only: sameCanonical_Inr simp_thms canonicalJson_Inr)

lemma sameCanonical_norm:
  assumes "unicode_normalizer (nfc P)" and "js_units v" and "js_units w" and "sameCanonical P v w"
  shows "canon_norm (nfc P) v = canon_norm (nfc P) w"
proof -
  obtain bs where "canonicalJsonV1 P v = Inr bs" "canonicalJsonV1 P w = Inr bs"
    using assms(4) unfolding sameCanonical_Inr by blast
  note bytes = this [unfolded canonicalJsonV1_Inr_iff]
  then show ?thesis
    using canonical_canon_norm [OF assms(1) _ assms(2)] canonical_canon_norm [OF assms(1) _ assms(3)]
    by (intro canonical_bytes_inject) blast+
qed

lemma seal_claim_Inr:
  assumes "seal_claim P w verified output renderDigest evidence position = Inr sc"
  obtains v where "verified (rc_candidate_claim_key position) = Some v"
    and "rc_fragment_ordinal position = cc_ordinal (vc_base v)"
    and "assertClaimIdentity P w v = Inr ()"
    and "refs_match P evidence (sort (cc_evidence_ids (vc_base v))) (sort_key fst (vc_evidence_refs v))"
    and "sc_candidate_claim_key sc = vc_candidate_claim_key v"
    and "sc_canonical_claim sc = (vc_base v)\<lparr>cc_evidence_ids := sort (cc_evidence_ids (vc_base v))\<rparr>"
    and "sc_rendered_claim_text sc = rc_rendered_claim_text position"
    and "sc_output_start sc = rc_output_start position" and "sc_output_end sc = rc_output_end position"
    and "slice output (sc_output_start sc) (sc_output_end sc) = sc_rendered_claim_text sc"
    and "sc_verification_method sc = vc_verification_method v"
    and "sc_evidence_refs sc = sort_key fst (vc_evidence_refs v)"
    and "invariantDigest P (sc_canonical_claim sc) (Some (sc_rendered_claim_text sc)) (sc_evidence_refs sc) =
      Inr (sc_non_target_invariant_digest sc)"
    and "persistedClaimId P (sw_workflow_job_id w) renderDigest (sc_canonical_claim sc) (sc_rendered_claim_text sc)
      (sc_output_start sc) (sc_output_end sc) = Inr (sc_persisted_claim_id sc)"
proof -
  obtain v where v: "verified (rc_candidate_claim_key position) = Some v"
    using assms by (auto simp: seal_claim_def split: option.splits)
  show thesis
    by (rule that [OF v]) (use assms v in \<open>auto simp: seal_claim_def Let_def result_iffs\<close>)
qed

text \<open>What a successful seal has computed.\<close>

lemma seal_Inr:
  assumes "sealGroundedCandidateV1 P input = Inr c"
  obtains proposal rendered d snapshots where
    "vr_decision (si_verification input) = ALLOW"
    and "list_all (\<lambda>v. vc_support_status v = SUPPORTED \<and> vc_verification_method v \<in> {ATOMIC_EXTRACT_EXACT, ATOMIC_TYPED_EQUIVALENT})
      (vr_claims (si_verification input))"
    and "as_workflow_job_id (si_assignment input) = sw_workflow_job_id (si_workflow input)"
    and "as_project_id (si_assignment input) = sw_project_id (si_workflow input)"
    and "as_targeted_revision_attempts (si_assignment input) = int (sw_revision_attempt (si_workflow input))"
    and "sw_revision_attempt (si_workflow input) \<le> 1"
    and "0 \<le> sw_generation_attempt (si_workflow input)" and "sw_generation_attempt (si_workflow input) \<le> MAX_SAFE_INTEGER"
    and "as_snapshot_digest (si_assignment input) = JStr d" and "is_sha256 d"
    and "parse_draft P (draft_value (vr_canonical_proposal (si_verification input))) = Inr proposal"
    and "sortedRenderContext P (si_render_context input) = Inr (sg_render_context c)"
    and "distinct (map ev_evidence_id (as_evidence (si_assignment input)))"
    and "renderAtomicDraftV1 P ((si_verification input)\<lparr>vr_canonical_proposal := proposal\<rparr>) (sg_render_context c) = Inr rendered"
    and "buildSealedClaims P (si_workflow input) (vr_claims (si_verification input)) rendered (sd_render_digest (sg_digests c))
      (map_of (map (\<lambda>item. (ev_evidence_id item, item)) (as_evidence (si_assignment input)))) = Inr (sg_claims c)"
    and "mapE (seal_evidence P (map_of (map (\<lambda>item. (ev_evidence_id item, item)) (as_evidence (si_assignment input)))))
      (in_order_of_first (concat (map (\<lambda>c. map fst (sc_evidence_refs c)) (sg_claims c)))) = Inr snapshots"
    and "sg_evidence_snapshots c = sort_key se_evidence_id snapshots"
    and "sg_workflow c = (si_workflow input)\<lparr>sw_workflow_job_id := nfc P (sw_workflow_job_id (si_workflow input)),
      sw_project_id := nfc P (sw_project_id (si_workflow input))\<rparr>"
    and "sg_canonical_proposal c = proposal"
    and "sg_output_text c = ar_text rendered" and "sg_output_utf8_byte_length c = ar_utf8_byte_length rendered"
    and "sg_output_utf16_length c = ar_utf16_length rendered"
    and "digestCanonicalV1 P GROUNDED_DRAFT_SCHEMA_VERSION (draft_value proposal) = Inr (sd_proposal_digest (sg_digests c))"
    and "digestCanonicalV1 P APPROVED_RENDER_CONTEXT_VERSION (context_value (sg_render_context c)) =
      Inr (sd_render_context_digest (sg_digests c))"
    and "sd_render_digest (sg_digests c) = sha256Utf8 P (ATOMIC_RENDERER_VERSION @ 0 # sg_output_text c)"
    and "sd_assignment_digest (sg_digests c) = sha256Utf8 P (ATOMIC_GROUNDING_CONTRACT_VERSION @ 0 # d)"
    and "digestCanonicalV1 P ATOMIC_CLAIM_LEDGER_VERSION (JArr (map sealed_claim_value (sg_claims c))) =
      Inr (sd_ledger_digest (sg_digests c))"
    and "digestCanonicalV1 P SEALED_GROUNDED_CANDIDATE_VERSION (withoutEnvelopeDigest c) = Inr (sg_envelope_digest c)"
proof -
  from assms obtain verification renderContext d where
      ok: "validateSealInput P input = Inr (verification, renderContext, d)"
    by (auto simp: sealGroundedCandidateV1_def)
  then have dig: "as_snapshot_digest (si_assignment input) = JStr d" "is_sha256 d"
    by (auto simp: validateSealInput_def Let_def result_iffs split: jsval.splits sum.splits if_splits)
  obtain proposal where proposal: "parse_draft P (draft_value (vr_canonical_proposal (si_verification input))) = Inr proposal"
    using ok dig by (auto simp: validateSealInput_def Let_def result_iffs split: sum.splits)
  note input = ok [unfolded validateSealInput_def Let_def dig(1) jsval.case proposal sum.case, simplified result_iffs, simplified]
  have ver: "verification = (si_verification input)\<lparr>vr_canonical_proposal := proposal\<rparr>"
    and ctx: "sortedRenderContext P (si_render_context input) = Inr renderContext"
    using input by auto
  obtain rendered where rendered: "renderAtomicDraftV1 P verification renderContext = Inr rendered"
    using assms ok by (auto simp: sealGroundedCandidateV1_def Let_def result_iffs split: sum.splits)
  note seal = assms [unfolded sealGroundedCandidateV1_def ok bindE_simps prod.case Let_def rendered sum.case]
  from seal obtain snapshots where snapshots:
      "mapE (seal_evidence P (map_of (map (\<lambda>item. (ev_evidence_id item, item)) (as_evidence (si_assignment input)))))
        (in_order_of_first (concat (map (\<lambda>c. map fst (sc_evidence_refs c)) (sg_claims c)))) = Inr snapshots"
      "sg_evidence_snapshots c = sort_key se_evidence_id snapshots"
    by (auto simp: result_iffs)
  show thesis
    by (rule that [OF _ _ _ _ _ _ _ _ dig proposal _ _ _ _ snapshots])
      (use input seal rendered ctx in \<open>auto simp: ver result_iffs withoutEnvelopeDigest_def envelope_with_def list_ex_iff list_all_iff not_less\<close>)
qed

end
