(* ===== verification/SealedSupport.thy ===== *)
theory SealedSupport
  imports SealedProps
begin

text \<open>
  The verifier and the sealing step together: the claims of a sealed candidate answer the claims of
  the draft one by one, in the order of the output, and each stands on the evidence in the envelope.
\<close>

section \<open>A stored draft read again\<close>

lemma parsed_value_fits:
  assumes "parse_draft P (draft_value d) = Inr d'"
  shows "draft_fits P d"
proof -
  from assms obtain d0 where bytes: "assertProposalUtf8Bytes P (draft_value d) MAX_PROPOSAL_BYTES = Inr ()"
      and d0: "parseClosedProposalObject P (draft_value d) = Inr d0"
    by (auto simp: parse_draft_def)
  from d0 have claims: "map_indexed (parseClaim P) (map claim_value (gd_claims d)) = Inr (gd_claims d0)"
    by (auto simp: parseClosedProposalObject_def draft_value_def bindE_Inr_iff if_draft_fail_Inr closed_record_Inr
        bounded_array_Inr get_prop_def simp del: if_split)
  have "utf8_length (ac_claim_text c) \<le> MAX_CLAIM_TEXT_BYTES" if c: "c \<in> set (gd_claims d)" for c
  proof -
    from c obtain i where i: "i < length (gd_claims d)" "gd_claims d ! i = c" by (auto simp: in_set_conv_nth)
    then have "parseClaim P i (claim_value c) = Inr (gd_claims d0 ! i)"
      using claims by (auto simp: map_indexed_def mapE_Inr_iff list_all2_conv_all_nth nth_enumerate_eq)
    then obtain t where "claimText P (JStr (ac_claim_text c)) (at_index ''claims'' i @ js ''.claim_text'') = Inr t"
      by (auto simp: parseClaim_def claim_value_def Let_def bindE_Inr_iff if_draft_fail_Inr closed_record_Inr get_prop_def simp del: if_split)
    then show ?thesis by (simp add: claimText_Inr)
  qed
  with bytes show ?thesis by (simp add: draft_fits_def list_all_iff)
qed

lemma reparsed_same:
  "unicode_normalizer (nfc P) \<Longrightarrow> draft_ok P d \<Longrightarrow> parse_draft P (draft_value d) = Inr d' \<Longrightarrow> d' = d"
  using draft_value_parses parsed_value_fits by fastforce

section \<open>The claims in the order of the output\<close>

lemma render_in_order:
  assumes "renderAtomicDraftV1 P verification entries = Inr r"
    and "sorted_wrt (<) (map (\<lambda>v. cc_ordinal (vc_base v)) (vr_claims verification))"
  shows "list_all2 (rendered_in (ar_text r)) (vr_claims verification) (ar_claims r)"
proof -
  note loc = render_located [OF assms(1)]
  let ?o = "map (\<lambda>v. cc_ordinal (vc_base v)) (vr_claims verification)"
  have "set (map rc_fragment_ordinal (ar_claims r)) = set ?o"
    using loc by (force simp: rendered_in_def)
  then have eq: "map rc_fragment_ordinal (ar_claims r) = ?o"
    using loc assms(2) by (simp add: strict_sorted_iff sorted_distinct_set_unique)
  then have len: "length (ar_claims r) = length (vr_claims verification)" by (metis length_map)
  have "rendered_in (ar_text r) (vr_claims verification ! i) (ar_claims r ! i)" if i: "i < length (vr_claims verification)" for i
  proof -
    from i len loc obtain v where v: "v \<in> set (vr_claims verification)" "rendered_in (ar_text r) v (ar_claims r ! i)"
      by (metis nth_mem)
    then obtain j where j: "j < length (vr_claims verification)" "v = vr_claims verification ! j" by (auto simp: in_set_conv_nth)
    have "?o ! j = rc_fragment_ordinal (ar_claims r ! i)" using v(2) j by (simp add: rendered_in_def)
    also have "\<dots> = ?o ! i" using eq i len by (metis nth_map)
    finally have "i = j" 
      using i j(1) assms(2) nth_eq_iff_index_eq [of ?o i j] by (simp add: strict_sorted_iff)
    with v j show ?thesis by simp
  qed
  with len show ?thesis by (simp add: list_all2_conv_all_nth)
qed

lemma ordinals_increasing:
  assumes "draft_ok P d"
  shows "sorted_wrt (<) (map (\<lambda>c. ordinal_of (gd_ordering d) (ac_fragment_id c)) (gd_claims d))"
proof -
  have d: "map fragment_id (gd_fragments d) = gd_ordering d" "distinct (gd_ordering d)"
      "claim_refs (gd_fragments d) = map claim_pair (gd_claims d)"
    using assms by (simp_all add: draft_ok_def)
  from claim_refs_ordered [OF d(1,2)] show ?thesis by (simp add: d(3) comp_def strict_sorted_iff)
qed

text \<open>The base of a verified claim, from the draft.\<close>

lemma verified_as_base:
  assumes "verified_as P input proposal m claim v"
  shows "cc_ordinal (vc_base v) = ordinal_of (gd_ordering proposal) (ac_fragment_id claim)"
    and "cc_evidence_ids (vc_base v) = ac_evidence_ids claim"
    and "vc_candidate_claim_key v = cc_candidate_claim_key (vc_base v)"
    and "cc_revision_attempt (vc_base v) = vi_revision_attempt input"
    and "cc_revision_of (vc_base v) = ac_revision_of claim"
  using assms
  by (auto simp: verified_as_def canonicalClaimBase_def Let_def compared_claim_def split: option.splits if_splits)

lemma verified_ordinals:
  assumes "list_all2 (verified_as P input proposal m) (gd_claims proposal) vs" and "draft_ok P proposal"
  shows "sorted_wrt (<) (map (\<lambda>v. cc_ordinal (vc_base v)) vs)"
proof -
  have "map (\<lambda>v. cc_ordinal (vc_base v)) vs = map (\<lambda>c. ordinal_of (gd_ordering proposal) (ac_fragment_id c)) (gd_claims proposal)"
    using assms(1)
    by (intro nth_equalityI) (auto simp: list_all2_conv_all_nth dest!: spec intro: verified_as_base(1))
  with ordinals_increasing [OF assms(2)] show ?thesis by simp
qed

lemma starts_sorted:
  assumes "sorted_wrt (\<lambda>a b. rc_output_end a \<le> rc_output_start b) cs" and "\<forall>c \<in> set cs. rc_output_start c \<le> rc_output_end c"
  shows "sorted (map rc_output_start cs)"
  using assms by (induction cs) (auto intro: order_trans)

text \<open>What a sealed claim has of the verified one.\<close>

definition sealed_as :: "jstr \<Rightarrow> (jstr \<Rightarrow> AssignedEvidenceSnapshot option) \<Rightarrow> AtomicVerifiedClaimV1 \<Rightarrow> SealedClaimV1 \<Rightarrow> bool" where
  "sealed_as output evidence v sc \<longleftrightarrow>
     sc_candidate_claim_key sc = vc_candidate_claim_key v \<and>
     sc_canonical_claim sc = (vc_base v)\<lparr>cc_evidence_ids := sort (cc_evidence_ids (vc_base v))\<rparr> \<and>
     sc_verification_method sc = vc_verification_method v \<and>
     sc_evidence_refs sc = sort_key fst (vc_evidence_refs v) \<and>
     slice output (sc_output_start sc) (sc_output_end sc) = sc_rendered_claim_text sc \<and>
     unescape_units (sc_rendered_claim_text sc) = cc_source_claim_text_nfc (vc_base v) \<and>
     list_all (\<lambda>(i, d). \<exists>e. evidence i = Some e \<and> ev_snapshot_digest e = JStr d) (sc_evidence_refs sc)"

lemma sealed_start: "seal_claim P w verified output renderDigest evidence p = Inr sc \<Longrightarrow> sc_output_start sc = rc_output_start p"
  by (erule seal_claim_Inr)

lemma built_in_order:
  assumes build: "buildSealedClaims P w (vr_claims verification) rendered renderDigest evidence = Inr claims"
    and render: "renderAtomicDraftV1 P verification entries = Inr rendered"
    and ordered: "sorted_wrt (<) (map (\<lambda>v. cc_ordinal (vc_base v)) (vr_claims verification))"
  shows "list_all2 (sealed_as (ar_text rendered) evidence) (vr_claims verification) claims"
proof -
  note loc = render_located [OF render] and match = render_in_order [OF render ordered]
  let ?m = "map_of (map (\<lambda>c. (vc_candidate_claim_key c, c)) (vr_claims verification))"
  from build obtain cs where cs: "mapE (seal_claim P w ?m (ar_text rendered) renderDigest evidence) (ar_claims rendered) = Inr cs"
    and claims: "claims = sort_key sc_output_start cs" and d: "distinct (map vc_candidate_claim_key (vr_claims verification))"
    by (auto simp: buildSealedClaims_def result_iffs)
  have step: "list_all2 (\<lambda>p sc. seal_claim P w ?m (ar_text rendered) renderDigest evidence p = Inr sc) (ar_claims rendered) cs"
    using cs by (simp add: mapE_Inr_iff)
  have "map sc_output_start cs = map rc_output_start (ar_claims rendered)"
    using step by (intro nth_equalityI) (auto simp: list_all2_conv_all_nth elim: sealed_start)
  moreover have "\<forall>c \<in> set (ar_claims rendered). rc_output_start c \<le> rc_output_end c"
    using loc by (fastforce simp: rendered_in_def)
  ultimately have "sorted (map sc_output_start cs)" using loc starts_sorted by metis
  then have "claims = cs" by (simp add: claims sort_key_id_if_sorted)
  moreover have made: "sealed_as (ar_text rendered) evidence v sc"
    if v: "v \<in> set (vr_claims verification)" "rendered_in (ar_text rendered) v p"
      and sc: "seal_claim P w ?m (ar_text rendered) renderDigest evidence p = Inr sc" for v p sc
  proof -
    have key: "rc_candidate_claim_key p = vc_candidate_claim_key v"
        "unescape_units (rc_rendered_claim_text p) = cc_source_claim_text_nfc (vc_base v)"
      using v(2) by (simp_all add: rendered_in_def)
    have "?m (rc_candidate_claim_key p) = Some v"
      unfolding key using v(1) d by (intro map_of_is_SomeI) (auto simp: comp_def)
    with sc show ?thesis
      by (elim seal_claim_Inr) (auto simp: sealed_as_def key refs_match_def list_all_iff case_prod_beta split: option.splits)
  qed
  ultimately show ?thesis
    using match step made [OF nth_mem, of _ "ar_claims rendered ! _"] by (auto simp: list_all2_conv_all_nth)
qed

section \<open>Grounding of the output\<close>

text \<open>
  A sealed claim answers a claim of the draft: the text at its position is the escaped claim, it cites
  the evidence of the draft, and every piece is an assigned snapshot, bound by its digest, whose
  text supports the claim and is kept in the envelope.
\<close>

definition claim_grounded ::
    "platform \<Rightarrow> AssignedEvidenceSnapshot list \<Rightarrow> SealedGroundedCandidateV1 \<Rightarrow> AtomicClaimProposal \<Rightarrow> SealedClaimV1 \<Rightarrow> bool" where
  "claim_grounded P evidence c claim sc \<longleftrightarrow>
     unescape_units (slice (sg_output_text c) (sc_output_start sc) (sc_output_end sc)) = nfc P (ac_claim_text claim) \<and>
     sc_evidence_refs sc \<noteq> [] \<and> map fst (sc_evidence_refs sc) = ac_evidence_ids claim \<and>
     (\<forall>(i, d) \<in> set (sc_evidence_refs sc). \<exists>item \<in> set evidence. \<exists>t.
        ev_evidence_id item = i \<and> ev_snapshot_digest item = JStr d \<and> ev_exact_span_text item = JStr t \<and>
        supports P (sc_canonical_claim sc) t \<and>
        (\<exists>e \<in> set (sg_evidence_snapshots c). se_evidence_id e = nfc P i \<and> se_evidence_snapshot_digest e = d \<and>
           se_exact_span_text_nfc e = nfc P t))"

lemma sealedEvidence_Inr:
  assumes "sealedEvidence P item = Inr e"
  shows "se_evidence_id e = nfc P (ev_evidence_id item)"
    and "ev_snapshot_digest item = JStr (se_evidence_snapshot_digest e)"
    and "\<exists>t. ev_exact_span_text item = JStr t \<and> se_exact_span_text_nfc e = nfc P t"
proof -
  from assms obtain d t where "ev_snapshot_digest item = JStr d" "ev_exact_span_text item = JStr t"
    by (auto simp: sealedEvidence_def split: jsval.splits)
  with assms show "se_evidence_id e = nfc P (ev_evidence_id item)"
    "ev_snapshot_digest item = JStr (se_evidence_snapshot_digest e)"
    "\<exists>t. ev_exact_span_text item = JStr t \<and> se_exact_span_text_nfc e = nfc P t"
    by (auto simp: sealedEvidence_def result_iffs)
qed

lemma set_in_order_of_first [simp]: "set (in_order_of_first xs) = set xs"
  by (simp add: in_order_of_first_def)

lemma snapshot_kept:
  assumes "mapE (seal_evidence P m) (in_order_of_first ids) = Inr snapshots" and "i \<in> set ids"
  obtains item e where "m i = Some item" and "e \<in> set snapshots" and "sealedEvidence P item = Inr e"
proof -
  from assms(2) obtain k where "k < length (in_order_of_first ids)" "in_order_of_first ids ! k = i"
    by (metis in_set_conv_nth set_in_order_of_first)
  with assms(1) have "seal_evidence P m i = Inr (snapshots ! k)" "snapshots ! k \<in> set snapshots"
    by (auto simp: mapE_Inr_iff list_all2_conv_all_nth)
  then show thesis using that by (auto simp: seal_evidence_def split: option.splits)
qed

lemma supports_order: "supports P (c\<lparr>cc_evidence_ids := ids\<rparr>) t = supports P c t"
  by (simp add: supports_def)

lemma sealed_claim_grounded:
  fixes a :: GroundingAssignmentSnapshot
  defines "m \<equiv> map_of (map (\<lambda>item. (ev_evidence_id item, item)) (as_evidence a))"
  assumes ids: "sorted (ac_evidence_ids claim)" and sup: "claim_supported P vin claim v"
    and sc: "sealed_as (sg_output_text c) m v sc" "sc \<in> set (sg_claims c)"
    and evidence: "vi_evidence vin = as_evidence a" "distinct (map ev_evidence_id (as_evidence a))"
    and snaps: "mapE (seal_evidence P m) (in_order_of_first (concat (map (\<lambda>c. map fst (sc_evidence_refs c)) (sg_claims c)))) = Inr snapshots"
      "sg_evidence_snapshots c = sort_key se_evidence_id snapshots"
  shows "claim_grounded P (as_evidence a) c claim sc"
proof -
  have fst: "map fst (vc_evidence_refs v) = ac_evidence_ids claim" "vc_evidence_refs v \<noteq> []"
    using sup by (simp_all add: claim_supported_def)
  then have refs: "sc_evidence_refs sc = vc_evidence_refs v" using sc ids by (simp add: sealed_as_def sort_key_id_if_sorted)
  have cited: "\<forall>x \<in> set (vc_evidence_refs v). \<exists>item \<in> set (as_evidence a). ev_evidence_id item = fst x \<and>
      ev_snapshot_digest item = JStr (snd x) \<and> (\<exists>t. ev_exact_span_text item = JStr t \<and> supports P (vc_base v) t)"
    using sup unfolding claim_supported_def evidence(1) by (simp add: case_prod_beta) blast
  have "\<exists>item \<in> set (as_evidence a). \<exists>t. ev_evidence_id item = i \<and> ev_snapshot_digest item = JStr d \<and>
      ev_exact_span_text item = JStr t \<and> supports P (sc_canonical_claim sc) t \<and>
      (\<exists>e \<in> set (sg_evidence_snapshots c). se_evidence_id e = nfc P i \<and> se_evidence_snapshot_digest e = d \<and>
         se_exact_span_text_nfc e = nfc P t)" if i: "(i, d) \<in> set (sc_evidence_refs sc)" for i d
  proof -
    from cited i obtain item t where item: "item \<in> set (as_evidence a)" "ev_evidence_id item = i"
        "ev_snapshot_digest item = JStr d" "ev_exact_span_text item = JStr t" "supports P (vc_base v) t"
      unfolding refs by (metis fst_conv snd_conv)
    have "i \<in> set (concat (map (\<lambda>c. map fst (sc_evidence_refs c)) (sg_claims c)))" using i sc(2) by force
    from snapshot_kept [OF snaps(1) this] obtain item' e where e: "m i = Some item'" "e \<in> set snapshots"
        "sealedEvidence P item' = Inr e" by metis
    have "m i = Some item"
      unfolding m_def using evidence(2) item(1,2) by (intro map_of_is_SomeI) (auto simp: comp_def)
    then have "sealedEvidence P item = Inr e" using e(1,3) by simp
    from sealedEvidence_Inr [OF this] item(2-4) have "se_evidence_id e = nfc P i" "se_evidence_snapshot_digest e = d"
        "se_exact_span_text_nfc e = nfc P t" by auto
    moreover have "supports P (sc_canonical_claim sc) t" using item(5) sc(1) by (simp add: sealed_as_def supports_order)
    moreover have "e \<in> set (sg_evidence_snapshots c)" using e(2) by (simp add: snaps(2))
    ultimately show ?thesis using item(1-4) by blast
  qed
  moreover have "unescape_units (slice (sg_output_text c) (sc_output_start sc) (sc_output_end sc)) = nfc P (ac_claim_text claim)"
    using sc(1) sup by (simp add: sealed_as_def claim_supported_def)
  ultimately show ?thesis using fst refs unfolding claim_grounded_def by (simp add: case_prod_beta)
qed

text \<open>The claims of the draft, the verified claims and the sealed claims correspond one by one.\<close>

lemma seal_aligned:
  assumes nf: "unicode_normalizer (nfc P)" and ok: "draft_ok P (vr_canonical_proposal r)" and ver: "verify P vin = Inr r"
    and seal: "sealGroundedCandidateV1 P \<lparr>si_workflow = w, si_verification = r, si_assignment = a, si_render_context = ctx\<rparr> = Inr c"
  shows "vr_decision r = ALLOW" and "parse_draft P (draft_value (vr_canonical_proposal r)) = Inr (vr_canonical_proposal r)"
    and "sg_canonical_proposal c = vr_canonical_proposal r"
    and "list_all2 (sealed_as (sg_output_text c) (map_of (map (\<lambda>item. (ev_evidence_id item, item)) (as_evidence a)))) (vr_claims r) (sg_claims c)"
proof -
  let ?m = "map_of (map (\<lambda>item. (ev_evidence_id item, item)) (as_evidence a))"
  from seal obtain proposal rendered where allow: "vr_decision r = ALLOW"
      and reparse: "parse_draft P (draft_value (vr_canonical_proposal r)) = Inr proposal"
      and render: "renderAtomicDraftV1 P (r\<lparr>vr_canonical_proposal := proposal\<rparr>) (sg_render_context c) = Inr rendered"
      and build: "buildSealedClaims P w (vr_claims r) rendered (sd_render_digest (sg_digests c)) ?m = Inr (sg_claims c)"
      and sealed: "sg_canonical_proposal c = proposal" "sg_output_text c = ar_text rendered"
    by (rule seal_Inr) simp
  have same: "proposal = vr_canonical_proposal r" by (rule reparsed_same [OF nf ok reparse])
  have made: "list_all2 (sealed_as (ar_text rendered) ?m) (vr_claims r) (sg_claims c)"
    using built_in_order [OF _ render] build verified_ordinals [OF _ ok] verify_allow [OF ver allow] by auto
  show "vr_decision r = ALLOW" "parse_draft P (draft_value (vr_canonical_proposal r)) = Inr (vr_canonical_proposal r)"
    "sg_canonical_proposal c = vr_canonical_proposal r" "list_all2 (sealed_as (sg_output_text c) ?m) (vr_claims r) (sg_claims c)"
    using allow reparse same made sealed by simp_all
qed

text \<open>
  C15: what is sealed is grounded.  If the verifier allows a draft and the result is sealed against
  the same assignment, then the claims of the candidate answer the claims of its canonical draft one by
  one: the output holds each claim at the recorded position, and each piece of evidence it cites is an
  assigned snapshot, bound by its digest, kept in the envelope, that supports the claim.
\<close>

theorem sealed_claims_grounded:
  assumes "unicode_normalizer (nfc P)" and "js_units (vi_proposal vin)"
    and "verify P vin = Inr r"
    and "sealGroundedCandidateV1 P \<lparr>si_workflow = w, si_verification = r, si_assignment = a, si_render_context = ctx\<rparr> = Inr c"
    and "vi_evidence vin = as_evidence a"
  shows "parse_draft P (vi_proposal vin) = Inr (sg_canonical_proposal c) \<and>
    list_all2 (claim_grounded P (as_evidence a) c) (gd_claims (sg_canonical_proposal c)) (sg_claims c)"
proof -
  let ?m = "map_of (map (\<lambda>item. (ev_evidence_id item, item)) (as_evidence a))"
  from assms(4) have allow: "vr_decision r = ALLOW" by (rule seal_Inr) simp
  from verify_supported [OF assms(3) allow] have parse: "parse_draft P (vi_proposal vin) = Inr (vr_canonical_proposal r)"
    and sup: "list_all2 (claim_supported P vin) (gd_claims (vr_canonical_proposal r)) (vr_claims r)" by auto
  have ok: "draft_ok P (vr_canonical_proposal r)" by (rule parse_draft_contract [OF assms(1,2) parse])
  note aligned = seal_aligned [OF assms(1) ok assms(3,4)]
  from assms(4) obtain snapshots where dist: "distinct (map ev_evidence_id (as_evidence a))"
      and snaps: "mapE (seal_evidence P ?m) (in_order_of_first (concat (map (\<lambda>c. map fst (sc_evidence_refs c)) (sg_claims c)))) = Inr snapshots"
        "sg_evidence_snapshots c = sort_key se_evidence_id snapshots"
    by (rule seal_Inr) simp
  have "list_all2 (claim_grounded P (as_evidence a) c) (gd_claims (vr_canonical_proposal r)) (sg_claims c)"
  proof (rule list_all2_all_nthI)
    show "length (gd_claims (vr_canonical_proposal r)) = length (sg_claims c)" using sup aligned(4) by (simp add: list_all2_conv_all_nth)
    fix i assume i: "i < length (gd_claims (vr_canonical_proposal r))"
    then have "sorted (ac_evidence_ids (gd_claims (vr_canonical_proposal r) ! i))"
      using ok nth_mem [OF i] by (simp add: draft_ok_def list_all_iff claim_ok_def claim_fields_ok_def)
    moreover have "claim_supported P vin (gd_claims (vr_canonical_proposal r) ! i) (vr_claims r ! i)"
      "sealed_as (sg_output_text c) ?m (vr_claims r ! i) (sg_claims c ! i)" "sg_claims c ! i \<in> set (sg_claims c)"
      using sup aligned(4) i by (simp_all add: list_all2_conv_all_nth)
    ultimately show "claim_grounded P (as_evidence a) c (gd_claims (vr_canonical_proposal r) ! i) (sg_claims c ! i)"
      by (rule sealed_claim_grounded [OF _ _ _ _ assms(5) dist snaps])
  qed
  with parse aligned(3) show ?thesis by simp
qed

end
