(* ===== verification/CheckpointRoundtrip.thy ===== *)
theory CheckpointRoundtrip
  imports SealedSupport
begin

text \<open>
  The closed parser of a checkpoint reads back the envelope that the sealing step writes: every
  field of the candidate's value is parsed to what it was made of.
\<close>

section \<open>Values that can be read back\<close>

text \<open>Every string is in NFC and every number is a safe integer.\<close>

fun readable :: "(jstr \<Rightarrow> jstr) \<Rightarrow> jsval \<Rightarrow> bool" where
  "readable nf (JStr s) = (nf s = s)"
| "readable nf (JNum n) = is_safe_integer (JNum n)"
| "readable nf (JArr vs) = (\<forall>v \<in> set vs. readable nf v)"
| "readable nf (JObj kvs) = (\<forall>kv \<in> set kvs. readable nf (snd kv))"
| "readable nf _ = True"

lemma read_string [simp]: "candidate_string P (JStr s) = (if nfc P s = s then Inr s else Inl InvalidCandidate)"
  by (simp add: candidate_string_def)

lemma read_digest [simp]: "nfc P d = d \<Longrightarrow> is_sha256 d \<Longrightarrow> candidate_digest P (JStr d) = Inr d"
  by (simp add: candidate_digest_def)

lemma read_integer:
  "safeNonNegativeInteger (num_value n) = (if readable nf (num_value n) then Inr n else Inl InvalidCandidate)"
  by (simp add: safeNonNegativeInteger_def num_value_def)

lemma read_int: "int_value n = num_value n" "opt_value x = option_value x"
  by (simp_all add: int_value_def num_value_def opt_value_def option_value_def split: option.split)

lemma read_nullable [simp]:
  "readable (nfc P) (option_value x) \<Longrightarrow> nullable_candidate_string P (option_value x) = Inr x"
  by (auto simp: nullable_candidate_string_def option_value_def split: option.splits)

lemma read_rank: "nullableRank (nat_value n) = (if readable nf (nat_value n) then Inr n else Inl InvalidCandidate)"
  by (auto simp: nullableRank_def nat_value_def num_value_def safeNonNegativeInteger_def split: option.splits)

lemma read_enum:
  assumes "unicode_normalizer (nfc P)"
  shows "enumString P (JStr (js (polarity_text p))) polarities polarity_text = Inr p"
    and "enumString P (JStr (js (quantifier_text q))) quantifiers quantifier_text = Inr q"
    and "enumString P (JStr (js (comparator_text c))) comparators comparator_text = Inr c"
    and "enumString P (JStr (js (dimension_text d))) dimensions dimension_text = Inr d"
    and "enumString P (JStr (js (claim_presentation_text s))) presentations claim_presentation_text = Inr s"
    and "enumString P (JStr (js (sealed_type_text w))) workflow_types sealed_type_text = Inr w"
proof -
  note nf = ascii_nfc [OF assms]
  show "enumString P (JStr (js (polarity_text p))) polarities polarity_text = Inr p"
    by (cases p) (simp_all add: enumString_def nf polarities_def js_simps)
  show "enumString P (JStr (js (quantifier_text q))) quantifiers quantifier_text = Inr q"
    by (cases q) (simp_all add: enumString_def nf quantifiers_def js_simps)
  show "enumString P (JStr (js (comparator_text c))) comparators comparator_text = Inr c"
    by (cases c) (simp_all add: enumString_def nf comparators_def js_simps)
  show "enumString P (JStr (js (dimension_text d))) dimensions dimension_text = Inr d"
    by (cases d) (simp_all add: enumString_def nf dimensions_def js_simps)
  show "enumString P (JStr (js (claim_presentation_text s))) presentations claim_presentation_text = Inr s"
    by (cases s) (simp_all add: enumString_def nf presentations_def js_simps)
  show "enumString P (JStr (js (sealed_type_text w))) workflow_types sealed_type_text = Inr w"
    by (cases w) (simp_all add: enumString_def nf workflow_types_def js_simps)
qed

lemma read_method:
  assumes "unicode_normalizer (nfc P)" and "m \<in> {ATOMIC_EXTRACT_EXACT, ATOMIC_TYPED_EQUIVALENT}"
  shows "enumString P (JStr (js (method_text m))) [ATOMIC_EXTRACT_EXACT, ATOMIC_TYPED_EQUIVALENT] method_text = Inr m"
proof -
  note nf = ascii_nfc [OF assms(1)]
  show ?thesis using assms(2) by (cases m) (simp_all add: enumString_def nf js_simps)
qed

lemmas read_back = candidate_record_def candidate_array_def candidate_bool_def get_prop_def read_int

section \<open>Claims\<close>

lemma read_anchor: "readable (nfc P) (stored_anchor a) \<Longrightarrow> parse_sealed_anchor P (stored_anchor a) = Inr a"
  by (simp add: parse_sealed_anchor_def stored_anchor_def read_back read_integer [of _ "nfc P"])

lemma read_quantity:
  "unicode_normalizer (nfc P) \<Longrightarrow> readable (nfc P) (stored_quantity q) \<Longrightarrow> parse_sealed_quantity P (stored_quantity q) = Inr q"
  by (simp add: parse_sealed_quantity_def stored_quantity_def QUANTITY_FIELDS_def read_back read_enum read_integer [of _ "nfc P"])

lemma read_strings: "readable (nfc P) (JArr (map JStr xs)) \<Longrightarrow> mapE (candidate_string P) (map JStr xs) = Inr xs"
  by (induction xs) auto

lemma read_list: "(\<And>x. x \<in> set xs \<Longrightarrow> parse (val x) = Inr x) \<Longrightarrow> mapE parse (map val xs) = Inr xs"
  by (induction xs) auto

lemma read_claim_base:
  assumes "unicode_normalizer (nfc P)" and "readable (nfc P) (canonical_claim_value c (Some t))" and "cc_revision_attempt c \<le> 1"
  shows "parseCanonicalClaim P (canonical_claim_value c (Some t)) = Inr (c, t)"
proof -
  have parts: "readable (nfc P) (stored_anchor (cc_subject_anchor c))" "readable (nfc P) (stored_anchor (cc_predicate_anchor c))"
      "\<forall>q \<in> set (cc_quantities c). readable (nfc P) (stored_quantity q)" "readable (nfc P) (JArr (map JStr (cc_evidence_ids c)))"
      "nfc P t = t" "nfc P (cc_candidate_claim_key c) = cc_candidate_claim_key c"
      "nfc P (cc_source_claim_text_nfc c) = cc_source_claim_text_nfc c"
      "readable (nfc P) (num_value (cc_ordinal c))" "readable (nfc P) (num_value (cc_revision_attempt c))"
      "readable (nfc P) (option_value (cc_previous_structure_id c))" "readable (nfc P) (option_value (cc_next_structure_id c))"
      "readable (nfc P) (option_value (cc_revision_of c))"
    using assms(2) by (simp_all add: canonical_claim_value_def claim_base_entries_def revision_entry_def rendered_entries_def)
  have "mapE (parse_sealed_quantity P) (map stored_quantity (cc_quantities c)) = Inr (cc_quantities c)"
    using parts(3) by (intro read_list read_quantity assms(1)) simp
  moreover have "cc_revision_attempt c = 0 \<or> cc_revision_attempt c = 1" using assms(3) by linarith
  ultimately show ?thesis
    using parts read_strings [OF parts(4)]
    by (simp add: parseCanonicalClaim_def canonical_claim_value_def claim_base_entries_def revision_entry_def rendered_entries_def
        CLAIM_FIELDS_def read_back read_enum [OF assms(1)] read_anchor read_integer [of _ "nfc P"])
qed

definition refs_readable :: "platform \<Rightarrow> (jstr \<times> jstr) list \<Rightarrow> bool" where
  "refs_readable P refs \<longleftrightarrow> (\<forall>(i, d) \<in> set refs. nfc P i = i \<and> nfc P d = d \<and> is_sha256 d)"

lemma read_refs:
  "refs_readable P refs \<Longrightarrow> mapE (parseEvidenceRef P)
     (map (\<lambda>(i, d). JObj [(js ''evidence_id'', JStr i), (js ''evidence_snapshot_digest'', JStr d)]) refs) = Inr refs"
  by (intro read_list) (auto simp: refs_readable_def parseEvidenceRef_def read_back)

definition claim_readable :: "platform \<Rightarrow> SealedClaimV1 \<Rightarrow> bool" where
  "claim_readable P c \<longleftrightarrow>
     readable (nfc P) (canonical_claim_value (sc_canonical_claim c) (Some (sc_rendered_claim_text c))) \<and>
     cc_revision_attempt (sc_canonical_claim c) \<le> 1 \<and> nfc P (sc_candidate_claim_key c) = sc_candidate_claim_key c \<and>
     is_sha256 (sc_persisted_claim_id c) \<and> is_sha256 (sc_non_target_invariant_digest c) \<and>
     readable (nfc P) (num_value (sc_output_start c)) \<and> readable (nfc P) (num_value (sc_output_end c)) \<and>
     sc_verification_method c \<in> {ATOMIC_EXTRACT_EXACT, ATOMIC_TYPED_EQUIVALENT} \<and> refs_readable P (sc_evidence_refs c)"

lemma sha256_ascii: "is_sha256 d \<Longrightarrow> \<forall>c \<in> set d. c < 128"
  by (auto simp: is_sha256_def list_all_iff lower_hex_def is_digit_def)

lemma sha256_nfc: "unicode_normalizer (nfc P) \<Longrightarrow> is_sha256 d \<Longrightarrow> nfc P d = d"
  by (intro ascii_nfc sha256_ascii)

lemma read_sha256: "unicode_normalizer (nfc P) \<Longrightarrow> is_sha256 d \<Longrightarrow> candidate_digest P (JStr d) = Inr d"
  by (simp add: sha256_nfc)

lemma read_sealed_claim:
  assumes "unicode_normalizer (nfc P)" and "claim_readable P c"
  shows "parseSealedClaim P (sealed_claim_value c) = Inr c"
  using assms read_claim_base [OF assms(1), of "sc_canonical_claim c" "sc_rendered_claim_text c"] read_refs [of P "sc_evidence_refs c"]
  by (simp add: parseSealedClaim_def sealed_claim_value_def SEALED_CLAIM_FIELDS_def evidence_refs_value_def read_back
      read_method read_sha256 claim_readable_def read_integer [of _ "nfc P"])

section \<open>Evidence snapshots\<close>

definition snapshot_readable :: "platform \<Rightarrow> SealedEvidenceSnapshotV1 \<Rightarrow> bool" where
  "snapshot_readable P e \<longleftrightarrow>
     readable (nfc P) (sealed_evidence_value (e\<lparr>se_index_snapshot := JNull\<rparr>)) \<and> is_object (se_index_snapshot e) \<and>
     canonicalizable (nfc P) (se_index_snapshot e) \<and> is_sha256 (se_evidence_snapshot_digest e)"

lemma read_snapshot:
  assumes "unicode_normalizer (nfc P)" and "snapshot_readable P e"
  shows "parseEvidenceSnapshot P (sealed_evidence_value e) = Inr e"
proof -
  obtain bs where "canonicalJsonV1 P (se_index_snapshot e) = Inr bs"
    using assms(2) canonicalJson_Inr by (auto simp: snapshot_readable_def)
  then show ?thesis
    using assms
    by (simp add: parseEvidenceSnapshot_def sealed_evidence_value_def EVIDENCE_FIELDS_def SCORE_FIELDS_def read_back
        read_sha256 snapshot_readable_def read_integer [of _ "nfc P"] read_rank [of _ "nfc P"])
qed

end
