(* ===== verification/SealedDemo.thy ===== *)
theory SealedDemo
  imports SealedSupport CheckpointRoundtrip
begin

text \<open>
  A concrete candidate: the draft \<open>A=5kW\<close> under one heading, verified against its two pieces of
  evidence, rendered and sealed.
\<close>

definition atom_entry :: render_context_entry where
  "atom_entry =
     \<lparr>re_structure_id = js ''s1'', re_source_kind = OUTLINE_SOURCE, re_source_id = js ''o'',
      re_source_version = js ''1'', re_label_nfc = js ''T!'', re_presentation = HEADING_1\<rparr>"

definition atom_assignment :: GroundingAssignmentSnapshot where
  "atom_assignment =
     \<lparr>as_workflow_job_id = js ''w'', as_project_id = js ''p'', as_retrieval_run_id = js ''r'', as_retrieval_run_refs = None,
      as_retrieval_state = READY, as_contract_version = ATOMIC_GROUNDING_CONTRACT_VERSION, as_strict_mode = True,
      as_targeted_revision_attempts = 0, as_snapshot_digest = JStr (replicate 64 98),
      as_evidence = vi_evidence atom_input\<rparr>"

definition atom_workflow :: sealed_workflow where
  "atom_workflow =
     \<lparr>sw_workflow_job_id = js ''w'', sw_project_id = js ''p'', sw_workflow_type = CONTENT_WORKFLOW,
      sw_generation_attempt = 1, sw_revision_attempt = 0\<rparr>"

definition atom_base :: CanonicalClaimBase where
  "atom_base =
     \<lparr>cc_candidate_claim_key = sealed_claim_key plain_platform (js ''w'') 1 1,
      cc_source_claim_text_nfc = js ''A=5kW'',
      cc_subject_anchor = \<lparr>ca_surface_nfc = js ''A'', ca_start = 0, ca_end = 1\<rparr>,
      cc_predicate_anchor = \<lparr>ca_surface_nfc = js ''='', ca_start = 1, ca_end = 2\<rparr>,
      cc_polarity = AFFIRMED, cc_quantifier = Q_PLAIN,
      cc_quantities = [toPublicQuantity (demo_quantity (js ''5kW'') (js ''5'') (js ''kW''))],
      cc_evidence_ids = [js ''e1'', js ''e2''], cc_ordinal = 1, cc_presentation = SENTENCE,
      cc_previous_structure_id = Some (js ''s1''), cc_next_structure_id = None,
      cc_revision_attempt = 0, cc_revision_of = None\<rparr>"

definition atom_verdict :: AtomicVerifiedClaimV1 where
  "atom_verdict =
     \<lparr>vc_candidate_claim_key = cc_candidate_claim_key atom_base, vc_base = atom_base, vc_support_status = SUPPORTED,
      vc_verification_method = ATOMIC_TYPED_EQUIVALENT,
      vc_evidence_refs = [(js ''e1'', replicate 64 97), (js ''e2'', replicate 64 97)], vc_reason_codes = []\<rparr>"

definition atom_result :: AtomicVerificationResult where
  "atom_result =
     \<lparr>vr_decision = ALLOW, vr_canonical_proposal = atom_draft, vr_claims = [atom_verdict], vr_material_gap_reason = None\<rparr>"

lemma key_preimage: "candidateClaimKey plain_platform (js ''w'') 1 1 = sealed_claim_key plain_platform (js ''w'') 1 1"
  by (simp add: candidateClaimKey_def sealed_claim_key_def sha256Utf8_def CANDIDATE_CLAIM_KEY_VERSION_def js_def
      dec_int_def dec_nat.simps utf8_scalar_def)

lemma atom_neighbours:
  "ordinal_of (gd_ordering atom_draft) (ac_fragment_id atom_claim) = 1"
  "claim_ref_presentation (gd_fragments atom_draft) (ac_fragment_id atom_claim) = Some SENTENCE"
  "previous_structure atom_draft 1 = Some (js ''s1'')" "next_structure atom_draft 1 = None"
  by (simp_all add: atom_draft_def atom_claim_def ordinal_of_def previous_structure_def next_structure_def
      fragment_map_def js_def)

lemma atom_result: "verify plain_platform atom_input = Inr atom_result"
proof -
  have "canonicalClaimBase plain_platform atom_input atom_draft atom_claim atom_recomputed = Inr atom_base"
    using atom_neighbours key_preimage
    by (simp add: canonicalClaimBase_def Let_def)
       (simp add: atom_draft_def atom_claim_def Let_def atom_base_def atom_recomputed_def atom_input_def text_value_def)
  from atom_verify [OF this] show ?thesis
    by (simp add: atom_result_def atom_verdict_def compared_claim_def atom_input_def atom_evidence_def evidence_ref_def text_value_def)
qed

section \<open>Rendering\<close>

definition atom_text_out :: jstr where
  "atom_text_out = js ''A'' @ 92 # js ''=5kW''"

definition atom_output :: jstr where
  "atom_output = js ''# '' @ js ''T'' @ [92, 33] @ claimPrefix SENTENCE 1 @ atom_text_out"

definition atom_position :: rendered_claim where
  "atom_position =
     \<lparr>rc_candidate_claim_key = cc_candidate_claim_key atom_base, rc_rendered_claim_text = atom_text_out,
      rc_output_start = 31, rc_output_end = 37, rc_fragment_ordinal = 1,
      rc_previous_structure_id = Some (js ''s1''), rc_next_structure_id = None\<rparr>"

definition atom_rendering :: AtomicRenderResult where
  "atom_rendering =
     \<lparr>ar_text = atom_output, ar_utf8_byte_length = utf8_length atom_output, ar_utf16_length = length atom_output,
      ar_claims = [atom_position]\<rparr>"

lemma atom_rendered: "renderAtomicDraftV1 plain_platform atom_result [atom_entry] = Inr atom_rendering"
proof -
  have escaped: "escapePlainTextV1 plain_platform (js ''T!'') = Inr (js ''T'' @ [92, 33])"
    "escapePlainTextV1 plain_platform (js ''A=5kW'') = Inr atom_text_out"
    by (simp_all add: escapePlainTextV1_def hasForbiddenControl_def ascii_punctuation_def atom_text_out_def js_def)
  have label: "validateContextLabel plain_platform (js ''T!'') = Inr ()"
    by (simp add: validateContextLabel_def hasForbiddenControl_def js_includes_def utf8_length_def utf8_scalar_def js_def)
  have lengths: "length (claimPrefix SENTENCE (Suc 0)) = 26" "length atom_text_out = 6"
    by (simp_all add: claimPrefix_def atom_text_out_def js_def dec_nat.simps)
  show ?thesis
    by (simp add: renderAtomicDraftV1_def Let_def atom_result_def atom_verdict_def atom_base_def atom_draft_def atom_claim_def atom_entry_def
        label escaped lengths render_fragment_def render_claim_def structureBytes_def atom_rendering_def atom_position_def atom_output_def)
qed

section \<open>Sealing\<close>

lemma toy_sha256: "is_sha256 (toy_digest bs)"
  by (auto simp: is_sha256_def toy_digest_def list_all_iff lower_hex_def is_digit_def)

lemma plain_digest:
  assumes "canonicalizable (\<lambda>s. s) v" and "isWellFormedUnicodeScalarV1 version"
  shows "\<exists>d. digestCanonicalV1 plain_platform version v = Inr d \<and> is_sha256 d"
proof -
  obtain bs where "canonicalJsonV1 plain_platform v = Inr bs"
    using assms(1) canonicalJson_Inr [of plain_platform v] by auto
  then show ?thesis using assms(2) toy_sha256 by (simp add: digestCanonicalV1_def)
qed

lemma sha256_wf: "is_sha256 d \<Longrightarrow> isWellFormedUnicodeScalarV1 d"
  by (intro wf_ascii sha256_ascii)

lemmas value_evaluation =
  canonical_claim_value_def claim_base_entries_def revision_entry_def rendered_entries_def evidence_refs_value_def
  stored_anchor_def stored_quantity_def num_value_def option_value_def nat_value_def read_int CANONICAL_ATOMIC_CLAIM_VERSION_def

lemmas atom_evaluation =
  atom_base_def atom_text_out_def demo_quantity_def toPublicQuantity_def CanonicalQuantityV1.truncate_def js_def MAX_SAFE_INTEGER_def

lemma atom_base_canonical:
  "canonicalizable (\<lambda>s. s) (JObj (claim_base_entries atom_base @ rendered_entries (Some atom_text_out)))"
  "canonicalizable (\<lambda>s. s) (canonical_claim_value atom_base (Some atom_text_out))"
proof -
  have key: "isWellFormedUnicodeScalarV1 (sealed_claim_key plain_platform [119] 1 1)"
    by (simp add: sealed_claim_key_def sha256Utf8_def sha256_wf toy_sha256)
  show "canonicalizable (\<lambda>s. s) (JObj (claim_base_entries atom_base @ rendered_entries (Some atom_text_out)))"
    "canonicalizable (\<lambda>s. s) (canonical_claim_value atom_base (Some atom_text_out))"
    using key by (simp_all add: value_evaluation atom_evaluation)
qed

definition atom_refs :: "(jstr \<times> jstr) list" where
  "atom_refs = [(js ''e1'', replicate 64 97), (js ''e2'', replicate 64 97)]"

lemma atom_key_wf: "isWellFormedUnicodeScalarV1 (cc_candidate_claim_key atom_base)"
  by (simp add: atom_base_def sealed_claim_key_def sha256Utf8_def sha256_wf toy_sha256)

lemma atom_invariant:
  obtains i where "invariantDigest plain_platform atom_base (Some atom_text_out) atom_refs = Inr i" and "is_sha256 i"
proof -
  have digests: "isWellFormedUnicodeScalarV1 (replicate 64 97)"
    by (intro sha256_wf) (simp add: is_sha256_def lower_hex_def list_all_iff)
  have sorted: "sort_key fst atom_refs = atom_refs" by (simp add: atom_refs_def js_def)
  have refs: "canonicalizable (\<lambda>s. s) (evidence_refs_value atom_refs)"
    using digests by (simp add: evidence_refs_value_def atom_refs_def js_def)
  have places: "cc_ordinal atom_base = 1" "cc_presentation atom_base = SENTENCE"
    "cc_previous_structure_id atom_base = Some (js ''s1'')" "cc_next_structure_id atom_base = None"
    by (simp_all add: atom_base_def)
  have "\<exists>i. invariantDigest plain_platform atom_base (Some atom_text_out) atom_refs = Inr i \<and> is_sha256 i"
    unfolding invariantDigest_def sorted digest_or_invalid_Inr
    by (rule plain_digest)
      (use atom_base_canonical(1) refs atom_key_wf in \<open>auto simp: places option_value_def num_value_def
         NON_TARGET_INVARIANT_VERSION_def js_def MAX_SAFE_INTEGER_def\<close>)
  then show thesis using that by (elim exE conjE)
qed

lemma atom_claim_sealed:
  assumes "m (js ''e1'') = Some (atom_evidence ''e1'' t)" and "m (js ''e2'') = Some (atom_evidence ''e2'' u)"
  obtains p i where "seal_claim plain_platform atom_workflow (map_of (map (\<lambda>c. (vc_candidate_claim_key c, c)) [atom_verdict]))
      atom_output d m atom_position = Inr
        \<lparr>sc_candidate_claim_key = cc_candidate_claim_key atom_base, sc_persisted_claim_id = p, sc_canonical_claim = atom_base,
         sc_rendered_claim_text = atom_text_out, sc_output_start = 31, sc_output_end = 37,
         sc_verification_method = ATOMIC_TYPED_EQUIVALENT, sc_evidence_refs = atom_refs, sc_non_target_invariant_digest = i\<rparr>"
    and "is_sha256 p" and "is_sha256 i"
proof -
  have sorted: "sort (cc_evidence_ids atom_base) = [js ''e1'', js ''e2'']" "sort_key fst atom_refs = atom_refs"
      "atom_base\<lparr>cc_evidence_ids := [js ''e1'', js ''e2'']\<rparr> = atom_base"
    by (simp_all add: atom_base_def atom_refs_def js_def)
  have refs: "refs_match plain_platform m [js ''e1'', js ''e2''] atom_refs"
    using assms by (auto simp: refs_match_def atom_refs_def atom_evidence_def js_def intro!: sameCanonical_refl)
  have cut: "slice atom_output 31 37 = atom_text_out"
    by (simp add: slice_def atom_output_def atom_text_out_def claimPrefix_def js_def dec_nat.simps)
  have fields: "vc_base atom_verdict = atom_base" "vc_candidate_claim_key atom_verdict = cc_candidate_claim_key atom_base"
      "vc_evidence_refs atom_verdict = atom_refs" "vc_verification_method atom_verdict = ATOMIC_TYPED_EQUIVALENT"
      "rc_candidate_claim_key atom_position = cc_candidate_claim_key atom_base" "rc_fragment_ordinal atom_position = cc_ordinal atom_base"
      "rc_output_start atom_position = 31" "rc_output_end atom_position = 37" "rc_rendered_claim_text atom_position = atom_text_out"
    by (simp_all add: atom_verdict_def atom_position_def atom_refs_def) (simp add: atom_base_def)
  have identity: "assertClaimIdentity plain_platform atom_workflow atom_verdict = Inr ()"
    by (simp add: assertClaimIdentity_def fields Let_def) (simp add: atom_base_def atom_workflow_def)
  obtain i where i: "invariantDigest plain_platform atom_base (Some atom_text_out) atom_refs = Inr i" "is_sha256 i"
    by (rule atom_invariant)
  have "serializeCanonical (nfc plain_platform) False (canonical_claim_value atom_base (Some atom_text_out)) =
      Inr (Some (canon_text (canon_norm (\<lambda>s. s) (canonical_claim_value atom_base (Some atom_text_out)))))"
    unfolding serialize_correct using atom_base_canonical(2) by auto
  then obtain p where p: "persistedClaimId plain_platform (sw_workflow_job_id atom_workflow) d atom_base atom_text_out 31 37 = Inr p" "is_sha256 p"
    using toy_sha256 by (simp add: persistedClaimId_def sha256Utf8_def)
  show thesis
    by (rule that [OF _ p(2) i(2)]) (simp add: seal_claim_def fields cut identity sorted refs i p)
qed

definition atom_snapshot :: "string \<Rightarrow> string \<Rightarrow> SealedEvidenceSnapshotV1" where
  "atom_snapshot i t =
     \<lparr>se_evidence_id = js i, se_retrieval_run_id = js ''r'', se_chunk_id = js ''k'', se_project_id = js ''p'',
      se_file_id = js ''f'', se_document_id = js ''d'', se_ingestion_key = None, se_exact_span_text_nfc = js t,
      se_exact_span_document_start = None, se_exact_span_document_end = None, se_candidate_rank = 1,
      se_score_sparse = None, se_score_dense = None, se_score_fusion = js ''1'', se_score_rerank = js ''1'',
      se_rank_sparse = None, se_rank_dense = None, se_rank_fusion = 1, se_rank_rerank = 1,
      se_index_snapshot = JObj [], se_evidence_snapshot_digest = replicate 64 97\<rparr>"

lemma digest_97: "is_sha256 (replicate 64 97)"
  by (simp add: is_sha256_def lower_hex_def list_all_iff)

lemma atom_evidence_sealed: "sealedEvidence plain_platform (atom_evidence i t) = Inr (atom_snapshot i t)"
proof -
  have one: "fixedDecimal plain_platform (NInt 1) = Inr (js ''1'')"
    by (simp add: fixedDecimal_def json_number_def MAX_SAFE_INTEGER_def dec_int_def dec_nat.simps js_def)
  have empty: "canonicalJsonV1 plain_platform (JObj []) = Inr (utf8_encode (js ''{}''))"
    by (simp add: canonicalJsonV1_def print_entries_def js_def)
  show ?thesis
    by (simp add: sealedEvidence_def atom_evidence_def atom_snapshot_def digest_97 nullableRank_def safeNonNegativeInteger_def
        nullable_score_def one empty MAX_SAFE_INTEGER_def)
qed

lemma snapshot_canonical:
  "isWellFormedUnicodeScalarV1 (js i) \<Longrightarrow> isWellFormedUnicodeScalarV1 (js t) \<Longrightarrow>
     canonicalizable (\<lambda>s. s) (sealed_evidence_value (atom_snapshot i t))"
  using sha256_wf [OF digest_97]
  by (simp add: sealed_evidence_value_def atom_snapshot_def value_evaluation MAX_SAFE_INTEGER_def) (simp add: js_def)

lemma atom_draft_canonical: "canonicalizable (\<lambda>s. s) (draft_value atom_draft)"
  by (simp add: draft_value_def atom_draft_def atom_claim_def claim_value_def anchor_value_def
        quantity_value_def span_value_def option_value_def num_value_def gap_value_def GROUNDED_DRAFT_SCHEMA_VERSION_def
        MAX_SAFE_INTEGER_def js_def)

lemma atom_context_canonical: "canonicalizable (\<lambda>s. s) (context_value [atom_entry])"
  by (simp add: context_value_def entry_value_def atom_entry_def APPROVED_RENDER_CONTEXT_VERSION_def js_def)

lemma atom_wf:
  "isWellFormedUnicodeScalarV1 atom_output" "length atom_output = 37" "utf8_length atom_output = 37"
proof -
  have "list_all (\<lambda>c. c < 128) atom_output" and len: "length atom_output = 37"
    by (simp_all add: atom_output_def atom_text_out_def claimPrefix_def js_def dec_nat.simps)
  then show "isWellFormedUnicodeScalarV1 atom_output" "length atom_output = 37" "utf8_length atom_output = 37"
    by (simp_all add: utf8_length_ascii wf_ascii list_all_iff)
qed

lemma atom_validated:
  "validateSealInput plain_platform \<lparr>si_workflow = atom_workflow, si_verification = atom_result,
    si_assignment = atom_assignment, si_render_context = [atom_entry]\<rparr> = Inr (atom_result, [atom_entry], replicate 64 98)"
proof -
  have "sortedRenderContext plain_platform [atom_entry] = Inr [atom_entry]" by (simp add: sortedRenderContext_def)
  moreover have "is_sha256 (replicate 64 98)" by (simp add: is_sha256_def lower_hex_def list_all_iff)
  moreover have "vr_decision atom_result = ALLOW" "vr_claims atom_result = [atom_verdict]" "vr_canonical_proposal atom_result = atom_draft"
      "atom_result\<lparr>vr_canonical_proposal := atom_draft\<rparr> = atom_result"
      "vc_support_status atom_verdict = SUPPORTED" "vc_verification_method atom_verdict = ATOMIC_TYPED_EQUIVALENT"
    by (simp_all add: atom_result_def atom_verdict_def)
  moreover have "as_workflow_job_id atom_assignment = sw_workflow_job_id atom_workflow"
      "as_project_id atom_assignment = sw_project_id atom_workflow" "as_targeted_revision_attempts atom_assignment = 0"
      "sw_revision_attempt atom_workflow = 0" "sw_generation_attempt atom_workflow = 1"
      "as_snapshot_digest atom_assignment = JStr (replicate 64 98)"
    by (simp_all add: atom_assignment_def atom_workflow_def)
  ultimately show ?thesis
    using atom_draft_parses by (simp add: validateSealInput_def Let_def MAX_SAFE_INTEGER_def)
qed

lemma canonicalizable_object:
  "canonicalizable nf (JObj kvs) \<longleftrightarrow> list_all (\<lambda>kv. isWellFormedUnicodeScalarV1 (fst kv)) kvs \<and>
     distinct (map (\<lambda>kv. nf (fst kv)) kvs) \<and> list_all (\<lambda>kv. snd kv = JUndef \<or> canonicalizable nf (snd kv)) kvs"
  by (simp add: list_all_iff)

lemma envelope_canonical:
  assumes "canonicalizable (\<lambda>s. s) (sealed_workflow_value (sg_workflow c))"
    and "canonicalizable (\<lambda>s. s) (draft_value (sg_canonical_proposal c))"
    and "canonicalizable (\<lambda>s. s) (context_value (sg_render_context c))"
    and "isWellFormedUnicodeScalarV1 (sg_output_text c)"
    and "sg_output_utf8_byte_length c = 37" and "sg_output_utf16_length c = 37"
    and "canonicalizable (\<lambda>s. s) (JArr (map sealed_claim_value (sg_claims c)))"
    and "canonicalizable (\<lambda>s. s) (JArr (map sealed_evidence_value (sg_evidence_snapshots c)))"
    and "canonicalizable (\<lambda>s. s) (JObj (digest_entries (sg_digests c)))"
  shows "canonicalizable (\<lambda>s. s) (withoutEnvelopeDigest c)"
proof -
  have versions: "list_all isWellFormedUnicodeScalarV1 (map snd checkpoint_versions)"
    by (simp add: checkpoint_versions_def SEALED_GROUNDED_CANDIDATE_VERSION_def ATOMIC_GROUNDING_CONTRACT_VERSION_def
        GROUNDED_DRAFT_SCHEMA_VERSION_def CANONICAL_JSON_VERSION_def ATOMIC_CANONICALIZER_VERSION_def QUANTITY_LEXER_VERSION_def
        PLAIN_TEXT_ESCAPE_VERSION_def ATOMIC_RENDERER_VERSION_def ATOMIC_VERIFIER_VERSION_def js_def)
  have shown: "canonicalizable (\<lambda>s. s) (JObj [(js ''text'', JStr (sg_output_text c)),
         (js ''utf8_byte_length'', num_value (sg_output_utf8_byte_length c)),
         (js ''utf16_length'', num_value (sg_output_utf16_length c))])"
    using assms by (simp add: num_value_def MAX_SAFE_INTEGER_def js_def)
  show ?thesis
    unfolding withoutEnvelopeDigest_def envelope_with_def canonicalizable_object list.pred_inject fst_conv snd_conv
    using assms versions shown
    by (simp add: checkpoint_versions_def) (simp add: js_def list_all_iff)
qed

lemma atom_sealed:
  obtains c where "sealGroundedCandidateV1 plain_platform \<lparr>si_workflow = atom_workflow, si_verification = atom_result,
    si_assignment = atom_assignment, si_render_context = [atom_entry]\<rparr> = Inr c"
proof -
  let ?m = "map_of (map (\<lambda>item. (ev_evidence_id item, item)) (as_evidence atom_assignment))"
  have ids: "map ev_evidence_id (as_evidence atom_assignment) = [js ''e1'', js ''e2'']"
    by (simp add: atom_assignment_def atom_input_def atom_evidence_def)
  have m: "?m (js ''e1'') = Some (atom_evidence ''e1'' ''A=5kW.'')" "?m (js ''e2'') = Some (atom_evidence ''e2'' ''A=5000W'')"
    by (simp_all add: atom_assignment_def atom_input_def) (simp_all add: atom_evidence_def js_def)
  let ?digest = "sha256Utf8 plain_platform (ATOMIC_RENDERER_VERSION @ 0 # ar_text atom_rendering)"
  obtain p i where claim: "seal_claim plain_platform atom_workflow (map_of (map (\<lambda>c. (vc_candidate_claim_key c, c)) [atom_verdict]))
      atom_output ?digest ?m atom_position = Inr
        \<lparr>sc_candidate_claim_key = cc_candidate_claim_key atom_base, sc_persisted_claim_id = p, sc_canonical_claim = atom_base,
         sc_rendered_claim_text = atom_text_out, sc_output_start = 31, sc_output_end = 37,
         sc_verification_method = ATOMIC_TYPED_EQUIVALENT, sc_evidence_refs = atom_refs, sc_non_target_invariant_digest = i\<rparr>"
      (is "_ = Inr ?sc") and ids2: "is_sha256 p" "is_sha256 i"
    by (rule atom_claim_sealed [OF m])
  have built: "buildSealedClaims plain_platform atom_workflow (vr_claims atom_result) atom_rendering ?digest ?m = Inr [?sc]"
    using claim by (simp add: buildSealedClaims_def atom_result_def atom_rendering_def)
  have claim_value: "canonicalizable (\<lambda>s. s) (JArr (map sealed_claim_value [?sc]))"
    using ids2 [THEN sha256_wf] sha256_wf [OF digest_97] atom_key_wf atom_base_canonical(2)
    by (simp add: sealed_claim_value_def num_value_def MAX_SAFE_INTEGER_def atom_refs_def evidence_refs_value_def atom_text_out_def js_def)
  have snaps: "seal_evidence plain_platform ?m (js ''e1'') = Inr (atom_snapshot ''e1'' ''A=5kW.'')"
      "seal_evidence plain_platform ?m (js ''e2'') = Inr (atom_snapshot ''e2'' ''A=5000W'')"
    using m by (simp_all add: seal_evidence_def atom_evidence_sealed)
  have first: "in_order_of_first (concat (map (\<lambda>c. map fst (sc_evidence_refs c)) [?sc])) = [js ''e1'', js ''e2'']"
    by (simp add: atom_refs_def in_order_of_first_def js_def)
  have texts: "vr_canonical_proposal atom_result = atom_draft" by (simp add: atom_result_def)
  have versions: "isWellFormedUnicodeScalarV1 GROUNDED_DRAFT_SCHEMA_VERSION" "isWellFormedUnicodeScalarV1 APPROVED_RENDER_CONTEXT_VERSION"
      "isWellFormedUnicodeScalarV1 ATOMIC_CLAIM_LEDGER_VERSION" "isWellFormedUnicodeScalarV1 SEALED_GROUNDED_CANDIDATE_VERSION"
    by (simp_all add: GROUNDED_DRAFT_SCHEMA_VERSION_def APPROVED_RENDER_CONTEXT_VERSION_def ATOMIC_CLAIM_LEDGER_VERSION_def
        SEALED_GROUNDED_CANDIDATE_VERSION_def js_def)
  obtain pd cd ld where digests:
      "digestCanonicalV1 plain_platform GROUNDED_DRAFT_SCHEMA_VERSION (draft_value atom_draft) = Inr pd"
      "digestCanonicalV1 plain_platform APPROVED_RENDER_CONTEXT_VERSION (context_value [atom_entry]) = Inr cd"
      "digestCanonicalV1 plain_platform ATOMIC_CLAIM_LEDGER_VERSION (JArr (map sealed_claim_value [?sc])) = Inr ld"
    and sha: "is_sha256 pd" "is_sha256 cd" "is_sha256 ld"
    using plain_digest [OF atom_draft_canonical versions(1)] plain_digest [OF atom_context_canonical versions(2)]
      plain_digest [OF claim_value versions(3)] by blast
  let ?env = "\<lparr>sg_workflow = atom_workflow, sg_canonical_proposal = atom_draft, sg_render_context = [atom_entry],
     sg_output_text = atom_output, sg_output_utf8_byte_length = 37, sg_output_utf16_length = 37, sg_claims = [?sc],
     sg_evidence_snapshots = [atom_snapshot ''e1'' ''A=5kW.'', atom_snapshot ''e2'' ''A=5000W''],
     sg_digests = \<lparr>sd_proposal_digest = pd, sd_render_context_digest = cd, sd_render_digest = ?digest,
       sd_assignment_digest = sha256Utf8 plain_platform (ATOMIC_GROUNDING_CONTRACT_VERSION @ 0 # replicate 64 98), sd_ledger_digest = ld\<rparr>,
     sg_envelope_digest = []\<rparr>"
  have "canonicalizable (\<lambda>s. s) (withoutEnvelopeDigest ?env)"
  proof (rule envelope_canonical)
    show "canonicalizable (\<lambda>s. s) (JObj (digest_entries (sg_digests ?env)))"
      using sha [THEN sha256_wf] sha256_wf [OF toy_sha256] by (simp add: digest_entries_def sha256Utf8_def) (simp add: js_def)
    show "canonicalizable (\<lambda>s. s) (JArr (map sealed_evidence_value (sg_evidence_snapshots ?env)))"
      using snapshot_canonical [of "''e1''" "''A=5kW.''"] snapshot_canonical [of "''e2''" "''A=5000W''"] by (simp add: js_def)
    show "canonicalizable (\<lambda>s. s) (sealed_workflow_value (sg_workflow ?env))"
      by (simp add: sealed_workflow_value_def atom_workflow_def num_value_def MAX_SAFE_INTEGER_def js_def)
  qed (use claim_value atom_draft_canonical atom_context_canonical atom_wf in simp_all)
  then obtain ed where "digestCanonicalV1 plain_platform SEALED_GROUNDED_CANDIDATE_VERSION (withoutEnvelopeDigest ?env) = Inr ed"
    using plain_digest versions(4) by blast
  moreover have "atom_workflow\<lparr>sw_workflow_job_id := sw_workflow_job_id atom_workflow, sw_project_id := sw_project_id atom_workflow\<rparr> =
      atom_workflow" by simp
  moreover have "se_evidence_id (atom_snapshot ''e1'' ''A=5kW.'') \<le> se_evidence_id (atom_snapshot ''e2'' ''A=5000W'')"
    by (simp add: atom_snapshot_def js_def)
  moreover have "ar_text atom_rendering = atom_output" "ar_utf8_byte_length atom_rendering = 37" "ar_utf16_length atom_rendering = 37"
    using atom_wf by (simp_all add: atom_rendering_def)
  moreover have "distinct (map ev_evidence_id (as_evidence atom_assignment))" by (simp add: ids js_def)
  ultimately have "\<exists>c. sealGroundedCandidateV1 plain_platform \<lparr>si_workflow = atom_workflow, si_verification = atom_result,
      si_assignment = atom_assignment, si_render_context = [atom_entry]\<rparr> = Inr c"
    using built first snaps digests
    by (simp add: sealGroundedCandidateV1_def atom_validated Let_def texts atom_rendered digest_or_invalid_def)
  then show thesis using that by blast
qed

lemma atom_draft_units: "js_units (draft_value atom_draft)"
  by (simp add: draft_value_def atom_draft_def atom_claim_def claim_value_def anchor_value_def
      quantity_value_def span_value_def option_value_def num_value_def gap_value_def GROUNDED_DRAFT_SCHEMA_VERSION_def js_def)

theorem sealed_claims_grounded_witness:
  "\<exists>c sc. sealGroundedCandidateV1 plain_platform \<lparr>si_workflow = atom_workflow, si_verification = atom_result,
      si_assignment = atom_assignment, si_render_context = [atom_entry]\<rparr> = Inr c \<and>
     sg_claims c = [sc] \<and> claim_grounded plain_platform (as_evidence atom_assignment) c atom_claim sc"
proof -
  obtain c where c: "sealGroundedCandidateV1 plain_platform \<lparr>si_workflow = atom_workflow, si_verification = atom_result,
      si_assignment = atom_assignment, si_render_context = [atom_entry]\<rparr> = Inr c"
    by (rule atom_sealed)
  have units: "js_units (vi_proposal atom_input)" using atom_draft_units by (simp add: atom_input_def)
  have "vi_evidence atom_input = as_evidence atom_assignment" by (simp add: atom_assignment_def)
  from sealed_claims_grounded [OF plain_platform_normalizer units atom_result c this]
  have "parse_draft plain_platform (draft_value atom_draft) = Inr (sg_canonical_proposal c)"
    "list_all2 (claim_grounded plain_platform (as_evidence atom_assignment) c) (gd_claims (sg_canonical_proposal c)) (sg_claims c)"
    by (simp_all add: atom_input_def)
  moreover from this(1) have "sg_canonical_proposal c = atom_draft" by (simp add: atom_draft_parses)
  ultimately have "list_all2 (claim_grounded plain_platform (as_evidence atom_assignment) c) [atom_claim] (sg_claims c)"
    by (simp add: atom_draft_def)
  with c show ?thesis by (auto simp: list_all2_Cons1)
qed

end
