(* ===== verification/RenderedText.thy ===== *)
theory RenderedText
  imports AtomicRendererProps
begin

text \<open>
  The rendered text is in normal form C.  The renderer joins strings that are normalized one by one;
  that the whole is normalized too rests on where it joins them: before an ASCII character, or
  after a line feed, a space or a colon, none of which takes part in a composition there.
\<close>

text \<open>
  What the Unicode standard says of NFC (UAX 15): parts of a normalized string are normalized, an
  ASCII character never composes with what stands before it, and a line feed, a space or a colon
  never composes with what follows.
\<close>

definition composes_locally :: "(jstr \<Rightarrow> jstr) \<Rightarrow> bool" where
  "composes_locally nf \<longleftrightarrow>
     (\<forall>s. (\<forall>c \<in> set s. c < 128) \<longrightarrow> nf s = s) \<and>
     (\<forall>s a b. nf s = s \<longrightarrow> nf (slice s a b) = slice s a b) \<and>
     (\<forall>s t. nf s = s \<longrightarrow> nf t = t \<longrightarrow> t \<noteq> [] \<longrightarrow> hd t < 128 \<longrightarrow> nf (s @ t) = s @ t) \<and>
     (\<forall>s t. nf s = s \<longrightarrow> nf t = t \<longrightarrow> s \<noteq> [] \<longrightarrow> last s \<in> {10, 32, 58} \<longrightarrow> nf (s @ t) = s @ t)"

lemma nfc_ascii: "composes_locally nf \<Longrightarrow> \<forall>c \<in> set s. c < 128 \<Longrightarrow> nf s = s"
  by (simp add: composes_locally_def)

lemma nfc_parts:
  assumes "composes_locally nf" and "nf (s @ t) = s @ t"
  shows "nf s = s" and "nf t = t"
proof -
  have "nf (slice (s @ t) 0 (length s)) = slice (s @ t) 0 (length s)"
      "nf (slice (s @ t) (length s) (length s + length t)) = slice (s @ t) (length s) (length s + length t)"
    using assms by (simp_all add: composes_locally_def)
  then show "nf s = s" "nf t = t" by (simp_all add: slice_def)
qed

lemma nfc_before_ascii: "composes_locally nf \<Longrightarrow> nf s = s \<Longrightarrow> nf (c # t) = c # t \<Longrightarrow> c < 128 \<Longrightarrow> nf (s @ c # t) = s @ c # t"
  unfolding composes_locally_def by (metis list.distinct(1) list.sel(1))

lemma nfc_after_gap: "composes_locally nf \<Longrightarrow> nf s = s \<Longrightarrow> nf t = t \<Longrightarrow> s \<noteq> [] \<Longrightarrow> last s \<in> {10, 32, 58} \<Longrightarrow> nf (s @ t) = s @ t"
  unfolding composes_locally_def by blast

lemma nfc_escape_rest:
  assumes "composes_locally nf"
  shows "nf (w @ s) = w @ s \<Longrightarrow> nf (w @ escape_units s) = w @ escape_units s"
proof (induction s arbitrary: w)
  case (Cons c s)
  show ?case
  proof (cases "ascii_punctuation c")
    case False
    with Cons.IH [of "w @ [c]"] Cons.prems show ?thesis by simp
  next
    case True
    then have c: "c < 128" by (auto simp: ascii_punctuation_def)
    have w: "nf w = w" and cs: "nf (c # s) = c # s" using nfc_parts [OF assms, of w "c # s"] Cons.prems by simp_all
    have "nf ([c] @ escape_units s) = [c] @ escape_units s" using cs by (intro Cons.IH) simp
    moreover have "nf [92] = [92]" by (rule nfc_ascii [OF assms]) simp
    ultimately have "nf ([92] @ c # escape_units s) = [92] @ c # escape_units s"
      using c by (intro nfc_before_ascii [OF assms]) simp_all
    then have "nf (w @ 92 # c # escape_units s) = w @ 92 # c # escape_units s"
      using w by (intro nfc_before_ascii [OF assms]) simp_all
    with True show ?thesis by simp
  qed
qed simp

lemma nfc_escaped: "composes_locally (nfc P) \<Longrightarrow> escapePlainTextV1 P s = Inr r \<Longrightarrow> nfc P r = r"
  using nfc_escape_rest [of "nfc P" "[]" s] by (simp add: escapePlainText_Inr_iff)

text \<open>What a fragment adds: a normalized string that begins with an ASCII character.\<close>

definition joins_at_start :: "platform \<Rightarrow> jstr \<Rightarrow> bool" where
  "joins_at_start P p \<longleftrightarrow> p \<noteq> [] \<and> hd p < 128 \<and> nfc P p = p"

lemma joined: "composes_locally (nfc P) \<Longrightarrow> nfc P s = s \<Longrightarrow> joins_at_start P p \<Longrightarrow> nfc P (s @ p) = s @ p"
  by (cases p) (auto simp: joins_at_start_def intro: nfc_before_ascii)

lemma separator_joins: "composes_locally (nfc P) \<Longrightarrow> joins_at_start P (separator_bytes token)"
  by (cases token) (auto simp: joins_at_start_def intro: nfc_ascii)

lemma structure_joins:
  assumes P: "composes_locally (nfc P)" and "structureBytes P pres label = Inr bytes"
  shows "joins_at_start P bytes"
proof -
  obtain before after where frame: "structure_frame pres = (before, after)" by force
  obtain r where r: "escapePlainTextV1 P label = Inr r" and bytes: "bytes = before @ r @ after"
    using assms(2) frame by (auto simp: structureBytes_def)
  have before: "before \<noteq> []" "hd before < 128" "last before \<in> {10, 32, 58}" "\<forall>c \<in> set before. c < 128"
      and after: "after = [] \<or> hd after < 128 \<and> after \<noteq> []" "\<forall>c \<in> set after. c < 128"
    using frame by (cases pres; auto simp: js_def)+
  have rest: "nfc P (r @ after) = r @ after"
    using nfc_escaped [OF P r] nfc_ascii [OF P after(2)] after(1) nfc_before_ascii [OF P] by (cases after) auto
  have "nfc P (before @ r @ after) = before @ r @ after"
    by (rule nfc_after_gap [OF P nfc_ascii [OF P before(4)] rest before(1,3)])
  with before bytes show ?thesis by (simp add: joins_at_start_def)
qed

lemma claim_joins:
  assumes P: "composes_locally (nfc P)" and "escapePlainTextV1 P s = Inr r"
  shows "joins_at_start P (claimPrefix pres n @ r)"
proof -
  have "\<forall>c \<in> set (dec_nat n). c < 128" using dec_nat_digits [of n] by (fastforce simp: is_digit_def)
  then have prefix: "\<forall>c \<in> set (claimPrefix pres n). c < 128"
    by (cases pres) (auto simp: claimPrefix_def js_def)
  have "claimPrefix pres n \<noteq> []" "hd (claimPrefix pres n) < 128" "last (claimPrefix pres n) \<in> {10, 32, 58}"
    by (cases pres; simp add: claimPrefix_def js_def)+
  then show ?thesis
    using nfc_after_gap [OF P nfc_ascii [OF P prefix] nfc_escaped [OF assms]] by (simp add: joins_at_start_def)
qed

lemma render_fragment_joins:
  assumes P: "composes_locally (nfc P)" and "render_fragment P M n f st = Inr st'"
  obtains p where "rs_text st' = rs_text st @ p" and "joins_at_start P p"
proof -
  from assms(2) obtain fr where fr: "rm_fragments M f = Some fr"
    by (auto simp: render_fragment_def split: option.splits)
  show thesis
  proof (cases fr)
    case (Separator i token)
    with fr assms(2) show thesis using that [OF _ separator_joins [OF P]] by (auto simp: render_fragment_def)
  next
    case (StructureRef i sid pres)
    with fr assms(2) show thesis
      using that [OF _ structure_joins [OF P]] by (auto simp: render_fragment_def result_iffs split: option.splits if_splits)
  next
    case (ClaimRef i cid pres)
    with fr assms(2) have "render_claim P M n cid pres st = Inr st'" by (simp add: render_fragment_def)
    then show thesis
      using that [OF _ claim_joins [OF P]] by (auto simp: render_claim_def Let_def result_iffs split: option.splits)
  qed
qed

lemma render_loop_nfc:
  assumes P: "composes_locally (nfc P)"
  shows "render_loop P M n ids st = Inr st' \<Longrightarrow> nfc P (rs_text st) = rs_text st \<Longrightarrow> nfc P (rs_text st') = rs_text st'"
proof (induction ids arbitrary: n st)
  case (Cons f ids)
  then obtain st1 where st1: "render_fragment P M n f st = Inr st1" "render_loop P M (Suc n) ids st1 = Inr st'" by auto
  from render_fragment_joins [OF P st1(1)] have "nfc P (rs_text st1) = rs_text st1"
    using joined [OF P Cons.prems(2)] by metis
  with Cons.IH [OF st1(2)] show ?case .
qed simp

lemma rendered_nfc:
  assumes P: "composes_locally (nfc P)" and "renderAtomicDraftV1 P verification entries = Inr r"
  shows "nfc P (ar_text r) = ar_text r"
proof -
  from assms(2) obtain M ids st where "render_loop P M 0 ids
      \<lparr>rs_text = [], rs_paragraph_ordinal = 0, rs_consumed = [], rs_rendered = []\<rparr> = Inr st" and "ar_text r = rs_text st"
    by (auto simp: renderAtomicDraftV1_def Let_def result_iffs)
  moreover have "nfc P [] = []" by (rule nfc_ascii [OF P]) simp
  ultimately show ?thesis using render_loop_nfc [OF P] by fastforce
qed

end
