(* ===== verification/SealedRoundtrip.thy ===== *)
theory SealedRoundtrip
  imports SealedDemo RenderContextProps RenderedText
begin

text \<open>
  A sealed candidate survives storage: the checkpoint parser reads its value back, the verifier and the
  sealing step give the same envelope again, and recovery returns the candidate that was sealed.
\<close>

section \<open>The platform\<close>

text \<open>
  What is relied on of the platform: normalization is idempotent and local, a SHA-256 digest in hexadecimal has its 64 digits, and a number prints in ASCII.
\<close>

definition durable_platform :: "platform \<Rightarrow> bool" where
  "durable_platform P \<longleftrightarrow>
     unicode_normalizer (nfc P) \<and> (\<forall>s. nfc P (nfc P s) = nfc P s) \<and>
     composes_locally (nfc P) \<and> (\<forall>bytes. is_sha256 (sha256_hex P bytes)) \<and>
     (\<forall>n. \<forall>c \<in> set (number_text P n). c < 128)"

lemma durable_normalizer: "durable_platform P \<Longrightarrow> unicode_normalizer (nfc P)"
  by (simp add: durable_platform_def)

lemma durable_nfc [simp]: "durable_platform P \<Longrightarrow> nfc P (nfc P s) = nfc P s"
  by (simp add: durable_platform_def)

lemma durable_slice: "durable_platform P \<Longrightarrow> nfc P s = s \<Longrightarrow> nfc P (slice s a b) = slice s a b"
  by (simp add: durable_platform_def composes_locally_def)

lemma durable_sha256 [simp]: "durable_platform P \<Longrightarrow> is_sha256 (sha256_hex P bytes)"
  by (simp add: durable_platform_def)

lemma durable_ascii: "durable_platform P \<Longrightarrow> \<forall>c \<in> set s. c < 128 \<Longrightarrow> nfc P s = s"
  using ascii_nfc durable_normalizer by blast

lemma durable_digest: "durable_platform P \<Longrightarrow> is_sha256 d \<Longrightarrow> nfc P d = d"
  using sha256_nfc durable_normalizer by blast

lemma durable_id: "durable_platform P \<Longrightarrow> is_safe_id s \<Longrightarrow> nfc P s = s"
  using safe_id_nfc durable_normalizer by blast

lemma digest_is_sha256: "durable_platform P \<Longrightarrow> digestCanonicalV1 P version v = Inr d \<Longrightarrow> is_sha256 d"
  by (auto simp: digestCanonicalV1_def split: if_splits)

lemma plain_platform_durable: "durable_platform plain_platform"
  using plain_platform_normalizer toy_sha256 by (simp add: durable_platform_def composes_locally_def) (simp add: plain_platform_def)

section \<open>Normal strings\<close>

text \<open>Every string of the value is in NFC.\<close>

fun nfc_value :: "(jstr \<Rightarrow> jstr) \<Rightarrow> jsval \<Rightarrow> bool" where
  "nfc_value nf (JStr s) = (nf s = s)"
| "nfc_value nf (JArr vs) = (\<forall>v \<in> set vs. nfc_value nf v)"
| "nfc_value nf (JObj kvs) = (\<forall>kv \<in> set kvs. nfc_value nf (snd kv))"
| "nfc_value nf _ = True"

lemma readable_canonical: "canonicalizable nf v \<Longrightarrow> nfc_value nf v \<Longrightarrow> readable nf v"
proof (induction v rule: jsval_induct)
  case (JObj kvs)
  show ?case
  proof (clarsimp)
    fix k v assume kv: "(k, v) \<in> set kvs"
    show "readable nf v"
    proof (cases "v = JUndef")
      case False
      with kv JObj.prems have "canonicalizable nf v" "nfc_value nf v" by fastforce+
      then show ?thesis using JObj.IH [OF kv] by simp
    qed simp
  qed
qed auto

lemma nfc_num [simp]: "nfc_value nf (num_value n)"
  by (simp add: num_value_def)

lemma nfc_option: "nfc_value nf (option_value x) \<longleftrightarrow> pred_option (\<lambda>s. nf s = s) x"
  by (cases x) (simp_all add: option_value_def)

section \<open>Claims\<close>

lemma recomputed_nfc:
  assumes "durable_platform P" and "recomputeAtomV1 P claim = Inr r"
  shows "nfc P (ra_source_claim_text_nfc r) = ra_source_claim_text_nfc r"
    and "nfc P (ca_surface_nfc (ra_subject_anchor r)) = ca_surface_nfc (ra_subject_anchor r)"
    and "nfc P (ca_surface_nfc (ra_predicate_anchor r)) = ca_surface_nfc (ra_predicate_anchor r)"
    and "\<forall>q \<in> set (ra_quantities r). nfc P (cq_surface_nfc q) = cq_surface_nfc q \<and> plain_fields q"
proof -
  from assms(2) obtain lexical b p k where lexical: "internalLexQuantities P (nfc P (ac_claim_text claim)) = Inr lexical"
    and r: "r = \<lparr>ra_source_claim_text_nfc = nfc P (ac_claim_text claim), ra_subject_anchor = canonical_anchor P (ac_subject claim),
           ra_predicate_anchor = canonical_anchor P (ac_predicate claim), ra_polarity = p, ra_quantifier = k,
           ra_quantities = map (\<lambda>q. (toPublicQuantity q)
             \<lparr>cq_typed_equivalence_eligible := cq_typed_equivalence_eligible q \<and> b\<rparr>) lexical\<rparr>"
    unfolding recomputeAtomV1_def Let_def by (auto simp only: bindE_Inr_iff split: if_splits)
  have "nfc P (cq_surface_nfc q) = cq_surface_nfc q" if "q \<in> set lexical" for q
    using that internalLex_ordered(1) [OF lexical] durable_slice [OF assms(1), of "nfc P (ac_claim_text claim)"] assms(1)
    by (metis durable_nfc quantities_ordered_def)
  then show "\<forall>q \<in> set (ra_quantities r). nfc P (cq_surface_nfc q) = cq_surface_nfc q \<and> plain_fields q"
    using recompute_Inr [OF assms(2)] by (auto simp: r recomputed_from_def list_all_iff)
  show "nfc P (ra_source_claim_text_nfc r) = ra_source_claim_text_nfc r"
    "nfc P (ca_surface_nfc (ra_subject_anchor r)) = ca_surface_nfc (ra_subject_anchor r)"
    "nfc P (ca_surface_nfc (ra_predicate_anchor r)) = ca_surface_nfc (ra_predicate_anchor r)"
    using assms(1) by (simp_all add: r canonical_anchor_def)
qed

lemma plain_text_nfc: "durable_platform P \<Longrightarrow> plain_text s \<Longrightarrow> nfc P s = s"
  by (rule durable_ascii) (simp_all add: plain_text_def)

lemma name_nfc:
  assumes "durable_platform P"
  shows "nfc P (js (dimension_text d)) = js (dimension_text d)" and "nfc P (js (comparator_text c)) = js (comparator_text c)"
    and "nfc P (js (polarity_text p)) = js (polarity_text p)" and "nfc P (js (quantifier_text q)) = js (quantifier_text q)"
    and "nfc P (js (claim_presentation_text s)) = js (claim_presentation_text s)"
    and "nfc P CANONICAL_ATOMIC_CLAIM_VERSION = CANONICAL_ATOMIC_CLAIM_VERSION"
proof -
  note nf = durable_ascii [OF assms]
  show "nfc P (js (dimension_text d)) = js (dimension_text d)" by (cases d) (auto intro!: nf simp: js_def)
  show "nfc P (js (comparator_text c)) = js (comparator_text c)" by (cases c) (auto intro!: nf simp: js_def)
  show "nfc P (js (polarity_text p)) = js (polarity_text p)" by (cases p) (auto intro!: nf simp: js_def)
  show "nfc P (js (quantifier_text q)) = js (quantifier_text q)" by (cases q) (auto intro!: nf simp: js_def)
  show "nfc P (js (claim_presentation_text s)) = js (claim_presentation_text s)" by (cases s) (auto intro!: nf simp: js_def)
  show "nfc P CANONICAL_ATOMIC_CLAIM_VERSION = CANONICAL_ATOMIC_CLAIM_VERSION"
    by (rule nf) (simp add: CANONICAL_ATOMIC_CLAIM_VERSION_def js_def)
qed

lemma quantity_nfc:
  assumes "durable_platform P" and "nfc P (cq_surface_nfc q) = cq_surface_nfc q" and "plain_fields q"
  shows "nfc_value (nfc P) (stored_quantity q)"
proof -
  have "pred_option (\<lambda>s. nfc P s = s) (cq_base_unit q)" "pred_option (\<lambda>s. nfc P s = s) (cq_range_end_base_value q)"
    using assms(3) plain_text_nfc [OF assms(1)]
    by (cases "cq_base_unit q"; cases "cq_range_end_base_value q"; simp add: plain_fields_def)+
  then show ?thesis
    using assms plain_text_nfc [OF assms(1)]
    by (simp add: stored_quantity_def read_int nfc_option name_nfc plain_fields_def)
qed

lemma first_structure_Some: "first_structure m ids = Some s \<Longrightarrow> \<exists>i f p. m i = Some (StructureRef f s p)"
  by (induction ids) (auto split: option.splits RenderFragmentProposal.splits)

lemma structure_safe:
  assumes "draft_ok P d"
  shows "pred_option is_safe_id (previous_structure d n)" and "pred_option is_safe_id (next_structure d n)"
proof -
  have "is_safe_id s" if "first_structure (fragment_map d) ids = Some s" for s ids
  proof -
    from first_structure_Some [OF that] obtain i f p where "fragment_map d i = Some (StructureRef f s p)" by blast
    then have "StructureRef f s p \<in> set (gd_fragments d)" by (auto simp: fragment_map_def dest!: map_of_SomeD)
    then show ?thesis using assms by (fastforce simp: draft_ok_def list_all_iff)
  qed
  then show "pred_option is_safe_id (previous_structure d n)" "pred_option is_safe_id (next_structure d n)"
    by (auto simp: previous_structure_def next_structure_def pred_option_def)
qed

text \<open>The canonical claim the verifier makes of a claim of a parsed draft.\<close>

lemma base_nfc:
  assumes P: "durable_platform P" and ok: "draft_ok P d" and claim: "claim \<in> set (gd_claims d)"
    and rec: "recomputeAtomV1 P claim = Inr r" and c: "canonicalClaimBase P input d claim r = Inr c" and t: "nfc P t = t"
  shows "nfc_value (nfc P) (canonical_claim_value c (Some t)) \<and> nfc P (cc_candidate_claim_key c) = cc_candidate_claim_key c"
proof -
  note made = recomputed_nfc [OF P rec]
  have fields: "claim_fields_ok P claim" using ok claim by (simp add: draft_ok_def list_all_iff claim_ok_def)
  have ids: "pred_option (\<lambda>s. nfc P s = s) (previous_structure d n)" "pred_option (\<lambda>s. nfc P s = s) (next_structure d n)" for n
    using structure_safe [OF ok] durable_id [OF P] by (auto simp: pred_option_def)
  have revised: "pred_option (\<lambda>s. nfc P s = s) (ac_revision_of claim)"
    using fields durable_id [OF P] by (auto simp: claim_fields_ok_def pred_option_def)
  have evidence: "\<forall>i \<in> set (ac_evidence_ids claim). nfc P i = i"
    using fields durable_id [OF P] by (simp add: claim_fields_ok_def list_all_iff)
  have keys: "nfc P (candidateClaimKey P w g n) = candidateClaimKey P w g n" for w g n
    using P by (intro durable_digest) (simp_all add: candidateClaimKey_def)
  have key: "nfc P (cc_candidate_claim_key c) = cc_candidate_claim_key c"
    using c keys revised by (auto simp: canonicalClaimBase_def Let_def split: option.splits if_splits)
  moreover have "cc_source_claim_text_nfc c = ra_source_claim_text_nfc r" "cc_subject_anchor c = ra_subject_anchor r"
      "cc_predicate_anchor c = ra_predicate_anchor r" "cc_quantities c = ra_quantities r" "cc_evidence_ids c = ac_evidence_ids claim"
      "cc_previous_structure_id c = previous_structure d (cc_ordinal c)" "cc_next_structure_id c = next_structure d (cc_ordinal c)"
      "cc_revision_of c = ac_revision_of claim"
    using c by (auto simp: canonicalClaimBase_def Let_def split: option.splits if_splits)
  ultimately show ?thesis
    using made t ids revised evidence quantity_nfc [OF P]
    by (auto simp: canonical_claim_value_def claim_base_entries_def revision_entry_def rendered_entries_def stored_anchor_def
        read_int nfc_option name_nfc [OF P])
qed

lemma built_member:
  assumes "buildSealedClaims P w vs rendered renderDigest evidence = Inr claims" and "sc \<in> set claims"
  obtains p where "seal_claim P w (map_of (map (\<lambda>c. (vc_candidate_claim_key c, c)) vs)) (ar_text rendered) renderDigest evidence p = Inr sc"
proof -
  from assms obtain cs where "mapE (seal_claim P w (map_of (map (\<lambda>c. (vc_candidate_claim_key c, c)) vs)) (ar_text rendered)
        renderDigest evidence) (ar_claims rendered) = Inr cs" and "sc \<in> set cs"
    by (auto simp: buildSealedClaims_def result_iffs)
  then show thesis using that by (auto simp: mapE_Inr_iff list_all2_conv_all_nth in_set_conv_nth)
qed

lemma sealed_claim_digests:
  assumes P: "durable_platform P" and sc: "seal_claim P w verified output renderDigest evidence p = Inr sc"
  shows "is_sha256 (sc_persisted_claim_id sc)" and "is_sha256 (sc_non_target_invariant_digest sc)"
    and "canonicalizable (nfc P) (canonical_claim_value (sc_canonical_claim sc) (Some (sc_rendered_claim_text sc)))"
    and "cc_revision_attempt (sc_canonical_claim sc) = sw_revision_attempt w"
proof -
  from sc obtain v where identity: "assertClaimIdentity P w v = Inr ()"
    and base: "sc_canonical_claim sc = (vc_base v)\<lparr>cc_evidence_ids := sort (cc_evidence_ids (vc_base v))\<rparr>"
    and inv: "invariantDigest P (sc_canonical_claim sc) (Some (sc_rendered_claim_text sc)) (sc_evidence_refs sc) =
      Inr (sc_non_target_invariant_digest sc)"
    and id: "persistedClaimId P (sw_workflow_job_id w) renderDigest (sc_canonical_claim sc) (sc_rendered_claim_text sc)
      (sc_output_start sc) (sc_output_end sc) = Inr (sc_persisted_claim_id sc)"
    by (rule seal_claim_Inr)
  show "is_sha256 (sc_non_target_invariant_digest sc)"
    using inv digest_is_sha256 [OF P] by (simp add: invariantDigest_def)
  from id obtain t where t: "serializeCanonical (nfc P) False (canonical_claim_value (sc_canonical_claim sc) (Some (sc_rendered_claim_text sc))) = Inr (Some t)"
    by (auto simp: persistedClaimId_def split: sum.splits option.splits)
  with id obtain bytes where bytes: "sha256_hex P bytes = sc_persisted_claim_id sc" by (auto simp: persistedClaimId_def sha256Utf8_def)
  show "is_sha256 (sc_persisted_claim_id sc)" unfolding bytes [symmetric] using P by simp
  from t show "canonicalizable (nfc P) (canonical_claim_value (sc_canonical_claim sc) (Some (sc_rendered_claim_text sc)))"
    unfolding serialize_correct by (auto split: if_splits)
  show "cc_revision_attempt (sc_canonical_claim sc) = sw_revision_attempt w"
    using identity by (simp add: assertClaimIdentity_def Let_def base guardE_def split: if_splits)
qed

lemma sorted_ids_nfc:
  "nfc_value nf (canonical_claim_value (c\<lparr>cc_evidence_ids := sort (cc_evidence_ids c)\<rparr>) t) = nfc_value nf (canonical_claim_value c t)"
  by (simp add: canonical_claim_value_def claim_base_entries_def revision_entry_def)

lemma sealed_claim_readable:
  assumes P: "durable_platform P" and ok: "draft_ok P d" and claim: "claim \<in> set (gd_claims d)"
    and made: "verified_as P input d evidenceById claim v" and sup: "claim_supported P input claim v"
    and sealed: "sealed_as out m v sc" and sc: "seal_claim P w verified output renderDigest evidence p = Inr sc"
    and out: "nfc P out = out" and canon: "canonicalizable (nfc P) (sealed_claim_value sc)" and w: "sw_revision_attempt w \<le> 1"
  shows "claim_readable P sc"
proof -
  note digests = sealed_claim_digests [OF P sc]
  from made obtain r c items where rec: "recomputeAtomV1 P claim = Inr r" and c: "canonicalClaimBase P input d claim r = Inr c"
    and v: "vc_base v = c" by (auto simp: verified_as_def)
  have shown: "nfc P (sc_rendered_claim_text sc) = sc_rendered_claim_text sc"
    using sealed durable_slice [OF P out] by (metis sealed_as_def)
  note base = base_nfc [OF P ok claim rec c shown]
  have fields: "claim_fields_ok P claim" using ok claim by (simp add: draft_ok_def list_all_iff claim_ok_def)
  have "nfc P i = i \<and> is_sha256 x" if "(i, x) \<in> set (sc_evidence_refs sc)" for i x
  proof -
    have ref: "(i, x) \<in> set (vc_evidence_refs v)" using that sealed by (simp add: sealed_as_def)
    then have "i \<in> set (map fst (vc_evidence_refs v))" by force
    moreover have "map fst (vc_evidence_refs v) = ac_evidence_ids claim" using sup by (simp only: claim_supported_def simp_thms)
    ultimately have "i \<in> set (ac_evidence_ids claim)" by simp
    then have "is_safe_id i" using fields by (simp add: claim_fields_ok_def list_all_iff)
    moreover have "is_sha256 x" using ref sup by (auto simp: claim_supported_def)
    ultimately show ?thesis using durable_id [OF P] by simp
  qed
  then have refs: "refs_readable P (sc_evidence_refs sc)" using durable_digest [OF P] by (auto simp: refs_readable_def)
  have "sc_canonical_claim sc = c\<lparr>cc_evidence_ids := sort (cc_evidence_ids c)\<rparr>" using sealed by (simp add: sealed_as_def v)
  then have "readable (nfc P) (canonical_claim_value (sc_canonical_claim sc) (Some (sc_rendered_claim_text sc)))"
    using digests(3) base by (intro readable_canonical) (simp_all add: sorted_ids_nfc)
  moreover have "nfc P (sc_candidate_claim_key sc) = sc_candidate_claim_key sc"
    using sealed base verified_as_base(3) [OF made] by (simp add: sealed_as_def v)
  moreover have "sc_verification_method sc \<in> {ATOMIC_EXTRACT_EXACT, ATOMIC_TYPED_EQUIVALENT}"
    using sealed sup by (simp add: sealed_as_def claim_supported_def)
  moreover have "readable (nfc P) (num_value (sc_output_start sc))" "readable (nfc P) (num_value (sc_output_end sc))"
    using canon by (simp_all add: sealed_claim_value_def num_value_def)
  ultimately show ?thesis using digests refs w by (simp add: claim_readable_def)
qed

section \<open>Evidence\<close>

lemma set_drop_leading_zeros: "set (drop_leading_zeros s) \<subseteq> set s"
  by (induction s rule: drop_leading_zeros.induct) auto

lemma set_trim_fraction: "set (trim_fraction s) \<subseteq> set s"
proof -
  let ?t = "rev (dropWhile (\<lambda>c. c = 48) (rev s))"
  have "set ?t \<subseteq> set s" by (auto dest: set_dropWhileD)
  moreover have "trim_fraction s = s \<or> trim_fraction s = ?t \<or> trim_fraction s = butlast ?t"
    unfolding trim_fraction_def Let_def by (simp only: split: if_split) blast
  ultimately show ?thesis by (metis in_set_butlastD subset_code(1) subset_refl)
qed

lemma set_place_point: "set (place_point digits k) \<subseteq> insert 46 (insert 48 (set digits))"
proof -
  have "place_point digits k \<in> {js ''0.'' @ replicate (nat (- k)) 48 @ digits, digits @ replicate (nat k - length digits) 48,
      take (nat k) digits @ 46 # drop (nat k) digits}"
    by (simp add: place_point_def)
  then show ?thesis by (auto simp: js_def dest: in_set_takeD in_set_dropD)
qed

lemma ascii_place_point: "\<forall>c \<in> set digits. c < 128 \<Longrightarrow> \<forall>c \<in> set (place_point digits k). c < (128::nat)"
  using set_place_point [of digits k] by auto

lemma durable_number: "durable_platform P \<Longrightarrow> c \<in> set (number_text P n) \<Longrightarrow> c < 128"
  unfolding durable_platform_def by blast

lemma ascii_json_number: "durable_platform P \<Longrightarrow> c \<in> set (json_number P n) \<Longrightarrow> c < 128"
  by (cases n) (auto simp: json_number_def dest: durable_number dec_int_ascii split: if_splits)

text \<open>The exponent notation written out, from the lowered text.\<close>

definition written_out :: "jstr \<Rightarrow> jstr" where
  "written_out lowered =
     (let coefficient = takeWhile (\<lambda>c. c \<noteq> 101) lowered;
          exponent = parse_exponent (drop (Suc (length coefficient)) lowered);
          negative = (coefficient \<noteq> [] \<and> hd coefficient = 45);
          unsigned = (if negative then tl coefficient else coefficient);
          digits = filter (\<lambda>c. c \<noteq> 46) unsigned;
          originalPoint = (case index_of unsigned [46] of None \<Rightarrow> length digits | Some i \<Rightarrow> i);
          result = drop_leading_zeros (trim_fraction (place_point digits (int originalPoint + exponent)));
          completed = (if result \<noteq> [] \<and> hd result = 46 then 48 # result else result)
      in (if negative then [45] else []) @ completed)"

lemma ascii_written_out:
  assumes "\<forall>c \<in> set s. c < 128"
  shows "\<forall>c \<in> set (written_out s). c < (128::nat)"
proof -
  let ?co = "takeWhile (\<lambda>c. c \<noteq> 101) s"
  let ?u = "if ?co \<noteq> [] \<and> hd ?co = 45 then tl ?co else ?co"
  have digits: "\<forall>c \<in> set (filter (\<lambda>c. c \<noteq> 46) ?u). c < 128"
    using assms by (auto dest: set_takeWhileD list.set_sel(2))
  have "\<forall>c \<in> set (drop_leading_zeros (trim_fraction (place_point (filter (\<lambda>c. c \<noteq> 46) ?u) k))). c < 128" for k
    using ascii_place_point [OF digits, of k] set_trim_fraction set_drop_leading_zeros by blast
  then show ?thesis by (simp add: written_out_def Let_def)
qed

lemma ascii_fixedDecimal:
  assumes "durable_platform P" and "fixedDecimal P n = Inr s"
  shows "nfc P s = s"
proof (rule durable_ascii [OF assms(1)])
  have "s = [48] \<or> s = json_number P n \<or> s = written_out (map lower_e (json_number P n))"
    using assms(2) unfolding fixedDecimal_def written_out_def Let_def by (simp only: split: if_splits) simp_all
  moreover have "\<forall>c \<in> set (json_number P n). c < 128"
    using ascii_json_number [OF assms(1)] by blast
  moreover from this have "\<forall>c \<in> set (map lower_e (json_number P n)). c < 128" by (auto simp: lower_e_def)
  note ascii_written_out [OF this]
  ultimately show "\<forall>c \<in> set s. c < 128" by (elim disjE) simp_all
qed

lemma nullable_score_nfc:
  "durable_platform P \<Longrightarrow> nullable_score P x = Inr s \<Longrightarrow> pred_option (\<lambda>s. nfc P s = s) s"
  by (cases x) (auto simp: nullable_score_def bindE_Inr_iff dest: ascii_fixedDecimal)

lemma nfc_rank [simp]: "nfc_value nf (nat_value n)"
  by (cases n) (simp_all add: nat_value_def)

lemma canonical_entry: "canonicalizable nf (JObj kvs) \<Longrightarrow> (k, v) \<in> set kvs \<Longrightarrow> v = JUndef \<or> canonicalizable nf v"
  by auto

lemma sealed_snapshot_readable:
  assumes P: "durable_platform P" and e: "sealedEvidence P item = Inr e" and index: "is_object (ev_index_snapshot item)"
    and canon: "canonicalizable (nfc P) (sealed_evidence_value e)"
  shows "snapshot_readable P e"
proof -
  obtain d t where dt: "ev_snapshot_digest item = JStr d" "ev_exact_span_text item = JStr t"
    using e by (auto simp: sealedEvidence_def split: jsval.splits)
  have sha: "is_sha256 d" using e dt by (auto simp: sealedEvidence_def result_iffs)
  obtain ds de cr ss sd sf sr rs rd rf rr where e_is: "e = \<lparr>se_evidence_id = nfc P (ev_evidence_id item),
      se_retrieval_run_id = nfc P (ev_retrieval_run_id item), se_chunk_id = nfc P (ev_chunk_id item),
      se_project_id = nfc P (ev_project_id item), se_file_id = nfc P (ev_file_id item),
      se_document_id = nfc P (ev_document_id item), se_ingestion_key = map_option (nfc P) (ev_ingestion_key item),
      se_exact_span_text_nfc = nfc P t, se_exact_span_document_start = ds, se_exact_span_document_end = de,
      se_candidate_rank = cr, se_score_sparse = ss, se_score_dense = sd, se_score_fusion = sf, se_score_rerank = sr,
      se_rank_sparse = rs, se_rank_dense = rd, se_rank_fusion = rf, se_rank_rerank = rr,
      se_index_snapshot = ev_index_snapshot item, se_evidence_snapshot_digest = d\<rparr>"
    and scores: "nullable_score P (ev_score_sparse item) = Inr ss" "nullable_score P (ev_score_dense item) = Inr sd"
      "fixedDecimal P (ev_score_fusion item) = Inr sf" "fixedDecimal P (ev_score_rerank item) = Inr sr"
    using e dt sha by (simp add: sealedEvidence_def bindE_Inr_iff) blast
  have "pred_option (\<lambda>s. nfc P s = s) (map_option (nfc P) x)" for x using P by (cases x) simp_all
  moreover note nullable_score_nfc [OF P scores(1)] nullable_score_nfc [OF P scores(2)] ascii_fixedDecimal [OF P scores(3)]
      ascii_fixedDecimal [OF P scores(4)] durable_digest [OF P sha] durable_nfc [OF P]
  ultimately have "nfc_value (nfc P) (sealed_evidence_value (e\<lparr>se_index_snapshot := JNull\<rparr>))"
    by (simp add: sealed_evidence_value_def e_is nfc_option)
  moreover have "canonicalizable (nfc P) (sealed_evidence_value (e\<lparr>se_index_snapshot := JNull\<rparr>))"
    using canon by (simp add: sealed_evidence_value_def e_is)
  moreover have "canonicalizable (nfc P) (se_index_snapshot e)"
    using canonical_entry [of _ _ "js ''index_snapshot''", OF canon [unfolded sealed_evidence_value_def]] index
    by (auto simp: e_is)
  ultimately show ?thesis
    using readable_canonical index sha by (simp add: snapshot_readable_def e_is)
qed

section \<open>The checkpoint\<close>

lemma read_workflow:
  assumes "unicode_normalizer (nfc P)" and "nfc P (sw_workflow_job_id w) = sw_workflow_job_id w" and "nfc P (sw_project_id w) = sw_project_id w"
    and "0 \<le> sw_generation_attempt w" and "sw_generation_attempt w \<le> MAX_SAFE_INTEGER" and "sw_revision_attempt w \<le> 1"
  shows "parse_sealed_workflow P (sealed_workflow_value w) = Inr w"
proof -
  have "sw_revision_attempt w = 0 \<or> sw_revision_attempt w = 1" using assms(6) by linarith
  then show ?thesis
    using assms
    by (auto simp: parse_sealed_workflow_def sealed_workflow_value_def read_back num_value_def safeNonNegativeInteger_def read_enum
        MAX_SAFE_INTEGER_def)
qed

lemma read_digests:
  assumes "unicode_normalizer (nfc P)"
    and "list_all is_sha256 [sd_proposal_digest d, sd_render_context_digest d, sd_render_digest d, sd_assignment_digest d, sd_ledger_digest d, e]"
  shows "parse_digests P (JObj (digest_entries d @ [(js ''envelope_digest'', JStr e)])) = Inr (d, e)"
  using assms by (simp add: parse_digests_def digest_entries_def read_back read_sha256)

lemma read_checkpoint:
  assumes P: "unicode_normalizer (nfc P)"
    and w: "parse_sealed_workflow P (sealed_workflow_value (sg_workflow c)) = Inr (sg_workflow c)"
    and digests: "parse_digests P (JObj (digest_entries (sg_digests c) @ [(js ''envelope_digest'', JStr (sg_envelope_digest c))])) =
      Inr (sg_digests c, sg_envelope_digest c)"
    and draft: "parse_draft P (draft_value (sg_canonical_proposal c)) = Inr (sg_canonical_proposal c)"
    and ctx: "context_ok P (sg_render_context c)"
    and out: "nfc P (sg_output_text c) = sg_output_text c"
    and lengths: "readable (nfc P) (num_value (sg_output_utf8_byte_length c))" "readable (nfc P) (num_value (sg_output_utf16_length c))"
    and claims: "\<forall>sc \<in> set (sg_claims c). claim_readable P sc"
    and snapshots: "\<forall>e \<in> set (sg_evidence_snapshots c). snapshot_readable P e"
  shows "parseCheckpoint P (candidate_value c) = Inr c"
proof -
  have parts: "parseRenderContext P (context_value (sg_render_context c)) = Inr (sg_render_context c)"
      "mapE (parseSealedClaim P) (map sealed_claim_value (sg_claims c)) = Inr (sg_claims c)"
      "mapE (parseEvidenceSnapshot P) (map sealed_evidence_value (sg_evidence_snapshots c)) = Inr (sg_evidence_snapshots c)"
    using context_value_validates [OF P ctx] claims snapshots read_sealed_claim [OF P] read_snapshot [OF P]
    by (simp_all add: parseRenderContext_def read_list)
  show ?thesis
    using w digests draft out lengths parts
    by (simp add: parseCheckpoint_def candidate_value_def envelope_with_def CHECKPOINT_FIELDS_def checkpoint_versions_def read_back
        read_integer [of _ "nfc P"])
qed

section \<open>What was sealed\<close>

lemma sorted_context:
  assumes "durable_platform P" and "context_ok P ctx"
  shows "sortedRenderContext P ctx = Inr ctx"
proof -
  have "map (\<lambda>e. e\<lparr>re_structure_id := nfc P (re_structure_id e), re_source_id := nfc P (re_source_id e),
      re_source_version := nfc P (re_source_version e)\<rparr>) ctx = ctx"
    using assms durable_id [OF assms(1)] by (intro map_idI) (auto simp: context_ok_def list_all_iff entry_ok_def version_ok_def)
  with context_ok_distinct [OF assms(2)] show ?thesis by (simp add: sortedRenderContext_def)
qed

text \<open>A seal of the result of a verification, by the inputs of the coordinator.\<close>

definition sealed_from ::
    "platform \<Rightarrow> sealed_workflow \<Rightarrow> AtomicVerificationInput \<Rightarrow> AtomicVerificationResult \<Rightarrow> GroundingAssignmentSnapshot \<Rightarrow>
     render_context_entry list \<Rightarrow> SealedGroundedCandidateV1 \<Rightarrow> bool" where
  "sealed_from P w vin r a ctx c \<longleftrightarrow>
     draft_ok P (vr_canonical_proposal r) \<and> verify P vin = Inr r \<and> vi_evidence vin = as_evidence a \<and>
     sealGroundedCandidateV1 P \<lparr>si_workflow = w, si_verification = r, si_assignment = a, si_render_context = ctx\<rparr> = Inr c \<and>
     context_ok P ctx \<and> list_all (\<lambda>e. is_object (ev_index_snapshot e)) (as_evidence a) \<and>
     nfc P (sw_workflow_job_id w) = sw_workflow_job_id w \<and> nfc P (sw_project_id w) = sw_project_id w \<and>
     nfc P (sg_output_text c) = sg_output_text c"

lemma sealed_aligned:
  assumes P: "durable_platform P" and sealed: "sealed_from P w vin r a ctx c"
  defines "m \<equiv> map_of (map (\<lambda>item. (ev_evidence_id item, item)) (as_evidence a))"
  shows "vr_decision r = ALLOW" and "draft_ok P (vr_canonical_proposal r)" and "sg_canonical_proposal c = vr_canonical_proposal r"
    and "parse_draft P (draft_value (vr_canonical_proposal r)) = Inr (vr_canonical_proposal r)"
    and "list_all2 (sealed_as (sg_output_text c) m) (vr_claims r) (sg_claims c)"
    and "list_all2 (verified_as P vin (vr_canonical_proposal r) m) (gd_claims (vr_canonical_proposal r)) (vr_claims r)"
    and "list_all2 (claim_supported P vin) (gd_claims (vr_canonical_proposal r)) (vr_claims r)"
    and "sg_workflow c = w" and "sg_render_context c = ctx"
proof -
  have parts: "draft_ok P (vr_canonical_proposal r)" "verify P vin = Inr r"
      "sealGroundedCandidateV1 P \<lparr>si_workflow = w, si_verification = r, si_assignment = a, si_render_context = ctx\<rparr> = Inr c"
      "vi_evidence vin = as_evidence a" "context_ok P ctx"
      "nfc P (sw_workflow_job_id w) = sw_workflow_job_id w" "nfc P (sw_project_id w) = sw_project_id w"
    using sealed by (simp_all add: sealed_from_def)
  note aligned = seal_aligned [OF durable_normalizer [OF P] parts(1-3)]
  show "vr_decision r = ALLOW" "draft_ok P (vr_canonical_proposal r)" "sg_canonical_proposal c = vr_canonical_proposal r"
    "parse_draft P (draft_value (vr_canonical_proposal r)) = Inr (vr_canonical_proposal r)"
    "list_all2 (sealed_as (sg_output_text c) m) (vr_claims r) (sg_claims c)"
    using aligned parts(1) by (simp_all add: m_def)
  show "list_all2 (verified_as P vin (vr_canonical_proposal r) m) (gd_claims (vr_canonical_proposal r)) (vr_claims r)"
    using verify_allow [OF parts(2) aligned(1)] by (simp add: m_def parts(4))
  show "list_all2 (claim_supported P vin) (gd_claims (vr_canonical_proposal r)) (vr_claims r)"
    using verify_supported [OF parts(2) aligned(1)] by simp
  from parts(3) have "sortedRenderContext P ctx = Inr (sg_render_context c)"
    "sg_workflow c = w\<lparr>sw_workflow_job_id := nfc P (sw_workflow_job_id w), sw_project_id := nfc P (sw_project_id w)\<rparr>"
    by (rule seal_Inr, simp)+
  then show "sg_workflow c = w" "sg_render_context c = ctx"
    using sorted_context [OF P parts(5)] parts(6,7) by simp_all
qed

lemma sealed_digests_ok:
  assumes P: "durable_platform P" and sealed: "sealed_from P w vin r a ctx c"
  shows "list_all is_sha256 [sd_proposal_digest (sg_digests c), sd_render_context_digest (sg_digests c), sd_render_digest (sg_digests c),
      sd_assignment_digest (sg_digests c), sd_ledger_digest (sg_digests c), sg_envelope_digest c]"
    and "canonicalizable (nfc P) (withoutEnvelopeDigest c)"
proof -
  note sha = digest_is_sha256 [OF P] and seal = sealed [unfolded sealed_from_def]
  from seal have "sealGroundedCandidateV1 P \<lparr>si_workflow = w, si_verification = r, si_assignment = a, si_render_context = ctx\<rparr> = Inr c"
    by simp
  then obtain d proposal where digests:
      "digestCanonicalV1 P GROUNDED_DRAFT_SCHEMA_VERSION (draft_value proposal) = Inr (sd_proposal_digest (sg_digests c))"
      "digestCanonicalV1 P APPROVED_RENDER_CONTEXT_VERSION (context_value (sg_render_context c)) = Inr (sd_render_context_digest (sg_digests c))"
      "sd_render_digest (sg_digests c) = sha256Utf8 P (ATOMIC_RENDERER_VERSION @ 0 # sg_output_text c)"
      "sd_assignment_digest (sg_digests c) = sha256Utf8 P (ATOMIC_GROUNDING_CONTRACT_VERSION @ 0 # d)"
      "digestCanonicalV1 P ATOMIC_CLAIM_LEDGER_VERSION (JArr (map sealed_claim_value (sg_claims c))) = Inr (sd_ledger_digest (sg_digests c))"
      "digestCanonicalV1 P SEALED_GROUNDED_CANDIDATE_VERSION (withoutEnvelopeDigest c) = Inr (sg_envelope_digest c)"
    by (rule seal_Inr)
  show "list_all is_sha256 [sd_proposal_digest (sg_digests c), sd_render_context_digest (sg_digests c), sd_render_digest (sg_digests c),
      sd_assignment_digest (sg_digests c), sd_ledger_digest (sg_digests c), sg_envelope_digest c]"
    using digests(3,4) sha [OF digests(1)] sha [OF digests(2)] sha [OF digests(5)] sha [OF digests(6)] P
    by (simp add: sha256Utf8_def)
  show "canonicalizable (nfc P) (withoutEnvelopeDigest c)" by (rule digest_canonicalizable [OF digests(6)])
qed

text \<open>The parts of an envelope that serializes do too.\<close>

lemma canonical_parts:
  assumes "canonicalizable (nfc P) (withoutEnvelopeDigest c)"
  shows "sc \<in> set (sg_claims c) \<Longrightarrow> canonicalizable (nfc P) (sealed_claim_value sc)"
    and "e \<in> set (sg_evidence_snapshots c) \<Longrightarrow> canonicalizable (nfc P) (sealed_evidence_value e)"
    and "canonicalizable (nfc P) (draft_value (sg_canonical_proposal c))"
    and "readable (nfc P) (num_value (sg_output_utf8_byte_length c))" and "readable (nfc P) (num_value (sg_output_utf16_length c))"
proof -
  note entry = canonical_entry [OF assms [unfolded withoutEnvelopeDigest_def envelope_with_def]]
  from entry [of "js ''claims''"] show "sc \<in> set (sg_claims c) \<Longrightarrow> canonicalizable (nfc P) (sealed_claim_value sc)" by auto
  from entry [of "js ''evidence_snapshots''"] show "e \<in> set (sg_evidence_snapshots c) \<Longrightarrow> canonicalizable (nfc P) (sealed_evidence_value e)"
    by auto
  from entry [of "js ''canonical_proposal''"] show "canonicalizable (nfc P) (draft_value (sg_canonical_proposal c))"
    by (auto simp: draft_value_def)
  have "canonicalizable (nfc P) (JObj [(js ''text'', JStr (sg_output_text c)),
      (js ''utf8_byte_length'', num_value (sg_output_utf8_byte_length c)), (js ''utf16_length'', num_value (sg_output_utf16_length c))])"
    using entry [of "js ''server_output''"] by auto
  then show "readable (nfc P) (num_value (sg_output_utf8_byte_length c))" "readable (nfc P) (num_value (sg_output_utf16_length c))"
    by (simp_all add: num_value_def)
qed

end
