(* ===== verification/SealedReplay.thy ===== *)
theory SealedReplay
  imports SealedRoundtrip
begin

text \<open>
  Recovery of what was sealed: the stored candidate is read, found to belong to the assignment and the
  context, verified and sealed once more, and comes out unchanged.
\<close>

section \<open>Reading the stored candidate\<close>

lemma sealed_claims_readable:
  assumes P: "durable_platform P" and sealed: "sealed_from P w vin r a ctx c" and sc: "sc \<in> set (sg_claims c)"
  shows "claim_readable P sc"
proof -
  let ?m = "map_of (map (\<lambda>item. (ev_evidence_id item, item)) (as_evidence a))"
  note aligned = sealed_aligned [OF P sealed] and canon = sealed_digests_ok(2) [OF P sealed]
  from sc obtain i where i: "i < length (sg_claims c)" "sc = sg_claims c ! i" by (auto simp: in_set_conv_nth)
  let ?d = "vr_canonical_proposal r"
  have lens: "length (gd_claims ?d) = length (sg_claims c)" "length (vr_claims r) = length (sg_claims c)"
    using aligned(5,6) by (simp_all add: list_all2_conv_all_nth)
  have at: "verified_as P vin ?d ?m (gd_claims ?d ! i) (vr_claims r ! i)" "claim_supported P vin (gd_claims ?d ! i) (vr_claims r ! i)"
      "sealed_as (sg_output_text c) ?m (vr_claims r ! i) sc" "gd_claims ?d ! i \<in> set (gd_claims ?d)"
    using aligned(5-7) i lens by (auto simp: list_all2_conv_all_nth)
  have seal: "sealGroundedCandidateV1 P \<lparr>si_workflow = w, si_verification = r, si_assignment = a, si_render_context = ctx\<rparr> = Inr c"
    and out: "nfc P (sg_output_text c) = sg_output_text c" using sealed by (simp_all add: sealed_from_def)
  from seal obtain rendered where built: "buildSealedClaims P w (vr_claims r) rendered (sd_render_digest (sg_digests c)) ?m = Inr (sg_claims c)"
    and w: "sw_revision_attempt w \<le> 1"
    by (rule seal_Inr) simp
  from built_member [OF built sc] obtain p where
    p: "seal_claim P w (map_of (map (\<lambda>c. (vc_candidate_claim_key c, c)) (vr_claims r))) (ar_text rendered) (sd_render_digest (sg_digests c)) ?m p = Inr sc"
    by blast
  show ?thesis
    by (rule sealed_claim_readable [OF P aligned(2) at(4,1,2,3) p out canonical_parts(1) [OF canon sc] w])
qed

lemma sealed_snapshots_readable:
  assumes P: "durable_platform P" and sealed: "sealed_from P w vin r a ctx c" and e: "e \<in> set (sg_evidence_snapshots c)"
  shows "snapshot_readable P e"
proof -
  let ?m = "map_of (map (\<lambda>item. (ev_evidence_id item, item)) (as_evidence a))"
  have seal: "sealGroundedCandidateV1 P \<lparr>si_workflow = w, si_verification = r, si_assignment = a, si_render_context = ctx\<rparr> = Inr c"
    and index: "list_all (\<lambda>e. is_object (ev_index_snapshot e)) (as_evidence a)" using sealed by (simp_all add: sealed_from_def)
  from seal obtain ids snapshots where snaps: "mapE (seal_evidence P ?m) ids = Inr snapshots"
    and kept: "sg_evidence_snapshots c = sort_key se_evidence_id snapshots"
    by (rule seal_Inr) simp
  from e have "e \<in> set snapshots" by (simp add: kept)
  then obtain i where "seal_evidence P ?m i = Inr e"
    using snaps by (auto simp: mapE_Inr_iff list_all2_conv_all_nth in_set_conv_nth)
  then obtain item where item: "item \<in> set (as_evidence a)" "sealedEvidence P item = Inr e"
    by (auto simp: seal_evidence_def split: option.splits dest!: map_of_SomeD)
  with index have "is_object (ev_index_snapshot item)" by (simp add: list_all_iff)
  with item(2) canonical_parts(2) [OF sealed_digests_ok(2) [OF P sealed] e] show ?thesis
    by (intro sealed_snapshot_readable [OF P])
qed

lemma sealed_checkpoint:
  assumes P: "durable_platform P" and sealed: "sealed_from P w vin r a ctx c"
  shows "parseCheckpoint P (candidate_value c) = Inr c"
proof -
  note aligned = sealed_aligned [OF P sealed] and canon = sealed_digests_ok [OF P sealed]
  have parts: "sealGroundedCandidateV1 P \<lparr>si_workflow = w, si_verification = r, si_assignment = a, si_render_context = ctx\<rparr> = Inr c"
      "context_ok P ctx" "nfc P (sw_workflow_job_id w) = sw_workflow_job_id w" "nfc P (sw_project_id w) = sw_project_id w"
      "nfc P (sg_output_text c) = sg_output_text c"
    using sealed by (simp_all add: sealed_from_def)
  from parts(1) have attempts: "sw_revision_attempt w \<le> 1" "0 \<le> sw_generation_attempt w" "sw_generation_attempt w \<le> MAX_SAFE_INTEGER"
    by (rule seal_Inr, simp)+
  show ?thesis
  proof (rule read_checkpoint [OF durable_normalizer [OF P]])
    show "parse_sealed_workflow P (sealed_workflow_value (sg_workflow c)) = Inr (sg_workflow c)"
      unfolding aligned(8) by (rule read_workflow [OF durable_normalizer [OF P] parts(3,4) attempts(2,3,1)])
    show "parse_draft P (draft_value (sg_canonical_proposal c)) = Inr (sg_canonical_proposal c)"
      using aligned(3,4) by simp
    show "context_ok P (sg_render_context c)" using parts(2) aligned(9) by simp
  qed (use parts read_digests [OF durable_normalizer [OF P] canon(1)] canonical_parts(4,5) [OF canon(2)]
      sealed_claims_readable [OF P sealed] sealed_snapshots_readable [OF P sealed] in simp_all)
qed

section \<open>The same verification\<close>

lemma canonical_without_text:
  "canonicalizable nf (canonical_claim_value c (Some t)) \<Longrightarrow> canonicalizable nf (canonical_claim_value c None)"
  by (simp add: canonical_claim_value_def rendered_entries_def)

lemma sorted_ids_same: "sorted (cc_evidence_ids c) \<Longrightarrow> c\<lparr>cc_evidence_ids := sort (cc_evidence_ids c)\<rparr> = c"
  by (simp add: sort_key_id_if_sorted)

lemma sealed_claims_same:
  assumes P: "durable_platform P" and sealed: "sealed_from P w vin r a ctx c"
    and attempt: "vi_revision_attempt vin = sw_revision_attempt w"
  shows "list_all (\<lambda>(fresh, stored). same_claim P w fresh stored) (zip (vr_claims r) (sg_claims c))"
proof -
  let ?m = "map_of (map (\<lambda>item. (ev_evidence_id item, item)) (as_evidence a))" and ?d = "vr_canonical_proposal r"
  note aligned = sealed_aligned [OF P sealed] and canon = sealed_digests_ok(2) [OF P sealed]
  have lens: "length (gd_claims ?d) = length (sg_claims c)" "length (vr_claims r) = length (sg_claims c)"
    using aligned(5,6) by (simp_all add: list_all2_conv_all_nth)
  have "same_claim P w (vr_claims r ! i) (sg_claims c ! i)" if i: "i < length (sg_claims c)" for i
  proof -
    let ?v = "vr_claims r ! i" and ?sc = "sg_claims c ! i" and ?claim = "gd_claims ?d ! i"
    have at: "verified_as P vin ?d ?m ?claim ?v" "claim_supported P vin ?claim ?v" "sealed_as (sg_output_text c) ?m ?v ?sc"
        "?claim \<in> set (gd_claims ?d)" "?sc \<in> set (sg_claims c)"
      using aligned(5-7) i lens by (auto simp: list_all2_conv_all_nth)
    have "claim_fields_ok P ?claim" using aligned(2) at(4) by (simp add: draft_ok_def list_all_iff claim_ok_def)
    then have ids: "sorted (ac_evidence_ids ?claim)" by (simp add: claim_fields_ok_def)
    have same: "sc_canonical_claim ?sc = vc_base ?v" "sc_evidence_refs ?sc = vc_evidence_refs ?v"
      using at(2,3) ids by (simp_all add: sealed_as_def claim_supported_def sort_key_id_if_sorted)
    have "canonicalizable (nfc P) (sealed_claim_value ?sc)" by (rule canonical_parts(1) [OF canon at(5)])
    note entry = canonical_entry [OF this [unfolded sealed_claim_value_def]]
    have "canonicalizable (nfc P) (canonical_claim_value (vc_base ?v) (Some (sc_rendered_claim_text ?sc)))"
      using entry [of "js ''canonical_claim''"] by (auto simp: same canonical_claim_value_def)
    moreover have "canonicalizable (nfc P) (evidence_refs_value (vc_evidence_refs ?v))"
      using entry [of "js ''evidence_refs''"] by (auto simp: same evidence_refs_value_def)
    ultimately show ?thesis
      using at verified_as_base [OF at(1)] attempt
      by (simp add: same_claim_def same sealed_as_def claim_supported_def sameCanonical_refl canonical_without_text)
  qed
  then show ?thesis by (auto simp: list_all_length lens)
qed

section \<open>Recovery\<close>

lemma compare_same: "compare_digests c c = Inr ()"
  by (simp add: compare_digests_def constantTimeEqual_def Let_def)

lemma envelope_matches:
  "digestCanonicalV1 P SEALED_GROUNDED_CANDIDATE_VERSION (withoutEnvelopeDigest c) = Inr (sg_envelope_digest c) \<Longrightarrow>
     envelope_digest_matches P c = Some True"
  by (simp add: envelope_digest_matches_def constantTimeEqual_def)

lemma candidate_canonical:
  assumes "canonicalizable (nfc P) (withoutEnvelopeDigest c)" and "durable_platform P" and "is_sha256 (sg_envelope_digest c)"
  shows "canonicalizable (nfc P) (candidate_value c)"
proof -
  have wf: "isWellFormedUnicodeScalarV1 (sg_envelope_digest c)" by (rule sha256_wf [OF assms(3)])
  note entry = canonical_entry [OF assms(1) [unfolded withoutEnvelopeDigest_def envelope_with_def], of "js ''digests''"]
  have "canonicalizable (nfc P) (JObj (digest_entries (sg_digests c)))" using entry by simp
  then have "canonicalizable (nfc P) (JObj (digest_entries (sg_digests c) @ [(js ''envelope_digest'', JStr (sg_envelope_digest c))]))"
    using wf by (simp add: digest_entries_def js_simps durable_ascii [OF assms(2)])
  with assms(1) show ?thesis
    by (simp add: candidate_value_def withoutEnvelopeDigest_def envelope_with_def)
qed

lemma sealed_recovers:
  assumes P: "durable_platform P" and sealed: "sealed_from P w vin r a ctx c" and d: "as_snapshot_digest a = JStr d"
    and vin: "vin = verification_input w (vr_canonical_proposal r) d (as_evidence a)"
  shows "recoverSealedGroundedCandidateV1 P (candidate_value c) a (context_value ctx) = Inr c"
proof -
  note aligned = sealed_aligned [OF P sealed] and canon = sealed_digests_ok [OF P sealed]
  have seal: "sealGroundedCandidateV1 P \<lparr>si_workflow = w, si_verification = r, si_assignment = a, si_render_context = ctx\<rparr> = Inr c"
      and ctx: "context_ok P ctx" and ver: "verify P vin = Inr r"
    using sealed by (simp_all add: sealed_from_def)
  from seal d have digests: "sd_assignment_digest (sg_digests c) = sha256Utf8 P (ATOMIC_GROUNDING_CONTRACT_VERSION @ 0 # d)"
      "digestCanonicalV1 P APPROVED_RENDER_CONTEXT_VERSION (context_value (sg_render_context c)) = Inr (sd_render_context_digest (sg_digests c))"
      "digestCanonicalV1 P SEALED_GROUNDED_CANDIDATE_VERSION (withoutEnvelopeDigest c) = Inr (sg_envelope_digest c)"
      "as_targeted_revision_attempts a = int (sw_revision_attempt w)"
    by (auto elim!: seal_Inr)
  have "verify P (verification_input w (sg_canonical_proposal c) d (as_evidence a)) = Inr r"
    using ver aligned(3) by (simp add: vin)
  moreover have "length (vr_claims r) = length (sg_claims c)" using aligned(5) by (rule list_all2_lengthD)
  moreover have "list_all (\<lambda>(fresh, stored). same_claim P w fresh stored) (zip (vr_claims r) (sg_claims c))"
    by (rule sealed_claims_same [OF P sealed]) (simp add: vin verification_input_def)
  moreover have "sameCanonical P (draft_value (vr_canonical_proposal r)) (draft_value (sg_canonical_proposal c))"
    using canonical_parts(3) [OF canon(2)] aligned(3) by (simp add: sameCanonical_refl)
  ultimately have again: "verifyEnvelopeAgainstCurrentAssignment P c a = Inr r"
    using d digests(4) aligned(1,8) by (simp add: verifyEnvelopeAgainstCurrentAssignment_def)
  have "sameCanonical P (candidate_value c) (candidate_value c)"
    using candidate_canonical [OF canon(2) P] canon(1) by (simp add: sameCanonical_refl)
  then show ?thesis
    using d digests(1,2) seal again aligned(8,9) context_value_validates [OF durable_normalizer [OF P] ctx]
      sealed_checkpoint [OF P sealed] envelope_matches [OF digests(3)] compare_same [of c]
    by (simp add: recoverSealedGroundedCandidateV1_def constantTimeEqual_def)
qed

end
