(* ===== verification/AtomicCoordinatorProps.thy ===== *)
theory AtomicCoordinatorProps
  imports AtomicCoordinator SealedReplay
begin

text \<open>
  What the coordinator guarantees: a sealed outcome comes from an allowed verification and, for a
  revision, from an accepted one; a refusal never seals; and recovery returns what was sealed.
\<close>

section \<open>Steps of generation\<close>

lemma outcome_gap: "outcome input reason v points = (Inr x, points') \<Longrightarrow> \<exists>r ks. x = MaterialGap r ks"
  by (auto simp: outcome_def Let_def bindT_Inr_iff tx_steps split: if_splits)

lemma outcome_finished [simp]:
  "bindT (outcome input reason v) (\<lambda>r. returnT (Finished r)) points \<noteq> (Inr (Finished (Sealed c)), points')"
  by (auto simp: bindT_Inr_iff tx_steps dest: outcome_gap)

lemma verification_outcome_open: "verificationOutcome P lo input v a points \<noteq> (Inr (Sealed c), points')"
  by (auto simp: verificationOutcome_def Let_def bindT_Inr_iff tx_steps dest: outcome_gap split: if_splits sum.splits)

lemma verification_finished [simp]:
  "bindT (verificationOutcome P lo input v a) (\<lambda>r. returnT (Finished r)) points \<noteq> (Inr (Finished (Sealed c)), points')"
  by (simp add: bindT_Inr_iff tx_steps verification_outcome_open)

definition seal_input ::
    "AtomicGroundingGenerationInput \<Rightarrow> AtomicVerificationResult \<Rightarrow> GroundingAssignmentSnapshot \<Rightarrow> render_context_entry list \<Rightarrow>
     SealGroundedCandidateInput" where
  "seal_input input verification a ctx =
     \<lparr>si_workflow = \<lparr>sw_workflow_job_id = gi_workflow_job_id input, sw_project_id = gi_project_id input,
        sw_workflow_type = gi_workflow_type input, sw_generation_attempt = gi_generation_attempt input,
        sw_revision_attempt = gi_revision_attempt input\<rparr>,
      si_verification = verification, si_assignment = a, si_render_context = ctx\<rparr>"

lemma seal_step_sealed:
  assumes "seal_step P W input a ctx v points = (Inr (Finished (Sealed c)), points')"
  shows "sealGroundedCandidateV1 P (seal_input input v a ctx) = Inr c"
  using assms
  by (auto simp: seal_step_def seal_input_def bindT_Inr_iff tx_steps dest: outcome_gap split: sum.splits if_splits)

text \<open>What a sealed outcome went through.\<close>

definition revision_checked ::
    "platform \<Rightarrow> ((jstr \<times> jstr) list \<Rightarrow> (jstr \<times> jstr) list) \<Rightarrow> AtomicGroundingGenerationInput \<Rightarrow> GroundingAssignmentSnapshot \<Rightarrow>
     AtomicVerificationResult \<Rightarrow> bool" where
  "revision_checked P lo input a v \<longleftrightarrow>
     (if gi_revision_attempt input = 1 then validateRevision P lo input a v = Inr None else gi_revision input = None)"

lemma generate_from_sealed:
  assumes "generate_from P lo W input a ctx g points = (Inr (Finished (Sealed c)), points')"
  obtains proposal v where "parse_draft P (gr_proposal g) = Inr proposal"
    and "verify P (revision_input input (gi_revision_attempt input) proposal a) = Inr v" and "vr_decision v = ALLOW"
    and "revision_checked P lo input a v" and "sealGroundedCandidateV1 P (seal_input input v a ctx) = Inr c"
proof -
  obtain proposal where proposal: "parse_draft P (gr_proposal g) = Inr proposal"
    using assms by (cases "parse_draft P (gr_proposal g)") (auto simp: generate_from_def)
  obtain v where v: "verify P (revision_input input (gi_revision_attempt input) proposal a) = Inr v"
    using assms by (cases "verify P (revision_input input (gi_revision_attempt input) proposal a)")
      (auto simp: generate_from_def proposal bindT_Inr_iff tx_steps)
  from assms obtain p where run: "(if vr_decision v \<noteq> ALLOW
              then bindT (verificationOutcome P lo input v a) (\<lambda>r. returnT (Finished r))
              else if gi_revision_attempt input = 1 then
                bindT (liftE (validateRevision P lo input a v)) (\<lambda>refusal.
                case refusal of
                  Some reason \<Rightarrow> bindT (outcome input reason (Some v)) (\<lambda>r. returnT (Finished r))
                | None \<Rightarrow> seal_step P W input a ctx v)
              else if gi_revision input \<noteq> None
              then bindT (outcome input REVISION_INVARIANT_VIOLATION (Some v)) (\<lambda>r. returnT (Finished r))
              else seal_step P W input a ctx v) p = (Inr (Finished (Sealed c)), points')"
    by (auto simp: generate_from_def proposal v bindT_Inr_iff [of "metrics _"] bindT_Inr_iff [of "claim_metrics _ _"])
  from run have "vr_decision v = ALLOW" by (auto split: if_splits)
  moreover from this run have "revision_checked P lo input a v \<and> sealGroundedCandidateV1 P (seal_input input v a ctx) = Inr c"
    by (auto simp: revision_checked_def bindT_liftE_Inr dest: seal_step_sealed split: if_splits option.splits)
  ultimately show thesis using proposal v that by blast
qed

lemma catchT_Inr_iff:
  "catchT body handler p = (Inr x, q) \<longleftrightarrow>
     body p = (Inr x, q) \<or> (\<exists>e p'. body p = (Inl e, p') \<and> handler e p' = (Inr x, q))"
  by (auto simp: catchT_def split: prod.splits sum.splits)

lemma fail_closed_throws [simp]: "fail_closed input attempt p \<noteq> (Inr x, q)"
  by (simp add: fail_closed_def bindT_Inr_iff tx_steps)

lemma caught_open:
  "(case e of CoordinatorError _ _ \<Rightarrow> throwT e
      | _ \<Rightarrow> (case knownReason e of
            Some reason \<Rightarrow> bindT (outcome input reason None) (\<lambda>r. returnT (Finished r))
          | None \<Rightarrow> fail_closed input attempt)) p \<noteq> (Inr (Finished (Sealed c)), q)"
  by (simp add: tx_steps split: coordinator_thrown.split option.split)

text \<open>What generation works with: its assignment and context, loaded now or when the revision was prepared.\<close>

definition prepared_for :: "'d coordinator_world \<Rightarrow> AtomicGroundingGenerationInput \<Rightarrow> 'd PreparedAtomicGroundingGeneration option \<Rightarrow> bool" where
  "prepared_for W input prepared \<longleftrightarrow>
     (case prepared of
        None \<Rightarrow> True
      | Some p \<Rightarrow> \<exists>points points'. prepareRevisionModel W input points = (Inr p, points'))"

lemma prepare_handler_open:
  "(case e of CoordinatorError _ _ \<Rightarrow> throwT e
      | _ \<Rightarrow> (case knownReason e of
            Some reason \<Rightarrow> throwT (CoordinatorError reason 1)
          | None \<Rightarrow> fail_closed input 1)) p = (Inr x, q) \<longleftrightarrow> False"
  by (simp add: tx_steps split: coordinator_thrown.split option.split)

lemma prepareRevisionModel_Inr:
  assumes "prepareRevisionModel W input points = (Inr p, points')"
  shows "loadAssignment W input = Inr (Inr (pg_assignment p))"
    and "cw_build_context W (gi_workflow_job_id input) (gi_project_id input) = Inr (pg_render_context p)"
    and "pg_input p = input"
proof -
  let ?steps = "\<lambda>found. case found of
      Inl reason \<Rightarrow> throwT (CoordinatorError reason 1)
    | Inr a \<Rightarrow>
        bindT (liftE (cw_build_context W (gi_workflow_job_id input) (gi_project_id input))) (\<lambda>context.
        bindT (liftE (cw_prepare W (buildModelInput input a context) (buildModelOptions input))) (\<lambda>draft.
        returnT \<lparr>pg_input = input, pg_assignment = a, pg_render_context = context, pg_draft = draft\<rparr>))"
  from assms have "bindT (liftE (loadAssignment W input)) ?steps points = (Inr p, points')"
    unfolding prepareRevisionModel_def catchT_Inr_iff
    by (cases "gi_revision_attempt input \<noteq> 1 \<or> gi_revision input = None")
      (simp_all only: if_True if_False catchT_Inr_iff prepare_handler_open throwT_def prod.inject sum.distinct simp_thms)
  then obtain found where found: "loadAssignment W input = Inr found" and rest: "?steps found points = (Inr p, points')"
    unfolding bindT_liftE_Inr by blast
  from rest obtain a where "found = Inr a" by (cases found) (simp_all add: tx_steps)
  with found rest show "loadAssignment W input = Inr (Inr (pg_assignment p))"
      "cw_build_context W (gi_workflow_job_id input) (gi_project_id input) = Inr (pg_render_context p)" "pg_input p = input"
    by (auto simp: bindT_liftE_Inr tx_steps)
qed

lemma generate_sealed:
  assumes "generate P lo W input prepared points = (Inr (Sealed c), points')" and "prepared_for W input prepared"
  obtains a ctx g proposal v where "loadAssignment W input = Inr (Inr a)"
    and "cw_build_context W (gi_workflow_job_id input) (gi_project_id input) = Inr ctx"
    and "(\<exists>i opts. cw_generate W i opts = Inr g) \<or> (\<exists>d. cw_complete W d = Inr g)"
    and "parse_draft P (gr_proposal g) = Inr proposal"
    and "verify P (revision_input input (gi_revision_attempt input) proposal a) = Inr v" and "vr_decision v = ALLOW"
    and "revision_checked P lo input a v" and "sealGroundedCandidateV1 P (seal_input input v a ctx) = Inr c"
proof -
  from assms obtain x p where x: "(case x of Finished r \<Rightarrow> returnT r | PersistenceFailed e \<Rightarrow> throwT e) p = (Inr (Sealed c), points')"
    and run: "generate_body P lo W input prepared points = (Inr x, p) \<or> (\<exists>e p'. generate_body P lo W input prepared points = (Inl e, p') \<and>
      (case e of CoordinatorError _ _ \<Rightarrow> throwT e
        | _ \<Rightarrow> (case knownReason e of
              Some reason \<Rightarrow> bindT (outcome input reason None) (\<lambda>r. returnT (Finished r))
            | None \<Rightarrow> fail_closed input (gi_revision_attempt input))) p' = (Inr x, p))"
    unfolding generate_def bindT_Inr_iff catchT_Inr_iff by blast
  from x have "x = Finished (Sealed c)" by (cases x) (simp_all add: tx_steps)
  with run have body: "generate_body P lo W input prepared points = (Inr (Finished (Sealed c)), p)" using caught_open by blast
  obtain a ctx g where "loadAssignment W input = Inr (Inr a)"
    "cw_build_context W (gi_workflow_job_id input) (gi_project_id input) = Inr ctx"
    "(\<exists>i opts. cw_generate W i opts = Inr g) \<or> (\<exists>d. cw_complete W d = Inr g)"
    "generate_from P lo W input a ctx g points = (Inr (Finished (Sealed c)), p)"
  proof (cases prepared)
    case None
    with body obtain found where found: "loadAssignment W input = Inr found"
      and rest: "(case found of
         Inl reason \<Rightarrow> bindT (outcome input reason None) (\<lambda>r. returnT (Finished r))
       | Inr a \<Rightarrow>
           bindT (liftE (cw_build_context W (gi_workflow_job_id input) (gi_project_id input))) (\<lambda>context.
           bindT (liftE (cw_generate W (buildModelInput input a context) (buildModelOptions input))) (\<lambda>generated.
           generate_from P lo W input a context generated))) points = (Inr (Finished (Sealed c)), p)"
      unfolding generate_body_def None option.case bindT_liftE_Inr by blast
    from rest obtain a where a: "found = Inr a" by (cases found) simp_all
    with rest obtain ctx g where "cw_build_context W (gi_workflow_job_id input) (gi_project_id input) = Inr ctx"
      "cw_generate W (buildModelInput input a ctx) (buildModelOptions input) = Inr g"
      "generate_from P lo W input a ctx g points = (Inr (Finished (Sealed c)), p)"
      by (auto simp: bindT_liftE_Inr)
    with found a that show thesis by blast
  next
    case (Some q)
    with assms(2) obtain ps ps' where "prepareRevisionModel W input ps = (Inr q, ps')" by (auto simp: prepared_for_def)
    note q = prepareRevisionModel_Inr [OF this]
    from body obtain g where "cw_complete W (pg_draft q) = Inr g"
      "generate_from P lo W input (pg_assignment q) (pg_render_context q) g points = (Inr (Finished (Sealed c)), p)"
      by (auto simp: generate_body_def Some bindT_liftE_Inr)
    with q that show thesis by blast
  qed
  with generate_from_sealed [OF this(4)] that show thesis by metis
qed

section \<open>Recovery of a sealed outcome\<close>

text \<open>What the collaborators promise: values of the runtime, a checked context, snapshots with an object.\<close>

definition collaborators_ok :: "platform \<Rightarrow> 'd coordinator_world \<Rightarrow> bool" where
  "collaborators_ok P W \<longleftrightarrow>
     (\<forall>i opts g. cw_generate W i opts = Inr g \<longrightarrow> js_units (gr_proposal g)) \<and>
     (\<forall>d g. cw_complete W d = Inr g \<longrightarrow> js_units (gr_proposal g)) \<and>
     (\<forall>j p ctx. cw_build_context W j p = Inr ctx \<longrightarrow> context_ok P ctx) \<and>
     (\<forall>j a. cw_load_assignment W j = Inr (Some a) \<longrightarrow> list_all (\<lambda>e. is_object (ev_index_snapshot e)) (as_evidence a))"

lemma loadAssignment_Inr:
  "loadAssignment W input = Inr (Inr a) \<longleftrightarrow>
     cw_load_assignment W (gi_workflow_job_id input) = Inr (Some a) \<and> assignment_fault input a = None"
  by (auto simp: loadAssignment_def bindE_Inr_iff split: option.splits)

lemma assignment_digest: "assignment_fault input a = None \<Longrightarrow> \<exists>d. as_snapshot_digest a = JStr d \<and> is_sha256 d"
  by (cases "as_snapshot_digest a") (auto simp: assignment_fault_def split: if_splits)

lemma assignment_fault_same:
  "gi_workflow_job_id i = gi_workflow_job_id j \<Longrightarrow> gi_project_id i = gi_project_id j \<Longrightarrow>
     gi_revision_attempt i = gi_revision_attempt j \<Longrightarrow> assignment_fault i a = assignment_fault j a"
  by (simp add: assignment_fault_def)

lemma recovered_outcome:
  assumes P: "durable_platform P" and sealed: "sealed_from P w vin r a ctx c" and d: "as_snapshot_digest a = JStr d"
    and vin: "vin = verification_input w (vr_canonical_proposal r) d (as_evidence a)"
    and found: "cw_load_assignment W (sw_workflow_job_id w) = Inr (Some a)"
    and checked: "assignment_fault input a = None" "gi_workflow_job_id input = sw_workflow_job_id w"
      "gi_project_id input = sw_project_id w" "gi_revision_attempt input = sw_revision_attempt w"
    and ctx: "cw_build_context W (sw_workflow_job_id w) (sw_project_id w) = Inr ctx"
  shows "recover P W \<lparr>ri_workflow_job_id = sw_workflow_job_id w, ri_project_id = sw_project_id w, ri_checkpoint = candidate_value c\<rparr> points =
    (Inr (Sealed c), points)"
proof -
  let ?ri = "\<lparr>ri_workflow_job_id = sw_workflow_job_id w, ri_project_id = sw_project_id w, ri_checkpoint = candidate_value c\<rparr>"
  let ?gen = "recovery_generation_input ?ri (sw_workflow_type w) (sw_generation_attempt w) (sw_revision_attempt w)"
  from sealed have "sealGroundedCandidateV1 P \<lparr>si_workflow = w, si_verification = r, si_assignment = a, si_render_context = ctx\<rparr> = Inr c"
    by (simp add: sealed_from_def)
  then have "digestCanonicalV1 P SEALED_GROUNDED_CANDIDATE_VERSION (withoutEnvelopeDigest c) = Inr (sg_envelope_digest c)"
    by (rule seal_Inr)
  then have parsed: "parseSealedGroundedCandidateWorkflowV1 P (candidate_value c) = Inr w"
    using sealed_checkpoint [OF P sealed] envelope_matches sealed_aligned(8) [OF P sealed]
    by (simp add: parseSealedGroundedCandidateWorkflowV1_def)
  have "assignment_fault ?gen a = assignment_fault input a"
    by (rule assignment_fault_same) (simp_all add: recovery_generation_input_def checked)
  then have "loadAssignment W ?gen = Inr (Inr a)"
    using found checked(1) by (simp add: loadAssignment_Inr) (simp add: recovery_generation_input_def)
  with parsed ctx sealed_recovers [OF P sealed d vin] show ?thesis
    by (simp add: recover_def Let_def tx_steps)
qed

lemma sealed_text_nfc:
  assumes "composes_locally (nfc P)" and "sealGroundedCandidateV1 P input = Inr c"
  shows "nfc P (sg_output_text c) = sg_output_text c"
proof -
  from assms(2) obtain ver entries rendered where rendered: "renderAtomicDraftV1 P ver entries = Inr rendered"
    and out: "sg_output_text c = ar_text rendered"
    by (rule seal_Inr)
  show ?thesis unfolding out by (rule rendered_nfc [OF assms(1) rendered])
qed

text \<open>
  C16: what generation seals, recovery returns.  If the coordinator seals a candidate, for a first draft or
  for a revision it prepared, then recovering from the value the candidate is stored as, while the
  assignment and the context are what they were, gives the same candidate: the closed parser accepts
  it, all digests agree, and verifying and sealing again changes nothing.  The identifiers of the job
  and the project are normalized strings, as UUIDs are; the candidate stores them normalized and recovery
  compares them with its own.
\<close>

theorem sealed_generation_recovers:
  assumes "durable_platform P" and "collaborators_ok P W"
    and "generate P lo W input prepared points = (Inr (Sealed c), points')" and "prepared_for W input prepared"
    and "nfc P (gi_workflow_job_id input) = gi_workflow_job_id input" and "nfc P (gi_project_id input) = gi_project_id input"
  shows "recover P W \<lparr>ri_workflow_job_id = gi_workflow_job_id input, ri_project_id = gi_project_id input,
      ri_checkpoint = candidate_value c\<rparr> later = (Inr (Sealed c), later)"
proof -
  from assms(3,4) obtain a ctx g proposal v where a: "loadAssignment W input = Inr (Inr a)"
    and ctx: "cw_build_context W (gi_workflow_job_id input) (gi_project_id input) = Inr ctx"
    and g: "(\<exists>i opts. cw_generate W i opts = Inr g) \<or> (\<exists>d. cw_complete W d = Inr g)"
    and proposal: "parse_draft P (gr_proposal g) = Inr proposal"
    and v: "verify P (revision_input input (gi_revision_attempt input) proposal a) = Inr v" "vr_decision v = ALLOW"
    and "revision_checked P lo input a v" and seal: "sealGroundedCandidateV1 P (seal_input input v a ctx) = Inr c"
    by (rule generate_sealed)
  let ?w = "si_workflow (seal_input input v a ctx)"
  note nf = durable_normalizer [OF assms(1)]
  from a have found: "cw_load_assignment W (gi_workflow_job_id input) = Inr (Some a)" "assignment_fault input a = None"
    by (simp_all add: loadAssignment_Inr)
  from assignment_digest [OF this(2)] obtain d where d: "as_snapshot_digest a = JStr d" by blast
  have contracts: "js_units (gr_proposal g)" "context_ok P ctx" "list_all (\<lambda>e. is_object (ev_index_snapshot e)) (as_evidence a)"
    using assms(2) ctx g found(1) by (auto simp: collaborators_ok_def)
  have ok: "draft_ok P proposal" by (rule parse_draft_contract [OF nf contracts(1) proposal])
  have "parse_draft P (draft_value proposal) = Inr (vr_canonical_proposal v)"
    using verify_supported [OF v] by (simp add: revision_input_def)
  from reparsed_same [OF nf ok this] have canonical: "vr_canonical_proposal v = proposal" .
  have vin: "revision_input input (gi_revision_attempt input) proposal a = verification_input ?w (vr_canonical_proposal v) d (as_evidence a)"
    by (simp add: revision_input_def verification_input_def seal_input_def canonical d text_value_def)
  have w: "sw_workflow_job_id ?w = gi_workflow_job_id input" "sw_project_id ?w = gi_project_id input"
      "sw_revision_attempt ?w = gi_revision_attempt input"
    by (simp_all add: seal_input_def)
  have out: "nfc P (sg_output_text c) = sg_output_text c"
    using assms(1) by (intro sealed_text_nfc [OF _ seal]) (unfold durable_platform_def, blast)
  have sealed: "sealed_from P ?w (revision_input input (gi_revision_attempt input) proposal a) v a ctx c"
    using ok v seal contracts out assms(5,6)
    by (simp add: sealed_from_def canonical revision_input_def seal_input_def)
  show ?thesis
    using recovered_outcome [OF assms(1) sealed d vin, of W input, unfolded w] found ctx by blast
qed

section \<open>A concrete generation\<close>

definition atom_generation :: AtomicGroundingGenerationInput where
  "atom_generation =
     \<lparr>gi_workflow_job_id = js ''w'', gi_project_id = js ''p'', gi_workflow_type = CONTENT_WORKFLOW, gi_generation_attempt = 1,
      gi_revision_attempt = 0, gi_authoring_context = JObj [], gi_revision = None, gi_persists = False,
      gi_request_idempotency_key = None\<rparr>"

definition atom_world :: "unit coordinator_world" where
  "atom_world =
     \<lparr>cw_load_assignment = (\<lambda>_. Inr (Some atom_assignment)), cw_build_context = (\<lambda>_ _. Inr [atom_entry]),
      cw_generate = (\<lambda>_ _. Inr \<lparr>gr_proposal = draft_value atom_draft, gr_repair_attempts = 0, gr_proposal_bytes = 900\<rparr>),
      cw_prepare = (\<lambda>_ _. Inr ()), cw_complete = (\<lambda>_. Inl NoErrorValue), cw_persist = (\<lambda>_. Inr ()), cw_render_milliseconds = 2\<rparr>"

lemma atom_context_ok: "context_ok plain_platform [atom_entry]"
  by (simp add: context_ok_def entry_ok_def atom_entry_def version_ok_def label_ok_def is_safe_id_def char_class_defs
      forbidden_context_control_def js_includes_def utf8_length_def utf8_scalar_def js_def)

lemma atom_collaborators: "collaborators_ok plain_platform atom_world"
  using atom_context_ok atom_draft_units
  by (simp add: collaborators_ok_def atom_world_def) (simp add: atom_assignment_def atom_input_def atom_evidence_def)

lemma atom_assigned: "loadAssignment atom_world atom_generation = Inr (Inr atom_assignment)"
proof -
  have "is_sha256 (replicate 64 98)" by (simp add: is_sha256_def lower_hex_def list_all_iff)
  moreover have "evidence_readable (atom_evidence i t)" if "js t \<noteq> []" for i t
    using that digest_97 by (simp add: evidence_readable_def atom_evidence_def)
  ultimately show ?thesis
    by (simp add: loadAssignment_Inr assignment_fault_def atom_world_def atom_generation_def atom_assignment_def atom_input_def)
      (simp add: atom_evidence_def js_def)
qed

lemma atom_generated:
  obtains c points where "generate plain_platform lo atom_world atom_generation None [] = (Inr (Sealed c), points)"
proof -
  obtain c where c: "sealGroundedCandidateV1 plain_platform \<lparr>si_workflow = atom_workflow, si_verification = atom_result,
      si_assignment = atom_assignment, si_render_context = [atom_entry]\<rparr> = Inr c"
    by (rule atom_sealed)
  have input: "revision_input atom_generation (gi_revision_attempt atom_generation) atom_draft atom_assignment = atom_input"
    by (simp add: revision_input_def atom_generation_def atom_assignment_def atom_input_def text_value_def)
  have points: "\<exists>ps. proposal_points CONTENT_WORKFLOW DRAFT 900 1 0 = Inr ps"
      "\<exists>ps. claim_points CONTENT_WORKFLOW ATOMIC_TYPED_EQUIVALENT SUPPORTED = Inr ps"
      "\<exists>ps. render_latency_points CONTENT_WORKFLOW 2 = Inr ps"
    by (simp_all add: proposal_points_def claim_points_def render_latency_points_def one_point_def metric_point_def observation_def
        safeIntegerObservation_def repairObservation_def MAX_SAFE_INTEGER_def)
  have writes: "metrics (Inr ps) = writeT (\<lambda>points. points @ ps)" for ps by (simp add: metrics_def)
  have nested: "bindT (bindT (writeT f) returnT) k q = k () (f q)" for f q and k :: "unit \<Rightarrow> generation_end coordinated"
    by (simp add: bindT_def tx_steps)
  have fields: "gi_workflow_type atom_generation = CONTENT_WORKFLOW" "gi_revision_attempt atom_generation = 0"
      "gi_revision atom_generation = None" "vr_decision atom_result = ALLOW" "vr_claims atom_result = [atom_verdict]"
      "vc_verification_method atom_verdict = ATOMIC_TYPED_EQUIVALENT" "vc_support_status atom_verdict = SUPPORTED"
      "cw_render_milliseconds atom_world = 2" "gd_status atom_draft = DRAFT" "length (gd_claims atom_draft) = 1"
      "seal_input atom_generation atom_result atom_assignment [atom_entry] = \<lparr>si_workflow = atom_workflow, si_verification = atom_result,
        si_assignment = atom_assignment, si_render_context = [atom_entry]\<rparr>"
    by (simp_all add: atom_generation_def atom_result_def atom_verdict_def atom_world_def atom_draft_def seal_input_def atom_workflow_def)
  let ?g = "\<lparr>gr_proposal = draft_value atom_draft, gr_repair_attempts = 0, gr_proposal_bytes = 900\<rparr>"
  have "\<exists>q. seal_step plain_platform atom_world atom_generation atom_assignment [atom_entry] atom_result p = (Inr (Finished (Sealed c)), q)" for p
    using c points(3) unfolding fields(11) [symmetric]
    by (auto simp: seal_step_def atom_rendered fields writes tx_steps seal_input_def)
  then have "\<exists>q. generate_from plain_platform lo atom_world atom_generation atom_assignment [atom_entry] ?g [] = (Inr (Finished (Sealed c)), q)"
    using points(1,2) atom_result by (auto simp: generate_from_def atom_draft_parses fields writes nested input [unfolded fields])
  then obtain q where "generate_body plain_platform lo atom_world atom_generation None [] = (Inr (Finished (Sealed c)), q)"
    using atom_assigned by (auto simp: generate_body_def) (auto simp: atom_world_def)
  then show thesis by (intro that) (simp add: generate_def catchT_def bindT_def tx_steps)
qed

theorem sealed_generation_recovers_witness:
  "\<exists>c points. generate plain_platform (sort_key fst) atom_world atom_generation None [] = (Inr (Sealed c), points) \<and>
     recover plain_platform atom_world
       \<lparr>ri_workflow_job_id = js ''w'', ri_project_id = js ''p'', ri_checkpoint = candidate_value c\<rparr> [] = (Inr (Sealed c), [])"
proof -
  obtain c points where c: "generate plain_platform (sort_key fst) atom_world atom_generation None [] = (Inr (Sealed c), points)"
    by (rule atom_generated)
  have "gi_workflow_job_id atom_generation = js ''w''" "gi_project_id atom_generation = js ''p''"
    by (simp_all add: atom_generation_def)
  moreover have "prepared_for atom_world atom_generation None" by (simp add: prepared_for_def)
  ultimately show ?thesis using sealed_generation_recovers [OF plain_platform_durable atom_collaborators c] c by auto
qed

end
