(* ===== verification/TargetedRevision.thy ===== *)
theory TargetedRevision
  imports SealedDemo
begin

text \<open>
  The verifier and the check of a targeted revision together.  The verifier stops at the first claim
  that is not supported and lists the claims up to it, while the check compares the claims of
  both verifications one by one: a revision can only pass when the claim the first run stopped at
  is the last one of its draft.
\<close>

section \<open>The claims of a verification that stopped\<close>

definition stands_for :: "GroundedDraftProposal \<Rightarrow> AtomicClaimProposal \<Rightarrow> AtomicVerifiedClaimV1 \<Rightarrow> bool" where
  "stands_for proposal claim v \<longleftrightarrow>
     cc_ordinal (vc_base v) = ordinal_of (gd_ordering proposal) (ac_fragment_id claim) \<and>
     ac_fragment_id claim \<in> set (gd_ordering proposal)"

definition prefix_of :: "GroundedDraftProposal \<Rightarrow> AtomicClaimProposal list \<Rightarrow> AtomicVerifiedClaimV1 list \<Rightarrow> bool" where
  "prefix_of proposal claims vs \<longleftrightarrow>
     length vs \<le> length claims \<and> list_all2 (stands_for proposal) (take (length vs) claims) vs \<and>
     list_all (\<lambda>v. vc_support_status v = SUPPORTED) (butlast vs)"

lemma prefix_simps [simp]:
  "prefix_of proposal claims []"
  "prefix_of proposal (claim # claims) [v] \<longleftrightarrow> stands_for proposal claim v"
  "vs \<noteq> [] \<Longrightarrow> prefix_of proposal (claim # claims) (v # vs) \<longleftrightarrow>
     stands_for proposal claim v \<and> vc_support_status v = SUPPORTED \<and> prefix_of proposal claims vs"
  by (auto simp: prefix_of_def)

lemma prefix_Cons:
  "stands_for proposal claim v \<Longrightarrow> vc_support_status v = SUPPORTED \<Longrightarrow> prefix_of proposal claims vs \<Longrightarrow>
     prefix_of proposal (claim # claims) (v # vs)"
  by (cases "vs = []") auto

lemma failedResult_Inr: "failedResult d reason n cs = Inr r \<Longrightarrow> vr_canonical_proposal r = d \<and> vr_claims r = cs"
  by (auto simp: failedResult_def bindE_Inr_iff)

lemma stands_for_base:
  "canonicalClaimBase P input proposal claim a = Inr c \<Longrightarrow> vc_base v = c \<Longrightarrow> stands_for proposal claim v"
  by (auto simp: stands_for_def dest: canonicalClaimBase_Inr)

lemma verify_claims_prefix:
  assumes "verify_claims P input proposal evidenceById claims verified = Inr r"
  shows "vr_canonical_proposal r = proposal \<and> (\<exists>vs. vr_claims r = verified @ vs \<and> prefix_of proposal claims vs)"
  using assms
proof (induction P input proposal evidenceById claims verified rule: verify_claims.induct)
  case (1 P input proposal evidenceById verified)
  then show ?case by auto
next
  case (2 P input proposal evidenceById claim claims verified)
  note run = 2(2)
  show ?case
  proof (cases "recomputeAtomV1 P claim")
    case (Inl m)
    with run show ?thesis by (auto dest!: failedResult_Inr)
  next
    case (Inr a)
    note rec = this
    then obtain c where c: "canonicalClaimBase P input proposal claim a = Inr c"
      using run by (auto simp: bindE_Inr_iff)
    have stands: "stands_for proposal claim (unverifiableClaim c refs EVIDENCE_UNKNOWN)"
        "stands_for proposal claim (compared_claim c refs cs)" for refs cs
      by (rule stands_for_base [OF c], simp add: unverifiableClaim_def)+
    show ?thesis
    proof (cases "cited_evidence evidenceById (ac_evidence_ids claim)")
      case (Inl items)
      with run rec c stands show ?thesis by (auto dest!: failedResult_Inr)
    next
      case (Inr items)
      define compared where "compared = compared_claim c (map evidence_ref items)
        (map (\<lambda>item. compareOneEvidenceDefault P a (text_value (ev_exact_span_text item))) items)"
      show ?thesis
      proof (cases "vc_support_status compared = SUPPORTED")
        case False
        with run rec c Inr have "vr_canonical_proposal r = proposal \<and> vr_claims r = verified @ [compared]"
          by (auto simp: compared_def Let_def dest!: failedResult_Inr)
        with stands show ?thesis by (auto simp: compared_def)
      next
        case True
        with run rec c Inr have "verify_claims P input proposal evidenceById claims (verified @ [compared]) = Inr r"
          by (simp add: compared_def Let_def)
        with 2(1) [OF rec c Inr refl compared_def] True obtain vs where
          vs: "vr_canonical_proposal r = proposal" "vr_claims r = verified @ compared # vs" "prefix_of proposal claims vs"
          by auto
        then have "prefix_of proposal (claim # claims) (compared # vs)"
          using stands True by (intro prefix_Cons) (simp_all add: compared_def)
        with vs show ?thesis by auto
      qed
    qed
  qed
qed

lemma verified_prefix:
  assumes "verify P input = Inr r" and "vr_claims r \<noteq> []"
  shows "parse_draft P (vi_proposal input) = Inr (vr_canonical_proposal r) \<and>
    prefix_of (vr_canonical_proposal r) (gd_claims (vr_canonical_proposal r)) (vr_claims r)"
proof -
  from assms(1) have run: "verifyClosed P input = Inr r"
    by (auto simp: verify_def split: sum.splits verify_error.splits)
  have refused: "failedResult d reason n [] \<noteq> Inr r" for d reason n
    using assms(2) by (auto dest: failedResult_Inr)
  obtain proposal where parse: "parse_draft P (vi_proposal input) = Inr proposal"
    using run refused by (cases "parse_draft P (vi_proposal input)") (auto simp: verifyClosed_def)
  then obtain m where "verify_claims P input proposal m (gd_claims proposal) [] = Inr r"
    using run by (auto simp: verifyClosed_def Let_def refused simp del: verify_claims.simps split: if_splits)
  from verify_claims_prefix [OF this] parse show ?thesis by simp
qed

section \<open>The same render graph\<close>

lemma presentation_texts:
  "claim_presentation_text p = claim_presentation_text q \<longleftrightarrow> p = q"
  "structure_presentation_text s = structure_presentation_text t \<longleftrightarrow> s = t"
  "separator_text a = separator_text b \<longleftrightarrow> a = b"
proof -
  show "claim_presentation_text p = claim_presentation_text q \<longleftrightarrow> p = q" by (cases p; cases q; simp)
  show "structure_presentation_text s = structure_presentation_text t \<longleftrightarrow> s = t" by (cases s; cases t; simp)
  show "separator_text a = separator_text b \<longleftrightarrow> a = b" by (cases a; cases b; simp)
qed

lemma presentation_ascii:
  "\<forall>c \<in> set (js (claim_presentation_text p)). c < 128" "\<forall>c \<in> set (js (structure_presentation_text s)). c < 128"
  "\<forall>c \<in> set (js (separator_text t)). c < 128"
proof -
  show "\<forall>c \<in> set (js (claim_presentation_text p)). c < 128" by (cases p; simp add: js_def)
  show "\<forall>c \<in> set (js (structure_presentation_text s)). c < 128" by (cases s; simp add: js_def)
  show "\<forall>c \<in> set (js (separator_text t)). c < 128" by (cases t; simp add: js_def)
qed

lemma fragment_units:
  assumes "fragment_fields_ok f"
  shows "js_units (fragment_value f)"
proof -
  have ascii: "utf16 i" if "\<forall>c \<in> set i. c < 128" for i
    using that by (fastforce simp: utf16_def list_all_iff)
  note texts = safe_id_ascii [THEN ascii] presentation_ascii [THEN ascii]
  show ?thesis
    using assms texts by (cases f) (simp_all, simp_all add: js_def)
qed

lemma fragment_norm_inject:
  assumes nf: "unicode_normalizer (nfc P)" and "fragment_fields_ok f" and "fragment_fields_ok g"
    and "canon_norm (nfc P) (fragment_value f) = canon_norm (nfc P) (fragment_value g)"
  shows "f = g"
proof -
  have ids: "nfc P i = i" if "is_safe_id i" for i
    using that nf by (intro ascii_nfc safe_id_ascii)
  have texts: "nfc P (js (claim_presentation_text p)) = js (claim_presentation_text p)"
      "nfc P (js (structure_presentation_text s)) = js (structure_presentation_text s)"
      "nfc P (js (separator_text t)) = js (separator_text t)" for p s t
    using ascii_nfc [OF nf] presentation_ascii by blast+
  have names: "nfc P (js ''fragment_id'') = js ''fragment_id''" "nfc P (js ''kind'') = js ''kind''"
      "nfc P (js ''claim_id'') = js ''claim_id''" "nfc P (js ''structure_id'') = js ''structure_id''"
      "nfc P (js ''token'') = js ''token''" "nfc P (js ''presentation'') = js ''presentation''"
      "nfc P (js ''claim_ref'') = js ''claim_ref''" "nfc P (js ''structure_ref'') = js ''structure_ref''"
      "nfc P (js ''separator'') = js ''separator''"
    by (rule ascii_nfc [OF nf], simp add: js_def)+
  have order: "js ''claim_id'' \<le> js ''fragment_id''" "\<not> js ''fragment_id'' \<le> js ''claim_id''"
      "js ''claim_id'' \<le> js ''kind''" "\<not> js ''kind'' \<le> js ''claim_id''"
      "js ''claim_id'' \<le> js ''presentation''" "\<not> js ''presentation'' \<le> js ''claim_id''"
      "js ''fragment_id'' \<le> js ''kind''" "\<not> js ''kind'' \<le> js ''fragment_id''"
      "js ''fragment_id'' \<le> js ''presentation''" "\<not> js ''presentation'' \<le> js ''fragment_id''"
      "js ''fragment_id'' \<le> js ''structure_id''" "\<not> js ''structure_id'' \<le> js ''fragment_id''"
      "js ''fragment_id'' \<le> js ''token''" "\<not> js ''token'' \<le> js ''fragment_id''"
      "js ''kind'' \<le> js ''presentation''" "\<not> js ''presentation'' \<le> js ''kind''"
      "js ''kind'' \<le> js ''structure_id''" "\<not> js ''structure_id'' \<le> js ''kind''"
      "js ''kind'' \<le> js ''token''" "\<not> js ''token'' \<le> js ''kind''"
      "js ''presentation'' \<le> js ''structure_id''" "\<not> js ''structure_id'' \<le> js ''presentation''"
      "js ''presentation'' \<le> js ''token''" "\<not> js ''token'' \<le> js ''presentation''"
    by (simp_all add: js_def)
  show ?thesis
    using assms(2-4)
    by (cases f; cases g; simp add: names texts ids order presentation_texts)
qed

lemma same_fragments:
  assumes nf: "unicode_normalizer (nfc P)" and "list_all fragment_fields_ok fs" and "list_all fragment_fields_ok gs"
    and same: "sameCanonical P (JArr (map fragment_value fs)) (JArr (map fragment_value gs))"
  shows "fs = gs"
proof -
  have "js_units (JArr (map fragment_value fs))" "js_units (JArr (map fragment_value gs))"
    using assms(2,3) fragment_units by (auto simp: list_all_iff)
  from sameCanonical_norm [OF nf this same]
  have eq: "map (\<lambda>f. canon_norm (nfc P) (fragment_value f)) fs = map (\<lambda>f. canon_norm (nfc P) (fragment_value f)) gs"
    by (simp add: comp_def)
  then have len: "length fs = length gs" by (rule map_eq_imp_length_eq)
  show ?thesis
  proof (rule nth_equalityI [OF len])
    fix i assume i: "i < length fs"
    with eq len have "canon_norm (nfc P) (fragment_value (fs ! i)) = canon_norm (nfc P) (fragment_value (gs ! i))"
      by (metis nth_map)
    with i len assms(2,3) show "fs ! i = gs ! i"
      by (intro fragment_norm_inject [OF nf]) (simp_all add: list_all_length)
  qed
qed

section \<open>Claims by their position\<close>

lemma claim_in_ordering:
  assumes "draft_ok P d" and "c \<in> set (gd_claims d)"
  shows "ac_fragment_id c \<in> set (gd_ordering d)"
proof -
  have d: "map fragment_id (gd_fragments d) = gd_ordering d" "claim_refs (gd_fragments d) = map claim_pair (gd_claims d)"
    using assms(1) by (simp_all add: draft_ok_def)
  have "map ac_fragment_id (gd_claims d) = map fst (claim_refs (gd_fragments d))" by (simp add: d(2) comp_def)
  then have "subseq (map ac_fragment_id (gd_claims d)) (gd_ordering d)" using claim_refs_fst [of "gd_fragments d"] d(1) by simp
  with assms(2) show ?thesis by (auto dest!: list_emb_set [where x = "ac_fragment_id c"])
qed

lemma claims_by_ordinal_nth:
  assumes "draft_ok P d" and "i < length (gd_claims d)"
  shows "claims_by_ordinal d (ordinal_of (gd_ordering d) (ac_fragment_id (gd_claims d ! i))) = Some (gd_claims d ! i)"
proof -
  let ?o = "\<lambda>c. ordinal_of (gd_ordering d) (ac_fragment_id c)"
  have all: "filter (\<lambda>c. ac_fragment_id c \<in> set (gd_ordering d)) (gd_claims d) = gd_claims d"
    using claim_in_ordering [OF assms(1)] by (simp add: filter_id_conv)
  have "distinct (map ?o (gd_claims d))"
    using ordinals_increasing [OF assms(1)] by (simp add: strict_sorted_iff)
  then have "distinct (map fst (rev (map (\<lambda>c. (?o c, c)) (gd_claims d))))"
    by (simp add: rev_map [symmetric] comp_def)
  moreover have "(?o (gd_claims d ! i), gd_claims d ! i) \<in> set (rev (map (\<lambda>c. (?o c, c)) (gd_claims d)))"
    using assms(2) by simp
  ultimately show ?thesis unfolding claims_by_ordinal_def all by (rule map_of_is_SomeI)
qed

section \<open>A revision that passes\<close>

text \<open>
  What a revision has made of a claim: a target refers to the claim it replaces, any other claim is
  the same in canonical JSON and refers to none.
\<close>

definition claim_revised :: "platform \<Rightarrow> jstr list \<Rightarrow> jstr \<Rightarrow> AtomicClaimProposal \<Rightarrow> AtomicClaimProposal \<Rightarrow> bool" where
  "claim_revised P targets key claim replacement \<longleftrightarrow>
     (if key \<in> set targets then ac_revision_of replacement = Some key
      else ac_revision_of replacement = None \<and> sameCanonical P (claim_value claim) (claim_value replacement))"

lemma revision_Inr:
  assumes "validateTargetedRevisionV1 P \<lparr>rb_verification = base, rb_allowed_candidate_claim_keys = targets, rb_proposal_digest = d\<rparr>
    revised = Inr ()"
  obtains b r where "parse_draft P (draft_value (vr_canonical_proposal base)) = Inr b"
    and "parse_draft P (draft_value (vr_canonical_proposal revised)) = Inr r"
    and "targets \<noteq> []" and "set targets \<subseteq> vc_candidate_claim_key ` set (vr_claims base)"
    and "length (vr_claims base) = length (vr_claims revised)"
    and "sameCanonical P (JArr (map fragment_value (gd_fragments b))) (JArr (map fragment_value (gd_fragments r)))"
    and "\<And>i. i < length (vr_claims base) \<Longrightarrow> revision_step P targets b r (vr_claims base ! i) (vr_claims revised ! i)"
proof -
  from assms obtain b r where parsed: "parse_draft P (draft_value (vr_canonical_proposal base)) = Inr b"
      "parse_draft P (draft_value (vr_canonical_proposal revised)) = Inr r"
    by (auto simp: validateTargetedRevisionV1_def split: sum.splits)
  show thesis
    by (rule that [OF parsed])
      (use assms parsed in \<open>simp_all add: validateTargetedRevisionV1_def Let_def guardE_def list_all_length split: if_splits\<close>)
qed

lemma revision_step_claims:
  assumes "revision_step P targets b r previous replacement"
    and "claims_by_ordinal b (cc_ordinal (vc_base previous)) = Some claim"
    and "claims_by_ordinal r (cc_ordinal (vc_base replacement)) = Some claim'"
  shows "claim_revised P targets (vc_candidate_claim_key previous) claim claim'"
  using assms by (auto simp: revision_step_def claim_revised_def target_kept_def other_unchanged_def split: if_splits)

text \<open>
  C17: A targeted revision that passes its check has kept the fragments and their order, has changed
  only the claims it was asked to change, and was made of a verification that had reached the
  last claim of its draft: every claim before it was supported.
\<close>

theorem targeted_revision_keeps_draft:
  assumes nf: "unicode_normalizer (nfc P)" and "js_units (vi_proposal vin)" and "js_units (vi_proposal win)"
    and base: "verify P vin = Inr base" and revised: "verify P win = Inr revised" "vr_decision revised = ALLOW"
    and valid: "validateTargetedRevisionV1 P
      \<lparr>rb_verification = base, rb_allowed_candidate_claim_keys = targets, rb_proposal_digest = d\<rparr> revised = Inr ()"
  shows "gd_fragments (vr_canonical_proposal revised) = gd_fragments (vr_canonical_proposal base) \<and>
    gd_ordering (vr_canonical_proposal revised) = gd_ordering (vr_canonical_proposal base) \<and>
    list_all2 (\<lambda>(v, claim) replacement. claim_revised P targets (vc_candidate_claim_key v) claim replacement)
      (zip (vr_claims base) (gd_claims (vr_canonical_proposal base))) (gd_claims (vr_canonical_proposal revised)) \<and>
    length (vr_claims base) = length (gd_claims (vr_canonical_proposal base)) \<and>
    list_all (\<lambda>v. vc_support_status v = SUPPORTED) (butlast (vr_claims base))"
proof -
  let ?b = "vr_canonical_proposal base" and ?r = "vr_canonical_proposal revised"
  from valid obtain b r where parsed: "parse_draft P (draft_value ?b) = Inr b" "parse_draft P (draft_value ?r) = Inr r"
    and "targets \<noteq> []" "set targets \<subseteq> vc_candidate_claim_key ` set (vr_claims base)"
    and len: "length (vr_claims base) = length (vr_claims revised)"
    and frags: "sameCanonical P (JArr (map fragment_value (gd_fragments b))) (JArr (map fragment_value (gd_fragments r)))"
    and steps: "\<And>i. i < length (vr_claims base) \<Longrightarrow> revision_step P targets b r (vr_claims base ! i) (vr_claims revised ! i)"
    by (rule revision_Inr) blast
  then have "vr_claims base \<noteq> []" by auto
  note stopped = verified_prefix [OF base this]
  from verify_allow [OF revised] obtain m where "parse_draft P (vi_proposal win) = Inr ?r"
    and all: "list_all2 (verified_as P win ?r m) (gd_claims ?r) (vr_claims revised)"
    by (auto simp: input_accepted_def)
  then have ok: "draft_ok P ?b" "draft_ok P ?r"
    using stopped assms(2,3) by (auto intro: parse_draft_contract [OF nf])
  then have same: "b = ?b" "r = ?r" using parsed reparsed_same [OF nf] by blast+
  have "list_all fragment_fields_ok (gd_fragments ?b)" "list_all fragment_fields_ok (gd_fragments ?r)"
    using ok by (simp_all add: draft_ok_def)
  from same_fragments [OF nf this] frags have fragments: "gd_fragments ?r = gd_fragments ?b" by (simp add: same)
  have graph: "map fragment_id (gd_fragments e) = gd_ordering e" "length (claim_refs (gd_fragments e)) = length (gd_claims e)"
    if "draft_ok P e" for e using that by (simp_all add: draft_ok_def)
  from fragments graph [OF ok(1)] graph [OF ok(2)]
  have ordering: "gd_ordering ?r = gd_ordering ?b" and "length (gd_claims ?r) = length (gd_claims ?b)" by auto
  then have lens: "length (vr_claims base) = length (gd_claims ?b)" "length (gd_claims ?r) = length (gd_claims ?b)"
    using len list_all2_lengthD [OF all] by simp_all
  have "claim_revised P targets (vc_candidate_claim_key (vr_claims base ! i)) (gd_claims ?b ! i) (gd_claims ?r ! i)"
    if i: "i < length (gd_claims ?b)" for i
  proof (rule revision_step_claims)
    show "revision_step P targets ?b ?r (vr_claims base ! i) (vr_claims revised ! i)" using steps i lens same by simp
    show "claims_by_ordinal ?b (cc_ordinal (vc_base (vr_claims base ! i))) = Some (gd_claims ?b ! i)"
      using stopped i lens claims_by_ordinal_nth [OF ok(1) i]
      by (auto simp: prefix_of_def stands_for_def list_all2_conv_all_nth)
    show "claims_by_ordinal ?r (cc_ordinal (vc_base (vr_claims revised ! i))) = Some (gd_claims ?r ! i)"
      using verified_as_base(1) [OF list_all2_nthD [OF all, of i]] i lens claims_by_ordinal_nth [OF ok(2), of i] by simp
  qed
  then have "list_all2 (\<lambda>(v, claim) replacement. claim_revised P targets (vc_candidate_claim_key v) claim replacement)
      (zip (vr_claims base) (gd_claims ?b)) (gd_claims ?r)"
    using lens by (simp add: list_all2_conv_all_nth)
  with fragments ordering lens stopped show ?thesis by (simp add: prefix_of_def)
qed

section \<open>A concrete revision\<close>

text \<open>The draft \<open>A=5kW\<close> first cites an unknown piece of evidence; its revision cites the right one.\<close>

definition atom_key :: jstr where
  "atom_key = candidateClaimKey plain_platform (js ''w'') 1 1"

definition revision_claim :: "jstr option \<Rightarrow> string \<Rightarrow> AtomicClaimProposal" where
  "revision_claim key i = atom_claim\<lparr>ac_revision_of := key, ac_evidence_ids := [js ''e1'', js i]\<rparr>"

definition revision_draft :: "jstr option \<Rightarrow> string \<Rightarrow> GroundedDraftProposal" where
  "revision_draft key i = atom_draft\<lparr>gd_claims := [revision_claim key i]\<rparr>"

definition revision_run :: "nat \<Rightarrow> jstr option \<Rightarrow> string \<Rightarrow> AtomicVerificationInput" where
  "revision_run n key i = atom_input\<lparr>vi_revision_attempt := n, vi_proposal := draft_value (revision_draft key i)\<rparr>"

lemma atom_key_sha256: "is_sha256 atom_key"
  by (simp add: atom_key_def candidateClaimKey_def toy_sha256)

lemma sha256_safe: "is_sha256 d \<Longrightarrow> is_safe_id d"
  by (cases d) (auto simp: is_sha256_def is_safe_id_def list_all_iff lower_hex_def ascii_alnum_def ascii_lower_def is_digit_def)

lemma revision_draft_ok:
  assumes "pred_option is_sha256 key" and "i \<in> {''e2'', ''e9''}"
  shows "draft_ok plain_platform (revision_draft key i)"
proof -
  have "pred_option is_safe_id key" using assms(1) sha256_safe by (cases key) auto
  moreover have "draft_ok plain_platform (revision_draft key i)" if "pred_option is_safe_id key"
    using assms(2)
    by (rule insertE; use that in \<open>simp add: draft_ok_def status_ok_def claim_ok_def claim_fields_ok_def
      revision_draft_def revision_claim_def\<close>; simp add: sample_evaluation atom_draft_def atom_claim_def js_def)
  ultimately show ?thesis by blast
qed

lemma revision_draft_fits:
  assumes "pred_option is_sha256 key" and "i \<in> {''e2'', ''e9''}"
  shows "draft_fits plain_platform (revision_draft key i)"
proof -
  have key: "list_all (\<lambda>c. c < 128) k" "json_quote k = 34 # k @ [34]" "length k = 64" if "key = Some k" for k
    using assms(1) that sha256_ascii [of k]
    by (fastforce simp: list_all_iff is_sha256_def lower_hex_def is_digit_def plain_unit_def intro!: json_quote_plain)+
  have "utf8_length (js ''A=5kW'') \<le> MAX_CLAIM_TEXT_BYTES"
    by (simp add: utf8_length_def utf8_scalar_def MAX_CLAIM_TEXT_BYTES_def js_def)
  moreover have "assertProposalUtf8Bytes plain_platform (draft_value (revision_draft key i)) MAX_PROPOSAL_BYTES = Inr ()"
    using assms(2) key
    by (cases key)
      (auto simp: assertProposalUtf8Bytes_def draft_value_def revision_draft_def revision_claim_def atom_draft_def atom_claim_def
        claim_value_def anchor_value_def quantity_value_def span_value_def option_value_def num_value_def gap_value_def
        GROUNDED_DRAFT_SCHEMA_VERSION_def MAX_PROPOSAL_BYTES_def json_number_def MAX_SAFE_INTEGER_def dec_int_def dec_nat.simps
        List.map_filter_simps json_quote_plain plain_unit_def utf8_length_ascii js_def)
  ultimately show ?thesis by (simp add: draft_fits_def revision_draft_def revision_claim_def atom_claim_def)
qed

lemma revision_draft_parses:
  "pred_option is_sha256 key \<Longrightarrow> i \<in> {''e2'', ''e9''} \<Longrightarrow>
     parse_draft plain_platform (draft_value (revision_draft key i)) = Inr (revision_draft key i)"
  by (intro draft_value_parses plain_platform_normalizer revision_draft_ok revision_draft_fits)

definition revision_base :: "nat \<Rightarrow> jstr option \<Rightarrow> string \<Rightarrow> CanonicalClaimBase" where
  "revision_base n key i =
     atom_base\<lparr>cc_evidence_ids := [js ''e1'', js i], cc_revision_attempt := n, cc_revision_of := key\<rparr>"

lemma revision_claim_base:
  assumes "(n, key) \<in> {(0, None), (1, Some atom_key)}"
  shows "canonicalClaimBase plain_platform (revision_run n key i) (revision_draft key i) (revision_claim key i) atom_recomputed =
    Inr (revision_base n key i)"
proof -
  have same: "gd_ordering (revision_draft key i) = gd_ordering atom_draft" "gd_fragments (revision_draft key i) = gd_fragments atom_draft"
      "ac_fragment_id (revision_claim key i) = ac_fragment_id atom_claim"
      "previous_structure (revision_draft key i) = previous_structure atom_draft"
      "next_structure (revision_draft key i) = next_structure atom_draft"
    by (simp_all add: revision_draft_def revision_claim_def previous_structure_def next_structure_def fragment_map_def fun_eq_iff)
  show ?thesis
    using assms atom_neighbours
    by (auto simp: canonicalClaimBase_def Let_def same)
      (auto simp: atom_draft_def atom_claim_def revision_claim_def revision_base_def atom_base_def atom_recomputed_def
        atom_key_def revision_run_def atom_input_def text_value_def key_preimage [unfolded One_nat_def])
qed

lemma revision_recomputed: "recomputeAtomV1 plain_platform (revision_claim key i) = Inr atom_recomputed"
proof -
  have "ac_claim_text (revision_claim key i) = ac_claim_text atom_claim" "ac_span_end (revision_claim key i) = ac_span_end atom_claim"
      "ac_subject (revision_claim key i) = ac_subject atom_claim" "ac_predicate (revision_claim key i) = ac_predicate atom_claim"
      "ac_polarity (revision_claim key i) = ac_polarity atom_claim" "ac_quantifier (revision_claim key i) = ac_quantifier atom_claim"
      "ac_quantities (revision_claim key i) = ac_quantities atom_claim"
    by (simp_all add: revision_claim_def atom_claim_def)
  then have "recomputeAtomV1 plain_platform (revision_claim key i) = recomputeAtomV1 plain_platform atom_claim"
    by (simp only: recomputeAtomV1_def)
  then show ?thesis by (simp add: atom_recomputes)
qed

definition stopped_verdict :: AtomicVerifiedClaimV1 where
  "stopped_verdict =
     unverifiableClaim (revision_base 0 None ''e9'') [evidence_ref (atom_evidence ''e1'' ''A=5kW.'')] EVIDENCE_UNKNOWN"

definition revised_verdict :: AtomicVerifiedClaimV1 where
  "revised_verdict =
     compared_claim (revision_base 1 (Some atom_key) ''e2'')
       (map evidence_ref (vi_evidence atom_input)) [Inr EXACT, Inr TYPED]"

definition stopped_result :: AtomicVerificationResult where
  "stopped_result =
     \<lparr>vr_decision = TARGETED_RETRIEVAL_REVISION, vr_canonical_proposal = revision_draft None ''e9'',
      vr_claims = [stopped_verdict], vr_material_gap_reason = Some EVIDENCE_UNKNOWN\<rparr>"

definition revised_result :: AtomicVerificationResult where
  "revised_result =
     \<lparr>vr_decision = ALLOW, vr_canonical_proposal = revision_draft (Some atom_key) ''e2'',
      vr_claims = [revised_verdict], vr_material_gap_reason = None\<rparr>"

lemma revision_verified:
  "verify plain_platform (revision_run 0 None ''e9'') = Inr stopped_result"
  "verify plain_platform (revision_run 1 (Some atom_key) ''e2'') = Inr revised_result"
proof -
  let ?e1 = "atom_evidence ''e1'' ''A=5kW.''" and ?e2 = "atom_evidence ''e2'' ''A=5000W''"
  have checks: "is_sha256 (replicate 64 98)" "evidence_readable ?e1" "evidence_readable ?e2"
    by (simp_all add: is_sha256_def lower_hex_def evidence_readable_def atom_evidence_def list_all_iff)
  have fields: "ev_evidence_id (atom_evidence i t) = js i" "ev_project_id (atom_evidence i t) = js ''p''"
      "ev_exact_span_text (atom_evidence i t) = JStr (js t)" for i t by (simp_all add: atom_evidence_def)
  have ids: "ac_evidence_ids (revision_claim key i) = [js ''e1'', js i]" for key i by (simp add: revision_claim_def)
  have draft: "gd_status (revision_draft key i) = DRAFT" "gd_claims (revision_draft key i) = [revision_claim key i]"
      "ac_revision_of (revision_claim key i) = key" for key i
    by (simp_all add: revision_draft_def revision_claim_def atom_draft_def)
  have input: "vi_workflow_job_id (revision_run n key i) = JStr (js ''w'')" "vi_project_id (revision_run n key i) = JStr (js ''p'')"
      "vi_generation_attempt (revision_run n key i) = JNum (NInt 1)" "vi_revision_attempt (revision_run n key i) = n"
      "vi_proposal (revision_run n key i) = draft_value (revision_draft key i)"
      "vi_assignment_digest (revision_run n key i) = replicate 64 98" "vi_evidence (revision_run n key i) = [?e1, ?e2]" for n key i
    by (simp_all add: revision_run_def atom_input_def)
  have parses: "parse_draft plain_platform (draft_value (revision_draft None ''e9'')) = Inr (revision_draft None ''e9'')"
      "parse_draft plain_platform (draft_value (revision_draft (Some atom_key) ''e2'')) = Inr (revision_draft (Some atom_key) ''e2'')"
    using atom_key_sha256 by (simp_all add: revision_draft_parses)
  have bases: "canonicalClaimBase plain_platform (revision_run 0 None ''e9'') (revision_draft None ''e9'') (revision_claim None ''e9'')
      atom_recomputed = Inr (revision_base 0 None ''e9'')"
    "canonicalClaimBase plain_platform (revision_run 1 (Some atom_key) ''e2'') (revision_draft (Some atom_key) ''e2'')
      (revision_claim (Some atom_key) ''e2'') atom_recomputed = Inr (revision_base 1 (Some atom_key) ''e2'')"
    by (rule revision_claim_base, simp)+
  let ?m = "map_of (map (\<lambda>item. (ev_evidence_id item, item)) [?e1, ?e2])"
  have known: "?m (js ''e1'') = Some ?e1" "?m (js ''e2'') = Some ?e2" "?m (js ''e9'') = None"
    by (simp_all add: fields)
  have decided: "failedResult d EVIDENCE_UNKNOWN 0 cs = Inr \<lparr>vr_decision = TARGETED_RETRIEVAL_REVISION,
      vr_canonical_proposal = d, vr_claims = cs, vr_material_gap_reason = Some EVIDENCE_UNKNOWN\<rparr>" for d cs
    by (simp add: failedResult_def decisionFor_def dispositionForAtomicFailure_def revisionSensitive_def)
  have one: "map evidence_ref [e] = [evidence_ref e]" for e by simp
  have "verify_claims plain_platform (revision_run 0 None ''e9'') (revision_draft None ''e9'') ?m [revision_claim None ''e9''] [] =
      Inr stopped_result"
    by (simp add: revision_recomputed bases(1) ids known input one decided stopped_result_def stopped_verdict_def del: map_of.simps list.map)
  then show "verify plain_platform (revision_run 0 None ''e9'') = Inr stopped_result"
    by (simp add: verify_def verifyClosed_def input parses(1) checks filled_text_def MAX_SAFE_INTEGER_def fields draft
        del: verify_claims.simps)
  have compared: "map (\<lambda>item. compareOneEvidenceDefault plain_platform atom_recomputed (text_value (ev_exact_span_text item)))
      [?e1, ?e2] = [Inr EXACT, Inr TYPED]"
    by (simp add: fields text_value_def atom_compared)
  have "verify_claims plain_platform (revision_run 1 (Some atom_key) ''e2'') (revision_draft (Some atom_key) ''e2'') ?m
      [revision_claim (Some atom_key) ''e2''] [] = Inr revised_result"
    using compared
    by (simp add: revision_recomputed bases(2) ids known input Let_def revised_result_def revised_verdict_def
        del: map_of.simps list.map(2) One_nat_def) (simp add: atom_input_def)
  then show "verify plain_platform (revision_run 1 (Some atom_key) ''e2'') = Inr revised_result"
    by (simp add: verify_def verifyClosed_def input parses(2) checks filled_text_def MAX_SAFE_INTEGER_def fields draft
        del: verify_claims.simps)
qed

lemma revision_canonical:
  "canonicalizable (\<lambda>s. s) (draft_value (revision_draft None ''e9''))"
  "canonicalizable (\<lambda>s. s) (JArr (map fragment_value (gd_fragments atom_draft)))"
  "canonicalizable (\<lambda>s. s) (JArr (map JStr (gd_ordering atom_draft)))"
  "canonicalizable (\<lambda>s. s) (JArr (map JStr [js ''e1'', js ''e2'']))"
  by (simp_all add: draft_value_def revision_draft_def revision_claim_def atom_draft_def atom_claim_def claim_value_def
      anchor_value_def quantity_value_def span_value_def option_value_def num_value_def gap_value_def
      GROUNDED_DRAFT_SCHEMA_VERSION_def MAX_SAFE_INTEGER_def js_def)

lemma revision_valid:
  obtains d where "validateTargetedRevisionV1 plain_platform
    \<lparr>rb_verification = stopped_result, rb_allowed_candidate_claim_keys = [atom_key], rb_proposal_digest = d\<rparr> revised_result = Inr ()"
proof -
  let ?b = "revision_draft None ''e9''" and ?r = "revision_draft (Some atom_key) ''e2''"
  have "isWellFormedUnicodeScalarV1 GROUNDED_DRAFT_SCHEMA_VERSION" by (simp add: GROUNDED_DRAFT_SCHEMA_VERSION_def js_def)
  with plain_digest [OF revision_canonical(1)]
  obtain d where d: "digestCanonicalV1 plain_platform GROUNDED_DRAFT_SCHEMA_VERSION (draft_value ?b) = Inr d" by blast
  have parses: "parse_draft plain_platform (draft_value ?b) = Inr ?b" "parse_draft plain_platform (draft_value ?r) = Inr ?r"
    using atom_key_sha256 by (simp_all add: revision_draft_parses)
  have same: "gd_ordering (revision_draft key i) = gd_ordering atom_draft" "gd_fragments (revision_draft key i) = gd_fragments atom_draft"
    for key i by (simp_all add: revision_draft_def)
  have key: "cc_candidate_claim_key atom_base = atom_key" by (simp add: atom_base_def atom_key_def key_preimage [unfolded One_nat_def])
  have found: "claims_by_ordinal (revision_draft key i) (cc_ordinal atom_base) = Some (revision_claim key i)" for key i
    using atom_neighbours(1)
    by (simp add: claims_by_ordinal_def revision_draft_def revision_claim_def atom_base_def)
      (simp add: atom_draft_def atom_claim_def)
  have verdicts: "vc_candidate_claim_key stopped_verdict = atom_key" "vc_candidate_claim_key revised_verdict = atom_key"
      "vc_base stopped_verdict = revision_base 0 None ''e9''" "vc_base revised_verdict = revision_base 1 (Some atom_key) ''e2''"
    by (simp_all add: stopped_verdict_def revised_verdict_def unverifiableClaim_def revision_base_def key)
  have bases: "cc_ordinal (revision_base n k i) = cc_ordinal atom_base" "cc_revision_attempt (revision_base n k i) = n"
      "cc_presentation (revision_base n k i) = cc_presentation atom_base" "cc_revision_of (revision_base n k i) = k"
      "cc_previous_structure_id (revision_base n k i) = cc_previous_structure_id atom_base"
      "cc_next_structure_id (revision_base n k i) = cc_next_structure_id atom_base"
      "cc_source_claim_text_nfc (revision_base n k i) = js ''A=5kW''"
      "cc_evidence_ids (revision_base n k i) = [js ''e1'', js i]" for n k i
    by (simp_all add: revision_base_def atom_base_def)
  have claims: "ac_revision_of (revision_claim k i) = k" "ac_claim_text (revision_claim k i) = js ''A=5kW''"
      "ac_evidence_ids (revision_claim k i) = [js ''e1'', js i]" for k i
    by (simp_all add: revision_claim_def atom_claim_def)
  note canonical = revision_canonical [folded plain_platform_simps(1), THEN sameCanonical_refl]
  have "revision_step plain_platform [atom_key] ?b ?r stopped_verdict revised_verdict"
    using canonical(4) by (simp add: revision_step_def verdicts bases found target_kept_def claims)
  then have "validateTargetedRevisionV1 plain_platform
      \<lparr>rb_verification = stopped_result, rb_allowed_candidate_claim_keys = [atom_key], rb_proposal_digest = d\<rparr> revised_result = Inr ()"
    using canonical(2,3) d
    by (simp add: validateTargetedRevisionV1_def stopped_result_def revised_result_def parses same verdicts constantTimeEqual_def)
  then show thesis by (rule that)
qed

theorem targeted_revision_keeps_draft_witness:
  "\<exists>d. validateTargetedRevisionV1 plain_platform
      \<lparr>rb_verification = stopped_result, rb_allowed_candidate_claim_keys = [atom_key], rb_proposal_digest = d\<rparr> revised_result = Inr () \<and>
     verify plain_platform (revision_run 0 None ''e9'') = Inr stopped_result \<and>
     verify plain_platform (revision_run 1 (Some atom_key) ''e2'') = Inr revised_result \<and>
     claim_revised plain_platform [atom_key] atom_key (revision_claim None ''e9'') (revision_claim (Some atom_key) ''e2'')"
proof -
  obtain d where d: "validateTargetedRevisionV1 plain_platform
    \<lparr>rb_verification = stopped_result, rb_allowed_candidate_claim_keys = [atom_key], rb_proposal_digest = d\<rparr> revised_result = Inr ()"
    by (rule revision_valid)
  have "utf16 atom_key" using sha256_ascii [OF atom_key_sha256] by (fastforce simp: utf16_def list_all_iff)
  then have units: "js_units (vi_proposal (revision_run n None ''e9''))" "js_units (vi_proposal (revision_run n (Some atom_key) ''e2''))" for n
    by (simp_all add: revision_run_def draft_value_def revision_draft_def revision_claim_def atom_draft_def atom_claim_def claim_value_def
        anchor_value_def quantity_value_def span_value_def option_value_def num_value_def gap_value_def
        GROUNDED_DRAFT_SCHEMA_VERSION_def) (simp_all add: js_def)
  have "vr_decision revised_result = ALLOW" by (simp add: revised_result_def)
  from targeted_revision_keeps_draft [OF plain_platform_normalizer units revision_verified this d] d revision_verified show ?thesis
    by (auto simp: stopped_result_def revised_result_def revision_draft_def stopped_verdict_def unverifiableClaim_def
        revision_base_def atom_base_def atom_key_def key_preimage [unfolded One_nat_def])
qed

end
