(* ===== verification/Chunker.thy ===== *)
theory Chunker
  imports JsValue
begin

text \<open>
  The chunker of ingested documents (\<open>chunk/chunker.ts\<close>): a document with a structure is cut into
  parents, one per heading, and children, windows of tokens of each block; a document without one is
  cut into paragraphs that are packed into chunks with an overlap.  The Unicode classes of the
  token pattern (\<open>\p{Script=Han}\<close>, \<open>\p{L}\<close> or \<open>\p{N}\<close>) are parameters, as predicates on code points.
\<close>

section \<open>Data\<close>

datatype AstBlockType = HEADING | PARAGRAPH | LIST_ITEM | TABLE_BLOCK | CODE_BLOCK | QUOTE_BLOCK

record DocumentAstBlock =
  ab_block_id :: jstr
  ab_type :: AstBlockType
  ab_text :: jstr
  ab_heading_path :: "jstr list"
  ab_page_start :: "int option"
  ab_page_end :: "int option"
  ab_offset_start :: nat
  ab_offset_end :: nat

record chunk_section =
  cs_title :: jstr
  cs_content :: jstr
  cs_page :: "int option"

record ChunkInput =
  ci_content_text :: jstr
  ci_sections :: "chunk_section list"
  ci_ast :: "DocumentAstBlock list option"
  ci_ingestion_key :: "jstr option"

datatype chunk_type = PARENT | CHILD

text \<open>The fields that only a chunk of a structured document has.\<close>

record chunk_details =
  cd_chunk_type :: chunk_type
  cd_parent_key :: "jstr option"
  cd_stable_key :: jstr
  cd_position :: nat
  cd_token_count :: nat
  cd_tokenizer_version :: jstr
  cd_overlap_previous_tokens :: nat
  cd_heading_path :: "jstr list"
  cd_page_start :: "int option"
  cd_page_end :: "int option"
  cd_block_ids :: "jstr list"
  cd_char_start :: "nat option"
  cd_char_end :: "nat option"

record ChunkOutput =
  co_content :: jstr
  co_section_title :: "jstr option"
  co_page_number :: "int option"
  co_chunk_index :: nat
  co_details :: "chunk_details option"

definition MIN_CHUNK_SIZE :: nat where "MIN_CHUNK_SIZE = 300"
definition MAX_CHUNK_SIZE :: nat where "MAX_CHUNK_SIZE = 800"
definition OVERLAP_SIZE :: nat where "OVERLAP_SIZE = 120"
definition MAX_CHILD_TOKENS :: nat where "MAX_CHILD_TOKENS = 512"
definition TOKENIZER_VERSION :: jstr where "TOKENIZER_VERSION = js ''stable-mixed-script-v1''"
definition OVERLAP_TOKENS :: nat where "OVERLAP_TOKENS = 64"

section \<open>Paragraphs\<close>

text \<open>\<open>split(/\n{2,}/)\<close>; the first argument is the piece read so far, reversed.\<close>

function split_blank_lines :: "jstr \<Rightarrow> jstr \<Rightarrow> jstr list" where
  "split_blank_lines piece [] = [rev piece]"
| "split_blank_lines piece (c # s) =
     (if c = 10 \<and> s \<noteq> [] \<and> hd s = 10 then rev piece # split_blank_lines [] (dropWhile (\<lambda>c. c = 10) s)
      else split_blank_lines (c # piece) s)"
  by pat_completeness auto
termination
  by (relation "measure (\<lambda>(piece, s). length s)") (auto simp: less_Suc_eq_le length_dropWhile_le)

text \<open>The punctuation of \<open>split(/(?<=[\<dots>])\s*/)\<close>: after one of these a sentence may end.\<close>

definition sentence_end :: "nat \<Rightarrow> bool" where
  "sentence_end c \<longleftrightarrow> c \<in> {0x3002, 0xFF01, 0xFF1F, 46, 33, 63, 0xFF1B, 59}"

text \<open>
  The split itself: \<open>after\<close> tells whether the unit before the rest is such a punctuation.  A separator
  that is empty and begins where the current piece does splits nothing.
\<close>

function split_sentences :: "jstr \<Rightarrow> bool \<Rightarrow> jstr \<Rightarrow> jstr list" where
  "split_sentences piece after [] = [rev piece]"
| "split_sentences piece after (c # s) =
     (if after \<and> (piece \<noteq> [] \<or> js_white c)
      then rev piece #
        (if js_white c then split_sentences [] False (dropWhile js_white s)
         else split_sentences [c] (sentence_end c) s)
      else split_sentences (c # piece) (sentence_end c) s)"
  by pat_completeness auto
termination
  by (relation "measure (\<lambda>(piece, after, s). length s)") (auto simp: less_Suc_eq_le length_dropWhile_le)

definition trimmed_parts :: "jstr list \<Rightarrow> jstr list" where
  "trimmed_parts parts = filter (\<lambda>p. p \<noteq> []) (map js_trim parts)"

text \<open>Pieces of \<open>n\<close> units; the last may be shorter.\<close>

function cut_every :: "nat \<Rightarrow> jstr \<Rightarrow> jstr list" where
  "cut_every n s = (if s = [] \<or> n = 0 then [] else take n s # cut_every n (drop n s))"
  by pat_completeness auto
termination by (relation "measure (\<lambda>(n, s). length s)") auto

declare cut_every.simps [simp del]

definition splitByLength :: "jstr \<Rightarrow> nat \<Rightarrow> jstr list" where
  "splitByLength t maxLength = trimmed_parts (cut_every maxLength t)"

text \<open>Sentences joined by a space while they fit.\<close>

fun pack_sentences :: "jstr \<Rightarrow> jstr list \<Rightarrow> jstr list" where
  "pack_sentences buffer [] = (if js_trim buffer \<noteq> [] then [js_trim buffer] else [])"
| "pack_sentences buffer (sentence # sentences) =
     (if buffer \<noteq> [] \<and> length buffer + length sentence + 1 > MAX_CHUNK_SIZE
      then js_trim buffer # pack_sentences sentence sentences
      else pack_sentences (buffer @ (if buffer \<noteq> [] then [32] else []) @ sentence) sentences)"

definition splitOversizedParagraph :: "jstr \<Rightarrow> jstr list" where
  "splitOversizedParagraph paragraph =
     (if length paragraph \<le> MAX_CHUNK_SIZE then [paragraph]
      else
        let sentenceParts = trimmed_parts (split_sentences [] False paragraph)
        in if length sentenceParts \<le> 1 then splitByLength paragraph MAX_CHUNK_SIZE
           else concat (map (\<lambda>segment. if length segment > MAX_CHUNK_SIZE then splitByLength segment MAX_CHUNK_SIZE
                  else [segment]) (pack_sentences [] sentenceParts)))"

definition splitByParagraphs :: "jstr \<Rightarrow> jstr list" where
  "splitByParagraphs t = concat (map splitOversizedParagraph (trimmed_parts (split_blank_lines [] t)))"

definition getOverlapPrefix :: "jstr \<Rightarrow> jstr" where
  "getOverlapPrefix content = js_trim (drop (length content - OVERLAP_SIZE) content)"

section \<open>Documents without a structure\<close>

record chunking =
  ck_chunks :: "ChunkOutput list"
  ck_index :: nat

text \<open>A new chunk; \<open>title || null\<close> has no title for the empty string.\<close>

definition plain_chunk :: "jstr option \<Rightarrow> int option \<Rightarrow> jstr \<Rightarrow> chunking \<Rightarrow> chunking" where
  "plain_chunk title page content st =
     \<lparr>ck_chunks = ck_chunks st @ [\<lparr>co_content = content, co_section_title = title, co_page_number = page,
        co_chunk_index = ck_index st, co_details = None\<rparr>], ck_index = ck_index st + 1\<rparr>"

definition section_title :: "chunk_section \<Rightarrow> jstr option" where
  "section_title s = (if cs_title s = [] then None else Some (cs_title s))"

definition take_paragraph :: "chunk_section \<Rightarrow> chunking \<times> jstr \<Rightarrow> jstr \<Rightarrow> chunking \<times> jstr" where
  "take_paragraph sec = (\<lambda>(st, buffer) para.
     if length buffer + length para > MAX_CHUNK_SIZE \<and> length buffer \<ge> MIN_CHUNK_SIZE
     then
       let finalized = js_trim buffer;
           overlap = getOverlapPrefix finalized
       in (plain_chunk (section_title sec) (cs_page sec) finalized st,
           if overlap \<noteq> [] then overlap @ [10, 10] @ para else para)
     else (st, buffer @ (if buffer \<noteq> [] then [10, 10] else []) @ para))"

text \<open>What is left in the buffer joins the last chunk when it is short and the titles agree.\<close>

definition merge_into_last :: "chunk_section \<Rightarrow> jstr \<Rightarrow> ChunkOutput list \<Rightarrow> bool" where
  "merge_into_last sec buffer chunks \<longleftrightarrow>
     length buffer < MIN_CHUNK_SIZE \<and> chunks \<noteq> [] \<and>
     co_section_title (last chunks) = section_title sec \<and>
     length (co_content (last chunks)) + length buffer \<le> MAX_CHUNK_SIZE"

definition end_section :: "chunk_section \<Rightarrow> chunking \<times> jstr \<Rightarrow> chunking" where
  "end_section sec = (\<lambda>(st, buffer).
     if js_trim buffer = [] then st
     else if merge_into_last sec buffer (ck_chunks st)
     then st\<lparr>ck_chunks := butlast (ck_chunks st) @
            [(last (ck_chunks st))\<lparr>co_content := co_content (last (ck_chunks st)) @ [10, 10] @ js_trim buffer\<rparr>]\<rparr>
     else plain_chunk (section_title sec) (cs_page sec) (js_trim buffer) st)"

definition chunk_one_section :: "chunking \<Rightarrow> chunk_section \<Rightarrow> chunking" where
  "chunk_one_section st sec = end_section sec (foldl (take_paragraph sec) (st, []) (splitByParagraphs (cs_content sec)))"

text \<open>The text of a document whose sections gave nothing, in overlapping pieces.\<close>

function chunk_text :: "jstr \<Rightarrow> nat \<Rightarrow> chunking \<Rightarrow> chunking" where
  "chunk_text t offset st =
     (if offset < length t
      then
        let ending = min (offset + MAX_CHUNK_SIZE) (length t);
            st' = plain_chunk None None (js_trim (slice t offset ending)) st
        in chunk_text t (if ending \<ge> length t then ending else max (ending - OVERLAP_SIZE) (offset + 1)) st'
      else st)"
  by pat_completeness auto
termination
  by (relation "measure (\<lambda>(t, offset, st). length t - offset)") (auto simp: MAX_CHUNK_SIZE_def OVERLAP_SIZE_def)

declare chunk_text.simps [simp del]

definition chunk_plain :: "ChunkInput \<Rightarrow> ChunkOutput list" where
  "chunk_plain input =
     (let st = foldl chunk_one_section \<lparr>ck_chunks = [], ck_index = 0\<rparr> (ci_sections input)
      in ck_chunks
          (if ck_chunks st = [] \<and> js_trim (ci_content_text input) \<noteq> []
           then chunk_text (ci_content_text input) 0 st else st))"

section \<open>Tokens\<close>

text \<open>The code points of a string, each with its number of code units.\<close>

fun utf16_points :: "jstr \<Rightarrow> (nat \<times> nat) list" where
  "utf16_points [] = []"
| "utf16_points (c # s) =
     (case s of
        [] \<Rightarrow> [(c, 1)]
      | d # s' \<Rightarrow>
          if high_surrogate c \<and> low_surrogate d then (pair_scalar c d, 2) # utf16_points s'
          else (c, 1) # utf16_points s)"

record token_classes =
  tc_han :: "nat \<Rightarrow> bool"
  tc_letter :: "nat \<Rightarrow> bool"

definition word_joiner :: "nat \<Rightarrow> bool" where
  "word_joiner c \<longleftrightarrow> c \<in> {39, 0x2019, 45}"

text \<open>
  What follows the first letter of a word: letters, and joiners that stand between letters.  The result
  is the number of units and the rest.
\<close>

fun word_rest :: "(nat \<Rightarrow> bool) \<Rightarrow> (nat \<times> nat) list \<Rightarrow> nat \<times> (nat \<times> nat) list" where
  "word_rest letter [] = (0, [])"
| "word_rest letter ((c, w) # ps) =
     (if letter c \<or> (word_joiner c \<and> ps \<noteq> [] \<and> letter (fst (hd ps)))
      then (case word_rest letter ps of (n, rest) \<Rightarrow> (w + n, rest))
      else (0, (c, w) # ps))"

lemma word_rest_length: "length (snd (word_rest letter ps)) \<le> length ps"
  by (induction letter ps rule: word_rest.induct) (auto split: prod.splits)

record TokenSpan =
  ts_start :: nat
  ts_end :: nat

function tokens_from :: "token_classes \<Rightarrow> nat \<Rightarrow> (nat \<times> nat) list \<Rightarrow> TokenSpan list" where
  "tokens_from C i [] = []"
| "tokens_from C i ((c, w) # ps) =
     (if tc_han C c then \<lparr>ts_start = i, ts_end = i + w\<rparr> # tokens_from C (i + w) ps
      else if tc_letter C c
      then \<lparr>ts_start = i, ts_end = i + w + fst (word_rest (tc_letter C) ps)\<rparr> #
        tokens_from C (i + w + fst (word_rest (tc_letter C) ps)) (snd (word_rest (tc_letter C) ps))
      else if js_white c then tokens_from C (i + w) ps
      else \<lparr>ts_start = i, ts_end = i + w\<rparr> # tokens_from C (i + w) ps)"
  by pat_completeness auto
termination
  by (relation "measure (\<lambda>(C, i, ps). length ps)") (auto simp: less_Suc_eq_le word_rest_length)

definition tokenizeStable :: "token_classes \<Rightarrow> jstr \<Rightarrow> TokenSpan list" where
  "tokenizeStable C t = tokens_from C 0 (utf16_points t)"

definition countStableTokens :: "token_classes \<Rightarrow> jstr \<Rightarrow> nat" where
  "countStableTokens C t = length (tokenizeStable C t)"

text \<open>Windows of tokens, from the index of their first to the index after their last.\<close>

function token_windows :: "nat \<Rightarrow> nat \<Rightarrow> nat \<Rightarrow> nat \<Rightarrow> (nat \<times> nat) list" where
  "token_windows tokenCount maxTokens overlapTokens tokenStart =
     (if tokenStart < tokenCount
      then
        let tokenEnd = min (tokenStart + maxTokens) tokenCount
        in (tokenStart, tokenEnd) #
           (if tokenEnd \<ge> tokenCount then []
            else token_windows tokenCount maxTokens overlapTokens (max (tokenEnd - overlapTokens) (tokenStart + 1)))
      else [])"
  by pat_completeness auto
termination by (relation "measure (\<lambda>(tokenCount, m, k, start). tokenCount - start)") auto

declare token_windows.simps [simp del]

definition window_span :: "TokenSpan list \<Rightarrow> nat \<times> nat \<Rightarrow> TokenSpan" where
  "window_span tokens = (\<lambda>(a, b). \<lparr>ts_start = ts_start (tokens ! a), ts_end = ts_end (tokens ! (b - 1))\<rparr>)"

definition splitIntoTokenSpans :: "token_classes \<Rightarrow> jstr \<Rightarrow> nat \<Rightarrow> nat \<Rightarrow> TokenSpan list" where
  "splitIntoTokenSpans C t maxTokens overlapTokens =
     (let tokens = tokenizeStable C t
      in if tokens = [] then []
         else if length tokens \<le> maxTokens then [\<lparr>ts_start = 0, ts_end = length t\<rparr>]
         else map (window_span tokens) (token_windows (length tokens) maxTokens overlapTokens 0))"

section \<open>Documents with a structure\<close>

record SectionBlocks =
  sb_heading :: "DocumentAstBlock option"
  sb_blocks :: "DocumentAstBlock list"

fun group_from :: "SectionBlocks \<Rightarrow> DocumentAstBlock list \<Rightarrow> SectionBlocks list" where
  "group_from current [] = (if sb_heading current \<noteq> None \<or> sb_blocks current \<noteq> [] then [current] else [])"
| "group_from current (block # blocks) =
     (if ab_type block = HEADING
      then (if sb_heading current \<noteq> None \<or> sb_blocks current \<noteq> [] then [current] else []) @
        group_from \<lparr>sb_heading = Some block, sb_blocks = []\<rparr> blocks
      else group_from (current\<lparr>sb_blocks := sb_blocks current @ [block]\<rparr>) blocks)"

definition groupByHeading :: "DocumentAstBlock list \<Rightarrow> SectionBlocks list" where
  "groupByHeading blocks = group_from \<lparr>sb_heading = None, sb_blocks = []\<rparr> blocks"

fun firstPage :: "DocumentAstBlock list \<Rightarrow> int option" where
  "firstPage [] = None"
| "firstPage (b # bs) = (case ab_page_start b of None \<Rightarrow> firstPage bs | Some p \<Rightarrow> Some p)"

fun last_page_from :: "DocumentAstBlock list \<Rightarrow> int option" where
  "last_page_from [] = None"
| "last_page_from (b # bs) = (case ab_page_end b of None \<Rightarrow> last_page_from bs | Some p \<Rightarrow> Some p)"

definition lastPage :: "DocumentAstBlock list \<Rightarrow> int option" where
  "lastPage bs = last_page_from (rev bs)"

fun join_with :: "jstr \<Rightarrow> jstr list \<Rightarrow> jstr" where
  "join_with sep [] = []"
| "join_with sep [s] = s"
| "join_with sep (s # ss) = s @ sep @ join_with sep ss"

definition hashKey :: "platform \<Rightarrow> jstr list \<Rightarrow> jstr" where
  "hashKey P parts = sha256_hex P (utf8_encode (join_with [0] parts))"

definition heading_list :: "SectionBlocks \<Rightarrow> DocumentAstBlock list" where
  "heading_list sec = (case sb_heading sec of None \<Rightarrow> [] | Some h \<Rightarrow> [h])"

definition section_path :: "SectionBlocks \<Rightarrow> jstr list" where
  "section_path sec =
     (case heading_list sec @ sb_blocks sec of [] \<Rightarrow> [] | b # bs \<Rightarrow> ab_heading_path b)"

definition structured_title :: "SectionBlocks \<Rightarrow> jstr" where
  "structured_title sec =
     (case sb_heading sec of
        Some h \<Rightarrow> ab_text h
      | None \<Rightarrow> if section_path sec = [] then js ''Content'' else last (section_path sec))"

definition parent_content :: "SectionBlocks \<Rightarrow> jstr" where
  "parent_content sec = join_with [10, 10] (filter (\<lambda>t. t \<noteq> []) (map ab_text (heading_list sec @ sb_blocks sec)))"

definition parent_chunk :: "platform \<Rightarrow> token_classes \<Rightarrow> jstr \<Rightarrow> nat \<Rightarrow> SectionBlocks \<Rightarrow> nat \<Rightarrow> ChunkOutput" where
  "parent_chunk P C ingestionKey sectionPosition sec index =
     (let allBlocks = heading_list sec @ sb_blocks sec;
          content = parent_content sec
      in \<lparr>co_content = content, co_section_title = Some (structured_title sec), co_page_number = firstPage allBlocks,
          co_chunk_index = index, co_details = Some
            \<lparr>cd_chunk_type = PARENT, cd_parent_key = None,
             cd_stable_key = hashKey P [ingestionKey, js ''parent'', dec_nat sectionPosition,
               join_with [47] (section_path sec), content],
             cd_position = sectionPosition, cd_token_count = countStableTokens C content,
             cd_tokenizer_version = TOKENIZER_VERSION, cd_overlap_previous_tokens = 0,
             cd_heading_path = section_path sec, cd_page_start = firstPage allBlocks, cd_page_end = lastPage allBlocks,
             cd_block_ids = map ab_block_id allBlocks,
             cd_char_start = (case allBlocks of [] \<Rightarrow> None | b # bs \<Rightarrow> Some (ab_offset_start b)),
             cd_char_end = (case rev allBlocks of [] \<Rightarrow> None | b # bs \<Rightarrow> Some (ab_offset_end b))\<rparr>\<rparr>)"

text \<open>The children of a section, with the number of chunks and the position in the section.\<close>

record children =
  kd_chunks :: "ChunkOutput list"
  kd_index :: nat
  kd_position :: nat

definition child_chunk ::
    "platform \<Rightarrow> token_classes \<Rightarrow> jstr \<Rightarrow> jstr \<Rightarrow> jstr \<Rightarrow> DocumentAstBlock \<Rightarrow> children \<Rightarrow> nat \<times> TokenSpan \<Rightarrow> children" where
  "child_chunk P C ingestionKey parentKey title block = (\<lambda>st (spanIndex, span).
     let piece = slice (ab_text block) (ts_start span) (ts_end span);
         content = js_trim piece
     in if content = [] then st
        else
          let localStart = ts_start span + (case index_of piece content of None \<Rightarrow> 0 | Some n \<Rightarrow> n);
              localEnd = localStart + length content
          in \<lparr>kd_chunks = kd_chunks st @
                [\<lparr>co_content = content, co_section_title = Some title, co_page_number = ab_page_start block,
                  co_chunk_index = kd_index st, co_details = Some
                    \<lparr>cd_chunk_type = CHILD, cd_parent_key = Some parentKey,
                     cd_stable_key = hashKey P [ingestionKey, js ''child'', parentKey, dec_nat (kd_position st),
                       ab_block_id block, dec_nat localStart, dec_nat localEnd, content],
                     cd_position = kd_position st, cd_token_count = countStableTokens C content,
                     cd_tokenizer_version = TOKENIZER_VERSION,
                     cd_overlap_previous_tokens =
                       (if spanIndex = 0 then 0 else min OVERLAP_TOKENS (countStableTokens C piece)),
                     cd_heading_path = ab_heading_path block, cd_page_start = ab_page_start block,
                     cd_page_end = ab_page_end block, cd_block_ids = [ab_block_id block],
                     cd_char_start = Some (ab_offset_start block + localStart),
                     cd_char_end = Some (ab_offset_start block + localEnd)\<rparr>\<rparr>],
              kd_index = kd_index st + 1, kd_position = kd_position st + 1\<rparr>)"

definition block_children ::
    "platform \<Rightarrow> token_classes \<Rightarrow> jstr \<Rightarrow> jstr \<Rightarrow> jstr \<Rightarrow> children \<Rightarrow> DocumentAstBlock \<Rightarrow> children" where
  "block_children P C ingestionKey parentKey title st block =
     foldl (child_chunk P C ingestionKey parentKey title block) st
       (enumerate 0 (splitIntoTokenSpans C (ab_text block) MAX_CHILD_TOKENS OVERLAP_TOKENS))"

definition structured_section ::
    "platform \<Rightarrow> token_classes \<Rightarrow> jstr \<Rightarrow> chunking \<Rightarrow> nat \<times> SectionBlocks \<Rightarrow> chunking" where
  "structured_section P C ingestionKey = (\<lambda>st (sectionPosition, sec).
     if parent_content sec = [] then st
     else
       let parent = parent_chunk P C ingestionKey sectionPosition sec (ck_index st);
           parentKey = (case co_details parent of None \<Rightarrow> [] | Some d \<Rightarrow> cd_stable_key d);
           kids = foldl (block_children P C ingestionKey parentKey (structured_title sec))
             \<lparr>kd_chunks = [], kd_index = ck_index st + 1, kd_position = 0\<rparr> (sb_blocks sec)
       in \<lparr>ck_chunks = ck_chunks st @ parent # kd_chunks kids, ck_index = kd_index kids\<rparr>)"

definition chunkStructuredDocument :: "platform \<Rightarrow> token_classes \<Rightarrow> DocumentAstBlock list \<Rightarrow> jstr \<Rightarrow> ChunkOutput list" where
  "chunkStructuredDocument P C blocks ingestionKey =
     ck_chunks (foldl (structured_section P C ingestionKey) \<lparr>ck_chunks = [], ck_index = 0\<rparr>
       (enumerate 0 (groupByHeading blocks)))"

definition chunkDocument :: "platform \<Rightarrow> token_classes \<Rightarrow> ChunkInput \<Rightarrow> ChunkOutput list" where
  "chunkDocument P C input =
     (case ci_ast input of
        Some blocks \<Rightarrow> chunkStructuredDocument P C blocks (case ci_ingestion_key input of None \<Rightarrow> [] | Some k \<Rightarrow> k)
      | None \<Rightarrow> chunk_plain input)"

end
