(* ===== verification/ChunkerProps.thy ===== *)
theory ChunkerProps
  imports Chunker "HOL-Library.Sublist"
begin

text \<open>
  What the chunks of a document hold: no character but white space is lost on the way to a chunk, the
  chunks are numbered, bounded and trimmed, and every token of a structured document is in a child
  that knows where it stands.
\<close>

section \<open>Trimmed strings\<close>

definition trimmed :: "jstr \<Rightarrow> bool" where
  "trimmed s \<longleftrightarrow> s \<noteq> [] \<and> \<not> js_white (hd s) \<and> \<not> js_white (last s)"

lemma trimmed_nonempty [simp]: "trimmed s \<Longrightarrow> s \<noteq> []"
  by (simp add: trimmed_def)

lemma trim_split: "s = takeWhile js_white s @ js_trim s @ rev (takeWhile js_white (rev (dropWhile js_white s)))"
proof -
  let ?d = "dropWhile js_white s"
  have "?d = rev (takeWhile js_white (rev ?d) @ dropWhile js_white (rev ?d))" by (simp only: takeWhile_dropWhile_id rev_rev_ident)
  then have "?d = js_trim s @ rev (takeWhile js_white (rev ?d))" by (simp only: js_trim_def rev_append)
  then show ?thesis by (metis takeWhile_dropWhile_id)
qed

lemma trim_trimmed: "js_trim s \<noteq> [] \<Longrightarrow> trimmed (js_trim s)"
proof -
  assume a: "js_trim s \<noteq> []"
  let ?d = "dropWhile js_white s"
  have last: "\<not> js_white (last (js_trim s))"
    using a hd_dropWhile [of js_white "rev ?d"] by (simp add: js_trim_def last_rev)
  have "?d = js_trim s @ rev (takeWhile js_white (rev ?d))"
    using trim_split [of s] by (metis append_eq_append_conv takeWhile_dropWhile_id)
  then have "?d \<noteq> []" "hd ?d = hd (js_trim s)" using a by (metis append_is_Nil_conv, metis hd_append2)
  then have "\<not> js_white (hd (js_trim s))" using hd_dropWhile [of js_white s] by simp
  with a last show ?thesis by (simp add: trimmed_def)
qed

lemma trim_id: "trimmed s \<Longrightarrow> js_trim s = s"
proof -
  assume a: "trimmed s"
  then have "dropWhile js_white s = s" by (cases s) (simp_all add: trimmed_def)
  moreover have "dropWhile js_white (rev s) = rev s" using a by (cases s rule: rev_cases) (simp_all add: trimmed_def)
  ultimately show ?thesis by (simp add: js_trim_def)
qed

lemma trimmed_append [intro]: "trimmed a \<Longrightarrow> trimmed b \<Longrightarrow> trimmed (a @ m @ b)"
  by (auto simp: trimmed_def)

lemma trimmed_join [intro]: "trimmed a \<Longrightarrow> trimmed b \<Longrightarrow> trimmed (a @ c # d # b)"
  using trimmed_append [of a b "[c, d]"] by simp

lemma length_trim: "length (js_trim s) \<le> length s"
  using trim_split [of s] by (metis length_append le_add1 le_add2 order_trans)

text \<open>The characters that are not white space.\<close>

definition visible :: "jstr \<Rightarrow> jstr" where
  "visible s = filter (\<lambda>c. \<not> js_white c) s"

lemma visible_simps [simp]:
  "visible [] = []" "visible (c # s) = (if js_white c then visible s else c # visible s)"
  "visible (s @ t) = visible s @ visible t" "visible (rev s) = rev (visible s)"
  by (simp_all add: visible_def rev_filter)

lemma visible_white: "\<forall>c \<in> set s. js_white c \<Longrightarrow> visible s = []"
  by (induction s) auto

lemma visible_takeWhile [simp]: "visible (takeWhile js_white s) = []"
  by (rule visible_white) (auto dest: set_takeWhileD)

lemma visible_dropWhile [simp]: "visible (dropWhile js_white s) = visible s"
  by (metis takeWhile_dropWhile_id visible_simps(3) visible_takeWhile append_Nil)

lemma visible_trim [simp]: "visible (js_trim s) = visible s"
  by (simp add: js_trim_def)

lemma trim_empty: "js_trim s = [] \<Longrightarrow> visible s = []"
  by (metis visible_trim visible_simps(1))

lemma visible_parts [simp]: "visible (concat (trimmed_parts ps)) = visible (concat ps)"
  by (induction ps) (auto simp: trimmed_parts_def trim_empty)

lemma parts_trimmed: "p \<in> set (trimmed_parts ps) \<Longrightarrow> trimmed p"
  by (auto simp: trimmed_parts_def intro: trim_trimmed)

section \<open>Paragraphs\<close>

lemma blank_lines_visible: "visible (concat (split_blank_lines piece s)) = visible (rev piece @ s)"
proof (induction piece s rule: split_blank_lines.induct)
  case (2 piece c s)
  have "visible (dropWhile (\<lambda>c. c = 10) s) = visible s"
  proof -
    have "visible (takeWhile (\<lambda>c. c = 10) s) = []"
      by (rule visible_white) (auto dest!: set_takeWhileD simp: js_white_def)
    then show ?thesis by (metis takeWhile_dropWhile_id visible_simps(3) append_Nil)
  qed
  then show ?case using 2 by (auto simp: js_white_def)
qed simp

lemma sentences_visible: "visible (concat (split_sentences piece after s)) = visible (rev piece @ s)"
  by (induction piece after s rule: split_sentences.induct) auto

lemma cut_every_concat: "0 < n \<Longrightarrow> concat (cut_every n s) = s"
  by (induction n s rule: cut_every.induct) (subst cut_every.simps, auto)

lemma cut_every_length: "p \<in> set (cut_every n s) \<Longrightarrow> length p \<le> n"
proof (induction n s rule: cut_every.induct)
  case (1 n s)
  then show ?case by (subst (asm) cut_every.simps) (auto split: if_splits)
qed

lemma pieces: "p \<in> set (splitByLength s n) \<Longrightarrow> trimmed p \<and> length p \<le> n"
proof
  assume p: "p \<in> set (splitByLength s n)"
  then show "trimmed p" by (auto simp: splitByLength_def dest: parts_trimmed)
  from p obtain q where "q \<in> set (cut_every n s)" "p = js_trim q" by (auto simp: splitByLength_def trimmed_parts_def)
  then show "length p \<le> n" using cut_every_length [of q n s] length_trim [of q] by simp
qed

lemma pieces_visible: "0 < n \<Longrightarrow> visible (concat (splitByLength s n)) = visible s"
  by (simp add: splitByLength_def cut_every_concat)

lemma packed_trimmed:
  "\<forall>s \<in> set sentences. trimmed s \<Longrightarrow> buffer = [] \<or> trimmed buffer \<Longrightarrow>
     p \<in> set (pack_sentences buffer sentences) \<Longrightarrow> trimmed p"
proof (induction buffer sentences rule: pack_sentences.induct)
  case (1 buffer)
  then show ?case by (auto simp: trim_trimmed split: if_splits)
next
  case (2 buffer s ss)
  show ?case
  proof (cases "buffer \<noteq> [] \<and> length buffer + length s + 1 > MAX_CHUNK_SIZE")
    case True
    with 2 show ?thesis by (auto simp: trim_id)
  next
    case False
    have "buffer @ (if buffer \<noteq> [] then [32] else []) @ s = [] \<or> trimmed (buffer @ (if buffer \<noteq> [] then [32] else []) @ s)"
      using 2 trimmed_append [of buffer s "[32]"] by auto
    with False 2 show ?thesis by auto
  qed
qed

lemma packed_visible: "visible (concat (pack_sentences buffer sentences)) = visible (buffer @ concat sentences)"
proof (induction buffer sentences rule: pack_sentences.induct)
  case (1 buffer)
  show ?case by (cases "js_trim buffer = []") (simp_all add: trim_empty)
next
  case (2 buffer s ss)
  have "js_white 32" by (simp add: js_white_def)
  with 2 show ?case by (cases "buffer \<noteq> [] \<and> length buffer + length s + 1 > MAX_CHUNK_SIZE") simp_all
qed

lemma oversized_visible: "visible (concat (splitOversizedParagraph p)) = visible p"
proof -
  have segments: "visible (concat (concat (map (\<lambda>s. if length s > MAX_CHUNK_SIZE then splitByLength s MAX_CHUNK_SIZE else [s]) ss))) =
      visible (concat ss)" for ss
    by (induction ss) (simp_all add: pieces_visible MAX_CHUNK_SIZE_def)
  have size: "0 < MAX_CHUNK_SIZE" by (simp add: MAX_CHUNK_SIZE_def)
  show ?thesis
    unfolding splitOversizedParagraph_def Let_def
    by (simp add: segments packed_visible sentences_visible pieces_visible size)
qed

lemma oversized_pieces:
  assumes "trimmed p" and "q \<in> set (splitOversizedParagraph p)"
  shows "trimmed q \<and> length q \<le> MAX_CHUNK_SIZE"
proof (cases "length p \<le> MAX_CHUNK_SIZE")
  case True
  with assms show ?thesis by (simp add: splitOversizedParagraph_def)
next
  case False
  let ?parts = "trimmed_parts (split_sentences [] False p)"
  have packed: "trimmed s" if "s \<in> set (pack_sentences [] ?parts)" for s
    using packed_trimmed [of ?parts "[]" s] that parts_trimmed by blast
  show ?thesis
  proof (cases "length ?parts \<le> 1")
    case True
    with False assms(2) show ?thesis by (intro pieces) (simp add: splitOversizedParagraph_def)
  next
    case many: False
    then obtain s where s: "s \<in> set (pack_sentences [] ?parts)"
        "q \<in> set (if length s > MAX_CHUNK_SIZE then splitByLength s MAX_CHUNK_SIZE else [s])"
      using False assms(2) by (auto simp: splitOversizedParagraph_def Let_def)
    then show ?thesis using packed [OF s(1)] pieces [of q s MAX_CHUNK_SIZE] by (auto split: if_splits)
  qed
qed

lemma paragraphs_visible: "visible (concat (splitByParagraphs t)) = visible t"
proof -
  have "visible (concat (concat (map splitOversizedParagraph ps))) = visible (concat ps)" for ps
    by (induction ps) (auto simp: oversized_visible)
  then show ?thesis by (simp add: splitByParagraphs_def blank_lines_visible)
qed

lemma paragraph_ok: "p \<in> set (splitByParagraphs t) \<Longrightarrow> trimmed p \<and> length p \<le> MAX_CHUNK_SIZE"
  using oversized_pieces parts_trimmed by (auto simp: splitByParagraphs_def)

section \<open>Chunks of a document without a structure\<close>

text \<open>
  The invariant of the loop: the chunks are numbered in their order, each is trimmed and has at most
  1101 units, and so is what waits in the buffer.
\<close>

definition MAX_PLAIN_CHUNK :: nat where
  "MAX_PLAIN_CHUNK = MIN_CHUNK_SIZE - 1 + 2 + MAX_CHUNK_SIZE"

lemmas chunk_sizes = MAX_PLAIN_CHUNK_def MIN_CHUNK_SIZE_def MAX_CHUNK_SIZE_def OVERLAP_SIZE_def

definition chunks_ok :: "chunking \<Rightarrow> bool" where
  "chunks_ok st \<longleftrightarrow>
     map co_chunk_index (ck_chunks st) = [0..<ck_index st] \<and>
     list_all (\<lambda>c. trimmed (co_content c) \<and> length (co_content c) \<le> MAX_PLAIN_CHUNK) (ck_chunks st)"

definition buffer_ok :: "jstr \<Rightarrow> bool" where
  "buffer_ok b \<longleftrightarrow> (b = [] \<or> trimmed b) \<and> length b \<le> MAX_PLAIN_CHUNK"

definition in_chunk :: "jstr option \<Rightarrow> jstr \<Rightarrow> ChunkOutput list \<Rightarrow> bool" where
  "in_chunk title p cs \<longleftrightarrow> (\<exists>c \<in> set cs. co_section_title c = title \<and> sublist p (co_content c))"

lemma plain_chunk_ok:
  "chunks_ok st \<Longrightarrow> trimmed content \<Longrightarrow> length content \<le> MAX_PLAIN_CHUNK \<Longrightarrow> chunks_ok (plain_chunk title page content st)"
  by (simp add: chunks_ok_def plain_chunk_def)

lemma plain_chunk_found:
  "in_chunk t p (ck_chunks (plain_chunk title page content st)) \<longleftrightarrow>
     in_chunk t p (ck_chunks st) \<or> (t = title \<and> sublist p content)"
  by (auto simp: in_chunk_def plain_chunk_def)

text \<open>One paragraph: what was in a chunk or waiting is so afterwards, and the paragraph waits.\<close>

definition keeps :: "jstr option \<Rightarrow> chunking \<times> jstr \<Rightarrow> chunking \<times> jstr \<Rightarrow> bool" where
  "keeps title s t \<longleftrightarrow>
     (\<forall>u p. in_chunk u p (ck_chunks (fst s)) \<longrightarrow> in_chunk u p (ck_chunks (fst t))) \<and>
     (\<forall>p. sublist p (snd s) \<longrightarrow> in_chunk title p (ck_chunks (fst t)) \<or> sublist p (snd t))"

lemma overlap_ok: "getOverlapPrefix s = [] \<or> trimmed (getOverlapPrefix s)" "length (getOverlapPrefix s) \<le> OVERLAP_SIZE"
proof -
  show "getOverlapPrefix s = [] \<or> trimmed (getOverlapPrefix s)" by (auto simp: getOverlapPrefix_def intro: trim_trimmed)
  have "length (getOverlapPrefix s) \<le> length (drop (length s - OVERLAP_SIZE) s)"
    unfolding getOverlapPrefix_def by (rule length_trim)
  then show "length (getOverlapPrefix s) \<le> OVERLAP_SIZE" by simp
qed

lemma take_paragraph_step:
  assumes "chunks_ok st" and "buffer_ok b" and "trimmed p" and "length p \<le> MAX_CHUNK_SIZE"
  shows "chunks_ok (fst (take_paragraph sec (st, b) p)) \<and> buffer_ok (snd (take_paragraph sec (st, b) p)) \<and>
    keeps (section_title sec) (st, b) (take_paragraph sec (st, b) p) \<and> sublist p (snd (take_paragraph sec (st, b) p))"
proof (cases "length b + length p > MAX_CHUNK_SIZE \<and> length b \<ge> MIN_CHUNK_SIZE")
  case True
  then have b: "trimmed b" using assms(2) by (auto simp: buffer_ok_def MIN_CHUNK_SIZE_def)
  let ?o = "getOverlapPrefix b"
  let ?b = "if ?o \<noteq> [] then ?o @ [10, 10] @ p else p"
  have eq: "take_paragraph sec (st, b) p = (plain_chunk (section_title sec) (cs_page sec) b st, ?b)"
    using True by (simp add: take_paragraph_def Let_def trim_id [OF b])
  have "length ?b \<le> MAX_PLAIN_CHUNK"
    using overlap_ok(2) [of b] assms(4) by (simp add: chunk_sizes)
  moreover have "trimmed ?b" using overlap_ok(1) [of b] assms(3) by auto
  moreover have "chunks_ok (plain_chunk (section_title sec) (cs_page sec) b st)"
    using assms(1,2) b by (intro plain_chunk_ok) (simp_all add: buffer_ok_def)
  ultimately show ?thesis
    unfolding eq by (auto simp: buffer_ok_def keeps_def plain_chunk_found intro: sublist_appendI [of p "_ @ [10, 10]" "[]", simplified])
next
  case False
  let ?b = "b @ (if b \<noteq> [] then [10, 10] else []) @ p"
  have eq: "take_paragraph sec (st, b) p = (st, ?b)" using False by (auto simp: take_paragraph_def)
  have "length ?b \<le> MAX_PLAIN_CHUNK" using False assms(4) by (auto simp: chunk_sizes)
  moreover have "trimmed ?b" using assms(2,3) by (auto simp: buffer_ok_def)
  moreover have "sublist b ?b" by (intro prefix_imp_sublist) simp
  then have "sublist q ?b" if "sublist q b" for q using that by (rule sublist_order.order.trans [rotated])
  moreover have "suffix p ?b" by (simp add: suffix_def)
  then have "sublist p ?b" by (rule suffix_imp_sublist)
  ultimately show ?thesis unfolding eq using assms(1) by (auto simp: buffer_ok_def keeps_def)
qed

lemma take_paragraphs:
  assumes "\<forall>p \<in> set ps. trimmed p \<and> length p \<le> MAX_CHUNK_SIZE" and "chunks_ok (fst s)" and "buffer_ok (snd s)"
  shows "chunks_ok (fst (foldl (take_paragraph sec) s ps)) \<and> buffer_ok (snd (foldl (take_paragraph sec) s ps)) \<and>
    keeps (section_title sec) s (foldl (take_paragraph sec) s ps) \<and>
    (\<forall>p \<in> set ps. in_chunk (section_title sec) p (ck_chunks (fst (foldl (take_paragraph sec) s ps))) \<or>
       sublist p (snd (foldl (take_paragraph sec) s ps)))"
  using assms
proof (induction ps arbitrary: s)
  case Nil
  then show ?case by (simp add: keeps_def)
next
  case (Cons p ps)
  let ?s = "take_paragraph sec s p"
  have step: "chunks_ok (fst ?s)" "buffer_ok (snd ?s)" "keeps (section_title sec) s ?s" "sublist p (snd ?s)"
    using take_paragraph_step [of "fst s" "snd s" p sec] Cons.prems by simp_all
  note rest = Cons.IH [of ?s]
  from rest step Cons.prems show ?case by (auto simp: keeps_def)
qed

lemma end_section_step:
  assumes "chunks_ok st" and "buffer_ok b"
  shows "chunks_ok (end_section sec (st, b)) \<and>
    (\<forall>u p. in_chunk u p (ck_chunks st) \<longrightarrow> in_chunk u p (ck_chunks (end_section sec (st, b)))) \<and>
    (\<forall>p. p \<noteq> [] \<and> sublist p b \<longrightarrow> in_chunk (section_title sec) p (ck_chunks (end_section sec (st, b))))"
proof (cases "b = []")
  case True
  then have "end_section sec (st, b) = st" by (simp add: end_section_def js_trim_def)
  with True assms show ?thesis by simp
next
  case False
  then have b: "trimmed b" "length b \<le> MAX_PLAIN_CHUNK" using assms(2) by (auto simp: buffer_ok_def)
  let ?cs = "ck_chunks st"
  show ?thesis
  proof (cases "merge_into_last sec b ?cs")
    case True
    then have merge: "?cs \<noteq> []" "co_section_title (last ?cs) = section_title sec" "length (co_content (last ?cs)) + length b \<le> MAX_CHUNK_SIZE"
      by (simp_all add: merge_into_last_def)
    let ?new = "(last ?cs)\<lparr>co_content := co_content (last ?cs) @ [10, 10] @ b\<rparr>"
    have eq: "end_section sec (st, b) = st\<lparr>ck_chunks := butlast ?cs @ [?new]\<rparr>"
      using True b by (simp add: end_section_def trim_id)
    have split: "?cs = butlast ?cs @ [last ?cs]" using merge(1) by simp
    have old: "trimmed (co_content (last ?cs))" "list_all (\<lambda>c. trimmed (co_content c) \<and> length (co_content c) \<le> MAX_PLAIN_CHUNK) (butlast ?cs)"
        "map co_chunk_index (butlast ?cs @ [last ?cs]) = [0..<ck_index st]"
      using assms(1) merge(1) split by (auto simp: chunks_ok_def list_all_iff dest: in_set_butlastD)
    then have ok: "chunks_ok (end_section sec (st, b))"
      using b merge(3) by (auto simp: eq chunks_ok_def chunk_sizes)
    have "sublist p (co_content ?new)" if "sublist p (co_content (last ?cs)) \<or> sublist p b" for p
    proof -
      have "sublist (co_content (last ?cs)) (co_content ?new)" by (intro prefix_imp_sublist) simp
      moreover have "sublist b (co_content ?new)" by (intro suffix_imp_sublist) (simp add: suffix_def)
      ultimately show ?thesis using that sublist_order.order.trans by blast
    qed
    moreover have "in_chunk u p (butlast ?cs @ [?new]) \<longleftrightarrow> in_chunk u p (butlast ?cs) \<or> (u = section_title sec \<and> sublist p (co_content ?new))" for u p
      using merge(2) by (auto simp: in_chunk_def)
    moreover have "in_chunk u p ?cs \<longleftrightarrow> in_chunk u p (butlast ?cs) \<or> (u = section_title sec \<and> sublist p (co_content (last ?cs)))" for u p
      by (subst split) (use merge(2) in \<open>auto simp: in_chunk_def\<close>)
    ultimately show ?thesis using ok by (simp add: eq)
  next
    case False
    then have eq: "end_section sec (st, b) = plain_chunk (section_title sec) (cs_page sec) b st"
      using b by (simp add: end_section_def trim_id)
    show ?thesis unfolding eq using plain_chunk_ok [OF assms(1) b] by (auto simp: plain_chunk_found)
  qed
qed

lemma section_step:
  assumes "chunks_ok st"
  shows "chunks_ok (chunk_one_section st sec) \<and>
    (\<forall>u p. in_chunk u p (ck_chunks st) \<longrightarrow> in_chunk u p (ck_chunks (chunk_one_section st sec))) \<and>
    (\<forall>p \<in> set (splitByParagraphs (cs_content sec)). in_chunk (section_title sec) p (ck_chunks (chunk_one_section st sec)))"
proof -
  let ?s = "foldl (take_paragraph sec) (st, []) (splitByParagraphs (cs_content sec))"
  have "buffer_ok []" by (simp add: buffer_ok_def)
  then have taken: "chunks_ok (fst ?s)" "buffer_ok (snd ?s)" "keeps (section_title sec) (st, []) ?s"
      "\<forall>p \<in> set (splitByParagraphs (cs_content sec)). in_chunk (section_title sec) p (ck_chunks (fst ?s)) \<or> sublist p (snd ?s)"
    using take_paragraphs [of "splitByParagraphs (cs_content sec)" "(st, [])" sec] assms paragraph_ok by auto
  from end_section_step [OF taken(1,2), of sec] taken(3,4) show ?thesis
    using paragraph_ok [of _ "cs_content sec"] by (auto simp: chunk_one_section_def keeps_def dest!: trimmed_nonempty)
qed

lemma sections_step:
  assumes "chunks_ok st"
  shows "chunks_ok (foldl chunk_one_section st secs) \<and>
    (\<forall>u p. in_chunk u p (ck_chunks st) \<longrightarrow> in_chunk u p (ck_chunks (foldl chunk_one_section st secs))) \<and>
    (\<forall>sec \<in> set secs. \<forall>p \<in> set (splitByParagraphs (cs_content sec)).
       in_chunk (section_title sec) p (ck_chunks (foldl chunk_one_section st secs)))"
  using assms
proof (induction secs arbitrary: st)
  case (Cons sec secs)
  from section_step [OF Cons.prems, of sec] Cons.IH [of "chunk_one_section st sec"] show ?case by auto
qed simp

definition numbered :: "chunking \<Rightarrow> bool" where
  "numbered st \<longleftrightarrow>
     map co_chunk_index (ck_chunks st) = [0..<ck_index st] \<and>
     list_all (\<lambda>c. length (co_content c) \<le> MAX_PLAIN_CHUNK) (ck_chunks st)"

lemma chunk_text_numbered: "numbered st \<Longrightarrow> numbered (chunk_text t offset st)"
proof (induction t offset st rule: chunk_text.induct)
  case (1 t offset st)
  let ?e = "min (offset + MAX_CHUNK_SIZE) (length t)"
  have "length (slice t offset ?e) \<le> MAX_CHUNK_SIZE" by (simp add: slice_def)
  then have "length (js_trim (slice t offset ?e)) \<le> MAX_PLAIN_CHUNK"
    using length_trim [of "slice t offset ?e"] by (simp add: chunk_sizes)
  then have "numbered (plain_chunk None None (js_trim (slice t offset ?e)) st)"
    using 1(2) by (simp add: numbered_def plain_chunk_def)
  then show ?case using 1 by (subst chunk_text.simps) (simp add: Let_def)
qed

lemma chunk_plain_facts:
  fixes input :: ChunkInput
  defines "st \<equiv> foldl chunk_one_section \<lparr>ck_chunks = [], ck_index = 0\<rparr> (ci_sections input)"
  shows "chunks_ok st" and "\<And>sec p. sec \<in> set (ci_sections input) \<Longrightarrow> p \<in> set (splitByParagraphs (cs_content sec)) \<Longrightarrow>
      in_chunk (section_title sec) p (ck_chunks st)"
    and "ck_chunks st \<noteq> [] \<Longrightarrow> chunk_plain input = ck_chunks st"
proof -
  have "chunks_ok \<lparr>ck_chunks = [], ck_index = 0\<rparr>" by (simp add: chunks_ok_def)
  from sections_step [OF this, of "ci_sections input"]
  show "chunks_ok st" and "\<And>sec p. sec \<in> set (ci_sections input) \<Longrightarrow> p \<in> set (splitByParagraphs (cs_content sec)) \<Longrightarrow>
      in_chunk (section_title sec) p (ck_chunks st)"
    by (simp_all add: st_def)
  show "ck_chunks st \<noteq> [] \<Longrightarrow> chunk_plain input = ck_chunks st" by (simp add: chunk_plain_def st_def Let_def)
qed

text \<open>
  C34: In a document without a structure nothing but white space is lost: the paragraphs of a section hold
  its visible characters in their order, and each is whole in a chunk with the title of the section.
\<close>

theorem plain_chunks_complete:
  assumes "ci_ast input = None" and "sec \<in> set (ci_sections input)"
  shows "visible (concat (splitByParagraphs (cs_content sec))) = visible (cs_content sec) \<and>
    (\<forall>p \<in> set (splitByParagraphs (cs_content sec)).
       \<exists>c \<in> set (chunkDocument P C input). co_section_title c = section_title sec \<and> sublist p (co_content c))"
proof -
  have "in_chunk (section_title sec) p (chunkDocument P C input)" if p: "p \<in> set (splitByParagraphs (cs_content sec))" for p
  proof -
    note f = chunk_plain_facts(2) [OF assms(2) p]
    then have "ck_chunks (foldl chunk_one_section \<lparr>ck_chunks = [], ck_index = 0\<rparr> (ci_sections input)) \<noteq> []"
      by (auto simp: in_chunk_def)
    from chunk_plain_facts(3) [OF this] f show ?thesis by (simp add: chunkDocument_def assms(1))
  qed
  then show ?thesis by (auto simp: paragraphs_visible in_chunk_def)
qed

text \<open>
  C35: The chunks of a document without a structure are numbered from 0 in their order and hold at most 1101 units
  each, 301 more than the maximum the packing aims at; when a section has text, each chunk is trimmed and not empty.
\<close>

theorem plain_chunks_bounded:
  assumes "ci_ast input = None"
  shows "map co_chunk_index (chunkDocument P C input) = [0..<length (chunkDocument P C input)] \<and>
    (\<forall>c \<in> set (chunkDocument P C input). length (co_content c) \<le> 1101) \<and>
    ((\<exists>sec \<in> set (ci_sections input). visible (cs_content sec) \<noteq> []) \<longrightarrow>
       (\<forall>c \<in> set (chunkDocument P C input). trimmed (co_content c)))"
proof -
  let ?st = "foldl chunk_one_section \<lparr>ck_chunks = [], ck_index = 0\<rparr> (ci_sections input)"
  note ok = chunk_plain_facts(1) [of input]
  then have "numbered ?st" by (auto simp: numbered_def chunks_ok_def list_all_iff)
  moreover from chunk_text_numbered [OF this, of "ci_content_text input" 0]
  have "numbered (chunk_text (ci_content_text input) 0 ?st)" .
  ultimately obtain st where st: "numbered st" "chunk_plain input = ck_chunks st"
    unfolding chunk_plain_def Let_def by (cases "ck_chunks ?st = [] \<and> js_trim (ci_content_text input) \<noteq> []") (simp_all only: if_True if_False simp_thms)
  then have "length (ck_chunks st) = ck_index st" by (metis length_map length_upt diff_zero numbered_def)
  then have "map co_chunk_index (chunk_plain input) = [0..<length (chunk_plain input)]"
      "\<forall>c \<in> set (chunk_plain input). length (co_content c) \<le> 1101"
    using st by (simp_all add: numbered_def list_all_iff chunk_sizes)
  moreover have "\<forall>c \<in> set (chunk_plain input). trimmed (co_content c)"
    if sec: "sec \<in> set (ci_sections input)" "visible (cs_content sec) \<noteq> []" for sec
  proof -
    have "splitByParagraphs (cs_content sec) \<noteq> []" using sec(2) paragraphs_visible [of "cs_content sec"] by auto
    then obtain p where "p \<in> set (splitByParagraphs (cs_content sec))" by (meson hd_in_set)
    from chunk_plain_facts(2) [OF sec(1) this] have "ck_chunks ?st \<noteq> []" by (auto simp: in_chunk_def)
    with chunk_plain_facts(3) [OF this] ok show ?thesis by (simp add: chunks_ok_def list_all_iff)
  qed
  ultimately show ?thesis unfolding chunkDocument_def assms by auto
qed

section \<open>A concrete document\<close>

text \<open>A paragraph of 299 units before one of 800 makes a chunk of 1101.\<close>

definition long_section :: chunk_section where
  "long_section = \<lparr>cs_title = js ''T'', cs_content = replicate 299 97 @ [10, 10] @ replicate 800 98, cs_page = None\<rparr>"

definition long_input :: ChunkInput where
  "long_input = \<lparr>ci_content_text = [], ci_sections = [long_section], ci_ast = None, ci_ingestion_key = None\<rparr>"

lemma split_run:
  "c \<noteq> 10 \<Longrightarrow> split_blank_lines piece (replicate n c @ s) = split_blank_lines (replicate n c @ piece) s"
  by (induction n arbitrary: piece) (simp_all add: replicate_app_Cons_same)

lemma trimmed_run: "0 < n \<Longrightarrow> \<not> js_white c \<Longrightarrow> trimmed (replicate n c)"
  by (simp add: trimmed_def)

lemma long_paragraphs: "splitByParagraphs (cs_content long_section) = [replicate 299 97, replicate 800 98]"
proof -
  have plain: "\<not> js_white 97" "\<not> js_white 98" by (simp_all add: js_white_def)
  have tail: "dropWhile (\<lambda>c. c = 10) (replicate 800 (98::nat)) = replicate 800 98" by simp
  have "split_blank_lines [] (cs_content long_section) = rev (replicate 299 97) # split_blank_lines [] (replicate 800 98)"
    by (simp add: long_section_def split_run tail)
  also have "split_blank_lines [] (replicate 800 98) = [replicate 800 98]"
    using split_run [of 98 "[]" 800 "[]"] by simp
  finally have "trimmed_parts (split_blank_lines [] (cs_content long_section)) = [replicate 299 97, replicate 800 98]"
    using trimmed_run [OF _ plain(1), of 299] trimmed_run [OF _ plain(2), of 800] by (simp add: trimmed_parts_def trim_id)
  then show ?thesis by (simp add: splitByParagraphs_def splitOversizedParagraph_def MAX_CHUNK_SIZE_def)
qed

lemma long_chunk:
  "chunkDocument P C long_input =
     [\<lparr>co_content = replicate 299 97 @ [10, 10] @ replicate 800 98, co_section_title = Some (js ''T''), co_page_number = None,
       co_chunk_index = 0, co_details = None\<rparr>]"
proof -
  have "trimmed (replicate 299 97 @ [10, 10] @ replicate 800 98)"
    by (intro trimmed_append trimmed_run) (simp_all add: js_white_def)
  note trim = trim_id [OF this]
  have "foldl (take_paragraph long_section) (st, []) [replicate 299 97, replicate 800 98] =
      (st, replicate 299 97 @ [10, 10] @ replicate 800 98)" for st
    by (simp add: take_paragraph_def chunk_sizes)
  then have "chunk_one_section st long_section = end_section long_section (st, replicate 299 97 @ [10, 10] @ replicate 800 98)" for st
    unfolding chunk_one_section_def long_paragraphs by simp
  then show ?thesis
    using trim by (simp add: chunkDocument_def chunk_plain_def long_input_def end_section_def merge_into_last_def plain_chunk_def
      long_section_def section_title_def)
qed

theorem plain_chunks_complete_witness:
  "\<exists>c \<in> set (chunkDocument plain_platform \<lparr>tc_han = (\<lambda>_. False), tc_letter = is_digit\<rparr> long_input).
     co_section_title c = section_title long_section \<and> sublist (replicate 800 98) (co_content c)"
  using plain_chunks_complete [of long_input long_section plain_platform "\<lparr>tc_han = (\<lambda>_. False), tc_letter = is_digit\<rparr>"]
  by (simp add: long_paragraphs long_input_def)

theorem plain_chunks_bounded_witness:
  "length (co_content (hd (chunkDocument plain_platform \<lparr>tc_han = (\<lambda>_. False), tc_letter = is_digit\<rparr> long_input))) = 1101 \<and>
     list_all (\<lambda>c. length (co_content c) \<le> 1101) (chunkDocument plain_platform \<lparr>tc_han = (\<lambda>_. False), tc_letter = is_digit\<rparr> long_input)"
proof -
  have "ci_ast long_input = None" by (simp add: long_input_def)
  from plain_chunks_bounded [OF this, of plain_platform "\<lparr>tc_han = (\<lambda>_. False), tc_letter = is_digit\<rparr>"]
  show ?thesis by (simp add: list_all_iff) (simp add: long_chunk)
qed

end
