(* ===== verification/ChunkerTokens.thy ===== *)
theory ChunkerTokens
  imports ChunkerProps
begin

text \<open>
  The tokens of a block and the windows cut from them: the tokens stand in order, begin and end with a visible
  unit, and each lies in a window of bounded size.
\<close>

section \<open>Tokens stand in order\<close>

definition units_of :: "(nat \<times> nat) list \<Rightarrow> nat" where
  "units_of ps = sum_list (map snd ps)"

lemma units_of_simps [simp]: "units_of [] = 0" "units_of (p # ps) = snd p + units_of ps"
  by (simp_all add: units_of_def)

lemma units_of_points [simp]: "units_of (utf16_points s) = length s"
  by (induction s rule: utf16_points.induct) (auto split: list.splits)

text \<open>White space is no letter, as in Unicode.\<close>

definition classes_ok :: "token_classes \<Rightarrow> bool" where
  "classes_ok C \<longleftrightarrow> (\<forall>c. js_white c \<longrightarrow> \<not> tc_letter C c \<and> \<not> tc_han C c)"

lemma joiner_visible: "word_joiner c \<Longrightarrow> \<not> js_white c"
  by (auto simp: word_joiner_def js_white_def)

lemma surrogate_visible: "high_surrogate c \<or> low_surrogate c \<Longrightarrow> \<not> js_white c"
  by (auto simp: js_white_def)

text \<open>The first code point: its units, and the rest of the string.\<close>

lemma points_head:
  assumes "utf16_points s = (c, w) # ps"
  shows "0 < w" and "w \<le> length s" and "ps = utf16_points (drop w s)"
    and "\<not> js_white c \<Longrightarrow> \<not> js_white (s ! 0) \<and> \<not> js_white (s ! (w - 1))"
proof -
  from assms obtain u r where s: "s = u # r" by (cases s) simp_all
  have "0 < w \<and> w \<le> length s \<and> ps = utf16_points (drop w s) \<and> (\<not> js_white c \<longrightarrow> \<not> js_white (s ! 0) \<and> \<not> js_white (s ! (w - 1)))"
  proof (cases "\<exists>d r'. r = d # r' \<and> high_surrogate u \<and> low_surrogate d")
    case True
    then obtain d r' where r: "r = d # r'" "high_surrogate u" "low_surrogate d" by blast
    then have "c = pair_scalar u d" "w = 2" "ps = utf16_points r'" using assms by (simp_all add: s)
    moreover have "\<not> js_white u" "\<not> js_white d"
      by (rule surrogate_visible, rule disjI1, rule r(2)) (rule surrogate_visible, rule disjI2, rule r(3))
    ultimately show ?thesis by (simp add: s r numeral_2_eq_2)
  next
    case False
    have "utf16_points s = (u, 1) # utf16_points r"
    proof (cases r)
      case (Cons d r')
      with False have "\<not> (high_surrogate u \<and> low_surrogate d)" by simp
      then show ?thesis unfolding s Cons by (simp only: utf16_points.simps list.case if_False)
    qed (simp add: s)
    then have "c = u" "w = 1" "ps = utf16_points r" using assms by simp_all
    then show ?thesis by (simp add: s)
  qed
  then show "0 < w" and "w \<le> length s" and "ps = utf16_points (drop w s)"
    and "\<not> js_white c \<Longrightarrow> \<not> js_white (s ! 0) \<and> \<not> js_white (s ! (w - 1))" by blast+
qed

lemma points_Nil [simp]: "utf16_points s = [] \<longleftrightarrow> s = []"
  by (cases s rule: utf16_points.cases) (auto split: list.splits)

lemma word_rest_units:
  assumes "\<forall>c. js_white c \<longrightarrow> \<not> letter c"
  shows "fst (word_rest letter (utf16_points s)) \<le> length s \<and>
    snd (word_rest letter (utf16_points s)) = utf16_points (drop (fst (word_rest letter (utf16_points s))) s) \<and>
    (0 < fst (word_rest letter (utf16_points s)) \<longrightarrow> \<not> js_white (s ! (fst (word_rest letter (utf16_points s)) - 1)))"
proof (induction "length s" arbitrary: s rule: less_induct)
  case less
  show ?case
  proof (cases "utf16_points s")
    case Nil
    then show ?thesis by simp
  next
    case (Cons p ps)
    obtain c w where p: "p = (c, w)" by (cases p)
    note head = points_head [OF Cons [unfolded p]]
    show ?thesis
    proof (cases "letter c \<or> (word_joiner c \<and> ps \<noteq> [] \<and> letter (fst (hd ps)))")
      case False
      then have "word_rest letter (utf16_points s) = (0, utf16_points s)" using Cons p by auto
      then show ?thesis by simp
    next
      case True
      let ?n = "fst (word_rest letter ps)"
      have vis: "\<not> js_white c" using True assms joiner_visible by auto
      have "length (drop w s) < length s" using head(1,2) by simp
      from less [OF this] head(3) have ih: "?n \<le> length (drop w s)" "snd (word_rest letter ps) = utf16_points (drop ?n (drop w s))"
          "0 < ?n \<longrightarrow> \<not> js_white (drop w s ! (?n - 1))" by auto
      have eq: "word_rest letter (utf16_points s) = (w + ?n, snd (word_rest letter ps))"
        using True Cons p by (simp add: case_prod_unfold)
      have "\<not> js_white (s ! (w + ?n - 1))"
      proof (cases "?n = 0")
        case True
        then show ?thesis using head(4) [OF vis] by simp
      next
        case False
        then have "drop w s ! (?n - 1) = s ! (w + ?n - 1)" using head(2) ih(1) by simp
        with False ih(3) show ?thesis by simp
      qed
      with ih head(2) show ?thesis by (simp add: eq add.commute)
    qed
  qed
qed

text \<open>A token of a string: it has units, and its first and its last are visible.\<close>

definition token_in :: "jstr \<Rightarrow> TokenSpan \<Rightarrow> bool" where
  "token_in s t \<longleftrightarrow>
     ts_start t < ts_end t \<and> ts_end t \<le> length s \<and> \<not> js_white (s ! ts_start t) \<and> \<not> js_white (s ! (ts_end t - 1))"

definition before :: "TokenSpan \<Rightarrow> TokenSpan \<Rightarrow> bool" where
  "before a b \<longleftrightarrow> ts_end a \<le> ts_start b"

lemma tokens_from_ordered:
  assumes C: "classes_ok C"
  shows "i \<le> length s \<Longrightarrow>
    list_all (\<lambda>t. token_in s t \<and> i \<le> ts_start t) (tokens_from C i (utf16_points (drop i s))) \<and>
    sorted_wrt before (tokens_from C i (utf16_points (drop i s)))"
proof (induction "length s - i" arbitrary: i rule: less_induct)
  case less
  show ?case
  proof (cases "utf16_points (drop i s)")
    case Nil
    then show ?thesis by simp
  next
    case (Cons p ps)
    obtain c w where p: "p = (c, w)" by (cases p)
    note head = points_head [OF Cons [unfolded p]]
    let ?n = "fst (word_rest (tc_letter C) ps)"
    have ps: "ps = utf16_points (drop (i + w) s)" using head(3) by (simp add: add.commute)
    have w: "0 < w" "i + w \<le> length s" using head(1,2) less.prems by simp_all
    have letters: "\<forall>c. js_white c \<longrightarrow> \<not> tc_letter C c" using C by (simp add: classes_ok_def)
    note word = word_rest_units [OF letters, of "drop (i + w) s", folded ps]
    have next1: "list_all (\<lambda>t. token_in s t \<and> i + w \<le> ts_start t) (tokens_from C (i + w) ps) \<and> sorted_wrt before (tokens_from C (i + w) ps)"
      unfolding ps using w by (intro less.hyps) simp_all
    have next2: "list_all (\<lambda>t. token_in s t \<and> i + w + ?n \<le> ts_start t)
        (tokens_from C (i + w + ?n) (snd (word_rest (tc_letter C) ps))) \<and>
      sorted_wrt before (tokens_from C (i + w + ?n) (snd (word_rest (tc_letter C) ps)))"
    proof -
      have "snd (word_rest (tc_letter C) ps) = utf16_points (drop (i + w + ?n) s)" using word by (simp add: add.commute add.left_commute)
      moreover have "i + w + ?n \<le> length s" using word w by auto
      ultimately show ?thesis using w less.hyps [of "i + w + ?n"] by simp
    qed
    have single: "token_in s \<lparr>ts_start = i, ts_end = i + w\<rparr>" if "\<not> js_white c"
      using head(4) [OF that] w less.prems by (simp add: token_in_def)
    have whole: "token_in s \<lparr>ts_start = i, ts_end = i + w + ?n\<rparr>" if "\<not> js_white c"
    proof (cases "?n = 0")
      case True
      with single [OF that] show ?thesis by simp
    next
      case False
      then have "\<not> js_white (drop (i + w) s ! (?n - 1))" "?n \<le> length s - (i + w)" using word by auto
      moreover have "drop (i + w) s ! (?n - 1) = s ! (i + w + ?n - 1)" using False w by simp
      ultimately show ?thesis using head(4) [OF that] w less.prems by (simp add: token_in_def)
    qed
    have vis: "\<not> js_white c" if "tc_han C c \<or> tc_letter C c" using that C by (auto simp: classes_ok_def)
    consider "tc_han C c" | "\<not> tc_han C c" "tc_letter C c" | "\<not> tc_han C c" "\<not> tc_letter C c" "js_white c"
      | "\<not> tc_han C c" "\<not> tc_letter C c" "\<not> js_white c" by blast
    then show ?thesis
    proof cases
      case 1
      with next1 single vis w show ?thesis unfolding Cons p by (auto simp: list_all_iff before_def)
    next
      case 2
      with next2 whole vis w show ?thesis unfolding Cons p by (fastforce simp: list_all_iff before_def)
    next
      case 3
      with next1 show ?thesis unfolding Cons p by (auto simp: list_all_iff)
    next
      case 4
      with next1 single w show ?thesis unfolding Cons p by (auto simp: list_all_iff before_def)
    qed
  qed
qed

lemma tokens_ordered:
  assumes "classes_ok C"
  shows "list_all (token_in s) (tokenizeStable C s)" and "sorted_wrt before (tokenizeStable C s)"
  using tokens_from_ordered [OF assms, of 0 s] by (auto simp: tokenizeStable_def list_all_iff)

section \<open>Windows\<close>

lemma window_bounds:
  assumes "0 < m"
  shows "(x, y) \<in> set (token_windows n m k a) \<Longrightarrow> a \<le> x \<and> x < y \<and> y \<le> n \<and> y - x \<le> m"
  using assms
proof (induction n m k a rule: token_windows.induct)
  case (1 n m k a)
  let ?e = "min (a + m) n"
  from 1(2) have "a < n \<and> (x = a \<and> y = ?e \<or> \<not> n \<le> ?e \<and> (x, y) \<in> set (token_windows n m k (max (?e - k) (a + 1))))"
    by (subst (asm) token_windows.simps) (simp add: Let_def split: if_splits)
  then show ?case using 1(1) [OF _ refl] 1(3) by auto
qed

lemma windows_cover:
  "k < m \<Longrightarrow> a \<le> i \<Longrightarrow> i < n \<Longrightarrow> \<exists>(x, y) \<in> set (token_windows n m k a). x \<le> i \<and> i < y"
proof (induction n m k a rule: token_windows.induct)
  case (1 n m k a)
  show ?case
  proof (cases "i < min (a + m) n")
    case True
    then show ?thesis using 1(3,4) by (subst token_windows.simps) (auto simp: Let_def)
  next
    case False
    then have "\<not> min (a + m) n \<ge> n" "max (min (a + m) n - k) (a + 1) \<le> i" using 1(2-4) by auto
    with 1 show ?thesis by (subst token_windows.simps) (auto simp: Let_def)
  qed
qed

text \<open>A span of tokens holds each token of its window.\<close>

definition covers :: "TokenSpan \<Rightarrow> TokenSpan \<Rightarrow> bool" where
  "covers sp t \<longleftrightarrow> ts_start sp \<le> ts_start t \<and> ts_end t \<le> ts_end sp"

lemma ordered_starts:
  assumes "sorted_wrt before ts" and "list_all (token_in s) ts" and "i \<le> j" and "j < length ts"
  shows "ts_start (ts ! i) \<le> ts_start (ts ! j) \<and> ts_end (ts ! i) \<le> ts_end (ts ! j)"
proof (cases "i = j")
  case False
  with assms(1,3,4) have "before (ts ! i) (ts ! j)" by (simp add: sorted_wrt_iff_nth_less)
  moreover have "ts_start (ts ! i) < ts_end (ts ! i)" "ts_start (ts ! j) < ts_end (ts ! j)"
    using assms(2-4) by (simp_all add: list_all_length token_in_def)
  ultimately show ?thesis by (simp add: before_def)
qed simp

lemma spans_cover:
  assumes "classes_ok C" and "k < m" and t: "t \<in> set (tokenizeStable C s)"
  shows "\<exists>sp \<in> set (splitIntoTokenSpans C s m k). covers sp t"
proof -
  let ?ts = "tokenizeStable C s"
  note ok = tokens_ordered [OF assms(1), of s]
  from t obtain i where i: "i < length ?ts" "?ts ! i = t" by (auto simp: in_set_conv_nth)
  show ?thesis
  proof (cases "length ?ts \<le> m")
    case True
    have "token_in s t" using ok(1) t by (simp add: list_all_iff)
    with True t show ?thesis by (auto simp: splitIntoTokenSpans_def Let_def covers_def token_in_def)
  next
    case False
    obtain x y where xy: "(x, y) \<in> set (token_windows (length ?ts) m k 0)" "x \<le> i" "i < y"
      using windows_cover [OF assms(2), of 0 i "length ?ts"] i by auto
    have "y \<le> length ?ts" using window_bounds [OF _ xy(1)] assms(2) by simp
    then have "covers (window_span ?ts (x, y)) t"
      using ordered_starts [OF ok(2,1), of x i] ordered_starts [OF ok(2,1), of i "y - 1"] xy i by (auto simp: covers_def window_span_def)
    with xy(1) False t show ?thesis by (auto simp: splitIntoTokenSpans_def Let_def)
  qed
qed

lemma spans_bounded:
  assumes "classes_ok C" and "0 < m" and sp: "sp \<in> set (splitIntoTokenSpans C s m k)"
  shows "ts_end sp \<le> length s"
proof -
  let ?ts = "tokenizeStable C s"
  note ok = tokens_ordered(1) [OF assms(1), of s]
  have "ts_end (?ts ! (y - 1)) \<le> length s" if "(x, y) \<in> set (token_windows (length ?ts) m k 0)" for x y
    using window_bounds [OF assms(2) that] ok by (auto simp: list_all_length token_in_def)
  with sp show ?thesis by (auto simp: splitIntoTokenSpans_def Let_def window_span_def split: if_splits)
qed

end
