(* ===== verification/ChunkerStructure.thy ===== *)
theory ChunkerStructure
  imports ChunkerTokens Patterns
begin

text \<open>
  The chunks of a structured document: every child is the text of its block between the offsets it
  records, hangs on a parent that holds the whole block, and together the children of a block hold
  each of its tokens.
\<close>

section \<open>A trimmed piece of a text\<close>

lemma index_of_trim:
  assumes "js_trim s \<noteq> []"
  shows "index_of s (js_trim s) = Some (length (takeWhile js_white s))"
proof -
  have skip: "index_of (w @ p @ r) p = Some (length w)" if "\<forall>c \<in> set w. js_white c" and "trimmed p" for w p r
    using that
  proof (induction w)
    case Nil
    then show ?case by (cases p; cases r) (auto simp: starts_with_iff)
  next
    case (Cons c w)
    then have "\<not> starts_with (c # w @ p @ r) p" by (cases p) (auto simp: trimmed_def)
    with Cons show ?case by simp
  qed
  have "index_of (takeWhile js_white s @ js_trim s @ rev (takeWhile js_white (rev (dropWhile js_white s)))) (js_trim s) =
      Some (length (takeWhile js_white s))"
    using trim_trimmed [OF assms] by (intro skip) (auto dest: set_takeWhileD)
  then show ?thesis using trim_split [of s] by simp
qed

lemma trimmed_piece:
  assumes c: "js_trim (slice t a b) \<noteq> []" and b: "b \<le> length t"
  defines "s \<equiv> a + length (takeWhile js_white (slice t a b))"
  defines "e \<equiv> s + length (js_trim (slice t a b))"
  shows "slice t s e = js_trim (slice t a b)" and "e \<le> b"
    and "\<And>x. a \<le> x \<Longrightarrow> x < b \<Longrightarrow> \<not> js_white (t ! x) \<Longrightarrow> s \<le> x \<and> x < e"
proof -
  let ?p = "slice t a b"
  let ?w = "takeWhile js_white ?p" and ?r = "rev (takeWhile js_white (rev (dropWhile js_white ?p)))"
  have p: "?p = ?w @ js_trim ?p @ ?r" by (rule trim_split)
  have "?p \<noteq> []" using c by (auto simp: js_trim_def)
  then have ab: "a < b" "length ?p = b - a" using b by (auto simp: slice_def)
  have t: "t = (take a t @ ?w) @ js_trim ?p @ (?r @ drop b t)"
  proof -
    have "t = take a t @ ?p @ drop b t" using ab(1) by (simp add: slice_def) (metis append_take_drop_id drop_drop le_add_diff_inverse2 less_imp_le)
    then show ?thesis by (subst (asm) p) simp
  qed
  have s: "s = length (take a t @ ?w)" using ab b by (simp add: s_def)
  show "slice t s e = js_trim ?p"
    unfolding e_def s by (subst t) (rule slice_append_mid)
  have len: "length ?w + length (js_trim ?p) + length ?r = b - a" using arg_cong [OF p, of length] ab(2) by simp
  then show "e \<le> b" using ab(1) by (simp add: e_def s_def)
  fix x assume x: "a \<le> x" "x < b" "\<not> js_white (t ! x)"
  have at: "?p ! (x - a) = t ! x" using x(1,2) b by (simp add: slice_def)
  have past: "(as @ bs @ cs) ! n = cs ! (n - length as - length bs)" if "length as + length bs \<le> n" for as bs cs :: jstr and n
    using that by (auto simp: nth_append)
  show "s \<le> x \<and> x < e"
  proof (rule ccontr)
    assume "\<not> (s \<le> x \<and> x < e)"
    then consider "x - a < length ?w" | "length ?w + length (js_trim ?p) \<le> x - a"
      using x(1) by (auto simp: e_def s_def)
    then have "js_white (?p ! (x - a))"
    proof cases
      case 1
      then have "?p ! (x - a) = ?w ! (x - a)" by (simp add: takeWhile_nth)
      with 1 show ?thesis by (metis nth_mem set_takeWhileD)
    next
      case 2
      let ?i = "x - a - length ?w - length (js_trim ?p)"
      have "?p ! (x - a) = (?w @ js_trim ?p @ ?r) ! (x - a)" using p by simp
      also have "\<dots> = ?r ! ?i" using 2 by (rule past)
      finally have "?p ! (x - a) = ?r ! ?i" .
      moreover have "?i < length ?r" using 2 x(1,2) len by linarith
      then have "?r ! ?i \<in> set (takeWhile js_white (rev (dropWhile js_white ?p)))" by (metis nth_mem set_rev)
      ultimately show ?thesis by (metis set_takeWhileD)
    qed
    with at x(3) show False by simp
  qed
qed

section \<open>Children\<close>

text \<open>A chunk is the child of a block, from one offset of its text to another.\<close>

definition child_span :: "DocumentAstBlock \<Rightarrow> jstr \<Rightarrow> nat \<Rightarrow> nat \<Rightarrow> ChunkOutput \<Rightarrow> bool" where
  "child_span b key s e c \<longleftrightarrow>
     (\<exists>d. co_details c = Some d \<and> cd_chunk_type d = CHILD \<and> cd_parent_key d = Some key \<and>
        cd_block_ids d = [ab_block_id b] \<and> cd_char_start d = Some (ab_offset_start b + s) \<and>
        cd_char_end d = Some (ab_offset_start b + e)) \<and>
     e \<le> length (ab_text b) \<and> slice (ab_text b) s e = co_content c \<and> trimmed (co_content c)"

definition holds_token :: "DocumentAstBlock \<Rightarrow> jstr \<Rightarrow> TokenSpan \<Rightarrow> ChunkOutput \<Rightarrow> bool" where
  "holds_token b key t c \<longleftrightarrow> (\<exists>s e. child_span b key s e c \<and> s \<le> ts_start t \<and> ts_end t \<le> e)"

text \<open>The chunks a step adds, numbered from where it began.\<close>

definition kids_added :: "children \<Rightarrow> children \<Rightarrow> ChunkOutput list \<Rightarrow> bool" where
  "kids_added st st' cs \<longleftrightarrow>
     kd_chunks st' = kd_chunks st @ cs \<and> kd_index st' = kd_index st + length cs \<and>
     map co_chunk_index cs = [kd_index st..<kd_index st']"

lemma kids_added_none [simp]: "kids_added st st []"
  by (simp add: kids_added_def)

lemma kids_added_trans: "kids_added st st1 cs \<Longrightarrow> kids_added st1 st2 ds \<Longrightarrow> kids_added st st2 (cs @ ds)"
  by (auto simp: kids_added_def simp flip: upt_add_eq_append)

lemma child_step:
  assumes "ts_end sp \<le> length (ab_text b)"
  shows "\<exists>cs. kids_added st (child_chunk P C ik key title b st (i, sp)) cs \<and> (\<forall>c \<in> set cs. \<exists>s e. child_span b key s e c) \<and>
    (\<forall>t. token_in (ab_text b) t \<and> covers sp t \<longrightarrow> (\<exists>c \<in> set cs. holds_token b key t c))"
proof -
  let ?p = "slice (ab_text b) (ts_start sp) (ts_end sp)"
  show ?thesis
  proof (cases "js_trim ?p = []")
    case True
    have "\<not> (token_in (ab_text b) t \<and> covers sp t)" for t
    proof
      assume t: "token_in (ab_text b) t \<and> covers sp t"
      then have i: "ts_start sp \<le> ts_start t" "ts_start t < ts_end sp" "\<not> js_white (ab_text b ! ts_start t)"
        by (auto simp: token_in_def covers_def)
      then have "?p ! (ts_start t - ts_start sp) = ab_text b ! ts_start t" "ts_start t - ts_start sp < length ?p"
        using assms by (simp_all add: slice_def)
      then have "visible ?p \<noteq> []" using i(3) by (auto simp: visible_def filter_empty_conv dest!: nth_mem)
      with trim_empty [OF True] show False by simp
    qed
    with True show ?thesis by (intro exI [of _ "[]"]) (auto simp: child_chunk_def Let_def)
  next
    case False
    let ?s = "ts_start sp + length (takeWhile js_white ?p)"
    let ?e = "?s + length (js_trim ?p)"
    note piece = trimmed_piece [OF False assms]
    have at: "index_of ?p (js_trim ?p) = Some (length (takeWhile js_white ?p))" by (rule index_of_trim [OF False])
    let ?st = "child_chunk P C ik key title b st (i, sp)"
    let ?c = "last (kd_chunks ?st)"
    have added: "kids_added st ?st [?c]" using False by (simp add: kids_added_def child_chunk_def Let_def)
    have "child_span b key ?s ?e ?c"
      using False piece(1,2) assms trim_trimmed [OF False] by (simp add: child_span_def child_chunk_def Let_def at)
    moreover have "?s \<le> ts_start t \<and> ts_end t \<le> ?e" if t: "token_in (ab_text b) t \<and> covers sp t" for t
    proof -
      have "ts_start sp \<le> ts_start t" "ts_start t < ts_end sp" "ts_start sp \<le> ts_end t - 1" "ts_end t - 1 < ts_end sp"
          "\<not> js_white (ab_text b ! ts_start t)" "\<not> js_white (ab_text b ! (ts_end t - 1))" "0 < ts_end t"
        using t by (auto simp: token_in_def covers_def)
      with piece(3) [of "ts_start t"] piece(3) [of "ts_end t - 1"] show ?thesis by linarith
    qed
    ultimately show ?thesis
      using added by (intro exI [of _ "[?c]"]) (auto simp: holds_token_def)
  qed
qed

lemma spans_step:
  assumes "\<forall>(i, sp) \<in> set xs. ts_end sp \<le> length (ab_text b)"
  shows "\<exists>cs. kids_added st (foldl (child_chunk P C ik key title b) st xs) cs \<and> (\<forall>c \<in> set cs. \<exists>s e. child_span b key s e c) \<and>
    (\<forall>t. token_in (ab_text b) t \<and> (\<exists>(i, sp) \<in> set xs. covers sp t) \<longrightarrow> (\<exists>c \<in> set cs. holds_token b key t c))"
  using assms
proof (induction xs arbitrary: st)
  case Nil
  then show ?case by (intro exI [of _ "[]"]) simp
next
  case (Cons x xs)
  obtain i sp where x: "x = (i, sp)" by (cases x)
  let ?st = "child_chunk P C ik key title b st (i, sp)"
  from child_step [of sp b st P C ik key title i] Cons.prems x obtain cs where cs:
      "kids_added st ?st cs" "\<forall>c \<in> set cs. \<exists>s e. child_span b key s e c"
      "\<forall>t. token_in (ab_text b) t \<and> covers sp t \<longrightarrow> (\<exists>c \<in> set cs. holds_token b key t c)" by auto
  from Cons.IH [of ?st] Cons.prems obtain ds where ds:
      "kids_added ?st (foldl (child_chunk P C ik key title b) ?st xs) ds" "\<forall>c \<in> set ds. \<exists>s e. child_span b key s e c"
      "\<forall>t. token_in (ab_text b) t \<and> (\<exists>(i, sp) \<in> set xs. covers sp t) \<longrightarrow> (\<exists>c \<in> set ds. holds_token b key t c)" by auto
  show ?case
    using kids_added_trans [OF cs(1) ds(1)] cs(2,3) ds(2,3)
    by (intro exI [of _ "cs @ ds"]) (simp add: x ball_Un bex_Un, blast)
qed

lemma block_step:
  assumes "classes_ok C"
  shows "\<exists>cs. kids_added st (block_children P C ik key title st b) cs \<and> (\<forall>c \<in> set cs. \<exists>s e. child_span b key s e c) \<and>
    (\<forall>t \<in> set (tokenizeStable C (ab_text b)). \<exists>c \<in> set cs. holds_token b key t c)"
proof -
  let ?spans = "splitIntoTokenSpans C (ab_text b) MAX_CHILD_TOKENS OVERLAP_TOKENS"
  have sizes: "0 < MAX_CHILD_TOKENS" "OVERLAP_TOKENS < MAX_CHILD_TOKENS" by (simp_all add: MAX_CHILD_TOKENS_def OVERLAP_TOKENS_def)
  have "\<forall>(i, sp) \<in> set (enumerate 0 ?spans). ts_end sp \<le> length (ab_text b)"
    using spans_bounded [OF assms sizes(1)] by (auto simp: in_set_enumerate_eq) (metis nth_mem)
  from spans_step [OF this, of st P C ik key title] obtain cs where cs:
      "kids_added st (block_children P C ik key title st b) cs" "\<forall>c \<in> set cs. \<exists>s e. child_span b key s e c"
      "\<forall>t. token_in (ab_text b) t \<and> (\<exists>(i, sp) \<in> set (enumerate 0 ?spans). covers sp t) \<longrightarrow> (\<exists>c \<in> set cs. holds_token b key t c)"
    by (auto simp: block_children_def)
  have "\<exists>(i, sp) \<in> set (enumerate 0 ?spans). covers sp t" if t: "t \<in> set (tokenizeStable C (ab_text b))" for t
  proof -
    from spans_cover [OF assms sizes(2) t] obtain n where "n < length ?spans" "covers (?spans ! n) t" by (auto simp: in_set_conv_nth)
    then show ?thesis by (intro bexI [of _ "(n, ?spans ! n)"]) (auto simp: in_set_enumerate_eq)
  qed
  moreover have "token_in (ab_text b) t" if "t \<in> set (tokenizeStable C (ab_text b))" for t
    using tokens_ordered(1) [OF assms, of "ab_text b"] that by (simp add: list_all_iff)
  ultimately show ?thesis using cs by blast
qed

lemma blocks_step:
  assumes "classes_ok C"
  shows "\<exists>cs. kids_added st (foldl (block_children P C ik key title) st bs) cs \<and>
    (\<forall>c \<in> set cs. \<exists>b \<in> set bs. \<exists>s e. child_span b key s e c) \<and>
    (\<forall>b \<in> set bs. \<forall>t \<in> set (tokenizeStable C (ab_text b)). \<exists>c \<in> set cs. holds_token b key t c)"
proof (induction bs arbitrary: st)
  case Nil
  then show ?case by (intro exI [of _ "[]"]) simp
next
  case (Cons b bs)
  let ?st = "block_children P C ik key title st b"
  from block_step [OF assms, of st P ik key title b] obtain cs where cs: "kids_added st ?st cs"
      "\<forall>c \<in> set cs. \<exists>s e. child_span b key s e c" "\<forall>t \<in> set (tokenizeStable C (ab_text b)). \<exists>c \<in> set cs. holds_token b key t c" by blast
  from Cons.IH [of ?st] obtain ds where ds: "kids_added ?st (foldl (block_children P C ik key title) ?st bs) ds"
      "\<forall>c \<in> set ds. \<exists>b \<in> set bs. \<exists>s e. child_span b key s e c"
      "\<forall>b \<in> set bs. \<forall>t \<in> set (tokenizeStable C (ab_text b)). \<exists>c \<in> set ds. holds_token b key t c" by blast
  show ?case
  proof (intro exI [of _ "cs @ ds"] conjI ballI)
    show "kids_added st (foldl (block_children P C ik key title) st (b # bs)) (cs @ ds)"
      using kids_added_trans [OF cs(1) ds(1)] by simp
    show "\<exists>b' \<in> set (b # bs). \<exists>s e. child_span b' key s e c" if "c \<in> set (cs @ ds)" for c
      using that cs(2) ds(2) by auto
    show "\<exists>c \<in> set (cs @ ds). holds_token b' key t c"
      if "b' \<in> set (b # bs)" and "t \<in> set (tokenizeStable C (ab_text b'))" for b' t
    proof (cases "b' = b")
      case True
      with cs(3) that(2) show ?thesis by auto
    next
      case False
      with ds(3) that obtain c where "c \<in> set ds" "holds_token b' key t c" by auto
      then show ?thesis by auto
    qed
  qed
qed

section \<open>Sections\<close>

lemma group_from_blocks:
  "(\<Union>sec \<in> set (group_from cur bs). set (sb_blocks sec)) =
     set (sb_blocks cur) \<union> {b \<in> set bs. ab_type b \<noteq> HEADING}"
proof (induction cur bs rule: group_from.induct)
  case (2 cur b bs)
  then show ?case by (cases "ab_type b = HEADING") auto
qed auto

lemma grouped_blocks:
  "(\<Union>sec \<in> set (groupByHeading bs). set (sb_blocks sec)) = {b \<in> set bs. ab_type b \<noteq> HEADING}"
  by (simp add: groupByHeading_def group_from_blocks)

lemma join_sublist: "s \<in> set ss \<Longrightarrow> sublist s (join_with sep ss)"
proof (induction sep ss rule: join_with.induct)
  case (3 sep s' s'' ss)
  have "sublist s' (s' @ sep @ join_with sep (s'' # ss))" by (intro prefix_imp_sublist) simp
  moreover have "sublist (join_with sep (s'' # ss)) (s' @ sep @ join_with sep (s'' # ss))"
    by (intro suffix_imp_sublist) (simp add: suffix_def)
  ultimately show ?case using 3 sublist_order.order.trans by (auto simp del: join_with.simps(3) simp: join_with.simps(3) [of sep s' s'' ss])
qed auto

lemma parent_holds_block: "b \<in> set (sb_blocks sec) \<Longrightarrow> sublist (ab_text b) (parent_content sec)"
proof (cases "ab_text b = []")
  case False
  assume "b \<in> set (sb_blocks sec)"
  with False have "ab_text b \<in> set (filter (\<lambda>t. t \<noteq> []) (map ab_text (heading_list sec @ sb_blocks sec)))" by auto
  then show ?thesis unfolding parent_content_def by (rule join_sublist)
qed simp

text \<open>A chunk with its place in the list of all: a parent, or a child of one of them that holds its block.\<close>

definition in_place :: "DocumentAstBlock set \<Rightarrow> ChunkOutput set \<Rightarrow> ChunkOutput \<Rightarrow> bool" where
  "in_place blocks cs c \<longleftrightarrow>
     (\<exists>d. co_details c = Some d \<and> cd_chunk_type d = PARENT) \<or>
     (\<exists>b \<in> blocks. \<exists>key s e. child_span b key s e c \<and>
        (\<exists>p \<in> cs. \<exists>d. co_details p = Some d \<and> cd_chunk_type d = PARENT \<and> cd_stable_key d = key \<and> sublist (ab_text b) (co_content p)))"

lemma in_place_mono: "in_place bs cs c \<Longrightarrow> bs \<subseteq> bs' \<Longrightarrow> cs \<subseteq> cs' \<Longrightarrow> in_place bs' cs' c"
  unfolding in_place_def by blast

definition chunks_added :: "chunking \<Rightarrow> chunking \<Rightarrow> ChunkOutput list \<Rightarrow> bool" where
  "chunks_added st st' cs \<longleftrightarrow>
     ck_chunks st' = ck_chunks st @ cs \<and> ck_index st' = ck_index st + length cs \<and>
     map co_chunk_index cs = [ck_index st..<ck_index st']"

lemma chunks_added_trans: "chunks_added st st1 cs \<Longrightarrow> chunks_added st1 st2 ds \<Longrightarrow> chunks_added st st2 (cs @ ds)"
  by (auto simp: chunks_added_def simp flip: upt_add_eq_append)

definition holds_all_tokens :: "token_classes \<Rightarrow> DocumentAstBlock \<Rightarrow> ChunkOutput set \<Rightarrow> bool" where
  "holds_all_tokens C b cs \<longleftrightarrow> (\<forall>t \<in> set (tokenizeStable C (ab_text b)). \<exists>c \<in> cs. \<exists>key. holds_token b key t c)"

lemma holds_all_tokens_mono: "holds_all_tokens C b cs \<Longrightarrow> cs \<subseteq> cs' \<Longrightarrow> holds_all_tokens C b cs'"
  unfolding holds_all_tokens_def by blast

lemma structured_step:
  assumes "classes_ok C"
  shows "\<exists>cs. chunks_added st (structured_section P C ik st (i, sec)) cs \<and>
    (\<forall>c \<in> set cs. in_place (set (sb_blocks sec)) (set cs) c) \<and>
    (\<forall>b \<in> set (sb_blocks sec). holds_all_tokens C b (set cs))"
proof (cases "parent_content sec = []")
  case True
  have "holds_all_tokens C b {}" if "b \<in> set (sb_blocks sec)" for b
  proof -
    have "ab_text b = []" using parent_holds_block [OF that] True by simp
    then show ?thesis by (simp add: holds_all_tokens_def tokenizeStable_def)
  qed
  with True show ?thesis by (intro exI [of _ "[]"]) (simp add: structured_section_def chunks_added_def)
next
  case False
  let ?p = "parent_chunk P C ik i sec (ck_index st)"
  obtain d where d: "co_details ?p = Some d" "cd_chunk_type d = PARENT"
    by (simp add: parent_chunk_def Let_def)
  let ?st = "\<lparr>kd_chunks = [], kd_index = ck_index st + 1, kd_position = 0\<rparr>"
  let ?kids = "foldl (block_children P C ik (cd_stable_key d) (structured_title sec)) ?st (sb_blocks sec)"
  from blocks_step [OF assms, of ?st P ik "cd_stable_key d" "structured_title sec" "sb_blocks sec"]
  obtain cs where cs: "kids_added ?st ?kids cs" "\<forall>c \<in> set cs. \<exists>b \<in> set (sb_blocks sec). \<exists>s e. child_span b (cd_stable_key d) s e c"
      "\<forall>b \<in> set (sb_blocks sec). \<forall>t \<in> set (tokenizeStable C (ab_text b)). \<exists>c \<in> set cs. holds_token b (cd_stable_key d) t c"
    by blast
  have eq: "structured_section P C ik st (i, sec) = \<lparr>ck_chunks = ck_chunks st @ ?p # cs, ck_index = kd_index ?kids\<rparr>"
    using False d cs(1) by (simp add: structured_section_def Let_def kids_added_def)
  have upt: "[ck_index st..<Suc (ck_index st + length cs)] = ck_index st # [Suc (ck_index st)..<Suc (ck_index st + length cs)]"
    by (simp add: upt_conv_Cons del: upt_Suc)
  have "co_chunk_index ?p = ck_index st" "co_content ?p = parent_content sec" by (simp_all add: parent_chunk_def Let_def)
  then have "chunks_added st (structured_section P C ik st (i, sec)) (?p # cs)"
    unfolding eq using cs(1) upt by (simp add: chunks_added_def kids_added_def del: upt_Suc)
  moreover have "in_place (set (sb_blocks sec)) (set (?p # cs)) c" if "c \<in> set (?p # cs)" for c
  proof (cases "c = ?p")
    case True
    with d show ?thesis by (auto simp: in_place_def)
  next
    case False
    with that cs(2) obtain b s e where b: "b \<in> set (sb_blocks sec)" "child_span b (cd_stable_key d) s e c" by auto
    have "sublist (ab_text b) (co_content ?p)" using parent_holds_block [OF b(1)] \<open>co_content ?p = parent_content sec\<close> by simp
    with d have "\<exists>p \<in> set (?p # cs). \<exists>d'. co_details p = Some d' \<and> cd_chunk_type d' = PARENT \<and>
        cd_stable_key d' = cd_stable_key d \<and> sublist (ab_text b) (co_content p)" by simp
    with b show ?thesis unfolding in_place_def by blast
  qed
  moreover have "holds_all_tokens C b (set (?p # cs))" if "b \<in> set (sb_blocks sec)" for b
    unfolding holds_all_tokens_def
  proof
    fix t assume "t \<in> set (tokenizeStable C (ab_text b))"
    with cs(3) that obtain c where "c \<in> set cs" "holds_token b (cd_stable_key d) t c" by blast
    then show "\<exists>c \<in> set (?p # cs). \<exists>key. holds_token b key t c" by auto
  qed
  ultimately show ?thesis by blast
qed

lemma structured_steps:
  assumes "classes_ok C"
  shows "\<exists>cs. chunks_added st (foldl (structured_section P C ik) st xs) cs \<and>
    (\<forall>c \<in> set cs. in_place (\<Union>(i, sec) \<in> set xs. set (sb_blocks sec)) (set cs) c) \<and>
    (\<forall>b \<in> (\<Union>(i, sec) \<in> set xs. set (sb_blocks sec)). holds_all_tokens C b (set cs))"
proof (induction xs arbitrary: st)
  case Nil
  then show ?case by (intro exI [of _ "[]"]) (simp add: chunks_added_def)
next
  case (Cons x xs)
  obtain i sec where x: "x = (i, sec)" by (cases x)
  let ?st = "structured_section P C ik st (i, sec)" and ?bs = "\<Union>(i, sec) \<in> set xs. set (sb_blocks sec)"
  from structured_step [OF assms, of st P ik i sec] obtain cs where cs: "chunks_added st ?st cs"
      "\<forall>c \<in> set cs. in_place (set (sb_blocks sec)) (set cs) c" "\<forall>b \<in> set (sb_blocks sec). holds_all_tokens C b (set cs)" by blast
  from Cons.IH [of ?st] obtain ds where ds: "chunks_added ?st (foldl (structured_section P C ik) ?st xs) ds"
      "\<forall>c \<in> set ds. in_place ?bs (set ds) c" "\<forall>b \<in> ?bs. holds_all_tokens C b (set ds)" by blast
  have bs: "(\<Union>(i, sec) \<in> set (x # xs). set (sb_blocks sec)) = set (sb_blocks sec) \<union> ?bs" by (simp add: x)
  have parts: "set cs \<subseteq> set (cs @ ds)" "set ds \<subseteq> set (cs @ ds)" by auto
  show ?case unfolding bs
  proof (intro exI [of _ "cs @ ds"] conjI ballI)
    show "chunks_added st (foldl (structured_section P C ik) st (x # xs)) (cs @ ds)"
      using chunks_added_trans [OF cs(1) ds(1)] by (simp add: x)
    show "in_place (set (sb_blocks sec) \<union> ?bs) (set (cs @ ds)) c" if "c \<in> set (cs @ ds)" for c
    proof (cases "c \<in> set cs")
      case True
      then have "in_place (set (sb_blocks sec)) (set cs) c" using cs(2) by blast
      then show ?thesis using parts(1) by (rule in_place_mono [OF _ Un_upper1])
    next
      case False
      then have "in_place ?bs (set ds) c" using that ds(2) by simp
      then show ?thesis using parts(2) by (rule in_place_mono [OF _ Un_upper2])
    qed
    show "holds_all_tokens C b (set (cs @ ds))" if "b \<in> set (sb_blocks sec) \<union> ?bs" for b
    proof (cases "b \<in> set (sb_blocks sec)")
      case True
      with cs(3) have "holds_all_tokens C b (set cs)" by blast
      then show ?thesis using parts(1) by (rule holds_all_tokens_mono)
    next
      case False
      with that ds(3) have "holds_all_tokens C b (set ds)" by blast
      then show ?thesis using parts(2) by (rule holds_all_tokens_mono)
    qed
  qed
qed

lemma structured_document:
  assumes "classes_ok C" and "ci_ast input = Some blocks"
  shows "map co_chunk_index (chunkDocument P C input) = [0..<length (chunkDocument P C input)]"
    and "c \<in> set (chunkDocument P C input) \<Longrightarrow>
      in_place {b \<in> set blocks. ab_type b \<noteq> HEADING} (set (chunkDocument P C input)) c"
    and "b \<in> set blocks \<Longrightarrow> ab_type b \<noteq> HEADING \<Longrightarrow> holds_all_tokens C b (set (chunkDocument P C input))"
proof -
  let ?key = "case ci_ingestion_key input of None \<Rightarrow> [] | Some k \<Rightarrow> k"
  let ?xs = "enumerate 0 (groupByHeading blocks)"
  have "(\<Union>(i, sec) \<in> set ?xs. set (sb_blocks sec)) = (\<Union>sec \<in> snd ` set ?xs. set (sb_blocks sec))" by (auto simp: case_prod_unfold)
  also have "snd ` set ?xs = set (groupByHeading blocks)" by (metis map_snd_enumerate set_map)
  finally have bs: "(\<Union>(i, sec) \<in> set ?xs. set (sb_blocks sec)) = {b \<in> set blocks. ab_type b \<noteq> HEADING}"
    by (simp only: grouped_blocks)
  from structured_steps [OF assms(1), of "\<lparr>ck_chunks = [], ck_index = 0\<rparr>" P ?key ?xs, unfolded bs]
  have "map co_chunk_index (chunkDocument P C input) = [0..<length (chunkDocument P C input)] \<and>
    (\<forall>c \<in> set (chunkDocument P C input).
       in_place {b \<in> set blocks. ab_type b \<noteq> HEADING} (set (chunkDocument P C input)) c) \<and>
    (\<forall>b \<in> {b \<in> set blocks. ab_type b \<noteq> HEADING}. holds_all_tokens C b (set (chunkDocument P C input)))"
    by (auto simp: chunkDocument_def assms(2) chunkStructuredDocument_def chunks_added_def)
  then show "map co_chunk_index (chunkDocument P C input) = [0..<length (chunkDocument P C input)]"
    and "c \<in> set (chunkDocument P C input) \<Longrightarrow>
      in_place {b \<in> set blocks. ab_type b \<noteq> HEADING} (set (chunkDocument P C input)) c"
    and "b \<in> set blocks \<Longrightarrow> ab_type b \<noteq> HEADING \<Longrightarrow> holds_all_tokens C b (set (chunkDocument P C input))"
    by blast+
qed

text \<open>
  C26: In a structured document the chunks are numbered from 0, and every child is the trimmed text of one block that is no
  heading, between the offsets it records, and refers to the key of a parent that holds the whole block.
\<close>

theorem structured_children_located:
  assumes "classes_ok C" and "ci_ast input = Some blocks" and "c \<in> set (chunkDocument P C input)"
    and "co_details c = Some d" and "cd_chunk_type d = CHILD"
  shows "map co_chunk_index (chunkDocument P C input) = [0..<length (chunkDocument P C input)] \<and>
    (\<exists>b \<in> set blocks. \<exists>s e. ab_type b \<noteq> HEADING \<and> cd_block_ids d = [ab_block_id b] \<and>
       cd_char_start d = Some (ab_offset_start b + s) \<and> cd_char_end d = Some (ab_offset_start b + e) \<and>
       e \<le> length (ab_text b) \<and> co_content c = slice (ab_text b) s e \<and> trimmed (co_content c) \<and>
       (\<exists>p \<in> set (chunkDocument P C input). \<exists>pd. co_details p = Some pd \<and> cd_chunk_type pd = PARENT \<and>
          cd_parent_key d = Some (cd_stable_key pd) \<and> sublist (ab_text b) (co_content p)))"
proof -
  have "in_place {b \<in> set blocks. ab_type b \<noteq> HEADING} (set (chunkDocument P C input)) c"
    by (rule structured_document(2) [OF assms(1,2,3)])
  then obtain b key s e p pd where "b \<in> set blocks" "ab_type b \<noteq> HEADING" "child_span b key s e c"
      "p \<in> set (chunkDocument P C input)" "co_details p = Some pd" "cd_chunk_type pd = PARENT" "cd_stable_key pd = key"
      "sublist (ab_text b) (co_content p)"
    using assms(4,5) by (auto simp: in_place_def)
  moreover from this(3) have "cd_block_ids d = [ab_block_id b]" "cd_char_start d = Some (ab_offset_start b + s)"
      "cd_char_end d = Some (ab_offset_start b + e)" "cd_parent_key d = Some key" "e \<le> length (ab_text b)"
      "co_content c = slice (ab_text b) s e" "trimmed (co_content c)"
    using assms(4) by (auto simp: child_span_def)
  ultimately show ?thesis
    using structured_document(1) [OF assms(1,2)] by blast
qed

text \<open>
  C25: Each token of each block that is no heading lies whole in a child of that block: the windows of 512 tokens and the
  trimming of their ends lose none.
\<close>

theorem structured_tokens_kept:
  assumes "classes_ok C" and "ci_ast input = Some blocks" and "b \<in> set blocks" and "ab_type b \<noteq> HEADING"
    and "t \<in> set (tokenizeStable C (ab_text b))"
  shows "\<exists>c \<in> set (chunkDocument P C input). \<exists>d s e. co_details c = Some d \<and> cd_chunk_type d = CHILD \<and>
    cd_block_ids d = [ab_block_id b] \<and> cd_char_start d = Some (ab_offset_start b + s) \<and>
    cd_char_end d = Some (ab_offset_start b + e) \<and> s \<le> ts_start t \<and> ts_end t \<le> e \<and> co_content c = slice (ab_text b) s e"
proof -
  from structured_document(3) [OF assms(1,2,3,4), of P] assms(5)
  obtain c key where "c \<in> set (chunkDocument P C input)" "holds_token b key t c" by (auto simp: holds_all_tokens_def)
  then show ?thesis by (fastforce simp: holds_token_def child_span_def)
qed

section \<open>A concrete document\<close>

definition sample_classes :: token_classes where
  "sample_classes = \<lparr>tc_han = (\<lambda>c. 0x4E00 \<le> c \<and> c \<le> 0x9FFF), tc_letter = ascii_lower\<rparr>"

definition sample_block :: "AstBlockType \<Rightarrow> string \<Rightarrow> nat \<Rightarrow> DocumentAstBlock" where
  "sample_block t s i =
     \<lparr>ab_block_id = js ''b'', ab_type = t, ab_text = js s, ab_heading_path = [js ''h''], ab_page_start = None, ab_page_end = None,
      ab_offset_start = i, ab_offset_end = i + length s\<rparr>"

definition sample_input :: ChunkInput where
  "sample_input =
     \<lparr>ci_content_text = [], ci_sections = [], ci_ast = Some [sample_block HEADING ''h'' 0, sample_block PARAGRAPH '' it-s x'' 3],
      ci_ingestion_key = Some (js ''k'')\<rparr>"

lemma sample_classes_ok: "classes_ok sample_classes"
  by (auto simp: classes_ok_def sample_classes_def js_white_def ascii_lower_def)

lemma sample_block_type: "ab_type (sample_block t s i) = t" "ab_text (sample_block t s i) = js s" "ab_offset_start (sample_block t s i) = i"
  by (simp_all add: sample_block_def)

lemma sample_tokens:
  "tokenizeStable sample_classes (js '' it-s x'') = [\<lparr>ts_start = 1, ts_end = 5\<rparr>, \<lparr>ts_start = 6, ts_end = 7\<rparr>]"
  by (simp add: tokenizeStable_def sample_classes_def ascii_lower_def word_joiner_def js_white_def js_def)

theorem structured_tokens_kept_witness:
  "\<exists>c \<in> set (chunkDocument plain_platform sample_classes sample_input). \<exists>d s e. co_details c = Some d \<and>
     cd_char_start d = Some (3 + s) \<and> cd_char_end d = Some (3 + e) \<and> s \<le> 1 \<and> 5 \<le> e \<and> co_content c = slice (js '' it-s x'') s e"
proof -
  let ?b = "sample_block PARAGRAPH '' it-s x'' 3"
  have b: "ci_ast sample_input = Some [sample_block HEADING ''h'' 0, ?b]" "?b \<in> set [sample_block HEADING ''h'' 0, ?b]"
      "ab_type ?b \<noteq> HEADING"
    by (simp_all add: sample_input_def sample_block_type)
  have "\<lparr>ts_start = 1, ts_end = 5\<rparr> \<in> set (tokenizeStable sample_classes (ab_text ?b))"
    using sample_tokens by (simp add: sample_block_def)
  from structured_tokens_kept [OF sample_classes_ok b this, of plain_platform] show ?thesis by (auto simp: sample_block_def)
qed

lemma sample_child:
  obtains c d where "c \<in> set (chunkDocument plain_platform sample_classes sample_input)" and "co_details c = Some d" and "cd_chunk_type d = CHILD"
proof -
  let ?b = "sample_block PARAGRAPH '' it-s x'' 3"
  have "\<lparr>ts_start = 1, ts_end = 5\<rparr> \<in> set (tokenizeStable sample_classes (ab_text ?b))"
    using sample_tokens by (simp add: sample_block_def)
  moreover have "holds_all_tokens sample_classes ?b (set (chunkDocument plain_platform sample_classes sample_input))"
    by (rule structured_document(3) [OF sample_classes_ok, where blocks = "[sample_block HEADING ''h'' 0, sample_block PARAGRAPH '' it-s x'' 3]"])
      (simp_all add: sample_input_def sample_block_type)
  ultimately show thesis using that by (auto simp: holds_all_tokens_def holds_token_def child_span_def)
qed

theorem structured_children_located_witness:
  "\<exists>c \<in> set (chunkDocument plain_platform sample_classes sample_input). \<exists>d s e. co_details c = Some d \<and>
     cd_char_start d = Some (3 + s) \<and> cd_char_end d = Some (3 + e) \<and> co_content c = slice (js '' it-s x'') s e \<and> trimmed (co_content c)"
proof -
  obtain c d where c: "c \<in> set (chunkDocument plain_platform sample_classes sample_input)" "co_details c = Some d" "cd_chunk_type d = CHILD"
    by (rule sample_child)
  have "ci_ast sample_input = Some [sample_block HEADING ''h'' 0, sample_block PARAGRAPH '' it-s x'' 3]" by (simp add: sample_input_def)
  from structured_children_located [OF sample_classes_ok this c] c show ?thesis by (auto simp: sample_block_def)
qed

end
