(* ===== verification/ModelRuns.thy ===== *)
theory ModelRuns
  imports JsonText Patterns
begin

text \<open>
  The ledger of model calls (\<open>workflow/model-run.service.ts\<close>): every attempt of a node is a row that is
  started once, with the next number of its node, and finished once.  The rows are a list in the
  order of their insertion; the two unique indexes of the table are checked by \<open>insert_run\<close>.
  The messages of the exceptions are left out, and so are the time stamps the database fills in by
  itself.  The update and the lookup of \<open>finishAttempt\<close> are two statements, taken as one step: a row
  that is not running never changes, and a row under a new identifier is not yet known to the caller.
\<close>

section \<open>Rows and inputs\<close>

datatype run_error = BadRequest | Conflict | DatabaseError

record ModelRun =
  mr_id :: jstr
  mr_workflow_job_id :: jstr
  mr_provider :: jstr
  mr_model :: jstr
  mr_attempt_number :: int
  mr_workflow_node :: jstr
  mr_attempt_kind :: jstr
  mr_generation_attempt :: int
  mr_network_attempt :: int
  mr_repair_attempt :: int
  mr_request_metadata :: jsval
  mr_prompt_sha256 :: "jstr option"
  mr_operation_key :: "jstr option"
  mr_request_fingerprint :: "jstr option"
  mr_usage :: jsval
  mr_cost_usd :: "jstr option"
  mr_status :: jstr
  mr_error_code :: "jstr option"
  mr_error_message :: "jstr option"
  mr_completed_at :: "nat option"
  mr_latency_ms :: "int option"

record CreateModelRunInput =
  cm_workflow_job_id :: jstr
  cm_provider :: jstr
  cm_model :: jstr
  cm_attempt_number :: jsval
  cm_workflow_node :: "jstr option"
  cm_attempt_kind :: "jstr option"
  cm_generation_attempt :: jsval
  cm_network_attempt :: jsval
  cm_repair_attempt :: jsval
  cm_request_metadata :: jsval
  cm_prompt_sha256 :: "jstr option"
  cm_usage :: jsval
  cm_cost_usd :: "jstr option"
  cm_status :: jstr
  cm_error_code :: "jstr option"
  cm_error_message :: "jstr option"
  cm_completed_at :: "nat option"
  cm_latency_ms :: jsval
  cm_operation_key :: "jstr option"
  cm_request_fingerprint :: "jstr option"

record StartModelRunInput =
  sm_workflow_job_id :: jstr
  sm_provider :: jstr
  sm_model :: jstr
  sm_workflow_node :: jstr
  sm_attempt_kind :: jstr
  sm_generation_attempt :: jsval
  sm_network_attempt :: jsval
  sm_repair_attempt :: jsval
  sm_request_metadata :: jsval
  sm_prompt_sha256 :: "jstr option"
  sm_operation_key :: "jstr option"
  sm_request_fingerprint :: "jstr option"

datatype finish_status = SUCCEEDED_RUN | FAILED_RUN | CANCELLED_RUN

fun finish_text :: "finish_status \<Rightarrow> string" where
  "finish_text SUCCEEDED_RUN = ''SUCCEEDED''"
| "finish_text FAILED_RUN = ''FAILED''"
| "finish_text CANCELLED_RUN = ''CANCELLED''"

record FinishModelRunInput =
  fm_status :: finish_status
  fm_usage :: jsval
  fm_cost_usd :: "jstr option"
  fm_error_code :: "jstr option"
  fm_error_message :: "jstr option"
  fm_latency_ms :: jsval
  fm_completed_at :: nat

record run_store =
  rs_jobs :: "jstr list"
  rs_runs :: "ModelRun list"

type_synonym 'a ledger_tx = "(run_store, run_error, 'a) tx"

section \<open>Checks of the fields\<close>

definition METADATA_KEYS :: "string list" where
  "METADATA_KEYS =
     [''temperature'', ''top_p'', ''max_output_tokens'', ''timeout_ms'', ''response_schema_id'', ''response_schema_version'',
      ''response_schema_sha256'', ''trace_id'', ''retry_attempt'', ''repair_attempt'', ''attempt_kind'', ''generation_attempt'',
      ''workflow_node'', ''structured_output'', ''response_mode'', ''tags'']"

definition SENSITIVE_METADATA_KEY_PARTS :: "string list" where
  "SENSITIVE_METADATA_KEY_PARTS =
     [''prompt'', ''prompts'', ''message'', ''messages'', ''content'', ''contents'', ''instruction'', ''instructions'', ''system'',
      ''user'', ''assistant'', ''raw'', ''input'', ''output'', ''body'', ''text'']"

definition USAGE_KEYS :: "string list" where
  "USAGE_KEYS =
     [''input_tokens'', ''output_tokens'', ''total_tokens'', ''cached_input_tokens'', ''cache_creation_input_tokens'',
      ''reasoning_tokens'']"

definition MAX_METADATA_BYTES :: nat where "MAX_METADATA_BYTES = 4096"
definition MAX_METADATA_DEPTH :: nat where "MAX_METADATA_DEPTH = 4"
definition MAX_TAG_COUNT :: nat where "MAX_TAG_COUNT = 16"
definition MAX_TAG_BYTES :: nat where "MAX_TAG_BYTES = 64"

definition identifier_char :: "nat \<Rightarrow> bool" where
  "identifier_char c \<longleftrightarrow> ascii_alnum c \<or> c \<in> {46, 95, 58, 47, 45}"

text \<open>\<open>/^[A-Za-z0-9][A-Za-z0-9._:/-]*$/\<close>, for tags and identifiers alike.\<close>

definition safe_identifier :: "jstr \<Rightarrow> bool" where
  "safe_identifier s \<longleftrightarrow> s \<noteq> [] \<and> ascii_alnum (hd s) \<and> list_all identifier_char (tl s)"

definition bounded_identifier :: "nat \<Rightarrow> jsval \<Rightarrow> bool" where
  "bounded_identifier maxBytes v \<longleftrightarrow>
     (case v of JStr s \<Rightarrow> utf8_length s \<noteq> 0 \<and> utf8_length s \<le> maxBytes \<and> safe_identifier s | _ \<Rightarrow> False)"

definition assertOptionalIdentifier :: "jsval \<Rightarrow> nat \<Rightarrow> bool" where
  "assertOptionalIdentifier v maxBytes \<longleftrightarrow> v = JUndef \<or> bounded_identifier maxBytes v"

fun number_in_range :: "rat \<Rightarrow> rat \<Rightarrow> jsval \<Rightarrow> bool" where
  "number_in_range lo hi (JNum (NInt i)) = (lo \<le> of_int i \<and> of_int i \<le> hi)"
| "number_in_range lo hi (JNum (NFrac q)) = (lo \<le> q \<and> q \<le> hi)"
| "number_in_range lo hi (JNum NNegZero) = (lo \<le> 0 \<and> 0 \<le> hi)"
| "number_in_range lo hi _ = False"

definition assertFiniteRange :: "jsval \<Rightarrow> rat \<Rightarrow> rat \<Rightarrow> bool" where
  "assertFiniteRange v lo hi \<longleftrightarrow> v = JUndef \<or> number_in_range lo hi v"

definition integer_from :: "int \<Rightarrow> jsval \<Rightarrow> bool" where
  "integer_from lo v \<longleftrightarrow> is_safe_integer v \<and> lo \<le> int_of_number v"

definition assertPositiveInteger :: "jsval \<Rightarrow> bool" where
  "assertPositiveInteger v \<longleftrightarrow> v = JUndef \<or> integer_from 1 v"

definition assertNonNegativeInteger :: "jsval \<Rightarrow> bool \<Rightarrow> bool" where
  "assertNonNegativeInteger v required \<longleftrightarrow> (if v = JUndef then \<not> required else integer_from 0 v)"

text \<open>
  The words of a key: an underscore goes between a lower-case letter or a digit and an upper-case letter, the rest is
  lowered and cut at what is neither letter nor digit.  Outside ASCII only two characters lower to an ASCII letter.
\<close>

fun split_camel :: "jstr \<Rightarrow> jstr" where
  "split_camel (c # d # s) =
     (if (ascii_lower c \<or> is_digit c) \<and> ascii_upper d then c # 95 # split_camel (d # s) else c # split_camel (d # s))"
| "split_camel s = s"

definition lower_unit :: "nat \<Rightarrow> jstr" where
  "lower_unit c =
     (if ascii_upper c then [c + 32] else if c = 0x212A then [107] else if c = 0x130 then [105, 0x307] else [c])"

fun words_of :: "jstr \<Rightarrow> jstr \<Rightarrow> jstr list" where
  "words_of word [] = (if word = [] then [] else [rev word])"
| "words_of word (c # s) =
     (if ascii_lower c \<or> is_digit c then words_of (c # word) s
      else if word = [] then words_of [] s else rev word # words_of [] s)"

definition isSensitiveMetadataKey :: "jstr \<Rightarrow> bool" where
  "isSensitiveMetadataKey key \<longleftrightarrow>
     list_ex (\<lambda>part. part \<in> set (map js SENSITIVE_METADATA_KEY_PARTS))
       (words_of [] (concat (map lower_unit (split_camel key))))"

fun inspectMetadataTree :: "nat \<Rightarrow> bool \<Rightarrow> jsval \<Rightarrow> bool" where
  "inspectMetadataTree depth isRoot (JArr vs) =
     (depth \<le> MAX_METADATA_DEPTH \<and> list_all (\<lambda>ok. ok) (map (inspectMetadataTree (depth + 1) False) vs))"
| "inspectMetadataTree depth isRoot (JObj kvs) =
     (depth \<le> MAX_METADATA_DEPTH \<and>
      list_all (\<lambda>ok. ok) (map (\<lambda>kv. ((isRoot \<and> fst kv \<in> set (map js METADATA_KEYS)) \<or> \<not> isSensitiveMetadataKey (fst kv)) \<and>
        inspectMetadataTree (depth + 1) False (snd kv)) kvs))"
| "inspectMetadataTree depth isRoot (JNum n) = (depth \<le> MAX_METADATA_DEPTH \<and> is_finite_number n)"
| "inspectMetadataTree depth isRoot JOther = False"
| "inspectMetadataTree depth isRoot _ = (depth \<le> MAX_METADATA_DEPTH)"

definition validateAttemptKind :: "jsval \<Rightarrow> bool" where
  "validateAttemptKind v \<longleftrightarrow> v \<in> (\<lambda>s. JStr (js s)) ` {''initial'', ''network_retry'', ''repair'', ''legacy''}"

fun tags_ok :: "jsval list \<Rightarrow> bool" where
  "tags_ok [] = True"
| "tags_ok (t # ts) = (bounded_identifier MAX_TAG_BYTES t \<and> t \<notin> set ts \<and> tags_ok ts)"

definition metadata_fields_ok :: "(jstr \<times> jsval) list \<Rightarrow> bool" where
  "metadata_fields_ok kvs \<longleftrightarrow>
     assertFiniteRange (get_prop kvs (js ''temperature'')) 0 2 \<and> assertFiniteRange (get_prop kvs (js ''top_p'')) 0 1 \<and>
     assertPositiveInteger (get_prop kvs (js ''max_output_tokens'')) \<and> assertPositiveInteger (get_prop kvs (js ''timeout_ms'')) \<and>
     assertNonNegativeInteger (get_prop kvs (js ''retry_attempt'')) False \<and>
     assertNonNegativeInteger (get_prop kvs (js ''repair_attempt'')) False \<and>
     assertNonNegativeInteger (get_prop kvs (js ''generation_attempt'')) False \<and>
     assertOptionalIdentifier (get_prop kvs (js ''response_schema_id'')) 100 \<and>
     assertOptionalIdentifier (get_prop kvs (js ''response_schema_version'')) 100 \<and>
     (case get_prop kvs (js ''response_schema_sha256'') of JUndef \<Rightarrow> True | JStr s \<Rightarrow> is_sha256 s | _ \<Rightarrow> False) \<and>
     assertOptionalIdentifier (get_prop kvs (js ''trace_id'')) 128 \<and>
     assertOptionalIdentifier (get_prop kvs (js ''workflow_node'')) 100 \<and>
     (get_prop kvs (js ''attempt_kind'') = JUndef \<or> validateAttemptKind (get_prop kvs (js ''attempt_kind''))) \<and>
     (case get_prop kvs (js ''structured_output'') of JUndef \<Rightarrow> True | JBool b \<Rightarrow> True | _ \<Rightarrow> False) \<and>
     (get_prop kvs (js ''response_mode'') = JUndef \<or>
      get_prop kvs (js ''response_mode'') \<in> (\<lambda>s. JStr (js s)) ` {''text'', ''structured'', ''tool''}) \<and>
     (case get_prop kvs (js ''tags'') of JUndef \<Rightarrow> True | JArr ts \<Rightarrow> length ts \<le> MAX_TAG_COUNT \<and> tags_ok ts | _ \<Rightarrow> False)"

definition metadata_ok :: "platform \<Rightarrow> jsval \<Rightarrow> bool" where
  "metadata_ok P v \<longleftrightarrow>
     (case v of
        JNull \<Rightarrow> True
      | JObj kvs \<Rightarrow>
          inspectMetadataTree 0 True v \<and>
          (case json_stringify P v of None \<Rightarrow> False | Some s \<Rightarrow> utf8_length s \<le> MAX_METADATA_BYTES) \<and>
          fst ` set kvs \<subseteq> js ` set METADATA_KEYS \<and> metadata_fields_ok kvs
      | _ \<Rightarrow> False)"

definition validateRequestMetadata :: "platform \<Rightarrow> jsval \<Rightarrow> (run_error, jsval) result" where
  "validateRequestMetadata P v = (if metadata_ok P v then Inr v else Inl BadRequest)"

definition usage_ok :: "jsval \<Rightarrow> bool" where
  "usage_ok v \<longleftrightarrow>
     (case v of
        JNull \<Rightarrow> True
      | JObj kvs \<Rightarrow>
          let inputTokens = get_prop kvs (js ''input_tokens''); outputTokens = get_prop kvs (js ''output_tokens'');
              totalTokens = get_prop kvs (js ''total_tokens''); cached = get_prop kvs (js ''cached_input_tokens'');
              calculatedTotal = int_of_number inputTokens + int_of_number outputTokens
          in fst ` set kvs \<subseteq> js ` set USAGE_KEYS \<and>
             assertNonNegativeInteger inputTokens True \<and> assertNonNegativeInteger outputTokens True \<and>
             assertNonNegativeInteger totalTokens True \<and> assertNonNegativeInteger cached False \<and>
             assertNonNegativeInteger (get_prop kvs (js ''cache_creation_input_tokens'')) False \<and>
             assertNonNegativeInteger (get_prop kvs (js ''reasoning_tokens'')) False \<and>
             calculatedTotal \<le> MAX_SAFE_INTEGER \<and> int_of_number totalTokens = calculatedTotal \<and>
             int_of_number cached \<le> int_of_number inputTokens
      | _ \<Rightarrow> False)"

definition validateUsage :: "jsval \<Rightarrow> (run_error, jsval) result" where
  "validateUsage v = (if usage_ok v then Inr v else Inl BadRequest)"

definition validateOperationKey :: "jstr option \<Rightarrow> (run_error, jstr option) result" where
  "validateOperationKey v = (case v of None \<Rightarrow> Inr None | Some s \<Rightarrow> if is_sha256 s then Inr (Some s) else Inl BadRequest)"

text \<open>The hash may come in capitals and is stored in lower case.\<close>

definition validatePromptHash :: "jstr option \<Rightarrow> (run_error, jstr option) result" where
  "validatePromptHash v =
     (case v of
        None \<Rightarrow> Inr None
      | Some s \<Rightarrow>
          if length s = 64 \<and> list_all (\<lambda>c. lower_hex c \<or> (65 \<le> c \<and> c \<le> 70)) s
          then Inr (Some (map (\<lambda>c. if ascii_upper c then c + 32 else c) s)) else Inl BadRequest)"

text \<open>\<open>/^(?:0|[1-9]\d{0,5})(?:\.\d{1,6})?$/\<close>: at most six digits before and after the point.\<close>

definition is_cost :: "jstr \<Rightarrow> bool" where
  "is_cost s \<longleftrightarrow>
     (let whole = takeWhile is_digit s; rest = dropWhile is_digit s
      in (whole = [48] \<or> (whole \<noteq> [] \<and> hd whole \<noteq> 48 \<and> length whole \<le> 6)) \<and>
         (rest = [] \<or> (hd rest = 46 \<and> tl rest \<noteq> [] \<and> length (tl rest) \<le> 6 \<and> list_all is_digit (tl rest))))"

definition validateCost :: "jstr option \<Rightarrow> (run_error, jstr option) result" where
  "validateCost v = (case v of None \<Rightarrow> Inr None | Some s \<Rightarrow> if is_cost s then Inr (Some s) else Inl BadRequest)"

definition validateAttempt :: "jsval \<Rightarrow> (run_error, int) result" where
  "validateAttempt v = (if integer_from 1 v then Inr (int_of_number v) else Inl BadRequest)"

definition validateNonNegativeAttempt :: "jsval \<Rightarrow> (run_error, int) result" where
  "validateNonNegativeAttempt v = (if integer_from 0 v then Inr (int_of_number v) else Inl BadRequest)"

definition validateWorkflowNode :: "jstr \<Rightarrow> (run_error, jstr) result" where
  "validateWorkflowNode s =
     (if s \<noteq> [] \<and> length s \<le> 100 \<and> list_all identifier_char s then Inr s else Inl BadRequest)"

definition validateLatency :: "jsval \<Rightarrow> (run_error, int option) result" where
  "validateLatency v =
     (if v = JNull then Inr None
      else if integer_from 0 v \<and> int_of_number v \<le> 0xFFFFFFFF then Inr (Some (int_of_number v)) else Inl BadRequest)"

definition checked_kind :: "jstr \<Rightarrow> (run_error, jstr) result" where
  "checked_kind s = (if validateAttemptKind (JStr s) then Inr s else Inl BadRequest)"

section \<open>The table\<close>

text \<open>A column of type \<open>DECIMAL(12, 6)\<close> gives its value back with six digits after the point.\<close>

definition decimal_column :: "jstr \<Rightarrow> jstr" where
  "decimal_column s =
     (let whole = takeWhile is_digit s; fraction = drop 1 (dropWhile is_digit s)
      in whole @ 46 # fraction @ replicate (6 - length fraction) 48)"

text \<open>
  The columns compare without regard to case (\<open>utf8mb4_0900_ai_ci\<close>); identifiers, keys, nodes and
  states are ASCII.
\<close>

definition collated :: "jstr \<Rightarrow> jstr" where
  "collated s = map (\<lambda>c. if ascii_upper c then c + 32 else c) s"

definition same_text :: "jstr \<Rightarrow> jstr \<Rightarrow> bool" where
  "same_text a b \<longleftrightarrow> collated a = collated b"

definition characters :: "jstr \<Rightarrow> nat" where
  "characters s = length (filter (\<lambda>c. \<not> (0xDC00 \<le> c \<and> c \<le> 0xDFFF)) s)"

definition fits_text :: "nat \<Rightarrow> jstr option \<Rightarrow> bool" where
  "fits_text n v \<longleftrightarrow> (case v of None \<Rightarrow> True | Some s \<Rightarrow> characters s \<le> n)"

definition fits_unsigned :: "int \<Rightarrow> bool" where
  "fits_unsigned i \<longleftrightarrow> 0 \<le> i \<and> i \<le> 0xFFFFFFFF"

definition fits_error :: "jstr option \<Rightarrow> jstr option \<Rightarrow> bool" where
  "fits_error code message \<longleftrightarrow>
     fits_text 100 code \<and> (case message of None \<Rightarrow> True | Some s \<Rightarrow> utf8_length s \<le> 65535)"

definition columns_fit :: "ModelRun \<Rightarrow> bool" where
  "columns_fit r \<longleftrightarrow>
     characters (mr_workflow_job_id r) \<le> 36 \<and> characters (mr_provider r) \<le> 50 \<and> characters (mr_model r) \<le> 100 \<and>
     fits_unsigned (mr_attempt_number r) \<and> fits_unsigned (mr_generation_attempt r) \<and>
     fits_unsigned (mr_network_attempt r) \<and> fits_unsigned (mr_repair_attempt r) \<and>
     characters (mr_status r) \<le> 20 \<and> fits_error (mr_error_code r) (mr_error_message r)"

text \<open>The primary key and the two unique indexes.\<close>

definition clash :: "ModelRun \<Rightarrow> ModelRun \<Rightarrow> bool" where
  "clash a b \<longleftrightarrow>
     same_text (mr_id a) (mr_id b) \<or>
     (same_text (mr_workflow_job_id a) (mr_workflow_job_id b) \<and> same_text (mr_workflow_node a) (mr_workflow_node b) \<and>
      mr_attempt_number a = mr_attempt_number b) \<or>
     (case (mr_operation_key a, mr_operation_key b) of (Some k, Some l) \<Rightarrow> same_text k l | _ \<Rightarrow> False)"

definition job_known :: "run_store \<Rightarrow> jstr \<Rightarrow> bool" where
  "job_known st job \<longleftrightarrow> length (filter (same_text job) (rs_jobs st)) = 1"

definition insert_run :: "ModelRun \<Rightarrow> ModelRun ledger_tx" where
  "insert_run r st =
     (if \<not> columns_fit r \<or> \<not> job_known st (mr_workflow_job_id r) \<or> list_ex (clash r) (rs_runs st) then (Inl DatabaseError, st)
      else (Inr r, st\<lparr>rs_runs := rs_runs st @ [r]\<rparr>))"

definition node_runs :: "run_store \<Rightarrow> jstr \<Rightarrow> jstr \<Rightarrow> ModelRun list" where
  "node_runs st job node =
     filter (\<lambda>r. same_text (mr_workflow_job_id r) job \<and> same_text (mr_workflow_node r) node) (rs_runs st)"

text \<open>\<open>COALESCE(MAX(attempt_number), 0) + 1\<close>\<close>

definition next_attempt :: "run_store \<Rightarrow> jstr \<Rightarrow> jstr \<Rightarrow> int" where
  "next_attempt st job node = fold max (map mr_attempt_number (node_runs st job node)) 0 + 1"

section \<open>Operations\<close>

text \<open>\<open>v ?? d\<close>\<close>

definition or_default :: "jsval \<Rightarrow> jsval \<Rightarrow> jsval" where
  "or_default v d = (if v = JUndef \<or> v = JNull then d else v)"

definition text_or :: "jstr option \<Rightarrow> string \<Rightarrow> jstr" where
  "text_or v d = (case v of None \<Rightarrow> js d | Some s \<Rightarrow> s)"

definition create_run :: "platform \<Rightarrow> jstr \<Rightarrow> CreateModelRunInput \<Rightarrow> ModelRun ledger_tx" where
  "create_run P ident input =
     bindT (liftE (validateRequestMetadata P (cm_request_metadata input))) (\<lambda>metadata.
     bindT (liftE (validateUsage (cm_usage input))) (\<lambda>usage.
     bindT (liftE (validatePromptHash (cm_prompt_sha256 input))) (\<lambda>prompt.
     bindT (liftE (validateCost (cm_cost_usd input))) (\<lambda>cost.
     bindT (liftE (validateAttempt (or_default (cm_attempt_number input) (JNum (NInt 1))))) (\<lambda>attempt.
     bindT (liftE (validateWorkflowNode (text_or (cm_workflow_node input) ''legacy''))) (\<lambda>node.
     bindT (liftE (checked_kind (text_or (cm_attempt_kind input) ''legacy''))) (\<lambda>kind.
     bindT (liftE (validateAttempt (or_default (cm_generation_attempt input) (JNum (NInt 1))))) (\<lambda>generation.
     bindT (liftE (validateNonNegativeAttempt (or_default (cm_network_attempt input) (JNum (NInt 0))))) (\<lambda>network.
     bindT (liftE (validateNonNegativeAttempt (or_default (cm_repair_attempt input) (JNum (NInt 0))))) (\<lambda>repair.
     bindT (liftE (validateLatency (or_default (cm_latency_ms input) JNull))) (\<lambda>latency.
     bindT (liftE (validateOperationKey (cm_operation_key input))) (\<lambda>operation.
     bindT (liftE (validateOperationKey (cm_request_fingerprint input))) (\<lambda>fingerprint.
     insert_run
       \<lparr>mr_id = ident, mr_workflow_job_id = cm_workflow_job_id input, mr_provider = cm_provider input, mr_model = cm_model input,
        mr_attempt_number = attempt, mr_workflow_node = node, mr_attempt_kind = kind, mr_generation_attempt = generation,
        mr_network_attempt = network, mr_repair_attempt = repair, mr_request_metadata = metadata, mr_prompt_sha256 = prompt,
        mr_operation_key = operation, mr_request_fingerprint = fingerprint, mr_usage = usage,
        mr_cost_usd = map_option decimal_column cost, mr_status = cm_status input, mr_error_code = cm_error_code input,
        mr_error_message = cm_error_message input, mr_completed_at = cm_completed_at input, mr_latency_ms = latency\<rparr>
     )))))))))))))"

text \<open>The row of a started attempt; \<open>ident\<close> is the identifier the database made.\<close>

definition started_run ::
    "jstr \<Rightarrow> StartModelRunInput \<Rightarrow> jstr \<Rightarrow> jstr \<Rightarrow> int \<Rightarrow> int \<Rightarrow> int \<Rightarrow> jsval \<Rightarrow> jstr option \<Rightarrow> jstr option \<Rightarrow> jstr option \<Rightarrow> int \<Rightarrow> ModelRun" where
  "started_run ident input node kind generation network repair metadata prompt operation fingerprint attempt =
     \<lparr>mr_id = ident, mr_workflow_job_id = sm_workflow_job_id input, mr_provider = sm_provider input, mr_model = sm_model input,
      mr_attempt_number = attempt, mr_workflow_node = node, mr_attempt_kind = kind, mr_generation_attempt = generation,
      mr_network_attempt = network, mr_repair_attempt = repair, mr_request_metadata = metadata, mr_prompt_sha256 = prompt,
      mr_operation_key = operation, mr_request_fingerprint = fingerprint, mr_usage = JNull, mr_cost_usd = None,
      mr_status = js ''RUNNING'', mr_error_code = None, mr_error_message = None, mr_completed_at = None, mr_latency_ms = None\<rparr>"

definition startAttempt :: "platform \<Rightarrow> jstr \<Rightarrow> StartModelRunInput \<Rightarrow> ModelRun ledger_tx" where
  "startAttempt P ident input =
     bindT (liftE (validateWorkflowNode (sm_workflow_node input))) (\<lambda>node.
     bindT (liftE (checked_kind (sm_attempt_kind input))) (\<lambda>kind.
     bindT (liftE (validateAttempt (sm_generation_attempt input))) (\<lambda>generation.
     bindT (liftE (validateNonNegativeAttempt (sm_network_attempt input))) (\<lambda>network.
     bindT (liftE (validateNonNegativeAttempt (sm_repair_attempt input))) (\<lambda>repair.
     bindT (liftE (validateRequestMetadata P (sm_request_metadata input))) (\<lambda>metadata.
     bindT (liftE (validatePromptHash (sm_prompt_sha256 input))) (\<lambda>prompt.
     bindT (liftE (validateOperationKey (sm_operation_key input))) (\<lambda>operation.
     bindT (liftE (validateOperationKey (sm_request_fingerprint input))) (\<lambda>fingerprint.
     transaction
       (bindT (readT (\<lambda>st. job_known st (sm_workflow_job_id input))) (\<lambda>known.
        if \<not> known then throwT BadRequest
        else
        bindT (readT (\<lambda>st. next_attempt st (sm_workflow_job_id input) node)) (\<lambda>raw.
        bindT (liftE (validateAttempt (JNum (NInt raw)))) (\<lambda>attempt.
        insert_run (started_run ident input node kind generation network repair metadata prompt operation fingerprint attempt)))))
     )))))))))"

text \<open>\<open>where: { id, status: 'RUNNING' }\<close>\<close>

definition running_run :: "jstr \<Rightarrow> ModelRun \<Rightarrow> bool" where
  "running_run ident r \<longleftrightarrow> same_text (mr_id r) ident \<and> same_text (mr_status r) (js ''RUNNING'')"

definition finished_row :: "FinishModelRunInput \<Rightarrow> jsval \<Rightarrow> jstr option \<Rightarrow> int option \<Rightarrow> ModelRun \<Rightarrow> ModelRun" where
  "finished_row input usage cost latency r =
     r\<lparr>mr_status := js (finish_text (fm_status input)), mr_usage := usage, mr_cost_usd := map_option decimal_column cost,
       mr_error_code := fm_error_code input, mr_error_message := fm_error_message input, mr_latency_ms := latency,
       mr_completed_at := Some (fm_completed_at input)\<rparr>"

text \<open>\<open>===\<close> on the fields of a usage, which are numbers or absent.\<close>

definition same_field :: "jsval \<Rightarrow> jsval \<Rightarrow> bool" where
  "same_field a b \<longleftrightarrow>
     a = b \<or> (is_safe_integer a \<and> is_safe_integer b \<and> int_of_number a = int_of_number b)"

definition isEqualUsage :: "jsval \<Rightarrow> jsval \<Rightarrow> bool" where
  "isEqualUsage left right \<longleftrightarrow>
     (case (left, right) of
        (JObj kvs, JObj lvs) \<Rightarrow> list_all (\<lambda>k. same_field (get_prop kvs (js k)) (get_prop lvs (js k))) USAGE_KEYS
      | _ \<Rightarrow> left = right)"

definition isIdenticalTerminal :: "ModelRun \<Rightarrow> FinishModelRunInput \<Rightarrow> jsval \<Rightarrow> jstr option \<Rightarrow> int option \<Rightarrow> bool" where
  "isIdenticalTerminal existing input usage cost latency \<longleftrightarrow>
     mr_status existing = js (finish_text (fm_status input)) \<and> isEqualUsage (mr_usage existing) usage \<and>
     mr_cost_usd existing = cost \<and> mr_error_code existing = fm_error_code input \<and>
     mr_error_message existing = fm_error_message input \<and> mr_latency_ms existing = latency"

definition finishAttempt :: "jstr \<Rightarrow> FinishModelRunInput \<Rightarrow> unit ledger_tx" where
  "finishAttempt ident input =
     bindT (liftE (validateUsage (fm_usage input))) (\<lambda>usage.
     bindT (liftE (validateCost (fm_cost_usd input))) (\<lambda>cost.
     bindT (liftE (validateLatency (fm_latency_ms input))) (\<lambda>latency.
     bindT (readT (\<lambda>st. list_ex (running_run ident) (rs_runs st))) (\<lambda>running.
     if running
     then
       if fits_error (fm_error_code input) (fm_error_message input)
       then writeT (\<lambda>st. st\<lparr>rs_runs :=
              map (\<lambda>r. if running_run ident r then finished_row input usage cost latency r else r) (rs_runs st)\<rparr>)
       else throwT DatabaseError
     else
       bindT (readT (\<lambda>st. find (\<lambda>r. same_text (mr_id r) ident) (rs_runs st))) (\<lambda>existing.
       case existing of
         None \<Rightarrow> throwT BadRequest
       | Some r \<Rightarrow> if isIdenticalTerminal r input usage cost latency then returnT () else throwT Conflict)))))"

record ModelOperationMatchIdentity =
  mi_request_fingerprint :: jstr
  mi_prompt_sha256 :: jstr
  mi_provider :: jstr
  mi_model :: jstr
  mi_schema_id :: "jstr option"
  mi_schema_version :: "jstr option"
  mi_schema_sha256 :: "jstr option"

datatype operation_state = ABSENT | RECORDED | MISMATCH

text \<open>\<open>metadata?.key ?? null\<close> of a field that is a string or absent.\<close>

definition metadata_text :: "jsval \<Rightarrow> string \<Rightarrow> jstr option" where
  "metadata_text v key = (case v of JObj kvs \<Rightarrow> as_string (get_prop kvs (js key)) | _ \<Rightarrow> None)"

definition same_operation :: "ModelRun \<Rightarrow> ModelOperationMatchIdentity \<Rightarrow> bool" where
  "same_operation r e \<longleftrightarrow>
     mr_request_fingerprint r = Some (mi_request_fingerprint e) \<and> mr_prompt_sha256 r = Some (mi_prompt_sha256 e) \<and>
     mr_provider r = mi_provider e \<and> mr_model r = mi_model e \<and>
     metadata_text (mr_request_metadata r) ''response_schema_id'' = mi_schema_id e \<and>
     metadata_text (mr_request_metadata r) ''response_schema_version'' = mi_schema_version e \<and>
     metadata_text (mr_request_metadata r) ''response_schema_sha256'' = mi_schema_sha256 e"

definition findOperationState ::
    "jstr \<Rightarrow> jstr \<Rightarrow> ModelOperationMatchIdentity option \<Rightarrow> operation_state ledger_tx" where
  "findOperationState job key expected =
     bindT (liftE (validateOperationKey (Some key))) (\<lambda>validated.
     bindT (readT (\<lambda>st. find (\<lambda>r. same_text (mr_workflow_job_id r) job \<and>
       (case (mr_operation_key r, validated) of (Some k, Some l) \<Rightarrow> same_text k l | _ \<Rightarrow> False)) (rs_runs st))) (\<lambda>existing.
     returnT
       (case existing of
          None \<Rightarrow> ABSENT
        | Some r \<Rightarrow> (case expected of None \<Rightarrow> RECORDED | Some e \<Rightarrow> if same_operation r e then RECORDED else MISMATCH))))"

section \<open>Histories of the ledger\<close>

text \<open>
  A job is added, an attempt is started and one is finished; a call that throws is a step too.
  Nothing in the program calls \<open>create\<close>, which takes the number of the attempt from its caller.
\<close>

inductive ledger_step :: "platform \<Rightarrow> run_store \<Rightarrow> run_store \<Rightarrow> bool" for P where
  job_added: "ledger_step P st (st\<lparr>rs_jobs := rs_jobs st @ [job]\<rparr>)"
| attempt_started: "startAttempt P ident input st = (res, st') \<Longrightarrow> ledger_step P st st'"
| attempt_finished: "finishAttempt ident finish st = (res, st') \<Longrightarrow> ledger_step P st st'"

inductive_cases ledger_step_cases: "ledger_step P st st'"

definition empty_ledger :: run_store where
  "empty_ledger = \<lparr>rs_jobs = [], rs_runs = []\<rparr>"

definition ledger_reachable :: "platform \<Rightarrow> run_store \<Rightarrow> bool" where
  "ledger_reachable P st \<longleftrightarrow> (ledger_step P)\<^sup>*\<^sup>* empty_ledger st"

end
