(* ===== verification/ModelRunProps.thy ===== *)
theory ModelRunProps
  imports ModelRuns
begin

text \<open>
  What the ledger of model calls keeps: the attempts of a node are numbered from 1 without a gap, a
  finished attempt never changes and its own finish may be repeated, an operation key is recorded
  once, and the stored metadata holds no text but short identifiers.
\<close>

section \<open>The checks\<close>

lemma same_text_simps: "same_text a a" "same_text a b = same_text b a"
  by (auto simp: same_text_def)

lemma same_text_trans: "same_text a b \<Longrightarrow> same_text a c = same_text b c" "same_text a b \<Longrightarrow> same_text c a = same_text c b"
  by (auto simp: same_text_def)

lemma checked_same:
  "validateWorkflowNode s = Inr x \<Longrightarrow> x = s"
  "checked_kind s = Inr x \<Longrightarrow> x = s"
  "validateOperationKey v = Inr y \<Longrightarrow> y = v \<and> (\<forall>k. v = Some k \<longrightarrow> is_sha256 k)"
  "validateRequestMetadata P m = Inr m' \<Longrightarrow> m' = m \<and> metadata_ok P m"
  "validateUsage m = Inr m' \<Longrightarrow> m' = m \<and> usage_ok m"
  "validateCost v = Inr y \<Longrightarrow> y = v"
  by (auto simp: validateWorkflowNode_def checked_kind_def validateOperationKey_def validateRequestMetadata_def
      validateUsage_def validateCost_def split: if_splits option.splits)

section \<open>Metadata\<close>

text \<open>A number, a boolean, a short identifier or a short list of them.\<close>

fun short_identifier :: "jsval \<Rightarrow> bool" where
  "short_identifier (JStr s) = (safe_identifier s \<and> length s \<le> 128)"
| "short_identifier _ = False"

fun flat_value :: "jsval \<Rightarrow> bool" where
  "flat_value JUndef = True"
| "flat_value (JBool b) = True"
| "flat_value (JNum n) = is_finite_number n"
| "flat_value (JArr vs) = (length vs \<le> MAX_TAG_COUNT \<and> list_all short_identifier vs)"
| "flat_value v = short_identifier v"

definition flat_metadata :: "jsval \<Rightarrow> bool" where
  "flat_metadata v \<longleftrightarrow> v = JNull \<or> (\<exists>kvs. v = JObj kvs \<and> (\<forall>k. flat_value (get_prop kvs k)))"

lemma safe_identifier_ascii: "safe_identifier s \<Longrightarrow> c \<in> set s \<Longrightarrow> c < 128"
  by (cases s) (auto simp: safe_identifier_def identifier_char_def char_class_defs list_all_iff)

lemma bounded_identifier_short: "bounded_identifier n v \<Longrightarrow> n \<le> 128 \<Longrightarrow> short_identifier v"
proof (cases v)
  case (JStr s)
  assume "bounded_identifier n v" "n \<le> 128"
  with JStr have s: "safe_identifier s" "utf8_length s \<le> 128" by (auto simp: bounded_identifier_def)
  then have "utf16 s" using safe_identifier_ascii by (fastforce simp: utf16_def)
  with s JStr show ?thesis using utf8_length_bounds [of s] by auto
qed (auto simp: bounded_identifier_def)

lemma sha256_identifier: "is_sha256 s \<Longrightarrow> short_identifier (JStr s)"
  by (cases s) (auto simp: is_sha256_def safe_identifier_def identifier_char_def list_all_iff char_class_defs)

lemma tags_identifiers: "tags_ok ts \<Longrightarrow> list_all short_identifier ts"
  by (induction ts) (auto intro: bounded_identifier_short simp: MAX_TAG_BYTES_def)

lemma field_flat:
  "assertFiniteRange v lo hi \<Longrightarrow> flat_value v"
  "assertPositiveInteger v \<Longrightarrow> flat_value v"
  "assertNonNegativeInteger v False \<Longrightarrow> flat_value v"
  "assertOptionalIdentifier v n \<Longrightarrow> n \<le> 128 \<Longrightarrow> flat_value v"
  "v = JUndef \<or> validateAttemptKind v \<Longrightarrow> flat_value v"
  "v = JUndef \<or> v \<in> (\<lambda>s. JStr (js s)) ` {''text'', ''structured'', ''tool''} \<Longrightarrow> flat_value v"
  subgoal by (cases v; cases "case v of JNum n \<Rightarrow> n | _ \<Rightarrow> NNaN") (auto simp: assertFiniteRange_def)
  subgoal by (cases v rule: is_safe_integer.cases) (auto simp: assertPositiveInteger_def integer_from_def)
  subgoal by (cases v rule: is_safe_integer.cases) (auto simp: assertNonNegativeInteger_def integer_from_def)
  subgoal using bounded_identifier_short [of n v] by (cases v) (auto simp: assertOptionalIdentifier_def bounded_identifier_def)
  subgoal by (auto simp: validateAttemptKind_def safe_identifier_def identifier_char_def char_class_defs js_simps)
  subgoal by (auto simp: safe_identifier_def identifier_char_def char_class_defs js_simps)
  done

lemma metadata_flat:
  assumes "metadata_ok P v"
  shows "flat_metadata v"
proof (cases "v = JNull")
  case False
  with assms obtain kvs where v: "v = JObj kvs" by (cases v) (auto simp: metadata_ok_def)
  with assms have keys: "fst ` set kvs \<subseteq> js ` set METADATA_KEYS" and ok: "metadata_fields_ok kvs"
    by (auto simp: metadata_ok_def)
  note fields = ok [unfolded metadata_fields_ok_def]
  have "flat_value (get_prop kvs k)" for k
  proof (cases "k \<in> js ` set METADATA_KEYS")
    case False
    with keys have "map_of kvs k = None" by (auto simp: map_of_eq_None_iff)
    then show ?thesis by (simp add: get_prop_def)
  next
    case True
    have sha: "flat_value (get_prop kvs (js ''response_schema_sha256''))"
      using fields sha256_identifier by (auto split: jsval.splits)
    have tags: "flat_value (get_prop kvs (js ''tags''))" using fields tags_identifiers by (auto split: jsval.splits)
    have bool: "flat_value (get_prop kvs (js ''structured_output''))" using fields by (auto split: jsval.splits)
    from True consider (plain) "k \<in> js ` {''temperature'', ''top_p'', ''max_output_tokens'', ''timeout_ms'', ''retry_attempt'',
        ''repair_attempt'', ''generation_attempt'', ''response_schema_id'', ''response_schema_version'', ''trace_id'',
        ''workflow_node'', ''attempt_kind'', ''response_mode''}"
      | (other) "k \<in> js ` {''response_schema_sha256'', ''tags'', ''structured_output''}"
      unfolding METADATA_KEYS_def by auto
    then show ?thesis
    proof cases
      case plain
      then show ?thesis using fields by (elim imageE insertE emptyE) (auto intro: field_flat)
    qed (use sha tags bool in auto)
  qed
  with v show ?thesis by (auto simp: flat_metadata_def)
qed (simp add: flat_metadata_def)

section \<open>Starting an attempt\<close>

definition row_started :: "platform \<Rightarrow> jstr \<Rightarrow> StartModelRunInput \<Rightarrow> run_store \<Rightarrow> ModelRun \<Rightarrow> bool" where
  "row_started P ident input st r \<longleftrightarrow>
     (\<exists>generation network repair prompt. r = started_run ident input (sm_workflow_node input) (sm_attempt_kind input) generation
        network repair (sm_request_metadata input) prompt (sm_operation_key input) (sm_request_fingerprint input)
        (next_attempt st (sm_workflow_job_id input) (sm_workflow_node input))) \<and>
     metadata_ok P (sm_request_metadata input) \<and> (\<forall>k. sm_operation_key input = Some k \<longrightarrow> is_sha256 k)"

lemma startAttempt_Inr:
  assumes "startAttempt P ident input st = (Inr r, st')"
  shows "row_started P ident input st r" and "\<forall>x \<in> set (rs_runs st). \<not> clash r x"
    and "st' = st\<lparr>rs_runs := rs_runs st @ [r]\<rparr>"
  using assms unfolding startAttempt_def row_started_def
  by (auto simp: bindT_liftE_Inr transaction_Inr_iff throwT_def insert_run_def validateAttempt_def list_ex_iff
      split: if_splits dest!: checked_same)

lemma startAttempt_Inl: "startAttempt P ident input st = (Inl e, st') \<Longrightarrow> st' = st"
  unfolding startAttempt_def
  by (auto simp: bindT_def liftE_def split: prod.splits sum.splits dest: transaction_Inl)

section \<open>Finishing an attempt\<close>

lemma finishAttempt_Inr:
  assumes "finishAttempt ident input st = (Inr u, st')"
  obtains latency where "validateUsage (fm_usage input) = Inr (fm_usage input)"
    and "validateCost (fm_cost_usd input) = Inr (fm_cost_usd input)" and "validateLatency (fm_latency_ms input) = Inr latency"
    and "if list_ex (running_run ident) (rs_runs st)
         then st' = st\<lparr>rs_runs := map (\<lambda>r. if running_run ident r
                then finished_row input (fm_usage input) (fm_cost_usd input) latency r else r) (rs_runs st)\<rparr>
         else st' = st \<and> (\<exists>r. find (\<lambda>r. same_text (mr_id r) ident) (rs_runs st) = Some r \<and>
                isIdenticalTerminal r input (fm_usage input) (fm_cost_usd input) latency)"
proof -
  from assms obtain usage cost latency where checks: "validateUsage (fm_usage input) = Inr usage"
      "validateCost (fm_cost_usd input) = Inr cost" "validateLatency (fm_latency_ms input) = Inr latency"
    unfolding finishAttempt_def by (auto simp: bindT_liftE_Inr)
  with checked_same(5) [OF checks(1)] checked_same(6) [OF checks(2)]
  have same: "usage = fm_usage input" "cost = fm_cost_usd input" by auto
  show thesis
    by (rule that [of latency])
      (use checks assms in \<open>auto simp: finishAttempt_def same throwT_def returnT_def writeT_def split: if_splits option.splits\<close>)
qed

lemma finishAttempt_Inl: "finishAttempt ident input st = (Inl e, st') \<Longrightarrow> st' = st"
  unfolding finishAttempt_def
  by (auto simp: bindT_def liftE_def readT_def writeT_def throwT_def returnT_def
      split: prod.splits sum.splits if_splits option.splits)


section \<open>How a row changes\<close>

definition evolves :: "ModelRun \<Rightarrow> ModelRun \<Rightarrow> bool" where
  "evolves r r' \<longleftrightarrow>
     r' = r \<or> (same_text (mr_status r) (js ''RUNNING'') \<and> (\<exists>input usage cost latency. r' = finished_row input usage cost latency r))"

definition extends_ledger :: "run_store \<Rightarrow> run_store \<Rightarrow> bool" where
  "extends_ledger st st' \<longleftrightarrow> (\<exists>rows later. rs_runs st' = rows @ later \<and> list_all2 evolves (rs_runs st) rows)"

lemma finished_row_fields [simp]:
  "mr_id (finished_row input usage cost latency r) = mr_id r"
  "mr_workflow_job_id (finished_row input usage cost latency r) = mr_workflow_job_id r"
  "mr_workflow_node (finished_row input usage cost latency r) = mr_workflow_node r"
  "mr_attempt_number (finished_row input usage cost latency r) = mr_attempt_number r"
  "mr_operation_key (finished_row input usage cost latency r) = mr_operation_key r"
  "mr_request_metadata (finished_row input usage cost latency r) = mr_request_metadata r"
  "mr_request_fingerprint (finished_row input usage cost latency r) = mr_request_fingerprint r"
  "mr_prompt_sha256 (finished_row input usage cost latency r) = mr_prompt_sha256 r"
  "mr_provider (finished_row input usage cost latency r) = mr_provider r"
  "mr_model (finished_row input usage cost latency r) = mr_model r"
  "mr_status (finished_row input usage cost latency r) = js (finish_text (fm_status input))"
  by (simp_all add: finished_row_def)

lemma finish_not_running [simp]: "\<not> same_text (js (finish_text s)) (js ''RUNNING'')"
  by (cases s) (simp_all add: same_text_def collated_def js_simps ascii_upper_def)

lemma evolves_same:
  assumes "evolves r r'"
  shows "mr_id r' = mr_id r" and "mr_workflow_job_id r' = mr_workflow_job_id r" and "mr_workflow_node r' = mr_workflow_node r"
    and "mr_attempt_number r' = mr_attempt_number r" and "mr_operation_key r' = mr_operation_key r"
    and "same_operation r' e = same_operation r e"
  using assms by (auto simp: evolves_def same_operation_def)

lemma evolves_refl [simp]: "evolves r r"
  by (simp add: evolves_def)

lemma evolves_trans: "evolves a b \<Longrightarrow> evolves b c \<Longrightarrow> evolves a c"
  by (auto simp: evolves_def)

lemma evolves_finished: "evolves a b \<Longrightarrow> \<not> same_text (mr_status a) (js ''RUNNING'') \<Longrightarrow> b = a"
  by (auto simp: evolves_def)

lemma clash_evolved: "evolves a a' \<Longrightarrow> evolves b b' \<Longrightarrow> clash a' b' = clash a b"
  by (simp add: clash_def evolves_same)

lemma extendsI: "list_all2 evolves (rs_runs st) rows \<Longrightarrow> rs_runs st' = rows @ later \<Longrightarrow> extends_ledger st st'"
  by (auto simp: extends_ledger_def)

lemma extends_by_rows [intro]: "rs_runs st' = rs_runs st @ later \<Longrightarrow> extends_ledger st st'"
  by (rule extendsI) (simp_all add: list.rel_refl)

lemma extends_trans:
  assumes "extends_ledger a b" and "extends_ledger b c"
  shows "extends_ledger a c"
proof -
  from assms obtain xs later ys new where b: "rs_runs b = xs @ later" and c: "rs_runs c = ys @ new"
      and ab: "list_all2 evolves (rs_runs a) xs" and bc: "list_all2 evolves (xs @ later) ys"
    by (auto simp: extends_ledger_def)
  from bc obtain us vs where ys: "ys = us @ vs" "list_all2 evolves xs us" by (auto simp: list_all2_append1)
  have "list_all2 evolves (rs_runs a) us" by (rule list_all2_trans [OF _ ab ys(2)]) (rule evolves_trans)
  then show ?thesis by (rule extendsI) (simp add: c ys(1))
qed

lemma finish_extends:
  assumes "finishAttempt ident input st = (res, st')"
  shows "rs_runs st' = rs_runs st \<or> (\<exists>latency. rs_runs st' = map (\<lambda>r. if running_run ident r
      then finished_row input (fm_usage input) (fm_cost_usd input) latency r else r) (rs_runs st))"
proof (cases res)
  case (Inl e)
  with assms show ?thesis using finishAttempt_Inl by blast
next
  case (Inr u)
  with assms show ?thesis by (auto elim!: finishAttempt_Inr split: if_splits)
qed

lemma finish_evolves: "evolves r (if running_run ident r then finished_row input usage cost latency r else r)"
  by (auto simp: evolves_def running_run_def)

lemma step_extends: "ledger_step P st st' \<Longrightarrow> extends_ledger st st'"
proof (induction rule: ledger_step.induct)
  case (attempt_started ident input st res st')
  then have "\<exists>later. rs_runs st' = rs_runs st @ later"
    by (cases res) (auto dest: startAttempt_Inl startAttempt_Inr(3))
  then show ?case by blast
next
  case (attempt_finished ident finish st res st')
  from finish_extends [OF this] show ?case
  proof (elim disjE exE)
    fix latency
    assume "rs_runs st' = map (\<lambda>r. if running_run ident r
      then finished_row finish (fm_usage finish) (fm_cost_usd finish) latency r else r) (rs_runs st)" (is "_ = ?rows")
    moreover have "list_all2 evolves (rs_runs st) ?rows"
      by (simp only: list.rel_map list_all2_same finish_evolves) simp
    ultimately show ?thesis by (intro extendsI [of _ ?rows _ "[]"]) simp_all
  qed (rule extends_by_rows [of _ _ "[]"], simp)
qed (rule extends_by_rows [of _ _ "[]"], simp)

lemma steps_extend: "(ledger_step P)\<^sup>*\<^sup>* st st' \<Longrightarrow> extends_ledger st st'"
proof (induction rule: rtranclp_induct)
  case base
  show ?case by (rule extends_by_rows [of _ _ "[]"]) simp
qed (blast intro: extends_trans step_extends)

lemma extends_row:
  assumes "extends_ledger st st'" and "r \<in> set (rs_runs st)"
  obtains r' where "r' \<in> set (rs_runs st')" and "evolves r r'"
proof -
  from assms(1) obtain rows later where st': "rs_runs st' = rows @ later" "list_all2 evolves (rs_runs st) rows"
    by (auto simp: extends_ledger_def)
  from assms(2) obtain i where "i < length (rs_runs st)" "r = rs_runs st ! i" by (auto simp: in_set_conv_nth)
  with st' show thesis by (intro that [of "rows ! i"]) (auto simp: list_all2_conv_all_nth)
qed

section \<open>The rows of a reachable ledger\<close>

definition row_ok :: "ModelRun \<Rightarrow> bool" where
  "row_ok r \<longleftrightarrow>
     flat_metadata (mr_request_metadata r) \<and>
     (if mr_status r = js ''RUNNING''
      then mr_usage r = JNull \<and> mr_cost_usd r = None \<and> mr_latency_ms r = None \<and> mr_completed_at r = None
      else mr_status r \<in> (\<lambda>s. js (finish_text s)) ` {SUCCEEDED_RUN, FAILED_RUN, CANCELLED_RUN} \<and> mr_completed_at r \<noteq> None)"

definition attempts_numbered :: "ModelRun list \<Rightarrow> bool" where
  "attempts_numbered rs \<longleftrightarrow> map mr_attempt_number rs = map int [1..<Suc (length rs)]"

definition ledger_ok :: "run_store \<Rightarrow> bool" where
  "ledger_ok st \<longleftrightarrow>
     sorted_wrt (\<lambda>a b. \<not> clash b a) (rs_runs st) \<and> (\<forall>job node. attempts_numbered (node_runs st job node)) \<and>
     list_all row_ok (rs_runs st)"

lemma clash_sym: "clash a b = clash b a"
  by (auto simp: clash_def same_text_simps(2) split: option.splits)

lemma finish_status [simp]: "finish_text s = ''RUNNING'' \<longleftrightarrow> False"
  by (cases s) simp_all

lemma row_ok_running: "row_ok r \<Longrightarrow> same_text (mr_status r) (js ''RUNNING'') \<longleftrightarrow> mr_status r = js ''RUNNING''"
  by (cases "mr_status r = js ''RUNNING''") (auto simp: row_ok_def same_text_def collated_def js_simps ascii_upper_def)

lemma finished_row_ok: "row_ok r \<Longrightarrow> row_ok (finished_row input usage cost latency r)"
  by (cases "fm_status input") (auto simp: row_ok_def finished_row_def)

lemma started_row_ok: "row_started P ident input st r \<Longrightarrow> row_ok r"
  by (auto simp: row_started_def row_ok_def started_run_def intro: metadata_flat)

lemma next_attempt_numbered:
  assumes "attempts_numbered (node_runs st job node)"
  shows "next_attempt st job node = int (length (node_runs st job node)) + 1"
proof -
  have "fold max (map int [1..<Suc n]) 0 = int n" for n by (induction n) auto
  with assms show ?thesis by (simp add: next_attempt_def attempts_numbered_def)
qed

lemma node_runs_started:
  assumes "row_started P ident input st r"
  shows "node_runs (st\<lparr>rs_runs := rs_runs st @ [r]\<rparr>) job node =
    node_runs st job node @ (if same_text (sm_workflow_job_id input) job \<and> same_text (sm_workflow_node input) node then [r] else [])"
  using assms by (auto simp: row_started_def node_runs_def started_run_def)

lemma node_runs_same_text: "same_text a job \<Longrightarrow> same_text b node \<Longrightarrow> node_runs st job node = node_runs st a b"
  by (auto simp: node_runs_def same_text_def)

lemma started_ledger_ok:
  assumes "ledger_ok st" and "startAttempt P ident input st = (Inr r, st')"
  shows "ledger_ok st'"
proof -
  note started = startAttempt_Inr [OF assms(2)]
  have "attempts_numbered (node_runs st' job node)" for job node
  proof (cases "same_text (sm_workflow_job_id input) job \<and> same_text (sm_workflow_node input) node")
    case True
    from assms(1) have numbered: "attempts_numbered (node_runs st job node)" by (simp add: ledger_ok_def)
    have "mr_attempt_number r = next_attempt st job node"
      using started(1) True by (auto simp: row_started_def started_run_def next_attempt_def node_runs_same_text)
    then show ?thesis
      using numbered True by (simp add: started(3) node_runs_started [OF started(1)] attempts_numbered_def next_attempt_numbered [OF numbered])
  qed (use assms(1) in \<open>auto simp: started(3) node_runs_started [OF started(1)] ledger_ok_def\<close>)
  then show ?thesis
    using assms(1) started started_row_ok [OF started(1)] by (auto simp: ledger_ok_def sorted_wrt_append)
qed

lemma finished_ledger_ok:
  assumes "ledger_ok st" and "finishAttempt ident input st = (res, st')"
  shows "ledger_ok st'"
  using finish_extends [OF assms(2)]
proof (elim disjE exE)
  assume "rs_runs st' = rs_runs st"
  with assms(1) show ?thesis by (simp add: ledger_ok_def node_runs_def)
next
  fix latency
  let ?f = "\<lambda>r. if running_run ident r then finished_row input (fm_usage input) (fm_cost_usd input) latency r else r"
  assume rows: "rs_runs st' = map ?f (rs_runs st)"
  have same: "clash (?f a) (?f b) = clash a b" "mr_attempt_number (?f a) = mr_attempt_number a" for a b
    by (rule clash_evolved [OF finish_evolves finish_evolves]) simp
  have "node_runs st' job node = map ?f (node_runs st job node)" for job node
    by (simp add: node_runs_def rows filter_map o_def if_distrib [of mr_workflow_job_id] if_distrib [of mr_workflow_node] cong: if_cong)
  with assms(1) show ?thesis
    by (auto simp: ledger_ok_def rows sorted_wrt_map same attempts_numbered_def list_all_iff o_def finished_row_ok cong: if_cong)
qed

lemma reachable_ledger_ok: "ledger_reachable P st \<Longrightarrow> ledger_ok st"
  unfolding ledger_reachable_def
proof (induction rule: rtranclp_induct)
  case (step st st')
  from step(2,3) show ?case
  proof (induction rule: ledger_step.induct)
    case (job_added st job)
    then show ?case by (simp add: ledger_ok_def node_runs_def)
  next
    case (attempt_started ident input st res st')
    then show ?case by (cases res) (auto dest: startAttempt_Inl intro: started_ledger_ok)
  qed (blast intro: finished_ledger_ok)
qed (simp add: ledger_ok_def empty_ledger_def node_runs_def attempts_numbered_def)

section \<open>What the ledger guarantees\<close>

lemma distinct_rows:
  assumes "ledger_ok st" and "a \<in> set (rs_runs st)" and "b \<in> set (rs_runs st)" and "clash a b"
  shows "a = b"
proof -
  from assms(2,3) obtain i j where i: "i < length (rs_runs st)" "a = rs_runs st ! i"
    and j: "j < length (rs_runs st)" "b = rs_runs st ! j" by (auto simp: in_set_conv_nth)
  have "\<not> clash (rs_runs st ! n) (rs_runs st ! m)" if "m < n" "n < length (rs_runs st)" for m n
    using assms(1) that by (auto simp: ledger_ok_def sorted_wrt_iff_nth_less)
  with i j assms(4) clash_sym show ?thesis by (metis linorder_neqE_nat)
qed

lemma same_id_clash: "same_text (mr_id a) i \<Longrightarrow> same_text (mr_id b) i \<Longrightarrow> clash a b"
  by (auto simp: clash_def same_text_def)

lemma find_by_id:
  assumes "ledger_ok st" and "r \<in> set (rs_runs st)" and "same_text (mr_id r) ident"
  shows "find (\<lambda>r. same_text (mr_id r) ident) (rs_runs st) = Some r"
proof -
  have "\<exists>x. find (\<lambda>r. same_text (mr_id r) ident) (rs_runs st) = Some x"
    using assms(2,3) by (cases "find (\<lambda>r. same_text (mr_id r) ident) (rs_runs st)") (auto simp: find_None_iff)
  then obtain x where x: "find (\<lambda>r. same_text (mr_id r) ident) (rs_runs st) = Some x" by blast
  then have "x \<in> set (rs_runs st)" "same_text (mr_id x) ident" by (auto simp: find_Some_iff)
  with distinct_rows [OF assms(1)] assms(2,3) same_id_clash x show ?thesis by metis
qed

lemma reachable_trans: "ledger_reachable P st \<Longrightarrow> (ledger_step P)\<^sup>*\<^sup>* st st' \<Longrightarrow> ledger_reachable P st'"
  by (simp add: ledger_reachable_def)

text \<open>
  The attempts of a node of a job are numbered from one, in the order of their starts and without
  a gap; no two rows share an identifier, a number of one node or an operation key; and a row holds
  no text of the conversation: its metadata is numbers, booleans and short identifiers, and it has
  usage, cost and latency only when it is finished.
\<close>

theorem ledger_wellformed:
  assumes "ledger_reachable P st"
  shows "map mr_attempt_number (node_runs st job node) = map int [1..<Suc (length (node_runs st job node))] \<and>
    sorted_wrt (\<lambda>a b. \<not> clash b a) (rs_runs st) \<and> list_all row_ok (rs_runs st)"
  using reachable_ledger_ok [OF assms] by (simp add: ledger_ok_def attempts_numbered_def)

text \<open>
  A finished attempt is final: a finish that returned leaves a row with its status, which no later
  call changes; a second finish of it changes nothing whatever it says, and is accepted only with the
  same status, errors and latency.
\<close>

theorem finish_is_final:
  assumes "ledger_reachable P st" and "finishAttempt ident input st = (Inr u, st1)" and "(ledger_step P)\<^sup>*\<^sup>* st1 st2"
  shows "\<exists>r. r \<in> set (rs_runs st2) \<and> same_text (mr_id r) ident \<and> mr_status r = js (finish_text (fm_status input)) \<and>
    mr_error_code r = fm_error_code input \<and> mr_error_message r = fm_error_message input \<and>
    (\<forall>input'. snd (finishAttempt ident input' st2) = st2 \<and>
      (fst (finishAttempt ident input' st2) = Inr () \<longrightarrow>
        fm_status input' = fm_status input \<and> fm_error_code input' = fm_error_code input \<and>
        fm_error_message input' = fm_error_message input \<and> validateLatency (fm_latency_ms input') = Inr (mr_latency_ms r)))"
proof -
  have step: "ledger_step P st st1" using assms(2) by (rule ledger_step.attempt_finished)
  have reach1: "ledger_reachable P st1" using step by (intro reachable_trans [OF assms(1)] r_into_rtranclp)
  note ok2 = reachable_ledger_ok [OF reachable_trans [OF reach1 assms(3)]]
  from assms(2) obtain latency where run: "if list_ex (running_run ident) (rs_runs st)
         then st1 = st\<lparr>rs_runs := map (\<lambda>r. if running_run ident r
                then finished_row input (fm_usage input) (fm_cost_usd input) latency r else r) (rs_runs st)\<rparr>
         else st1 = st \<and> (\<exists>r. find (\<lambda>r. same_text (mr_id r) ident) (rs_runs st) = Some r \<and>
                isIdenticalTerminal r input (fm_usage input) (fm_cost_usd input) latency)"
    by (rule finishAttempt_Inr)
  obtain r where r: "r \<in> set (rs_runs st1)" "same_text (mr_id r) ident" "mr_status r = js (finish_text (fm_status input))"
    "mr_error_code r = fm_error_code input" "mr_error_message r = fm_error_message input"
  proof (cases "list_ex (running_run ident) (rs_runs st)")
    case True
    then obtain x where x: "x \<in> set (rs_runs st)" "running_run ident x" by (auto simp: list_ex_iff)
    from True run have "st1 = st\<lparr>rs_runs := map (\<lambda>r. if running_run ident r
                then finished_row input (fm_usage input) (fm_cost_usd input) latency r else r) (rs_runs st)\<rparr>" by simp
    with x have "finished_row input (fm_usage input) (fm_cost_usd input) latency x \<in> set (rs_runs st1)" by force
    then show ?thesis using x(2)
      by (intro that [of "finished_row input (fm_usage input) (fm_cost_usd input) latency x"])
        (simp_all add: running_run_def, simp_all add: finished_row_def)
  next
    case False
    with run obtain x where "st1 = st" "find (\<lambda>r. same_text (mr_id r) ident) (rs_runs st) = Some x"
        "isIdenticalTerminal x input (fm_usage input) (fm_cost_usd input) latency" by auto
    then show ?thesis by (intro that [of x]) (auto simp: find_Some_iff isIdenticalTerminal_def)
  qed
  obtain r2 where r2: "r2 \<in> set (rs_runs st2)" "evolves r r2" by (rule extends_row [OF steps_extend [OF assms(3)] r(1)])
  then have same: "r2 = r" using r(3) by (intro evolves_finished) simp_all
  note found = find_by_id [OF ok2 r2(1) [unfolded same] r(2)]
  have none: "\<not> list_ex (running_run ident) (rs_runs st2)"
  proof
    assume "list_ex (running_run ident) (rs_runs st2)"
    then obtain x where x: "x \<in> set (rs_runs st2)" "running_run ident x" by (auto simp: list_ex_iff)
    then have "x = r" using distinct_rows [OF ok2] r2(1) same r(2) same_id_clash by (metis running_run_def)
    with x(2) r(3) show False by (simp add: running_run_def)
  qed
  have "snd (finishAttempt ident input' st2) = st2 \<and> (fst (finishAttempt ident input' st2) = Inr () \<longrightarrow>
      fm_status input' = fm_status input \<and> fm_error_code input' = fm_error_code input \<and>
      fm_error_message input' = fm_error_message input \<and> validateLatency (fm_latency_ms input') = Inr (mr_latency_ms r))" for input'
  proof (cases "finishAttempt ident input' st2")
    case (Pair res st3)
    show ?thesis
    proof (cases res)
      case (Inl e)
      with Pair finishAttempt_Inl show ?thesis by fastforce
    next
      case (Inr u)
      with Pair have "finishAttempt ident input' st2 = (Inr u, st3)" by simp
      then obtain latency where l: "validateLatency (fm_latency_ms input') = Inr latency"
        and st3: "st3 = st2" and same: "isIdenticalTerminal r input' (fm_usage input') (fm_cost_usd input') latency"
        using none found by (auto elim!: finishAttempt_Inr)
      from same have "js (finish_text (fm_status input')) = mr_status r" and fields: "fm_error_code input' = mr_error_code r"
          "fm_error_message input' = mr_error_message r" "latency = mr_latency_ms r"
        by (simp_all add: isIdenticalTerminal_def)
      then have "js (finish_text (fm_status input')) = js (finish_text (fm_status input))" using r(3) by simp
      then have "fm_status input' = fm_status input"
        by (cases "fm_status input'"; cases "fm_status input"; simp)
      with l fields r(4,5) show ?thesis by (simp add: Pair st3)
    qed
  qed
  with r r2(1) same show ?thesis by blast
qed


section \<open>A concrete attempt\<close>

definition demo_key :: jstr where "demo_key = replicate 64 97"

definition demo_start :: StartModelRunInput where
  "demo_start =
     \<lparr>sm_workflow_job_id = js ''job-1'', sm_provider = js ''p'', sm_model = js ''m'', sm_workflow_node = js ''draft'',
      sm_attempt_kind = js ''initial'', sm_generation_attempt = JNum (NInt 1), sm_network_attempt = JNum (NInt 0),
      sm_repair_attempt = JNum (NInt 0), sm_request_metadata = JObj [(js ''response_schema_id'', JStr (js ''draft''))],
      sm_prompt_sha256 = None, sm_operation_key = Some demo_key, sm_request_fingerprint = None\<rparr>"

definition demo_ledger :: run_store where
  "demo_ledger = \<lparr>rs_jobs = [js ''job-1''], rs_runs = []\<rparr>"

lemma demo_ledger_reachable: "ledger_reachable P demo_ledger"
proof -
  have "ledger_step P empty_ledger (empty_ledger\<lparr>rs_jobs := rs_jobs empty_ledger @ [js ''job-1'']\<rparr>)"
    by (rule ledger_step.job_added)
  then have "ledger_step P empty_ledger demo_ledger" by (simp add: empty_ledger_def demo_ledger_def)
  then show ?thesis unfolding ledger_reachable_def by (rule r_into_rtranclp)
qed

lemma demo_started: "\<exists>r st. startAttempt plain_platform (js ''run-1'') demo_start demo_ledger = (Inr r, st)"
proof -
  have key: "is_sha256 demo_key" by (simp add: demo_key_def is_sha256_def lower_hex_def list_all_iff)
  have "metadata_ok plain_platform (sm_request_metadata demo_start)"
    by (simp add: demo_start_def metadata_ok_def metadata_fields_ok_def get_prop_def METADATA_KEYS_def assertFiniteRange_def
        assertPositiveInteger_def assertNonNegativeInteger_def assertOptionalIdentifier_def bounded_identifier_def safe_identifier_def
        identifier_char_def char_class_defs MAX_METADATA_DEPTH_def MAX_METADATA_BYTES_def utf8_length_def utf8_scalar_def
        List.map_filter_def json_quote_def json_escape_wf escape_unit_def short_escape_def js_simps)
  then show ?thesis
    by (simp add: startAttempt_def validateWorkflowNode_def checked_kind_def validateAttemptKind_def validateAttempt_def
        validateNonNegativeAttempt_def integer_from_def MAX_SAFE_INTEGER_def validateRequestMetadata_def validatePromptHash_def
        validateOperationKey_def key bindT_def liftE_def transaction_def readT_def job_known_def demo_ledger_def same_text_def
        next_attempt_def node_runs_def insert_run_def started_run_def columns_fit_def fits_unsigned_def fits_error_def fits_text_def
        characters_def identifier_char_def char_class_defs js_simps demo_start_def)
qed


end
