(* ===== verification/ModelPricing.thy ===== *)
theory ModelPricing
  imports ModelRuns
begin

text \<open>
  The cost of a model call (\<open>llm/model-pricing.ts\<close>): prices are decimal strings in dollars per million
  tokens, the sum over the tokens is exact in integers and is rounded once, to a millionth of a
  dollar.  Providers and models are own keys of the configuration; the names of
  \<open>Object.prototype\<close> are not looked up.  The messages of the exceptions are left out.
\<close>

section \<open>Configuration\<close>

datatype pricing_error = InvalidPricing

record ModelPrice =
  input_per_million_usd :: jstr
  output_per_million_usd :: jstr
  cached_input_per_million_usd :: "jstr option"

type_synonym PricingConfiguration = "(jstr \<times> (jstr \<times> ModelPrice) list) list"

record ModelUsage =
  mu_input_tokens :: nat
  mu_output_tokens :: nat
  mu_cached_input_tokens :: "nat option"

definition isIdentifier :: "jstr \<Rightarrow> bool" where
  "isIdentifier s \<longleftrightarrow> 0 < length s \<and> length s \<le> 100 \<and> list_all identifier_char s"

definition readDecimal :: "(jstr \<times> jsval) list \<Rightarrow> string \<Rightarrow> (pricing_error, jstr) result" where
  "readDecimal kvs key =
     (case get_prop kvs (js key) of JStr raw \<Rightarrow> if is_cost raw then Inr raw else Inl InvalidPricing | _ \<Rightarrow> Inl InvalidPricing)"

definition read_price :: "(jstr \<times> jsval) list \<Rightarrow> (pricing_error, ModelPrice) result" where
  "read_price raw =
     bindE (readDecimal raw ''input_per_million_usd'') (\<lambda>input.
     bindE (readDecimal raw ''output_per_million_usd'') (\<lambda>output.
     bindE (if get_prop raw (js ''cached_input_per_million_usd'') = JUndef then Inr None
            else bindE (readDecimal raw ''cached_input_per_million_usd'') (\<lambda>cached. Inr (Some cached))) (\<lambda>cached.
     Inr \<lparr>input_per_million_usd = input, output_per_million_usd = output, cached_input_per_million_usd = cached\<rparr>)))"

definition read_model :: "jstr \<times> jsval \<Rightarrow> (pricing_error, jstr \<times> ModelPrice) result" where
  "read_model kv =
     (case snd kv of
        JObj raw \<Rightarrow>
          if isIdentifier (fst kv) then bindE (read_price raw) (\<lambda>price. Inr (fst kv, price)) else Inl InvalidPricing
      | _ \<Rightarrow> Inl InvalidPricing)"

definition read_provider :: "jstr \<times> jsval \<Rightarrow> (pricing_error, jstr \<times> (jstr \<times> ModelPrice) list) result" where
  "read_provider kv =
     (case snd kv of
        JObj models \<Rightarrow>
          if isIdentifier (fst kv) then bindE (mapE read_model models) (\<lambda>prices. Inr (fst kv, prices)) else Inl InvalidPricing
      | _ \<Rightarrow> Inl InvalidPricing)"

definition parsePricing :: "platform \<Rightarrow> jstr \<Rightarrow> (pricing_error, PricingConfiguration) result" where
  "parsePricing P value =
     (case json_parse P value of Some (JObj providers) \<Rightarrow> mapE read_provider providers | _ \<Rightarrow> Inl InvalidPricing)"

section \<open>Cost\<close>

text \<open>\<open>const [whole, fraction = ''] = decimal.split('.')\<close>\<close>

definition whole_part :: "jstr \<Rightarrow> jstr" where
  "whole_part s = takeWhile (\<lambda>c. c \<noteq> 46) s"

definition fraction_part :: "jstr \<Rightarrow> jstr" where
  "fraction_part s = takeWhile (\<lambda>c. c \<noteq> 46) (drop 1 (dropWhile (\<lambda>c. c \<noteq> 46) s))"

definition parsePrice :: "jstr \<Rightarrow> nat" where
  "parsePrice decimal =
     digits_value 0 (whole_part decimal) * 1000000 +
     digits_value 0 (fraction_part decimal @ replicate (6 - length (fraction_part decimal)) 48)"

definition roundScaledMicroUsd :: "nat \<Rightarrow> nat" where
  "roundScaledMicroUsd v = (v * 2 + 1000000) div 2000000"

definition formatMicroUsd :: "nat \<Rightarrow> jstr" where
  "formatMicroUsd v =
     dec_nat (v div 1000000) @ 46 # pad_zeros 6 (v mod 1000000)"

definition cached_tokens :: "ModelPrice \<Rightarrow> ModelUsage \<Rightarrow> nat" where
  "cached_tokens price usage =
     (if cached_input_per_million_usd price \<noteq> None
      then min (case mu_cached_input_tokens usage of None \<Rightarrow> 0 | Some n \<Rightarrow> n) (mu_input_tokens usage) else 0)"

definition scaled_cost :: "ModelPrice \<Rightarrow> ModelUsage \<Rightarrow> nat" where
  "scaled_cost price usage =
     (mu_input_tokens usage - cached_tokens price usage) * parsePrice (input_per_million_usd price) +
     mu_output_tokens usage * parsePrice (output_per_million_usd price) +
     (case cached_input_per_million_usd price of
        Some cached \<Rightarrow> if 0 < cached_tokens price usage then cached_tokens price usage * parsePrice cached else 0
      | None \<Rightarrow> 0)"

definition price_of :: "PricingConfiguration \<Rightarrow> jstr \<Rightarrow> jstr \<Rightarrow> ModelPrice option" where
  "price_of prices provider model =
     (case map_of prices provider of None \<Rightarrow> None | Some models \<Rightarrow> map_of models model)"

definition calculate :: "PricingConfiguration \<Rightarrow> jstr \<Rightarrow> jstr \<Rightarrow> ModelUsage option \<Rightarrow> jstr option" where
  "calculate prices provider model usage =
     (case usage of
        None \<Rightarrow> None
      | Some u \<Rightarrow>
          (case price_of prices provider model of
             None \<Rightarrow> None
           | Some price \<Rightarrow> Some (formatMicroUsd (roundScaledMicroUsd (scaled_cost price u)))))"

section \<open>What a cost is worth\<close>

text \<open>The number that a decimal writes, and the dollars that a call costs before any rounding.\<close>

definition decimal_value :: "jstr \<Rightarrow> rat" where
  "decimal_value s =
     of_nat (digits_value 0 (whole_part s)) + of_nat (digits_value 0 (fraction_part s)) / 10 ^ length (fraction_part s)"

definition exact_cost :: "ModelPrice \<Rightarrow> ModelUsage \<Rightarrow> rat" where
  "exact_cost price usage =
     (of_nat (mu_input_tokens usage - cached_tokens price usage) * decimal_value (input_per_million_usd price) +
      of_nat (cached_tokens price usage) *
        (case cached_input_per_million_usd price of None \<Rightarrow> 0 | Some cached \<Rightarrow> decimal_value cached) +
      of_nat (mu_output_tokens usage) * decimal_value (output_per_million_usd price)) / 1000000"

lemma digits_value_zeros: "digits_value a (s @ replicate n 48) = digits_value a s * 10 ^ n"
  by (induction n) (simp_all add: replicate_append_same [symmetric] digits_value_snoc flip: append_assoc)

lemma digits_value_leading: "digits_value 0 (replicate n 48 @ s) = digits_value 0 s"
  by (induction n) simp_all

lemma split_at_point:
  "dropWhile is_digit s = [] \<or> hd (dropWhile is_digit s) = 46 \<Longrightarrow>
     takeWhile (\<lambda>c. c \<noteq> 46) s = takeWhile is_digit s \<and> dropWhile (\<lambda>c. c \<noteq> 46) s = dropWhile is_digit s"
  by (induction s) (auto simp: is_digit_def split: if_splits)

lemma takeWhile_digits: "list_all is_digit d \<Longrightarrow> takeWhile (\<lambda>c. c \<noteq> 46) d = d"
  by (auto simp: takeWhile_eq_all_conv list_all_iff is_digit_def)

lemma is_cost_parts:
  assumes "is_cost s"
  shows "list_all is_digit (fraction_part s)" and "length (fraction_part s) \<le> 6"
proof -
  let ?rest = "dropWhile is_digit s"
  from assms have rest: "?rest = [] \<or> (hd ?rest = 46 \<and> length (tl ?rest) \<le> 6 \<and> list_all is_digit (tl ?rest))"
    by (auto simp: is_cost_def Let_def)
  with split_at_point [of s] have "fraction_part s = takeWhile (\<lambda>c. c \<noteq> 46) (tl ?rest)"
    by (auto simp: fraction_part_def drop_Suc)
  with rest have "fraction_part s = tl ?rest" by (metis list.sel(2) takeWhile.simps(1) takeWhile_digits)
  with rest show "list_all is_digit (fraction_part s)" "length (fraction_part s) \<le> 6" by (metis list.pred_inject(1) list.sel(2) list.size(3) zero_le)+
qed

lemma parsePrice_value: "is_cost s \<Longrightarrow> decimal_value s = of_nat (parsePrice s) / 1000000"
proof -
  assume "is_cost s"
  let ?f = "fraction_part s"
  have short: "length ?f \<le> 6" using is_cost_parts(2) [OF \<open>is_cost s\<close>] .
  then have "(10::rat) ^ length ?f * 10 ^ (6 - length ?f) = 1000000" by (simp flip: power_add)
  then have "of_nat (digits_value 0 ?f) / (10::rat) ^ length ?f = of_nat (digits_value 0 ?f * 10 ^ (6 - length ?f)) / 1000000"
    by (simp add: field_simps)
  then show ?thesis by (simp add: decimal_value_def parsePrice_def digits_value_zeros add_divide_distrib)
qed

lemma exact_cost_scaled:
  assumes "is_cost (input_per_million_usd price)" and "is_cost (output_per_million_usd price)"
    and "pred_option is_cost (cached_input_per_million_usd price)"
  shows "exact_cost price usage * 1000000 = of_nat (scaled_cost price usage) / 1000000"
proof (cases "cached_input_per_million_usd price")
  case None
  then show ?thesis using assms by (simp add: exact_cost_def scaled_cost_def cached_tokens_def parsePrice_value field_simps)
next
  case (Some c)
  then show ?thesis using assms by (simp add: exact_cost_def scaled_cost_def parsePrice_value field_simps)
qed

lemma rounded_half_up:
  "(of_nat (roundScaledMicroUsd v) :: rat) = of_int \<lfloor>of_nat v / 1000000 + 1 / (2::rat)\<rfloor>"
proof -
  have "(of_nat v / 1000000 + 1 / (2::rat)) = of_nat (v * 2 + 1000000) / of_nat 2000000" by (simp add: field_simps)
  also have "\<lfloor>\<dots>\<rfloor> = int ((v * 2 + 1000000) div 2000000)" by (rule floor_divide_of_nat_eq)
  finally show ?thesis by (simp add: roundScaledMicroUsd_def)
qed


lemma micro_fraction:
  "length (pad_zeros 6 (v mod 1000000)) = 6" "list_all is_digit (pad_zeros 6 (v mod 1000000))"
  "digits_value 0 (pad_zeros 6 (v mod 1000000)) = v mod 1000000"
proof -
  have "v mod 1000000 < 10 ^ 6" by simp
  from length_dec_nat [OF this] show "length (pad_zeros 6 (v mod 1000000)) = 6" by (simp add: pad_zeros_def)
  show "list_all is_digit (pad_zeros 6 (v mod 1000000))"
    using dec_nat_digits by (auto simp: pad_zeros_def list_all_iff is_digit_def)
  show "digits_value 0 (pad_zeros 6 (v mod 1000000)) = v mod 1000000"
    by (simp add: pad_zeros_def digits_value_leading)
qed

lemma formatted_micro:
  "takeWhile is_digit (formatMicroUsd v) = dec_nat (v div 1000000)"
  "dropWhile is_digit (formatMicroUsd v) = 46 # pad_zeros 6 (v mod 1000000)"
proof -
  have "\<forall>c \<in> set (dec_nat (v div 1000000)). is_digit c" by (rule dec_nat_digits)
  then show "takeWhile is_digit (formatMicroUsd v) = dec_nat (v div 1000000)"
      "dropWhile is_digit (formatMicroUsd v) = 46 # pad_zeros 6 (v mod 1000000)"
    by (simp_all add: formatMicroUsd_def is_digit_def)
qed

lemma formatted_value: "decimal_value (formatMicroUsd v) = of_nat v / 1000000"
proof -
  note split = split_at_point [of "formatMicroUsd v", unfolded formatted_micro]
  have parts: "whole_part (formatMicroUsd v) = dec_nat (v div 1000000)"
      "fraction_part (formatMicroUsd v) = pad_zeros 6 (v mod 1000000)"
    using split takeWhile_digits [OF micro_fraction(2)] by (simp_all add: whole_part_def fraction_part_def)
  have "of_nat v = (of_nat (v div 1000000) * 1000000 + of_nat (v mod 1000000) :: rat)"
    by (metis div_mult_mod_eq of_nat_add of_nat_mult of_nat_numeral)
  then show ?thesis by (simp add: decimal_value_def parts micro_fraction add_divide_distrib)
qed

lemma formatted_column: "decimal_column (formatMicroUsd v) = formatMicroUsd v"
  by (simp add: decimal_column_def formatted_micro micro_fraction) (simp add: formatMicroUsd_def)

lemma formatted_valid:
  assumes "v < 10 ^ 12"
  shows "is_cost (formatMicroUsd v)"
proof -
  have "v div 1000000 < 10 ^ 6" using assms by (simp add: less_mult_imp_div_less)
  from length_dec_nat [OF this] have "length (dec_nat (v div 1000000)) \<le> 6" by simp
  moreover have "dec_nat (v div 1000000) = [48] \<or> hd (dec_nat (v div 1000000)) \<noteq> 48"
    using dec_nat_head [of "v div 1000000"] by (cases "v div 1000000 = 0") auto
  ultimately show ?thesis
    using micro_fraction [of v] by (auto simp: is_cost_def Let_def formatted_micro)
qed

lemma parsed_prices:
  assumes "parsePricing P text = Inr prices" and "price_of prices provider model = Some price"
  shows "is_cost (input_per_million_usd price) \<and> is_cost (output_per_million_usd price) \<and>
    pred_option is_cost (cached_input_per_million_usd price)"
proof -
  from assms(1) obtain providers where "mapE read_provider providers = Inr prices"
    by (auto simp: parsePricing_def split: option.splits jsval.splits)
  moreover from assms(2) obtain models where models: "(provider, models) \<in> set prices" "(model, price) \<in> set models"
    by (auto simp: price_of_def split: option.splits dest!: map_of_SomeD)
  ultimately obtain kv where "read_provider kv = Inr (provider, models)" by (blast elim: mapE_set)
  then obtain raw where "mapE read_model raw = Inr models"
    by (auto simp: read_provider_def split: jsval.splits if_splits)
  with models(2) obtain kv where "read_model kv = Inr (model, price)" by (blast elim: mapE_set)
  then obtain raw where "read_price raw = Inr price"
    by (auto simp: read_model_def split: jsval.splits if_splits)
  then show ?thesis
    by (auto simp: read_price_def readDecimal_def split: jsval.splits if_splits)
qed

text \<open>
  The cost of a call under a configuration the program accepts is the exact sum of its tokens
  at the configured prices, cached input tokens at their own price where there is one, rounded half
  up to a millionth of a dollar; it is written so that the decimal column gives it back unchanged,
  and below a million dollars the ledger accepts it.
\<close>

theorem cost_rounded_half_up:
  assumes "parsePricing P text = Inr prices" and "calculate prices provider model (Some usage) = Some cost"
  shows "\<exists>price. price_of prices provider model = Some price \<and>
      decimal_value cost = of_int \<lfloor>exact_cost price usage * 1000000 + 1 / 2\<rfloor> / 1000000 \<and>
      decimal_column cost = cost \<and> (decimal_value cost < 1000000 \<longrightarrow> validateCost (Some cost) = Inr (Some cost))"
proof -
  from assms(2) obtain price where price: "price_of prices provider model = Some price"
      and cost: "cost = formatMicroUsd (roundScaledMicroUsd (scaled_cost price usage))"
    by (auto simp: calculate_def split: option.splits)
  let ?v = "roundScaledMicroUsd (scaled_cost price usage)"
  have "decimal_value cost = of_int \<lfloor>exact_cost price usage * 1000000 + 1 / 2\<rfloor> / 1000000"
    using parsed_prices [OF assms(1) price] by (simp only: exact_cost_scaled cost formatted_value rounded_half_up)
  moreover have "validateCost (Some cost) = Inr (Some cost)" if "decimal_value cost < 1000000"
  proof -
    from that have "(of_nat ?v :: rat) < of_nat (10 ^ 12)" by (simp add: cost formatted_value)
    then have "?v < 10 ^ 12" by (simp only: of_nat_less_iff)
    then show ?thesis using formatted_valid by (simp add: validateCost_def cost)
  qed
  ultimately show ?thesis using price by (auto simp: cost formatted_column)
qed


text \<open>One token at half a dollar per million costs half a millionth of a dollar, which is rounded up.\<close>

definition sample_pricing :: jsval where
  "sample_pricing =
     JObj [(js ''p'', JObj [(js ''m'', JObj [(js ''input_per_million_usd'', JStr (js ''0.5'')),
       (js ''output_per_million_usd'', JStr (js ''2''))])])]"

definition pricing_platform :: platform where
  "pricing_platform = plain_platform\<lparr>json_parse := (\<lambda>_. Some sample_pricing)\<rparr>"

definition sample_price :: ModelPrice where
  "sample_price = \<lparr>input_per_million_usd = js ''0.5'', output_per_million_usd = js ''2'', cached_input_per_million_usd = None\<rparr>"

definition one_token :: ModelUsage where
  "one_token = \<lparr>mu_input_tokens = 1, mu_output_tokens = 0, mu_cached_input_tokens = None\<rparr>"

lemma sample_parsed: "parsePricing pricing_platform [] = Inr [(js ''p'', [(js ''m'', sample_price)])]"
  by (simp add: parsePricing_def pricing_platform_def sample_pricing_def read_provider_def read_model_def read_price_def readDecimal_def
      isIdentifier_def identifier_char_def is_cost_def get_prop_def sample_price_def char_class_defs js_simps Let_def)

lemma sample_cost: "calculate [(js ''p'', [(js ''m'', sample_price)])] (js ''p'') (js ''m'') (Some one_token) = Some (js ''0.000001'')"
proof -
  have "parsePrice (js ''0.5'') = 500000"
    by (simp add: parsePrice_def whole_part_def fraction_part_def js_simps digits_value_zeros flip: append_Cons)
  then have rounded: "roundScaledMicroUsd (scaled_cost sample_price one_token) = 1"
    by (simp add: roundScaledMicroUsd_def scaled_cost_def cached_tokens_def sample_price_def one_token_def)
  have zeros: "replicate 5 x = [x, x, x, x, x]" for x :: nat by (simp add: eval_nat_numeral)
  have "dec_nat 1 = [49]" by (subst dec_nat.simps) simp
  then have "pad_zeros 6 1 = [48, 48, 48, 48, 48, 49]" by (simp add: pad_zeros_def zeros)
  then have "formatMicroUsd 1 = js ''0.000001''" by (simp add: formatMicroUsd_def js_simps)
  with rounded show ?thesis by (simp add: calculate_def price_of_def)
qed

theorem cost_rounded_half_up_witness:
  "decimal_value (js ''0.000001'') = of_int \<lfloor>exact_cost sample_price one_token * 1000000 + 1 / 2\<rfloor> / 1000000 \<and>
     decimal_column (js ''0.000001'') = js ''0.000001''"
  using cost_rounded_half_up [OF sample_parsed sample_cost] by (simp add: price_of_def)

end
