(* ===== verification/Spec2Isabelle.thy ===== *)
theory Spec2Isabelle
  imports StorageOperation WorkflowStreamRuns WorkflowRecovery GroundedDraftSchema FixedDecimalProps RenderContextProps
    AtomicCoordinatorProps TargetedRevision ChunkerStructure ModelRunProps ModelPricing
begin

text \<open>
  A verification development of the write-agent backend (\<open>src/backend/src\<close>), a service that
  writes documents with a language model as long-running jobs and grounds every claim of a
  document in evidence.

  \<^bold>\<open>How the parts interact.\<close>  A client creates a job through the workflow service; a job is a row
  with a status, a lease, a fencing token and an event log.  Workers claim jobs, run the engine
  on them and write progress through the execution store, whose every write is fenced by the
  token of the claim.  Each call of the model is a row of a ledger, started under an operation key and
  finished with its usage and cost.  Recovery and dispatch deliver waiting jobs to the workers; the event
  stream shows a job's log to its owner.  A model proposes drafts as JSON; the parser of
  grounded drafts closes them, the verifier recomputes each claim with the quantity lexer and
  compares it with its evidence, the renderer prints the allowed drafts under the headings of the
  approved render context, and sealing puts output, claims, evidence and digests in one envelope,
  which recovery checks again; the coordinator runs these steps and the failure policy turns a
  refusal into the job's next state.  Digests and
  idempotency keys are taken over canonical JSON, and blobs are named by storage keys.  The evidence comes from
  uploaded documents, which the chunker cuts into the pieces that retrieval finds.

  \<^bold>\<open>Conventions.\<close>  A string is the list of its UTF-16 code units (\<open>JsString\<close>); an unknown
  value is a \<open>jsval\<close> (\<open>JsValue\<close>); a call that may throw returns a sum, \<open>Inl\<close> the
  exception (\<open>Prelude\<close>); a database transaction is a state-passing function that rolls its
  state back when it throws.  What the program uses of the platform and of third-party packages
  (Unicode normalization and classes, SHA-256, \<open>JSON.parse\<close>, number printing, the job queue, the task
  executor) is a parameter of the definitions; what is relied on of normalization is the
  predicate \<open>unicode_normalizer\<close>.

  \<^bold>\<open>The theories.\<close>
  \<^item> \<open>Prelude\<close>, \<open>JsString\<close>, \<open>Unicode\<close>, \<open>Patterns\<close>, \<open>JsValue\<close>, \<open>JsonText\<close>: results, transactions, strings,
    UTF-8 and UTF-16, the closed regular expressions, values, \<open>JSON.stringify\<close>, dates.
  \<^item> \<open>CanonicalJson\<close> (\<open>canonical-json.ts\<close>): the serializer computes exactly the normal form, so equal
    bytes mean equal values up to key order, NFC, minus zero and undefined properties.
  \<^item> \<open>StorageKey\<close>, \<open>StorageOperation\<close> (\<open>storage/\<close>): parser and printer of keys are inverse, decimals are
    64-bit, an idempotency key identifies its operation up to a SHA-256 collision.
  \<^item> \<open>AtomicFailure\<close> (\<open>failure-policy.ts\<close>), \<open>AuthoringRollout\<close> (\<open>authoring-rollout.ts\<close>): what each refusal leads
    to; which jobs get deterministic authoring, and that a stored selection is restored.
  \<^item> \<open>WorkflowTypes\<close>, \<open>WorkflowDb\<close>, \<open>WorkflowStore\<close>, \<open>WorkflowService\<close> (\<open>workflow/\<close>): the tables and every operation of the
    store (claim, progress, completion, suspension, failure, revision assignment, control) and of
    the service (create, list, find, stop, resume, retry, events).  \<open>RequestHash\<close>: what the hash of a creation
    request identifies.  \<open>AuthoringApproval\<close> (\<open>authoring-proposal.service.ts\<close>): the approval, which queues a job again.
  \<^item> \<open>WorkflowFence\<close>: the locale \<open>fenced_writer\<close>, the contract of a fenced write, interpreted on the four
    writers of the store.  \<open>WorkflowSystem\<close>: the step relation of all clients and workers, reachability and
    its invariant; the poll of a worker is two steps, and the deletion of a project with its jobs is not a step.  \<open>WorkflowProperties\<close>, \<open>WorkflowOutcomes\<close>: single writer, monotone history, terminal
    states, gapless event log, cancellation, outcomes of failures, replay, idempotent creation.
  \<^item> \<open>WorkflowEngine\<close>: the worker's run and its monitor, one awaited call at a time.  \<open>WorkerProtocol\<close>: the abstract
    worker, which claims, stores what its task emitted, settles once as the task returned or records the failure, and its
    place in the system.  \<open>WorkflowEngineProps\<close>: the run under any interleaving refines the protocol; it leaves no live job
    behind; within six ticks of its main loop a run of a stopped job returns.  \<open>WorkflowEventStream\<close>: the server-sent
    stream; \<open>WorkflowRecovery\<close>: the recovery scan and the dispatch of triggers.
  \<^item> \<open>WorkflowRuns\<close>, \<open>WorkflowEngineRuns\<close>, \<open>WorkflowStreamRuns\<close>: concrete runs, the witnesses of the above.
  \<^item> \<open>AtomicContracts\<close>, \<open>GroundedDraft\<close> (\<open>contracts.ts\<close>, \<open>grounded-draft.schema.ts\<close>): the data of a draft and its parser;
    \<open>GroundedDraftProps\<close>, \<open>GroundedDraftRoundtrip\<close>, \<open>GroundedDraftSchema\<close>: the contract of a parsed draft, the round trip through
    JSON and the agreement with the JSON schema sent to the model.
  \<^item> \<open>AtomicRenderer\<close>, \<open>AtomicRendererProps\<close> (\<open>atomic-renderer.ts\<close>): the renderer; every claim is where the result says, and
    no text forges a paragraph marker.
  \<^item> \<open>Regexp\<close>, \<open>FixedDecimal\<close>, \<open>QuantityLexer\<close> (\<open>quantity-lexer.ts\<close>): the regular
    expressions of the lexer, exact decimals, units and the scan; \<open>FixedDecimalProps\<close>: equal printed decimals are equal
    numbers; \<open>QuantityLexerProps\<close>: the quantities found are ordered, disjoint, cut from the text, and the scan ends.
  \<^item> \<open>AtomRecompute\<close>, \<open>AtomicVerifier\<close>, \<open>AtomicVerifierProps\<close> (\<open>atomic-grounding.verifier.ts\<close>): what the verifier recomputes
    and compares; an allowed draft has only supported claims.
  \<^item> \<open>RenderContext\<close>, \<open>RenderContextProps\<close> (\<open>approved-render-context.service.ts\<close>): how the context is built and checked; a
    checked context is accepted again.
  \<^item> \<open>SealedCandidate\<close>, \<open>SealedRecovery\<close> (\<open>sealed-grounded-candidate.ts\<close>): the envelope, sealing, the check of a targeted
    revision, the parser of checkpoints and recovery; \<open>SealedProps\<close>, \<open>SealedSupport\<close>, \<open>CheckpointRoundtrip\<close>, \<open>SealedDemo\<close>: what a
    seal has computed, that what is sealed is grounded, that the parts of a checkpoint read back, a concrete candidate.
  \<^item> \<open>AtomicMetrics\<close> (\<open>atomic-grounding.metrics.ts\<close>), \<open>AtomicCoordinator\<close>
    (\<open>atomic-grounding-coordinator.service.ts\<close>): the metric points and their exporter; generation, revision and recovery.
  \<^item> \<open>RenderedText\<close>: a rendered text is in NFC, for a normalization that acts locally between the characters the renderer puts
    around each claim.  \<open>SealedRoundtrip\<close>, \<open>SealedReplay\<close>, \<open>AtomicCoordinatorProps\<close>: a stored envelope reads back, verifies and seals again; what a
    generation sealed is what its recovery returns.  The platform is there a \<open>durable_platform\<close> (normalization as
    Unicode defines it, digests and numbers printed as strings of that kind), the services around are \<open>collaborators_ok\<close> (contexts
    that passed their check, snapshots that are objects, proposals of code units); each has an instance on the concrete candidate of \<open>SealedDemo\<close>.
    \<open>TargetedRevision\<close>: a revision that passes its check keeps fragments, order and every claim it was not asked to change.
  \<^item> \<open>Chunker\<close> (\<open>chunk/chunker.ts\<close>): the cutting of an ingested document, plain or structured.  \<open>ChunkerProps\<close>: no visible
    character of a section is lost, chunks are bounded; \<open>ChunkerTokens\<close>, \<open>ChunkerStructure\<close>: children stand at their offsets under a
    parent that holds their block, and hold every token of it, for Unicode classes in which white space is no letter.
  \<^item> \<open>ModelRuns\<close> (\<open>model-run.service.ts\<close>): the ledger of model calls.  \<open>ModelRunProps\<close>: attempts are numbered without a gap,
    a finished one is final, an operation key is recorded once, the metadata holds no text.  \<open>ModelPricing\<close>
    (\<open>model-pricing.ts\<close>): a cost is the exact sum of the prices, rounded once.
  \<^item> \<open>GroundingRead\<close> (\<open>grounding-read-policy.ts\<close>): which stored verdicts are shown as supported.

  \<^bold>\<open>Bounds.\<close>  No definition runs on fuel: loops are recursions on their data, and the concurrent
  parts are driven by an explicit schedule, a list of steps, over which the theorems quantify.
  Times are natural numbers, microseconds in the rows of the database, tokens and counters natural numbers; the limits of
  the code (4 MiB per proposal, 1000 bytes per claim, 500 claims, 2000 fragments, 100 jobs per
  scan) are the constants of the model.

  \<^bold>\<open>Not modelled.\<close>  The model gateway and its providers, the content pipeline and the authoring graph behind the task executor,
  the commit of a result, the storing of proposals, the deletion of projects, the legacy grounding verifier, the evidence store, files and their
  parsers, retrieval, export, the HTTP controllers, the migrations and the frontend: I/O,
  third-party formats, floating-point scores, or parts planned for later.  Timers, heartbeats,
  back-pressure and logging are left out of the parts that are modelled.
\<close>

end
